(* ===== verification/GoPrelude.thy ===== *)
theory GoPrelude
  imports Main "HOL-Library.Word" "HOL-Library.Finite_Map" "HOL-Library.List_Lexorder"
    "HOL-Library.Char_ord" "HOL-Library.Monad_Syntax"
begin

text \<open>
  Shared vocabulary of the development.

  \<^item> Go's \<open>int\<close> and \<open>int64\<close> are \<open>int\<close> values kept in range by \<open>i64\<close>, the two's complement
    wrap-around of a 64-bit register, applied after every arithmetic operation of the
    source; \<open>go_quo\<close> is Go's division, which truncates towards zero.
  \<^item> Go's \<open>uint64\<close> is \<open>64 word\<close>.
  \<^item> Go's maps are finite maps (\<open>fmap\<close>); \<open>mget\<close> is the lookup that returns the zero
    value for a missing key and \<open>mhas\<close> the two-value lookup's second result.
  \<^item> \<open>'a go\<close> is the result of code that may stop with a run-time panic (\<open>None\<close>).
  \<^item> Go strings and byte slices are both \<open>string\<close>: lists of bytes.
\<close>

named_theorems go_arith \<open>wrap-around arithmetic on machine integers\<close>
named_theorems go_map \<open>lookups and totals of finite maps\<close>

type_synonym bytes = string
type_synonym 'a go = "'a option"
type_synonym ('k, 'v) gomap = "('k, 'v) fmap"
type_synonym u64 = "64 word"

section \<open>Machine integers\<close>

definition in_i64 :: "int \<Rightarrow> bool" where
  "in_i64 x \<longleftrightarrow> - (2 ^ 63) \<le> x \<and> x < 2 ^ 63"

definition i64 :: "int \<Rightarrow> int" where
  "i64 x = (x + 2 ^ 63) mod 2 ^ 64 - 2 ^ 63"

lemma i64_range [simp]: "in_i64 (i64 x)"
proof -
  have "0 \<le> (x + 2 ^ 63) mod 2 ^ 64" and "(x + 2 ^ 63) mod 2 ^ 64 < (2 ^ 64 :: int)"
    by simp_all
  then show ?thesis by (simp add: in_i64_def i64_def)
qed

lemma i64_id [go_arith]: "in_i64 x \<Longrightarrow> i64 x = x"
  by (simp add: in_i64_def i64_def)

lemma i64_idem [simp]: "i64 (i64 x) = i64 x"
  by (simp add: i64_id)

lemma i64_nonneg_le: "0 \<le> x \<Longrightarrow> i64 x \<le> x"
proof -
  assume "0 \<le> x"
  then have "(x + 2 ^ 63) mod 2 ^ 64 \<le> x + 2 ^ 63"
    by (intro zmod_le_nonneg_dividend) simp
  then show ?thesis by (simp add: i64_def)
qed

lemma i64_small [go_arith]: "0 \<le> x \<Longrightarrow> x < 2 ^ 63 \<Longrightarrow> i64 x = x"
  by (rule i64_id) (simp add: in_i64_def)

lemma i64_add_left: "i64 (i64 x + y) = i64 (x + y)"
proof -
  have "i64 x + y + 2 ^ 63 = (x + 2 ^ 63) mod 2 ^ 64 + y"
    by (simp add: i64_def)
  then have "(i64 x + y + 2 ^ 63) mod 2 ^ 64 = ((x + 2 ^ 63) + y) mod 2 ^ 64"
    by (simp only: mod_add_left_eq)
  then show ?thesis by (simp add: i64_def algebra_simps)
qed

text \<open>Crediting back what was debited restores the value, whatever wraps on the way.\<close>

lemma i64_sub_add [go_arith]: "in_i64 x \<Longrightarrow> i64 (i64 (x - y) + y) = x"
  by (simp add: i64_add_left i64_id)

lemma i64_cong: "i64 x mod 2 ^ 64 = x mod 2 ^ 64"
  by (simp add: i64_def mod_diff_left_eq)

lemma int_div_le: "0 \<le> a \<Longrightarrow> 0 < b \<Longrightarrow> a div b \<le> (a :: int)"
  by (metis div_by_1 zdiv_mono2 zero_less_one int_one_le_iff_zero_less)

lemma int_div_mult_le: "0 < b \<Longrightarrow> a div b * b \<le> (a :: int)"
  using pos_mod_sign [of b a] div_mult_mod_eq [of a b] by linarith

definition go_quo :: "int \<Rightarrow> int \<Rightarrow> int" where
  "go_quo a b = i64 (sgn a * sgn b * (\<bar>a\<bar> div \<bar>b\<bar>))"

lemma go_quo_pos [go_arith]:
  assumes "0 \<le> a" and "0 < b" and "a < 2 ^ 63"
  shows "go_quo a b = a div b"
proof -
  have "a div b \<le> a" using assms(1,2) by (rule int_div_le)
  moreover have "0 \<le> a div b" using assms by (simp add: pos_imp_zdiv_nonneg_iff)
  ultimately have "i64 (a div b) = a div b"
    using assms by (intro i64_small) auto
  then show ?thesis
    using assms by (cases "a = 0") (simp_all add: go_quo_def i64_def)
qed

lemma go_quo_nonneg: "0 \<le> a \<Longrightarrow> 0 < b \<Longrightarrow> a < 2 ^ 63 \<Longrightarrow> 0 \<le> go_quo a b"
  by (simp add: go_quo_pos pos_imp_zdiv_nonneg_iff)

section \<open>Maps\<close>

definition mget :: "'v \<Rightarrow> ('k, 'v) gomap \<Rightarrow> 'k \<Rightarrow> 'v" where
  "mget d m k = (case fmlookup m k of None \<Rightarrow> d | Some v \<Rightarrow> v)"

definition mhas :: "('k, 'v) gomap \<Rightarrow> 'k \<Rightarrow> bool" where
  "mhas m k \<longleftrightarrow> fmlookup m k \<noteq> None"

lemma mget_empty [simp, go_map]: "mget d fmempty k = d"
  by (simp add: mget_def)

lemma mget_fmupd [simp, go_map]: "mget d (fmupd a v m) k = (if a = k then v else mget d m k)"
  by (simp add: mget_def)

lemma mhas_empty [simp, go_map]: "\<not> mhas fmempty k"
  by (simp add: mhas_def)

lemma mhas_fmupd [simp, go_map]: "mhas (fmupd a v m) k \<longleftrightarrow> a = k \<or> mhas m k"
  by (simp add: mhas_def)

lemma mhas_fmdrop [simp, go_map]: "mhas (fmdrop a m) k \<longleftrightarrow> a \<noteq> k \<and> mhas m k"
  by (simp add: mhas_def)

lemma mget_fmdrop [simp, go_map]: "mget d (fmdrop a m) k = (if a = k then d else mget d m k)"
  by (simp add: mget_def)

lemma mhas_mget: "mhas m k \<Longrightarrow> fmlookup m k = Some (mget d m k)"
  by (auto simp: mhas_def mget_def)

lemma mget_lookup: "fmlookup m k = Some v \<Longrightarrow> mget d m k = v"
  by (simp add: mget_def)

lemma mhas_iff_dom: "mhas m k \<longleftrightarrow> k |\<in>| fmdom m"
  by (auto simp: mhas_def fmlookup_dom_iff)

text \<open>
  The keys of a map, as a list. The order is one of the orders in which a Go \<open>range\<close> may
  visit them; where it matters to the result the model takes the order as an argument.
\<close>

definition mkeys :: "('k::linorder, 'v) gomap \<Rightarrow> 'k list" where
  "mkeys m = sorted_list_of_fset (fmdom m)"

lemma set_mkeys [simp, go_map]: "set (mkeys m) = fset (fmdom m)"
  by (simp add: mkeys_def)

lemma distinct_mkeys [simp, go_map]: "distinct (mkeys m)"
  by (simp add: mkeys_def sorted_list_of_fset.rep_eq)

lemma mkeys_empty [simp, go_map]: "mkeys fmempty = []"
  by (simp add: mkeys_def sorted_list_of_fset.rep_eq)

text \<open>An order in which a range loop may visit a map: every key once.\<close>

definition visits :: "'k list \<Rightarrow> ('k, 'v) gomap \<Rightarrow> bool" where
  "visits order m \<longleftrightarrow> distinct order \<and> set order = fset (fmdom m)"

lemma visits_mkeys [simp]: "visits (mkeys m) m"
  by (simp add: visits_def)

text \<open>The total of an integer-valued map.\<close>

definition msum :: "('k, int) gomap \<Rightarrow> int" where
  "msum m = (\<Sum>k \<in> fset (fmdom m). mget 0 m k)"

lemma msum_empty [simp, go_map]: "msum fmempty = 0"
  by (simp add: msum_def)

lemma msum_superset:
  assumes "finite A" and "fset (fmdom m) \<subseteq> A"
  shows "msum m = (\<Sum>k \<in> A. mget 0 m k)"
  unfolding msum_def
  by (rule sum.mono_neutral_left) (use assms in \<open>auto simp: mget_def fmdom_notD split: option.splits\<close>)

lemma msum_fmupd [simp, go_map]: "msum (fmupd k v m) = msum m - mget 0 m k + v"
proof -
  let ?A = "insert k (fset (fmdom m))"
  have "msum (fmupd k v m) = (\<Sum>j \<in> ?A. mget 0 (fmupd k v m) j)"
    by (rule msum_superset) auto
  also have "\<dots> = v + (\<Sum>j \<in> ?A - {k}. mget 0 (fmupd k v m) j)"
    by (subst sum.remove [of ?A k]) simp_all
  also have "(\<Sum>j \<in> ?A - {k}. mget 0 (fmupd k v m) j) = (\<Sum>j \<in> ?A - {k}. mget 0 m j)"
    by (rule sum.cong) auto
  also have "(\<Sum>j \<in> ?A - {k}. mget 0 m j) = (\<Sum>j \<in> ?A. mget 0 m j) - mget 0 m k"
    by (simp add: sum.remove [of ?A k])
  also have "(\<Sum>j \<in> ?A. mget 0 m j) = msum m"
    by (rule msum_superset [symmetric]) auto
  finally show ?thesis by simp
qed

definition nonneg_map :: "('k, int) gomap \<Rightarrow> bool" where
  "nonneg_map m \<longleftrightarrow> (\<forall>k. 0 \<le> mget 0 m k)"

lemma nonneg_mapD: "nonneg_map m \<Longrightarrow> 0 \<le> mget 0 m k"
  by (simp add: nonneg_map_def)

lemma nonneg_map_empty [simp]: "nonneg_map fmempty"
  by (simp add: nonneg_map_def)

lemma nonneg_map_fmupd: "nonneg_map m \<Longrightarrow> 0 \<le> v \<Longrightarrow> nonneg_map (fmupd k v m)"
  by (simp add: nonneg_map_def)

lemma msum_ge: "nonneg_map m \<Longrightarrow> mget 0 m k \<le> msum m"
proof (cases "k |\<in>| fmdom m")
  case True
  assume "nonneg_map m"
  with True show ?thesis
    unfolding msum_def by (intro member_le_sum) (auto dest: nonneg_mapD)
next
  case False
  assume "nonneg_map m"
  then have "0 \<le> msum m" by (auto simp: msum_def intro: sum_nonneg dest: nonneg_mapD)
  with False show ?thesis by (simp add: mget_def fmdom_notD)
qed

section \<open>Fuel-free search in lists\<close>

lemma option_bind_eq_Some [simp]:
  "Option.bind m f = Some y \<longleftrightarrow> (\<exists>x. m = Some x \<and> f x = Some y)"
  by (auto simp: Option.bind_eq_Some_conv)

end
