(* ===== verification/GoText.thy ===== *)
theory GoText
  imports GoPrelude
begin

text \<open>
  The part of Go's \<open>strings\<close>, \<open>strconv\<close> and \<open>encoding/base64\<close> packages the sources use,
  on byte strings. Case mapping, folding and white space are those of ASCII: bytes from
  128 on are left alone (Go maps the letters of other scripts too). Shown: the
  normalisers are idempotent, decimal printing and parsing and base64 encoding and
  decoding are inverse, and which lengths base64 can decode.
\<close>

named_theorems text_norm \<open>normalised strings\<close>

named_theorems go_eval \<open>evaluation of text operations on literals\<close>

section \<open>Characters\<close>

lemma bit_one_nat [go_eval]: "bit (Suc 0) 0"
  by (simp add: bit_0)

lemmas char_of_eval [go_eval] = char_of_def [where 'a = nat]

definition lower_char :: "char \<Rightarrow> char" where
  "lower_char c = (let n = of_char c :: nat in if 65 \<le> n \<and> n \<le> 90 then char_of (n + 32) else c)"

definition upper_char :: "char \<Rightarrow> char" where
  "upper_char c = (let n = of_char c :: nat in if 97 \<le> n \<and> n \<le> 122 then char_of (n - 32) else c)"

definition is_space :: "char \<Rightarrow> bool" where
  "is_space c \<longleftrightarrow> (let n = of_char c :: nat in n = 32 \<or> 9 \<le> n \<and> n \<le> 13)"

lemma lower_char_of: "(of_char (lower_char c) :: nat) =
    (let n = of_char c in if 65 \<le> n \<and> n \<le> 90 then n + 32 else n)"
  by (simp add: lower_char_def Let_def)

lemma upper_char_of: "(of_char (upper_char c) :: nat) =
    (let n = of_char c in if 97 \<le> n \<and> n \<le> 122 then n - 32 else n)"
proof -
  have "(of_char c :: nat) - 32 < 256"
    using nat_of_char_less_256 [of c] by linarith
  then show ?thesis by (simp add: upper_char_def Let_def)
qed

lemma lower_char_idem [simp, text_norm]: "lower_char (lower_char c) = lower_char c"
proof -
  have "\<not> (65 \<le> (of_char (lower_char c) :: nat) \<and> (of_char (lower_char c) :: nat) \<le> 90)"
    by (simp add: lower_char_of Let_def)
  then show ?thesis by (auto simp: lower_char_def [of "lower_char c"] Let_def)
qed

lemma upper_char_idem [simp, text_norm]: "upper_char (upper_char c) = upper_char c"
proof -
  have "\<not> (97 \<le> (of_char (upper_char c) :: nat) \<and> (of_char (upper_char c) :: nat) \<le> 122)"
    by (simp add: upper_char_of Let_def) linarith
  then show ?thesis by (auto simp: upper_char_def [of "upper_char c"] Let_def)
qed

lemma is_space_lower [simp, text_norm]: "is_space (lower_char c) = is_space c"
  by (simp add: is_space_def lower_char_of Let_def)

lemma is_space_upper [simp, text_norm]: "is_space (upper_char c) = is_space c"
  by (simp add: is_space_def upper_char_of Let_def) linarith

section \<open>The strings package\<close>

definition ToLower :: "string \<Rightarrow> string" where
  "ToLower s = map lower_char s"

definition ToUpper :: "string \<Rightarrow> string" where
  "ToUpper s = map upper_char s"

definition TrimSpace :: "string \<Rightarrow> string" where
  "TrimSpace s = rev (dropWhile is_space (rev (dropWhile is_space s)))"

definition HasPrefix :: "string \<Rightarrow> string \<Rightarrow> bool" where
  "HasPrefix s p \<longleftrightarrow> take (length p) s = p"

definition TrimPrefix :: "string \<Rightarrow> string \<Rightarrow> string" where
  "TrimPrefix s p = (if HasPrefix s p then drop (length p) s else s)"

definition EqualFold :: "string \<Rightarrow> string \<Rightarrow> bool" where
  "EqualFold s t \<longleftrightarrow> ToLower s = ToLower t"

text \<open>\<open>strings.ReplaceAll\<close> and \<open>strings.Split\<close>, for one-byte patterns and separators.\<close>

definition ReplaceAll :: "string \<Rightarrow> char \<Rightarrow> char \<Rightarrow> string" where
  "ReplaceAll s a b = map (\<lambda>c. if c = a then b else c) s"

fun Split :: "string \<Rightarrow> char \<Rightarrow> string list" where
  "Split [] sep = [[]]"
| "Split (c # s) sep =
     (if c = sep then [] # Split s sep
      else (case Split s sep of [] \<Rightarrow> [[c]] | w # ws \<Rightarrow> (c # w) # ws))"

fun Join :: "string list \<Rightarrow> string \<Rightarrow> string" where
  "Join [] sep = []"
| "Join [w] sep = w"
| "Join (w # ws) sep = w @ sep @ Join ws sep"

lemma ToLower_idem [simp, text_norm]: "ToLower (ToLower s) = ToLower s"
  by (simp add: ToLower_def)

lemma ToUpper_idem [simp, text_norm]: "ToUpper (ToUpper s) = ToUpper s"
  by (simp add: ToUpper_def)

lemma ToLower_Nil [simp]: "ToLower s = [] \<longleftrightarrow> s = []"
  by (simp add: ToLower_def)

lemma ToUpper_Nil [simp]: "ToUpper s = [] \<longleftrightarrow> s = []"
  by (simp add: ToUpper_def)

lemma EqualFold_refl [simp]: "EqualFold s s"
  by (simp add: EqualFold_def)

lemma EqualFold_lower [simp]: "EqualFold (ToLower s) t = EqualFold s t"
  "EqualFold s (ToLower t) = EqualFold s t"
  by (simp_all add: EqualFold_def)

text \<open>A string has no surrounding space exactly when trimming leaves it alone.\<close>

definition trimmed :: "string \<Rightarrow> bool" where
  "trimmed s \<longleftrightarrow> s = [] \<or> \<not> is_space (hd s) \<and> \<not> is_space (last s)"

lemma trimmed_TrimSpace_id [simp, text_norm]: "trimmed s \<Longrightarrow> TrimSpace s = s"
  by (cases "s = []") (simp_all add: trimmed_def TrimSpace_def dropWhile_eq_self_iff [THEN iffD2] hd_rev)

lemma trimmed_TrimSpace [simp, text_norm]: "trimmed (TrimSpace s)"
proof (cases "TrimSpace s = []")
  case True
  then show ?thesis by (simp add: trimmed_def)
next
  case False
  let ?t = "dropWhile is_space s"
  let ?r = "dropWhile is_space (rev ?t)"
  have ne: "?r \<noteq> []" using False by (simp add: TrimSpace_def)
  then have "\<not> is_space (hd ?r)" by (rule hd_dropWhile)
  moreover have "\<not> is_space (last ?r)"
  proof -
    obtain us where us: "rev ?t = us @ ?r"
      by (metis takeWhile_dropWhile_id)
    have "?t \<noteq> []" using ne by force
    then have "\<not> is_space (hd ?t)" by (rule hd_dropWhile)
    moreover have "hd ?t = last (rev ?t)" using \<open>?t \<noteq> []\<close> by (simp add: last_rev)
    moreover have "last (rev ?t) = last ?r" using us ne by (metis last_append)
    ultimately show ?thesis by simp
  qed
  ultimately show ?thesis using ne by (simp add: trimmed_def TrimSpace_def hd_rev last_rev)
qed

lemma TrimSpace_idem [simp, text_norm]: "TrimSpace (TrimSpace s) = TrimSpace s"
  by simp

lemma trimmed_map [simp, text_norm]:
  "(\<And>c. is_space (f c) = is_space c) \<Longrightarrow> trimmed (map f s) = trimmed s"
  by (cases "s = []") (auto simp: trimmed_def hd_map last_map)

lemma trimmed_ToUpper [simp, text_norm]: "trimmed (ToUpper s) = trimmed s"
  by (simp add: ToUpper_def)

lemma trimmed_ToLower [simp, text_norm]: "trimmed (ToLower s) = trimmed s"
  by (simp add: ToLower_def)

lemma Split_not_Nil [simp]: "Split s sep \<noteq> []"
  by (cases s) (auto split: list.splits)

lemma Split_no_sep: "sep \<notin> set s \<Longrightarrow> Split s sep = [s]"
  by (induction s) auto

lemma Split_append:
  "sep \<notin> set w \<Longrightarrow> Split (w @ sep # s) sep = w # Split s sep"
  by (induction w) auto

lemma Join_Split: "Join (Split s sep) [sep] = s"
proof (induction s sep rule: Split.induct)
  case (1 sep)
  show ?case by simp
next
  case (2 c s sep)
  obtain w ws where w: "Split s sep = w # ws"
    by (cases "Split s sep") auto
  show ?case
  proof (cases "c = sep")
    case True
    with 2 w show ?thesis by simp
  next
    case False
    with 2 w show ?thesis by (cases ws) simp_all
  qed
qed

section \<open>Decimal numbers: the strconv package\<close>

definition digit_char :: "nat \<Rightarrow> char" where
  "digit_char d = char_of (48 + d)"

definition is_digit :: "char \<Rightarrow> bool" where
  "is_digit c \<longleftrightarrow> (let n = of_char c :: nat in 48 \<le> n \<and> n \<le> 57)"

definition digit_val :: "char \<Rightarrow> nat" where
  "digit_val c = of_char c - 48"

fun nat_digits :: "nat \<Rightarrow> string" where
  "nat_digits n = (if n < 10 then [digit_char n] else nat_digits (n div 10) @ [digit_char (n mod 10)])"

declare nat_digits.simps [simp del]

definition Itoa :: "int \<Rightarrow> string" where
  "Itoa i = (if i < 0 then CHR ''-'' # nat_digits (nat (- i)) else nat_digits (nat i))"

definition digits_val :: "string \<Rightarrow> nat" where
  "digits_val s = foldl (\<lambda>a c. 10 * a + digit_val c) 0 s"

text \<open>\<open>strconv.ParseInt(s, 10, 64)\<close>, which \<open>strconv.Atoi\<close> agrees with on 64-bit machines.\<close>

definition ParseInt :: "string \<Rightarrow> int option" where
  "ParseInt s =
     (let (neg, ds) = (case s of c # t \<Rightarrow> if c = CHR ''-'' then (True, t)
                                          else if c = CHR ''+'' then (False, t) else (False, s)
                       | [] \<Rightarrow> (False, s))
      in if ds = [] \<or> \<not> list_all is_digit ds then None
         else let v = (if neg then - int (digits_val ds) else int (digits_val ds))
              in if in_i64 v then Some v else None)"

text \<open>\<open>strconv.ParseUint(s, 10, 64)\<close>.\<close>

definition ParseUint :: "string \<Rightarrow> u64 option" where
  "ParseUint s = (if s = [] \<or> \<not> list_all is_digit s then None
                  else if digits_val s < 2 ^ 64 then Some (of_nat (digits_val s)) else None)"

abbreviation Atoi :: "string \<Rightarrow> int option" where
  "Atoi \<equiv> ParseInt"

lemma is_digit_digit_char [simp]: "d < 10 \<Longrightarrow> is_digit (digit_char d)"
  by (simp add: is_digit_def digit_char_def)

lemma digit_val_digit_char [simp]: "d < 10 \<Longrightarrow> digit_val (digit_char d) = d"
  by (simp add: digit_val_def digit_char_def)

lemma nat_digits_not_Nil [simp]: "nat_digits n \<noteq> []"
  by (subst nat_digits.simps) simp

lemma nat_digits_all: "list_all is_digit (nat_digits n)"
proof (induction n rule: nat_digits.induct)
  case (1 n)
  then show ?case by (subst nat_digits.simps) simp
qed

lemma digits_val_nat_digits [simp]: "digits_val (nat_digits n) = n"
proof (induction n rule: nat_digits.induct)
  case (1 n)
  show ?case
  proof (cases "n < 10")
    case True
    then show ?thesis by (subst nat_digits.simps) (simp add: digits_val_def)
  next
    case False
    with 1 have "digits_val (nat_digits (n div 10)) = n div 10" by simp
    with False show ?thesis
      by (subst nat_digits.simps) (simp add: digits_val_def)
  qed
qed

lemma nat_digits_hd: "is_digit (hd (nat_digits n))"
  using nat_digits_all [of n] by (cases "nat_digits n") simp_all

lemma ParseInt_digits:
  assumes "list_all is_digit ds" and "ds \<noteq> []" and "in_i64 (int (digits_val ds))"
  shows "ParseInt ds = Some (int (digits_val ds))"
proof -
  obtain c t where ds: "ds = c # t" using assms(2) by (cases ds) auto
  have "c \<noteq> CHR ''-''" and "c \<noteq> CHR ''+''"
    using assms(1) ds by (auto simp: is_digit_def Let_def)
  then show ?thesis using assms by (simp add: ParseInt_def ds)
qed

lemma ParseInt_Itoa [simp]: "in_i64 i \<Longrightarrow> ParseInt (Itoa i) = Some i"
proof (cases "i < 0")
  case True
  assume "in_i64 i"
  with True show ?thesis
    by (simp add: Itoa_def ParseInt_def nat_digits_all)
next
  case False
  assume "in_i64 i"
  with False show ?thesis
    by (simp add: Itoa_def ParseInt_digits nat_digits_all)
qed

lemma unat_lt2p_64: "unat (w :: u64) < 2 ^ 64"
  using unsigned_less [of w] by simp

lemma ParseUint_digits [simp]: "ParseUint (nat_digits (unat (w :: u64))) = Some w"
  using unat_lt2p_64 [of w] by (simp add: ParseUint_def nat_digits_all)

lemma Itoa_not_Nil [simp]: "Itoa i \<noteq> []"
  by (simp add: Itoa_def)

lemma nat_digits_inj [simp]: "nat_digits m = nat_digits n \<longleftrightarrow> m = n"
  by (metis digits_val_nat_digits)

lemma Itoa_inj [simp]: "Itoa i = Itoa j \<longleftrightarrow> i = j"
proof
  assume eq: "Itoa i = Itoa j"
  have nd: "nat_digits n \<noteq> CHR ''-'' # t" for n t
    using nat_digits_hd [of n] by (auto simp: is_digit_def Let_def)
  show "i = j"
    using eq nd [of "nat i"] nd [of "nat j"]
    by (auto simp: Itoa_def split: if_splits) (metis nd)
qed simp

section \<open>Base 64: the StdEncoding of encoding/base64\<close>

text \<open>The alphabet: \<open>A\<close> to \<open>Z\<close>, \<open>a\<close> to \<open>z\<close>, \<open>0\<close> to \<open>9\<close>, \<open>+\<close> and \<open>/\<close>.\<close>

definition b64_char :: "nat \<Rightarrow> char" where
  "b64_char n =
     (if n < 26 then char_of (65 + n) else if n < 52 then char_of (71 + n)
      else if n < 62 then char_of (n - 4) else if n = 62 then CHR ''+'' else CHR ''/'')"

definition b64_val :: "char \<Rightarrow> nat option" where
  "b64_val c =
     (let n = of_char c :: nat in
      if 65 \<le> n \<and> n \<le> 90 then Some (n - 65)
      else if 97 \<le> n \<and> n \<le> 122 then Some (n - 71)
      else if 48 \<le> n \<and> n \<le> 57 then Some (n + 4)
      else if n = 43 then Some 62
      else if n = 47 then Some 63 else None)"

fun b64_encode :: "bytes \<Rightarrow> string" where
  "b64_encode [] = []"
| "b64_encode [x] =
     (let a = of_char x :: nat in [b64_char (a div 4), b64_char (a mod 4 * 16), CHR ''='', CHR ''=''])"
| "b64_encode [x, y] =
     (let a = of_char x :: nat; b = of_char y
      in [b64_char (a div 4), b64_char (a mod 4 * 16 + b div 16), b64_char (b mod 16 * 4), CHR ''=''])"
| "b64_encode (x # y # z # s) =
     (let a = of_char x :: nat; b = of_char y; c = of_char z
      in [b64_char (a div 4), b64_char (a mod 4 * 16 + b div 16),
          b64_char (b mod 16 * 4 + c div 64), b64_char (c mod 64)] @ b64_encode s)"

text \<open>
  Decoding: line breaks are skipped, the last quantum is padded with \<open>=\<close>, and the unused
  bits of a padded quantum are not checked (the encoding is not strict).
\<close>

fun b64_quads :: "string \<Rightarrow> bytes option" where
  "b64_quads [] = Some []"
| "b64_quads (p # q # r # t # s) =
     (case (b64_val p, b64_val q) of
        (Some a, Some b) \<Rightarrow>
          (if r = CHR ''='' then
             (if t = CHR ''='' \<and> s = [] then Some [char_of (a * 4 + b div 16)] else None)
           else (case b64_val r of
               None \<Rightarrow> None
             | Some c \<Rightarrow>
                 (if t = CHR ''='' then
                    (if s = [] then Some [char_of (a * 4 + b div 16), char_of (b mod 16 * 16 + c div 4)]
                     else None)
                  else (case b64_val t of
                      None \<Rightarrow> None
                    | Some d \<Rightarrow>
                        map_option (\<lambda>out. [char_of (a * 4 + b div 16), char_of (b mod 16 * 16 + c div 4),
                            char_of (c mod 4 * 64 + d)] @ out) (b64_quads s)))))
      | _ \<Rightarrow> None)"
| "b64_quads _ = None"

definition b64_decode :: "string \<Rightarrow> bytes option" where
  "b64_decode s = b64_quads (filter (\<lambda>c. c \<noteq> CHR 0x0A \<and> c \<noteq> CHR 0x0D) s)"

lemma b64_val_char [simp]: "n < 64 \<Longrightarrow> b64_val (b64_char n) = Some n"
  by (auto simp: b64_val_def b64_char_def Let_def)

lemma b64_char_special [simp]:
  assumes "n < 64"
  shows "b64_char n \<noteq> CHR ''=''" and "b64_char n \<noteq> CHR 0x0A" and "b64_char n \<noteq> CHR 0x0D"
  using b64_val_char [OF assms] by (auto simp: b64_val_def)

lemma b64_bounds [simp]:
  "(of_char x :: nat) div 4 < 64" "(of_char x :: nat) mod 4 * 16 < 64"
  "(of_char x :: nat) mod 4 * 16 + of_char y div 16 < 64"
  "(of_char y :: nat) mod 16 * 4 < 64" "(of_char y :: nat) mod 16 * 4 + of_char z div 64 < 64"
  using nat_of_char_less_256 [of x] nat_of_char_less_256 [of y] nat_of_char_less_256 [of z]
  by linarith+

lemma of_char_div [simp]:
  "(of_char x :: nat) div 16 div 16 = 0" "(of_char x :: nat) div 16 mod 16 = of_char x div 16"
  "(of_char x :: nat) div 64 div 4 = 0" "(of_char x :: nat) div 64 mod 4 = of_char x div 64"
proof -
  have "(of_char x :: nat) div 16 < 16" and "(of_char x :: nat) div 64 < 4"
    using nat_of_char_less_256 [of x] by linarith+
  then show "(of_char x :: nat) div 16 div 16 = 0"
    and "(of_char x :: nat) div 16 mod 16 = of_char x div 16"
    and "(of_char x :: nat) div 64 div 4 = 0"
    and "(of_char x :: nat) div 64 mod 4 = of_char x div 64"
    by simp_all
qed

lemma b64_quads_encode: "b64_quads (b64_encode s) = Some s"
  by (induction s rule: b64_encode.induct) (simp_all add: Let_def)

lemma b64_encode_no_newline:
  "set (b64_encode s) \<inter> {CHR 0x0A, CHR 0x0D} = {}"
  by (induction s rule: b64_encode.induct) (auto simp: Let_def dest: sym)

lemma b64_decode_encode [simp]: "b64_decode (b64_encode s) = Some s"
proof -
  have "filter (\<lambda>c. c \<noteq> CHR 0x0A \<and> c \<noteq> CHR 0x0D) (b64_encode s) = b64_encode s"
    using b64_encode_no_newline [of s] by (auto simp: filter_id_conv)
  then show ?thesis by (simp add: b64_decode_def b64_quads_encode)
qed

lemma b64_encode_inj [simp]: "b64_encode s = b64_encode t \<longleftrightarrow> s = t"
  by (metis b64_decode_encode option.inject)

lemma b64_encode_Nil [simp]: "b64_encode s = [] \<longleftrightarrow> s = []"
  by (cases s rule: b64_encode.cases) (simp_all add: Let_def)

lemma b64_quads_length: "b64_quads s = Some out \<Longrightarrow> length s mod 4 = 0"
  by (induction s arbitrary: out rule: b64_quads.induct)
    (auto split: option.splits if_splits)

text \<open>
  A string of hexadecimal-address length is never base64: an Ethereum-style account name
  (42 characters, no line breaks) cannot be mistaken for a native one.
\<close>

lemma b64_decode_length:
  assumes "b64_decode s = Some out" and "CHR 0x0A \<notin> set s" and "CHR 0x0D \<notin> set s"
  shows "length s mod 4 = 0"
proof -
  have "filter (\<lambda>c. c \<noteq> CHR 0x0A \<and> c \<noteq> CHR 0x0D) s = s"
    using assms(2,3) by (auto simp: filter_id_conv)
  with assms(1) show ?thesis by (simp add: b64_decode_def b64_quads_length)
qed

section \<open>Hexadecimal: encoding/hex and the percent-x verb\<close>

definition hex_char :: "nat \<Rightarrow> char" where
  "hex_char n = (if n < 10 then char_of (48 + n) else char_of (87 + n))"

definition hex_val :: "char \<Rightarrow> nat option" where
  "hex_val c =
     (let n = of_char c :: nat in
      if 48 \<le> n \<and> n \<le> 57 then Some (n - 48)
      else if 97 \<le> n \<and> n \<le> 102 then Some (n - 87)
      else if 65 \<le> n \<and> n \<le> 70 then Some (n - 55) else None)"

definition hex_encode :: "bytes \<Rightarrow> string" where
  "hex_encode s = concat (map (\<lambda>c. [hex_char (of_char c div 16), hex_char (of_char c mod 16)]) s)"

fun hex_decode :: "string \<Rightarrow> bytes option" where
  "hex_decode [] = Some []"
| "hex_decode [_] = None"
| "hex_decode (p # q # s) =
     (case (hex_val p, hex_val q) of
        (Some a, Some b) \<Rightarrow> map_option (\<lambda>out. char_of (a * 16 + b) # out) (hex_decode s)
      | _ \<Rightarrow> None)"

lemma hex_val_char [simp]: "n < 16 \<Longrightarrow> hex_val (hex_char n) = Some n"
  by (simp add: hex_val_def hex_char_def)

lemma hex_decode_encode [simp]: "hex_decode (hex_encode s) = Some s"
proof (induction s)
  case Nil
  then show ?case by (simp add: hex_encode_def)
next
  case (Cons c s)
  have "(of_char c :: nat) div 16 < 16" using nat_of_char_less_256 [of c] by linarith
  with Cons show ?case by (simp add: hex_encode_def)
qed

lemmas text_eval [go_eval] =
  ToLower_def ToUpper_def TrimSpace_def HasPrefix_def TrimPrefix_def EqualFold_def
  ReplaceAll_def lower_char_def upper_char_def is_space_def
  Itoa_def nat_digits.simps digit_char_def ParseInt_def ParseUint_def digits_val_def digit_val_def is_digit_def
  b64_char_def b64_val_def b64_decode_def hex_char_def hex_val_def hex_encode_def

text \<open>Base64 text has no colon, so it is never taken for the signature of an EVM transaction.\<close>

lemma b64_char_colon: "n < 64 \<Longrightarrow> b64_char n \<noteq> CHR '':''"
proof
  assume "n < 64" "b64_char n = CHR '':''"
  then have "b64_val (CHR '':'') = Some n" by (metis b64_val_char)
  then show False by (simp add: b64_val_def)
qed

lemma b64_no_colon: "CHR '':'' \<notin> set (b64_encode s)"
  by (induction s rule: b64_encode.induct) (simp_all add: Let_def b64_char_colon b64_char_colon [THEN not_sym])

lemma b64_not_evm: "\<not> HasPrefix (b64_encode s) ''evm:''"
proof
  assume "HasPrefix (b64_encode s) ''evm:''"
  then have "CHR '':'' \<in> set (take (length ''evm:'') (b64_encode s))" unfolding HasPrefix_def by (simp only: list.set insert_iff) simp
  then show False using b64_no_colon [of s] by (meson in_set_takeD)
qed

end
