(* ===== verification/GoJson.thy ===== *)
theory GoJson
  imports GoText
begin

text \<open>
  The part of \<open>encoding/json\<close> the sources use: value trees, \<open>json.Marshal\<close> (compact, with
  HTML escaping and invalid UTF-8 replaced), and the parser behind \<open>json.Unmarshal\<close> (RFC
  8259 syntax, unquoting with surrogate pairs, the nesting limit), followed by the
  decoding of scalars into a destination, where \<open>null\<close> leaves the destination alone and a
  mismatch is an error (\<open>None\<close>). Shown: what \<open>Marshal\<close> prints, the parser reads back, on
  trees whose strings are ASCII.
\<close>

datatype json = JNull | JBool bool | JNum string | JStr string
  | JArr "json list" | JObj "(string \<times> json) list"

section \<open>UTF-8\<close>

text \<open>The number of bytes of the first rune, 0 where the bytes are not valid UTF-8.\<close>

definition cont_byte :: "nat \<Rightarrow> nat \<Rightarrow> char \<Rightarrow> bool" where
  "cont_byte lo hi c \<longleftrightarrow> (let n = of_char c in lo \<le> n \<and> n \<le> hi)"

definition utf8_size :: "string \<Rightarrow> nat" where
  "utf8_size s = (case s of [] \<Rightarrow> 0 | c # t \<Rightarrow>
     (let n = of_char c :: nat;
          lo = (if n = 224 then 160 else if n = 240 then 144 else 128);
          hi = (if n = 237 then 159 else if n = 244 then 143 else 191)
      in if n < 128 then 1
         else if 194 \<le> n \<and> n \<le> 223 then
           (case t of x # _ \<Rightarrow> if cont_byte 128 191 x then 2 else 0 | _ \<Rightarrow> 0)
         else if 224 \<le> n \<and> n \<le> 239 then
           (case t of x # y # _ \<Rightarrow> if cont_byte lo hi x \<and> cont_byte 128 191 y then 3 else 0 | _ \<Rightarrow> 0)
         else if 240 \<le> n \<and> n \<le> 244 then
           (case t of x # y # z # _ \<Rightarrow>
              if cont_byte lo hi x \<and> cont_byte 128 191 y \<and> cont_byte 128 191 z then 4 else 0
            | _ \<Rightarrow> 0)
         else 0))"

definition utf8_encode :: "nat \<Rightarrow> string" where
  "utf8_encode r =
     (if r < 128 then [char_of r]
      else if r < 2048 then [char_of (192 + r div 64), char_of (128 + r mod 64)]
      else if r < 65536 then [char_of (224 + r div 4096), char_of (128 + r div 64 mod 64), char_of (128 + r mod 64)]
      else [char_of (240 + r div 262144), char_of (128 + r div 4096 mod 64),
            char_of (128 + r div 64 mod 64), char_of (128 + r mod 64)])"

definition rune_error :: string where
  "rune_error = [CHR 0xEF, CHR 0xBF, CHR 0xBD]"

section \<open>Marshal\<close>

definition backslash :: char where "backslash = CHR 0x5C"

definition quote :: char where "quote = CHR 0x22"

definition hex4 :: "nat \<Rightarrow> string" where
  "hex4 n = [hex_char (n div 4096 mod 16), hex_char (n div 256 mod 16), hex_char (n div 16 mod 16), hex_char (n mod 16)]"

definition escape_ascii :: "char \<Rightarrow> string" where
  "escape_ascii c =
     (let n = of_char c :: nat in
      if n = 34 then [backslash, quote]
      else if n = 92 then [backslash, backslash]
      else if n = 8 then [backslash, CHR ''b'']
      else if n = 12 then [backslash, CHR ''f'']
      else if n = 10 then [backslash, CHR ''n'']
      else if n = 13 then [backslash, CHR ''r'']
      else if n = 9 then [backslash, CHR ''t'']
      else if n < 32 \<or> n = 60 \<or> n = 62 \<or> n = 38 then [backslash, CHR ''u''] @ hex4 n
      else [c])"

function escape_string :: "string \<Rightarrow> string" where
  "escape_string [] = []"
| "escape_string (c # s) =
     (if (of_char c :: nat) < 128 then escape_ascii c @ escape_string s
      else let k = utf8_size (c # s) in
        if k = 0 then [backslash, CHR ''u''] @ hex4 65533 @ escape_string s
        else if take 3 (c # s) = [CHR 0xE2, CHR 0x80, CHR 0xA8] then [backslash, CHR ''u''] @ hex4 8232 @ escape_string (drop 2 s)
        else if take 3 (c # s) = [CHR 0xE2, CHR 0x80, CHR 0xA9] then [backslash, CHR ''u''] @ hex4 8233 @ escape_string (drop 2 s)
        else take k (c # s) @ escape_string (drop (k - 1) s))"
  by pat_completeness auto
termination by (relation "measure length") auto

definition marshal_string :: "string \<Rightarrow> string" where
  "marshal_string s = quote # escape_string s @ [quote]"

fun json_marshal :: "json \<Rightarrow> string"
  and json_elems :: "json list \<Rightarrow> string"
  and json_members :: "(string \<times> json) list \<Rightarrow> string" where
  "json_marshal JNull = ''null''"
| "json_marshal (JBool b) = (if b then ''true'' else ''false'')"
| "json_marshal (JNum n) = n"
| "json_marshal (JStr s) = marshal_string s"
| "json_marshal (JArr vs) = CHR ''['' # json_elems vs @ '']''"
| "json_marshal (JObj ms) = CHR ''{'' # json_members ms @ ''}''"
| "json_elems [] = []"
| "json_elems (v # vs) = json_marshal v @ (if vs = [] then [] else CHR '','' # json_elems vs)"
| "json_members [] = []"
| "json_members ((k, v) # ms) =
     marshal_string k @ CHR '':'' # json_marshal v @ (if ms = [] then [] else CHR '','' # json_members ms)"

text \<open>\<open>json.Marshal\<close> of a \<open>[]string\<close>, the form every signed message takes.\<close>

definition marshal_strings :: "string list \<Rightarrow> bytes" where
  "marshal_strings ws = json_marshal (JArr (map JStr ws))"

section \<open>The parser\<close>

definition is_ws :: "char \<Rightarrow> bool" where
  "is_ws c \<longleftrightarrow> (let n = of_char c :: nat in n = 32 \<or> n = 9 \<or> n = 10 \<or> n = 13)"

definition skip_ws :: "string \<Rightarrow> string" where
  "skip_ws s = dropWhile is_ws s"

definition hex4_val :: "string \<Rightarrow> (nat \<times> string) option" where
  "hex4_val s = (case s of
      a # b # c # d # t \<Rightarrow>
        (case (hex_val a, hex_val b, hex_val c, hex_val d) of
           (Some w, Some x, Some y, Some z) \<Rightarrow> Some (w * 4096 + x * 256 + y * 16 + z, t)
         | _ \<Rightarrow> None)
    | _ \<Rightarrow> None)"

text \<open>An escape, after its backslash: the bytes it stands for and the rest of the input.\<close>

definition unescape :: "string \<Rightarrow> (string \<times> string) option" where
  "unescape s = (case s of [] \<Rightarrow> None | c # t \<Rightarrow>
     (if c = quote \<or> c = backslash \<or> c = CHR ''/'' then Some ([c], t)
      else if c = CHR ''b'' then Some ([CHR 0x08], t)
      else if c = CHR ''f'' then Some ([CHR 0x0C], t)
      else if c = CHR ''n'' then Some ([CHR 0x0A], t)
      else if c = CHR ''r'' then Some ([CHR 0x0D], t)
      else if c = CHR ''t'' then Some ([CHR 0x09], t)
      else if c = CHR ''u'' then
        (case hex4_val t of
           None \<Rightarrow> None
         | Some (r, t') \<Rightarrow>
             (if 55296 \<le> r \<and> r < 57344 then
                (case t' of
                   x # y # t'' \<Rightarrow>
                     (if x = backslash \<and> y = CHR ''u'' then
                        (case hex4_val t'' of
                           Some (q, t''') \<Rightarrow>
                             (if r < 56320 \<and> 56320 \<le> q \<and> q < 57344
                              then Some (utf8_encode (65536 + (r - 55296) * 1024 + (q - 56320)), t''')
                              else Some (rune_error, t'))
                         | None \<Rightarrow> Some (rune_error, t'))
                      else Some (rune_error, t'))
                 | _ \<Rightarrow> Some (rune_error, t'))
              else Some (utf8_encode r, t')))
      else None))"

text \<open>
  The body of a string literal up to its closing quote, one unit of fuel per character or
  escape. The input's length is enough fuel, since every step consumes input.
\<close>

fun parse_string :: "nat \<Rightarrow> string \<Rightarrow> (string \<times> string) option" where
  "parse_string 0 s = None"
| "parse_string (Suc f) [] = None"
| "parse_string (Suc f) (c # s) =
     (if c = quote then Some ([], s)
      else if c = backslash then
        (case unescape s of None \<Rightarrow> None
         | Some (w, s') \<Rightarrow> map_option (\<lambda>(out, r). (w @ out, r)) (parse_string f s'))
      else if (of_char c :: nat) < 32 then None
      else if (of_char c :: nat) < 128 then map_option (\<lambda>(out, r). (c # out, r)) (parse_string f s)
      else let k = utf8_size (c # s) in
        if k = 0 then map_option (\<lambda>(out, r). (rune_error @ out, r)) (parse_string f s)
        else map_option (\<lambda>(out, r). (take k (c # s) @ out, r)) (parse_string f (drop (k - 1) s)))"

text \<open>Number literals: an optional sign, an integer part, a fraction and an exponent.\<close>

definition parse_digits :: "string \<Rightarrow> (string \<times> string) option" where
  "parse_digits s = (if takeWhile is_digit s = [] then None
                     else Some (takeWhile is_digit s, dropWhile is_digit s))"

definition parse_int_part :: "string \<Rightarrow> (string \<times> string) option" where
  "parse_int_part s = (case s of [] \<Rightarrow> None | c # t \<Rightarrow>
     (if c = CHR ''0'' then Some (''0'', t) else parse_digits s))"

definition parse_frac :: "string \<Rightarrow> (string \<times> string) option" where
  "parse_frac s = (case s of [] \<Rightarrow> Some ([], []) | c # t \<Rightarrow>
     (if c = CHR ''.'' then map_option (\<lambda>(ds, r). (c # ds, r)) (parse_digits t) else Some ([], s)))"

definition parse_exp :: "string \<Rightarrow> (string \<times> string) option" where
  "parse_exp s = (case s of [] \<Rightarrow> Some ([], []) | c # t \<Rightarrow>
     (if c = CHR ''e'' \<or> c = CHR ''E'' then
        (case t of
           x # t' \<Rightarrow> (if x = CHR ''+'' \<or> x = CHR ''-''
                      then map_option (\<lambda>(ds, r). (c # x # ds, r)) (parse_digits t')
                      else map_option (\<lambda>(ds, r). (c # ds, r)) (parse_digits t))
         | [] \<Rightarrow> None)
      else Some ([], s)))"

definition parse_number :: "string \<Rightarrow> (string \<times> string) option" where
  "parse_number s = do {
     let (sign, s) = (case s of c # t \<Rightarrow> (if c = CHR ''-'' then ([c], t) else ([], s)) | [] \<Rightarrow> ([], s));
     (i, s) \<leftarrow> parse_int_part s;
     (f, s) \<leftarrow> parse_frac s;
     (e, s) \<leftarrow> parse_exp s;
     Some (sign @ i @ f @ e, s)
   }"

definition max_depth :: nat where "max_depth = 10000"

text \<open>
  Values, the elements of an array and the members of an object, each call with one unit
  of fuel less. Every call but one consumes a character, so twice the length is enough.
\<close>

fun parse_value :: "nat \<Rightarrow> nat \<Rightarrow> string \<Rightarrow> (json \<times> string) option"
  and parse_elems :: "nat \<Rightarrow> nat \<Rightarrow> string \<Rightarrow> (json list \<times> string) option"
  and parse_members :: "nat \<Rightarrow> nat \<Rightarrow> string \<Rightarrow> ((string \<times> json) list \<times> string) option" where
  "parse_value 0 d s = None"
| "parse_value (Suc f) d s =
     (case skip_ws s of [] \<Rightarrow> None | c # t \<Rightarrow>
        (if c = quote then map_option (\<lambda>(w, r). (JStr w, r)) (parse_string (Suc (length t)) t)
         else if c = CHR ''{'' then
           (if max_depth \<le> d then None
            else (case skip_ws t of
                x # r \<Rightarrow> (if x = CHR ''}'' then Some (JObj [], r)
                         else map_option (\<lambda>(ms, r'). (JObj ms, r')) (parse_members f (Suc d) (x # r)))
              | [] \<Rightarrow> None))
         else if c = CHR ''['' then
           (if max_depth \<le> d then None
            else (case skip_ws t of
                x # r \<Rightarrow> (if x = CHR '']'' then Some (JArr [], r)
                         else map_option (\<lambda>(vs, r'). (JArr vs, r')) (parse_elems f (Suc d) (x # r)))
              | [] \<Rightarrow> None))
         else if HasPrefix (c # t) ''null'' then Some (JNull, drop 4 (c # t))
         else if HasPrefix (c # t) ''true'' then Some (JBool True, drop 4 (c # t))
         else if HasPrefix (c # t) ''false'' then Some (JBool False, drop 5 (c # t))
         else map_option (\<lambda>(n, r). (JNum n, r)) (parse_number (c # t))))"
| "parse_elems 0 d s = None"
| "parse_elems (Suc f) d s =
     (case parse_value f d s of None \<Rightarrow> None | Some (v, r) \<Rightarrow>
        (case skip_ws r of [] \<Rightarrow> None | c # t \<Rightarrow>
           (if c = CHR '']'' then Some ([v], t)
            else if c = CHR '','' then map_option (\<lambda>(vs, r'). (v # vs, r')) (parse_elems f d t)
            else None)))"
| "parse_members 0 d s = None"
| "parse_members (Suc f) d s =
     (case skip_ws s of [] \<Rightarrow> None | q # s' \<Rightarrow>
        (if q \<noteq> quote then None
         else (case parse_string (Suc (length s')) s' of None \<Rightarrow> None | Some (k, r) \<Rightarrow>
           (case skip_ws r of [] \<Rightarrow> None | c # t \<Rightarrow>
              (if c \<noteq> CHR '':'' then None
               else (case parse_value f d t of None \<Rightarrow> None | Some (v, r') \<Rightarrow>
                 (case skip_ws r' of [] \<Rightarrow> None | c' # t' \<Rightarrow>
                    (if c' = CHR ''}'' then Some ([(k, v)], t')
                     else if c' = CHR '','' then
                       map_option (\<lambda>(ms, r''). ((k, v) # ms, r'')) (parse_members f d t')
                     else None)))))))) "

definition json_parse :: "bytes \<Rightarrow> json option" where
  "json_parse s = (case parse_value (Suc (2 * length s)) 0 s of
      Some (v, r) \<Rightarrow> if skip_ws r = [] then Some v else None
    | None \<Rightarrow> None)"

section \<open>Decoding scalars into a destination\<close>

fun dec_string :: "json \<Rightarrow> string \<Rightarrow> string option" where
  "dec_string JNull cur = Some cur"
| "dec_string (JStr s) cur = Some s"
| "dec_string _ cur = None"

fun dec_int :: "json \<Rightarrow> int \<Rightarrow> int option" where
  "dec_int JNull cur = Some cur"
| "dec_int (JNum n) cur = ParseInt n"
| "dec_int _ cur = None"

fun dec_uint64 :: "json \<Rightarrow> u64 \<Rightarrow> u64 option" where
  "dec_uint64 JNull cur = Some cur"
| "dec_uint64 (JNum n) cur = ParseUint n"
| "dec_uint64 _ cur = None"

fun dec_bool :: "json \<Rightarrow> bool \<Rightarrow> bool option" where
  "dec_bool JNull cur = Some cur"
| "dec_bool (JBool b) cur = Some b"
| "dec_bool _ cur = None"

text \<open>
  Decoding an object into a struct visits its members in order; a member whose key is no
  field's name, compared without regard to case, is skipped. \<open>step\<close> decodes one member.
\<close>

fun dec_members :: "(string \<Rightarrow> json \<Rightarrow> 'a \<Rightarrow> 'a option) \<Rightarrow> (string \<times> json) list \<Rightarrow> 'a \<Rightarrow> 'a option" where
  "dec_members step [] cur = Some cur"
| "dec_members step ((k, v) # ms) cur =
     (case step k v cur of None \<Rightarrow> None | Some cur' \<Rightarrow> dec_members step ms cur')"

fun dec_struct :: "(string \<Rightarrow> json \<Rightarrow> 'a \<Rightarrow> 'a option) \<Rightarrow> json \<Rightarrow> 'a \<Rightarrow> 'a option" where
  "dec_struct step JNull cur = Some cur"
| "dec_struct step (JObj ms) cur = dec_members step ms cur"
| "dec_struct step _ cur = None"

text \<open>A pointer field: \<open>null\<close> stores nil, anything else decodes into the value pointed to.\<close>

definition dec_pointer :: "(json \<Rightarrow> 'a \<Rightarrow> 'a option) \<Rightarrow> 'a \<Rightarrow> json \<Rightarrow> 'a option \<Rightarrow> 'a option option" where
  "dec_pointer dec zero v cur =
     (if v = JNull then Some None
      else map_option Some (dec v (case cur of None \<Rightarrow> zero | Some x \<Rightarrow> x)))"

fun dec_slice :: "(json \<Rightarrow> 'a \<Rightarrow> 'a option) \<Rightarrow> 'a \<Rightarrow> json \<Rightarrow> 'a list option" where
  "dec_slice dec zero JNull = Some []"
| "dec_slice dec zero (JArr vs) = those (map (\<lambda>v. dec v zero) vs)"
| "dec_slice dec zero _ = None"

fun dec_int_map :: "json \<Rightarrow> (string, int) gomap \<Rightarrow> (string, int) gomap option" where
  "dec_int_map JNull cur = Some fmempty"
| "dec_int_map (JObj ms) cur =
     dec_members (\<lambda>k v m. map_option (\<lambda>i. fmupd k i m) (dec_int v 0)) ms cur"
| "dec_int_map _ cur = None"

section \<open>What Marshal prints is read back\<close>

definition ascii :: "string \<Rightarrow> bool" where
  "ascii s \<longleftrightarrow> list_all (\<lambda>c. (of_char c :: nat) < 128) s"

lemma hex4_val_hex4 [simp]: "n < 65536 \<Longrightarrow> hex4_val (hex4 n @ t) = Some (n, t)"
proof -
  assume n: "n < 65536"
  define a b c where "a = n div 16" and "b = a div 16" and "c = b div 16"
  have eqs: "n div 16 = a" "n div 256 = b" "n div 4096 = c"
    by (simp_all add: a_def b_def c_def div_mult2_eq [symmetric])
  have "n = a * 16 + n mod 16" and "a = b * 16 + a mod 16" and "b = c * 16 + b mod 16"
    by (simp_all add: a_def b_def c_def)
  then have "c mod 16 * 4096 + b mod 16 * 256 + a mod 16 * 16 + n mod 16 = n"
    using n eqs by simp
  then show ?thesis by (simp add: hex4_val_def hex4_def eqs)
qed

lemma quote_backslash [simp]: "quote \<noteq> backslash" "backslash \<noteq> quote"
  by (simp_all add: quote_def backslash_def)

lemma of_char_quote [simp]: "(of_char quote :: nat) = 34" "(of_char backslash :: nat) = 92"
  by (simp_all add: quote_def backslash_def)

lemma of_char_neq: "(of_char c :: nat) \<noteq> of_char d \<Longrightarrow> c \<noteq> d"
  by auto

lemma char_eqI: "(of_char c :: nat) = of_char d \<Longrightarrow> c = d"
  by simp

lemma unescape_u: "unescape (CHR ''u'' # hex4 n @ t) = Some ([char_of n], t)" if "n < 128"
  using that by (simp add: unescape_def utf8_encode_def quote_def backslash_def)

lemma unescape_simple [simp]:
  "unescape (quote # t) = Some ([quote], t)"
  "unescape (backslash # t) = Some ([backslash], t)"
  "unescape (CHR ''b'' # t) = Some ([CHR 0x08], t)"
  "unescape (CHR ''f'' # t) = Some ([CHR 0x0C], t)"
  "unescape (CHR ''n'' # t) = Some ([CHR 0x0A], t)"
  "unescape (CHR ''r'' # t) = Some ([CHR 0x0D], t)"
  "unescape (CHR ''t'' # t) = Some ([CHR 0x09], t)"
  by (simp_all add: unescape_def quote_def backslash_def)

lemma parse_string_escape_char:
  assumes "(of_char c :: nat) < 128"
  shows "parse_string (Suc f) (escape_ascii c @ t) =
    map_option (\<lambda>(out, r). (c # out, r)) (parse_string f t)"
proof -
  let ?n = "of_char c :: nat"
  consider (q) "c = quote" | (b) "c = backslash" | (bs) "c = CHR 0x08" | (ff) "c = CHR 0x0C"
    | (nl) "c = CHR 0x0A" | (cr) "c = CHR 0x0D" | (tab) "c = CHR 0x09"
    | (u) "escape_ascii c = backslash # CHR ''u'' # hex4 ?n"
    | (plain) "escape_ascii c = [c]" "c \<noteq> quote" "c \<noteq> backslash" "32 \<le> ?n"
  proof (cases "?n \<in> {34, 92, 8, 12, 10, 13, 9}")
    case True
    then have "of_char c \<in> (of_char ` {quote, backslash, CHR 0x08, CHR 0x0C, CHR 0x0A, CHR 0x0D, CHR 0x09} :: nat set)"
      by simp
    then have "c \<in> {quote, backslash, CHR 0x08, CHR 0x0C, CHR 0x0A, CHR 0x0D, CHR 0x09}"
      by (auto simp only: image_iff of_char_eq_iff)
    then show thesis using that by blast
  next
    case False
    then have "escape_ascii c = (if ?n < 32 \<or> ?n = 60 \<or> ?n = 62 \<or> ?n = 38
        then backslash # CHR ''u'' # hex4 ?n else [c])" and "c \<noteq> quote" and "c \<noteq> backslash"
      by (auto simp: escape_ascii_def Let_def)
    then show thesis using that by (auto split: if_splits)
  qed
  then show ?thesis
  proof cases
    case u
    then show ?thesis using assms by (simp add: unescape_u map_option_case split: option.splits)
  next
    case plain
    with assms show ?thesis by simp
  qed (simp_all add: escape_ascii_def Let_def map_option_case split: option.splits)
qed

lemma parse_string_escape:
  "ascii s \<Longrightarrow> length s < f \<Longrightarrow> parse_string f (escape_string s @ quote # r) = Some (s, r)"
proof (induction s arbitrary: f)
  case Nil
  then show ?case by (cases f) simp_all
next
  case (Cons c s)
  then obtain g where f: "f = Suc g" and g: "length s < g" by (cases f) auto
  from Cons.prems have c: "(of_char c :: nat) < 128" and s: "ascii s" by (simp_all add: ascii_def)
  with Cons.IH [OF s g] show ?case
    by (simp add: f parse_string_escape_char)
qed

lemma length_escape_string: "ascii s \<Longrightarrow> length s \<le> length (escape_string s)"
proof (induction s)
  case (Cons c s)
  have "1 \<le> length (escape_ascii c)" by (simp add: escape_ascii_def Let_def)
  with Cons show ?case by (simp add: ascii_def)
qed simp

lemma parse_marshal_string:
  assumes "ascii s"
  shows "parse_string (Suc (length (escape_string s @ quote # r))) (escape_string s @ quote # r) = Some (s, r)"
  using assms length_escape_string [OF assms] by (intro parse_string_escape) simp_all
text \<open>Number literals the encoders print: decimal integers.\<close>

definition int_literal :: "string \<Rightarrow> bool" where
  "int_literal n \<longleftrightarrow> (\<exists>i. n = Itoa i)"

fun wf_json :: "json \<Rightarrow> bool" where
  "wf_json JNull = True"
| "wf_json (JBool b) = True"
| "wf_json (JNum n) = int_literal n"
| "wf_json (JStr s) = ascii s"
| "wf_json (JArr vs) = list_all wf_json vs"
| "wf_json (JObj ms) = list_all (\<lambda>(k, v). ascii k \<and> wf_json v) ms"

fun json_depth :: "json \<Rightarrow> nat" where
  "json_depth (JArr vs) = Suc (Max (set (0 # map json_depth vs)))"
| "json_depth (JObj ms) = Suc (Max (set (0 # map (\<lambda>(k, v). json_depth v) ms)))"
| "json_depth _ = 0"

definition follow :: "string \<Rightarrow> bool" where
  "follow r \<longleftrightarrow> r = [] \<or> hd r \<in> {CHR '','', CHR '']'', CHR ''}'', CHR 0x0A}"

lemma nat_digits_hd0: "hd (nat_digits n) = CHR ''0'' \<Longrightarrow> nat_digits n = ''0''"
proof (induction n rule: nat_digits.induct)
  case (1 n)
  show ?case
  proof (cases "n < 10")
    case True
    then have d: "nat_digits n = [digit_char n]" by (simp add: nat_digits.simps)
    with "1.prems" show ?thesis by simp
  next
    case False
    have d: "nat_digits n = nat_digits (n div 10) @ [digit_char (n mod 10)]"
      using False by (subst nat_digits.simps) simp
    with "1.prems" have "nat_digits (n div 10) = ''0''"
      using "1.IH" False by simp
    then have "n div 10 = 0"
      using digits_val_nat_digits [of "n div 10"] by (simp add: digits_val_def digit_val_def)
    with False show ?thesis by simp
  qed
qed

lemma follow_not_digit: "follow r \<Longrightarrow> r = [] \<or> \<not> is_digit (hd r)"
  by (auto simp: follow_def is_digit_def)

lemma parse_digits_append:
  assumes "list_all is_digit ds" and "ds \<noteq> []" and "follow r"
  shows "parse_digits (ds @ r) = Some (ds, r)"
proof -
  have "takeWhile is_digit r = []" and "dropWhile is_digit r = r"
    using follow_not_digit [OF assms(3)] by (cases r; simp)+
  then show ?thesis
    using assms(1,2) by (simp add: parse_digits_def list_all_iff takeWhile_append2 dropWhile_append2)
qed

lemma parse_frac_follow [simp]: "follow r \<Longrightarrow> parse_frac r = Some ([], r)"
  by (cases r) (auto simp: follow_def parse_frac_def)

lemma parse_exp_follow [simp]: "follow r \<Longrightarrow> parse_exp r = Some ([], r)"
  by (cases r) (auto simp: follow_def parse_exp_def)

lemma parse_int_part_digits:
  assumes "follow r"
  shows "parse_int_part (nat_digits n @ r) = Some (nat_digits n, r)"
proof (cases "hd (nat_digits n) = CHR ''0''")
  case True
  then have "nat_digits n = ''0''" by (rule nat_digits_hd0)
  then show ?thesis by (simp add: parse_int_part_def)
next
  case False
  obtain c t where ct: "nat_digits n = c # t" by (cases "nat_digits n") auto
  with False have "parse_int_part (nat_digits n @ r) = parse_digits (nat_digits n @ r)"
    by (simp add: parse_int_part_def)
  then show ?thesis using assms by (simp add: parse_digits_append nat_digits_all)
qed

lemma nat_digits_no_minus: "nat_digits n @ r \<noteq> CHR ''-'' # t"
  using nat_digits_hd [of n] by (cases "nat_digits n") (auto simp: is_digit_def Let_def)

lemma parse_number_literal:
  assumes "int_literal n" and "follow r"
  shows "parse_number (n @ r) = Some (n, r)"
proof -
  obtain i where n: "n = Itoa i" using assms(1) by (auto simp: int_literal_def)
  show ?thesis
  proof (cases "i < 0")
    case True
    then show ?thesis
      using assms(2) by (simp add: n Itoa_def parse_number_def parse_int_part_digits)
  next
    case False
    obtain c t where ct: "nat_digits (nat i) @ r = c # t"
      by (cases "nat_digits (nat i) @ r") auto
    then have "c \<noteq> CHR ''-''" using nat_digits_no_minus by auto
    moreover have "parse_int_part (c # t) = Some (nat_digits (nat i), r)"
      using parse_int_part_digits [OF assms(2), of "nat i"] ct by simp
    ultimately show ?thesis
      using False assms(2) by (simp add: n Itoa_def parse_number_def ct)
  qed
qed


fun json_need :: "json \<Rightarrow> nat" where
  "json_need (JArr vs) = Suc (sum_list (map (\<lambda>v. Suc (json_need v)) vs))"
| "json_need (JObj ms) = Suc (sum_list (map (\<lambda>(k, v). Suc (json_need v)) ms))"
| "json_need _ = 1"

lemma int_literal_hd:
  assumes "int_literal n"
  shows "\<exists>c t. n = c # t \<and> (c = CHR ''-'' \<or> is_digit c)"
proof -
  obtain i where n: "n = Itoa i" using assms by (auto simp: int_literal_def)
  show ?thesis
    using nat_digits_hd [of "nat i"]
    by (cases "nat_digits (nat i)") (auto simp: n Itoa_def)
qed

lemma json_marshal_hd:
  assumes "wf_json v"
  shows "\<exists>c t. json_marshal v = c # t \<and> \<not> is_ws c \<and> c \<noteq> CHR '']'' \<and> c \<noteq> CHR ''}''"
  using assms int_literal_hd
  by (cases v) (fastforce simp: is_ws_def marshal_string_def quote_def is_digit_def Let_def)+

lemma skip_ws_cons [simp]: "\<not> is_ws c \<Longrightarrow> skip_ws (c # t) = c # t"
  by (simp add: skip_ws_def)

lemma not_ws [simp]:
  "\<not> is_ws CHR '',''" "\<not> is_ws CHR '']''" "\<not> is_ws CHR ''}''" "\<not> is_ws CHR '':''"
  "\<not> is_ws CHR ''[''" "\<not> is_ws CHR ''{''" "\<not> is_ws quote" "\<not> is_ws CHR ''n''" "\<not> is_ws CHR ''t''"
  "\<not> is_ws CHR ''f''"
  by (simp_all add: is_ws_def quote_def)

lemma follow_intros [simp]:
  "follow []" "follow (CHR '','' # r)" "follow (CHR '']'' # r)" "follow (CHR ''}'' # r)" "follow (CHR 0x0A # r)"
  by (simp_all add: follow_def)

lemma parse_value_number:
  assumes "int_literal n" and "follow r"
  shows "parse_value (Suc f) d (n @ r) = Some (JNum n, r)"
proof -
  obtain c t where n: "n = c # t" and c: "c = CHR ''-'' \<or> is_digit c"
    using int_literal_hd [OF assms(1)] by blast
  then have "\<not> is_ws c" and "c \<noteq> quote" and "c \<noteq> CHR ''{''" and "c \<noteq> CHR ''[''"
    and "c \<noteq> CHR ''n''" and "c \<noteq> CHR ''t''" and "c \<noteq> CHR ''f''"
    by (auto simp: is_ws_def is_digit_def quote_def Let_def)
  then show ?thesis
    using parse_number_literal [OF assms] by (simp add: n HasPrefix_def)
qed

lemma depth_elem:
  assumes "Suc (d + Max (insert (0::nat) (g ` set xs))) \<le> b" and "x \<in> set xs"
  shows "Suc (d + g x) \<le> b"
proof -
  have "g x \<le> Max (insert 0 (g ` set xs))" using assms(2) by (intro Max_ge) auto
  with assms(1) show ?thesis by linarith
qed

lemma parse_marshal:
  "wf_json v \<Longrightarrow> follow r \<Longrightarrow> json_need v \<le> f \<Longrightarrow> d + json_depth v \<le> max_depth \<Longrightarrow>
     parse_value f d (json_marshal v @ r) = Some (v, r)"
  "vs \<noteq> [] \<Longrightarrow> list_all wf_json vs \<Longrightarrow> sum_list (map (\<lambda>v. Suc (json_need v)) vs) \<le> f \<Longrightarrow>
     list_all (\<lambda>v. d + json_depth v \<le> max_depth) vs \<Longrightarrow>
     parse_elems f d (json_elems vs @ CHR '']'' # r) = Some (vs, r)"
  "ms \<noteq> [] \<Longrightarrow> list_all (\<lambda>(k, v). ascii k \<and> wf_json v) ms \<Longrightarrow>
     sum_list (map (\<lambda>(k, v). Suc (json_need v)) ms) \<le> f \<Longrightarrow>
     list_all (\<lambda>(k, v). d + json_depth v \<le> max_depth) ms \<Longrightarrow>
     parse_members f d (json_members ms @ CHR ''}'' # r) = Some (ms, r)"
proof (induction v and vs and ms arbitrary: f d r and f d r and f d r
    rule: json_marshal_json_elems_json_members.induct)
  case 1
  then show ?case by (cases f) (simp_all add: HasPrefix_def quote_def)
next
  case (2 b)
  then show ?case by (cases f) (simp_all add: HasPrefix_def quote_def)
next
  case (3 n)
  then show ?case by (cases f) (simp_all add: parse_value_number del: parse_value.simps)
next
  case (4 s)
  then show ?case
    using parse_marshal_string [of s r] by (cases f) (simp_all add: marshal_string_def)
next
  case (5 vs)
  then obtain g where f: "f = Suc g" by (cases f) auto
  show ?case
  proof (cases vs)
    case Nil
    with 5 show ?thesis by (simp add: f quote_def)
  next
    case (Cons v vs')
    with "5.prems" obtain c t where c: "json_marshal v = c # t" "\<not> is_ws c" "c \<noteq> CHR '']''"
      using json_marshal_hd [of v] by auto
    have "list_all (\<lambda>v. Suc d + json_depth v \<le> max_depth) vs"
      using "5.prems"(4) depth_elem by (fastforce simp: list_all_iff)
    moreover have "parse_elems g (Suc d) (json_elems vs @ CHR '']'' # r) = Some (vs, r)"
      using "5.prems" calculation by (intro "5.IH") (auto simp: f Cons)
    ultimately show ?thesis
      using "5.prems" c by (simp add: f quote_def Cons)
  qed
next
  case (6 ms)
  then obtain g where f: "f = Suc g" by (cases f) auto
  show ?case
  proof (cases ms)
    case Nil
    with 6 show ?thesis by (simp add: f quote_def)
  next
    case (Cons m ms')
    obtain k v where m: "m = (k, v)" by (cases m)
    have "list_all (\<lambda>(k, v). Suc d + json_depth v \<le> max_depth) ms"
      using "6.prems"(4) depth_elem [of d "\<lambda>(k, v). json_depth v" ms max_depth]
      by (fastforce simp: list_all_iff split_beta)
    moreover have "parse_members g (Suc d) (json_members ms @ CHR ''}'' # r) = Some (ms, r)"
      using "6.prems" calculation by (intro "6.IH") (auto simp: f Cons)
    moreover have "quote \<noteq> CHR ''}''" by (simp add: quote_def)
    ultimately show ?thesis
      using "6.prems" by (simp add: f Cons m marshal_string_def) (simp add: quote_def)
  qed
next
  case 7
  then show ?case by simp
next
  case (8 v vs)
  then obtain g where f: "f = Suc g" by (cases f) auto
  show ?case
  proof (cases "vs = []")
    case True
    with 8 show ?thesis by (simp add: f)
  next
    case False
    with 8 show ?thesis by (simp add: f)
  qed
next
  case 9
  then show ?case by simp
next
  case (10 k v ms)
  then obtain g where f: "f = Suc g" by (cases f) auto
  have k: "ascii k" using "10.prems" by simp
  show ?case
  proof (cases "ms = []")
    case True
    with 10 show ?thesis
      using length_escape_string [OF k] by (simp add: f marshal_string_def parse_string_escape)
  next
    case False
    with 10 show ?thesis
      using length_escape_string [OF k] by (simp add: f marshal_string_def parse_string_escape)
  qed
qed


lemma escape_ascii_length: "1 \<le> length (escape_ascii c)"
  by (simp add: escape_ascii_def Let_def)

lemma json_need_length:
  "wf_json v \<Longrightarrow> json_need v \<le> 2 * length (json_marshal v) - 1"
  "list_all wf_json vs \<Longrightarrow> sum_list (map (\<lambda>v. Suc (json_need v)) vs) \<le> 2 * length (json_elems vs)"
  "list_all (\<lambda>(k, v). ascii k \<and> wf_json v) ms \<Longrightarrow>
     sum_list (map (\<lambda>(k, v). Suc (json_need v)) ms) \<le> 2 * length (json_members ms)"
proof (induction v and vs and ms rule: json_marshal_json_elems_json_members.induct)
  case (3 n)
  then obtain c t where "n = c # t" using int_literal_hd [of n] by auto
  then show ?case by simp
next
  case (8 v vs)
  then obtain c t where "json_marshal v = c # t" using json_marshal_hd [of v] by auto
  with 8 show ?case by auto
next
  case (10 k v ms)
  then obtain c t where "json_marshal v = c # t" using json_marshal_hd [of v] by auto
  with 10 show ?case by (auto simp: marshal_string_def)
qed (auto simp: marshal_string_def)

lemma json_parse_marshal:
  assumes "wf_json v" and "json_depth v \<le> max_depth"
  shows "json_parse (json_marshal v) = Some v"
proof -
  have "json_need v \<le> Suc (2 * length (json_marshal v))"
    using json_need_length(1) [OF assms(1)] by linarith
  then have "parse_value (Suc (2 * length (json_marshal v))) 0 (json_marshal v @ []) = Some (v, [])"
    using assms by (intro parse_marshal(1)) simp_all
  then show ?thesis by (simp add: json_parse_def skip_ws_def)
qed

text \<open>A signed message determines the fields it was built from, whatever bytes follow it.\<close>

lemma escape_string_delim:
  assumes "ascii s" and "ascii t" and "escape_string s @ quote # x = escape_string t @ quote # y"
  shows "s = t \<and> x = y"
proof -
  let ?f = "Suc (length s + length t)"
  have "parse_string ?f (escape_string s @ quote # x) = Some (s, x)"
    by (rule parse_string_escape [OF assms(1)]) simp
  then have "parse_string ?f (escape_string t @ quote # y) = Some (s, x)"
    unfolding assms(3) .
  moreover have "parse_string ?f (escape_string t @ quote # y) = Some (t, y)"
    by (rule parse_string_escape [OF assms(2)]) simp
  ultimately have "Some (s, x) = Some (t, y)" by (rule trans [OF sym])
  then show ?thesis by (simp only: option.inject prod.inject)
qed

lemma json_elems_delim:
  assumes "list_all ascii ws" and "list_all ascii vs"
    and "json_elems (map JStr ws) @ CHR '']'' # x = json_elems (map JStr vs) @ CHR '']'' # y"
  shows "ws = vs \<and> x = y"
  using assms
proof (induction ws arbitrary: vs)
  case Nil
  then show ?case by (cases vs) (simp_all add: marshal_string_def quote_def)
next
  case (Cons w ws)
  from Cons.prems obtain v vs' where vs: "vs = v # vs'"
    by (cases vs) (simp_all add: marshal_string_def quote_def)
  let ?tail = "\<lambda>us z. (if us = [] then [] else CHR '','' # json_elems (map JStr us)) @ CHR '']'' # z"
  have "escape_string w @ quote # ?tail ws x = escape_string v @ quote # ?tail vs' y"
    using Cons.prems(3) by (simp add: vs marshal_string_def)
  moreover have asc: "ascii w" "ascii v" "list_all ascii ws" "list_all ascii vs'"
    using Cons.prems(1,2) by (simp_all add: vs)
  ultimately have wv: "w = v" and rest: "?tail ws x = ?tail vs' y"
    using escape_string_delim by blast+
  have "ws = vs' \<and> x = y"
  proof (cases "ws = [] \<or> vs' = []")
    case True
    with rest show ?thesis by (auto split: if_splits)
  next
    case False
    with rest have "json_elems (map JStr ws) @ CHR '']'' # x = json_elems (map JStr vs') @ CHR '']'' # y"
      by simp
    with asc show ?thesis by (intro Cons.IH)
  qed
  with wv show ?case by (simp add: vs)
qed

lemma marshal_strings_delim:
  assumes "list_all ascii ws" and "list_all ascii vs" and "marshal_strings ws @ x = marshal_strings vs @ y"
  shows "ws = vs \<and> x = y"
  using assms by (intro json_elems_delim) (simp_all add: marshal_strings_def)

end
