(* ===== verification/Crypto.thy ===== *)
theory Crypto
  imports GoText
begin

text \<open>
  Package \<open>dissycrypto\<close> (textbook RSA signatures over a SHA-256 digest) and the account keys
  of \<open>account/AccountKeys.go\<close>. The digest is the argument \<open>H\<close>: the theorems hold for every
  digest function. Big integers are \<open>nat\<close>; a slice bound out of range is the panic \<open>None\<close>.
  Shown: bytes and big integers are inverse, keys accepted by \<open>KeyGen\<close> sign and verify
  (with Fermat's little theorem proved here), and short public keys panic.
\<close>

section \<open>Byte strings and big integers (convertions.go)\<close>

definition BytesToBigInt :: "bytes \<Rightarrow> nat" where
  "BytesToBigInt b = foldl (\<lambda>a c. 256 * a + of_char c) 0 b"

definition StringToBigInt :: "string \<Rightarrow> nat" where
  "StringToBigInt m = BytesToBigInt m"

text \<open>\<open>big.Int.Bytes\<close>: big-endian, without leading zeros.\<close>

fun big_Bytes :: "nat \<Rightarrow> bytes" where
  "big_Bytes n = (if n = 0 then [] else big_Bytes (n div 256) @ [char_of (n mod 256)])"

declare big_Bytes.simps [simp del]

definition BigIntToString :: "nat \<Rightarrow> string" where
  "BigIntToString b = big_Bytes b"

lemma BytesToBigInt_snoc [simp]: "BytesToBigInt (b @ [c]) = 256 * BytesToBigInt b + of_char c"
  by (simp add: BytesToBigInt_def)

lemma BytesToBigInt_Nil [simp]: "BytesToBigInt [] = 0"
  by (simp add: BytesToBigInt_def)

lemma BytesToBigInt_big_Bytes [simp]: "BytesToBigInt (big_Bytes n) = n"
proof (induction n rule: big_Bytes.induct)
  case (1 n)
  show ?case
  proof (cases "n = 0")
    case True
    then show ?thesis by (simp add: big_Bytes.simps)
  next
    case False
    with 1 have "BytesToBigInt (big_Bytes (n div 256)) = n div 256" by simp
    with False show ?thesis by (subst big_Bytes.simps) simp
  qed
qed

section \<open>RSA (rsa.go, signature.go)\<close>

text \<open>\<open>big.Int.Exp(x, y, m)\<close> for non-negative arguments: a zero modulus means no reduction.\<close>

definition big_Exp :: "nat \<Rightarrow> nat \<Rightarrow> nat \<Rightarrow> nat" where
  "big_Exp x y m = (if m = 0 then x ^ y else x ^ y mod m)"

definition Encrypt :: "nat \<Rightarrow> nat \<Rightarrow> nat \<Rightarrow> nat" where
  "Encrypt m e n = big_Exp m e n"

definition Decrypt :: "nat \<Rightarrow> nat \<Rightarrow> nat \<Rightarrow> nat" where
  "Decrypt c d n = big_Exp c d n"

definition acceptPrimes :: "nat \<Rightarrow> nat \<Rightarrow> nat \<Rightarrow> bool" where
  "acceptPrimes p q e \<longleftrightarrow> gcd (p - 1) e = 1 \<and> gcd (q - 1) e = 1"

text \<open>\<open>big.Int.ModInverse\<close> of a unit: the inverse below the modulus.\<close>

definition ModInverse :: "nat \<Rightarrow> nat \<Rightarrow> nat option" where
  "ModInverse e m = List.find (\<lambda>d. e * d mod m = 1 mod m) [0..<m]"

text \<open>
  \<open>KeyGen\<close> draws pairs of primes until one is accepted; the argument is the sequence of
  pairs the random source delivers, and its end is the error of an exhausted source.
\<close>

fun KeyGen :: "(nat \<times> nat) list \<Rightarrow> (nat \<times> nat \<times> nat) option" where
  "KeyGen [] = None"
| "KeyGen ((p, q) # draws) =
     (if acceptPrimes p q 3
      then map_option (\<lambda>d. (p * q, 3, d)) (ModInverse 3 ((p - 1) * (q - 1)))
      else KeyGen draws)"

definition applyHash :: "(bytes \<Rightarrow> bytes) \<Rightarrow> bytes \<Rightarrow> bytes" where
  "applyHash H message = H message"

definition RSASign :: "(bytes \<Rightarrow> bytes) \<Rightarrow> bytes \<Rightarrow> nat \<Rightarrow> nat \<Rightarrow> nat" where
  "RSASign H message d n = (let hash = applyHash H message in Decrypt (BytesToBigInt hash) d n)"

definition RSAVerify :: "(bytes \<Rightarrow> bytes) \<Rightarrow> bytes \<Rightarrow> nat \<Rightarrow> nat \<Rightarrow> nat \<Rightarrow> bool" where
  "RSAVerify H message signature e n =
     (let signatureHash = Encrypt signature e n; messageHash = applyHash H message
      in signatureHash = BytesToBigInt messageHash)"

section \<open>Wallet signatures (wallet.go)\<close>

definition WALLET_KEY_SIZE :: nat where
  "WALLET_KEY_SIZE = 256"

text \<open>A public key shorter than the modulus makes one of the two slices run out of range.\<close>

definition VerifySignature :: "(bytes \<Rightarrow> bytes) \<Rightarrow> bytes \<Rightarrow> bytes \<Rightarrow> string \<Rightarrow> bool go" where
  "VerifySignature H msg signature pk =
     (if length pk < WALLET_KEY_SIZE then None
      else let n = BytesToBigInt (take WALLET_KEY_SIZE pk);
               e = BytesToBigInt (drop WALLET_KEY_SIZE pk);
               s = BytesToBigInt signature
           in Some (RSAVerify H msg s e n))"

section \<open>Account keys (account/AccountKeys.go)\<close>

record Account =
  key_n :: nat
  key_e :: nat
  key_d :: nat

record AccountKeyMaterial =
  mat_N :: string
  mat_E :: string
  mat_D :: string

definition NewAccount :: "(nat \<times> nat) list \<Rightarrow> Account option" where
  "NewAccount draws = map_option (\<lambda>(n, e, d). \<lparr>key_n = n, key_e = e, key_d = d\<rparr>) (KeyGen draws)"

definition SafeEncode :: "Account \<Rightarrow> string" where
  "SafeEncode a = b64_encode (big_Bytes (key_n a) @ big_Bytes (key_e a))"

definition PublicKeyFromAccountName :: "string \<Rightarrow> bytes option" where
  "PublicKeyFromAccountName accountName = b64_decode accountName"

definition KeyMaterial :: "Account \<Rightarrow> AccountKeyMaterial" where
  "KeyMaterial a = \<lparr>mat_N = b64_encode (big_Bytes (key_n a)), mat_E = b64_encode (big_Bytes (key_e a)),
                    mat_D = b64_encode (big_Bytes (key_d a))\<rparr>"

definition AccountFromKeyMaterial :: "AccountKeyMaterial \<Rightarrow> Account option" where
  "AccountFromKeyMaterial material = do {
     nBytes \<leftarrow> b64_decode (mat_N material);
     eBytes \<leftarrow> b64_decode (mat_E material);
     dBytes \<leftarrow> b64_decode (mat_D material);
     Some \<lparr>key_n = BytesToBigInt nBytes, key_e = BytesToBigInt eBytes, key_d = BytesToBigInt dBytes\<rparr>
   }"

section \<open>Fermat's little theorem\<close>

definition is_prime :: "nat \<Rightarrow> bool" where
  "is_prime p \<longleftrightarrow> 1 < p \<and> (\<forall>m. m dvd p \<longrightarrow> m = 1 \<or> m = p)"

lemma prime_coprime: "is_prime p \<Longrightarrow> \<not> p dvd a \<Longrightarrow> coprime p a"
  by (metis coprime_iff_gcd_eq_1 gcd_dvd1 gcd_dvd2 is_prime_def)

lemma prime_dvd_binomial:
  assumes "is_prime p" and "0 < k" and "k < p"
  shows "p dvd (p choose k)"
proof -
  have "\<not> p dvd k" using assms(2,3) by (auto dest: dvd_imp_le)
  with assms(1) have "coprime p k" by (rule prime_coprime)
  moreover have "k * (p choose k) = p * ((p - 1) choose (k - 1))"
    using assms(2) by (metis binomial_absorption Suc_pred' less_trans assms(3))
  ultimately show ?thesis by (metis coprime_dvd_mult_right_iff dvd_triv_left)
qed

lemma fermat_step:
  assumes "is_prime p"
  shows "(a + 1) ^ p mod p = (a ^ p + 1) mod p"
proof -
  have p: "0 < p" using assms by (simp add: is_prime_def)
  have "(a + 1) ^ p = (\<Sum>k\<le>p. (p choose k) * a ^ k)"
    using binomial_ring [of a 1 p] by simp
  also have "{..p} = insert 0 (insert p {0<..<p})" using p by auto
  also have "(\<Sum>k\<in>insert 0 (insert p {0<..<p}). (p choose k) * a ^ k) =
      1 + (a ^ p + (\<Sum>k\<in>{0<..<p}. (p choose k) * a ^ k))"
    using p by simp
  finally have eq: "(a + 1) ^ p = a ^ p + 1 + (\<Sum>k\<in>{0<..<p}. (p choose k) * a ^ k)" by simp
  have "p dvd (\<Sum>k\<in>{0<..<p}. (p choose k) * a ^ k)"
    by (intro dvd_sum dvd_mult2 prime_dvd_binomial [OF assms]) auto
  then show ?thesis unfolding eq by (auto elim!: dvdE)
qed

lemma fermat: "is_prime p \<Longrightarrow> a ^ p mod p = a mod p"
proof (induction a)
  case 0
  then show ?case by (simp add: is_prime_def power_0_left)
next
  case (Suc a)
  then have "(a ^ p + 1) mod p = (a + 1) mod p" by (metis mod_add_cong)
  with fermat_step [OF Suc.prems, of a] show ?case by simp
qed

lemma fermat_exponent:
  assumes "is_prime p"
  shows "a ^ (1 + k * (p - 1)) mod p = a mod p"
proof (induction k)
  case 0
  show ?case by simp
next
  case (Suc k)
  have "1 + Suc k * (p - 1) = (1 + k * (p - 1)) + (p - 1)" by simp
  then have "a ^ (1 + Suc k * (p - 1)) mod p = (a ^ (1 + k * (p - 1)) * a ^ (p - 1)) mod p"
    by (simp only: power_add)
  also have "\<dots> = (a * a ^ (p - 1)) mod p"
    using Suc by (metis mod_mult_left_eq)
  also have "a * a ^ (p - 1) = a ^ p"
    using assms by (metis is_prime_def power_eq_if not_one_less_zero)
  finally show ?case using fermat [OF assms] by simp
qed

lemma rsa_exponent:
  assumes "is_prime p" and "is_prime q" and "p \<noteq> q" and "m < p * q"
    and "x = 1 + k * ((p - 1) * (q - 1))"
  shows "m ^ x mod (p * q) = m"
proof -
  have "coprime p q"
  proof (rule prime_coprime [OF assms(1)])
    show "\<not> p dvd q" using assms(1,2,3) by (auto simp: is_prime_def)
  qed
  have xp: "x = 1 + (k * (q - 1)) * (p - 1)" and xq: "x = 1 + (k * (p - 1)) * (q - 1)"
    by (simp_all add: assms(5))
  have "m ^ x mod p = m mod p" unfolding xp by (rule fermat_exponent [OF assms(1)])
  moreover have "m ^ x mod q = m mod q" unfolding xq by (rule fermat_exponent [OF assms(2)])
  ultimately have "int p dvd int (m ^ x) - int m" and "int q dvd int (m ^ x) - int m"
    by (metis mod_eq_dvd_iff zmod_int)+
  moreover have "coprime (int p) (int q)" using \<open>coprime p q\<close> by simp
  ultimately have "int p * int q dvd int (m ^ x) - int m" by (rule divides_mult)
  then have "int (m ^ x) mod int (p * q) = int m mod int (p * q)"
    by (simp add: mod_eq_dvd_iff)
  then have "m ^ x mod (p * q) = m mod (p * q)" by (metis of_nat_eq_iff of_nat_mod)
  then show ?thesis using assms(4) by simp
qed

section \<open>Keys made by KeyGen\<close>

lemma ModInverse_Some:
  "ModInverse e m = Some d \<Longrightarrow> d < m \<and> e * d mod m = 1 mod m"
  by (auto simp: ModInverse_def find_Some_iff)

lemma ModInverse_coprime:
  assumes "coprime e m" and "0 < e" and "0 < m"
  shows "\<exists>d. ModInverse e m = Some d"
proof -
  obtain x y where "e * x = m * y + gcd e m"
    using bezout_nat [of e m] assms(2) by auto
  with assms(1) have "e * x mod m = (m * y + 1) mod m" by simp
  then have "e * x mod m = 1 mod m" by (simp only: mod_mult_self4)
  then have "e * (x mod m) mod m = 1 mod m" by (simp add: mod_mult_right_eq)
  moreover have "x mod m < m" using assms(3) by simp
  ultimately have "ModInverse e m \<noteq> None"
    by (auto simp: ModInverse_def find_None_iff)
  then show ?thesis by auto
qed

text \<open>The loop ends with a key at the first accepted pair of primes.\<close>

lemma KeyGen_accepts:
  assumes "is_prime p" and "is_prime q" and "acceptPrimes p q 3"
    and "\<forall>(a, b) \<in> set rejected. \<not> acceptPrimes a b 3"
  shows "\<exists>d. KeyGen (rejected @ (p, q) # draws) = Some (p * q, 3, d)"
  using assms(4)
proof (induction rejected)
  case Nil
  have "coprime (p - 1) 3" and "coprime (q - 1) 3"
    using assms(3) by (simp_all add: acceptPrimes_def coprime_iff_gcd_eq_1)
  then have "coprime 3 ((p - 1) * (q - 1))" by (simp add: coprime_commute)
  then obtain d where "ModInverse 3 ((p - 1) * (q - 1)) = Some d"
    using ModInverse_coprime [of 3 "(p - 1) * (q - 1)"] assms(1,2) by (auto simp: is_prime_def)
  with assms(3) show ?case by simp
next
  case (Cons r rs)
  then show ?case by (cases r) auto
qed

lemma KeyGen_key:
  assumes "\<forall>(p, q) \<in> set draws. is_prime p \<and> is_prime q \<and> p \<noteq> q" and "KeyGen draws = Some (n, e, d)"
  shows "\<exists>p q. is_prime p \<and> is_prime q \<and> p \<noteq> q \<and> n = p * q \<and> e * d mod ((p - 1) * (q - 1)) = 1 mod ((p - 1) * (q - 1))"
  using assms
proof (induction draws rule: KeyGen.induct)
  case (2 p q draws)
  show ?case
  proof (cases "acceptPrimes p q 3")
    case True
    with "2.prems" have "is_prime p" "is_prime q" "p \<noteq> q" "n = p * q" "e = 3"
      and "ModInverse 3 ((p - 1) * (q - 1)) = Some d" by auto
    then show ?thesis using ModInverse_Some by blast
  next
    case False
    with 2 show ?thesis by simp
  qed
qed simp

lemma rsa_sign_verify_key:
  assumes "is_prime p" and "is_prime q" and "p \<noteq> q"
    and "e * d mod ((p - 1) * (q - 1)) = 1 mod ((p - 1) * (q - 1))"
    and "BytesToBigInt (H msg) < p * q"
  shows "RSAVerify H msg (RSASign H msg d (p * q)) e (p * q)"
proof -
  let ?m = "BytesToBigInt (H msg)" and ?phi = "(p - 1) * (q - 1)"
  have pq: "1 < p" "1 < q" using assms(1,2) by (simp_all add: is_prime_def)
  have "1 < ?phi"
  proof -
    have "2 \<le> p - 1 \<or> 2 \<le> q - 1" using pq assms(3) by linarith
    moreover have "1 \<le> p - 1" and "1 \<le> q - 1" using pq by linarith+
    ultimately have "2 * 1 \<le> ?phi \<or> 1 * 2 \<le> ?phi" by (blast intro: mult_le_mono)
    then show ?thesis by linarith
  qed
  then have "e * d mod ?phi = 1" using assms(4) by (metis mod_less)
  then have ed: "d * e = 1 + (e * d div ?phi) * ?phi"
    by (metis add.commute div_mult_mod_eq mult.commute)
  have "(?m ^ d mod (p * q)) ^ e mod (p * q) = ?m ^ (d * e) mod (p * q)"
    by (simp add: power_mod power_mult)
  also have "\<dots> = ?m" by (rule rsa_exponent [OF assms(1,2,3,5) ed])
  finally show ?thesis
    using pq by (simp add: RSAVerify_def RSASign_def Encrypt_def Decrypt_def big_Exp_def applyHash_def)
qed

section \<open>Properties\<close>

lemma VerifySignature_wallet:
  assumes "length (big_Bytes n) = WALLET_KEY_SIZE"
  shows "VerifySignature H msg (big_Bytes s) (big_Bytes n @ big_Bytes e) = Some (RSAVerify H msg s e n)"
  using assms by (simp add: VerifySignature_def Let_def)

lemma VerifySignature_None [simp]:
  "VerifySignature H msg signature pk = None \<longleftrightarrow> length pk < WALLET_KEY_SIZE"
  by (simp add: VerifySignature_def Let_def)

lemma AccountFromKeyMaterial_KeyMaterial [simp]: "AccountFromKeyMaterial (KeyMaterial a) = Some a"
  by (simp add: AccountFromKeyMaterial_def KeyMaterial_def)

section \<open>Wallet keys\<close>

text \<open>
  A key pair that works: encrypting with the public exponent undoes decrypting with the
  private one. Every key \<open>KeyGen\<close> returns has this property, by Fermat's little theorem.
\<close>

definition rsa_key :: "Account \<Rightarrow> bool" where
  "rsa_key w \<longleftrightarrow> (\<forall>m < key_n w. Encrypt (Decrypt m (key_d w) (key_n w)) (key_e w) (key_n w) = m)"

lemma BytesToBigInt_less: "BytesToBigInt b < 256 ^ length b"
proof (induction b rule: rev_induct)
  case (snoc c b)
  have "(of_char c :: nat) < 256" by (rule nat_of_char_less_256)
  with snoc have "256 * BytesToBigInt b + of_char c < 256 * (BytesToBigInt b + 1)" by simp
  also have "\<dots> \<le> 256 * 256 ^ length b" using snoc by (intro mult_left_mono) simp_all
  finally show ?case by simp
qed simp

lemma big_Bytes_length: "n < 256 ^ k \<Longrightarrow> length (big_Bytes n) \<le> k"
proof (induction k arbitrary: n)
  case (Suc k)
  then have "n div 256 < 256 ^ k" by (simp add: less_mult_imp_div_less mult.commute)
  with Suc.IH [of "n div 256"] show ?case by (cases "n = 0") (simp_all add: big_Bytes.simps [of n] big_Bytes.simps [of 0])
qed (simp add: big_Bytes.simps)

lemma big_Bytes_power: "big_Bytes (256 ^ k) = CHR 0x01 # replicate k CHR 0x00"
proof (induction k)
  case 0
  have "char_of (of_char CHR 0x01 :: nat) = CHR 0x01" by (rule char_of_char)
  then show ?case by (simp add: big_Bytes.simps [of "Suc 0"] big_Bytes.simps [of 0])
next
  case (Suc k)
  have "big_Bytes (256 ^ Suc k) = big_Bytes (256 ^ k) @ [char_of (0 :: nat)]"
    by (subst big_Bytes.simps) simp
  also have "char_of (0 :: nat) = CHR 0x00" by (simp add: char_of_def)
  finally show ?case using Suc by (simp add: replicate_append_same)
qed

lemma KeyGen_rsa_key:
  assumes "\<forall>(p, q) \<in> set draws. is_prime p \<and> is_prime q \<and> p \<noteq> q" and "NewAccount draws = Some w"
  shows "rsa_key w"
proof -
  obtain n e d where k: "KeyGen draws = Some (n, e, d)" and w: "w = \<lparr>key_n = n, key_e = e, key_d = d\<rparr>"
    using assms(2) by (auto simp: NewAccount_def)
  obtain p q where pq: "is_prime p" "is_prime q" "p \<noteq> q" "n = p * q"
    "e * d mod ((p - 1) * (q - 1)) = 1 mod ((p - 1) * (q - 1))"
    using KeyGen_key [OF assms(1) k] by blast
  have "Encrypt (Decrypt m d n) e n = m" if "m < n" for m
    using rsa_sign_verify_key [OF pq(1,2,3,5), of "\<lambda>_. big_Bytes m" "[]"] that pq(4)
    by (simp add: RSAVerify_def RSASign_def applyHash_def)
  then show ?thesis by (simp add: rsa_key_def w)
qed

text \<open>What a wallet of the right size signs verifies under its public key.\<close>

lemma wallet_sign_verify:
  assumes "rsa_key w" and "length (big_Bytes (key_n w)) = WALLET_KEY_SIZE" and "length (H msg) = 32"
  shows "VerifySignature H msg (big_Bytes (RSASign H msg (key_d w) (key_n w))) (big_Bytes (key_n w) @ big_Bytes (key_e w)) = Some True"
proof -
  have "\<not> key_n w < 256 ^ 32"
  proof
    assume "key_n w < 256 ^ 32"
    then have "length (big_Bytes (key_n w)) \<le> 32" by (rule big_Bytes_length)
    then show False using assms(2) by (simp add: WALLET_KEY_SIZE_def)
  qed
  moreover have "BytesToBigInt (H msg) < 256 ^ 32" using BytesToBigInt_less [of "H msg"] assms(3) by simp
  ultimately have "BytesToBigInt (H msg) < key_n w" by linarith
  then show ?thesis
    using assms(1) VerifySignature_wallet [OF assms(2)]
    by (simp add: RSAVerify_def RSASign_def applyHash_def rsa_key_def)
qed

end
