(* ===== verification/Swap.thy ===== *)
theory Swap
  imports GoText
begin

text \<open>
  PokoinSwap's pure part (\<open>account/transaction.go\<close>): asset and pool names, the pool record,
  the quote of a constant-product swap with its fee, and the update of the reserves. All
  arithmetic wraps at 64 bits. Shown: names are canonical (the order of the two assets
  does not matter, normalising twice changes nothing), a quote never divides by zero,
  never drains a reserve and never lets the product of the reserves fall, even when its
  multiplications wrap, and every quote that is given can be applied.
\<close>

definition AssetPKN :: string where "AssetPKN = ''PKN''"
definition AssetWPKN :: string where "AssetWPKN = ''WPKN''"
definition AMMFeeBps :: int where "AMMFeeBps = 30"
definition AMMDenominatorBps :: int where "AMMDenominatorBps = 10000"

record AMMPool =
  pool_ID :: string
  pool_AssetA :: string
  pool_AssetB :: string
  pool_ReserveA :: int
  pool_ReserveB :: int
  pool_FeeBps :: int
  pool_CreatedTx :: string
  pool_LastTx :: string

section \<open>Names\<close>

definition normalizeAsset :: "string \<Rightarrow> string" where
  "normalizeAsset asset =
     (let asset = ToUpper (TrimSpace asset) in
      if asset = [] \<or> asset = AssetPKN then asset
      else if asset = ''WPKN'' \<or> asset = ''W-PKN'' then AssetWPKN
      else asset)"

definition PoolID :: "string \<Rightarrow> string \<Rightarrow> string" where
  "PoolID assetA assetB =
     (let assetA = normalizeAsset assetA; assetB = normalizeAsset assetB in
      if assetA = [] \<or> assetB = [] \<or> assetA = assetB then []
      else if assetA < assetB then assetA @ ''-'' @ assetB
      else assetB @ ''-'' @ assetA)"

definition normalizePoolID :: "string \<Rightarrow> string" where
  "normalizePoolID poolID =
     (let poolID = TrimSpace poolID;
          poolID = ReplaceAll poolID CHR ''_'' CHR ''-'';
          poolID = ReplaceAll poolID CHR ''/'' CHR ''-'';
          parts = Split poolID CHR ''-''
      in if length parts = 2 then PoolID (parts ! 0) (parts ! 1) else ToUpper poolID)"

definition normalizeAssetAccount :: "string \<Rightarrow> string" where
  "normalizeAssetAccount account =
     (let account = TrimSpace account in
      if HasPrefix account ''0x'' \<or> HasPrefix account ''0X'' then ToLower account else account)"

section \<open>Quotes\<close>

definition reservesFor :: "AMMPool \<Rightarrow> string \<Rightarrow> int \<times> int" where
  "reservesFor pool assetIn =
     (let assetIn = normalizeAsset assetIn in
      if assetIn = pool_AssetA pool then (pool_ReserveA pool, pool_ReserveB pool)
      else if assetIn = pool_AssetB pool then (pool_ReserveB pool, pool_ReserveA pool)
      else (0, 0))"

text \<open>The result is \<open>(amount, ok)\<close>.\<close>

definition QuoteSwap :: "AMMPool \<Rightarrow> string \<Rightarrow> int \<Rightarrow> int \<times> bool" where
  "QuoteSwap pool assetIn amountIn =
     (let assetIn = normalizeAsset assetIn in
      if amountIn \<le> 0 \<or> pool_ReserveA pool \<le> 0 \<or> pool_ReserveB pool \<le> 0 then (0, False)
      else let (reserveIn, reserveOut) = reservesFor pool assetIn in
        if reserveIn \<le> 0 \<or> reserveOut \<le> 0 then (0, False)
        else let feeBps = (if pool_FeeBps pool \<le> 0 then AMMFeeBps else pool_FeeBps pool);
                 amountInAfterFee = go_quo (i64 (amountIn * i64 (AMMDenominatorBps - feeBps))) AMMDenominatorBps
          in if amountInAfterFee \<le> 0 then (0, False)
             else let out = go_quo (i64 (reserveOut * amountInAfterFee)) (i64 (reserveIn + amountInAfterFee))
               in if out \<le> 0 \<or> out \<ge> reserveOut then (0, False) else (out, True))"

text \<open>The method has a pointer receiver: the result is the pool afterwards and the flag.\<close>

definition applySwap :: "AMMPool \<Rightarrow> string \<Rightarrow> int \<Rightarrow> int \<Rightarrow> AMMPool \<times> bool" where
  "applySwap pool assetIn amountIn amountOut =
     (let assetIn = normalizeAsset assetIn in
      if assetIn = pool_AssetA pool then
        (if pool_ReserveB pool \<le> amountOut then (pool, False)
         else (pool\<lparr>pool_ReserveA := i64 (pool_ReserveA pool + amountIn),
                    pool_ReserveB := i64 (pool_ReserveB pool - amountOut)\<rparr>, True))
      else if assetIn = pool_AssetB pool then
        (if pool_ReserveA pool \<le> amountOut then (pool, False)
         else (pool\<lparr>pool_ReserveB := i64 (pool_ReserveB pool + amountIn),
                    pool_ReserveA := i64 (pool_ReserveA pool - amountOut)\<rparr>, True))
      else (pool, False))"

section \<open>Names are canonical\<close>

lemma normalizeAsset_idem [simp, text_norm]: "normalizeAsset (normalizeAsset a) = normalizeAsset a"
proof -
  have w: "ToUpper (TrimSpace AssetWPKN) = AssetWPKN"
    by (simp add: AssetWPKN_def go_eval)
  have "ToUpper (TrimSpace (ToUpper (TrimSpace a))) = ToUpper (TrimSpace a)" by simp
  then show ?thesis
    using w by (auto simp: normalizeAsset_def AssetWPKN_def Let_def)
qed

lemma normalizeAssetAccount_idem [simp, text_norm]:
  "normalizeAssetAccount (normalizeAssetAccount a) = normalizeAssetAccount a"
proof -
  let ?t = "TrimSpace a"
  show ?thesis
  proof (cases "HasPrefix ?t ''0x'' \<or> HasPrefix ?t ''0X''")
    case True
    then have "normalizeAssetAccount a = ToLower ?t" by (auto simp: normalizeAssetAccount_def Let_def)
    then show ?thesis by (simp add: normalizeAssetAccount_def [of "ToLower ?t"] Let_def)
  next
    case False
    then have "normalizeAssetAccount a = ?t" by (simp add: normalizeAssetAccount_def Let_def)
    with False show ?thesis by (simp add: normalizeAssetAccount_def [of ?t] Let_def)
  qed
qed

lemma normalizeAssetAccount_Nil [simp]: "normalizeAssetAccount [] = []"
  by (simp add: normalizeAssetAccount_def TrimSpace_def HasPrefix_def)

lemma PoolID_commute: "PoolID a b = PoolID b a"
  by (auto simp: PoolID_def Let_def)

lemma PoolID_normalizeAsset [simp]:
  "PoolID (normalizeAsset a) b = PoolID a b" "PoolID a (normalizeAsset b) = PoolID a b"
  by (simp_all add: PoolID_def Let_def)

lemma PoolID_Nil_iff:
  "PoolID a b = [] \<longleftrightarrow> normalizeAsset a = [] \<or> normalizeAsset b = [] \<or> normalizeAsset a = normalizeAsset b"
  by (auto simp: PoolID_def Let_def)

text \<open>An asset name that uses none of the characters a pool name is split at.\<close>

definition plain_asset :: "string \<Rightarrow> bool" where
  "plain_asset a \<longleftrightarrow> set (normalizeAsset a) \<inter> {CHR ''-'', CHR ''_'', CHR ''/''} = {}"

lemma trimmed_normalizeAsset [simp]: "trimmed (normalizeAsset a)"
proof -
  have "trimmed AssetWPKN" by (simp add: AssetWPKN_def trimmed_def is_space_def)
  moreover have "normalizeAsset a = ToUpper (TrimSpace a) \<or> normalizeAsset a = AssetWPKN"
    by (simp add: normalizeAsset_def Let_def)
  ultimately show ?thesis by auto
qed

lemma ReplaceAll_absent: "a \<notin> set s \<Longrightarrow> ReplaceAll s a b = s"
  by (auto simp: ReplaceAll_def intro: map_idI)

lemma normalizePoolID_pair:
  assumes "trimmed x" "trimmed y" "x \<noteq> []" "y \<noteq> []"
    and "set x \<inter> {CHR ''-'', CHR ''_'', CHR ''/''} = {}" "set y \<inter> {CHR ''-'', CHR ''_'', CHR ''/''} = {}"
  shows "normalizePoolID (x @ ''-'' @ y) = PoolID x y"
proof -
  have "trimmed (x @ ''-'' @ y)" using assms(1-4) by (auto simp: trimmed_def hd_append)
  moreover have "Split (x @ ''-'' @ y) CHR ''-'' = [x, y]"
    using assms(5,6) by (simp add: Split_append Split_no_sep)
  ultimately show ?thesis
    using assms(5,6) by (simp add: normalizePoolID_def Let_def ReplaceAll_absent)
qed

lemma normalizePoolID_PoolID:
  assumes "plain_asset a" and "plain_asset b"
  shows "normalizePoolID (PoolID a b) = PoolID a b"
proof (cases "PoolID a b = []")
  case True
  then show ?thesis
    by (simp add: normalizePoolID_def TrimSpace_def ReplaceAll_def ToUpper_def Let_def)
next
  case False
  let ?x = "normalizeAsset a" and ?y = "normalizeAsset b"
  from False have ne: "?x \<noteq> []" "?y \<noteq> []" "?x \<noteq> ?y" by (simp_all add: PoolID_Nil_iff)
  have "normalizePoolID (?x @ ''-'' @ ?y) = PoolID ?x ?y" and "normalizePoolID (?y @ ''-'' @ ?x) = PoolID ?y ?x"
    using assms ne by (intro normalizePoolID_pair; simp add: plain_asset_def)+
  then show ?thesis
    using ne by (simp add: PoolID_def [of a b] Let_def) (simp add: PoolID_commute PoolID_def Let_def)
qed

section \<open>Quotes keep the product of the reserves\<close>

lemma go_quo_posD:
  assumes "0 < go_quo a b" and "0 < b" and "in_i64 a"
  shows "0 < a"
proof (rule ccontr)
  assume "\<not> 0 < a"
  then have a: "a \<le> 0" by simp
  have q: "0 \<le> \<bar>a\<bar> div b" "\<bar>a\<bar> div b \<le> \<bar>a\<bar>"
    using assms(2) by (simp_all add: pos_imp_zdiv_nonneg_iff int_div_le)
  have "go_quo a b = i64 (- (\<bar>a\<bar> div b))"
    using a assms(2) by (cases "a = 0") (simp_all add: go_quo_def sgn_if)
  also have "\<dots> = - (\<bar>a\<bar> div b)"
    using q a assms(3) by (intro i64_id) (simp add: in_i64_def)
  finally show False using assms(1) q by simp
qed

lemma go_quo_le:
  assumes "0 < go_quo (i64 x) b" and "0 < b" and "0 \<le> x"
  shows "go_quo (i64 x) b * b \<le> x"
proof -
  have pos: "0 < i64 x" using assms(1,2) by (rule go_quo_posD) simp
  have "i64 x < 2 ^ 63" using i64_range [of x] by (simp add: in_i64_def)
  with pos assms(2) have "go_quo (i64 x) b = i64 x div b" by (intro go_quo_pos) simp_all
  moreover have "i64 x div b * b \<le> i64 x" using assms(2) by (rule int_div_mult_le)
  ultimately show ?thesis using i64_nonneg_le [OF assms(3)] by (metis order.trans)
qed

lemma i64_sum_nonzero:
  assumes "0 < x" "x < 2 ^ 63" "0 < y" "y < 2 ^ 63"
  shows "i64 (x + y) \<noteq> 0"
proof
  assume "i64 (x + y) = 0"
  with i64_cong [of "x + y"] have "(x + y) mod 2 ^ 64 = 0" by simp
  moreover have "(x + y) mod 2 ^ 64 = x + y" using assms by (intro mod_pos_pos_trivial) simp_all
  ultimately show False using assms by simp
qed

text \<open>What a quote that is given tells about its inputs.\<close>

lemma QuoteSwap_bounds:
  assumes "QuoteSwap pool assetIn amountIn = (out, True)" and "reservesFor pool assetIn = (rin, rout)"
  shows "0 < amountIn" "0 < rin" "0 < rout" "0 < out" "out < rout"
proof -
  have r: "reservesFor pool (normalizeAsset assetIn) = (rin, rout)"
    using assms(2) by (simp add: reservesFor_def)
  show "0 < amountIn" "0 < rin" "0 < rout" "0 < out" "out < rout"
    using assms(1) by (auto simp: QuoteSwap_def r Let_def split: if_splits)
qed

definition fee_of :: "AMMPool \<Rightarrow> int" where
  "fee_of pool = (if pool_FeeBps pool \<le> 0 then AMMFeeBps else pool_FeeBps pool)"

lemma QuoteSwap_shape:
  assumes "QuoteSwap pool assetIn amountIn = (out, True)" and "reservesFor pool assetIn = (rin, rout)"
    and "in_i64 (pool_FeeBps pool)"
  obtains af where "af = go_quo (i64 (amountIn * (10000 - fee_of pool))) 10000" "0 < af"
    "out = go_quo (i64 (rout * af)) (i64 (rin + af))"
proof -
  have r: "reservesFor pool (normalizeAsset assetIn) = (rin, rout)"
    using assms(2) by (simp add: reservesFor_def)
  have "i64 (10000 - fee_of pool) = 10000 - fee_of pool"
    using assms(3) by (intro i64_id) (auto simp: in_i64_def fee_of_def AMMFeeBps_def)
  with assms(1) that show ?thesis
    by (auto simp: QuoteSwap_def r Let_def fee_of_def AMMDenominatorBps_def split: if_splits)
qed

lemma QuoteSwap_after_fee:
  assumes "0 < go_quo (i64 (amountIn * (10000 - fee))) 10000" and "0 < amountIn" and "0 < fee" "fee \<le> 10000"
  shows "go_quo (i64 (amountIn * (10000 - fee))) 10000 \<le> amountIn"
proof -
  let ?af = "go_quo (i64 (amountIn * (10000 - fee))) 10000"
  have "?af * 10000 \<le> amountIn * (10000 - fee)"
    using assms by (intro go_quo_le) simp_all
  also have "\<dots> \<le> amountIn * 10000" using assms by (intro mult_left_mono) simp_all
  finally show ?thesis by simp
qed

lemma QuoteSwap_product:
  assumes q: "QuoteSwap pool assetIn amountIn = (out, True)" and r: "reservesFor pool assetIn = (rin, rout)"
    and fee: "in_i64 (pool_FeeBps pool)" "pool_FeeBps pool \<le> 10000" and room: "rin + amountIn < 2 ^ 63"
  shows "rin * rout \<le> (rin + amountIn) * (rout - out)"
proof -
  note b = QuoteSwap_bounds [OF q r]
  obtain af where af: "af = go_quo (i64 (amountIn * (10000 - fee_of pool))) 10000" "0 < af"
    and out: "out = go_quo (i64 (rout * af)) (i64 (rin + af))"
    using QuoteSwap_shape [OF q r fee(1)] by metis
  have "0 < fee_of pool" "fee_of pool \<le> 10000"
    using fee(2) by (auto simp: fee_of_def AMMFeeBps_def)
  with af b(1) have af_le: "af \<le> amountIn" using QuoteSwap_after_fee by simp
  then have "i64 (rin + af) = rin + af" using b(2) af(2) room by (intro i64_small) simp_all
  with out b(4) have "out * (rin + af) \<le> rout * af"
    using go_quo_le [of "rout * af" "rin + af"] b(2,3) af(2) by simp
  then have "out * rin \<le> (rout - out) * af" by (simp add: algebra_simps)
  also have "\<dots> \<le> (rout - out) * amountIn" using af_le b(5) by (intro mult_left_mono) simp_all
  finally show ?thesis by (simp add: algebra_simps)
qed

text \<open>The divisor of the quote is never zero, so that the division cannot panic.\<close>

lemma QuoteSwap_divisor:
  assumes "0 < rin" "in_i64 rin" "0 < go_quo x b"
  shows "i64 (rin + go_quo x b) \<noteq> 0"
  using assms i64_range by (intro i64_sum_nonzero) (auto simp: in_i64_def go_quo_def)

lemma QuoteSwap_applySwap:
  assumes "QuoteSwap pool assetIn amountIn = (out, True)"
  shows "snd (applySwap pool assetIn amountIn out)"
proof -
  obtain rin rout where r: "reservesFor pool assetIn = (rin, rout)" by (cases "reservesFor pool assetIn")
  note b = QuoteSwap_bounds [OF assms r]
  show ?thesis
    using b r by (auto simp: applySwap_def reservesFor_def Let_def split: if_splits)
qed

end
