(* ===== verification/Interfaces.thy ===== *)
theory Interfaces
  imports GoPrelude
begin

text \<open>
  Contracts that several components share, as locales. \<open>balance_store\<close>: a state with
  balances that can be credited and debited; its client moves a value between accounts.
  It is interpreted on the contract accounts of the EVM adapter, on the ledger's PKN
  accounts and on the ledger's other assets. \<open>step_invariant\<close>: an invariant of one
  operation that holds of every run of operations.
\<close>

section \<open>Balances\<close>

locale balance_store =
  fixes bal :: "'s \<Rightarrow> 'k \<Rightarrow> 'v::ab_group_add"
    and same :: "'k \<Rightarrow> 'k \<Rightarrow> bool"
    and covers :: "'s \<Rightarrow> 'k \<Rightarrow> 'v \<Rightarrow> bool"
    and room :: "'s \<Rightarrow> 'k \<Rightarrow> 'v \<Rightarrow> bool"
    and credit :: "'s \<Rightarrow> 'k \<Rightarrow> 'v \<Rightarrow> 's"
    and debit :: "'s \<Rightarrow> 'k \<Rightarrow> 'v \<Rightarrow> 's"
  assumes credit_bal: "room s k v \<Longrightarrow> bal (credit s k v) j = (if same k j then bal s j + v else bal s j)"
    and debit_bal: "covers s k v \<Longrightarrow> bal (debit s k v) j = (if same k j then bal s j - v else bal s j)"
    and same_refl: "same k k"
    and same_bal: "same k j \<Longrightarrow> bal s k = bal s j"
begin

lemma move_from:
  assumes "covers s k v" and "room (debit s k v) j v" and "\<not> same j k"
  shows "bal (credit (debit s k v) j v) k = bal s k - v"
  using assms by (simp add: credit_bal debit_bal same_refl)

lemma move_to:
  assumes "covers s k v" and "room (debit s k v) j v" and "\<not> same k j"
  shows "bal (credit (debit s k v) j v) j = bal s j + v"
  using assms by (simp add: credit_bal debit_bal same_refl)

lemma move_other:
  assumes "covers s k v" and "room (debit s k v) j v" and "\<not> same k i" and "\<not> same j i"
  shows "bal (credit (debit s k v) j v) i = bal s i"
  using assms by (simp add: credit_bal debit_bal)

lemma move_self:
  assumes "covers s k v" and "room (debit s k v) k v"
  shows "bal (credit (debit s k v) k v) k = bal s k"
  using assms by (simp add: credit_bal debit_bal same_refl)

lemma move_pair:
  assumes "covers s k v" and "room (debit s k v) j v" and "\<not> same k j" and "\<not> same j k"
  shows "bal (credit (debit s k v) j v) k + bal (credit (debit s k v) j v) j = bal s k + bal s j"
  using assms by (simp add: move_from move_to)

end

section \<open>Invariants of runs\<close>

text \<open>
  An operation that may refuse or panic (\<open>None\<close>), and an invariant every completed
  operation keeps. \<open>run\<close> performs a list of operations in order.
\<close>

fun run_ops :: "('s \<Rightarrow> 'o \<Rightarrow> 's option) \<Rightarrow> 's \<Rightarrow> 'o list \<Rightarrow> 's option" where
  "run_ops step s [] = Some s"
| "run_ops step s (x # xs) = (case step s x of None \<Rightarrow> None | Some s' \<Rightarrow> run_ops step s' xs)"

lemma run_ops_append:
  "run_ops step s (xs @ ys) = (case run_ops step s xs of None \<Rightarrow> None | Some s' \<Rightarrow> run_ops step s' ys)"
  by (induction xs arbitrary: s) (simp_all split: option.split)

locale step_invariant =
  fixes step :: "'s \<Rightarrow> 'o \<Rightarrow> 's option"
    and good :: "'o \<Rightarrow> bool"
    and inv :: "'s \<Rightarrow> bool"
  assumes step_inv: "inv s \<Longrightarrow> good x \<Longrightarrow> step s x = Some s' \<Longrightarrow> inv s'"
begin

lemma run_inv:
  "inv s \<Longrightarrow> list_all good xs \<Longrightarrow> run_ops step s xs = Some s' \<Longrightarrow> inv s'"
proof (induction xs arbitrary: s)
  case Nil
  then show ?case by simp
next
  case (Cons x xs)
  then show ?case by (auto split: option.splits dest: step_inv)
qed

end

end
