(* ===== verification/Evm.thy ===== *)
theory Evm
  imports GoText Interfaces
begin

text \<open>
  The ledger's Ethereum side (\<open>account/evm_state.go\<close> and the EVM records of \<open>ledger.go\<close>): the
  adapter that lets go-ethereum's virtual machine work on the ledger's contract accounts.

  go-ethereum is not part of the sources. What the sources call of it is a record of
  functions, \<open>ethlib\<close>, extended by the virtual machine itself in \<open>env\<close>; every definition
  that needs it takes the record as an argument. An address is its \<open>Hex()\<close> form, a hash its
  \<open>Hex()\<close> form, \<open>uint256.Int\<close> is \<open>256 word\<close>, and nil log pointers are \<open>None\<close>.

  Shown: what a read returns after a write, that transfers conserve balances, and that
  a snapshot is restored. Snapshots do not cover logs or the refund counter.
\<close>

type_synonym u256 = "256 word"

record eth_tx =
  eth_To :: "string option"
  eth_Data :: bytes
  eth_Value :: int
  eth_Nonce :: u64
  eth_Gas :: u64
  eth_Hash :: string

text \<open>
  \<open>sha256\<close> is \<open>sha256.Sum256\<close>; the rest is go-ethereum: \<open>common.FromHex\<close>,
  \<open>types.Transaction.UnmarshalBinary\<close>, \<open>types.Sender\<close> with the signer of a chain,
  \<open>common.HexToAddress\<close>, \<open>common.HexToHash\<close> and \<open>crypto.Keccak256Hash\<close>.
\<close>

record ethlib =
  sha256 :: "bytes \<Rightarrow> bytes"
  FromHex :: "string \<Rightarrow> bytes"
  UnmarshalBinary :: "bytes \<Rightarrow> eth_tx option"
  Sender :: "int \<Rightarrow> eth_tx \<Rightarrow> string option"
  HexToAddress :: "string \<Rightarrow> string"
  HexToHash :: "string \<Rightarrow> string"
  Keccak256Hash :: "bytes \<Rightarrow> string"

section \<open>Contract accounts and the adapter\<close>

record EVMAccount =
  ea_Nonce :: u64
  ea_Balance :: string
  ea_Code :: string
  ea_Storage :: "(string, string) gomap"

definition EVMAccount_zero :: EVMAccount where
  "EVMAccount_zero = \<lparr>ea_Nonce = 0, ea_Balance = [], ea_Code = [], ea_Storage = fmempty\<rparr>"

record EVMLog =
  elog_Address :: string
  elog_Topics :: "string list"
  elog_Data :: string

record EVMReceipt =
  rc_TransactionHash :: string
  rc_ContractAddress :: string
  rc_GasUsed :: u64
  rc_Logs :: "EVMLog list"
  rc_Status :: int

record eth_log =
  log_Address :: string
  log_Topics :: "string list"
  log_Data :: bytes
  log_Index :: nat

record evmStateAdapter =
  ad_accounts :: "(string, EVMAccount) gomap"
  ad_snapshots :: "(string, EVMAccount) gomap list"
  ad_refund :: u64
  ad_logs :: "eth_log option list"

definition newEVMStateAdapter :: "(string, EVMAccount) gomap \<Rightarrow> evmStateAdapter" where
  "newEVMStateAdapter accounts = \<lparr>ad_accounts = accounts, ad_snapshots = [], ad_refund = 0, ad_logs = []\<rparr>"

definition evmAddressKey :: "string \<Rightarrow> string" where
  "evmAddressKey addr = ToLower addr"

text \<open>
  \<open>evmBalanceFromString\<close>: the decimal text of a balance; anything that is not a decimal
  number, is negative or does not fit reads as zero.
\<close>

definition big_SetString :: "string \<Rightarrow> int option" where
  "big_SetString s =
     (let (neg, ds) = (case s of c # t \<Rightarrow> if c = CHR ''-'' then (True, t)
                                          else if c = CHR ''+'' then (False, t) else (False, s)
                       | [] \<Rightarrow> (False, s))
      in if ds = [] \<or> \<not> list_all is_digit ds then None
         else Some (if neg then - int (digits_val ds) else int (digits_val ds)))"

definition evmBalanceFromString :: "string \<Rightarrow> u256" where
  "evmBalanceFromString value =
     (if value = [] then 0
      else case big_SetString value of
          None \<Rightarrow> 0
        | Some bigValue \<Rightarrow> if bigValue < 0 then 0 else if 2 ^ 256 \<le> bigValue then 0 else word_of_int bigValue)"

definition balanceString :: "u256 \<Rightarrow> string" where
  "balanceString balance = nat_digits (unat balance)"

definition ad_account :: "evmStateAdapter \<Rightarrow> string \<Rightarrow> EVMAccount" where
  "ad_account s addr = mget EVMAccount_zero (ad_accounts s) (evmAddressKey addr)"

definition putAccount :: "evmStateAdapter \<Rightarrow> string \<Rightarrow> EVMAccount \<Rightarrow> evmStateAdapter" where
  "putAccount s addr account = s\<lparr>ad_accounts := fmupd (evmAddressKey addr) account (ad_accounts s)\<rparr>"

definition Exist :: "evmStateAdapter \<Rightarrow> string \<Rightarrow> bool" where
  "Exist s addr \<longleftrightarrow> mhas (ad_accounts s) (evmAddressKey addr)"

definition CreateAccount :: "evmStateAdapter \<Rightarrow> string \<Rightarrow> evmStateAdapter" where
  "CreateAccount s addr = (if \<not> Exist s addr then putAccount s addr EVMAccount_zero else s)"

definition CreateContract :: "evmStateAdapter \<Rightarrow> string \<Rightarrow> evmStateAdapter" where
  "CreateContract s addr = CreateAccount s addr"

definition Touch :: "evmStateAdapter \<Rightarrow> string \<Rightarrow> evmStateAdapter" where
  "Touch s addr = CreateAccount s addr"

definition GetBalance :: "evmStateAdapter \<Rightarrow> string \<Rightarrow> u256" where
  "GetBalance s addr = evmBalanceFromString (ea_Balance (ad_account s addr))"

definition SubBalance :: "evmStateAdapter \<Rightarrow> string \<Rightarrow> u256 \<Rightarrow> evmStateAdapter \<times> u256" where
  "SubBalance s addr amount =
     (let account = ad_account s addr;
          balance = evmBalanceFromString (ea_Balance account);
          balance = (if balance < amount then 0 else balance - amount)
      in (putAccount s addr (account\<lparr>ea_Balance := balanceString balance\<rparr>), balance))"

definition AddBalance :: "evmStateAdapter \<Rightarrow> string \<Rightarrow> u256 \<Rightarrow> evmStateAdapter \<times> u256" where
  "AddBalance s addr amount =
     (let account = ad_account s addr;
          balance = evmBalanceFromString (ea_Balance account);
          balance = balance + amount
      in (putAccount s addr (account\<lparr>ea_Balance := balanceString balance\<rparr>), balance))"

definition GetNonce :: "evmStateAdapter \<Rightarrow> string \<Rightarrow> u64" where
  "GetNonce s addr = ea_Nonce (ad_account s addr)"

definition SetNonce :: "evmStateAdapter \<Rightarrow> string \<Rightarrow> u64 \<Rightarrow> evmStateAdapter" where
  "SetNonce s addr nonce = putAccount s addr ((ad_account s addr)\<lparr>ea_Nonce := nonce\<rparr>)"

definition evmCode :: "(string, EVMAccount) gomap \<Rightarrow> string \<Rightarrow> bytes" where
  "evmCode accounts address =
     (let account = mget EVMAccount_zero accounts (ToLower address);
          codeHex = TrimPrefix (ea_Code account) ''0x''
      in if codeHex = [] then []
         else case hex_decode codeHex of None \<Rightarrow> [] | Some code \<Rightarrow> code)"

definition GetCode :: "evmStateAdapter \<Rightarrow> string \<Rightarrow> bytes" where
  "GetCode s addr = evmCode (ad_accounts s) addr"

definition zero_hash :: string where
  "zero_hash = ''0x'' @ replicate 64 CHR ''0''"

definition GetCodeHash :: "'a ethlib_scheme \<Rightarrow> evmStateAdapter \<Rightarrow> string \<Rightarrow> string" where
  "GetCodeHash L s addr = (let code = GetCode s addr in if length code = 0 then zero_hash else Keccak256Hash L code)"

definition SetCode :: "evmStateAdapter \<Rightarrow> string \<Rightarrow> bytes \<Rightarrow> evmStateAdapter \<times> bytes" where
  "SetCode s addr code =
     (let account = ad_account s addr; previous = GetCode s addr
      in (putAccount s addr (account\<lparr>ea_Code := ''0x'' @ hex_encode code\<rparr>), previous))"

definition GetCodeSize :: "evmStateAdapter \<Rightarrow> string \<Rightarrow> nat" where
  "GetCodeSize s addr = length (GetCode s addr)"

definition AddRefund :: "evmStateAdapter \<Rightarrow> u64 \<Rightarrow> evmStateAdapter" where
  "AddRefund s gas = s\<lparr>ad_refund := ad_refund s + gas\<rparr>"

definition SubRefund :: "evmStateAdapter \<Rightarrow> u64 \<Rightarrow> evmStateAdapter" where
  "SubRefund s gas = (if gas > ad_refund s then s\<lparr>ad_refund := 0\<rparr> else s\<lparr>ad_refund := ad_refund s - gas\<rparr>)"

definition GetRefund :: "evmStateAdapter \<Rightarrow> u64" where
  "GetRefund s = ad_refund s"

definition GetState :: "'a ethlib_scheme \<Rightarrow> evmStateAdapter \<Rightarrow> string \<Rightarrow> string \<Rightarrow> string" where
  "GetState L s addr key = HexToHash L (mget [] (ea_Storage (ad_account s addr)) (ToLower key))"

definition GetStateAndCommittedState :: "'a ethlib_scheme \<Rightarrow> evmStateAdapter \<Rightarrow> string \<Rightarrow> string \<Rightarrow> string \<times> string" where
  "GetStateAndCommittedState L s addr key = (let value = GetState L s addr key in (value, value))"

definition SetState :: "'a ethlib_scheme \<Rightarrow> evmStateAdapter \<Rightarrow> string \<Rightarrow> string \<Rightarrow> string \<Rightarrow> evmStateAdapter \<times> string" where
  "SetState L s addr key value =
     (let account = ad_account s addr;
          old = HexToHash L (mget [] (ea_Storage account) (ToLower key));
          account = account\<lparr>ea_Storage := fmupd (ToLower key) (ToLower value) (ea_Storage account)\<rparr>
      in (putAccount s addr account, old))"

text \<open>
  Transient storage and access lists are stubs: writes are dropped, reads answer zero and every address and slot counts as accessed.
\<close>

definition GetTransientState :: "evmStateAdapter \<Rightarrow> string \<Rightarrow> string \<Rightarrow> string" where
  "GetTransientState s addr key = zero_hash"

definition SetTransientState :: "evmStateAdapter \<Rightarrow> string \<Rightarrow> string \<Rightarrow> string \<Rightarrow> evmStateAdapter" where
  "SetTransientState s addr key value = s"

definition HasSelfDestructed :: "evmStateAdapter \<Rightarrow> string \<Rightarrow> bool" where
  "HasSelfDestructed s addr \<longleftrightarrow> False"

definition AddressInAccessList :: "evmStateAdapter \<Rightarrow> string \<Rightarrow> bool" where
  "AddressInAccessList s addr \<longleftrightarrow> True"

definition SlotInAccessList :: "evmStateAdapter \<Rightarrow> string \<Rightarrow> string \<Rightarrow> bool \<times> bool" where
  "SlotInAccessList s addr slot = (True, True)"

definition AddAddressToAccessList :: "evmStateAdapter \<Rightarrow> string \<Rightarrow> evmStateAdapter" where
  "AddAddressToAccessList s addr = s"

definition AddSlotToAccessList :: "evmStateAdapter \<Rightarrow> string \<Rightarrow> string \<Rightarrow> evmStateAdapter" where
  "AddSlotToAccessList s addr slot = s"

definition SelfDestruct :: "evmStateAdapter \<Rightarrow> string \<Rightarrow> evmStateAdapter" where
  "SelfDestruct s addr = putAccount s addr ((ad_account s addr)\<lparr>ea_Code := [], ea_Storage := fmempty\<rparr>)"

definition IsNewContract :: "evmStateAdapter \<Rightarrow> string \<Rightarrow> bool" where
  "IsNewContract s addr \<longleftrightarrow> Exist s addr \<and> length (GetCode s addr) > 0"

definition Empty :: "evmStateAdapter \<Rightarrow> string \<Rightarrow> bool" where
  "Empty s addr \<longleftrightarrow> (let account = ad_account s addr in
     ea_Nonce account = 0 \<and> ea_Balance account = [] \<and> ea_Code account = [] \<and> fmdom (ea_Storage account) = {||})"

text \<open>
  Snapshots are deep copies (\<open>copyEVMAccountMap\<close>); on values that do not change in place a
  copy is the value itself.
\<close>

definition copyEVMAccountMap :: "(string, EVMAccount) gomap \<Rightarrow> (string, EVMAccount) gomap" where
  "copyEVMAccountMap m = m"

definition RevertToSnapshot :: "evmStateAdapter \<Rightarrow> int \<Rightarrow> evmStateAdapter" where
  "RevertToSnapshot s i =
     (if i < 0 \<or> i \<ge> int (length (ad_snapshots s)) then s
      else s\<lparr>ad_accounts := copyEVMAccountMap (ad_snapshots s ! nat i),
             ad_snapshots := take (nat i) (ad_snapshots s)\<rparr>)"

definition Snapshot :: "evmStateAdapter \<Rightarrow> evmStateAdapter \<times> int" where
  "Snapshot s =
     (let s' = s\<lparr>ad_snapshots := ad_snapshots s @ [copyEVMAccountMap (ad_accounts s)]\<rparr>
      in (s', int (length (ad_snapshots s')) - 1))"

definition AddLog :: "evmStateAdapter \<Rightarrow> eth_log option \<Rightarrow> evmStateAdapter" where
  "AddLog s log =
     (let log = map_option (\<lambda>l. l\<lparr>log_Index := length (ad_logs s)\<rparr>) log
      in s\<lparr>ad_logs := ad_logs s @ [log]\<rparr>)"

fun evmLogsFromTypes :: "eth_log option list \<Rightarrow> EVMLog list" where
  "evmLogsFromTypes [] = []"
| "evmLogsFromTypes (None # logs) = evmLogsFromTypes logs"
| "evmLogsFromTypes (Some log # logs) =
     \<lparr>elog_Address = ToLower (log_Address log), elog_Topics = map ToLower (log_Topics log),
      elog_Data = ''0x'' @ hex_encode (log_Data log)\<rparr> # evmLogsFromTypes logs"

section \<open>The virtual machine\<close>

text \<open>The block and transaction context \<open>newLedgerEVM\<close> builds, with its two callbacks.\<close>

record evm_context =
  ctx_CanTransfer :: "evmStateAdapter \<Rightarrow> string \<Rightarrow> u256 \<Rightarrow> bool"
  ctx_Transfer :: "evmStateAdapter \<Rightarrow> string \<Rightarrow> string \<Rightarrow> u256 \<Rightarrow> evmStateAdapter"
  ctx_GetHash :: "u64 \<Rightarrow> string"
  ctx_Coinbase :: string
  ctx_GasLimit :: u64
  ctx_BlockNumber :: int
  ctx_Time :: u64
  ctx_Difficulty :: int
  ctx_BaseFee :: int
  ctx_BlobBaseFee :: int
  ctx_NoBaseFee :: bool
  ctx_Origin :: string
  ctx_GasPrice :: u256

definition zero_address :: string where
  "zero_address = ''0x'' @ replicate 40 CHR ''0''"

definition canTransfer :: "evmStateAdapter \<Rightarrow> string \<Rightarrow> u256 \<Rightarrow> bool" where
  "canTransfer db addr amount \<longleftrightarrow> GetBalance db addr \<ge> amount"

definition transfer :: "evmStateAdapter \<Rightarrow> string \<Rightarrow> string \<Rightarrow> u256 \<Rightarrow> evmStateAdapter" where
  "transfer db from to amount = fst (AddBalance (fst (SubBalance db from amount)) to amount)"

definition newLedgerEVM :: "string \<Rightarrow> evm_context" where
  "newLedgerEVM origin =
     \<lparr>ctx_CanTransfer = canTransfer, ctx_Transfer = transfer, ctx_GetHash = (\<lambda>_. zero_hash),
      ctx_Coinbase = zero_address, ctx_GasLimit = 30000000, ctx_BlockNumber = 0, ctx_Time = 0,
      ctx_Difficulty = 0, ctx_BaseFee = 0, ctx_BlobBaseFee = 0, ctx_NoBaseFee = True,
      ctx_Origin = origin, ctx_GasPrice = 0\<rparr>"

text \<open>
  The machine: \<open>evm_Create ctx db origin code gas value\<close> returns the adapter afterwards, the
  created address, the gas left and whether it failed; \<open>evm_Call\<close> the same without an
  address; \<open>evm_StaticCall\<close> returns data. \<open>gas_Used\<close> is \<open>GasBudget.Used\<close>.
\<close>

record env = ethlib +
  evm_Create :: "evm_context \<Rightarrow> evmStateAdapter \<Rightarrow> string \<Rightarrow> bytes \<Rightarrow> u64 \<Rightarrow> u256 \<Rightarrow> evmStateAdapter \<times> string \<times> u64 \<times> bool"
  evm_Call :: "evm_context \<Rightarrow> evmStateAdapter \<Rightarrow> string \<Rightarrow> string \<Rightarrow> bytes \<Rightarrow> u64 \<Rightarrow> u256 \<Rightarrow> evmStateAdapter \<times> u64 \<times> bool"
  evm_StaticCall :: "evm_context \<Rightarrow> evmStateAdapter \<Rightarrow> string \<Rightarrow> string \<Rightarrow> bytes \<Rightarrow> u64 \<Rightarrow> evmStateAdapter \<times> bytes \<times> bool"
  gas_Used :: "u64 \<Rightarrow> u64 \<Rightarrow> u64"

section \<open>Reads after writes\<close>

lemma big_SetString_nat_digits [simp]: "big_SetString (nat_digits n) = Some (int n)"
proof -
  obtain c t where ct: "nat_digits n = c # t" by (cases "nat_digits n") auto
  have "is_digit c" using nat_digits_hd [of n] ct by simp
  then have "c \<noteq> CHR ''-''" and "c \<noteq> CHR ''+''" by (auto simp: is_digit_def)
  moreover have "list_all is_digit (c # t)" and "digits_val (c # t) = n"
    using nat_digits_all [of n] digits_val_nat_digits [of n] ct by simp_all
  ultimately show ?thesis by (simp add: big_SetString_def ct)
qed

lemma evmBalance_roundtrip [simp]: "evmBalanceFromString (balanceString w) = w"
proof -
  have "uint w < 2 ^ 256" using unsigned_less [of w, where 'a = int] by simp
  then show ?thesis by (simp add: evmBalanceFromString_def balanceString_def)
qed

lemma ad_account_putAccount [simp]:
  "ad_account (putAccount s a x) b = (if evmAddressKey a = evmAddressKey b then x else ad_account s b)"
  by (simp add: ad_account_def putAccount_def)

lemma ad_account_key: "evmAddressKey a = evmAddressKey b \<Longrightarrow> ad_account s a = ad_account s b"
  by (simp add: ad_account_def)

lemma GetBalance_AddBalance:
  "GetBalance (fst (AddBalance s k v)) j =
     (if evmAddressKey k = evmAddressKey j then GetBalance s j + v else GetBalance s j)"
  by (simp add: GetBalance_def AddBalance_def Let_def ad_account_def putAccount_def)

lemma GetBalance_SubBalance:
  "v \<le> GetBalance s k \<Longrightarrow> GetBalance (fst (SubBalance s k v)) j =
     (if evmAddressKey k = evmAddressKey j then GetBalance s j - v else GetBalance s j)"
  by (auto simp: GetBalance_def SubBalance_def Let_def ad_account_def putAccount_def not_less)

lemma GetBalance_key: "evmAddressKey k = evmAddressKey j \<Longrightarrow> GetBalance s k = GetBalance s j"
  by (simp add: GetBalance_def ad_account_def)

interpretation evm_balance: balance_store
  GetBalance "\<lambda>k j. evmAddressKey k = evmAddressKey j" canTransfer "\<lambda>_ _ _. True"
  "\<lambda>s k v. fst (AddBalance s k v)" "\<lambda>s k v. fst (SubBalance s k v)"
  by unfold_locales
    (auto simp: GetBalance_AddBalance GetBalance_SubBalance canTransfer_def intro: GetBalance_key)

lemma GetNonce_SetNonce:
  "GetNonce (SetNonce s a n) b = (if evmAddressKey a = evmAddressKey b then n else GetNonce s b)"
  by (simp add: GetNonce_def SetNonce_def ad_account_def putAccount_def)

lemma GetCode_SetCode:
  "GetCode (fst (SetCode s a code)) b = (if evmAddressKey a = evmAddressKey b then code else GetCode s b)"
proof (cases "evmAddressKey a = evmAddressKey b")
  case True
  have "TrimPrefix (''0x'' @ hex_encode code) ''0x'' = hex_encode code"
    by (simp add: TrimPrefix_def HasPrefix_def)
  moreover have "hex_encode code = [] \<longleftrightarrow> code = []"
    by (cases code) (simp_all add: hex_encode_def)
  ultimately show ?thesis
    using True by (simp add: GetCode_def SetCode_def evmCode_def Let_def putAccount_def evmAddressKey_def)
next
  case False
  then show ?thesis
    by (simp add: GetCode_def SetCode_def evmCode_def Let_def putAccount_def evmAddressKey_def)
qed

lemma GetState_SetState:
  assumes "HexToHash L (ToLower v) = v"
  shows "GetState L (fst (SetState L s a k v)) b j =
    (if evmAddressKey a = evmAddressKey b \<and> ToLower k = ToLower j then v else GetState L s b j)"
  using assms by (auto simp: GetState_def SetState_def Let_def ad_account_def putAccount_def)

text \<open>
  What the machine cannot rely on: a value put into transient storage is lost, and the committed value of a slot is the one just written.
\<close>

lemma transient_state_lost: "GetTransientState (SetTransientState s addr key value) addr key = zero_hash"
  by (simp add: GetTransientState_def)

lemma committed_state_is_current:
  assumes "HexToHash L (ToLower v) = v"
  shows "GetStateAndCommittedState L (fst (SetState L s addr key v)) addr key = (v, v)"
  by (simp add: GetStateAndCommittedState_def GetState_SetState [OF assms] Let_def)

section \<open>Snapshots\<close>

lemma Snapshot_restore:
  assumes "Snapshot s = (s1, i)" and "take (length (ad_snapshots s1)) (ad_snapshots s2) = ad_snapshots s1"
  shows "ad_accounts (RevertToSnapshot s2 i) = ad_accounts s"
    and "ad_snapshots (RevertToSnapshot s2 i) = ad_snapshots s"
proof -
  let ?n = "length (ad_snapshots s)"
  have i: "i = int ?n" and s1: "ad_snapshots s1 = ad_snapshots s @ [ad_accounts s]"
    using assms(1) by (auto simp: Snapshot_def Let_def copyEVMAccountMap_def)
  have take: "take (Suc ?n) (ad_snapshots s2) = ad_snapshots s @ [ad_accounts s]"
    using assms(2) by (simp add: s1)
  then have len: "?n < length (ad_snapshots s2)"
    by (metis length_append_singleton length_take lessI min.strict_boundedE)
  have "ad_snapshots s2 ! ?n = ad_accounts s"
    using take by (metis lessI nth_append_length nth_take)
  moreover have "take ?n (ad_snapshots s2) = ad_snapshots s"
    using take by (metis append_eq_conv_conj lessI less_imp_le take_take min.absorb1)
  ultimately show "ad_accounts (RevertToSnapshot s2 i) = ad_accounts s"
    and "ad_snapshots (RevertToSnapshot s2 i) = ad_snapshots s"
    using len by (simp_all add: RevertToSnapshot_def i copyEVMAccountMap_def)
qed

lemma RevertToSnapshot_keeps:
  "ad_logs (RevertToSnapshot s i) = ad_logs s" "ad_refund (RevertToSnapshot s i) = ad_refund s"
  by (simp_all add: RevertToSnapshot_def)

end
