(* ===== verification/Transactions.thy ===== *)
theory Transactions
  imports GoJson Crypto Swap Evm
begin

text \<open>
  Signed transactions (\<open>account/transaction.go\<close>): the record and its NFT and AMM payloads,
  kinds, normalisation and well-formedness, the signed content, signing and verification
  of native (RSA) and Ethereum transactions, and the constructors.

  The Go methods have pointer receivers and normalise the transaction in place, so the
  checks return the transaction afterwards together with their answer.
\<close>

definition PokoinSwapRouterAddress :: string where
  "PokoinSwapRouterAddress = ''0x0000000000000000000000000000000000002606''"

definition PokoinSwapCalldataPrefix :: string where
  "PokoinSwapCalldataPrefix = ''pokoinswap:v1:''"

record NFTPayload =
  nft_CollectionID :: string
  nft_TokenID :: string
  nft_Owner :: string
  nft_MetadataURI :: string
  nft_MetadataHash :: string
  nft_ImageURI :: string
  nft_Burned :: bool

definition NFTPayload_zero :: NFTPayload where
  "NFTPayload_zero = \<lparr>nft_CollectionID = [], nft_TokenID = [], nft_Owner = [], nft_MetadataURI = [],
     nft_MetadataHash = [], nft_ImageURI = [], nft_Burned = False\<rparr>"

record NFTToken =
  tok_CollectionID :: string
  tok_TokenID :: string
  tok_Owner :: string
  tok_Minter :: string
  tok_MetadataURI :: string
  tok_MetadataHash :: string
  tok_ImageURI :: string
  tok_MintTx :: string
  tok_LastTx :: string
  tok_Burned :: bool

record AMMPayload =
  amm_Action :: string
  amm_PoolID :: string
  amm_Asset :: string
  amm_AssetA :: string
  amm_AssetB :: string
  amm_AssetIn :: string
  amm_AssetOut :: string
  amm_Amount :: int
  amm_AmountA :: int
  amm_AmountB :: int
  amm_AmountIn :: int
  amm_MinAmountOut :: int
  amm_AmountOut :: int
  amm_FeeBps :: int

definition AMMPayload_zero :: AMMPayload where
  "AMMPayload_zero = \<lparr>amm_Action = [], amm_PoolID = [], amm_Asset = [], amm_AssetA = [], amm_AssetB = [],
     amm_AssetIn = [], amm_AssetOut = [], amm_Amount = 0, amm_AmountA = 0, amm_AmountB = 0,
     amm_AmountIn = 0, amm_MinAmountOut = 0, amm_AmountOut = 0, amm_FeeBps = 0\<rparr>"

record SignedTransaction =
  tx_ID :: string
  tx_From :: string
  tx_To :: string
  tx_Amount :: int
  tx_Signature :: string
  tx_Kind :: string
  tx_Nonce :: u64
  tx_Raw :: string
  tx_ChainID :: int
  tx_NFT :: "NFTPayload option"
  tx_AMM :: "AMMPayload option"

definition SignedTransaction_zero :: SignedTransaction where
  "SignedTransaction_zero = \<lparr>tx_ID = [], tx_From = [], tx_To = [], tx_Amount = 0, tx_Signature = [],
     tx_Kind = [], tx_Nonce = 0, tx_Raw = [], tx_ChainID = 0, tx_NFT = None, tx_AMM = None\<rparr>"

section \<open>NFT names\<close>

definition normalizeNFTID :: "string \<Rightarrow> string" where
  "normalizeNFTID value = ToLower (ReplaceAll (TrimSpace value) CHR ''/'' CHR ''-'')"

definition normalizeNFTAccount :: "string \<Rightarrow> string" where
  "normalizeNFTAccount value =
     (let value = TrimSpace value in
      if HasPrefix value ''0x'' \<or> HasPrefix value ''0X'' then ToLower value else value)"

definition sameNFTAccount :: "string \<Rightarrow> string \<Rightarrow> bool" where
  "sameNFTAccount left right =
     (let left = normalizeNFTAccount left; right = normalizeNFTAccount right in
      if HasPrefix left ''0x'' \<or> HasPrefix right ''0x'' then EqualFold left right else left = right)"

definition NFTKey :: "string \<Rightarrow> string \<Rightarrow> string" where
  "NFTKey collectionID tokenID =
     (let collectionID = normalizeNFTID collectionID; tokenID = normalizeNFTID tokenID in
      if collectionID = [] \<or> tokenID = [] then [] else collectionID @ ''/'' @ tokenID)"

section \<open>Kinds\<close>

definition IsEVM :: "SignedTransaction \<Rightarrow> bool" where
  "IsEVM s \<longleftrightarrow> tx_Kind s = ''evm'' \<or> HasPrefix (tx_Signature s) ''evm:''"

definition IsMint :: "SignedTransaction \<Rightarrow> bool" where
  "IsMint s \<longleftrightarrow> tx_Kind s = ''mint''"

definition IsNFTMint :: "SignedTransaction \<Rightarrow> bool" where
  "IsNFTMint s \<longleftrightarrow> tx_Kind s = ''nft_mint''"

definition IsNFTTransfer :: "SignedTransaction \<Rightarrow> bool" where
  "IsNFTTransfer s \<longleftrightarrow> tx_Kind s = ''nft_transfer''"

definition IsNFT :: "SignedTransaction \<Rightarrow> bool" where
  "IsNFT s \<longleftrightarrow> IsNFTMint s \<or> IsNFTTransfer s"

definition IsAMM :: "SignedTransaction \<Rightarrow> bool" where
  "IsAMM s \<longleftrightarrow> tx_AMM s \<noteq> None \<or> HasPrefix (tx_Kind s) ''amm_'' \<or> HasPrefix (tx_Kind s) ''asset_''"

section \<open>Normalisation and well-formedness\<close>

text \<open>The assignments to the payload that normalisation, decoding and encoding share.\<close>

definition normalizeFields :: "AMMPayload \<Rightarrow> AMMPayload" where
  "normalizeFields p = p\<lparr>
     amm_Action := ToLower (TrimSpace (amm_Action p)),
     amm_Asset := normalizeAsset (amm_Asset p),
     amm_AssetA := normalizeAsset (amm_AssetA p),
     amm_AssetB := normalizeAsset (amm_AssetB p),
     amm_AssetIn := normalizeAsset (amm_AssetIn p),
     amm_AssetOut := normalizeAsset (amm_AssetOut p),
     amm_PoolID := normalizePoolID (amm_PoolID p)\<rparr>"

definition fillPayload :: "AMMPayload \<Rightarrow> AMMPayload" where
  "fillPayload p =
     (let p = (if amm_PoolID p = [] \<and> amm_AssetA p \<noteq> [] \<and> amm_AssetB p \<noteq> []
               then p\<lparr>amm_PoolID := PoolID (amm_AssetA p) (amm_AssetB p)\<rparr> else p)
      in if amm_FeeBps p = 0 then p\<lparr>amm_FeeBps := AMMFeeBps\<rparr> else p)"

definition normalizeAMM :: "SignedTransaction \<Rightarrow> SignedTransaction" where
  "normalizeAMM s = (case tx_AMM s of
      None \<Rightarrow> s
    | Some p \<Rightarrow> let p = fillPayload (normalizeFields p) in
        s\<lparr>tx_AMM := Some p, tx_Kind := amm_Action p, tx_To := normalizeAssetAccount (tx_To s)\<rparr>)"

definition validAMM :: "SignedTransaction \<Rightarrow> SignedTransaction \<times> bool" where
  "validAMM s = (case tx_AMM s of
      None \<Rightarrow> (s, False)
    | Some _ \<Rightarrow>
        let s = normalizeAMM s in
        case tx_AMM s of None \<Rightarrow> (s, False) | Some p \<Rightarrow>
        (s, if tx_ID s = [] \<or> tx_From s = [] \<or> amm_Action p = [] then False
            else if amm_Action p = ''asset_credit'' \<or> amm_Action p = ''asset_debit'' then
              tx_To s \<noteq> [] \<and> amm_Asset p \<noteq> [] \<and> amm_Asset p \<noteq> AssetPKN \<and> amm_Amount p > 0
            else if amm_Action p = ''amm_create_pool'' then
              amm_PoolID p \<noteq> [] \<and> amm_AssetA p \<noteq> [] \<and> amm_AssetB p \<noteq> [] \<and> amm_AssetA p \<noteq> amm_AssetB p
            else if amm_Action p = ''amm_add_liquidity'' then
              amm_PoolID p \<noteq> [] \<and> amm_AmountA p > 0 \<and> amm_AmountB p > 0
            else if amm_Action p = ''amm_swap'' then
              amm_PoolID p \<noteq> [] \<and> amm_AssetIn p \<noteq> [] \<and> amm_AssetOut p \<noteq> [] \<and>
              amm_AssetIn p \<noteq> amm_AssetOut p \<and> amm_AmountIn p > 0 \<and> amm_MinAmountOut p \<ge> 0
            else False))"

definition validNFTMint :: "SignedTransaction \<Rightarrow> SignedTransaction \<times> bool" where
  "validNFTMint s = (case tx_NFT s of
      None \<Rightarrow> (s, False)
    | Some p \<Rightarrow>
        let p = p\<lparr>nft_CollectionID := normalizeNFTID (nft_CollectionID p),
                  nft_TokenID := normalizeNFTID (nft_TokenID p),
                  nft_Owner := normalizeNFTAccount (nft_Owner p)\<rparr>;
            s = s\<lparr>tx_NFT := Some p, tx_To := normalizeNFTAccount (tx_To s)\<rparr>
        in (s, tx_ID s \<noteq> [] \<and> tx_From s \<noteq> [] \<and> nft_CollectionID p \<noteq> [] \<and> nft_TokenID p \<noteq> [] \<and>
               (nft_Owner p \<noteq> [] \<or> tx_To s \<noteq> [])))"

definition validNFTTransfer :: "SignedTransaction \<Rightarrow> SignedTransaction \<times> bool" where
  "validNFTTransfer s = (case tx_NFT s of
      None \<Rightarrow> (s, False)
    | Some p \<Rightarrow>
        let p = p\<lparr>nft_CollectionID := normalizeNFTID (nft_CollectionID p),
                  nft_TokenID := normalizeNFTID (nft_TokenID p)\<rparr>;
            s = s\<lparr>tx_NFT := Some p, tx_To := normalizeNFTAccount (tx_To s)\<rparr>
        in (s, tx_ID s \<noteq> [] \<and> tx_From s \<noteq> [] \<and> tx_To s \<noteq> [] \<and> nft_CollectionID p \<noteq> [] \<and> nft_TokenID p \<noteq> []))"

section \<open>The signed content\<close>

definition marshalContentForSignature :: "SignedTransaction \<Rightarrow> bytes" where
  "marshalContentForSignature s =
     (if IsAMM s then
        let amm = (case tx_AMM s of None \<Rightarrow> AMMPayload_zero | Some p \<Rightarrow> p); amm = normalizeFields amm
        in marshal_strings [tx_ID s, tx_From s, normalizeAssetAccount (tx_To s), amm_Action amm, amm_PoolID amm,
             amm_Asset amm, amm_AssetA amm, amm_AssetB amm, amm_AssetIn amm, amm_AssetOut amm,
             Itoa (amm_Amount amm), Itoa (amm_AmountA amm), Itoa (amm_AmountB amm), Itoa (amm_AmountIn amm),
             Itoa (amm_MinAmountOut amm)]
      else if IsNFT s then
        let nft = (case tx_NFT s of None \<Rightarrow> NFTPayload_zero | Some p \<Rightarrow> p)
        in marshal_strings [tx_ID s, tx_From s, normalizeNFTAccount (tx_To s), tx_Kind s,
             normalizeNFTID (nft_CollectionID nft), normalizeNFTID (nft_TokenID nft),
             normalizeNFTAccount (nft_Owner nft), nft_MetadataURI nft, nft_MetadataHash nft, nft_ImageURI nft]
      else marshal_strings [tx_ID s, tx_From s, tx_To s, Itoa (tx_Amount s), tx_Kind s])"

definition signTransaction :: "'a ethlib_scheme \<Rightarrow> SignedTransaction \<Rightarrow> nat \<Rightarrow> nat \<Rightarrow> SignedTransaction" where
  "signTransaction L s d n =
     s\<lparr>tx_Signature := b64_encode (big_Bytes (RSASign (sha256 L) (marshalContentForSignature s) d n))\<rparr>"

section \<open>PokoinSwap call data\<close>

definition amm_payload_json :: "AMMPayload \<Rightarrow> json" where
  "amm_payload_json p =
     (let str = (\<lambda>k v. if v = [] then [] else [(k, JStr v)]);
          num = (\<lambda>k v. if v = (0::int) then [] else [(k, JNum (Itoa v))])
      in JObj ([(''action'', JStr (amm_Action p))] @ str ''poolId'' (amm_PoolID p) @ str ''asset'' (amm_Asset p) @
           str ''assetA'' (amm_AssetA p) @ str ''assetB'' (amm_AssetB p) @ str ''assetIn'' (amm_AssetIn p) @
           str ''assetOut'' (amm_AssetOut p) @ num ''amount'' (amm_Amount p) @ num ''amountA'' (amm_AmountA p) @
           num ''amountB'' (amm_AmountB p) @ num ''amountIn'' (amm_AmountIn p) @
           num ''minAmountOut'' (amm_MinAmountOut p) @ num ''amountOut'' (amm_AmountOut p) @
           num ''feeBps'' (amm_FeeBps p)))"

definition amm_payload_step :: "string \<Rightarrow> json \<Rightarrow> AMMPayload \<Rightarrow> AMMPayload option" where
  "amm_payload_step k v p =
     (if EqualFold k ''action'' then map_option (\<lambda>x. p\<lparr>amm_Action := x\<rparr>) (dec_string v (amm_Action p))
      else if EqualFold k ''poolId'' then map_option (\<lambda>x. p\<lparr>amm_PoolID := x\<rparr>) (dec_string v (amm_PoolID p))
      else if EqualFold k ''asset'' then map_option (\<lambda>x. p\<lparr>amm_Asset := x\<rparr>) (dec_string v (amm_Asset p))
      else if EqualFold k ''assetA'' then map_option (\<lambda>x. p\<lparr>amm_AssetA := x\<rparr>) (dec_string v (amm_AssetA p))
      else if EqualFold k ''assetB'' then map_option (\<lambda>x. p\<lparr>amm_AssetB := x\<rparr>) (dec_string v (amm_AssetB p))
      else if EqualFold k ''assetIn'' then map_option (\<lambda>x. p\<lparr>amm_AssetIn := x\<rparr>) (dec_string v (amm_AssetIn p))
      else if EqualFold k ''assetOut'' then map_option (\<lambda>x. p\<lparr>amm_AssetOut := x\<rparr>) (dec_string v (amm_AssetOut p))
      else if EqualFold k ''amount'' then map_option (\<lambda>x. p\<lparr>amm_Amount := x\<rparr>) (dec_int v (amm_Amount p))
      else if EqualFold k ''amountA'' then map_option (\<lambda>x. p\<lparr>amm_AmountA := x\<rparr>) (dec_int v (amm_AmountA p))
      else if EqualFold k ''amountB'' then map_option (\<lambda>x. p\<lparr>amm_AmountB := x\<rparr>) (dec_int v (amm_AmountB p))
      else if EqualFold k ''amountIn'' then map_option (\<lambda>x. p\<lparr>amm_AmountIn := x\<rparr>) (dec_int v (amm_AmountIn p))
      else if EqualFold k ''minAmountOut'' then map_option (\<lambda>x. p\<lparr>amm_MinAmountOut := x\<rparr>) (dec_int v (amm_MinAmountOut p))
      else if EqualFold k ''amountOut'' then map_option (\<lambda>x. p\<lparr>amm_AmountOut := x\<rparr>) (dec_int v (amm_AmountOut p))
      else if EqualFold k ''feeBps'' then map_option (\<lambda>x. p\<lparr>amm_FeeBps := x\<rparr>) (dec_int v (amm_FeeBps p))
      else Some p)"

definition DecodePokoinSwapCalldata :: "bytes \<Rightarrow> AMMPayload option" where
  "DecodePokoinSwapCalldata data =
     (if \<not> HasPrefix data PokoinSwapCalldataPrefix then None
      else case json_parse (drop (length PokoinSwapCalldataPrefix) data) of
          None \<Rightarrow> None
        | Some v \<Rightarrow> map_option (\<lambda>p. fillPayload (normalizeFields p))
            (dec_struct amm_payload_step v AMMPayload_zero))"

definition EncodePokoinSwapCalldata :: "AMMPayload \<Rightarrow> bytes" where
  "EncodePokoinSwapCalldata payload =
     PokoinSwapCalldataPrefix @ json_marshal (amm_payload_json (normalizeFields payload))"

definition amm_equal :: "AMMPayload \<Rightarrow> AMMPayload \<Rightarrow> bool" where
  "amm_equal a b \<longleftrightarrow>
     ToLower (TrimSpace (amm_Action a)) = ToLower (TrimSpace (amm_Action b)) \<and>
     normalizePoolID (amm_PoolID a) = normalizePoolID (amm_PoolID b) \<and>
     normalizeAsset (amm_Asset a) = normalizeAsset (amm_Asset b) \<and>
     normalizeAsset (amm_AssetA a) = normalizeAsset (amm_AssetA b) \<and>
     normalizeAsset (amm_AssetB a) = normalizeAsset (amm_AssetB b) \<and>
     normalizeAsset (amm_AssetIn a) = normalizeAsset (amm_AssetIn b) \<and>
     normalizeAsset (amm_AssetOut a) = normalizeAsset (amm_AssetOut b) \<and>
     amm_Amount a = amm_Amount b \<and> amm_AmountA a = amm_AmountA b \<and> amm_AmountB a = amm_AmountB b \<and>
     amm_AmountIn a = amm_AmountIn b \<and> amm_MinAmountOut a = amm_MinAmountOut b"

section \<open>Verification\<close>

definition EVMUnit :: int where
  "EVMUnit = 10 ^ 18"

definition decodeEVM :: "'a ethlib_scheme \<Rightarrow> SignedTransaction \<Rightarrow> eth_tx option" where
  "decodeEVM L s =
     (let raw = (if tx_Raw s = [] then TrimPrefix (tx_Signature s) ''evm:'' else tx_Raw s)
      in UnmarshalBinary L (FromHex L (''0x'' @ TrimPrefix raw ''0x'')))"

definition VerifyEVM :: "'a ethlib_scheme \<Rightarrow> SignedTransaction \<Rightarrow> string \<Rightarrow> SignedTransaction \<times> bool" where
  "VerifyEVM L s accountName = (case decodeEVM L s of None \<Rightarrow> (s, False) | Some tx \<Rightarrow>
     (case Sender L (tx_ChainID s) tx of None \<Rightarrow> (s, False) | Some from \<Rightarrow>
       (if \<not> EqualFold from accountName then (s, False)
        else if \<not> EqualFold (eth_Hash tx) (tx_ID s) then (s, False)
        else if IsAMM s then
          (if (case eth_To tx of None \<Rightarrow> True | Some to \<Rightarrow> \<not> EqualFold to (tx_To s) \<or>
                 \<not> EqualFold (tx_To s) PokoinSwapRouterAddress) then (s, False)
           else (case DecodePokoinSwapCalldata (eth_Data tx) of None \<Rightarrow> (s, False) | Some amm \<Rightarrow>
             (if tx_AMM s = None then (s, False)
              else let s = normalizeAMM s in
                (case tx_AMM s of None \<Rightarrow> (s, False) | Some p \<Rightarrow>
                   if \<not> amm_equal amm p then (s, False) else (s, eth_Nonce tx = tx_Nonce s)))))
        else (case eth_To tx of
            None \<Rightarrow> (s, tx_To s = [] \<and> length (eth_Data tx) > 0 \<and> eth_Nonce tx = tx_Nonce s)
          | Some to \<Rightarrow>
              (if \<not> EqualFold to (tx_To s) then (s, False)
               else if eth_Value tx \<noteq> tx_Amount s * EVMUnit then (s, False)
               else (s, eth_Nonce tx = tx_Nonce s))))))"

definition Verify :: "'a ethlib_scheme \<Rightarrow> SignedTransaction \<Rightarrow> string \<Rightarrow> (SignedTransaction \<times> bool) go" where
  "Verify L s accountName =
     (if IsEVM s then Some (VerifyEVM L s accountName)
      else case b64_decode (tx_Signature s) of None \<Rightarrow> Some (s, False) | Some signature \<Rightarrow>
        (case PublicKeyFromAccountName accountName of None \<Rightarrow> Some (s, False) | Some pk \<Rightarrow>
           map_option (\<lambda>ok. (s, ok))
             (VerifySignature (sha256 L) (marshalContentForSignature s) signature pk)))"

section \<open>Constructors\<close>

definition NewSignedTransaction :: "'a ethlib_scheme \<Rightarrow> string \<Rightarrow> Account \<Rightarrow> string \<Rightarrow> int \<Rightarrow> SignedTransaction" where
  "NewSignedTransaction L txid from to amount =
     (let s = SignedTransaction_zero\<lparr>tx_ID := txid, tx_From := SafeEncode from, tx_To := to, tx_Amount := amount\<rparr>
      in signTransaction L s (key_d from) (key_n from))"

definition NewMintTransaction :: "'a ethlib_scheme \<Rightarrow> string \<Rightarrow> Account \<Rightarrow> string \<Rightarrow> int \<Rightarrow> SignedTransaction" where
  "NewMintTransaction L txid from to amount =
     (let s = (NewSignedTransaction L txid from to amount)\<lparr>tx_Kind := ''mint''\<rparr>
      in signTransaction L s (key_d from) (key_n from))"

definition NewNFTMintTransaction ::
    "'a ethlib_scheme \<Rightarrow> string \<Rightarrow> Account \<Rightarrow> string \<Rightarrow> string \<Rightarrow> string \<Rightarrow> string \<Rightarrow> string \<Rightarrow> string \<Rightarrow> SignedTransaction" where
  "NewNFTMintTransaction L txid from collectionID tokenID owner metadataURI metadataHash imageURI =
     (let s = SignedTransaction_zero\<lparr>tx_ID := txid, tx_From := SafeEncode from, tx_To := normalizeNFTAccount owner,
                tx_Kind := ''nft_mint'',
                tx_NFT := Some (NFTPayload_zero\<lparr>nft_CollectionID := normalizeNFTID collectionID,
                  nft_TokenID := normalizeNFTID tokenID, nft_Owner := normalizeNFTAccount owner,
                  nft_MetadataURI := TrimSpace metadataURI, nft_MetadataHash := TrimSpace metadataHash,
                  nft_ImageURI := TrimSpace imageURI\<rparr>)\<rparr>
      in signTransaction L s (key_d from) (key_n from))"

definition NewNFTTransferTransaction ::
    "'a ethlib_scheme \<Rightarrow> string \<Rightarrow> Account \<Rightarrow> string \<Rightarrow> string \<Rightarrow> string \<Rightarrow> SignedTransaction" where
  "NewNFTTransferTransaction L txid from collectionID tokenID to =
     (let s = SignedTransaction_zero\<lparr>tx_ID := txid, tx_From := SafeEncode from, tx_To := normalizeNFTAccount to,
                tx_Kind := ''nft_transfer'',
                tx_NFT := Some (NFTPayload_zero\<lparr>nft_CollectionID := normalizeNFTID collectionID,
                  nft_TokenID := normalizeNFTID tokenID\<rparr>)\<rparr>
      in signTransaction L s (key_d from) (key_n from))"

definition newOperatorAMMTransaction ::
    "'a ethlib_scheme \<Rightarrow> string \<Rightarrow> Account \<Rightarrow> string \<Rightarrow> AMMPayload \<Rightarrow> SignedTransaction" where
  "newOperatorAMMTransaction L txid from to amm =
     (let s = SignedTransaction_zero\<lparr>tx_ID := txid, tx_From := SafeEncode from, tx_To := normalizeAssetAccount to,
                tx_Kind := amm_Action amm, tx_AMM := Some amm\<rparr>;
          s = normalizeAMM s
      in signTransaction L s (key_d from) (key_n from))"

definition NewAssetCreditTransaction ::
    "'a ethlib_scheme \<Rightarrow> string \<Rightarrow> Account \<Rightarrow> string \<Rightarrow> string \<Rightarrow> int \<Rightarrow> SignedTransaction" where
  "NewAssetCreditTransaction L txid from asset to amount =
     newOperatorAMMTransaction L txid from to
       (AMMPayload_zero\<lparr>amm_Action := ''asset_credit'', amm_Asset := asset, amm_Amount := amount\<rparr>)"

definition NewAssetDebitTransaction ::
    "'a ethlib_scheme \<Rightarrow> string \<Rightarrow> Account \<Rightarrow> string \<Rightarrow> string \<Rightarrow> int \<Rightarrow> SignedTransaction" where
  "NewAssetDebitTransaction L txid from asset accountName amount =
     newOperatorAMMTransaction L txid from accountName
       (AMMPayload_zero\<lparr>amm_Action := ''asset_debit'', amm_Asset := asset, amm_Amount := amount\<rparr>)"

definition NewAMMCreatePoolTransaction ::
    "'a ethlib_scheme \<Rightarrow> string \<Rightarrow> Account \<Rightarrow> string \<Rightarrow> string \<Rightarrow> SignedTransaction" where
  "NewAMMCreatePoolTransaction L txid from assetA assetB =
     newOperatorAMMTransaction L txid from []
       (AMMPayload_zero\<lparr>amm_Action := ''amm_create_pool'', amm_AssetA := assetA, amm_AssetB := assetB,
          amm_PoolID := PoolID assetA assetB\<rparr>)"

definition NewAMMAddLiquidityTransaction ::
    "'a ethlib_scheme \<Rightarrow> string \<Rightarrow> Account \<Rightarrow> string \<Rightarrow> int \<Rightarrow> int \<Rightarrow> SignedTransaction" where
  "NewAMMAddLiquidityTransaction L txid from poolID amountA amountB =
     newOperatorAMMTransaction L txid from []
       (AMMPayload_zero\<lparr>amm_Action := ''amm_add_liquidity'', amm_PoolID := poolID, amm_AmountA := amountA,
          amm_AmountB := amountB\<rparr>)"

datatype evm_error = UndecodableTransaction | NoSender | NegativeValue | FractionalValue | ValueTooLarge

definition NewEVMTransaction :: "'a ethlib_scheme \<Rightarrow> string \<Rightarrow> int \<Rightarrow> evm_error + SignedTransaction" where
  "NewEVMTransaction L raw chainID =
     (let normalized = TrimPrefix (TrimSpace raw) ''0x'' in
      case UnmarshalBinary L (FromHex L (''0x'' @ normalized)) of
        None \<Rightarrow> Inl UndecodableTransaction
      | Some tx \<Rightarrow> (case Sender L chainID tx of
          None \<Rightarrow> Inl NoSender
        | Some from \<Rightarrow>
            let to = (case eth_To tx of None \<Rightarrow> [] | Some t \<Rightarrow> ToLower t);
                value = eth_Value tx
            in if value < 0 then Inl NegativeValue
               else if value mod EVMUnit \<noteq> 0 then Inl FractionalValue
               else if \<not> in_i64 (value div EVMUnit) then Inl ValueTooLarge
               else let s = \<lparr>tx_ID = ToLower (eth_Hash tx), tx_From = ToLower from, tx_To = to,
                        tx_Amount = value div EVMUnit, tx_Signature = ''evm:'' @ TrimPrefix (TrimSpace raw) ''0x'',
                        tx_Kind = ''evm'', tx_Nonce = eth_Nonce tx, tx_Raw = ''0x'' @ normalized,
                        tx_ChainID = chainID, tx_NFT = None, tx_AMM = None\<rparr>
                 in case DecodePokoinSwapCalldata (eth_Data tx) of
                      None \<Rightarrow> Inr s
                    | Some amm \<Rightarrow> Inr (s\<lparr>tx_Kind := amm_Action amm, tx_AMM := Some amm, tx_Amount := 0\<rparr>)))"

section \<open>Transaction identifiers\<close>

text \<open>\<open>hash/fnv\<close>'s 64-bit FNV-1a, and the hexadecimal print of a number.\<close>

definition fnv64a_byte :: "u64 \<Rightarrow> char \<Rightarrow> u64" where
  "fnv64a_byte h c = xor h (word_of_int (int (of_char c :: nat))) * 1099511628211"

definition fnv64a :: "bytes \<Rightarrow> u64" where
  "fnv64a s = foldl fnv64a_byte 14695981039346656037 s"

fun hex_digits :: "nat \<Rightarrow> string" where
  "hex_digits n = (if n < 16 then [hex_char n] else hex_digits (n div 16) @ [hex_char (n mod 16)])"

declare hex_digits.simps [simp del]

definition StableNFTTxID :: "string list \<Rightarrow> string" where
  "StableNFTTxID parts = ''nft-'' @ hex_digits (unat (fnv64a (concat (map (\<lambda>p. p @ [CHR 0x00]) parts))))"

section \<open>Signed transactions verify\<close>

lemma signTransaction_fields [simp]:
  "tx_Kind (signTransaction L s d n) = tx_Kind s" "tx_From (signTransaction L s d n) = tx_From s"
  "IsAMM (signTransaction L s d n) = IsAMM s" "IsNFT (signTransaction L s d n) = IsNFT s"
  "marshalContentForSignature (signTransaction L s d n) = marshalContentForSignature s"
  by (simp_all add: signTransaction_def IsAMM_def IsNFT_def IsNFTMint_def IsNFTTransfer_def marshalContentForSignature_def)

lemma signed_native:
  assumes "tx_Kind s \<noteq> ''evm''"
  shows "\<not> IsEVM (signTransaction L s d n)"
  using assms b64_not_evm by (simp add: IsEVM_def signTransaction_def)

lemma signed_verifies:
  assumes "rsa_key w" and "length (big_Bytes (key_n w)) = WALLET_KEY_SIZE" and "\<And>m. length (sha256 L m) = 32"
    and "tx_Kind s \<noteq> ''evm''"
  shows "Verify L (signTransaction L s (key_d w) (key_n w)) (SafeEncode w) = Some (signTransaction L s (key_d w) (key_n w), True)"
proof -
  let ?m = "marshalContentForSignature s"
  have sig: "b64_decode (tx_Signature (signTransaction L s (key_d w) (key_n w))) = Some (big_Bytes (RSASign (sha256 L) ?m (key_d w) (key_n w)))"
    by (simp add: signTransaction_def)
  show ?thesis
    using signed_native [OF assms(4), of L "key_d w" "key_n w"] wallet_sign_verify [of w "sha256 L" ?m, OF assms(1,2,3)] sig
    by (simp add: Verify_def PublicKeyFromAccountName_def SafeEncode_def)
qed

text \<open>The kind of an EVM transaction is not part of what its signature covers.\<close>

lemma VerifyEVM_kind:
  assumes "\<not> IsAMM t" and "\<not> IsAMM (t\<lparr>tx_Kind := k\<rparr>)" and "VerifyEVM E t a = (t, True)"
  shows "VerifyEVM E (t\<lparr>tx_Kind := k\<rparr>) a = (t\<lparr>tx_Kind := k\<rparr>, True)"
proof -
  have d: "decodeEVM E (t\<lparr>tx_Kind := k\<rparr>) = decodeEVM E t" by (simp add: decodeEVM_def)
  from assms(3) obtain tx sender where s: "decodeEVM E t = Some tx" "Sender E (tx_ChainID t) tx = Some sender"
    by (auto simp: VerifyEVM_def split: option.splits)
  show ?thesis
    using assms by (cases "eth_To tx") (simp_all add: VerifyEVM_def d s split: if_splits)
qed

end
