(* ===== verification/Codec.thy ===== *)
theory Codec
  imports Transactions
begin

text \<open>
  The JSON form of transactions (\<open>encoding/json\<close> on \<open>SignedTransaction\<close>, \<open>NFTPayload\<close> and
  \<open>AMMPayload\<close>) and of the transaction list in a block's metadata (\<open>EncodeBlockTransactions\<close>
  and \<open>DecodeBlockTransactions\<close> of \<open>account/blockchain.go\<close>). Shown: what is encoded is
  decoded again.
\<close>

section \<open>Transactions as JSON\<close>

definition str_member :: "string \<Rightarrow> string \<Rightarrow> (string \<times> json) list" where
  "str_member k v = (if v = [] then [] else [(k, JStr v)])"

definition num_member :: "string \<Rightarrow> int \<Rightarrow> (string \<times> json) list" where
  "num_member k v = (if v = 0 then [] else [(k, JNum (Itoa v))])"

definition nft_payload_json :: "NFTPayload \<Rightarrow> json" where
  "nft_payload_json p = JObj ([(''collectionId'', JStr (nft_CollectionID p)), (''tokenId'', JStr (nft_TokenID p))] @
     str_member ''owner'' (nft_Owner p) @ str_member ''metadataUri'' (nft_MetadataURI p) @
     str_member ''metadataHash'' (nft_MetadataHash p) @ str_member ''imageUri'' (nft_ImageURI p) @
     (if nft_Burned p then [(''burned'', JBool True)] else []))"

definition nft_payload_step :: "string \<Rightarrow> json \<Rightarrow> NFTPayload \<Rightarrow> NFTPayload option" where
  "nft_payload_step k v p =
     (if EqualFold k ''collectionId'' then map_option (\<lambda>x. p\<lparr>nft_CollectionID := x\<rparr>) (dec_string v (nft_CollectionID p))
      else if EqualFold k ''tokenId'' then map_option (\<lambda>x. p\<lparr>nft_TokenID := x\<rparr>) (dec_string v (nft_TokenID p))
      else if EqualFold k ''owner'' then map_option (\<lambda>x. p\<lparr>nft_Owner := x\<rparr>) (dec_string v (nft_Owner p))
      else if EqualFold k ''metadataUri'' then map_option (\<lambda>x. p\<lparr>nft_MetadataURI := x\<rparr>) (dec_string v (nft_MetadataURI p))
      else if EqualFold k ''metadataHash'' then map_option (\<lambda>x. p\<lparr>nft_MetadataHash := x\<rparr>) (dec_string v (nft_MetadataHash p))
      else if EqualFold k ''imageUri'' then map_option (\<lambda>x. p\<lparr>nft_ImageURI := x\<rparr>) (dec_string v (nft_ImageURI p))
      else if EqualFold k ''burned'' then map_option (\<lambda>x. p\<lparr>nft_Burned := x\<rparr>) (dec_bool v (nft_Burned p))
      else Some p)"

definition tx_json :: "SignedTransaction \<Rightarrow> json" where
  "tx_json t = JObj [(''ID'', JStr (tx_ID t)), (''From'', JStr (tx_From t)), (''To'', JStr (tx_To t)),
     (''Amount'', JNum (Itoa (tx_Amount t))), (''Signature'', JStr (tx_Signature t)), (''Kind'', JStr (tx_Kind t)),
     (''Nonce'', JNum (nat_digits (unat (tx_Nonce t)))), (''Raw'', JStr (tx_Raw t)),
     (''ChainID'', JNum (Itoa (tx_ChainID t))),
     (''NFT'', case tx_NFT t of None \<Rightarrow> JNull | Some p \<Rightarrow> nft_payload_json p),
     (''AMM'', case tx_AMM t of None \<Rightarrow> JNull | Some p \<Rightarrow> amm_payload_json p)]"

definition tx_step :: "string \<Rightarrow> json \<Rightarrow> SignedTransaction \<Rightarrow> SignedTransaction option" where
  "tx_step k v t =
     (if EqualFold k ''ID'' then map_option (\<lambda>x. t\<lparr>tx_ID := x\<rparr>) (dec_string v (tx_ID t))
      else if EqualFold k ''From'' then map_option (\<lambda>x. t\<lparr>tx_From := x\<rparr>) (dec_string v (tx_From t))
      else if EqualFold k ''To'' then map_option (\<lambda>x. t\<lparr>tx_To := x\<rparr>) (dec_string v (tx_To t))
      else if EqualFold k ''Amount'' then map_option (\<lambda>x. t\<lparr>tx_Amount := x\<rparr>) (dec_int v (tx_Amount t))
      else if EqualFold k ''Signature'' then map_option (\<lambda>x. t\<lparr>tx_Signature := x\<rparr>) (dec_string v (tx_Signature t))
      else if EqualFold k ''Kind'' then map_option (\<lambda>x. t\<lparr>tx_Kind := x\<rparr>) (dec_string v (tx_Kind t))
      else if EqualFold k ''Nonce'' then map_option (\<lambda>x. t\<lparr>tx_Nonce := x\<rparr>) (dec_uint64 v (tx_Nonce t))
      else if EqualFold k ''Raw'' then map_option (\<lambda>x. t\<lparr>tx_Raw := x\<rparr>) (dec_string v (tx_Raw t))
      else if EqualFold k ''ChainID'' then map_option (\<lambda>x. t\<lparr>tx_ChainID := x\<rparr>) (dec_int v (tx_ChainID t))
      else if EqualFold k ''NFT'' then
        map_option (\<lambda>x. t\<lparr>tx_NFT := x\<rparr>) (dec_pointer (dec_struct nft_payload_step) NFTPayload_zero v (tx_NFT t))
      else if EqualFold k ''AMM'' then
        map_option (\<lambda>x. t\<lparr>tx_AMM := x\<rparr>) (dec_pointer (dec_struct amm_payload_step) AMMPayload_zero v (tx_AMM t))
      else Some t)"

definition dec_tx :: "json \<Rightarrow> SignedTransaction \<Rightarrow> SignedTransaction option" where
  "dec_tx v t = dec_struct tx_step v t"

section \<open>Block metadata\<close>

text \<open>A slice that is not nil.\<close>

definition EncodeBlockTransactions :: "SignedTransaction list \<Rightarrow> string" where
  "EncodeBlockTransactions txs = b64_encode (json_marshal (JArr (map tx_json txs)))"

definition DecodeBlockTransactions :: "string \<Rightarrow> SignedTransaction list option" where
  "DecodeBlockTransactions meta =
     (if meta = [] then Some []
      else let decoded = (case b64_decode meta of None \<Rightarrow> meta | Some d \<Rightarrow> d)
        in case json_parse decoded of None \<Rightarrow> None | Some v \<Rightarrow> dec_slice dec_tx SignedTransaction_zero v)"

section \<open>Round trip\<close>

definition ascii_nft :: "NFTPayload \<Rightarrow> bool" where
  "ascii_nft p \<longleftrightarrow> ascii (nft_CollectionID p) \<and> ascii (nft_TokenID p) \<and> ascii (nft_Owner p) \<and>
     ascii (nft_MetadataURI p) \<and> ascii (nft_MetadataHash p) \<and> ascii (nft_ImageURI p)"

definition ascii_amm :: "AMMPayload \<Rightarrow> bool" where
  "ascii_amm p \<longleftrightarrow> ascii (amm_Action p) \<and> ascii (amm_PoolID p) \<and> ascii (amm_Asset p) \<and> ascii (amm_AssetA p) \<and>
     ascii (amm_AssetB p) \<and> ascii (amm_AssetIn p) \<and> ascii (amm_AssetOut p) \<and>
     in_i64 (amm_Amount p) \<and> in_i64 (amm_AmountA p) \<and> in_i64 (amm_AmountB p) \<and> in_i64 (amm_AmountIn p) \<and>
     in_i64 (amm_MinAmountOut p) \<and> in_i64 (amm_AmountOut p) \<and> in_i64 (amm_FeeBps p)"

text \<open>Transactions Go can hold (integers in range) whose texts are ASCII, which JSON keeps as they are.\<close>

definition plain_tx :: "SignedTransaction \<Rightarrow> bool" where
  "plain_tx t \<longleftrightarrow> ascii (tx_ID t) \<and> ascii (tx_From t) \<and> ascii (tx_To t) \<and> ascii (tx_Signature t) \<and> ascii (tx_Kind t) \<and>
     ascii (tx_Raw t) \<and> in_i64 (tx_Amount t) \<and> in_i64 (tx_ChainID t) \<and>
     (case tx_NFT t of None \<Rightarrow> True | Some p \<Rightarrow> ascii_nft p) \<and> (case tx_AMM t of None \<Rightarrow> True | Some p \<Rightarrow> ascii_amm p)"

lemma dec_str_member:
  assumes "step k (JStr v) p = Some (upd p)" and "v = [] \<Longrightarrow> upd p = p"
  shows "dec_members step (str_member k v @ ms) p = dec_members step ms (upd p)"
  using assms by (simp add: str_member_def)

lemma dec_num_member:
  assumes "step k (JNum (Itoa v)) p = Some (upd p)" and "v = 0 \<Longrightarrow> upd p = p"
  shows "dec_members step (num_member k v @ ms) p = dec_members step ms (upd p)"
  using assms by (simp add: num_member_def)

lemma nft_members:
  "dec_members nft_payload_step ((''collectionId'', JStr v) # ms) p = dec_members nft_payload_step ms (p\<lparr>nft_CollectionID := v\<rparr>)"
  "dec_members nft_payload_step ((''tokenId'', JStr v) # ms) p = dec_members nft_payload_step ms (p\<lparr>nft_TokenID := v\<rparr>)"
  "dec_members nft_payload_step ((''burned'', JBool b) # ms) p = dec_members nft_payload_step ms (p\<lparr>nft_Burned := b\<rparr>)"
  "nft_Owner p = [] \<Longrightarrow> dec_members nft_payload_step (str_member ''owner'' v @ ms) p = dec_members nft_payload_step ms (p\<lparr>nft_Owner := v\<rparr>)"
  "nft_MetadataURI p = [] \<Longrightarrow> dec_members nft_payload_step (str_member ''metadataUri'' v @ ms) p = dec_members nft_payload_step ms (p\<lparr>nft_MetadataURI := v\<rparr>)"
  "nft_MetadataHash p = [] \<Longrightarrow> dec_members nft_payload_step (str_member ''metadataHash'' v @ ms) p = dec_members nft_payload_step ms (p\<lparr>nft_MetadataHash := v\<rparr>)"
  "nft_ImageURI p = [] \<Longrightarrow> dec_members nft_payload_step (str_member ''imageUri'' v @ ms) p = dec_members nft_payload_step ms (p\<lparr>nft_ImageURI := v\<rparr>)"
  by (simp_all add: nft_payload_step_def go_eval dec_str_member)

lemmas nft_last = nft_members(7) [where ms = "[]", simplified]

lemma dec_nft_payload: "dec_struct nft_payload_step (nft_payload_json p) NFTPayload_zero = Some p"
  by (cases p) (simp add: nft_payload_json_def nft_members nft_last NFTPayload_zero_def del: dec_members.simps(2))

lemma amm_payload_json_eq: "amm_payload_json p = JObj ([(''action'', JStr (amm_Action p))] @
  str_member ''poolId'' (amm_PoolID p) @ str_member ''asset'' (amm_Asset p) @ str_member ''assetA'' (amm_AssetA p) @
  str_member ''assetB'' (amm_AssetB p) @ str_member ''assetIn'' (amm_AssetIn p) @ str_member ''assetOut'' (amm_AssetOut p) @
  num_member ''amount'' (amm_Amount p) @ num_member ''amountA'' (amm_AmountA p) @ num_member ''amountB'' (amm_AmountB p) @
  num_member ''amountIn'' (amm_AmountIn p) @ num_member ''minAmountOut'' (amm_MinAmountOut p) @ num_member ''amountOut'' (amm_AmountOut p) @
  num_member ''feeBps'' (amm_FeeBps p))"
  by (simp add: amm_payload_json_def str_member_def num_member_def Let_def)

lemma amm_members:
  "dec_members amm_payload_step ((''action'', JStr v) # ms) p = dec_members amm_payload_step ms (p\<lparr>amm_Action := v\<rparr>)"
  "amm_PoolID p = [] \<Longrightarrow> dec_members amm_payload_step (str_member ''poolId'' v @ ms) p = dec_members amm_payload_step ms (p\<lparr>amm_PoolID := v\<rparr>)"
  "amm_Asset p = [] \<Longrightarrow> dec_members amm_payload_step (str_member ''asset'' v @ ms) p = dec_members amm_payload_step ms (p\<lparr>amm_Asset := v\<rparr>)"
  "amm_AssetA p = [] \<Longrightarrow> dec_members amm_payload_step (str_member ''assetA'' v @ ms) p = dec_members amm_payload_step ms (p\<lparr>amm_AssetA := v\<rparr>)"
  "amm_AssetB p = [] \<Longrightarrow> dec_members amm_payload_step (str_member ''assetB'' v @ ms) p = dec_members amm_payload_step ms (p\<lparr>amm_AssetB := v\<rparr>)"
  "amm_AssetIn p = [] \<Longrightarrow> dec_members amm_payload_step (str_member ''assetIn'' v @ ms) p = dec_members amm_payload_step ms (p\<lparr>amm_AssetIn := v\<rparr>)"
  "amm_AssetOut p = [] \<Longrightarrow> dec_members amm_payload_step (str_member ''assetOut'' v @ ms) p = dec_members amm_payload_step ms (p\<lparr>amm_AssetOut := v\<rparr>)"
  by (simp_all add: amm_payload_step_def go_eval dec_str_member)

lemma amm_num_members:
  "amm_Amount p = 0 \<Longrightarrow> in_i64 i \<Longrightarrow> dec_members amm_payload_step (num_member ''amount'' i @ ms) p = dec_members amm_payload_step ms (p\<lparr>amm_Amount := i\<rparr>)"
  "amm_AmountA p = 0 \<Longrightarrow> in_i64 i \<Longrightarrow> dec_members amm_payload_step (num_member ''amountA'' i @ ms) p = dec_members amm_payload_step ms (p\<lparr>amm_AmountA := i\<rparr>)"
  "amm_AmountB p = 0 \<Longrightarrow> in_i64 i \<Longrightarrow> dec_members amm_payload_step (num_member ''amountB'' i @ ms) p = dec_members amm_payload_step ms (p\<lparr>amm_AmountB := i\<rparr>)"
  "amm_AmountIn p = 0 \<Longrightarrow> in_i64 i \<Longrightarrow> dec_members amm_payload_step (num_member ''amountIn'' i @ ms) p = dec_members amm_payload_step ms (p\<lparr>amm_AmountIn := i\<rparr>)"
  "amm_MinAmountOut p = 0 \<Longrightarrow> in_i64 i \<Longrightarrow> dec_members amm_payload_step (num_member ''minAmountOut'' i @ ms) p = dec_members amm_payload_step ms (p\<lparr>amm_MinAmountOut := i\<rparr>)"
  "amm_AmountOut p = 0 \<Longrightarrow> in_i64 i \<Longrightarrow> dec_members amm_payload_step (num_member ''amountOut'' i @ ms) p = dec_members amm_payload_step ms (p\<lparr>amm_AmountOut := i\<rparr>)"
  "amm_FeeBps p = 0 \<Longrightarrow> in_i64 i \<Longrightarrow> dec_members amm_payload_step (num_member ''feeBps'' i @ ms) p = dec_members amm_payload_step ms (p\<lparr>amm_FeeBps := i\<rparr>)"
  by (rule dec_num_member; simp add: amm_payload_step_def ToLower_def EqualFold_def lower_char_def)+

lemmas amm_last = amm_num_members(7) [where ms = "[]", simplified]

lemma dec_amm_payload: "ascii_amm p \<Longrightarrow> dec_struct amm_payload_step (amm_payload_json p) AMMPayload_zero = Some p"
  by (cases p) (simp add: amm_payload_json_eq amm_members amm_num_members amm_last AMMPayload_zero_def ascii_amm_def
    del: dec_members.simps(2))

lemma amm_payload_json_object: "amm_payload_json p \<noteq> JNull" "nft_payload_json q \<noteq> JNull"
  by (simp_all add: amm_payload_json_eq nft_payload_json_def)

lemma tx_members:
  "dec_members tx_step ((''ID'', JStr v) # ms) t = dec_members tx_step ms (t\<lparr>tx_ID := v\<rparr>)"
  "dec_members tx_step ((''From'', JStr v) # ms) t = dec_members tx_step ms (t\<lparr>tx_From := v\<rparr>)"
  "dec_members tx_step ((''To'', JStr v) # ms) t = dec_members tx_step ms (t\<lparr>tx_To := v\<rparr>)"
  "dec_members tx_step ((''Signature'', JStr v) # ms) t = dec_members tx_step ms (t\<lparr>tx_Signature := v\<rparr>)"
  "dec_members tx_step ((''Kind'', JStr v) # ms) t = dec_members tx_step ms (t\<lparr>tx_Kind := v\<rparr>)"
  "dec_members tx_step ((''Raw'', JStr v) # ms) t = dec_members tx_step ms (t\<lparr>tx_Raw := v\<rparr>)"
  "in_i64 i \<Longrightarrow> dec_members tx_step ((''Amount'', JNum (Itoa i)) # ms) t = dec_members tx_step ms (t\<lparr>tx_Amount := i\<rparr>)"
  "in_i64 i \<Longrightarrow> dec_members tx_step ((''ChainID'', JNum (Itoa i)) # ms) t = dec_members tx_step ms (t\<lparr>tx_ChainID := i\<rparr>)"
  "dec_members tx_step ((''Nonce'', JNum (nat_digits (unat w))) # ms) t = dec_members tx_step ms (t\<lparr>tx_Nonce := w\<rparr>)"
  by (simp_all add: tx_step_def ToLower_def EqualFold_def lower_char_def)

lemma tx_payload_members:
  "tx_NFT t = None \<Longrightarrow> dec_members tx_step ((''NFT'', case p of None \<Rightarrow> JNull | Some q \<Rightarrow> nft_payload_json q) # ms) t =
     dec_members tx_step ms (t\<lparr>tx_NFT := p\<rparr>)"
  "tx_AMM t = None \<Longrightarrow> (case a of None \<Rightarrow> True | Some q \<Rightarrow> ascii_amm q) \<Longrightarrow>
     dec_members tx_step ((''AMM'', case a of None \<Rightarrow> JNull | Some q \<Rightarrow> amm_payload_json q) # ms) t =
     dec_members tx_step ms (t\<lparr>tx_AMM := a\<rparr>)"
  by (auto simp: tx_step_def ToLower_def EqualFold_def lower_char_def dec_pointer_def amm_payload_json_object
    dec_nft_payload dec_amm_payload split: option.splits)

lemma dec_tx_json: "plain_tx t \<Longrightarrow> dec_tx (tx_json t) SignedTransaction_zero = Some t"
  by (cases t) (simp add: dec_tx_def tx_json_def plain_tx_def SignedTransaction_zero_def tx_members tx_payload_members
    del: dec_members.simps(2))

lemma ascii_Itoa [simp]: "int_literal (Itoa i)" "int_literal (nat_digits n)"
proof -
  have "nat_digits n = Itoa (int n)" by (simp add: Itoa_def)
  then show "int_literal (Itoa i)" "int_literal (nat_digits n)" by (auto simp: int_literal_def)
qed

lemma wf_member_lists:
  "ascii k \<Longrightarrow> ascii v \<Longrightarrow> list_all (\<lambda>(k, v). ascii k \<and> wf_json v) (str_member k v)"
  "ascii k \<Longrightarrow> list_all (\<lambda>(k, v). ascii k \<and> wf_json v) (num_member k i)"
  by (simp_all add: str_member_def num_member_def)

lemma ascii_literal [simp]: "ascii []" "ascii (c # s) \<longleftrightarrow> (of_char c :: nat) < 128 \<and> ascii s"
  by (simp_all add: ascii_def)

lemma wf_nft_json: "ascii_nft p \<Longrightarrow> wf_json (nft_payload_json p)"
  by (simp add: nft_payload_json_def ascii_nft_def wf_member_lists)

lemma wf_amm_json: "ascii_amm p \<Longrightarrow> wf_json (amm_payload_json p)"
  by (simp add: amm_payload_json_eq ascii_amm_def wf_member_lists)

lemma wf_tx_json: "plain_tx t \<Longrightarrow> wf_json (tx_json t)"
  using wf_nft_json wf_amm_json
  by (auto simp: tx_json_def plain_tx_def split: option.splits)

lemma depth_obj:
  "list_all (\<lambda>(k, v). json_depth v \<le> n) ms \<Longrightarrow> json_depth (JObj ms) \<le> Suc n"
  by (auto simp: list_all_iff)

lemma depth_arr: "list_all (\<lambda>v. json_depth v \<le> n) vs \<Longrightarrow> json_depth (JArr vs) \<le> Suc n"
  by (auto simp: list_all_iff)

lemma depth_member_lists:
  "list_all (\<lambda>(k, v). json_depth v \<le> n) (str_member k v)" "list_all (\<lambda>(k, v). json_depth v \<le> n) (num_member k i)"
  by (simp_all add: str_member_def num_member_def)

lemma depth_payload: "json_depth (nft_payload_json p) \<le> Suc 0" "json_depth (amm_payload_json q) \<le> Suc 0"
  unfolding nft_payload_json_def amm_payload_json_eq by (rule depth_obj; simp add: depth_member_lists del: le_zero_eq)+

lemma depth_tx_json: "json_depth (tx_json t) \<le> Suc (Suc 0)"
  unfolding tx_json_def by (rule depth_obj) (use depth_payload in \<open>auto split: option.splits\<close>)

lemma those_map_Some: "(\<And>x. x \<in> set xs \<Longrightarrow> f x = Some (g x)) \<Longrightarrow> those (map f xs) = Some (map g xs)"
  by (induction xs) simp_all

lemma block_transactions_roundtrip:
  assumes "list_all plain_tx txs"
  shows "DecodeBlockTransactions (EncodeBlockTransactions txs) = Some txs"
proof -
  let ?v = "JArr (map tx_json txs)"
  have "json_depth ?v \<le> Suc (Suc (Suc 0))" by (rule depth_arr) (simp add: list_all_iff depth_tx_json)
  then have "json_depth ?v \<le> max_depth" by (rule order.trans) (simp add: max_depth_def)
  moreover have "wf_json ?v" using assms wf_tx_json by (auto simp: list_all_iff)
  ultimately have parse: "json_parse (json_marshal ?v) = Some ?v" by (rule json_parse_marshal [rotated])
  have "dec_slice dec_tx SignedTransaction_zero ?v = Some (map id txs)"
    unfolding dec_slice.simps map_map comp_def
    by (rule those_map_Some) (use assms dec_tx_json in \<open>auto simp: list_all_iff\<close>)
  moreover have "b64_encode (json_marshal ?v) \<noteq> []" by simp
  ultimately show ?thesis
    using parse by (simp add: EncodeBlockTransactions_def DecodeBlockTransactions_def)
qed

end
