(* ===== verification/Ledger.thy ===== *)
theory Ledger
  imports Transactions Interfaces
begin

text \<open>
  The ledger (\<open>account/ledger.go\<close>, and the methods of \<open>account/transaction.go\<close> that apply a
  transaction to it). A method that changes the ledger returns the ledger afterwards; the
  mutex makes every method one atomic step. \<open>Transaction\<close> returns the ledger, the
  transaction as normalised in place, and whether it was applied; \<open>None\<close> is a panic.
\<close>

record Ledger =
  Accounts :: "(string, int) gomap"
  Nonces :: "(string, u64) gomap"
  Validators :: "(string, bool) gomap"
  NFTs :: "(string, NFTToken) gomap"
  AssetBalances :: "(string, (string, int) gomap) gomap"
  AMMPools :: "(string, AMMPool) gomap"
  EVMAccounts :: "(string, EVMAccount) gomap"
  EVMReceipts :: "(string, EVMReceipt) gomap"
  TxHistory :: "(string, SignedTransaction) gomap"

definition MakeLedger :: Ledger where
  "MakeLedger = \<lparr>Accounts = fmempty, Nonces = fmempty, Validators = fmempty, NFTs = fmempty,
     AssetBalances = fmempty, AMMPools = fmempty, EVMAccounts = fmempty, EVMReceipts = fmempty,
     TxHistory = fmempty\<rparr>"

section \<open>Accounts and validators\<close>

definition IsValidator :: "Ledger \<Rightarrow> string \<Rightarrow> bool" where
  "IsValidator l account = mget False (Validators l) account"

definition MarkValidator :: "Ledger \<Rightarrow> string \<Rightarrow> Ledger" where
  "MarkValidator l account = l\<lparr>Validators := fmupd account True (Validators l)\<rparr>"

definition isNativeValidatorAccount :: "string \<Rightarrow> bool" where
  "isNativeValidatorAccount account \<longleftrightarrow> account \<noteq> [] \<and> b64_decode account \<noteq> None"

definition SetBalance :: "Ledger \<Rightarrow> string \<Rightarrow> int \<Rightarrow> Ledger" where
  "SetBalance l account amount = l\<lparr>Accounts := fmupd account amount (Accounts l)\<rparr>"

definition GetBalance :: "Ledger \<Rightarrow> string \<Rightarrow> int" where
  "GetBalance l account = mget 0 (Accounts l) account"

definition GetNonce :: "Ledger \<Rightarrow> string \<Rightarrow> u64" where
  "GetNonce l account = mget 0 (Nonces l) account"

definition credit :: "Ledger \<Rightarrow> string \<Rightarrow> int \<Rightarrow> Ledger" where
  "credit l account amount = l\<lparr>Accounts := fmupd account (i64 (mget 0 (Accounts l) account + amount)) (Accounts l)\<rparr>"

definition debit :: "Ledger \<Rightarrow> string \<Rightarrow> int \<Rightarrow> Ledger" where
  "debit l account amount = l\<lparr>Accounts := fmupd account (i64 (mget 0 (Accounts l) account - amount)) (Accounts l)\<rparr>"

section \<open>The lottery\<close>

definition lottery_scale :: int where
  "lottery_scale = 1000000"

text \<open>
  The loop over the registered validators: the wrapped sum of the positive balances and
  the number of the others. A division by zero is a panic.
\<close>

fun count_validators :: "(string, int) gomap \<Rightarrow> string list \<Rightarrow> int \<Rightarrow> int \<Rightarrow> int \<times> int" where
  "count_validators accounts [] totalPositive zeroValidators = (totalPositive, zeroValidators)"
| "count_validators accounts (v # vs) totalPositive zeroValidators =
     (if mget 0 accounts v > 0
      then count_validators accounts vs (i64 (totalPositive + mget 0 accounts v)) zeroValidators
      else count_validators accounts vs totalPositive (i64 (zeroValidators + 1)))"

definition LotteryTickets :: "Ledger \<Rightarrow> string \<Rightarrow> int go" where
  "LotteryTickets l account =
     (if \<not> isNativeValidatorAccount account then Some 0
      else let balance = mget 0 (Accounts l) account;
               known = IsValidator l account \<or> balance > 0;
               (totalPositive, zeroValidators) = count_validators (Accounts l) (mkeys (Validators l)) 0 0;
               zeroValidators = (if \<not> known \<and> balance = 0 then i64 (zeroValidators + 1) else zeroValidators)
        in if balance > 0 then
             (if totalPositive \<le> 0 then Some lottery_scale
              else let divisor = i64 (100 * totalPositive) in
                if divisor = 0 then None
                else let tickets = go_quo (i64 (i64 (balance * 97) * lottery_scale)) divisor
                  in Some (if tickets < 1 then 1 else tickets))
           else if zeroValidators \<le> 0 then Some 0
           else let divisor = i64 (100 * zeroValidators) in
             if divisor = 0 then None
             else let tickets = go_quo (3 * lottery_scale) divisor
               in Some (if tickets < 1 then 1 else tickets))"

section \<open>Assets\<close>

definition isOperatorLocked :: "Ledger \<Rightarrow> string \<Rightarrow> bool" where
  "isOperatorLocked l accountName \<longleftrightarrow> isNativeValidatorAccount accountName \<and> IsValidator l accountName"

definition assetBalanceLocked :: "Ledger \<Rightarrow> string \<Rightarrow> string \<Rightarrow> int" where
  "assetBalanceLocked l asset accountName =
     (let asset = normalizeAsset asset; accountName = normalizeAssetAccount accountName in
      if asset = AssetPKN then mget 0 (Accounts l) accountName
      else mget 0 (mget fmempty (AssetBalances l) asset) accountName)"

definition GetAssetBalance :: "Ledger \<Rightarrow> string \<Rightarrow> string \<Rightarrow> int" where
  "GetAssetBalance l asset account = assetBalanceLocked l (normalizeAsset asset) (normalizeAssetAccount account)"

definition setAsset :: "Ledger \<Rightarrow> string \<Rightarrow> string \<Rightarrow> int \<Rightarrow> Ledger" where
  "setAsset l asset account v =
     l\<lparr>AssetBalances := fmupd asset (fmupd account v (mget fmempty (AssetBalances l) asset)) (AssetBalances l)\<rparr>"

definition creditAssetLocked :: "Ledger \<Rightarrow> string \<Rightarrow> string \<Rightarrow> int \<Rightarrow> Ledger" where
  "creditAssetLocked l asset accountName amount =
     (let asset = normalizeAsset asset; accountName = normalizeAssetAccount accountName in
      if amount \<le> 0 \<or> accountName = [] then l
      else if asset = AssetPKN then credit l accountName amount
      else setAsset l asset accountName (i64 (mget 0 (mget fmempty (AssetBalances l) asset) accountName + amount)))"

definition debitAssetLocked :: "Ledger \<Rightarrow> string \<Rightarrow> string \<Rightarrow> int \<Rightarrow> Ledger \<times> bool" where
  "debitAssetLocked l asset accountName amount =
     (let asset = normalizeAsset asset; accountName = normalizeAssetAccount accountName in
      if amount \<le> 0 \<or> accountName = [] then (l, False)
      else if asset = AssetPKN then
        (if mget 0 (Accounts l) accountName < amount then (l, False) else (debit l accountName amount, True))
      else if \<not> mhas (AssetBalances l) asset \<or> mget 0 (mget fmempty (AssetBalances l) asset) accountName < amount
        then (l, False)
      else (setAsset l asset accountName (i64 (mget 0 (mget fmempty (AssetBalances l) asset) accountName - amount)), True))"

definition canDebitAssetLocked :: "Ledger \<Rightarrow> string \<Rightarrow> string \<Rightarrow> int \<Rightarrow> bool" where
  "canDebitAssetLocked l asset accountName amount =
     (let asset = normalizeAsset asset; accountName = normalizeAssetAccount accountName in
      if amount \<le> 0 \<or> accountName = [] then False
      else if asset = AssetPKN then mget 0 (Accounts l) accountName \<ge> amount
      else mhas (AssetBalances l) asset \<and> mget 0 (mget fmempty (AssetBalances l) asset) accountName \<ge> amount)"

definition debitAssetOrPKNLocked :: "Ledger \<Rightarrow> string \<Rightarrow> string \<Rightarrow> int \<Rightarrow> Ledger \<times> bool" where
  "debitAssetOrPKNLocked l asset accountName amount = debitAssetLocked l asset accountName amount"

definition creditAssetOrPKNLocked :: "Ledger \<Rightarrow> string \<Rightarrow> string \<Rightarrow> int \<Rightarrow> Ledger" where
  "creditAssetOrPKNLocked l asset accountName amount = creditAssetLocked l asset accountName amount"

section \<open>AMM transactions\<close>

text \<open>One definition per case of the action switch: the ledger, the payload and the answer.\<close>

definition ammAssetCredit :: "Ledger \<Rightarrow> SignedTransaction \<Rightarrow> AMMPayload \<Rightarrow> Ledger \<times> bool" where
  "ammAssetCredit l t p =
     (if \<not> isOperatorLocked l (tx_From t) \<or> tx_To t = [] \<or> amm_Asset p = AssetPKN \<or> amm_Amount p < 1 then (l, False)
      else (creditAssetLocked l (amm_Asset p) (tx_To t) (amm_Amount p), True))"

definition ammAssetDebit :: "Ledger \<Rightarrow> SignedTransaction \<Rightarrow> AMMPayload \<Rightarrow> Ledger \<times> bool" where
  "ammAssetDebit l t p =
     (if \<not> isOperatorLocked l (tx_From t) \<or> tx_To t = [] \<or> amm_Asset p = AssetPKN \<or> amm_Amount p < 1 then (l, False)
      else debitAssetLocked l (amm_Asset p) (tx_To t) (amm_Amount p))"

definition ammCreatePool :: "Ledger \<Rightarrow> SignedTransaction \<Rightarrow> AMMPayload \<Rightarrow> Ledger \<times> bool" where
  "ammCreatePool l t p =
     (if \<not> isOperatorLocked l (tx_From t) then (l, False)
      else let poolID = PoolID (amm_AssetA p) (amm_AssetB p) in
        if poolID = [] then (l, False)
        else if mhas (AMMPools l) poolID then (l, False)
        else (l\<lparr>AMMPools := fmupd poolID \<lparr>pool_ID = poolID, pool_AssetA = normalizeAsset (amm_AssetA p),
                 pool_AssetB = normalizeAsset (amm_AssetB p), pool_ReserveA = 0, pool_ReserveB = 0,
                 pool_FeeBps = AMMFeeBps, pool_CreatedTx = tx_ID t, pool_LastTx = tx_ID t\<rparr> (AMMPools l)\<rparr>, True))"

definition ammAddLiquidity :: "Ledger \<Rightarrow> SignedTransaction \<Rightarrow> AMMPayload \<Rightarrow> Ledger \<times> bool" where
  "ammAddLiquidity l t p =
     (if \<not> isOperatorLocked l (tx_From t) \<or> amm_AmountA p < 1 \<or> amm_AmountB p < 1 then (l, False)
      else case fmlookup (AMMPools l) (normalizePoolID (amm_PoolID p)) of
          None \<Rightarrow> (l, False)
        | Some pool \<Rightarrow>
            (if \<not> canDebitAssetLocked l (pool_AssetA pool) (tx_From t) (amm_AmountA p) \<or>
                \<not> canDebitAssetLocked l (pool_AssetB pool) (tx_From t) (amm_AmountB p) then (l, False)
             else let l = fst (debitAssetOrPKNLocked l (pool_AssetA pool) (tx_From t) (amm_AmountA p));
                      l = fst (debitAssetOrPKNLocked l (pool_AssetB pool) (tx_From t) (amm_AmountB p));
                      pool = pool\<lparr>pool_ReserveA := i64 (pool_ReserveA pool + amm_AmountA p),
                                  pool_ReserveB := i64 (pool_ReserveB pool + amm_AmountB p),
                                  pool_LastTx := tx_ID t\<rparr>
                  in (l\<lparr>AMMPools := fmupd (pool_ID pool) pool (AMMPools l)\<rparr>, True)))"

definition ammSwap :: "Ledger \<Rightarrow> SignedTransaction \<Rightarrow> AMMPayload \<Rightarrow> Ledger \<times> AMMPayload \<times> bool" where
  "ammSwap l t p =
     (if amm_AmountIn p < 1 \<or> amm_MinAmountOut p < 0 then (l, p, False)
      else case fmlookup (AMMPools l) (normalizePoolID (amm_PoolID p)) of
          None \<Rightarrow> (l, p, False)
        | Some pool \<Rightarrow>
            (let (amountOut, ok) = QuoteSwap pool (amm_AssetIn p) (amm_AmountIn p) in
             if \<not> ok \<or> amountOut < amm_MinAmountOut p \<or> amountOut < 1 then (l, p, False)
             else if \<not> canDebitAssetLocked l (amm_AssetIn p) (tx_From t) (amm_AmountIn p) then (l, p, False)
             else let l = fst (debitAssetOrPKNLocked l (amm_AssetIn p) (tx_From t) (amm_AmountIn p));
                      (pool, ok) = applySwap pool (amm_AssetIn p) (amm_AmountIn p) amountOut
               in if \<not> ok then (l, p, False)
                  else let l = creditAssetOrPKNLocked l (amm_AssetOut p) (tx_From t) amountOut;
                           pool = pool\<lparr>pool_LastTx := tx_ID t\<rparr>
                    in (l\<lparr>AMMPools := fmupd (pool_ID pool) pool (AMMPools l)\<rparr>, p\<lparr>amm_AmountOut := amountOut\<rparr>, True)))"

definition ammAction :: "Ledger \<Rightarrow> SignedTransaction \<Rightarrow> AMMPayload \<Rightarrow> Ledger \<times> AMMPayload \<times> bool" where
  "ammAction l t p =
     (if amm_Action p = ''asset_credit'' then (let (l, ok) = ammAssetCredit l t p in (l, p, ok))
      else if amm_Action p = ''asset_debit'' then (let (l, ok) = ammAssetDebit l t p in (l, p, ok))
      else if amm_Action p = ''amm_create_pool'' then (let (l, ok) = ammCreatePool l t p in (l, p, ok))
      else if amm_Action p = ''amm_add_liquidity'' then (let (l, ok) = ammAddLiquidity l t p in (l, p, ok))
      else if amm_Action p = ''amm_swap'' then ammSwap l t p
      else (l, p, False))"

definition recordTx :: "Ledger \<Rightarrow> SignedTransaction \<Rightarrow> Ledger" where
  "recordTx l t = l\<lparr>TxHistory := fmupd (tx_ID t) t (TxHistory l)\<rparr>"

definition advanceNonce :: "Ledger \<Rightarrow> SignedTransaction \<Rightarrow> Ledger" where
  "advanceNonce l t = (if IsEVM t then l\<lparr>Nonces := fmupd (tx_From t) (tx_Nonce t + 1) (Nonces l)\<rparr> else l)"

type_synonym tx_result = "(Ledger \<times> SignedTransaction \<times> bool) go"

definition applyAMMTransactionLocked :: "env \<Rightarrow> Ledger \<Rightarrow> SignedTransaction \<Rightarrow> tx_result" where
  "applyAMMTransactionLocked E l t =
     (if tx_AMM t = None then Some (l, t, False)
      else let (t, ok) = validAMM t in
        if \<not> ok then Some (l, t, False)
        else case Verify E t (tx_From t) of
            None \<Rightarrow> None
          | Some (t, ok) \<Rightarrow>
              (if \<not> ok then Some (l, t, False)
               else if IsEVM t \<and> mget 0 (Nonces l) (tx_From t) \<noteq> tx_Nonce t then Some (l, t, False)
               else case tx_AMM t of
                   None \<Rightarrow> Some (l, t, False)
                 | Some p \<Rightarrow>
                     (let (l, p, ok) = ammAction l t p; t = t\<lparr>tx_AMM := Some p\<rparr> in
                      if \<not> ok then Some (l, t, False)
                      else Some (advanceNonce (recordTx l t) t, t, True))))"

section \<open>Contract transactions\<close>

text \<open>
  \<open>applyEVMContractTransactionLocked\<close> returns a pointer to its answer: \<open>None\<close> is the nil
  pointer, which sends the transaction on to the plain transfer. The adapter works on the
  ledger's own contract accounts, so what the machine wrote stays when the call fails.
\<close>

definition evm_gas_limit :: "eth_tx \<Rightarrow> u64" where
  "evm_gas_limit tx = (if eth_Gas tx = 0 then 5000000 else eth_Gas tx)"

definition evm_run :: "env \<Rightarrow> Ledger \<Rightarrow> SignedTransaction \<Rightarrow> eth_tx \<Rightarrow> evmStateAdapter \<times> string \<times> u64 \<times> bool" where
  "evm_run E l t tx =
     (let state = newEVMStateAdapter (EVMAccounts l);
          origin = HexToAddress E (tx_From t);
          evm = newLedgerEVM origin;
          gas = evm_gas_limit tx;
          value = word_of_int (eth_Value tx)
      in case eth_To tx of
          None \<Rightarrow> let (state, created, left, failed) = evm_Create E evm state origin (eth_Data tx) gas value
                  in (state, ToLower created, left, failed)
        | Some to \<Rightarrow> let (state, left, failed) = evm_Call E evm state origin to (eth_Data tx) gas value
                  in (state, [], left, failed))"

definition evm_move_value :: "Ledger \<Rightarrow> SignedTransaction \<Rightarrow> eth_tx \<Rightarrow> Ledger" where
  "evm_move_value l t tx =
     (if tx_Amount t > 0 then
        let l = debit l (tx_From t) (tx_Amount t)
        in case eth_To tx of None \<Rightarrow> l | Some to \<Rightarrow> credit l (ToLower to) (tx_Amount t)
      else l)"

definition applyEVMContractTransactionLocked :: "env \<Rightarrow> Ledger \<Rightarrow> SignedTransaction \<Rightarrow> Ledger \<times> bool option" where
  "applyEVMContractTransactionLocked E l t = (case decodeEVM E t of
      None \<Rightarrow> (l, Some False)
    | Some tx \<Rightarrow>
        (if eth_To tx \<noteq> None \<and> length (eth_Data tx) = 0 then (l, None)
         else if tx_Amount t > 0 \<and> mget 0 (Accounts l) (tx_From t) < tx_Amount t then (l, Some False)
         else if 2 ^ 256 \<le> eth_Value tx then (l, Some False)
         else let (state, contractAddress, left, failed) = evm_run E l t tx;
                  l = l\<lparr>EVMAccounts := ad_accounts state\<rparr>
           in if failed then (l, Some False)
              else let l = evm_move_value l t tx;
                       l = l\<lparr>Nonces := fmupd (tx_From t) (tx_Nonce t + 1) (Nonces l)\<rparr>;
                       l = recordTx l t;
                       receipt = \<lparr>rc_TransactionHash = ToLower (tx_ID t), rc_ContractAddress = contractAddress,
                         rc_GasUsed = gas_Used E left (evm_gas_limit tx),
                         rc_Logs = evmLogsFromTypes (ad_logs state), rc_Status = 1\<rparr>
                in (l\<lparr>EVMReceipts := fmupd (ToLower (tx_ID t)) receipt (EVMReceipts l)\<rparr>, Some True)))"

section \<open>Transactions\<close>

text \<open>One definition per case of \<open>Transaction\<close>, in the order of the code.\<close>

definition mint_owner :: "SignedTransaction \<Rightarrow> NFTPayload \<Rightarrow> string" where
  "mint_owner t nft =
     (let owner = normalizeNFTAccount (nft_Owner nft)
      in if owner = [] then normalizeNFTAccount (tx_To t) else owner)"

definition minted_token :: "SignedTransaction \<Rightarrow> NFTPayload \<Rightarrow> NFTToken" where
  "minted_token t nft =
     \<lparr>tok_CollectionID = nft_CollectionID nft, tok_TokenID = nft_TokenID nft,
      tok_Owner = mint_owner t nft, tok_Minter = tx_From t, tok_MetadataURI = nft_MetadataURI nft,
      tok_MetadataHash = nft_MetadataHash nft, tok_ImageURI = nft_ImageURI nft,
      tok_MintTx = tx_ID t, tok_LastTx = tx_ID t, tok_Burned = False\<rparr>"

definition applyNFTMint :: "env \<Rightarrow> Ledger \<Rightarrow> SignedTransaction \<Rightarrow> tx_result" where
  "applyNFTMint E l t =
     (let (t, ok) = validNFTMint t in
      if \<not> ok then Some (l, t, False)
      else case Verify E t (tx_From t) of
          None \<Rightarrow> None
        | Some (t, ok) \<Rightarrow>
            (if \<not> ok then Some (l, t, False)
             else case tx_NFT t of None \<Rightarrow> None | Some nft \<Rightarrow>
               (let key = NFTKey (nft_CollectionID nft) (nft_TokenID nft) in
                if key = [] then Some (l, t, False)
                else if mhas (NFTs l) key then Some (l, t, False)
                else if mint_owner t nft = [] then Some (l, t, False)
                else let l = recordTx l t
                  in Some (l\<lparr>NFTs := fmupd key (minted_token t nft) (NFTs l)\<rparr>, t, True))))"

definition applyNFTTransfer :: "env \<Rightarrow> Ledger \<Rightarrow> SignedTransaction \<Rightarrow> tx_result" where
  "applyNFTTransfer E l t =
     (let (t, ok) = validNFTTransfer t in
      if \<not> ok then Some (l, t, False)
      else case Verify E t (tx_From t) of
          None \<Rightarrow> None
        | Some (t, ok) \<Rightarrow>
            (if \<not> ok then Some (l, t, False)
             else case tx_NFT t of None \<Rightarrow> None | Some nft \<Rightarrow>
               (let key = NFTKey (nft_CollectionID nft) (nft_TokenID nft) in
                case fmlookup (NFTs l) key of
                  None \<Rightarrow> Some (l, t, False)
                | Some token \<Rightarrow>
                    (if tok_Burned token \<or> \<not> sameNFTAccount (tok_Owner token) (tx_From t) then Some (l, t, False)
                     else let token = token\<lparr>tok_Owner := normalizeNFTAccount (tx_To t), tok_LastTx := tx_ID t\<rparr>;
                              l = l\<lparr>NFTs := fmupd key token (NFTs l)\<rparr>
                       in Some (recordTx l t, t, True)))))"

definition applyMint :: "env \<Rightarrow> Ledger \<Rightarrow> SignedTransaction \<Rightarrow> tx_result" where
  "applyMint E l t =
     (if tx_Amount t < 1 \<or> mget 0 (Accounts l) (tx_From t) \<le> 0 then Some (l, t, False)
      else case Verify E t (tx_From t) of
          None \<Rightarrow> None
        | Some (t, ok) \<Rightarrow>
            (if \<not> ok then Some (l, t, False)
             else let l = credit (recordTx l t) (tx_To t) (tx_Amount t)
               in Some (if isNativeValidatorAccount (tx_To t) then MarkValidator l (tx_To t) else l, t, True)))"

definition applyPlainTransfer :: "Ledger \<Rightarrow> SignedTransaction \<Rightarrow> Ledger \<times> bool" where
  "applyPlainTransfer l t =
     (if mget 0 (Accounts l) (tx_From t) < tx_Amount t then (l, False)
      else let l = recordTx l t;
               l = debit l (tx_From t) (tx_Amount t);
               l = credit l (tx_To t) (tx_Amount t)
        in (advanceNonce l t, True))"

definition applyTransfer :: "env \<Rightarrow> Ledger \<Rightarrow> SignedTransaction \<Rightarrow> tx_result" where
  "applyTransfer E l t =
     (if tx_Amount t < 0 \<or> \<not> IsEVM t \<and> tx_Amount t < 1 then Some (l, t, False)
      else case Verify E t (tx_From t) of
          None \<Rightarrow> None
        | Some (t, ok) \<Rightarrow>
            (if \<not> ok then Some (l, t, False)
             else if IsEVM t \<and> mget 0 (Nonces l) (tx_From t) \<noteq> tx_Nonce t then Some (l, t, False)
             else if IsEVM t \<and> tx_Raw t \<noteq> [] then
               (case applyEVMContractTransactionLocked E l t of
                  (l, Some applied) \<Rightarrow> Some (l, t, applied)
                | (l, None) \<Rightarrow> (let (l, ok) = applyPlainTransfer l t in Some (l, t, ok)))
             else (let (l, ok) = applyPlainTransfer l t in Some (l, t, ok))))"

definition Transaction :: "env \<Rightarrow> Ledger \<Rightarrow> SignedTransaction \<Rightarrow> tx_result" where
  "Transaction E l t =
     (if IsAMM t then applyAMMTransactionLocked E l t
      else if IsNFTMint t then applyNFTMint E l t
      else if IsNFTTransfer t then applyNFTTransfer E l t
      else if IsMint t then applyMint E l t
      else applyTransfer E l t)"

definition HasRecordedTransaction :: "Ledger \<Rightarrow> SignedTransaction \<Rightarrow> bool" where
  "HasRecordedTransaction l t \<longleftrightarrow> mhas (TxHistory l) (tx_ID t)"

section \<open>Queries\<close>

text \<open>
  The copies a caller gets. \<open>CopyAccountsPretty\<close> and \<open>NFTsByOwner\<close> visit the map in Go's
  unspecified order, which is their first argument here.
\<close>

fun CopyAccountsPretty :: "string list \<Rightarrow> Ledger \<Rightarrow> (string, string) gomap \<Rightarrow> (string, int) gomap \<Rightarrow> (string, int) gomap" where
  "CopyAccountsPretty [] l simpleNames out = out"
| "CopyAccountsPretty (k # ks) l simpleNames out =
     CopyAccountsPretty ks l simpleNames (fmupd (mget k simpleNames k) (mget 0 (Accounts l) k) out)"

definition CopyAccounts :: "string list \<Rightarrow> Ledger \<Rightarrow> (string, int) gomap" where
  "CopyAccounts order l = CopyAccountsPretty order l fmempty fmempty"

definition CopyValidators :: "Ledger \<Rightarrow> (string, bool) gomap" where
  "CopyValidators l = Validators l"

definition CopyAssetBalances :: "Ledger \<Rightarrow> (string, (string, int) gomap) gomap" where
  "CopyAssetBalances l = AssetBalances l"

definition CopyEVMAccounts :: "Ledger \<Rightarrow> (string, EVMAccount) gomap" where
  "CopyEVMAccounts l = EVMAccounts l"

definition CopyAMMPools :: "Ledger \<Rightarrow> (string, AMMPool) gomap" where
  "CopyAMMPools l = AMMPools l"

definition AMMPool_lookup :: "Ledger \<Rightarrow> string \<Rightarrow> AMMPool option" where
  "AMMPool_lookup l poolID = fmlookup (AMMPools l) (normalizePoolID poolID)"

definition GetEVMCode :: "Ledger \<Rightarrow> string \<Rightarrow> bytes" where
  "GetEVMCode l address = evmCode (EVMAccounts l) address"

definition GetEVMStorage :: "Ledger \<Rightarrow> string \<Rightarrow> string \<Rightarrow> string" where
  "GetEVMStorage l address slot =
     (let account = mget EVMAccount_zero (EVMAccounts l) (ToLower address);
          value = mget [] (ea_Storage account) (ToLower slot)
      in if value = [] then zero_hash else value)"

definition CallEVM :: "env \<Rightarrow> Ledger \<Rightarrow> string \<Rightarrow> string \<Rightarrow> bytes \<Rightarrow> Ledger \<times> bytes option" where
  "CallEVM E l from to input =
     (let (state, snapshot) = Snapshot (newEVMStateAdapter (EVMAccounts l));
          (state, ret, failed) = evm_StaticCall E (newLedgerEVM (HexToAddress E from)) state
             (HexToAddress E from) (HexToAddress E to) input 5000000;
          state = RevertToSnapshot state snapshot;
          l = l\<lparr>EVMAccounts := ad_accounts state\<rparr>
      in if failed then (l, None) else (l, Some ret))"

definition EVMReceipt_lookup :: "Ledger \<Rightarrow> string \<Rightarrow> EVMReceipt option" where
  "EVMReceipt_lookup l txHash = fmlookup (EVMReceipts l) (ToLower txHash)"

definition CopyTransactions :: "Ledger \<Rightarrow> (string, SignedTransaction) gomap" where
  "CopyTransactions l = TxHistory l"

definition CopyNFTs :: "Ledger \<Rightarrow> (string, NFTToken) gomap" where
  "CopyNFTs l = NFTs l"

definition NFT :: "Ledger \<Rightarrow> string \<Rightarrow> string \<Rightarrow> NFTToken option" where
  "NFT l collectionID tokenID = fmlookup (NFTs l) (NFTKey collectionID tokenID)"

fun NFTsByOwner :: "string list \<Rightarrow> Ledger \<Rightarrow> string \<Rightarrow> NFTToken list" where
  "NFTsByOwner [] l owner = []"
| "NFTsByOwner (k # ks) l owner = (case fmlookup (NFTs l) k of
      None \<Rightarrow> NFTsByOwner ks l owner
    | Some token \<Rightarrow>
        (if sameNFTAccount (tok_Owner token) owner \<and> \<not> tok_Burned token
         then token # NFTsByOwner ks l owner else NFTsByOwner ks l owner))"

definition TxCount :: "Ledger \<Rightarrow> nat" where
  "TxCount l = fcard (fmdom (TxHistory l))"

end
