(* ===== verification/Genesis.thy ===== *)
theory Genesis
  imports Codec Ledger
begin

text \<open>
  Genesis settings (\<open>account/Genesis.go\<close>): the record, its defaults, the deterministic text
  form that goes into the genesis block, its decoding (\<open>decodeGenesisFromMeta\<close> of
  \<open>account/blockchain.go\<close>) and the ledger it starts. Shown: the defaults are applied once and
  for all, and every node that decodes the genesis block gets the settings that were
  encoded.
\<close>

record GenesisMetaData =
  Hardness :: int
  Seed :: int
  DynamicHardnessForkHeight :: int
  DynamicHardnessMin :: int
  DynamicHardnessMax :: int
  DynamicHardnessWindow :: int
  FastBlockTargetSlots :: int
  IdleBlockTargetSlots :: int
  InitialBalances :: "(string, int) gomap"

definition GenesisMetaData_zero :: GenesisMetaData where
  "GenesisMetaData_zero = \<lparr>Hardness = 0, Seed = 0, DynamicHardnessForkHeight = 0, DynamicHardnessMin = 0,
     DynamicHardnessMax = 0, DynamicHardnessWindow = 0, FastBlockTargetSlots = 0, IdleBlockTargetSlots = 0,
     InitialBalances = fmempty\<rparr>"

definition BLOCKCHAIN_DEFAULT_HARDNESS :: int where [simp]: "BLOCKCHAIN_DEFAULT_HARDNESS = 10"
definition BLOCKCHAIN_SEED :: int where [simp]: "BLOCKCHAIN_SEED = 42"
definition NUMBER_OF_PRIME_ACCOUNTS :: nat where [simp]: "NUMBER_OF_PRIME_ACCOUNTS = 10"
definition NUMBER_OF_SECONDARY_ACCOUNTS :: nat where [simp]: "NUMBER_OF_SECONDARY_ACCOUNTS = 0"
definition DYNAMIC_HARDNESS_PROTOCOL_FORK_HEIGHT :: int where [simp]: "DYNAMIC_HARDNESS_PROTOCOL_FORK_HEIGHT = 2000"
definition DYNAMIC_HARDNESS_DEFAULT_MIN :: int where [simp]: "DYNAMIC_HARDNESS_DEFAULT_MIN = 100"
definition DYNAMIC_HARDNESS_DEFAULT_MAX :: int where [simp]: "DYNAMIC_HARDNESS_DEFAULT_MAX = 10000000"
definition DYNAMIC_HARDNESS_DEFAULT_WINDOW :: int where [simp]: "DYNAMIC_HARDNESS_DEFAULT_WINDOW = 32"
definition DYNAMIC_HARDNESS_DEFAULT_FAST_TARGET_SLOTS :: int where [simp]: "DYNAMIC_HARDNESS_DEFAULT_FAST_TARGET_SLOTS = 2"
definition DYNAMIC_HARDNESS_DEFAULT_IDLE_TARGET_SLOTS :: int where [simp]: "DYNAMIC_HARDNESS_DEFAULT_IDLE_TARGET_SLOTS = 20"

definition applyDefaultDynamicHardnessConfig :: "GenesisMetaData \<Rightarrow> GenesisMetaData" where
  "applyDefaultDynamicHardnessConfig g =
     (let g = (if DynamicHardnessForkHeight g \<le> 0 then g\<lparr>DynamicHardnessForkHeight := DYNAMIC_HARDNESS_PROTOCOL_FORK_HEIGHT\<rparr> else g);
          g = (if DynamicHardnessMin g \<le> 0 then g\<lparr>DynamicHardnessMin := DYNAMIC_HARDNESS_DEFAULT_MIN\<rparr> else g);
          g = (if DynamicHardnessMax g \<le> 0 then g\<lparr>DynamicHardnessMax := DYNAMIC_HARDNESS_DEFAULT_MAX\<rparr> else g);
          g = (if DynamicHardnessMax g < DynamicHardnessMin g then g\<lparr>DynamicHardnessMax := DynamicHardnessMin g\<rparr> else g);
          g = (if DynamicHardnessWindow g \<le> 0 then g\<lparr>DynamicHardnessWindow := DYNAMIC_HARDNESS_DEFAULT_WINDOW\<rparr> else g);
          g = (if FastBlockTargetSlots g \<le> 0 then g\<lparr>FastBlockTargetSlots := DYNAMIC_HARDNESS_DEFAULT_FAST_TARGET_SLOTS\<rparr> else g);
          g = (if IdleBlockTargetSlots g \<le> 0 then g\<lparr>IdleBlockTargetSlots := DYNAMIC_HARDNESS_DEFAULT_IDLE_TARGET_SLOTS\<rparr> else g)
      in g)"

text \<open>
  \<open>createAccounts\<close> generates its accounts; the prime draws of each are its argument. A
  failed generation is skipped.
\<close>

fun createAccounts :: "GenesisMetaData \<Rightarrow> (nat \<times> nat) list list \<Rightarrow> int \<Rightarrow> GenesisMetaData" where
  "createAccounts g [] initialBalance = g"
| "createAccounts g (draws # rest) initialBalance = (case NewAccount draws of
      None \<Rightarrow> createAccounts g rest initialBalance
    | Some account \<Rightarrow>
        createAccounts (g\<lparr>InitialBalances := fmupd (SafeEncode account) initialBalance (InitialBalances g)\<rparr>) rest initialBalance)"

definition makeGenesisMetaData :: "(nat \<times> nat) list list \<Rightarrow> GenesisMetaData" where
  "makeGenesisMetaData draws =
     (let g = GenesisMetaData_zero\<lparr>Hardness := BLOCKCHAIN_DEFAULT_HARDNESS, Seed := BLOCKCHAIN_SEED\<rparr>;
          g = createAccounts g (take NUMBER_OF_PRIME_ACCOUNTS draws) 1000000
      in createAccounts g (take NUMBER_OF_SECONDARY_ACCOUNTS (drop NUMBER_OF_PRIME_ACCOUNTS draws)) 0)"

definition MakeGenesisMetaDataFromAccounts :: "Account list \<Rightarrow> int \<Rightarrow> int \<Rightarrow> int \<Rightarrow> GenesisMetaData" where
  "MakeGenesisMetaDataFromAccounts accounts initialBalance hardness seed =
     (let g = applyDefaultDynamicHardnessConfig (GenesisMetaData_zero\<lparr>Hardness := hardness, Seed := seed\<rparr>)
      in g\<lparr>InitialBalances := foldl (\<lambda>m acc. fmupd (SafeEncode acc) initialBalance m) fmempty accounts\<rparr>)"

text \<open>
  The text is written piece by piece, with the accounts in the order of \<open>sort.Strings\<close>. The
  defaults are applied to the caller's settings on the way.
\<close>

fun marshal_balances :: "(string, int) gomap \<Rightarrow> string list \<Rightarrow> string" where
  "marshal_balances m [] = []"
| "marshal_balances m (k # ks) =
     marshal_string k @ '':'' @ Itoa (mget 0 m k) @ (if ks = [] then [] else CHR '','' # marshal_balances m ks)"

definition marshalGenesisMetaData :: "GenesisMetaData \<Rightarrow> GenesisMetaData \<times> bytes" where
  \<open>marshalGenesisMetaData genesis =
     (let keys = mkeys (InitialBalances genesis);
          g = applyDefaultDynamicHardnessConfig genesis
      in (g, ''{"Hardness":'' @ Itoa (Hardness g) @ '',"Seed":'' @ Itoa (Seed g) @
        '',"DynamicHardnessForkHeight":'' @ Itoa (DynamicHardnessForkHeight g) @
        '',"DynamicHardnessMin":'' @ Itoa (DynamicHardnessMin g) @
        '',"DynamicHardnessMax":'' @ Itoa (DynamicHardnessMax g) @
        '',"DynamicHardnessWindow":'' @ Itoa (DynamicHardnessWindow g) @
        '',"FastBlockTargetSlots":'' @ Itoa (FastBlockTargetSlots g) @
        '',"IdleBlockTargetSlots":'' @ Itoa (IdleBlockTargetSlots g) @
        '',"InitialBalances":{'' @ marshal_balances (InitialBalances g) keys @ ''}}''))\<close>

definition genesis_step :: "string \<Rightarrow> json \<Rightarrow> GenesisMetaData \<Rightarrow> GenesisMetaData option" where
  "genesis_step k v g =
     (if EqualFold k ''Hardness'' then map_option (\<lambda>x. g\<lparr>Hardness := x\<rparr>) (dec_int v (Hardness g))
      else if EqualFold k ''Seed'' then map_option (\<lambda>x. g\<lparr>Seed := x\<rparr>) (dec_int v (Seed g))
      else if EqualFold k ''DynamicHardnessForkHeight'' then
        map_option (\<lambda>x. g\<lparr>DynamicHardnessForkHeight := x\<rparr>) (dec_int v (DynamicHardnessForkHeight g))
      else if EqualFold k ''DynamicHardnessMin'' then
        map_option (\<lambda>x. g\<lparr>DynamicHardnessMin := x\<rparr>) (dec_int v (DynamicHardnessMin g))
      else if EqualFold k ''DynamicHardnessMax'' then
        map_option (\<lambda>x. g\<lparr>DynamicHardnessMax := x\<rparr>) (dec_int v (DynamicHardnessMax g))
      else if EqualFold k ''DynamicHardnessWindow'' then
        map_option (\<lambda>x. g\<lparr>DynamicHardnessWindow := x\<rparr>) (dec_int v (DynamicHardnessWindow g))
      else if EqualFold k ''FastBlockTargetSlots'' then
        map_option (\<lambda>x. g\<lparr>FastBlockTargetSlots := x\<rparr>) (dec_int v (FastBlockTargetSlots g))
      else if EqualFold k ''IdleBlockTargetSlots'' then
        map_option (\<lambda>x. g\<lparr>IdleBlockTargetSlots := x\<rparr>) (dec_int v (IdleBlockTargetSlots g))
      else if EqualFold k ''InitialBalances'' then
        map_option (\<lambda>x. g\<lparr>InitialBalances := x\<rparr>) (dec_int_map v (InitialBalances g))
      else Some g)"

definition dec_genesis :: "bytes \<Rightarrow> GenesisMetaData option" where
  "dec_genesis s = (case json_parse s of None \<Rightarrow> None | Some v \<Rightarrow> dec_struct genesis_step v GenesisMetaData_zero)"

text \<open>
  Plain JSON first, base64 second. A text that is both JSON and base64 is a number, \<open>true\<close>
  or the like, which leaves the settings untouched, so the second attempt starts from
  zero values as well.
\<close>

definition decodeGenesisFromMeta :: "string \<Rightarrow> GenesisMetaData option" where
  "decodeGenesisFromMeta meta = (case dec_genesis meta of
      Some genesis \<Rightarrow> Some genesis
    | None \<Rightarrow> (case b64_decode meta of None \<Rightarrow> None | Some decoded \<Rightarrow> dec_genesis decoded))"

fun initialize_accounts :: "(string, int) gomap \<Rightarrow> string list \<Rightarrow> Ledger \<Rightarrow> Ledger" where
  "initialize_accounts m [] l = l"
| "initialize_accounts m (account # rest) l =
     (let amount = mget 0 m account;
          l = SetBalance l account amount;
          l = (if amount > 0 then MarkValidator l account else l)
      in initialize_accounts m rest l)"

definition InitializeFromGenesis :: "Ledger \<Rightarrow> GenesisMetaData \<Rightarrow> Ledger" where
  "InitializeFromGenesis l genesis = initialize_accounts (InitialBalances genesis) (mkeys (InitialBalances genesis)) l"

section \<open>The settings survive the genesis block\<close>

lemma defaults_keep [simp]:
  "Hardness (applyDefaultDynamicHardnessConfig g) = Hardness g" "Seed (applyDefaultDynamicHardnessConfig g) = Seed g"
  "InitialBalances (applyDefaultDynamicHardnessConfig g) = InitialBalances g"
  by (simp_all add: applyDefaultDynamicHardnessConfig_def Let_def)

lemma defaults_positive:
  "0 < DynamicHardnessForkHeight (applyDefaultDynamicHardnessConfig g)"
  "0 < DynamicHardnessMin (applyDefaultDynamicHardnessConfig g)"
  "DynamicHardnessMin (applyDefaultDynamicHardnessConfig g) \<le> DynamicHardnessMax (applyDefaultDynamicHardnessConfig g)"
  "0 < DynamicHardnessWindow (applyDefaultDynamicHardnessConfig g)"
  "0 < FastBlockTargetSlots (applyDefaultDynamicHardnessConfig g)"
  "0 < IdleBlockTargetSlots (applyDefaultDynamicHardnessConfig g)"
  by (simp_all add: applyDefaultDynamicHardnessConfig_def Let_def)

lemma defaults_fixed:
  assumes "0 < DynamicHardnessForkHeight g" "0 < DynamicHardnessMin g" "DynamicHardnessMin g \<le> DynamicHardnessMax g"
    "0 < DynamicHardnessWindow g" "0 < FastBlockTargetSlots g" "0 < IdleBlockTargetSlots g"
  shows "applyDefaultDynamicHardnessConfig g = g"
  using assms by (simp add: applyDefaultDynamicHardnessConfig_def Let_def)

lemma defaults_idem [simp]:
  "applyDefaultDynamicHardnessConfig (applyDefaultDynamicHardnessConfig g) = applyDefaultDynamicHardnessConfig g"
  by (intro defaults_fixed defaults_positive)

definition genesis_json :: "GenesisMetaData \<Rightarrow> json" where
  "genesis_json g = JObj [(''Hardness'', JNum (Itoa (Hardness g))), (''Seed'', JNum (Itoa (Seed g))),
     (''DynamicHardnessForkHeight'', JNum (Itoa (DynamicHardnessForkHeight g))),
     (''DynamicHardnessMin'', JNum (Itoa (DynamicHardnessMin g))),
     (''DynamicHardnessMax'', JNum (Itoa (DynamicHardnessMax g))),
     (''DynamicHardnessWindow'', JNum (Itoa (DynamicHardnessWindow g))),
     (''FastBlockTargetSlots'', JNum (Itoa (FastBlockTargetSlots g))),
     (''IdleBlockTargetSlots'', JNum (Itoa (IdleBlockTargetSlots g))),
     (''InitialBalances'', JObj (map (\<lambda>k. (k, JNum (Itoa (mget 0 (InitialBalances g) k)))) (mkeys (InitialBalances g))))]"

lemma marshal_balances_json:
  "marshal_balances m ks = json_members (map (\<lambda>k. (k, JNum (Itoa (mget 0 m k)))) ks)"
  by (induction ks) simp_all

lemma escape_literal: "(of_char c :: nat) < 128 \<Longrightarrow> escape_ascii c = [c] \<Longrightarrow> escape_string (c # s) = c # escape_string s"
  by simp

lemma marshalGenesis_json:
  "snd (marshalGenesisMetaData g) = json_marshal (genesis_json (applyDefaultDynamicHardnessConfig g))"
  by (simp add: marshalGenesisMetaData_def genesis_json_def Let_def marshal_balances_json marshal_string_def quote_def
    escape_ascii_def)

definition plain_genesis :: "GenesisMetaData \<Rightarrow> bool" where
  "plain_genesis g \<longleftrightarrow> in_i64 (Hardness g) \<and> in_i64 (Seed g) \<and> in_i64 (DynamicHardnessForkHeight g) \<and>
     in_i64 (DynamicHardnessMin g) \<and> in_i64 (DynamicHardnessMax g) \<and> in_i64 (DynamicHardnessWindow g) \<and>
     in_i64 (FastBlockTargetSlots g) \<and> in_i64 (IdleBlockTargetSlots g) \<and>
     fmpred (\<lambda>k v. ascii k \<and> in_i64 v) (InitialBalances g)"

lemma plain_defaults: "plain_genesis g \<Longrightarrow> plain_genesis (applyDefaultDynamicHardnessConfig g)"
  by (auto simp: plain_genesis_def applyDefaultDynamicHardnessConfig_def Let_def in_i64_def)

lemma genesis_members:
  "in_i64 i \<Longrightarrow> dec_members genesis_step ((''Hardness'', JNum (Itoa i)) # ms) g = dec_members genesis_step ms (g\<lparr>Hardness := i\<rparr>)"
  "in_i64 i \<Longrightarrow> dec_members genesis_step ((''Seed'', JNum (Itoa i)) # ms) g = dec_members genesis_step ms (g\<lparr>Seed := i\<rparr>)"
  "in_i64 i \<Longrightarrow> dec_members genesis_step ((''DynamicHardnessForkHeight'', JNum (Itoa i)) # ms) g = dec_members genesis_step ms (g\<lparr>DynamicHardnessForkHeight := i\<rparr>)"
  "in_i64 i \<Longrightarrow> dec_members genesis_step ((''DynamicHardnessMin'', JNum (Itoa i)) # ms) g = dec_members genesis_step ms (g\<lparr>DynamicHardnessMin := i\<rparr>)"
  "in_i64 i \<Longrightarrow> dec_members genesis_step ((''DynamicHardnessMax'', JNum (Itoa i)) # ms) g = dec_members genesis_step ms (g\<lparr>DynamicHardnessMax := i\<rparr>)"
  "in_i64 i \<Longrightarrow> dec_members genesis_step ((''DynamicHardnessWindow'', JNum (Itoa i)) # ms) g = dec_members genesis_step ms (g\<lparr>DynamicHardnessWindow := i\<rparr>)"
  "in_i64 i \<Longrightarrow> dec_members genesis_step ((''FastBlockTargetSlots'', JNum (Itoa i)) # ms) g = dec_members genesis_step ms (g\<lparr>FastBlockTargetSlots := i\<rparr>)"
  "in_i64 i \<Longrightarrow> dec_members genesis_step ((''IdleBlockTargetSlots'', JNum (Itoa i)) # ms) g = dec_members genesis_step ms (g\<lparr>IdleBlockTargetSlots := i\<rparr>)"
  by (simp_all add: genesis_step_def ToLower_def EqualFold_def lower_char_def)

lemma dec_balances:
  assumes "list_all (\<lambda>k. in_i64 (f k)) ks"
  shows "dec_members (\<lambda>k v m. map_option (\<lambda>i. fmupd k i m) (dec_int v 0)) (map (\<lambda>k. (k, JNum (Itoa (f k)))) ks) m
    = Some (foldl (\<lambda>m k. fmupd k (f k) m) m ks)"
  using assms by (induction ks arbitrary: m) simp_all

lemma fmlookup_foldl_fmupd:
  "fmlookup (foldl (\<lambda>m k. fmupd k (f k) m) m ks) j = (if j \<in> set ks then Some (f j) else fmlookup m j)"
  by (induction ks arbitrary: m) auto

lemma rebuild_map: "foldl (\<lambda>n k. fmupd k (mget 0 m k) n) fmempty (mkeys m) = m"
  by (rule fmap_ext) (auto simp: fmlookup_foldl_fmupd mget_def fmdom_notD split: option.splits)

lemma dec_genesis_json:
  assumes "plain_genesis g"
  shows "dec_struct genesis_step (genesis_json g) GenesisMetaData_zero = Some g"
proof -
  let ?m = "InitialBalances g"
  have "list_all (\<lambda>k. in_i64 (mget 0 ?m k)) (mkeys ?m)"
    using assms by (auto simp: plain_genesis_def list_all_iff fmpred_iff mget_def fmlookup_dom_iff)
  from dec_balances [OF this, of fmempty]
  have "dec_members genesis_step [(''InitialBalances'', JObj (map (\<lambda>k. (k, JNum (Itoa (mget 0 ?m k)))) (mkeys ?m)))] h
    = Some (h\<lparr>InitialBalances := ?m\<rparr>)" if "InitialBalances h = fmempty" for h
    using that by (simp add: genesis_step_def ToLower_def EqualFold_def lower_char_def rebuild_map)
  then show ?thesis
    using assms by (cases g) (simp add: genesis_json_def plain_genesis_def GenesisMetaData_zero_def genesis_members
      del: dec_members.simps(2))
qed

lemma wf_genesis_json:
  assumes "plain_genesis g"
  shows "wf_json (genesis_json g)" and "json_depth (genesis_json g) \<le> max_depth"
proof -
  have "ascii k" if "k \<in> set (mkeys (InitialBalances g))" for k
    using assms that by (auto simp: plain_genesis_def fmpred_iff fmlookup_dom_iff)
  then show "wf_json (genesis_json g)" by (simp add: genesis_json_def list_all_iff)
  have "json_depth (genesis_json g) \<le> Suc (Suc 0)"
    unfolding genesis_json_def by (rule depth_obj, simp add: list_all_iff del: json_depth.simps(2), rule depth_obj) (simp add: list_all_iff)
  then show "json_depth (genesis_json g) \<le> max_depth" by (rule order.trans) (simp add: max_depth_def)
qed

text \<open>The base64 text of the settings starts with an \<open>e\<close>, which no JSON value does.\<close>

lemma char_of_101: "char_of (101 :: nat) = CHR ''e''"
proof -
  have "char_of (of_char (CHR ''e'') :: nat) = CHR ''e''" by (rule char_of_char)
  then show ?thesis by simp
qed

lemma genesis_base64_not_json: "json_parse (b64_encode (snd (marshalGenesisMetaData g))) = None"
proof -
  obtain t where "snd (marshalGenesisMetaData g) = CHR ''{'' # quote # CHR ''H'' # t"
    by (simp add: marshalGenesisMetaData_def Let_def quote_def)
  then obtain u where "b64_encode (snd (marshalGenesisMetaData g)) = CHR ''e'' # u"
    by (simp add: quote_def b64_char_def char_of_101)
  then show ?thesis
    by (simp add: json_parse_def skip_ws_def is_ws_def quote_def HasPrefix_def parse_number_def parse_int_part_def
      is_digit_def parse_digits_def)
qed

lemma genesis_roundtrip:
  assumes "plain_genesis g"
  shows "decodeGenesisFromMeta (b64_encode (snd (marshalGenesisMetaData g))) = Some (applyDefaultDynamicHardnessConfig g)"
proof -
  let ?d = "applyDefaultDynamicHardnessConfig g"
  note d = plain_defaults [OF assms]
  have "dec_genesis (snd (marshalGenesisMetaData g)) = Some ?d"
    using json_parse_marshal [OF wf_genesis_json [OF d]] dec_genesis_json [OF d]
    by (simp add: dec_genesis_def marshalGenesis_json)
  then show ?thesis
    by (simp add: decodeGenesisFromMeta_def dec_genesis_def [of "b64_encode s" for s] genesis_base64_not_json)
qed

section \<open>The first ledger\<close>

lemma initialize_accounts_frame [simp]:
  "Nonces (initialize_accounts m ks l) = Nonces l" "NFTs (initialize_accounts m ks l) = NFTs l"
  "AssetBalances (initialize_accounts m ks l) = AssetBalances l" "AMMPools (initialize_accounts m ks l) = AMMPools l"
  "EVMAccounts (initialize_accounts m ks l) = EVMAccounts l" "EVMReceipts (initialize_accounts m ks l) = EVMReceipts l"
  "TxHistory (initialize_accounts m ks l) = TxHistory l"
  by (induction m ks l rule: initialize_accounts.induct) (simp_all add: Let_def SetBalance_def MarkValidator_def)

lemma initialize_accounts_Accounts:
  "Accounts (initialize_accounts m ks l) = foldl (\<lambda>n k. fmupd k (mget 0 m k) n) (Accounts l) ks"
  by (induction m ks l rule: initialize_accounts.induct) (simp_all add: Let_def SetBalance_def MarkValidator_def)

lemma initialize_accounts_Validators:
  "fmlookup (Validators (initialize_accounts m ks l)) a =
     (if a \<in> set ks \<and> mget 0 m a > 0 then Some True else fmlookup (Validators l) a)"
  by (induction m ks l rule: initialize_accounts.induct) (simp_all add: Let_def SetBalance_def MarkValidator_def)

lemma genesis_ledger:
  shows "Accounts (InitializeFromGenesis MakeLedger g) = InitialBalances g"
    and "IsValidator (InitializeFromGenesis MakeLedger g) a \<longleftrightarrow> mget 0 (InitialBalances g) a > 0"
proof -
  show "Accounts (InitializeFromGenesis MakeLedger g) = InitialBalances g"
    by (simp add: InitializeFromGenesis_def initialize_accounts_Accounts MakeLedger_def rebuild_map)
  have "mget 0 (InitialBalances g) a > 0 \<Longrightarrow> a |\<in>| fmdom (InitialBalances g)"
    by (auto simp: mget_def fmlookup_dom_iff split: option.splits)
  then show "IsValidator (InitializeFromGenesis MakeLedger g) a \<longleftrightarrow> mget 0 (InitialBalances g) a > 0"
    by (auto simp: IsValidator_def mget_def [of False] InitializeFromGenesis_def initialize_accounts_Validators MakeLedger_def)
qed

end
