(* ===== verification/LedgerFacts.thy ===== *)
theory LedgerFacts
  imports Ledger
begin

text \<open>
  What the ledger promises: refused transactions change no balance, nonce, token or pool;
  balances move as \<open>balance_store\<close> says; a well-formedness invariant that every
  transaction keeps; nonces; ownership of tokens; issuance of every asset; the lottery.
\<close>

section \<open>Verification leaves the transaction's identity alone\<close>

lemma normalizeAMM_simps [simp]:
  "tx_ID (normalizeAMM t) = tx_ID t" "tx_From (normalizeAMM t) = tx_From t"
  "tx_Nonce (normalizeAMM t) = tx_Nonce t" "tx_Signature (normalizeAMM t) = tx_Signature t"
  "tx_Raw (normalizeAMM t) = tx_Raw t" "tx_Amount (normalizeAMM t) = tx_Amount t"
  "tx_NFT (normalizeAMM t) = tx_NFT t" "tx_ChainID (normalizeAMM t) = tx_ChainID t"
  by (simp_all add: normalizeAMM_def Let_def split: option.split)

lemma VerifyEVM_tx: "VerifyEVM L t a = (t', ok) \<Longrightarrow> t' = t \<or> IsAMM t \<and> t' = normalizeAMM t"
  by (auto simp: VerifyEVM_def Let_def split: option.splits if_splits)

lemma Verify_tx: "Verify L t a = Some (t', ok) \<Longrightarrow> t' = t \<or> IsAMM t \<and> t' = normalizeAMM t"
  using VerifyEVM_tx [of L t a t' ok] by (auto simp: Verify_def split: option.splits if_splits)

lemma Verify_same: "Verify L t a = Some (t', ok) \<Longrightarrow> \<not> IsAMM t \<Longrightarrow> t' = t"
  using Verify_tx by blast

lemma IsAMM_NFT_simps [simp]:
  "IsAMM (t\<lparr>tx_NFT := p\<rparr>) = IsAMM t" "IsAMM (t\<lparr>tx_To := a\<rparr>) = IsAMM t"
  "IsEVM (t\<lparr>tx_NFT := p\<rparr>) = IsEVM t" "IsEVM (t\<lparr>tx_To := a\<rparr>) = IsEVM t" "IsEVM (t\<lparr>tx_AMM := q\<rparr>) = IsEVM t"
  by (simp_all add: IsAMM_def IsEVM_def)

lemma validNFTMint_simps:
  assumes "validNFTMint t = (t', ok)"
  shows "tx_ID t' = tx_ID t" "tx_From t' = tx_From t" "IsAMM t' = IsAMM t" "IsEVM t' = IsEVM t"
    "tx_Nonce t' = tx_Nonce t" "tx_Amount t' = tx_Amount t" "tx_Kind t' = tx_Kind t"
  using assms by (auto simp: validNFTMint_def Let_def split: option.splits)

lemma validNFTTransfer_simps:
  assumes "validNFTTransfer t = (t', ok)"
  shows "tx_ID t' = tx_ID t" "tx_From t' = tx_From t" "IsAMM t' = IsAMM t" "IsEVM t' = IsEVM t"
    "tx_Nonce t' = tx_Nonce t" "tx_Amount t' = tx_Amount t" "tx_Kind t' = tx_Kind t"
  using assms by (auto simp: validNFTTransfer_def Let_def split: option.splits)

lemma validAMM_tx: "validAMM t = (t', ok) \<Longrightarrow> tx_AMM t \<noteq> None \<Longrightarrow> t' = normalizeAMM t"
  by (auto simp: validAMM_def Let_def split: option.splits)

section \<open>Refusals\<close>

lemma debitAssetLocked_False: "debitAssetLocked l a k v = (l', False) \<Longrightarrow> l' = l"
  by (auto simp: debitAssetLocked_def Let_def split: if_splits)

lemma debitAssetLocked_True:
  "debitAssetLocked l a k v = (l', True) \<longleftrightarrow>
     canDebitAssetLocked l a k v \<and> l' = fst (debitAssetLocked l a k v)"
  by (auto simp: debitAssetLocked_def canDebitAssetLocked_def Let_def not_le)

lemma ammSwap_False: "ammSwap l t p = (l', p', False) \<Longrightarrow> l' = l \<and> p' = p"
  using QuoteSwap_applySwap
  by (fastforce simp: ammSwap_def Let_def split: option.splits if_splits prod.splits)

lemma ammAction_False: "ammAction l t p = (l', p', False) \<Longrightarrow> l' = l \<and> p' = p"
  by (auto simp: ammAction_def ammAssetCredit_def ammAssetDebit_def ammCreatePool_def ammAddLiquidity_def Let_def
    dest: debitAssetLocked_False ammSwap_False split: option.splits if_splits prod.splits)

lemma applyAMM_False: "applyAMMTransactionLocked E l t = Some (l', t', False) \<Longrightarrow> l' = l"
  by (auto simp: applyAMMTransactionLocked_def Let_def dest: ammAction_False
    split: option.splits if_splits prod.splits)

lemma applyNFTMint_False: "applyNFTMint E l t = Some (l', t', False) \<Longrightarrow> l' = l"
  by (auto simp: applyNFTMint_def Let_def split: option.splits if_splits prod.splits)

lemma applyNFTTransfer_False: "applyNFTTransfer E l t = Some (l', t', False) \<Longrightarrow> l' = l"
  by (auto simp: applyNFTTransfer_def Let_def split: option.splits if_splits prod.splits)

lemma applyMint_False: "applyMint E l t = Some (l', t', False) \<Longrightarrow> l' = l"
  by (auto simp: applyMint_def Let_def split: option.splits if_splits prod.splits)

lemma applyPlainTransfer_False: "applyPlainTransfer l t = (l', False) \<Longrightarrow> l' = l"
  by (auto simp: applyPlainTransfer_def Let_def split: if_splits)

text \<open>A contract transaction that fails leaves what the virtual machine left of the contract accounts.\<close>

lemma applyEVM_not_True:
  "applyEVMContractTransactionLocked E l t = (l', r) \<Longrightarrow> r \<noteq> Some True \<Longrightarrow>
     l' = l\<lparr>EVMAccounts := EVMAccounts l'\<rparr>"
  by (auto simp: applyEVMContractTransactionLocked_def Let_def split: option.splits if_splits prod.splits)

lemma applyEVM_None: "applyEVMContractTransactionLocked E l t = (l', None) \<Longrightarrow> l' = l"
  by (auto simp: applyEVMContractTransactionLocked_def Let_def split: option.splits if_splits prod.splits)

lemma applyTransfer_False:
  "applyTransfer E l t = Some (l', t', False) \<Longrightarrow> l' = l\<lparr>EVMAccounts := EVMAccounts l'\<rparr>"
  using applyEVM_not_True [of E l t' l' "Some False"]
  by (auto simp: applyTransfer_def Let_def dest!: applyPlainTransfer_False applyEVM_None
    split: option.splits if_splits prod.splits)

lemmas refusals = applyAMM_False applyNFTMint_False applyNFTTransfer_False applyMint_False applyTransfer_False

lemma Transaction_False:
  assumes "Transaction E l t = Some (l', t', False)"
  shows "l' = l\<lparr>EVMAccounts := EVMAccounts l'\<rparr>"
  using assms by (auto simp: Transaction_def dest: refusals split: if_splits)

section \<open>What an applied transaction did\<close>

lemma applyAMM_True:
  assumes "applyAMMTransactionLocked E l t = Some (l', t', True)"
  obtains t1 p p' l1 where "tx_AMM t1 = Some p" "tx_ID t1 = tx_ID t" "tx_From t1 = tx_From t"
    "tx_Nonce t1 = tx_Nonce t" "IsEVM t1 \<Longrightarrow> GetNonce l (tx_From t) = tx_Nonce t" "validAMM t = (normalizeAMM t, True)"
    "t1 = normalizeAMM t \<or> t1 = normalizeAMM (normalizeAMM t)" "ammAction l t1 p = (l1, p', True)"
    "t' = t1\<lparr>tx_AMM := Some p'\<rparr>" "l' = advanceNonce (recordTx l1 t') t'"
proof -
  have some: "tx_AMM t \<noteq> None"
    using assms by (auto simp: applyAMMTransactionLocked_def split: if_splits)
  obtain t0 where valid: "validAMM t = (t0, True)"
    using assms by (auto simp: applyAMMTransactionLocked_def some Let_def split: prod.splits if_splits)
  then have t0: "t0 = normalizeAMM t" using validAMM_tx some by blast
  with assms valid some obtain t1 where v: "Verify E (normalizeAMM t) (tx_From t) = Some (t1, True)"
    by (auto simp: applyAMMTransactionLocked_def split: option.splits if_splits)
  have t1: "t1 = normalizeAMM t \<or> t1 = normalizeAMM (normalizeAMM t)" using Verify_tx [OF v] by auto
  then have ids: "tx_ID t1 = tx_ID t" "tx_From t1 = tx_From t" "tx_Nonce t1 = tx_Nonce t" by auto
  with assms valid some v t0 show thesis
    using t1 by (auto simp: applyAMMTransactionLocked_def Let_def GetNonce_def intro!: that
        split: option.splits if_splits prod.splits)
qed

lemma applyNFTMint_True:
  assumes "applyNFTMint E l t = Some (l', t', True)" and "\<not> IsAMM t"
  obtains key nft where "tx_NFT t' = Some nft" "key = NFTKey (nft_CollectionID nft) (nft_TokenID nft)"
    "\<not> mhas (NFTs l) key" "key \<noteq> []" "mint_owner t' nft \<noteq> []"
    "l' = (recordTx l t')\<lparr>NFTs := fmupd key (minted_token t' nft) (NFTs l)\<rparr>"
    "tx_ID t' = tx_ID t" "tx_From t' = tx_From t" "Verify E t' (tx_From t) = Some (t', True)"
proof -
  obtain t0 where valid: "validNFTMint t = (t0, True)"
    using assms by (auto simp: applyNFTMint_def split: prod.splits if_splits)
  note t0 = validNFTMint_simps [OF valid]
  obtain t1 where v: "Verify E t0 (tx_From t0) = Some (t1, True)"
    using assms valid by (auto simp: applyNFTMint_def split: option.splits if_splits)
  have t1: "t1 = t0" using Verify_same [OF v] t0 assms(2) by simp
  have t': "t' = t0"
    using assms valid v t1 by (auto simp: applyNFTMint_def Let_def split: option.splits if_splits)
  obtain nft where nft: "tx_NFT t0 = Some nft"
    using assms valid v t1 by (auto simp: applyNFTMint_def Let_def split: option.splits if_splits)
  show thesis
    by (rule that [of nft "NFTKey (nft_CollectionID nft) (nft_TokenID nft)"])
      (use assms(1) valid v t1 t' nft t0 in
        \<open>auto simp: applyNFTMint_def Let_def recordTx_def split: if_splits\<close>)
qed

lemma applyNFTTransfer_True:
  assumes "applyNFTTransfer E l t = Some (l', t', True)" and "\<not> IsAMM t"
  obtains key token where "fmlookup (NFTs l) key = Some token" "\<not> tok_Burned token"
    "sameNFTAccount (tok_Owner token) (tx_From t)" "tx_To t' \<noteq> []" "tx_To t' = normalizeNFTAccount (tx_To t)"
    "l' = (recordTx l t')\<lparr>NFTs := fmupd key (token\<lparr>tok_Owner := normalizeNFTAccount (tx_To t'), tok_LastTx := tx_ID t\<rparr>) (NFTs l)\<rparr>"
    "tx_ID t' = tx_ID t" "Verify E t' (tx_From t) = Some (t', True)"
proof -
  obtain t0 where valid: "validNFTTransfer t = (t0, True)"
    using assms by (auto simp: applyNFTTransfer_def split: prod.splits if_splits)
  note t0 = validNFTTransfer_simps [OF valid]
  have to: "tx_To t0 \<noteq> []" "tx_To t0 = normalizeNFTAccount (tx_To t)"
    using valid by (auto simp: validNFTTransfer_def Let_def split: option.splits)
  obtain t1 where v: "Verify E t0 (tx_From t0) = Some (t1, True)"
    using assms valid by (auto simp: applyNFTTransfer_def split: option.splits if_splits)
  have "t1 = t0" using Verify_same [OF v] t0 assms(2) by simp
  with v t0 to assms valid that show thesis
    by (auto simp: applyNFTTransfer_def Let_def recordTx_def split: option.splits if_splits)
qed

lemma applyMint_True:
  assumes "applyMint E l t = Some (l', t', True)" and "\<not> IsAMM t"
  shows "t' = t" "1 \<le> tx_Amount t" "0 < mget 0 (Accounts l) (tx_From t)" "Verify E t (tx_From t) = Some (t, True)"
    "l' = (let l1 = credit (recordTx l t) (tx_To t) (tx_Amount t)
           in if isNativeValidatorAccount (tx_To t) then MarkValidator l1 (tx_To t) else l1)"
proof -
  obtain t1 where v: "Verify E t (tx_From t) = Some (t1, True)"
    using assms by (auto simp: applyMint_def split: option.splits if_splits)
  have "t1 = t" using Verify_same [OF v assms(2)] .
  with v assms show "t' = t" "1 \<le> tx_Amount t" "0 < mget 0 (Accounts l) (tx_From t)"
    "Verify E t (tx_From t) = Some (t, True)"
    "l' = (let l1 = credit (recordTx l t) (tx_To t) (tx_Amount t)
           in if isNativeValidatorAccount (tx_To t) then MarkValidator l1 (tx_To t) else l1)"
    by (auto simp: applyMint_def Let_def split: if_splits)
qed

lemma applyPlainTransfer_True:
  assumes "applyPlainTransfer l t = (l', True)"
  shows "tx_Amount t \<le> mget 0 (Accounts l) (tx_From t)"
    "l' = advanceNonce (credit (debit (recordTx l t) (tx_From t) (tx_Amount t)) (tx_To t) (tx_Amount t)) t"
  using assms by (auto simp: applyPlainTransfer_def Let_def split: if_splits)

lemma applyTransfer_True:
  assumes "applyTransfer E l t = Some (l', t', True)" and "\<not> IsAMM t"
  shows "t' = t" "Verify E t (tx_From t) = Some (t, True)" "0 \<le> tx_Amount t" "\<not> IsEVM t \<Longrightarrow> 1 \<le> tx_Amount t"
    "IsEVM t \<Longrightarrow> GetNonce l (tx_From t) = tx_Nonce t"
    "(IsEVM t \<and> tx_Raw t \<noteq> [] \<longrightarrow> applyEVMContractTransactionLocked E l t = (l, None)) \<and> applyPlainTransfer l t = (l', True) \<or>
     IsEVM t \<and> tx_Raw t \<noteq> [] \<and> applyEVMContractTransactionLocked E l t = (l', Some True)"
proof -
  obtain t1 where v: "Verify E t (tx_From t) = Some (t1, True)"
    using assms by (auto simp: applyTransfer_def split: option.splits if_splits)
  have "t1 = t" using Verify_same [OF v assms(2)] .
  with v assms show "t' = t" "Verify E t (tx_From t) = Some (t, True)" "0 \<le> tx_Amount t" "\<not> IsEVM t \<Longrightarrow> 1 \<le> tx_Amount t"
    "IsEVM t \<Longrightarrow> GetNonce l (tx_From t) = tx_Nonce t"
    "(IsEVM t \<and> tx_Raw t \<noteq> [] \<longrightarrow> applyEVMContractTransactionLocked E l t = (l, None)) \<and> applyPlainTransfer l t = (l', True) \<or>
     IsEVM t \<and> tx_Raw t \<noteq> [] \<and> applyEVMContractTransactionLocked E l t = (l', Some True)"
    by (auto simp: applyTransfer_def Let_def GetNonce_def split: option.splits if_splits prod.splits)
      (metis applyEVM_None)+
qed

lemma applyEVM_True:
  assumes "applyEVMContractTransactionLocked E l t = (l', Some True)"
  obtains tx state contractAddress left where "decodeEVM E t = Some tx"
    "evm_run E l t tx = (state, contractAddress, left, False)"
    "eth_To tx = None \<or> eth_Data tx \<noteq> []" "tx_Amount t \<le> 0 \<or> tx_Amount t \<le> mget 0 (Accounts l) (tx_From t)"
    "l' = (let l1 = evm_move_value (l\<lparr>EVMAccounts := ad_accounts state\<rparr>) t tx in
       l1\<lparr>Nonces := fmupd (tx_From t) (tx_Nonce t + 1) (Nonces l1),
          TxHistory := fmupd (tx_ID t) t (TxHistory l1),
          EVMReceipts := fmupd (ToLower (tx_ID t)) \<lparr>rc_TransactionHash = ToLower (tx_ID t),
            rc_ContractAddress = contractAddress, rc_GasUsed = gas_Used E left (evm_gas_limit tx),
            rc_Logs = evmLogsFromTypes (ad_logs state), rc_Status = 1\<rparr> (EVMReceipts l1)\<rparr>)"
  using assms
  by (auto simp: applyEVMContractTransactionLocked_def Let_def recordTx_def intro!: that
    split: option.splits if_splits prod.splits)

lemmas ledger_ops = credit_def debit_def recordTx_def advanceNonce_def MarkValidator_def setAsset_def

text \<open>Every case of \<open>Transaction\<close> that answers true, for case analyses.\<close>

lemma Transaction_True:
  assumes "Transaction E l t = Some (l', t', True)"
  obtains (amm) "IsAMM t" "applyAMMTransactionLocked E l t = Some (l', t', True)"
  | (nft_mint) "\<not> IsAMM t" "IsNFTMint t" "applyNFTMint E l t = Some (l', t', True)"
  | (nft_transfer) "\<not> IsAMM t" "IsNFTTransfer t" "applyNFTTransfer E l t = Some (l', t', True)"
  | (mint) "\<not> IsAMM t" "IsMint t" "applyMint E l t = Some (l', t', True)"
  | (plain) "\<not> IsAMM t" "\<not> IsNFT t" "\<not> IsMint t" "applyPlainTransfer l t = (l', True)" "t' = t"
      "IsEVM t \<and> tx_Raw t \<noteq> [] \<Longrightarrow> applyEVMContractTransactionLocked E l t = (l, None)" "applyTransfer E l t = Some (l', t, True)"
  | (contract) "\<not> IsAMM t" "\<not> IsNFT t" "\<not> IsMint t" "IsEVM t" "tx_Raw t \<noteq> []" "t' = t"
      "applyEVMContractTransactionLocked E l t = (l', Some True)" "applyTransfer E l t = Some (l', t, True)"
proof -
  consider "IsAMM t" | "\<not> IsAMM t" "IsNFTMint t" | "\<not> IsAMM t" "IsNFTTransfer t" | "\<not> IsAMM t" "IsMint t"
    | "\<not> IsAMM t" "\<not> IsNFT t" "\<not> IsMint t" by (auto simp: IsNFT_def)
  then show thesis
  proof cases
    case 5
    with assms have tr: "applyTransfer E l t = Some (l', t', True)"
      by (auto simp: Transaction_def IsNFT_def)
    then show thesis using applyTransfer_True [OF tr] 5 that(5,6) by auto
  qed (use assms that(1-4) in \<open>auto simp: Transaction_def IsNFTMint_def IsNFTTransfer_def IsMint_def\<close>)
qed

section \<open>Well-formed ledgers\<close>

definition pool_wf :: "string \<Rightarrow> AMMPool \<Rightarrow> bool" where
  "pool_wf k p \<longleftrightarrow> pool_ID p = k \<and> k \<noteq> [] \<and> k = PoolID (pool_AssetA p) (pool_AssetB p) \<and>
     normalizeAsset (pool_AssetA p) = pool_AssetA p \<and> normalizeAsset (pool_AssetB p) = pool_AssetB p \<and>
     pool_FeeBps p = AMMFeeBps"

definition token_wf :: "string \<Rightarrow> NFTToken \<Rightarrow> bool" where
  "token_wf k n \<longleftrightarrow> k \<noteq> [] \<and> k = NFTKey (tok_CollectionID n) (tok_TokenID n) \<and> tok_Owner n \<noteq> [] \<and> \<not> tok_Burned n"

definition receipt_wf :: "string \<Rightarrow> EVMReceipt \<Rightarrow> bool" where
  "receipt_wf k r \<longleftrightarrow> rc_TransactionHash r = k \<and> rc_Status r = 1"

definition ledger_wf :: "Ledger \<Rightarrow> bool" where
  "ledger_wf l \<longleftrightarrow>
     fmpred (\<lambda>k p. pool_wf k p \<and> mhas (TxHistory l) (pool_CreatedTx p) \<and> mhas (TxHistory l) (pool_LastTx p)) (AMMPools l) \<and>
     fmpred (\<lambda>k n. token_wf k n \<and> mhas (TxHistory l) (tok_MintTx n) \<and> mhas (TxHistory l) (tok_LastTx n)) (NFTs l) \<and>
     fmpred (\<lambda>k t. tx_ID t = k) (TxHistory l) \<and>
     fmpred receipt_wf (EVMReceipts l) \<and>
     fmpred (\<lambda>k v. v) (Validators l)"

lemma ledger_wf_MakeLedger: "ledger_wf MakeLedger"
  by (simp add: ledger_wf_def MakeLedger_def)

text \<open>An update that keeps the other maps and extends the history.\<close>

lemma fmpred_mono: "fmpred P m \<Longrightarrow> (\<And>k v. fmlookup m k = Some v \<Longrightarrow> P k v \<Longrightarrow> Q k v) \<Longrightarrow> fmpred Q m"
  by (auto simp: fmpred_iff)

lemma fmpred_fmupd: "fmpred P m \<Longrightarrow> P k v \<Longrightarrow> fmpred P (fmupd k v m)"
  by (auto simp: fmpred_iff)

lemma ledger_wf_frame:
  assumes "ledger_wf l" and "AMMPools l' = AMMPools l" and "NFTs l' = NFTs l" and "EVMReceipts l' = EVMReceipts l"
    and "Validators l' = Validators l" and "TxHistory l' = TxHistory l"
  shows "ledger_wf l'"
  using assms by (simp add: ledger_wf_def)

lemma ledger_wf_recordTx: "ledger_wf l \<Longrightarrow> ledger_wf (recordTx l t)"
  by (auto simp: ledger_wf_def recordTx_def intro: fmpred_mono fmpred_fmupd)

lemma ledger_wf_MarkValidator: "ledger_wf l \<Longrightarrow> ledger_wf (MarkValidator l a)"
  by (simp add: ledger_wf_def MarkValidator_def fmpred_fmupd)

lemma ledger_wf_credit [simp]: "ledger_wf (credit l a v) = ledger_wf l"
  by (simp add: ledger_wf_def credit_def)

lemma ledger_wf_debit [simp]: "ledger_wf (debit l a v) = ledger_wf l"
  by (simp add: ledger_wf_def debit_def)

lemma ledger_wf_setAsset [simp]: "ledger_wf (setAsset l a k v) = ledger_wf l"
  by (simp add: ledger_wf_def setAsset_def)

lemma ledger_wf_advanceNonce [simp]: "ledger_wf (advanceNonce l t) = ledger_wf l"
  by (simp add: ledger_wf_def advanceNonce_def)

lemma ledger_wf_SetBalance [simp]: "ledger_wf (SetBalance l a v) = ledger_wf l"
  by (simp add: ledger_wf_def SetBalance_def)

lemma ledger_wf_EVMAccounts [simp]: "ledger_wf (l\<lparr>EVMAccounts := m\<rparr>) = ledger_wf l"
  by (simp add: ledger_wf_def)

lemma ledger_wf_Nonces [simp]: "ledger_wf (l\<lparr>Nonces := m\<rparr>) = ledger_wf l"
  by (simp add: ledger_wf_def)

lemma ledger_wf_creditAsset [simp]: "ledger_wf (creditAssetLocked l a k v) = ledger_wf l"
  by (simp add: creditAssetLocked_def Let_def)

lemma ledger_wf_debitAsset [simp]: "ledger_wf (fst (debitAssetLocked l a k v)) = ledger_wf l"
  by (simp add: debitAssetLocked_def Let_def)

lemma ledger_wf_pool:
  assumes "ledger_wf l" and "pool_wf k p" and "mhas (TxHistory l) (pool_CreatedTx p)" and "mhas (TxHistory l) (pool_LastTx p)"
  shows "ledger_wf (l\<lparr>AMMPools := fmupd k p (AMMPools l)\<rparr>)"
  using assms by (simp add: ledger_wf_def fmpred_fmupd)

lemma ledger_wf_token:
  assumes "ledger_wf l" and "token_wf k n" and "mhas (TxHistory l) (tok_MintTx n)" and "mhas (TxHistory l) (tok_LastTx n)"
  shows "ledger_wf (l\<lparr>NFTs := fmupd k n (NFTs l)\<rparr>)"
  using assms by (simp add: ledger_wf_def fmpred_fmupd)

lemma ledger_wf_poolD:
  "ledger_wf l \<Longrightarrow> fmlookup (AMMPools l) k = Some p \<Longrightarrow> pool_wf k p \<and> mhas (TxHistory l) (pool_CreatedTx p)"
  by (auto simp: ledger_wf_def fmpred_iff)

lemma ledger_wf_tokenD:
  "ledger_wf l \<Longrightarrow> fmlookup (NFTs l) k = Some n \<Longrightarrow> token_wf k n \<and> mhas (TxHistory l) (tok_MintTx n)"
  by (auto simp: ledger_wf_def fmpred_iff)

lemma asset_ops_frame [simp]:
  "AMMPools (creditAssetLocked l a k v) = AMMPools l" "AMMPools (fst (debitAssetLocked l a k v)) = AMMPools l"
  "TxHistory (creditAssetLocked l a k v) = TxHistory l" "TxHistory (fst (debitAssetLocked l a k v)) = TxHistory l"
  "Nonces (creditAssetLocked l a k v) = Nonces l" "Nonces (fst (debitAssetLocked l a k v)) = Nonces l"
  "NFTs (creditAssetLocked l a k v) = NFTs l" "NFTs (fst (debitAssetLocked l a k v)) = NFTs l"
  "Validators (creditAssetLocked l a k v) = Validators l" "Validators (fst (debitAssetLocked l a k v)) = Validators l"
  "EVMReceipts (creditAssetLocked l a k v) = EVMReceipts l" "EVMReceipts (fst (debitAssetLocked l a k v)) = EVMReceipts l"
  "EVMAccounts (creditAssetLocked l a k v) = EVMAccounts l" "EVMAccounts (fst (debitAssetLocked l a k v)) = EVMAccounts l"
  by (simp_all add: creditAssetLocked_def debitAssetLocked_def Let_def ledger_ops)

lemma pool_update_wf:
  assumes "ledger_wf l" and "pool_wf k p" and "mhas (TxHistory (recordTx l t)) (pool_CreatedTx p)"
    and "pool_LastTx p = tx_ID t"
  shows "ledger_wf (recordTx (l\<lparr>AMMPools := fmupd k p (AMMPools l)\<rparr>) t)"
proof -
  have "ledger_wf ((recordTx l t)\<lparr>AMMPools := fmupd k p (AMMPools (recordTx l t))\<rparr>)"
    using assms by (intro ledger_wf_pool ledger_wf_recordTx) (simp_all add: recordTx_def)
  then show ?thesis by (rule ledger_wf_frame) (simp_all add: recordTx_def)
qed

lemma ammCreatePool_True:
  assumes "ammCreatePool l t p = (l', True)"
  obtains k where "isOperatorLocked l (tx_From t)" "k = PoolID (amm_AssetA p) (amm_AssetB p)" "k \<noteq> []" "\<not> mhas (AMMPools l) k"
    "l' = l\<lparr>AMMPools := fmupd k \<lparr>pool_ID = k, pool_AssetA = normalizeAsset (amm_AssetA p),
       pool_AssetB = normalizeAsset (amm_AssetB p), pool_ReserveA = 0, pool_ReserveB = 0,
       pool_FeeBps = AMMFeeBps, pool_CreatedTx = tx_ID t, pool_LastTx = tx_ID t\<rparr> (AMMPools l)\<rparr>"
  using assms that by (auto simp: ammCreatePool_def Let_def split: if_splits)

lemma ammCreatePool_wf:
  assumes "ammCreatePool l t p = (l', True)" and "ledger_wf l" and "tx_ID t' = tx_ID t"
  shows "ledger_wf (recordTx l' t')"
  using assms(1)
proof (rule ammCreatePool_True)
  fix k
  assume k: "k = PoolID (amm_AssetA p) (amm_AssetB p)" "k \<noteq> []"
    and l': "l' = l\<lparr>AMMPools := fmupd k \<lparr>pool_ID = k, pool_AssetA = normalizeAsset (amm_AssetA p),
       pool_AssetB = normalizeAsset (amm_AssetB p), pool_ReserveA = 0, pool_ReserveB = 0,
       pool_FeeBps = AMMFeeBps, pool_CreatedTx = tx_ID t, pool_LastTx = tx_ID t\<rparr> (AMMPools l)\<rparr>"
  show ?thesis
    unfolding l' by (rule pool_update_wf) (use k assms(2,3) in \<open>auto simp: pool_wf_def recordTx_def\<close>)
qed

lemma ammAddLiquidity_True:
  assumes "ammAddLiquidity l t p = (l', True)"
  obtains pool l1 l2 where "isOperatorLocked l (tx_From t)" "1 \<le> amm_AmountA p" "1 \<le> amm_AmountB p"
    "fmlookup (AMMPools l) (normalizePoolID (amm_PoolID p)) = Some pool"
    "canDebitAssetLocked l (pool_AssetA pool) (tx_From t) (amm_AmountA p)"
    "canDebitAssetLocked l (pool_AssetB pool) (tx_From t) (amm_AmountB p)"
    "l1 = fst (debitAssetLocked l (pool_AssetA pool) (tx_From t) (amm_AmountA p))"
    "l2 = fst (debitAssetLocked l1 (pool_AssetB pool) (tx_From t) (amm_AmountB p))"
    "l' = l2\<lparr>AMMPools := fmupd (pool_ID pool) (pool\<lparr>pool_ReserveA := i64 (pool_ReserveA pool + amm_AmountA p),
       pool_ReserveB := i64 (pool_ReserveB pool + amm_AmountB p), pool_LastTx := tx_ID t\<rparr>) (AMMPools l2)\<rparr>"
  using assms that
  by (auto simp: ammAddLiquidity_def debitAssetOrPKNLocked_def Let_def not_less split: if_splits option.splits)

lemma ammSwap_True:
  assumes "ammSwap l t p = (l', p', True)"
  obtains pool pool' l1 out where "1 \<le> amm_AmountIn p" "fmlookup (AMMPools l) (normalizePoolID (amm_PoolID p)) = Some pool"
    "QuoteSwap pool (amm_AssetIn p) (amm_AmountIn p) = (out, True)" "amm_MinAmountOut p \<le> out"
    "canDebitAssetLocked l (amm_AssetIn p) (tx_From t) (amm_AmountIn p)"
    "applySwap pool (amm_AssetIn p) (amm_AmountIn p) out = (pool', True)"
    "l1 = creditAssetLocked (fst (debitAssetLocked l (amm_AssetIn p) (tx_From t) (amm_AmountIn p)))
            (amm_AssetOut p) (tx_From t) out"
    "l' = l1\<lparr>AMMPools := fmupd (pool_ID pool') (pool'\<lparr>pool_LastTx := tx_ID t\<rparr>) (AMMPools l1)\<rparr>"
    "p' = p\<lparr>amm_AmountOut := out\<rparr>"
  using assms that
  by (auto simp: ammSwap_def debitAssetOrPKNLocked_def creditAssetOrPKNLocked_def Let_def not_less
    split: if_splits option.splits prod.splits)

lemma applySwap_names:
  assumes "applySwap pool a x y = (pool', ok)"
  shows "pool_ID pool' = pool_ID pool" "pool_AssetA pool' = pool_AssetA pool" "pool_AssetB pool' = pool_AssetB pool"
    "pool_FeeBps pool' = pool_FeeBps pool" "pool_CreatedTx pool' = pool_CreatedTx pool"
  using assms by (auto simp: applySwap_def Let_def split: if_splits)

lemma ammAddLiquidity_wf:
  assumes "ammAddLiquidity l t p = (l', True)" and "ledger_wf l" and "tx_ID t' = tx_ID t"
  shows "ledger_wf (recordTx l' t')"
  using assms(1)
proof (rule ammAddLiquidity_True)
  fix pool l1 l2
  assume look: "fmlookup (AMMPools l) (normalizePoolID (amm_PoolID p)) = Some pool"
    and l1: "l1 = fst (debitAssetLocked l (pool_AssetA pool) (tx_From t) (amm_AmountA p))"
    and l2: "l2 = fst (debitAssetLocked l1 (pool_AssetB pool) (tx_From t) (amm_AmountB p))"
    and l': "l' = l2\<lparr>AMMPools := fmupd (pool_ID pool) (pool\<lparr>pool_ReserveA := i64 (pool_ReserveA pool + amm_AmountA p),
       pool_ReserveB := i64 (pool_ReserveB pool + amm_AmountB p), pool_LastTx := tx_ID t\<rparr>) (AMMPools l2)\<rparr>"
  note wf = ledger_wf_poolD [OF assms(2) look]
  show ?thesis
    unfolding l' by (rule pool_update_wf) (use wf assms(2,3) l1 l2 in \<open>auto simp: pool_wf_def recordTx_def\<close>)
qed

lemma ammSwap_wf:
  assumes "ammSwap l t p = (l', p', True)" and "ledger_wf l" and "tx_ID t' = tx_ID t"
  shows "ledger_wf (recordTx l' t')"
  using assms(1)
proof (rule ammSwap_True)
  fix pool pool' l1 out
  assume look: "fmlookup (AMMPools l) (normalizePoolID (amm_PoolID p)) = Some pool"
    and swap: "applySwap pool (amm_AssetIn p) (amm_AmountIn p) out = (pool', True)"
    and l1: "l1 = creditAssetLocked (fst (debitAssetLocked l (amm_AssetIn p) (tx_From t) (amm_AmountIn p)))
            (amm_AssetOut p) (tx_From t) out"
    and l': "l' = l1\<lparr>AMMPools := fmupd (pool_ID pool') (pool'\<lparr>pool_LastTx := tx_ID t\<rparr>) (AMMPools l1)\<rparr>"
  note wf = ledger_wf_poolD [OF assms(2) look]
  show ?thesis
    unfolding l'
    by (rule pool_update_wf) (use wf assms(2,3) l1 applySwap_names [OF swap] in \<open>auto simp: pool_wf_def recordTx_def\<close>)
qed

lemma ammAction_True:
  assumes "ammAction l t p = (l', p', True)"
  obtains (credit) "amm_Action p = ''asset_credit''" "ammAssetCredit l t p = (l', True)" "p' = p"
  | (debit) "amm_Action p = ''asset_debit''" "ammAssetDebit l t p = (l', True)" "p' = p"
  | (create) "amm_Action p = ''amm_create_pool''" "ammCreatePool l t p = (l', True)" "p' = p"
  | (add) "amm_Action p = ''amm_add_liquidity''" "ammAddLiquidity l t p = (l', True)" "p' = p"
  | (swap) "amm_Action p = ''amm_swap''" "ammSwap l t p = (l', p', True)"
  using assms by (auto simp: ammAction_def split: if_splits prod.splits)

lemma ammAction_wf:
  assumes "ammAction l t p = (l', p', True)" and "ledger_wf l" and "tx_ID t' = tx_ID t"
  shows "ledger_wf (recordTx l' t')"
  using assms(1)
proof (cases rule: ammAction_True)
  case credit
  then have "ledger_wf l'" using assms(2) by (auto simp: ammAssetCredit_def split: if_splits)
  then show ?thesis by (rule ledger_wf_recordTx)
next
  case debit
  then have "ledger_wf l'" using assms(2)
    by (auto simp: ammAssetDebit_def debitAssetLocked_True split: if_splits)
  then show ?thesis by (rule ledger_wf_recordTx)
qed (use assms ammCreatePool_wf ammAddLiquidity_wf ammSwap_wf in blast)+

lemma normalizeNFTAccount_eq: "normalizeNFTAccount = normalizeAssetAccount"
  by (simp add: fun_eq_iff normalizeNFTAccount_def normalizeAssetAccount_def)

lemma normalizeNFTAccount_idem [simp]: "normalizeNFTAccount (normalizeNFTAccount a) = normalizeNFTAccount a"
  by (simp add: normalizeNFTAccount_eq)

lemma token_update_wf:
  assumes "ledger_wf l" and "token_wf k n" and "mhas (TxHistory (recordTx l t)) (tok_MintTx n)" and "tok_LastTx n = tx_ID t"
  shows "ledger_wf ((recordTx l t)\<lparr>NFTs := fmupd k n (NFTs l)\<rparr>)"
proof -
  have "ledger_wf ((recordTx l t)\<lparr>NFTs := fmupd k n (NFTs (recordTx l t))\<rparr>)"
    using assms by (intro ledger_wf_token ledger_wf_recordTx) (simp_all add: recordTx_def)
  then show ?thesis by (simp add: recordTx_def)
qed

lemma applyNFTMint_wf:
  assumes "applyNFTMint E l t = Some (l', t', True)" and "\<not> IsAMM t" and "ledger_wf l"
  shows "ledger_wf l'"
  using assms(1,2)
proof (rule applyNFTMint_True)
  fix key nft
  assume k: "key = NFTKey (nft_CollectionID nft) (nft_TokenID nft)" "key \<noteq> []" "mint_owner t' nft \<noteq> []"
    and l': "l' = (recordTx l t')\<lparr>NFTs := fmupd key (minted_token t' nft) (NFTs l)\<rparr>"
  show ?thesis
    unfolding l' by (rule token_update_wf [OF assms(3)])
      (use k in \<open>auto simp: token_wf_def minted_token_def recordTx_def\<close>)
qed

lemma applyNFTTransfer_wf:
  assumes "applyNFTTransfer E l t = Some (l', t', True)" and "\<not> IsAMM t" and "ledger_wf l"
  shows "ledger_wf l'"
  using assms(1,2)
proof (rule applyNFTTransfer_True)
  fix key token
  assume look: "fmlookup (NFTs l) key = Some token" and ids: "tx_ID t' = tx_ID t"
    and to: "tx_To t' \<noteq> []" "tx_To t' = normalizeNFTAccount (tx_To t)"
    and l': "l' = (recordTx l t')\<lparr>NFTs := fmupd key (token\<lparr>tok_Owner := normalizeNFTAccount (tx_To t'), tok_LastTx := tx_ID t\<rparr>) (NFTs l)\<rparr>"
  show ?thesis
    unfolding l' by (rule token_update_wf [OF assms(3)])
      (use ledger_wf_tokenD [OF assms(3) look] to ids in \<open>auto simp: token_wf_def recordTx_def\<close>)
qed

lemma evm_move_value_frame [simp]:
  "AMMPools (evm_move_value l t tx) = AMMPools l" "NFTs (evm_move_value l t tx) = NFTs l"
  "EVMReceipts (evm_move_value l t tx) = EVMReceipts l" "Validators (evm_move_value l t tx) = Validators l"
  "TxHistory (evm_move_value l t tx) = TxHistory l" "Nonces (evm_move_value l t tx) = Nonces l"
  "AssetBalances (evm_move_value l t tx) = AssetBalances l"
  by (simp_all add: evm_move_value_def Let_def ledger_ops split: option.split)

lemma applyEVM_wf:
  assumes "applyEVMContractTransactionLocked E l t = (l', Some True)" and "ledger_wf l"
  shows "ledger_wf l'"
  using assms(1)
proof (rule applyEVM_True)
  fix tx state contractAddress left
  assume "l' = (let l1 = evm_move_value (l\<lparr>EVMAccounts := ad_accounts state\<rparr>) t tx in
       l1\<lparr>Nonces := fmupd (tx_From t) (tx_Nonce t + 1) (Nonces l1),
          TxHistory := fmupd (tx_ID t) t (TxHistory l1),
          EVMReceipts := fmupd (ToLower (tx_ID t)) \<lparr>rc_TransactionHash = ToLower (tx_ID t),
            rc_ContractAddress = contractAddress, rc_GasUsed = gas_Used E left (evm_gas_limit tx),
            rc_Logs = evmLogsFromTypes (ad_logs state), rc_Status = 1\<rparr> (EVMReceipts l1)\<rparr>)"
  moreover have "ledger_wf (recordTx l t)" using assms(2) by (rule ledger_wf_recordTx)
  ultimately show ?thesis
    by (simp add: ledger_wf_def recordTx_def Let_def receipt_wf_def fmpred_fmupd)
qed

lemma Transaction_True_wf:
  assumes "Transaction E l t = Some (l', t', True)" and "ledger_wf l"
  shows "ledger_wf l'"
  using assms(1)
proof (cases rule: Transaction_True)
  case amm
  then show ?thesis
  proof (rule_tac applyAMM_True)
    fix t1 p p' l1
    assume "ammAction l t1 p = (l1, p', True)" "t' = t1\<lparr>tx_AMM := Some p'\<rparr>" "l' = advanceNonce (recordTx l1 t') t'"
    then show ?thesis using ammAction_wf [OF _ assms(2), of t1 p l1 p' t'] by simp
  qed
next
  case nft_mint
  then show ?thesis using applyNFTMint_wf assms(2) by blast
next
  case nft_transfer
  then show ?thesis using applyNFTTransfer_wf assms(2) by blast
next
  case mint
  then show ?thesis
    using applyMint_True(5) [of E l t l' t'] assms(2)
    by (simp add: Let_def ledger_wf_recordTx ledger_wf_MarkValidator split: if_splits)
next
  case plain
  then show ?thesis
    using applyPlainTransfer_True(2) [of l t l'] assms(2) by (simp add: ledger_wf_recordTx)
next
  case contract
  then show ?thesis using applyEVM_wf assms(2) by blast
qed

lemma Transaction_wf:
  assumes "Transaction E l t = Some (l', t', ok)" and "ledger_wf l"
  shows "ledger_wf l'"
proof (cases ok)
  case True
  with assms show ?thesis using Transaction_True_wf by simp
next
  case False
  with assms have "l' = l\<lparr>EVMAccounts := EVMAccounts l'\<rparr>" using Transaction_False by simp
  with assms(2) show ?thesis by (metis ledger_wf_EVMAccounts)
qed

text \<open>Applying a transaction as one step of the ledger, whatever its answer.\<close>

definition apply_step :: "env \<Rightarrow> Ledger \<Rightarrow> SignedTransaction \<Rightarrow> Ledger option" where
  "apply_step E l t = map_option fst (Transaction E l t)"

interpretation ledger_run: step_invariant "apply_step E" "\<lambda>_. True" ledger_wf for E
  by unfold_locales (auto simp: apply_step_def dest: Transaction_wf)

section \<open>Nonces\<close>

lemma ammAction_frame:
  assumes "ammAction l t p = (l', p', ok)"
  shows "Nonces l' = Nonces l" "NFTs l' = NFTs l" "Validators l' = Validators l" "TxHistory l' = TxHistory l"
    "EVMReceipts l' = EVMReceipts l" "EVMAccounts l' = EVMAccounts l"
proof -
  have "Nonces l' = Nonces l \<and> NFTs l' = NFTs l \<and> Validators l' = Validators l \<and> TxHistory l' = TxHistory l \<and>
    EVMReceipts l' = EVMReceipts l \<and> EVMAccounts l' = EVMAccounts l"
  proof (cases ok)
    case False
    with assms show ?thesis by (auto dest: ammAction_False)
  next
    case True
    with assms have "ammAction l t p = (l', p', True)" by simp
    then show ?thesis
    proof (cases rule: ammAction_True)
      case credit
      then show ?thesis by (auto simp: ammAssetCredit_def split: if_splits)
    next
      case debit
      then show ?thesis by (auto simp: ammAssetDebit_def debitAssetLocked_True split: if_splits)
    next
      case create
      from create(2) show ?thesis by (rule ammCreatePool_True) simp
    next
      case add
      from add(2) show ?thesis by (rule ammAddLiquidity_True) simp
    next
      case swap
      from swap(2) show ?thesis by (rule ammSwap_True) simp
    qed
  qed
  then show "Nonces l' = Nonces l" "NFTs l' = NFTs l" "Validators l' = Validators l" "TxHistory l' = TxHistory l"
    "EVMReceipts l' = EVMReceipts l" "EVMAccounts l' = EVMAccounts l" by auto
qed

lemma ledger_ops_Nonces [simp]:
  "Nonces (credit l a v) = Nonces l" "Nonces (debit l a v) = Nonces l" "Nonces (recordTx l t) = Nonces l"
  "Nonces (MarkValidator l a) = Nonces l"
  by (simp_all add: ledger_ops)

definition nonce_used :: "Ledger \<Rightarrow> SignedTransaction \<Rightarrow> Ledger \<Rightarrow> bool" where
  "nonce_used l t l' \<longleftrightarrow> GetNonce l (tx_From t) = tx_Nonce t \<and>
     Nonces l' = fmupd (tx_From t) (tx_Nonce t + 1) (Nonces l)"

lemma applyAMM_nonce:
  assumes "applyAMMTransactionLocked E l t = Some (l', t', True)"
  shows "if IsEVM t' then nonce_used l t l' else Nonces l' = Nonces l"
  using assms
proof (rule applyAMM_True)
  fix t1 p p' l1
  assume a: "tx_From t1 = tx_From t" "tx_Nonce t1 = tx_Nonce t" "IsEVM t1 \<Longrightarrow> GetNonce l (tx_From t) = tx_Nonce t"
    "ammAction l t1 p = (l1, p', True)" "t' = t1\<lparr>tx_AMM := Some p'\<rparr>" "l' = advanceNonce (recordTx l1 t') t'"
  from ammAction_frame(1) [OF a(4)] have "Nonces (recordTx l1 t') = Nonces l" by simp
  with a show ?thesis by (auto simp: nonce_used_def advanceNonce_def)
qed

lemma applyTransfer_nonce:
  assumes "applyTransfer E l t = Some (l', t', True)" and "\<not> IsAMM t"
  shows "if IsEVM t then nonce_used l t l' else Nonces l' = Nonces l"
proof -
  note tr = applyTransfer_True [OF assms]
  from tr(6) show ?thesis
  proof
    assume "(IsEVM t \<and> tx_Raw t \<noteq> [] \<longrightarrow> applyEVMContractTransactionLocked E l t = (l, None)) \<and> applyPlainTransfer l t = (l', True)"
    with tr(5) show ?thesis by (auto dest: applyPlainTransfer_True simp: advanceNonce_def nonce_used_def)
  next
    assume c: "IsEVM t \<and> tx_Raw t \<noteq> [] \<and> applyEVMContractTransactionLocked E l t = (l', Some True)"
    then have "nonce_used l t l'"
      using tr(5) by (elim conjE applyEVM_True) (simp add: nonce_used_def Let_def)
    with c show ?thesis by simp
  qed
qed

text \<open>The transactions whose signature is an Ethereum transaction and whose kind consults the nonce.\<close>

definition spends_nonce :: "SignedTransaction \<Rightarrow> bool" where
  "spends_nonce t \<longleftrightarrow> HasPrefix (tx_Signature t) ''evm:'' \<and> (IsAMM t \<or> \<not> IsNFT t \<and> \<not> IsMint t)"

lemma applyAMM_signature:
  assumes "applyAMMTransactionLocked E l t = Some (l', t', True)"
  shows "tx_Signature t' = tx_Signature t"
  using assms by (rule applyAMM_True) auto

lemma Transaction_nonce:
  assumes "Transaction E l t = Some (l', t', True)"
  shows "nonce_used l t l' \<or> Nonces l' = Nonces l" and "spends_nonce t \<Longrightarrow> nonce_used l t l'"
proof -
  have "(nonce_used l t l' \<or> Nonces l' = Nonces l) \<and> (spends_nonce t \<longrightarrow> nonce_used l t l')"
    using assms
  proof (cases rule: Transaction_True)
    case amm
    then show ?thesis
      using applyAMM_nonce [OF amm(2)] applyAMM_signature [OF amm(2)]
      by (auto simp: spends_nonce_def IsEVM_def split: if_splits)
  next
    case nft_mint
    from nft_mint(3,1) have "Nonces l' = Nonces l" by (rule applyNFTMint_True) simp
    then show ?thesis using nft_mint by (simp add: spends_nonce_def IsNFT_def)
  next
    case nft_transfer
    from nft_transfer(3,1) have "Nonces l' = Nonces l" by (rule applyNFTTransfer_True) simp
    then show ?thesis using nft_transfer by (simp add: spends_nonce_def IsNFT_def)
  next
    case mint
    have "Nonces l' = Nonces l" using applyMint_True(5) [OF mint(3,1)] by (simp add: Let_def split: if_splits)
    then show ?thesis using mint by (simp add: spends_nonce_def)
  next
    case plain
    then show ?thesis
      using applyTransfer_nonce [OF plain(7,1)] by (auto simp: spends_nonce_def IsEVM_def split: if_splits)
  next
    case contract
    then show ?thesis using applyTransfer_nonce [OF contract(8,1)] by (auto split: if_splits)
  qed
  then show "nonce_used l t l' \<or> Nonces l' = Nonces l" and "spends_nonce t \<Longrightarrow> nonce_used l t l'" by auto
qed

lemma apply_step_nonce:
  assumes "apply_step E l t = Some l'"
  shows "GetNonce l' a = GetNonce l a \<or> GetNonce l' a = GetNonce l a + 1"
proof -
  obtain t' ok where tr: "Transaction E l t = Some (l', t', ok)"
    using assms by (auto simp: apply_step_def)
  show ?thesis
  proof (cases ok)
    case True
    then show ?thesis
      using Transaction_nonce(1) [of E l t l' t'] tr by (auto simp: nonce_used_def GetNonce_def)
  next
    case False
    then have "l' = l\<lparr>EVMAccounts := EVMAccounts l'\<rparr>" using Transaction_False tr by simp
    then have "Nonces l' = Nonces l" by (metis Ledger.select_convs(2) Ledger.surjective Ledger.update_convs(7))
    then show ?thesis by (simp add: GetNonce_def)
  qed
qed

lemma run_nonce:
  assumes "run_ops (apply_step E) l ts = Some l'" and "unat (GetNonce l a) + length ts < 2 ^ 64"
  shows "unat (GetNonce l a) \<le> unat (GetNonce l' a)"
  using assms
proof (induction ts arbitrary: l)
  case Nil
  then show ?case by simp
next
  case (Cons t ts)
  then obtain l1 where l1: "apply_step E l t = Some l1" "run_ops (apply_step E) l1 ts = Some l'"
    by (auto split: option.splits)
  have le: "unat (GetNonce l a) \<le> unat (GetNonce l1 a)" "unat (GetNonce l1 a) \<le> unat (GetNonce l a) + 1"
  proof -
    have "unat (GetNonce l a + 1) = unat (GetNonce l a) + 1"
      using Cons.prems(2) by (subst unat_word_ariths) simp
    then show "unat (GetNonce l a) \<le> unat (GetNonce l1 a)" "unat (GetNonce l1 a) \<le> unat (GetNonce l a) + 1"
      using apply_step_nonce [OF l1(1), of a] by auto
  qed
  with Cons.prems(2) have "unat (GetNonce l1 a) + length ts < 2 ^ 64" by simp
  with Cons.IH [OF l1(2)] le show ?case by simp
qed

section \<open>Lottery tickets\<close>

text \<open>The sum of the positive balances of the validators, without wrap-around.\<close>

definition positive_stake :: "(string, int) gomap \<Rightarrow> string list \<Rightarrow> int" where
  "positive_stake accounts vs = (\<Sum>v \<leftarrow> vs. max 0 (mget 0 accounts v))"

lemma positive_stake_nonneg: "0 \<le> positive_stake accounts vs"
  by (induction vs) (simp_all add: positive_stake_def)

lemma positive_stake_member: "v \<in> set vs \<Longrightarrow> mget 0 accounts v \<le> positive_stake accounts vs"
proof (induction vs)
  case (Cons w vs)
  then show ?case using positive_stake_nonneg [of accounts vs] by (auto simp: positive_stake_def)
qed simp

lemma count_validators_exact:
  assumes "0 \<le> p" and "p + positive_stake accounts vs < 2 ^ 63" and "0 \<le> z" and "z + int (length vs) < 2 ^ 63"
  shows "count_validators accounts vs p z = (p + positive_stake accounts vs, z + int (length (filter (\<lambda>v. mget 0 accounts v \<le> 0) vs)))"
  using assms
proof (induction vs arbitrary: p z)
  case Nil
  then show ?case by (simp add: positive_stake_def)
next
  case (Cons v vs)
  have s: "positive_stake accounts (v # vs) = max 0 (mget 0 accounts v) + positive_stake accounts vs" by (simp add: positive_stake_def)
  show ?case
  proof (cases "mget 0 accounts v > 0")
    case True
    have "i64 (p + mget 0 accounts v) = p + mget 0 accounts v"
      using True Cons.prems s positive_stake_nonneg [of accounts vs] by (intro i64_small) auto
    with True Cons.IH [of "p + mget 0 accounts v" z] Cons.prems s show ?thesis by simp
  next
    case False
    have "i64 (z + 1) = z + 1" using Cons.prems by (intro i64_small) auto
    with False Cons.IH [of p "z + 1"] Cons.prems s show ?thesis by simp
  qed
qed

lemma LotteryTickets_positive:
  assumes "isNativeValidatorAccount a" and "0 < mget 0 (Accounts l) a"
    and "count_validators (Accounts l) (mkeys (Validators l)) 0 0 = (p, z)" and "0 < p" and "i64 (100 * p) = d" and "d \<noteq> 0"
    and "go_quo (i64 (i64 (mget 0 (Accounts l) a * 97) * lottery_scale)) d = tickets"
  shows "LotteryTickets l a = Some (max 1 tickets)"
  using assms by (simp add: LotteryTickets_def Let_def)

end
