(* ===== verification/Blockchain.thy ===== *)
theory Blockchain
  imports Genesis LedgerFacts
begin

text \<open>
  The block tree (\<open>account/blockchain.go\<close>): blocks, their signatures and hashes, the lottery,
  hardness, the longest branch, the ledger of a branch, and \<open>AddBlock\<close>.

  Every function takes the environment \<open>E\<close>. A result of type \<open>'a go\<close> is \<open>None\<close> when the code
  panics or does not return: the walk from a block to the genesis block is a loop that
  only ends where the parent links have no cycle. Pointers to blocks are the blocks.
\<close>

definition BLOCK_SIZE :: nat where "BLOCK_SIZE = 16"

definition BLOCK_TYPE :: string where "BLOCK_TYPE = ''block''"

definition NO_PARENT_HASH :: string where "NO_PARENT_HASH = []"

definition MINER_BLOCK_REWARD :: int where "MINER_BLOCK_REWARD = 10"

definition LOTTERY_DRAW_RANGE :: nat where "LOTTERY_DRAW_RANGE = 1000000000000"

record Block =
  blk_Type :: string
  blk_VerificationKey :: string
  blk_Slot :: int
  blk_Draw :: int
  blk_MetaData :: string
  blk_ParentHash :: string
  blk_Signature :: string
  blk_LotteryProof :: string

definition marshalForSignature :: "Block \<Rightarrow> bytes" where
  "marshalForSignature b =
     (let fields = [blk_Type b, blk_VerificationKey b, Itoa (blk_Slot b), Itoa (blk_Draw b), blk_ParentHash b];
          fields = (if blk_LotteryProof b \<noteq> [] then fields @ [blk_LotteryProof b] else fields)
      in marshal_strings fields)"

definition MarshalBlock :: "Block \<Rightarrow> bytes" where
  "MarshalBlock b =
     (let msg = marshalForSignature b
      in case b64_decode (blk_Signature b) of None \<Rightarrow> msg | Some signature \<Rightarrow> msg @ signature)"

definition GetBlockHash :: "'a ethlib_scheme \<Rightarrow> Block \<Rightarrow> bytes" where
  "GetBlockHash E b = sha256 E (MarshalBlock b)"

text \<open>The form in which a hash is a map key and a parent link.\<close>

definition hash_of :: "'a ethlib_scheme \<Rightarrow> Block \<Rightarrow> string" where
  "hash_of E b = b64_encode (GetBlockHash E b)"

definition Sign :: "'a ethlib_scheme \<Rightarrow> Block \<Rightarrow> Account \<Rightarrow> string" where
  "Sign E b signer = b64_encode (big_Bytes (RSASign (sha256 E) (marshalForSignature b) (key_d signer) (key_n signer)))"

definition NewBlock :: "'a ethlib_scheme \<Rightarrow> Account option \<Rightarrow> int \<Rightarrow> int \<Rightarrow> string \<Rightarrow> string \<Rightarrow> Block" where
  "NewBlock E winner slot draw parentHash metaData =
     (let b = \<lparr>blk_Type = BLOCK_TYPE, blk_VerificationKey = [], blk_Slot = slot, blk_Draw = draw, blk_MetaData = metaData,
                blk_ParentHash = parentHash, blk_Signature = [], blk_LotteryProof = []\<rparr>
      in case winner of
          None \<Rightarrow> b
        | Some w \<Rightarrow> let b = b\<lparr>blk_VerificationKey := SafeEncode w\<rparr> in b\<lparr>blk_Signature := Sign E b w\<rparr>)"

definition MakeGenesis :: "'a ethlib_scheme \<Rightarrow> (nat \<times> nat) list list \<Rightarrow> Block" where
  "MakeGenesis E draws = NewBlock E None 0 0 [] (b64_encode (snd (marshalGenesisMetaData (makeGenesisMetaData draws))))"

section \<open>The lottery\<close>

definition lotteryProofMessage :: "int \<Rightarrow> int \<Rightarrow> bytes" where
  "lotteryProofMessage seed slot = marshal_strings [''pokoin-lottery-v1'', Itoa seed, Itoa slot]"

definition SignLotteryProof :: "'a ethlib_scheme \<Rightarrow> int \<Rightarrow> int \<Rightarrow> Account option \<Rightarrow> string" where
  "SignLotteryProof E seed slot signer = (case signer of
      None \<Rightarrow> []
    | Some s \<Rightarrow> b64_encode (big_Bytes (RSASign (sha256 E) (lotteryProofMessage seed slot) (key_d s) (key_n s))))"

text \<open>\<open>binary.BigEndian.Uint64\<close> of the first eight bytes of a digest.\<close>

definition draw_of_hash :: "bytes \<Rightarrow> int" where
  "draw_of_hash h = int (BytesToBigInt (take 8 h) mod LOTTERY_DRAW_RANGE)"

definition ComputeLotteryDrawFromProof :: "'a ethlib_scheme \<Rightarrow> string \<Rightarrow> int option" where
  "ComputeLotteryDrawFromProof E proof = (case b64_decode proof of
      None \<Rightarrow> None
    | Some raw \<Rightarrow> if length raw = 0 then None else Some (draw_of_hash (sha256 E raw)))"

definition VerifyLotteryProof :: "'a ethlib_scheme \<Rightarrow> int \<Rightarrow> int \<Rightarrow> string \<Rightarrow> string \<Rightarrow> bool go" where
  "VerifyLotteryProof E seed slot accountName proof = (case b64_decode proof of
      None \<Rightarrow> Some False
    | Some signature \<Rightarrow> (case b64_decode accountName of
        None \<Rightarrow> Some False
      | Some publicKey \<Rightarrow> VerifySignature (sha256 E) (lotteryProofMessage seed slot) signature publicKey))"

definition ComputeLotteryDraw :: "'a ethlib_scheme \<Rightarrow> int \<Rightarrow> int \<Rightarrow> string \<Rightarrow> int" where
  "ComputeLotteryDraw E seed slot accountName =
     draw_of_hash (sha256 E (Itoa seed @ ''|'' @ Itoa slot @ ''|'' @ accountName))"

definition WinsLottery :: "int \<Rightarrow> int \<Rightarrow> int \<Rightarrow> bool" where
  "WinsLottery tickets hardness draw =
     (let threshold = (word_of_int hardness :: u64) * word_of_int tickets
      in (word_of_int draw :: u64) < threshold)"

section \<open>Hardness\<close>

definition clampHardness :: "int \<Rightarrow> int \<Rightarrow> int \<Rightarrow> int" where
  "clampHardness v lo hi =
     (let lo = (if lo \<le> 0 then 1 else lo);
          hi = (if hi < lo then lo else hi)
      in if v < lo then lo else if v > hi then hi else v)"

text \<open>The loop of \<open>averageRecentSlotInterval\<close>, over the suffix of slots from \<open>start\<close> on.\<close>

fun slot_deltas :: "int list \<Rightarrow> int \<Rightarrow> int \<Rightarrow> int \<times> int" where
  "slot_deltas (s # s' # ss) deltas count =
     (let delta = i64 (s' - s) in
      if delta \<le> 0 then slot_deltas (s' # ss) deltas count
      else slot_deltas (s' # ss) (i64 (deltas + delta)) (i64 (count + 1)))"
| "slot_deltas _ deltas count = (deltas, count)"

definition averageRecentSlotInterval :: "Block list \<Rightarrow> int \<Rightarrow> int" where
  "averageRecentSlotInterval blocks window =
     (if length blocks < 2 then 0
      else let window = (if window < 1 then 1 else window);
               start = i64 (int (length blocks) - 1 - window);
               start = (if start < 0 then 0 else start);
               (deltas, count) = slot_deltas (map blk_Slot (drop (nat start) blocks)) 0 0
        in if count = 0 then 0 else go_quo (i64 (deltas + go_quo count 2)) count)"

definition effectiveDynamicHardness :: "Block list \<Rightarrow> GenesisMetaData \<Rightarrow> int \<Rightarrow> int" where
  "effectiveDynamicHardness parentBlocks genesis candidateTxCount =
     (let target = (if candidateTxCount > 0 then FastBlockTargetSlots genesis else IdleBlockTargetSlots genesis);
          target = (if target \<le> 0 then 1 else target);
          window = (if DynamicHardnessWindow genesis \<le> 0 then 32 else DynamicHardnessWindow genesis);
          avgInterval = averageRecentSlotInterval parentBlocks window
      in if avgInterval \<le> 0
         then clampHardness (Hardness genesis) (DynamicHardnessMin genesis) (DynamicHardnessMax genesis)
         else let adjusted = go_quo (i64 (Hardness genesis * avgInterval)) target
           in clampHardness adjusted (DynamicHardnessMin genesis) (DynamicHardnessMax genesis))"

definition EffectiveHardnessForMining :: "Block list \<Rightarrow> GenesisMetaData option \<Rightarrow> int \<Rightarrow> int" where
  "EffectiveHardnessForMining blocks genesis candidateTxCount = (case genesis of
      None \<Rightarrow> 0
    | Some g \<Rightarrow>
        (let g = applyDefaultDynamicHardnessConfig g in
         if length blocks = 0 \<or> DynamicHardnessForkHeight g \<le> 0 \<or> int (length blocks) < DynamicHardnessForkHeight g
         then clampHardness (Hardness g) (DynamicHardnessMin g) (DynamicHardnessMax g)
         else effectiveDynamicHardness blocks g candidateTxCount))"

section \<open>The block tree\<close>

record Blockchain =
  Blocks :: "Block list"

definition BlocksSnapshot :: "Blockchain \<Rightarrow> Block list" where
  "BlocksSnapshot b = Blocks b"

definition ReplaceBlocks :: "Blockchain \<Rightarrow> Block list \<Rightarrow> Blockchain" where
  "ReplaceBlocks b blocks = (if length blocks = 0 then b else b\<lparr>Blocks := blocks\<rparr>)"

definition NewBlockchainWithGenesis :: "GenesisMetaData \<Rightarrow> Blockchain" where
  "NewBlockchainWithGenesis genesis =
     (let meta = snd (marshalGenesisMetaData genesis)
      in \<lparr>Blocks = [\<lparr>blk_Type = BLOCK_TYPE, blk_VerificationKey = [], blk_Slot = 0, blk_Draw = 0,
            blk_MetaData = b64_encode meta, blk_ParentHash = NO_PARENT_HASH, blk_Signature = [], blk_LotteryProof = []\<rparr>]\<rparr>)"

definition NewBlockchain :: "(nat \<times> nat) list list \<Rightarrow> Blockchain" where
  "NewBlockchain draws = NewBlockchainWithGenesis (makeGenesisMetaData draws)"

type_synonym depth_map = "(string, int) gomap"
type_synonym node_map = "(string, Block) gomap"

text \<open>
  The test that \<open>calculateDepths\<close> and \<open>AddBlock\<close> share: the signature and the key decode and
  the signature is the key's.
\<close>

definition block_signed :: "'a ethlib_scheme \<Rightarrow> Block \<Rightarrow> bool go" where
  "block_signed E block = (case b64_decode (blk_Signature block) of
      None \<Rightarrow> Some False
    | Some signature \<Rightarrow> (case b64_decode (blk_VerificationKey block) of
        None \<Rightarrow> Some False
      | Some publicKey \<Rightarrow> VerifySignature (sha256 E) (marshalForSignature block) signature publicKey))"

fun depths_loop :: "'a ethlib_scheme \<Rightarrow> Block list \<Rightarrow> depth_map \<Rightarrow> node_map \<Rightarrow> (depth_map \<times> node_map) go" where
  "depths_loop E [] depths nodes = Some (depths, nodes)"
| "depths_loop E (block # blocks) depths nodes = (case block_signed E block of
      None \<Rightarrow> None
    | Some ok \<Rightarrow>
        (if \<not> ok then depths_loop E blocks depths nodes
         else case fmlookup depths (blk_ParentHash block) of
             None \<Rightarrow> depths_loop E blocks depths nodes
           | Some parentDepth \<Rightarrow>
               depths_loop E blocks (fmupd (hash_of E block) (i64 (parentDepth + 1)) depths)
                 (fmupd (hash_of E block) block nodes)))"

definition calculateDepths :: "'a ethlib_scheme \<Rightarrow> Block list \<Rightarrow> (depth_map \<times> node_map) go" where
  "calculateDepths E blocks = (case blocks of
      [] \<Rightarrow> None
    | genesis # rest \<Rightarrow>
        depths_loop E rest (fmupd (hash_of E genesis) 0 fmempty) (fmupd (hash_of E genesis) genesis fmempty))"

text \<open>The scan for the leaf; the visiting order is the first argument.\<close>

fun leaf_scan :: "string list \<Rightarrow> depth_map \<Rightarrow> int \<Rightarrow> string \<Rightarrow> string" where
  "leaf_scan [] depths maxDepth leaf = leaf"
| "leaf_scan (hash # hashes) depths maxDepth leaf =
     (let depth = mget 0 depths hash in
      if depth > maxDepth then leaf_scan hashes depths depth hash
      else if depth = maxDepth \<and> hash < leaf then leaf_scan hashes depths maxDepth hash
      else leaf_scan hashes depths maxDepth leaf)"

definition getLeafHash :: "depth_map \<Rightarrow> string" where
  "getLeafHash depths = leaf_scan (mkeys depths) depths (-1) []"

text \<open>The walk towards the genesis block, newest block first.\<close>

partial_function (option) branch_up :: "node_map \<Rightarrow> string \<Rightarrow> Block list option" where
  "branch_up nodes next =
     (if next = NO_PARENT_HASH then Some []
      else case fmlookup nodes next of
          None \<Rightarrow> Some []
        | Some node \<Rightarrow> Option.bind (branch_up nodes (blk_ParentHash node)) (\<lambda>blocks. Some (node # blocks)))"

definition getBlocksFromLongestBranch :: "node_map \<Rightarrow> string \<Rightarrow> Block list go" where
  "getBlocksFromLongestBranch nodes leaf = map_option rev (branch_up nodes leaf)"

definition getMetaFromLongestBranch :: "node_map \<Rightarrow> string \<Rightarrow> string list go" where
  "getMetaFromLongestBranch nodes leaf = map_option (\<lambda>blocks. map blk_MetaData (rev blocks)) (branch_up nodes leaf)"

fun find_genesis :: "string list \<Rightarrow> node_map \<Rightarrow> string" where
  "find_genesis [] nodes = []"
| "find_genesis (hash # hashes) nodes = (case fmlookup nodes hash of
      Some block \<Rightarrow> if blk_ParentHash block = NO_PARENT_HASH then hash else find_genesis hashes nodes
    | None \<Rightarrow> find_genesis hashes nodes)"

definition getGenesisHash :: "node_map \<Rightarrow> string" where
  "getGenesisHash nodes = find_genesis (mkeys nodes) nodes"

text \<open>The blocks of the longest branch without the last \<open>rollback\<close> ones; the genesis block stays.\<close>

definition drop_last :: "int \<Rightarrow> Block list \<Rightarrow> Block list" where
  "drop_last rollback blocks =
     (if rollback > 0 \<and> rollback < int (length blocks) then take (nat (int (length blocks) - rollback)) blocks
      else if rollback \<ge> int (length blocks) then (if length blocks > 0 then take 1 blocks else blocks)
      else blocks)"

definition CanonicalBlocks :: "'a ethlib_scheme \<Rightarrow> Blockchain \<Rightarrow> int \<Rightarrow> Block list go" where
  "CanonicalBlocks E b rollback = do {
     (depths, nodes) \<leftarrow> calculateDepths E (Blocks b);
     blocks \<leftarrow> getBlocksFromLongestBranch nodes (getLeafHash depths);
     Some (drop_last rollback blocks)
   }"

definition BestLeafHash :: "'a ethlib_scheme \<Rightarrow> Blockchain \<Rightarrow> string go" where
  "BestLeafHash E b = map_option (\<lambda>(depths, nodes). getLeafHash depths) (calculateDepths E (Blocks b))"

fun max_depth_of :: "string list \<Rightarrow> depth_map \<Rightarrow> int \<Rightarrow> int" where
  "max_depth_of [] depths maxDepth = maxDepth"
| "max_depth_of (hash # hashes) depths maxDepth =
     max_depth_of hashes depths (if mget 0 depths hash > maxDepth then mget 0 depths hash else maxDepth)"

definition BestHeight :: "'a ethlib_scheme \<Rightarrow> Blockchain \<Rightarrow> int go" where
  "BestHeight E b = map_option (\<lambda>(depths, nodes). max_depth_of (mkeys depths) depths 0) (calculateDepths E (Blocks b))"

definition GetCurrentTransactions :: "'a ethlib_scheme \<Rightarrow> Blockchain \<Rightarrow> int \<Rightarrow> string list go" where
  "GetCurrentTransactions E b rollback = do {
     (depths, nodes) \<leftarrow> calculateDepths E (Blocks b);
     meta \<leftarrow> getMetaFromLongestBranch nodes (getLeafHash depths);
     Some (if rollback \<le> 0 then meta
           else if rollback \<ge> int (length meta) then []
           else take (nat (int (length meta) - rollback)) meta)
   }"

section \<open>Ledgers of branches\<close>

text \<open>Applying the transactions of a block, whatever they answer.\<close>

fun apply_all :: "env \<Rightarrow> Ledger \<Rightarrow> SignedTransaction list \<Rightarrow> Ledger go" where
  "apply_all E l [] = Some l"
| "apply_all E l (tx # txs) = (case Transaction E l tx of None \<Rightarrow> None | Some (l, _, _) \<Rightarrow> apply_all E l txs)"

definition apply_block :: "env \<Rightarrow> Ledger \<Rightarrow> Block \<Rightarrow> Ledger go" where
  "apply_block E l block =
     (let l = MarkValidator l (blk_VerificationKey block) in
      case DecodeBlockTransactions (blk_MetaData block) of
        None \<Rightarrow> Some l
      | Some txs \<Rightarrow> map_option (\<lambda>l. credit l (blk_VerificationKey block) MINER_BLOCK_REWARD) (apply_all E l txs))"

fun apply_blocks :: "env \<Rightarrow> Ledger \<Rightarrow> Block list \<Rightarrow> Ledger go" where
  "apply_blocks E l [] = Some l"
| "apply_blocks E l (block # blocks) = (case apply_block E l block of None \<Rightarrow> None | Some l \<Rightarrow> apply_blocks E l blocks)"

definition buildLedgerFromBlocks :: "env \<Rightarrow> Block list \<Rightarrow> Ledger go" where
  "buildLedgerFromBlocks E blocks = (case blocks of
      [] \<Rightarrow> Some MakeLedger
    | first # rest \<Rightarrow> (case decodeGenesisFromMeta (blk_MetaData first) of
        None \<Rightarrow> Some MakeLedger
      | Some genesis \<Rightarrow> apply_blocks E (InitializeFromGenesis MakeLedger genesis) rest))"

definition buildLedgerAtHash :: "env \<Rightarrow> node_map \<Rightarrow> string \<Rightarrow> Ledger go" where
  "buildLedgerAtHash E nodes hash = do {
     chain \<leftarrow> branch_up nodes hash;
     buildLedgerFromBlocks E (rev chain)
   }"

definition LedgerFromBlockchain :: "env \<Rightarrow> Blockchain \<Rightarrow> int \<Rightarrow> Ledger go" where
  "LedgerFromBlockchain E b rollback = do {
     (depths, nodes) \<leftarrow> calculateDepths E (Blocks b);
     blocks \<leftarrow> getBlocksFromLongestBranch nodes (getLeafHash depths);
     buildLedgerFromBlocks E (drop_last rollback blocks)
   }"

section \<open>Adding a block\<close>

definition effectiveHardnessForBlock :: "node_map \<Rightarrow> GenesisMetaData option \<Rightarrow> Block \<Rightarrow> int go" where
  "effectiveHardnessForBlock nodes genesis block = (case genesis of
      None \<Rightarrow> Some 0
    | Some g \<Rightarrow> do {
        parentBlocks \<leftarrow> getBlocksFromLongestBranch nodes (blk_ParentHash block);
        let txs = (case DecodeBlockTransactions (blk_MetaData block) of None \<Rightarrow> [] | Some txs \<Rightarrow> txs);
        Some (EffectiveHardnessForMining parentBlocks (Some g) (int (length txs)))
      })"

text \<open>The lottery check: the draw is the one of the proof, or of the old formula when there is no proof.\<close>

definition lottery_draw_ok :: "'a ethlib_scheme \<Rightarrow> GenesisMetaData \<Rightarrow> Block \<Rightarrow> bool go" where
  "lottery_draw_ok E genesis block =
     (if blk_LotteryProof block \<noteq> [] then
        (case VerifyLotteryProof E (Seed genesis) (blk_Slot block) (blk_VerificationKey block) (blk_LotteryProof block) of
           None \<Rightarrow> None
         | Some ok \<Rightarrow> Some (ok \<and> ComputeLotteryDrawFromProof E (blk_LotteryProof block) = Some (blk_Draw block)))
      else Some (blk_Draw block = ComputeLotteryDraw E (Seed genesis) (blk_Slot block) (blk_VerificationKey block)))"

text \<open>All transactions must be applied, in order, on the ledger of the parent.\<close>

fun all_apply :: "env \<Rightarrow> Ledger \<Rightarrow> SignedTransaction list \<Rightarrow> bool go" where
  "all_apply E l [] = Some True"
| "all_apply E l (tx # txs) = (case Transaction E l tx of
      None \<Rightarrow> None
    | Some (l, _, ok) \<Rightarrow> if ok then all_apply E l txs else Some False)"

definition newcomer_hardness :: "Ledger \<Rightarrow> GenesisMetaData \<Rightarrow> Block \<Rightarrow> int \<Rightarrow> int" where
  "newcomer_hardness parentLedger genesis block hardness =
     (if \<not> IsValidator parentLedger (blk_VerificationKey block) \<and>
         GetBalance parentLedger (blk_VerificationKey block) = 0 \<and> Hardness genesis > hardness
      then Hardness genesis else hardness)"

definition transactions_ok :: "env \<Rightarrow> Ledger \<Rightarrow> Block \<Rightarrow> bool go" where
  "transactions_ok E parentLedger block = (case DecodeBlockTransactions (blk_MetaData block) of
      None \<Rightarrow> Some False
    | Some txs \<Rightarrow> if length txs > BLOCK_SIZE then Some False else all_apply E parentLedger txs)"

definition block_valid :: "env \<Rightarrow> depth_map \<Rightarrow> node_map \<Rightarrow> Block \<Rightarrow> bool go" where
  "block_valid E depths nodes block =
     (if \<not> mhas depths (blk_ParentHash block) then Some False
      else do {
        signed \<leftarrow> block_signed E block;
        if \<not> signed then Some False
        else do {
          genesisBlock \<leftarrow> fmlookup nodes (getGenesisHash nodes);
          case decodeGenesisFromMeta (blk_MetaData genesisBlock) of
            None \<Rightarrow> Some False
          | Some genesis \<Rightarrow> do {
              parentLedger \<leftarrow> buildLedgerAtHash E nodes (blk_ParentHash block);
              tickets \<leftarrow> LotteryTickets parentLedger (blk_VerificationKey block);
              if tickets \<le> 0 then Some False
              else do {
                drawOk \<leftarrow> lottery_draw_ok E genesis block;
                if \<not> drawOk then Some False
                else do {
                  hardness \<leftarrow> effectiveHardnessForBlock nodes (Some genesis) block;
                  let hardness = newcomer_hardness parentLedger genesis block hardness;
                  if \<not> WinsLottery tickets hardness (blk_Draw block) then Some False
                  else transactions_ok E parentLedger block
                }
              }
            }
        }
      })"

definition AddBlock :: "env \<Rightarrow> Blockchain \<Rightarrow> Block \<Rightarrow> (Blockchain \<times> bool) go" where
  "AddBlock E b block = do {
     (depths, nodes) \<leftarrow> calculateDepths E (Blocks b);
     ok \<leftarrow> block_valid E depths nodes block;
     Some (if ok then (b\<lparr>Blocks := Blocks b @ [block]\<rparr>, True) else (b, False))
   }"

definition NewCandidateBlock ::
    "'a ethlib_scheme \<Rightarrow> Account \<Rightarrow> int \<Rightarrow> string \<Rightarrow> SignedTransaction list \<Rightarrow> int \<Rightarrow> Block" where
  "NewCandidateBlock E winner slot parentHash txs seed =
     (let proof = SignLotteryProof E seed slot (Some winner);
          draw = (case ComputeLotteryDrawFromProof E proof of
            Some draw \<Rightarrow> draw | None \<Rightarrow> ComputeLotteryDraw E seed slot (SafeEncode winner));
          meta = EncodeBlockTransactions txs;
          block = NewBlock E (Some winner) slot draw parentHash meta;
          block = block\<lparr>blk_LotteryProof := proof\<rparr>
      in block\<lparr>blk_Signature := Sign E block winner\<rparr>)"

end
