(* ===== verification/ChainFacts.thy ===== *)
theory ChainFacts
  imports Blockchain
begin

text \<open>
  What the block tree promises. Hardness stays in its bounds; the leaf is the deepest block
  with the smallest hash, whatever the order of the scan; as long as SHA-256 has no
  collision among the blocks, every walk from a block ends at the genesis block, in as many
  steps as the block's depth; an accepted block meets every condition of the protocol and
  the ledger rebuilt at it is its parent's ledger with the block applied; the block of an
  honest winner is accepted.
\<close>

section \<open>Hardness\<close>

lemma clampHardness_range:
  assumes "0 < lo" and "lo \<le> hi"
  shows "lo \<le> clampHardness v lo hi" and "clampHardness v lo hi \<le> hi"
  using assms by (simp_all add: clampHardness_def Let_def)

lemma clampHardness_id: "0 < lo \<Longrightarrow> lo \<le> v \<Longrightarrow> v \<le> hi \<Longrightarrow> clampHardness v lo hi = v"
  by (simp add: clampHardness_def Let_def)

lemma EffectiveHardness_clamp:
  "\<exists>v. EffectiveHardnessForMining blocks (Some g) n =
     clampHardness v (DynamicHardnessMin (applyDefaultDynamicHardnessConfig g)) (DynamicHardnessMax (applyDefaultDynamicHardnessConfig g))"
  by (auto simp: EffectiveHardnessForMining_def effectiveDynamicHardness_def Let_def)

section \<open>The leaf\<close>

text \<open>Whether a hash is preferred: deeper, or as deep and smaller.\<close>

definition best_leaf :: "depth_map \<Rightarrow> string set \<Rightarrow> string \<Rightarrow> bool" where
  "best_leaf depths H leaf \<longleftrightarrow> leaf \<in> H \<and>
     (\<forall>h \<in> H. mget 0 depths h < mget 0 depths leaf \<or> mget 0 depths h = mget 0 depths leaf \<and> leaf \<le> h)"

lemma best_leaf_unique: "best_leaf depths H x \<Longrightarrow> best_leaf depths H y \<Longrightarrow> x = y"
  by (fastforce simp: best_leaf_def)

lemma leaf_scan_seen:
  assumes "best_leaf depths H leaf" and "maxDepth = mget 0 depths leaf"
  shows "best_leaf depths (H \<union> set hs) (leaf_scan hs depths maxDepth leaf)"
  using assms
proof (induction hs arbitrary: H leaf maxDepth)
  case Nil
  then show ?case by simp
next
  case (Cons h hs)
  let ?d = "mget 0 depths"
  consider "?d h > maxDepth" | "?d h = maxDepth" "h < leaf" | "?d h < maxDepth \<or> ?d h = maxDepth \<and> leaf \<le> h"
    by fastforce
  then show ?case
  proof cases
    case 1
    have "best_leaf depths (insert h H) h" using Cons.prems 1 by (fastforce simp: best_leaf_def)
    from Cons.IH [OF this refl] 1 show ?thesis by (simp add: Let_def)
  next
    case 2
    have "best_leaf depths (insert h H) h" using Cons.prems 2 by (fastforce simp: best_leaf_def)
    from Cons.IH [OF this refl] 2 show ?thesis by (simp add: Let_def)
  next
    case 3
    have "best_leaf depths (insert h H) leaf" using Cons.prems 3 by (auto simp: best_leaf_def)
    from Cons.IH [OF this Cons.prems(2)] 3 show ?thesis by (auto simp: Let_def not_less)
  qed
qed

lemma leaf_scan_best:
  assumes "hs \<noteq> []" and "\<forall>h \<in> set hs. 0 \<le> mget 0 depths h"
  shows "best_leaf depths (set hs) (leaf_scan hs depths (-1) [])"
proof -
  obtain h t where hs: "hs = h # t" using assms(1) by (cases hs) auto
  have "best_leaf depths {h} h" by (simp add: best_leaf_def)
  from leaf_scan_seen [OF this refl, of t] show ?thesis
    using assms(2) by (simp add: hs Let_def)
qed

section \<open>The tree\<close>

definition collision_free :: "'a ethlib_scheme \<Rightarrow> Block set \<Rightarrow> bool" where
  "collision_free E B \<longleftrightarrow> (\<forall>b \<in> B. hash_of E b \<noteq> NO_PARENT_HASH) \<and>
     (\<forall>b \<in> B. \<forall>c \<in> B. hash_of E b = hash_of E c \<longrightarrow> blk_ParentHash b = blk_ParentHash c)"

lemma collision_freeD:
  "collision_free E B \<Longrightarrow> b \<in> B \<Longrightarrow> hash_of E b \<noteq> NO_PARENT_HASH"
  "collision_free E B \<Longrightarrow> b \<in> B \<Longrightarrow> c \<in> B \<Longrightarrow> hash_of E b = hash_of E c \<Longrightarrow> blk_ParentHash b = blk_ParentHash c"
  unfolding collision_free_def by blast+

lemma collision_free_subset: "collision_free E C \<Longrightarrow> B \<subseteq> C \<Longrightarrow> collision_free E B"
  unfolding collision_free_def by blast

definition tree_ok :: "'a ethlib_scheme \<Rightarrow> Block set \<Rightarrow> Block \<Rightarrow> nat \<Rightarrow> depth_map \<Rightarrow> node_map \<Rightarrow> bool" where
  "tree_ok E B g n depths nodes \<longleftrightarrow>
     fmlookup depths (hash_of E g) = Some 0 \<and>
     (\<forall>h. mhas nodes h = mhas depths h) \<and>
     (\<forall>h d. fmlookup depths h = Some d \<longrightarrow> 0 \<le> d \<and> d \<le> int n) \<and>
     (\<forall>h b. fmlookup nodes h = Some b \<longrightarrow> hash_of E b = h \<and> b \<in> B) \<and>
     (\<forall>h b. fmlookup nodes h = Some b \<longrightarrow> h \<noteq> hash_of E g \<longrightarrow>
        (\<exists>d. fmlookup depths (blk_ParentHash b) = Some d \<and> fmlookup depths h = Some (d + 1)))"

lemma tree_ok_genesis:
  "g \<in> B \<Longrightarrow> tree_ok E B g 0 (fmupd (hash_of E g) 0 fmempty) (fmupd (hash_of E g) g fmempty)"
  by (simp add: tree_ok_def)

lemma tree_node:
  "tree_ok E B g n depths nodes \<Longrightarrow> fmlookup depths h = Some d \<Longrightarrow>
     \<exists>b. fmlookup nodes h = Some b \<and> hash_of E b = h \<and> b \<in> B"
  unfolding tree_ok_def mhas_def by (metis not_None_eq)

lemma tree_depth: "tree_ok E B g n depths nodes \<Longrightarrow> fmlookup depths h = Some d \<Longrightarrow> 0 \<le> d \<and> d \<le> int n"
  by (simp add: tree_ok_def)

lemma tree_parent:
  "tree_ok E B g n depths nodes \<Longrightarrow> fmlookup nodes h = Some b \<Longrightarrow> h \<noteq> hash_of E g \<Longrightarrow>
     \<exists>d. fmlookup depths (blk_ParentHash b) = Some d \<and> fmlookup depths h = Some (d + 1)"
  by (simp add: tree_ok_def)

lemma tree_ok_mono: "tree_ok E B g n depths nodes \<Longrightarrow> n \<le> m \<Longrightarrow> tree_ok E B g m depths nodes"
  unfolding tree_ok_def by (intro conjI; (elim conjE)?; fastforce)

text \<open>A block that is added under a known parent keeps the tree, and no depth changes.\<close>

lemma tree_ok_add:
  assumes t: "tree_ok E B g n depths nodes" and cf: "collision_free E B" and "g \<in> B" "c \<in> B" "blk_ParentHash g = NO_PARENT_HASH"
    and pd: "fmlookup depths (blk_ParentHash c) = Some pd"
  shows "tree_ok E B g (Suc n) (fmupd (hash_of E c) (pd + 1) depths) (fmupd (hash_of E c) c nodes)"
    and "fmlookup depths h = Some d \<Longrightarrow> fmlookup (fmupd (hash_of E c) (pd + 1) depths) h = Some d"
proof -
  have ne: "hash_of E c \<noteq> hash_of E g"
  proof
    assume "hash_of E c = hash_of E g"
    then have "blk_ParentHash c = NO_PARENT_HASH" using collision_freeD(2) [OF cf assms(4,3)] assms(5) by simp
    then show False using tree_node [OF t pd] collision_freeD(1) [OF cf] by auto
  qed
  have old: "d = pd + 1" if old_d: "fmlookup depths (hash_of E c) = Some d" for d
  proof -
    obtain b where b: "fmlookup nodes (hash_of E c) = Some b" "hash_of E b = hash_of E c" "b \<in> B"
      using tree_node [OF t old_d] by auto
    then have "blk_ParentHash b = blk_ParentHash c" using collision_freeD(2) [OF cf _ assms(4)] by blast
    then show ?thesis using tree_parent [OF t b(1) ne] pd old_d by auto
  qed
  show keep: "fmlookup (fmupd (hash_of E c) (pd + 1) depths) h = Some d" if "fmlookup depths h = Some d" for h d
    using that old by auto
  have "0 \<le> pd" "pd \<le> int n" using tree_depth [OF t pd] by auto
  moreover have "\<exists>d. fmlookup (fmupd (hash_of E c) (pd + 1) depths) (blk_ParentHash b) = Some d \<and>
      fmlookup (fmupd (hash_of E c) (pd + 1) depths) h = Some (d + 1)"
    if hb: "fmlookup (fmupd (hash_of E c) c nodes) h = Some b" "h \<noteq> hash_of E g" for h b
  proof (cases "h = hash_of E c")
    case True
    then show ?thesis using hb keep [OF pd] by (intro exI [of _ pd]) auto
  next
    case False
    then obtain d where "fmlookup depths (blk_ParentHash b) = Some d" "fmlookup depths h = Some (d + 1)"
      using hb tree_parent [OF t, of h b] by auto
    then show ?thesis using keep by blast
  qed
  ultimately show "tree_ok E B g (Suc n) (fmupd (hash_of E c) (pd + 1) depths) (fmupd (hash_of E c) c nodes)"
    using tree_ok_mono [OF t, of "Suc n"] ne assms(4) unfolding tree_ok_def by (auto split: if_splits)
qed

lemma depths_loop_ok:
  assumes "depths_loop E bs depths nodes = Some (depths', nodes')" and "tree_ok E B g n depths nodes"
    and "collision_free E B" "g \<in> B" "set bs \<subseteq> B" "blk_ParentHash g = NO_PARENT_HASH" "int (n + length bs) < 2 ^ 63"
  shows "tree_ok E B g (n + length bs) depths' nodes' \<and> (\<forall>h d. fmlookup depths h = Some d \<longrightarrow> fmlookup depths' h = Some d)"
  using assms
proof (induction bs arbitrary: n depths nodes)
  case Nil
  then show ?case by simp
next
  case (Cons c bs)
  have mono: "tree_ok E B g (Suc n) depths nodes" using Cons.prems(2) by (rule tree_ok_mono) simp
  show ?case
  proof (cases "block_signed E c = Some True \<and> mhas depths (blk_ParentHash c)")
    case False
    with Cons.prems(1) have "depths_loop E bs depths nodes = Some (depths', nodes')"
      by (auto simp: mhas_def split: option.splits if_splits)
    from Cons.IH [OF this mono] Cons.prems show ?thesis by simp
  next
    case True
    then obtain pd where pd: "fmlookup depths (blk_ParentHash c) = Some pd" by (auto simp: mhas_def)
    have "pd + 1 < 2 ^ 63" "0 \<le> pd" using Cons.prems(7) tree_depth [OF Cons.prems(2) pd] by auto
    then have i: "i64 (pd + 1) = pd + 1" by (intro i64_small) auto
    have c: "c \<in> B" using Cons.prems(5) by simp
    note add = tree_ok_add [OF Cons.prems(2,3,4) c Cons.prems(6) pd]
    have "depths_loop E bs (fmupd (hash_of E c) (pd + 1) depths) (fmupd (hash_of E c) c nodes) = Some (depths', nodes')"
      using Cons.prems(1) True pd i by simp
    from Cons.IH [OF this add(1)] Cons.prems add(2) show ?thesis by auto
  qed
qed

text \<open>Block trees the theorems speak about.\<close>

definition tree_blocks :: "'a ethlib_scheme \<Rightarrow> Block list \<Rightarrow> bool" where
  "tree_blocks E bs \<longleftrightarrow> bs \<noteq> [] \<and> blk_ParentHash (hd bs) = NO_PARENT_HASH \<and> collision_free E (set bs) \<and> int (length bs) < 2 ^ 63"

lemma calculateDepths_ok:
  assumes "calculateDepths E bs = Some (depths, nodes)" and "tree_blocks E bs"
  shows "tree_ok E (set bs) (hd bs) (length bs - 1) depths nodes"
proof -
  obtain g rest where bs: "bs = g # rest" using assms(2) by (cases bs) (auto simp: tree_blocks_def)
  then have "depths_loop E rest (fmupd (hash_of E g) 0 fmempty) (fmupd (hash_of E g) g fmempty) = Some (depths, nodes)"
    using assms(1) by (simp add: calculateDepths_def)
  from depths_loop_ok [OF this tree_ok_genesis, of "set bs"] show ?thesis
    using assms(2) by (auto simp: tree_blocks_def bs)
qed

section \<open>Branches\<close>

text \<open>A branch, newest block first: parent links down to the genesis block.\<close>

fun chain_up :: "'a ethlib_scheme \<Rightarrow> string \<Rightarrow> Block list \<Rightarrow> bool" where
  "chain_up E h [] \<longleftrightarrow> h = NO_PARENT_HASH"
| "chain_up E h (b # bs) \<longleftrightarrow> h = hash_of E b \<and> chain_up E (blk_ParentHash b) bs"

lemma branch_up_ok:
  assumes "tree_ok E B g n depths nodes" and "collision_free E B" and "g \<in> B" and "blk_ParentHash g = NO_PARENT_HASH"
    and "fmlookup depths h = Some d"
  shows "\<exists>bs. branch_up nodes h = Some bs \<and> chain_up E h bs \<and> int (length bs) = d + 1 \<and> set bs \<subseteq> B \<and>
    fmlookup nodes (hash_of E g) = Some (last bs)"
  using assms(5)
proof (induction "nat d" arbitrary: h d)
  case 0
  obtain b where b: "fmlookup nodes h = Some b" "hash_of E b = h" "b \<in> B"
    using tree_node [OF assms(1) 0(2)] by auto
  have d: "d = 0" using 0(1) tree_depth [OF assms(1) 0(2)] by auto
  have hg: "h = hash_of E g"
  proof (rule ccontr)
    assume "h \<noteq> hash_of E g"
    then obtain e where e: "fmlookup depths (blk_ParentHash b) = Some e" "fmlookup depths h = Some (e + 1)"
      using tree_parent [OF assms(1) b(1)] by auto
    then have "0 \<le> e" using tree_depth [OF assms(1)] by auto
    with e(2) 0(2) d show False by simp
  qed
  then have "blk_ParentHash b = NO_PARENT_HASH" 
    using collision_freeD(2) [OF assms(2) b(3) assms(3)] b(2) hg assms(4) by simp
  then show ?case
    
    using b d hg collision_freeD(1) [OF assms(2) b(3)] by (subst branch_up.simps, subst branch_up.simps) auto
next
  case (Suc k)
  obtain b where b: "fmlookup nodes h = Some b" "hash_of E b = h" "b \<in> B"
    using tree_node [OF assms(1) Suc(3)] by auto
  have "h \<noteq> hash_of E g" using assms(1) Suc by (auto simp: tree_ok_def)
  then obtain e where e: "fmlookup depths (blk_ParentHash b) = Some e" "d = e + 1"
    using tree_parent [OF assms(1) b(1)] Suc(3) by auto
  then have "k = nat e" using Suc(2) by linarith
  from Suc(1) [OF this e(1)] obtain bs where bs: "branch_up nodes (blk_ParentHash b) = Some bs"
    "chain_up E (blk_ParentHash b) bs" "int (length bs) = e + 1" "set bs \<subseteq> B" "fmlookup nodes (hash_of E g) = Some (last bs)" by blast
  have "0 \<le> e" using tree_depth [OF assms(1) e(1)] by auto
  then have "bs \<noteq> []" using bs(3) by auto
  moreover have "h \<noteq> NO_PARENT_HASH" using b collision_freeD(1) [OF assms(2) b(3)] by auto
  ultimately show ?case
    using b bs e by (subst branch_up.simps) auto
qed

lemma max_depth_of_init: "m \<le> max_depth_of hs depths m"
proof (induction hs arbitrary: m)
  case (Cons h hs)
  show ?case using Cons.IH [of m] Cons.IH [of "mget 0 depths h"] by simp
qed simp

lemma max_depth_of_ge: "h \<in> set hs \<Longrightarrow> mget 0 depths h \<le> max_depth_of hs depths m"
proof (induction hs arbitrary: m)
  case (Cons k hs)
  then show ?case
    using max_depth_of_init [of m hs depths] max_depth_of_init [of "mget 0 depths k" hs depths] by auto
qed simp

lemma max_depth_of_in: "max_depth_of hs depths m = m \<or> (\<exists>h \<in> set hs. max_depth_of hs depths m = mget 0 depths h)"
proof (induction hs arbitrary: m)
  case (Cons k hs)
  show ?case using Cons.IH [of m] Cons.IH [of "mget 0 depths k"] by auto
qed simp

lemma tree_leaf:
  assumes "tree_ok E B g n depths nodes"
  obtains d where "fmlookup depths (getLeafHash depths) = Some d" "max_depth_of (mkeys depths) depths 0 = d"
    "best_leaf depths (set (mkeys depths)) (getLeafHash depths)"
proof -
  have g: "hash_of E g \<in> set (mkeys depths)" using assms by (auto simp: tree_ok_def fmlookup_dom_iff)
  have nn: "\<forall>h \<in> set (mkeys depths). 0 \<le> mget 0 depths h"
    using tree_depth [OF assms] by (auto simp: mget_def fmlookup_dom_iff split: option.splits)
  have "mkeys depths \<noteq> []" using g by (metis empty_iff empty_set)
  then have best: "best_leaf depths (set (mkeys depths)) (getLeafHash depths)"
    unfolding getLeafHash_def using nn by (rule leaf_scan_best)
  then obtain d where d: "fmlookup depths (getLeafHash depths) = Some d"
    by (auto simp: best_leaf_def fmlookup_dom_iff)
  have leaf: "getLeafHash depths \<in> set (mkeys depths)" using best by (simp add: best_leaf_def)
  have up: "mget 0 depths h \<le> d" if "h \<in> set (mkeys depths)" for h
    using best that d by (auto simp: best_leaf_def mget_lookup [OF d])
  have "max_depth_of (mkeys depths) depths 0 = d"
    using max_depth_of_in [of "mkeys depths" depths 0] max_depth_of_ge [OF leaf, of depths 0] up
      max_depth_of_init [of 0 "mkeys depths" depths] tree_depth [OF assms d] mget_lookup [OF d, of 0] by force
  with d best that show thesis by blast
qed

lemma canonical_chain:
  assumes "tree_blocks E (Blocks b)" and "calculateDepths E (Blocks b) = Some (depths, nodes)"
  obtains bs where "CanonicalBlocks E b 0 = Some bs" "chain_up E (getLeafHash depths) (rev bs)"
    "BestHeight E b = Some (int (length bs) - 1)" "set bs \<subseteq> set (Blocks b)" "bs \<noteq> []"
    "hash_of E (hd bs) = hash_of E (hd (Blocks b))"
proof -
  let ?g = "hd (Blocks b)"
  have B: "collision_free E (set (Blocks b))" "?g \<in> set (Blocks b)" "blk_ParentHash ?g = NO_PARENT_HASH"
    using assms(1) by (auto simp: tree_blocks_def)
  note t = calculateDepths_ok [OF assms(2,1)]
  obtain d where d: "fmlookup depths (getLeafHash depths) = Some d" "max_depth_of (mkeys depths) depths 0 = d"
    using tree_leaf [OF t] .
  obtain bs where bs: "branch_up nodes (getLeafHash depths) = Some bs" "chain_up E (getLeafHash depths) bs"
    "int (length bs) = d + 1" "set bs \<subseteq> set (Blocks b)" "fmlookup nodes (hash_of E ?g) = Some (last bs)"
    using branch_up_ok [OF t B d(1)] by blast
  have ne: "bs \<noteq> []" using bs(3) tree_depth [OF t d(1)] by auto
  show thesis
  proof (rule that [of "rev bs"])
    show "CanonicalBlocks E b 0 = Some (rev bs)"
      using ne by (simp add: CanonicalBlocks_def assms(2) getBlocksFromLongestBranch_def bs(1) drop_last_def)
    show "BestHeight E b = Some (int (length (rev bs)) - 1)" using bs(3) d(2) by (simp add: BestHeight_def assms(2))
    show "hash_of E (hd (rev bs)) = hash_of E ?g" using bs(5) ne t by (simp add: hd_rev tree_ok_def)
  qed (use bs ne in auto)
qed

section \<open>Acceptance\<close>

lemma block_valid_True:
  assumes "block_valid E depths nodes block = Some True"
  obtains g genesis parentLedger tickets hardness txs where "mhas depths (blk_ParentHash block)" "block_signed E block = Some True"
    "fmlookup nodes (getGenesisHash nodes) = Some g" "decodeGenesisFromMeta (blk_MetaData g) = Some genesis"
    "buildLedgerAtHash E nodes (blk_ParentHash block) = Some parentLedger"
    "LotteryTickets parentLedger (blk_VerificationKey block) = Some tickets" "0 < tickets"
    "lottery_draw_ok E genesis block = Some True"
    "effectiveHardnessForBlock nodes (Some genesis) block = Some hardness"
    "WinsLottery tickets (newcomer_hardness parentLedger genesis block hardness) (blk_Draw block)"
    "DecodeBlockTransactions (blk_MetaData block) = Some txs" "length txs \<le> BLOCK_SIZE" "all_apply E parentLedger txs = Some True"
  using assms that
  by (auto simp: block_valid_def transactions_ok_def Let_def not_le not_less split: if_splits option.splits bind_splits)

lemma AddBlock_cases:
  assumes "AddBlock E b block = Some (b', ok)"
  obtains depths nodes where "calculateDepths E (Blocks b) = Some (depths, nodes)" "block_valid E depths nodes block = Some ok"
    "Blocks b' = (if ok then Blocks b @ [block] else Blocks b)"
  using assms that by (auto simp: AddBlock_def split: if_splits)

section \<open>Reconstruction applies what was validated\<close>

lemma MarkValidator_commute: "MarkValidator (MarkValidator l a) b = MarkValidator (MarkValidator l b) a"
proof -
  have "fmupd b True (fmupd a True m) = fmupd a True (fmupd b True m)" for m :: "(string, bool) gomap"
    by (rule fmap_ext) simp
  then show ?thesis by (simp add: MarkValidator_def)
qed

lemma MarkValidator_frame [simp]:
  "Accounts (MarkValidator l a) = Accounts l" "Nonces (MarkValidator l a) = Nonces l" "NFTs (MarkValidator l a) = NFTs l"
  "AssetBalances (MarkValidator l a) = AssetBalances l" "AMMPools (MarkValidator l a) = AMMPools l"
  "EVMAccounts (MarkValidator l a) = EVMAccounts l" "EVMReceipts (MarkValidator l a) = EVMReceipts l"
  "TxHistory (MarkValidator l a) = TxHistory l"
  by (simp_all add: MarkValidator_def)

lemma Mark_ops:
  "recordTx (MarkValidator l a) t = MarkValidator (recordTx l t) a" "credit (MarkValidator l a) k v = MarkValidator (credit l k v) a"
  "debit (MarkValidator l a) k v = MarkValidator (debit l k v) a" "advanceNonce (MarkValidator l a) t = MarkValidator (advanceNonce l t) a"
  "setAsset (MarkValidator l a) x k v = MarkValidator (setAsset l x k v) a"
  "(MarkValidator l a)\<lparr>AMMPools := p\<rparr> = MarkValidator (l\<lparr>AMMPools := p\<rparr>) a"
  "(MarkValidator l a)\<lparr>NFTs := n\<rparr> = MarkValidator (l\<lparr>NFTs := n\<rparr>) a"
  by (simp_all add: ledger_ops)

lemma Mark_asset_ops:
  "creditAssetLocked (MarkValidator l a) x k v = MarkValidator (creditAssetLocked l x k v) a"
  "fst (debitAssetLocked (MarkValidator l a) x k v) = MarkValidator (fst (debitAssetLocked l x k v)) a"
  "snd (debitAssetLocked (MarkValidator l a) x k v) = snd (debitAssetLocked l x k v)"
  "canDebitAssetLocked (MarkValidator l a) x k v = canDebitAssetLocked l x k v"
  by (simp_all add: creditAssetLocked_def debitAssetLocked_def canDebitAssetLocked_def Let_def Mark_ops)

lemma Mark_operator: "isOperatorLocked l k \<Longrightarrow> isOperatorLocked (MarkValidator l a) k"
  by (auto simp: isOperatorLocked_def IsValidator_def MarkValidator_def)

lemma Mark_ammAction:
  assumes "ammAction l t p = (l', p', True)"
  shows "ammAction (MarkValidator l a) t p = (MarkValidator l' a, p', True)"
  using assms
proof (cases rule: ammAction_True)
  case credit
  then show ?thesis by (auto simp: ammAction_def ammAssetCredit_def Mark_operator Mark_asset_ops split: if_splits)
next
  case debit
  then have "debitAssetLocked l (amm_Asset p) (tx_To t) (amm_Amount p) = (l', True)"
    by (auto simp: ammAssetDebit_def split: if_splits)
  then have "debitAssetLocked (MarkValidator l a) (amm_Asset p) (tx_To t) (amm_Amount p) = (MarkValidator l' a, True)"
    using Mark_asset_ops(2,3) [of l a "amm_Asset p" "tx_To t" "amm_Amount p"] by (simp add: prod_eq_iff)
  with debit show ?thesis by (auto simp: ammAction_def ammAssetDebit_def Mark_operator split: if_splits)
next
  case create
  then show ?thesis by (auto simp: ammAction_def ammCreatePool_def Mark_operator Mark_ops Let_def split: if_splits)
next
  case add
  then show ?thesis
    by (auto simp: ammAction_def ammAddLiquidity_def Mark_operator Mark_asset_ops Mark_ops Let_def debitAssetOrPKNLocked_def
      split: if_splits option.splits)
next
  case swap
  then show ?thesis
    by (auto simp: ammAction_def ammSwap_def Mark_asset_ops Mark_ops Let_def debitAssetOrPKNLocked_def creditAssetOrPKNLocked_def
      split: if_splits option.splits prod.splits)
qed

lemma Mark_applyAMM:
  assumes "applyAMMTransactionLocked E l t = Some (l', t', True)"
  shows "applyAMMTransactionLocked E (MarkValidator l a) t = Some (MarkValidator l' a, t', True)"
  using assms Mark_ammAction [of l]
  by (fastforce simp: applyAMMTransactionLocked_def Let_def Mark_ops split: option.splits if_splits prod.splits)

lemma Mark_applyNFTMint:
  "applyNFTMint E l t = Some (l', t', True) \<Longrightarrow> applyNFTMint E (MarkValidator l a) t = Some (MarkValidator l' a, t', True)"
  by (auto simp: applyNFTMint_def Let_def Mark_ops split: option.splits if_splits prod.splits)

lemma Mark_applyNFTTransfer:
  "applyNFTTransfer E l t = Some (l', t', True) \<Longrightarrow> applyNFTTransfer E (MarkValidator l a) t = Some (MarkValidator l' a, t', True)"
  by (auto simp: applyNFTTransfer_def Let_def Mark_ops split: option.splits if_splits prod.splits)

lemma Mark_applyMint:
  "applyMint E l t = Some (l', t', True) \<Longrightarrow> applyMint E (MarkValidator l a) t = Some (MarkValidator l' a, t', True)"
  by (auto simp: applyMint_def Let_def Mark_ops MarkValidator_commute split: option.splits if_splits prod.splits)

lemma Mark_applyPlainTransfer:
  "applyPlainTransfer (MarkValidator l a) t = (let (l', ok) = applyPlainTransfer l t in (MarkValidator l' a, ok))"
  by (simp add: applyPlainTransfer_def Let_def Mark_ops)

lemma Mark_updates:
  "(MarkValidator l a)\<lparr>EVMAccounts := m\<rparr> = MarkValidator (l\<lparr>EVMAccounts := m\<rparr>) a"
  "(MarkValidator l a)\<lparr>Nonces := n\<rparr> = MarkValidator (l\<lparr>Nonces := n\<rparr>) a"
  "(MarkValidator l a)\<lparr>EVMReceipts := r\<rparr> = MarkValidator (l\<lparr>EVMReceipts := r\<rparr>) a"
  by (simp_all add: MarkValidator_def)

lemma Mark_applyEVM:
  "applyEVMContractTransactionLocked E (MarkValidator l a) t =
     (let (l', r) = applyEVMContractTransactionLocked E l t in (MarkValidator l' a, r))"
proof -
  have run: "evm_run E (MarkValidator l a) t tx = evm_run E l t tx" for tx by (simp add: evm_run_def)
  have move: "evm_move_value (MarkValidator k a) t tx = MarkValidator (evm_move_value k t tx) a" for k tx
    by (simp add: evm_move_value_def Let_def Mark_ops split: option.split)
  show ?thesis
    by (auto simp: applyEVMContractTransactionLocked_def run move Mark_ops Mark_updates Let_def split: option.split prod.split)
qed

lemma Mark_applyTransfer:
  assumes "applyTransfer E l t = Some (l', t', True)"
  shows "applyTransfer E (MarkValidator l a) t = Some (MarkValidator l' a, t', True)"
  using assms
  by (auto simp: applyTransfer_def Mark_applyEVM Mark_applyPlainTransfer Let_def split: option.splits if_splits prod.splits)

lemma Mark_Transaction:
  "Transaction E l t = Some (l', t', True) \<Longrightarrow> Transaction E (MarkValidator l a) t = Some (MarkValidator l' a, t', True)"
  by (simp add: Transaction_def Mark_applyAMM Mark_applyNFTMint Mark_applyNFTTransfer Mark_applyMint Mark_applyTransfer
    split: if_splits)

lemma all_apply_apply_all:
  assumes "all_apply E l txs = Some True"
  shows "\<exists>l'. apply_all E l txs = Some l' \<and> apply_all E (MarkValidator l a) txs = Some (MarkValidator l' a)"
  using assms
proof (induction txs arbitrary: l)
  case (Cons t txs)
  then obtain l1 t1 where tr: "Transaction E l t = Some (l1, t1, True)" "all_apply E l1 txs = Some True"
    by (auto split: option.splits if_splits)
  then show ?case using Cons.IH [OF tr(2)] Mark_Transaction [OF tr(1), of a] by auto
qed simp

section \<open>A block on top of its parent\<close>

lemma depths_loop_snoc:
  "depths_loop E (bs @ [c]) depths nodes =
     Option.bind (depths_loop E bs depths nodes) (\<lambda>(d, n). depths_loop E [c] d n)"
  by (induction bs arbitrary: depths nodes) (auto split: option.splits)

lemma calculateDepths_snoc:
  assumes "calculateDepths E bs = Some (depths, nodes)" and "block_signed E c = Some True" and "fmlookup depths (blk_ParentHash c) = Some d"
  shows "calculateDepths E (bs @ [c]) = Some (fmupd (hash_of E c) (i64 (d + 1)) depths, fmupd (hash_of E c) c nodes)"
  using assms by (cases bs) (simp_all add: calculateDepths_def depths_loop_snoc)

lemma branch_up_update:
  assumes "tree_ok E B g n depths nodes" and "collision_free E B" and "g \<in> B" and "blk_ParentHash g = NO_PARENT_HASH"
    and "fmlookup depths p = Some d" and "\<And>e. fmlookup depths h = Some e \<Longrightarrow> d < e"
  shows "branch_up (fmupd h c nodes) p = branch_up nodes p"
  using assms(5,6)
proof (induction "nat d" arbitrary: p d rule: less_induct)
  case less
  have ph: "p \<noteq> h" using less.prems by auto
  obtain b where b: "fmlookup nodes p = Some b" "hash_of E b = p" "b \<in> B" using tree_node [OF assms(1) less.prems(1)] by auto
  show ?case
  proof (cases "p = hash_of E g")
    case True
    then have "blk_ParentHash b = NO_PARENT_HASH" using collision_freeD(2) [OF assms(2) b(3) assms(3)] b(2) assms(4) by simp
    then show ?thesis using ph b
      by (subst (1 2) branch_up.simps, subst (1 2) branch_up.simps) simp
  next
    case False
    then obtain e where e: "fmlookup depths (blk_ParentHash b) = Some e" "d = e + 1"
      using tree_parent [OF assms(1) b(1)] less.prems(1) by auto
    moreover have "0 \<le> e" using tree_depth [OF assms(1) e(1)] by simp
    moreover have "e < i" if "fmlookup depths h = Some i" for i using less.prems(2) [OF that] e(2) by simp
    ultimately have "branch_up (fmupd h c nodes) (blk_ParentHash b) = branch_up nodes (blk_ParentHash b)"
      using less.hyps [of e "blk_ParentHash b"] by simp
    then show ?thesis using ph b by (subst (1 2) branch_up.simps) simp
  qed
qed

lemma find_genesis_only:
  assumes "\<And>h b. fmlookup nodes h = Some b \<Longrightarrow> blk_ParentHash b = NO_PARENT_HASH \<longleftrightarrow> h = x" and "mhas nodes x" and "x \<in> set hs"
  shows "find_genesis hs nodes = x"
  using assms by (induction hs) (auto simp: mhas_def split: option.splits)

lemma getGenesisHash_ok:
  assumes "tree_ok E B g n depths nodes" and "collision_free E B" and "g \<in> B" and "blk_ParentHash g = NO_PARENT_HASH"
  shows "getGenesisHash nodes = hash_of E g"
  unfolding getGenesisHash_def
proof (rule find_genesis_only)
  fix h b assume hb: "fmlookup nodes h = Some b"
  then have b: "hash_of E b = h" "b \<in> B" using assms(1) by (auto simp: tree_ok_def)
  show "blk_ParentHash b = NO_PARENT_HASH \<longleftrightarrow> h = hash_of E g"
  proof
    assume p: "blk_ParentHash b = NO_PARENT_HASH"
    show "h = hash_of E g"
    proof (rule ccontr)
      assume "h \<noteq> hash_of E g"
      then obtain d where "fmlookup depths NO_PARENT_HASH = Some d" using tree_parent [OF assms(1) hb] p by auto
      then show False using tree_node [OF assms(1)] collision_freeD(1) [OF assms(2)] by blast
    qed
  next
    assume "h = hash_of E g"
    then show "blk_ParentHash b = NO_PARENT_HASH" using collision_freeD(2) [OF assms(2) b(2) assms(3)] b(1) assms(4) by simp
  qed
next
  show "mhas nodes (hash_of E g)" using assms(1) by (simp add: tree_ok_def mhas_def)
  then show "hash_of E g \<in> set (mkeys nodes)" by (simp add: mhas_iff_dom)
qed

lemma apply_blocks_snoc:
  "apply_blocks E l (bs @ [c]) = Option.bind (apply_blocks E l bs) (\<lambda>l. apply_block E l c)"
  by (induction bs arbitrary: l) (auto split: option.splits)

lemma tree_blocks_facts:
  assumes "tree_blocks E bs"
  shows "collision_free E (set bs)" "hd bs \<in> set bs" "blk_ParentHash (hd bs) = NO_PARENT_HASH"
  using assms by (auto simp: tree_blocks_def)

lemma tree_blocks_prefix: "tree_blocks E (bs @ [c]) \<Longrightarrow> bs \<noteq> [] \<Longrightarrow> tree_blocks E bs"
  unfolding tree_blocks_def by (auto intro: collision_free_subset)

text \<open>
  In the tree with the new block the depth of its parent is unchanged, its own is one
  more, and the branch to its parent is the one the block was validated on.
\<close>

lemma snoc_branch:
  assumes "tree_blocks E (bs @ [c])" and "bs \<noteq> []" and "calculateDepths E bs = Some (depths, nodes)" and "block_signed E c = Some True"
    and "fmlookup depths (blk_ParentHash c) = Some d"
  shows "calculateDepths E (bs @ [c]) = Some (fmupd (hash_of E c) (d + 1) depths, fmupd (hash_of E c) c nodes)"
    and "branch_up (fmupd (hash_of E c) c nodes) (hash_of E c) = map_option ((#) c) (branch_up nodes (blk_ParentHash c))"
proof -
  let ?B = "set (bs @ [c])"
  note f = tree_blocks_facts [OF assms(1)]
  have g: "hd (bs @ [c]) = hd bs" using assms(2) by simp
  have t: "tree_ok E ?B (hd bs) (length bs - 1) depths nodes"
    using calculateDepths_ok [OF assms(3) tree_blocks_prefix [OF assms(1,2)]] by (auto simp: tree_ok_def)
  have "d \<le> int (length bs - 1)" "0 \<le> d" using tree_depth [OF t assms(5)] by auto
  moreover have "int (length bs) < 2 ^ 63" using assms(1) by (simp add: tree_blocks_def)
  ultimately have i: "i64 (d + 1) = d + 1" using assms(2) by (intro i64_small) auto
  show calc: "calculateDepths E (bs @ [c]) = Some (fmupd (hash_of E c) (d + 1) depths, fmupd (hash_of E c) c nodes)"
    using calculateDepths_snoc [OF assms(3,4,5)] i by simp
  have c: "c \<in> ?B" by simp
  note keep = tree_ok_add(2) [OF t f(1) f(2) [unfolded g] c f(3) [unfolded g] assms(5)]
  have "d < e" if "fmlookup depths (hash_of E c) = Some e" for e using keep [OF that] by simp
  then have "branch_up (fmupd (hash_of E c) c nodes) (blk_ParentHash c) = branch_up nodes (blk_ParentHash c)"
    by (intro branch_up_update [OF t f(1) f(2) [unfolded g] f(3) [unfolded g] assms(5)])
  moreover have "hash_of E c \<noteq> NO_PARENT_HASH" using collision_freeD(1) [OF f(1) c] .
  ultimately show "branch_up (fmupd (hash_of E c) c nodes) (hash_of E c) = map_option ((#) c) (branch_up nodes (blk_ParentHash c))"
    by (subst branch_up.simps) (cases "branch_up nodes (blk_ParentHash c)"; simp)
qed

lemma ledger_at_new_block:
  assumes "tree_blocks E (bs @ [c])" and "bs \<noteq> []" and "calculateDepths E bs = Some (depths, nodes)" and "block_signed E c = Some True"
    and "fmlookup depths (blk_ParentHash c) = Some d" and "buildLedgerAtHash E nodes (blk_ParentHash c) = Some parentLedger"
    and "fmlookup nodes (getGenesisHash nodes) = Some g" "decodeGenesisFromMeta (blk_MetaData g) = Some genesis"
  shows "buildLedgerAtHash E (fmupd (hash_of E c) c nodes) (hash_of E c) = apply_block E parentLedger c"
proof -
  note tb = tree_blocks_prefix [OF assms(1,2)]
  note t = calculateDepths_ok [OF assms(3) tb]
  note f = tree_blocks_facts [OF tb]
  obtain up where up: "branch_up nodes (blk_ParentHash c) = Some up" "up \<noteq> []" "fmlookup nodes (hash_of E (hd bs)) = Some (last up)"
    using branch_up_ok [OF t f assms(5)] tree_depth [OF t assms(5)] by force
  then have g: "hd (rev up) = g" using getGenesisHash_ok [OF t f] assms(7) by (simp add: hd_rev)
  then obtain rest where rev: "rev up = g # rest" using up(2) by (cases "rev up") auto
  then have "apply_blocks E (InitializeFromGenesis MakeLedger genesis) rest = Some parentLedger"
    using assms(6,8) up(1) by (simp add: buildLedgerAtHash_def buildLedgerFromBlocks_def)
  then show ?thesis
    using assms(8) up(1) snoc_branch(2) [OF assms(1-5)] rev
    by (simp add: buildLedgerAtHash_def buildLedgerFromBlocks_def apply_blocks_snoc)
qed

section \<open>What signatures and hashes cover\<close>

lemma marshal_updates [simp]:
  "marshalForSignature (b\<lparr>blk_MetaData := m\<rparr>) = marshalForSignature b"
  "marshalForSignature (b\<lparr>blk_Signature := s\<rparr>) = marshalForSignature b"
  by (simp_all add: marshalForSignature_def Let_def)

lemma hash_MetaData: "hash_of E (b\<lparr>blk_MetaData := m\<rparr>) = hash_of E b"
  by (simp add: hash_of_def GetBlockHash_def MarshalBlock_def Let_def)

lemma signed_MetaData: "block_signed E (b\<lparr>blk_MetaData := m\<rparr>) = block_signed E b"
  by (simp add: block_signed_def split: option.split)

definition ascii_block :: "Block \<Rightarrow> bool" where
  "ascii_block b \<longleftrightarrow> ascii (blk_Type b) \<and> ascii (blk_VerificationKey b) \<and> ascii (blk_ParentHash b) \<and> ascii (blk_LotteryProof b)"

lemma ascii_nat_digits: "ascii (nat_digits n)"
  using nat_digits_all [of n] by (auto simp: ascii_def list_all_iff is_digit_def Let_def)

lemma ascii_Itoa_text: "ascii (Itoa i)"
  by (simp add: Itoa_def ascii_nat_digits)

lemma ascii_b64_char: "n < 64 \<Longrightarrow> (of_char (b64_char n) :: nat) < 128"
  by (auto simp: b64_char_def)

lemma ascii_b64_encode: "ascii (b64_encode s)"
  by (induction s rule: b64_encode.induct) (simp_all add: ascii_b64_char Let_def)

lemma MarshalBlock_inj:
  assumes "ascii_block b" and "ascii_block c" and "MarshalBlock b = MarshalBlock c"
  shows "blk_Type b = blk_Type c \<and> blk_VerificationKey b = blk_VerificationKey c \<and> blk_Slot b = blk_Slot c \<and>
    blk_Draw b = blk_Draw c \<and> blk_ParentHash b = blk_ParentHash c \<and> blk_LotteryProof b = blk_LotteryProof c"
proof -
  define fields where "fields d = [blk_Type d, blk_VerificationKey d, Itoa (blk_Slot d), Itoa (blk_Draw d), blk_ParentHash d] @
    (if blk_LotteryProof d \<noteq> [] then [blk_LotteryProof d] else [])" for d :: Block
  have m: "\<exists>x. MarshalBlock d = marshal_strings (fields d) @ x" for d
    by (auto simp: MarshalBlock_def marshalForSignature_def fields_def Let_def split: option.split)
  have a: "list_all ascii (fields d)" if "ascii_block d" for d
    using that by (simp add: fields_def ascii_block_def ascii_Itoa_text)
  obtain x y where "marshal_strings (fields b) @ x = marshal_strings (fields c) @ y" using m assms(3) by metis
  then have "fields b = fields c" using marshal_strings_delim a assms(1,2) by blast
  then show ?thesis by (simp add: fields_def split: if_splits)
qed

text \<open>Parent links are safe as long as SHA-256 has no collision among the blocks of the tree.\<close>

lemma collision_free_sha:
  assumes "\<forall>b \<in> B. ascii_block b" and "inj_on (sha256 E) (MarshalBlock ` B)" and "\<And>m. length (sha256 E m) = 32"
  shows "collision_free E B"
proof -
  have "blk_ParentHash b = blk_ParentHash c" if "b \<in> B" "c \<in> B" "hash_of E b = hash_of E c" for b c
  proof -
    have "sha256 E (MarshalBlock b) = sha256 E (MarshalBlock c)" using that(3) by (simp add: hash_of_def GetBlockHash_def)
    then have "MarshalBlock b = MarshalBlock c" using inj_onD [OF assms(2)] that(1,2) by blast
    then show ?thesis using MarshalBlock_inj assms(1) that by blast
  qed
  moreover have "hash_of E b \<noteq> NO_PARENT_HASH" for b
    using assms(3) [of "MarshalBlock b"] by (auto simp: hash_of_def GetBlockHash_def NO_PARENT_HASH_def)
  ultimately show ?thesis unfolding collision_free_def by blast
qed

section \<open>Ledgers of branches are well formed\<close>

lemma genesis_ledger_wf: "ledger_wf (InitializeFromGenesis MakeLedger g)"
  unfolding ledger_wf_def
  by (auto simp: InitializeFromGenesis_def initialize_accounts_Validators MakeLedger_def fmpred_iff split: if_splits)

lemma apply_all_wf: "apply_all E l txs = Some l' \<Longrightarrow> ledger_wf l \<Longrightarrow> ledger_wf l'"
  by (induction E l txs rule: apply_all.induct) (auto dest: Transaction_wf split: option.splits)

lemma apply_all_run: "apply_all E l txs = run_ops (apply_step E) l txs"
  by (induction E l txs rule: apply_all.induct) (auto simp: apply_step_def split: option.split)

lemma apply_block_wf: "apply_block E l b = Some l' \<Longrightarrow> ledger_wf l \<Longrightarrow> ledger_wf l'"
  by (auto simp: apply_block_def Let_def ledger_wf_MarkValidator dest: apply_all_wf split: option.splits)

interpretation block_run: step_invariant "apply_block E" "\<lambda>_. True" ledger_wf for E
  by unfold_locales (auto dest: apply_block_wf)

lemma apply_blocks_run: "apply_blocks E l bs = run_ops (apply_block E) l bs"
  by (induction E l bs rule: apply_blocks.induct) (simp_all split: option.split)

lemma buildLedger_wf: "buildLedgerFromBlocks E bs = Some l \<Longrightarrow> ledger_wf l"
  by (auto simp: buildLedgerFromBlocks_def apply_blocks_run ledger_wf_MakeLedger list_all_iff
    intro: block_run.run_inv genesis_ledger_wf split: list.splits option.splits)

section \<open>Blocks of honest winners\<close>

lemma NewCandidateBlock_fields:
  "blk_VerificationKey (NewCandidateBlock E w slot p txs seed) = SafeEncode w"
  "blk_Slot (NewCandidateBlock E w slot p txs seed) = slot"
  "blk_ParentHash (NewCandidateBlock E w slot p txs seed) = p"
  "blk_MetaData (NewCandidateBlock E w slot p txs seed) = EncodeBlockTransactions txs"
  "blk_LotteryProof (NewCandidateBlock E w slot p txs seed) = SignLotteryProof E seed slot (Some w)"
  by (simp_all add: NewCandidateBlock_def NewBlock_def Let_def)

lemma Sign_verifies:
  assumes "rsa_key w" and "length (big_Bytes (key_n w)) = WALLET_KEY_SIZE" and "\<And>m. length (sha256 E m) = 32"
    and "blk_VerificationKey b = SafeEncode w"
  shows "block_signed E (b\<lparr>blk_Signature := Sign E b w\<rparr>) = Some True"
  using wallet_sign_verify [of w "sha256 E", OF assms(1,2,3)] assms(4)
  by (simp add: block_signed_def Sign_def SafeEncode_def)

lemma candidate_signed:
  assumes "rsa_key w" and "length (big_Bytes (key_n w)) = WALLET_KEY_SIZE" and "\<And>m. length (sha256 E m) = 32"
  shows "block_signed E (NewCandidateBlock E w slot p txs seed) = Some True"
  unfolding NewCandidateBlock_def Let_def
  by (rule Sign_verifies [OF assms]) (simp add: NewBlock_def Let_def)

lemma proof_verifies:
  assumes "rsa_key w" and "length (big_Bytes (key_n w)) = WALLET_KEY_SIZE" and "\<And>m. length (sha256 E m) = 32"
  shows "VerifyLotteryProof E seed slot (SafeEncode w) (SignLotteryProof E seed slot (Some w)) = Some True"
  using wallet_sign_verify [of w "sha256 E", OF assms(1,2,3)]
  by (simp add: VerifyLotteryProof_def SignLotteryProof_def SafeEncode_def)

lemma candidate_draw:
  assumes "rsa_key w" and "length (big_Bytes (key_n w)) = WALLET_KEY_SIZE" and "\<And>m. length (sha256 E m) = 32"
    and "Seed genesis = seed"
  shows "lottery_draw_ok E genesis (NewCandidateBlock E w slot p txs seed) = Some True"
proof -
  let ?proof = "SignLotteryProof E seed slot (Some w)"
  have draw: "blk_Draw (NewCandidateBlock E w slot p txs seed) =
      (case ComputeLotteryDrawFromProof E ?proof of Some d \<Rightarrow> d | None \<Rightarrow> ComputeLotteryDraw E seed slot (SafeEncode w))"
    by (simp add: NewCandidateBlock_def NewBlock_def Let_def)
  have "ComputeLotteryDrawFromProof E ?proof \<noteq> None \<longleftrightarrow> ?proof \<noteq> []"
    by (simp add: ComputeLotteryDrawFromProof_def SignLotteryProof_def)
  then show ?thesis
    using proof_verifies [OF assms(1-3)] assms(4)
    by (auto simp: lottery_draw_ok_def NewCandidateBlock_fields draw split: option.splits)
qed

text \<open>
  The exact acceptance condition for the block of an honest winner: its parent is known, the
  tickets win against the hardness in force, and its transactions apply on the parent's ledger.
\<close>

lemma candidate_accepted:
  assumes "rsa_key w" and "length (big_Bytes (key_n w)) = WALLET_KEY_SIZE" and "\<And>m. length (sha256 E m) = 32"
    and "calculateDepths E (Blocks b) = Some (depths, nodes)" "mhas depths p"
    and "fmlookup nodes (getGenesisHash nodes) = Some g" "decodeGenesisFromMeta (blk_MetaData g) = Some genesis"
    and "buildLedgerAtHash E nodes p = Some parentLedger"
    and "LotteryTickets parentLedger (SafeEncode w) = Some tickets" "0 < tickets"
    and "list_all plain_tx txs" "length txs \<le> BLOCK_SIZE" "all_apply E parentLedger txs = Some True"
    and block: "block = NewCandidateBlock E w slot p txs (Seed genesis)"
    and "effectiveHardnessForBlock nodes (Some genesis) block = Some hardness"
    and "WinsLottery tickets (newcomer_hardness parentLedger genesis block hardness) (blk_Draw block)"
  shows "AddBlock E b block = Some (b\<lparr>Blocks := Blocks b @ [block]\<rparr>, True)"
proof -
  have "transactions_ok E parentLedger block = Some True"
    using assms(11-13) block_transactions_roundtrip by (simp add: transactions_ok_def block NewCandidateBlock_fields)
  then have "block_valid E depths nodes block = Some True"
    using assms candidate_signed [OF assms(1-3)] candidate_draw [OF assms(1-3) refl, of genesis]
    by (simp add: block_valid_def NewCandidateBlock_fields)
  then show ?thesis by (simp add: AddBlock_def assms(4))
qed

section \<open>Short keys\<close>

lemma AddBlock_short_key:
  assumes "calculateDepths E (Blocks b) = Some (depths, nodes)" and "mhas depths (blk_ParentHash block)"
    and "b64_decode (blk_Signature block) = Some s" and "b64_decode (blk_VerificationKey block) = Some k" and "length k < WALLET_KEY_SIZE"
  shows "AddBlock E b block = None"
  using assms by (simp add: AddBlock_def block_valid_def block_signed_def VerifySignature_def)

text \<open>The ledger of a fresh chain, whatever the rollback.\<close>

lemma fresh_replay:
  assumes "plain_genesis g" and "\<forall>m. length (sha256 E m) = 32" and "0 \<le> rollback"
  shows "LedgerFromBlockchain E (NewBlockchainWithGenesis g) rollback =
    Some (InitializeFromGenesis MakeLedger (applyDefaultDynamicHardnessConfig g))"
proof -
  obtain gb where blocks: "Blocks (NewBlockchainWithGenesis g) = [gb]" and root: "blk_ParentHash gb = NO_PARENT_HASH"
    and meta: "blk_MetaData gb = b64_encode (snd (marshalGenesisMetaData g))"
    by (simp add: NewBlockchainWithGenesis_def Let_def)
  have dec: "decodeGenesisFromMeta (blk_MetaData gb) = Some (applyDefaultDynamicHardnessConfig g)"
    using assms(1) by (simp add: meta genesis_roundtrip)
  have "hash_of E gb \<noteq> NO_PARENT_HASH"
    using assms(2) by (auto simp: hash_of_def GetBlockHash_def NO_PARENT_HASH_def dest: spec [of _ "MarshalBlock gb"])
  then have branch: "branch_up (fmupd (hash_of E gb) gb fmempty) (hash_of E gb) = Some [gb]"
    by (subst branch_up.simps, subst branch_up.simps) (simp add: root)
  have leaf: "getLeafHash (fmupd (hash_of E gb) 0 fmempty) = hash_of E gb"
    by (simp add: getLeafHash_def mkeys_def sorted_list_of_fset.rep_eq)
  have "drop_last rollback [gb] = [gb]" using assms(3) by (cases "rollback = 0") (simp_all add: drop_last_def)
  then show ?thesis unfolding LedgerFromBlockchain_def blocks
    by (simp add: calculateDepths_def leaf getBlocksFromLongestBranch_def branch buildLedgerFromBlocks_def dec)
qed

end
