(* ===== verification/Supply.thy ===== *)
theory Supply
  imports LedgerFacts
begin

text \<open>
  Balances and supply of the ledger. Both ledger stores meet the \<open>balance_store\<close> contract.
  For every asset the supply is the sum of its balances and of the pools' reserves; each
  applied transaction changes it by exactly what \<open>issued\<close> says, as long as no supply
  outgrows the machine integer, and leaves no balance or reserve negative.
\<close>

section \<open>Balances\<close>

interpretation pkn: balance_store GetBalance "(=)" "\<lambda>l k v. in_i64 (GetBalance l k - v)"
  "\<lambda>l k v. in_i64 (GetBalance l k + v)" credit debit
  by unfold_locales (simp_all add: GetBalance_def credit_def debit_def i64_id)

text \<open>The balances of one asset, named by its normal form.\<close>

definition holdings :: "Ledger \<Rightarrow> string \<Rightarrow> (string, int) gomap" where
  "holdings l a = (if a = AssetPKN then Accounts l else mget fmempty (AssetBalances l) a)"

lemma GetAssetBalance_holdings:
  "GetAssetBalance l a k = mget 0 (holdings l (normalizeAsset a)) (normalizeAssetAccount k)"
  by (simp add: GetAssetBalance_def assetBalanceLocked_def holdings_def Let_def)

lemma holdings_credit:
  "holdings (credit l k v) b = (if b = AssetPKN then fmupd k (i64 (mget 0 (Accounts l) k + v)) (Accounts l) else holdings l b)"
  by (simp add: holdings_def credit_def)

lemma holdings_debit:
  "holdings (debit l k v) b = (if b = AssetPKN then fmupd k (i64 (mget 0 (Accounts l) k - v)) (Accounts l) else holdings l b)"
  by (simp add: holdings_def debit_def)

lemma holdings_creditAsset:
  assumes "0 < v" and "normalizeAssetAccount k \<noteq> []" and "normalizeAsset a = a"
  shows "holdings (creditAssetLocked l a k v) b = (if b = a then fmupd (normalizeAssetAccount k)
    (i64 (mget 0 (holdings l a) (normalizeAssetAccount k) + v)) (holdings l a) else holdings l b)"
  using assms by (simp add: creditAssetLocked_def Let_def holdings_def credit_def setAsset_def)

lemma holdings_debitAsset:
  assumes "canDebitAssetLocked l a k v" and "normalizeAsset a = a"
  shows "holdings (fst (debitAssetLocked l a k v)) b = (if b = a then fmupd (normalizeAssetAccount k)
    (i64 (mget 0 (holdings l a) (normalizeAssetAccount k) - v)) (holdings l a) else holdings l b)"
  using assms
  by (auto simp: canDebitAssetLocked_def debitAssetLocked_def Let_def holdings_def debit_def setAsset_def split: if_splits)

lemma canDebit_holdings:
  assumes "canDebitAssetLocked l a k v" and "normalizeAsset a = a"
  shows "0 < v" "normalizeAssetAccount k \<noteq> []" "v \<le> mget 0 (holdings l a) (normalizeAssetAccount k)"
  using assms by (auto simp: canDebitAssetLocked_def Let_def holdings_def split: if_splits)

lemma canDebit_normalizeAsset [simp]: "canDebitAssetLocked l (normalizeAsset a) k v = canDebitAssetLocked l a k v"
  by (simp add: canDebitAssetLocked_def)

lemma debitAsset_normalizeAsset [simp]: "debitAssetLocked l (normalizeAsset a) k v = debitAssetLocked l a k v"
  by (simp add: debitAssetLocked_def)

lemma creditAsset_normalizeAsset [simp]: "creditAssetLocked l (normalizeAsset a) k v = creditAssetLocked l a k v"
  by (simp add: creditAssetLocked_def)

definition same_holder :: "string \<times> string \<Rightarrow> string \<times> string \<Rightarrow> bool" where
  "same_holder x y \<longleftrightarrow> normalizeAsset (fst x) = normalizeAsset (fst y) \<and>
     normalizeAssetAccount (snd x) = normalizeAssetAccount (snd y)"

interpretation asset: balance_store "\<lambda>l x. GetAssetBalance l (fst x) (snd x)" same_holder
  "\<lambda>l x v. canDebitAssetLocked l (fst x) (snd x) v \<and> in_i64 (GetAssetBalance l (fst x) (snd x))"
  "\<lambda>l x v. 0 < v \<and> normalizeAssetAccount (snd x) \<noteq> [] \<and> in_i64 (GetAssetBalance l (fst x) (snd x) + v)"
  "\<lambda>l x v. creditAssetLocked l (fst x) (snd x) v" "\<lambda>l x v. fst (debitAssetLocked l (fst x) (snd x) v)"
proof unfold_locales
  fix s :: Ledger and x y :: "string \<times> string" and v :: int
  assume a: "0 < v \<and> normalizeAssetAccount (snd x) \<noteq> [] \<and> in_i64 (GetAssetBalance s (fst x) (snd x) + v)"
  then show "GetAssetBalance (creditAssetLocked s (fst x) (snd x) v) (fst y) (snd y) =
      (if same_holder x y then GetAssetBalance s (fst y) (snd y) + v else GetAssetBalance s (fst y) (snd y))"
    using holdings_creditAsset [of v "snd x" "normalizeAsset (fst x)" s]
    by (auto simp: GetAssetBalance_holdings same_holder_def i64_id)
next
  fix s :: Ledger and x y :: "string \<times> string" and v :: int
  assume a: "canDebitAssetLocked s (fst x) (snd x) v \<and> in_i64 (GetAssetBalance s (fst x) (snd x))"
  let ?a = "normalizeAsset (fst x)"
  have c: "canDebitAssetLocked s ?a (snd x) v" using a by simp
  then have "0 < v" "v \<le> GetAssetBalance s (fst x) (snd x)"
    using canDebit_holdings [OF c] by (simp_all add: GetAssetBalance_holdings)
  then have "in_i64 (GetAssetBalance s (fst x) (snd x) - v)" using a by (auto simp: in_i64_def)
  then show "GetAssetBalance (fst (debitAssetLocked s (fst x) (snd x) v)) (fst y) (snd y) =
      (if same_holder x y then GetAssetBalance s (fst y) (snd y) - v else GetAssetBalance s (fst y) (snd y))"
    using holdings_debitAsset [OF c]
    by (auto simp: GetAssetBalance_holdings same_holder_def i64_id)
qed (auto simp: same_holder_def GetAssetBalance_holdings)

section \<open>Supply\<close>

definition reserve_of :: "AMMPool \<Rightarrow> string \<Rightarrow> int" where
  "reserve_of p a = (if pool_AssetA p = a then pool_ReserveA p else 0) + (if pool_AssetB p = a then pool_ReserveB p else 0)"

definition pooled :: "Ledger \<Rightarrow> string \<Rightarrow> (string, int) gomap" where
  "pooled l a = fmmap (\<lambda>p. reserve_of p a) (AMMPools l)"

definition supply_of :: "Ledger \<Rightarrow> string \<Rightarrow> int" where
  "supply_of l a = msum (holdings l a) + msum (pooled l a)"

definition solvent :: "Ledger \<Rightarrow> bool" where
  "solvent l \<longleftrightarrow> (\<forall>a. nonneg_map (holdings l a)) \<and> (\<forall>a. nonneg_map (pooled l a))"

definition bounded :: "Ledger \<Rightarrow> bool" where
  "bounded l \<longleftrightarrow> (\<forall>a. supply_of l a < 2 ^ 63)"

lemma msum_nonneg: "nonneg_map m \<Longrightarrow> 0 \<le> msum m"
  by (auto simp: msum_def intro: sum_nonneg dest: nonneg_mapD)

lemma msum_ge2:
  assumes "nonneg_map m" and "k \<noteq> j"
  shows "mget 0 m k + mget 0 m j \<le> msum m"
  using msum_ge [of "fmupd k 0 m" j] assms by (simp add: nonneg_map_fmupd)

text \<open>Moving an amount that is covered, with the machine's additions.\<close>

lemma move_exact:
  assumes "nonneg_map m" and "msum m < 2 ^ 63" and "0 \<le> v" and "v \<le> mget 0 m k"
  defines "m1 \<equiv> fmupd k (i64 (mget 0 m k - v)) m"
  shows "msum (fmupd j (i64 (mget 0 m1 j + v)) m1) = msum m" and "nonneg_map (fmupd j (i64 (mget 0 m1 j + v)) m1)"
proof -
  have k: "mget 0 m k < 2 ^ 63" "0 \<le> mget 0 m j" using msum_ge [OF assms(1), of k] assms by (auto dest: nonneg_mapD)
  then have d: "i64 (mget 0 m k - v) = mget 0 m k - v" using assms by (intro i64_small) auto
  have "mget 0 m1 j + v < 2 ^ 63" "0 \<le> mget 0 m1 j"
    using msum_ge2 [OF assms(1), of k j] k assms by (auto simp: m1_def d)
  then have c: "i64 (mget 0 m1 j + v) = mget 0 m1 j + v" using assms by (intro i64_small) auto
  have "nonneg_map m1" unfolding m1_def d using assms by (intro nonneg_map_fmupd) auto
  then show "nonneg_map (fmupd j (i64 (mget 0 m1 j + v)) m1)"
    unfolding c using \<open>0 \<le> mget 0 m1 j\<close> assms by (intro nonneg_map_fmupd) auto
  show "msum (fmupd j (i64 (mget 0 m1 j + v)) m1) = msum m" unfolding c by (simp add: m1_def d)
qed

lemma solvent_supply:
  assumes "solvent l"
  shows "mget 0 (holdings l a) k + mget 0 (pooled l a) j \<le> supply_of l a" "msum (holdings l a) \<le> supply_of l a"
    "0 \<le> mget 0 (holdings l a) k" "0 \<le> mget 0 (pooled l a) j"
  using assms msum_ge [of "holdings l a" k] msum_ge [of "pooled l a" j] msum_nonneg [of "pooled l a"]
  by (auto simp: solvent_def supply_of_def nonneg_map_def)

lemma solvent_holding:
  assumes "solvent l"
  shows "0 \<le> mget 0 (holdings l a) k \<and> mget 0 (holdings l a) k \<le> supply_of l a"
  using solvent_supply(1) [OF assms, of a k "[]"] solvent_supply(3) [OF assms, of a k]
    solvent_supply(4) [OF assms, of a "[]"] by linarith

lemma bounded_holding:
  assumes "solvent l" and "bounded l"
  shows "mget 0 (holdings l a) k < 2 ^ 63"
  using solvent_holding [OF assms(1), of a k] assms(2) by (auto simp: bounded_def intro: le_less_trans)

lemma fmmap_upd [simp]: "fmmap f (fmupd k v m) = fmupd k (f v) (fmmap f m)"
  by (rule fmap_ext) simp

lemma pooled_fmupd: "pooled (l\<lparr>AMMPools := fmupd k p m\<rparr>) a = fmupd k (reserve_of p a) (fmmap (\<lambda>p. reserve_of p a) m)"
  by (simp add: pooled_def)

lemma mget_pooled: "fmlookup (AMMPools l) k = Some p \<Longrightarrow> mget 0 (pooled l a) k = reserve_of p a"
  by (simp add: pooled_def mget_def)

lemma solvent_frame:
  assumes "\<And>a. holdings l' a = holdings l a" and "AMMPools l' = AMMPools l"
  shows "solvent l' = solvent l" and "supply_of l' a = supply_of l a"
  using assms by (simp_all add: solvent_def supply_of_def pooled_def)

lemma PKN_move_supply:
  assumes "solvent l" and "bounded l" and "0 \<le> v" and "v \<le> mget 0 (Accounts l) k"
    and "Accounts l' = Accounts (credit (debit l k v) j v)" "AssetBalances l' = AssetBalances l" "AMMPools l' = AMMPools l"
  shows "solvent l'" and "supply_of l' a = supply_of l a"
proof -
  have pkn: "holdings l AssetPKN = Accounts l" by (simp add: holdings_def)
  have n: "nonneg_map (Accounts l)" using assms(1) pkn by (metis solvent_def)
  have b: "msum (Accounts l) < 2 ^ 63"
    using solvent_supply(2) [OF assms(1), of AssetPKN] assms(2) pkn by (metis bounded_def order.strict_trans1)
  note m = move_exact [OF n b assms(3,4), of j]
  have h: "holdings l' b = (if b = AssetPKN then Accounts (credit (debit l k v) j v) else holdings l b)" for b
    using assms(5,6) by (simp add: holdings_def)
  have p: "pooled l' b = pooled l b" for b using assms(7) by (simp add: pooled_def)
  show "solvent l'" using m(2) assms(1) by (simp add: solvent_def h p credit_def debit_def)
  show "supply_of l' a = supply_of l a"
    using m(1) by (simp add: supply_of_def h p credit_def debit_def pkn)
qed

lemma PKN_burn_supply:
  assumes "solvent l" and "bounded l" and "0 \<le> v" and "v \<le> mget 0 (Accounts l) k"
    and "Accounts l' = Accounts (debit l k v)" "AssetBalances l' = AssetBalances l" "AMMPools l' = AMMPools l"
  shows "solvent l'" and "supply_of l' a = supply_of l a - (if a = AssetPKN then v else 0)"
proof -
  have pkn: "holdings l AssetPKN = Accounts l" by (simp add: holdings_def)
  have h: "holdings l' b = (if b = AssetPKN then fmupd k (i64 (mget 0 (Accounts l) k - v)) (Accounts l) else holdings l b)" for b
    using assms(5,6) by (simp add: holdings_def debit_def)
  have p: "pooled l' b = pooled l b" for b using assms(7) by (simp add: pooled_def)
  have "mget 0 (Accounts l) k < 2 ^ 63"
    using bounded_holding [OF assms(1,2), of AssetPKN k] by (simp add: pkn)
  then have "i64 (mget 0 (Accounts l) k - v) = mget 0 (Accounts l) k - v"
    using assms(3,4) by (intro i64_small) auto
  then show "solvent l'" "supply_of l' a = supply_of l a - (if a = AssetPKN then v else 0)"
    using assms(1,4) by (auto simp: solvent_def h p supply_of_def pkn intro!: nonneg_map_fmupd) (metis pkn)
qed

lemma asset_credit_supply:
  assumes "solvent l" and "0 < v" and "normalizeAssetAccount k \<noteq> []" and "normalizeAsset b = b" and "supply_of l b + v < 2 ^ 63"
  defines "l' \<equiv> creditAssetLocked l b k v"
  shows "solvent l'" and "supply_of l' a = supply_of l a + (if a = b then v else 0)"
proof -
  let ?x = "mget 0 (holdings l b) (normalizeAssetAccount k)"
  note h = holdings_creditAsset [OF assms(2-4), of l, folded l'_def]
  have x: "0 \<le> ?x" "?x \<le> supply_of l b"
    using solvent_holding [OF assms(1), of b "normalizeAssetAccount k"] by auto
  then have e: "i64 (?x + v) = ?x + v" using assms(2,5) by (intro i64_small) auto
  have p: "pooled l' c = pooled l c" for c by (simp add: l'_def pooled_def)
  show "solvent l'" using assms(1,2) x by (auto simp: solvent_def p h e intro!: nonneg_map_fmupd)
  show "supply_of l' a = supply_of l a + (if a = b then v else 0)" by (simp add: supply_of_def p h e)
qed

lemma asset_debit_supply:
  assumes "solvent l" and "bounded l" and "canDebitAssetLocked l b k v" and "normalizeAsset b = b"
  defines "l' \<equiv> fst (debitAssetLocked l b k v)"
  shows "solvent l'" and "supply_of l' a = supply_of l a - (if a = b then v else 0)"
    and "mget 0 (holdings l' a) j \<le> mget 0 (holdings l a) j"
proof -
  let ?x = "mget 0 (holdings l b) (normalizeAssetAccount k)"
  note h = holdings_debitAsset [OF assms(3,4), folded l'_def]
  note c = canDebit_holdings [OF assms(3,4)]
  have "?x < 2 ^ 63" using bounded_holding [OF assms(1,2)] .
  then have e: "i64 (?x - v) = ?x - v" using c by (intro i64_small) auto
  have p: "pooled l' d = pooled l d" for d by (simp add: l'_def pooled_def)
  show "solvent l'" using assms(1) c by (auto simp: solvent_def p h e intro!: nonneg_map_fmupd)
  show "supply_of l' a = supply_of l a - (if a = b then v else 0)" by (simp add: supply_of_def p h e)
  show "mget 0 (holdings l' a) j \<le> mget 0 (holdings l a) j" using c by (simp add: h e)
qed

lemma asset_debit_bounded:
  assumes "solvent l" and "bounded l" and "canDebitAssetLocked l b k v" and "normalizeAsset b = b"
  shows "bounded (fst (debitAssetLocked l b k v))"
  unfolding bounded_def
proof
  fix a
  have "supply_of l a < 2 ^ 63" using assms(2) by (simp add: bounded_def)
  then show "supply_of (fst (debitAssetLocked l b k v)) a < 2 ^ 63"
    using asset_debit_supply(2) [OF assms, of a] canDebit_holdings(1) [OF assms(3,4)] by auto
qed

lemma canDebit_other:
  assumes "canDebitAssetLocked l a k v" and "normalizeAsset a = a" and "normalizeAsset b = b" and "a \<noteq> b"
  shows "canDebitAssetLocked (fst (debitAssetLocked l b j w)) a k v"
proof -
  have "mget 0 (holdings (fst (debitAssetLocked l b j w)) a) i = mget 0 (holdings l a) i" for i
    using assms(3,4) by (auto simp: debitAssetLocked_def Let_def holdings_def debit_def setAsset_def)
  moreover have "mhas (AssetBalances (fst (debitAssetLocked l b j w))) a = mhas (AssetBalances l) a"
    using assms(3,4) by (auto simp: debitAssetLocked_def Let_def debit_def setAsset_def)
  ultimately show ?thesis
    using assms(1,2) by (auto simp: canDebitAssetLocked_def Let_def holdings_def split: if_splits)
qed

text \<open>Replacing a pool by one with other reserves.\<close>

lemma pool_write_supply:
  assumes "solvent l" and "fmlookup (AMMPools l) k = Some p" and "\<And>a. 0 \<le> reserve_of p' a"
  defines "l' \<equiv> l\<lparr>AMMPools := fmupd k p' (AMMPools l)\<rparr>"
  shows "solvent l'" and "supply_of l' a = supply_of l a - reserve_of p a + reserve_of p' a"
proof -
  have h: "holdings l' b = holdings l b" for b by (simp add: l'_def holdings_def)
  have p: "pooled l' b = fmupd k (reserve_of p' b) (pooled l b)" for b by (simp add: l'_def pooled_def)
  show "solvent l'" using assms(1,3) by (auto simp: solvent_def h p intro!: nonneg_map_fmupd)
  show "supply_of l' a = supply_of l a - reserve_of p a + reserve_of p' a"
    by (simp add: supply_of_def h p mget_pooled [OF assms(2)])
qed

definition counter_asset :: "AMMPool \<Rightarrow> string \<Rightarrow> string" where
  "counter_asset p a = (if a = pool_AssetA p then pool_AssetB p else pool_AssetA p)"

lemma pool_wf_distinct: "pool_wf k p \<Longrightarrow> pool_AssetA p \<noteq> pool_AssetB p"
  by (auto simp: pool_wf_def PoolID_Nil_iff)

lemma solvent_pool:
  assumes "solvent l" and "fmlookup (AMMPools l) k = Some p"
  shows "0 \<le> reserve_of p a" "mget 0 (holdings l a) j + reserve_of p a \<le> supply_of l a" "reserve_of p a \<le> supply_of l a"
  using solvent_supply(1) [OF assms(1), of a j k] solvent_supply(3) [OF assms(1), of a j]
    solvent_supply(4) [OF assms(1), of a k] mget_pooled [OF assms(2), of a] by auto

lemma deposit_exact:
  assumes "solvent l" and "bounded l" and "fmlookup (AMMPools l) j = Some p"
    and "canDebitAssetLocked l a k v" and "normalizeAsset a = a"
  shows "reserve_of p a + v < 2 ^ 63" and "i64 (reserve_of p a + v) = reserve_of p a + v"
proof -
  note c = canDebit_holdings [OF assms(4,5)]
  have "supply_of l a < 2 ^ 63" using assms(2) by (simp add: bounded_def)
  then show "reserve_of p a + v < 2 ^ 63"
    using solvent_pool(2) [OF assms(1,3), of a "normalizeAssetAccount k"] c(3) by linarith
  then show "i64 (reserve_of p a + v) = reserve_of p a + v"
    using solvent_pool(1) [OF assms(1,3), of a] c(1) by (intro i64_small) linarith+
qed

lemma applySwap_reserves:
  assumes "applySwap pool a amountIn out = (pool', True)" and "pool_wf k pool" and "normalizeAsset a = a"
    and "reserve_of pool a + amountIn < 2 ^ 63" "0 \<le> amountIn" "0 \<le> out"
    and "\<And>b. 0 \<le> reserve_of pool b" "\<And>b. reserve_of pool b < 2 ^ 63"
  shows "reserve_of pool' b = reserve_of pool b + (if b = a then amountIn else 0) - (if b = counter_asset pool a then out else 0)"
    and "0 \<le> reserve_of pool' b" and "out < reserve_of pool (counter_asset pool a)"
    and "a = pool_AssetA pool \<or> a = pool_AssetB pool"
proof -
  note ne = pool_wf_distinct [OF assms(2)]
  have r: "0 \<le> pool_ReserveA pool" "0 \<le> pool_ReserveB pool" "pool_ReserveA pool < 2 ^ 63" "pool_ReserveB pool < 2 ^ 63"
    using assms(7,8) [of "pool_AssetA pool"] assms(7,8) [of "pool_AssetB pool"] ne by (auto simp: reserve_of_def)
  consider "a = pool_AssetA pool" "out < pool_ReserveB pool" "pool' = pool\<lparr>pool_ReserveA := i64 (pool_ReserveA pool + amountIn),
      pool_ReserveB := i64 (pool_ReserveB pool - out)\<rparr>"
    | "a = pool_AssetB pool" "out < pool_ReserveA pool" "pool' = pool\<lparr>pool_ReserveB := i64 (pool_ReserveB pool + amountIn),
      pool_ReserveA := i64 (pool_ReserveA pool - out)\<rparr>"
    using assms(1,3) by (auto simp: applySwap_def Let_def not_le split: if_splits)
  then have "reserve_of pool' b = reserve_of pool b + (if b = a then amountIn else 0) - (if b = counter_asset pool a then out else 0)
    \<and> 0 \<le> reserve_of pool' b \<and> out < reserve_of pool (counter_asset pool a) \<and> (a = pool_AssetA pool \<or> a = pool_AssetB pool)"
  proof cases
    case 1
    have "i64 (pool_ReserveA pool + amountIn) = pool_ReserveA pool + amountIn"
      using assms(4,5) 1(1) ne r by (intro i64_small) (auto simp: reserve_of_def)
    moreover have "i64 (pool_ReserveB pool - out) = pool_ReserveB pool - out" using assms(6) 1(2) r by (intro i64_small) auto
    ultimately show ?thesis using 1 ne r assms(5) by (auto simp: reserve_of_def counter_asset_def)
  next
    case 2
    have "i64 (pool_ReserveB pool + amountIn) = pool_ReserveB pool + amountIn"
      using assms(4,5) 2(1) ne r by (intro i64_small) (auto simp: reserve_of_def)
    moreover have "i64 (pool_ReserveA pool - out) = pool_ReserveA pool - out" using assms(6) 2(2) r by (intro i64_small) auto
    ultimately show ?thesis using 2 ne r assms(5) by (auto simp: reserve_of_def counter_asset_def)
  qed
  then show "reserve_of pool' b = reserve_of pool b + (if b = a then amountIn else 0) - (if b = counter_asset pool a then out else 0)"
    and "0 \<le> reserve_of pool' b" and "out < reserve_of pool (counter_asset pool a)"
    and "a = pool_AssetA pool \<or> a = pool_AssetB pool" by auto
qed

text \<open>
  What an applied transaction, as recorded, adds to the supply of an asset. A swap pays
  \<open>AssetOut\<close> out of the reserve of the pool's other asset: nothing is issued when the two
  are the same asset. The value sent with a contract creation leaves the accounts.
\<close>

definition amm_issued :: "Ledger \<Rightarrow> AMMPayload \<Rightarrow> string \<Rightarrow> int" where
  "amm_issued l p a =
     (if amm_Action p = ''asset_credit'' then (if a = amm_Asset p then amm_Amount p else 0)
      else if amm_Action p = ''asset_debit'' then (if a = amm_Asset p then - amm_Amount p else 0)
      else if amm_Action p = ''amm_swap'' then
        (case fmlookup (AMMPools l) (normalizePoolID (amm_PoolID p)) of
           None \<Rightarrow> 0
         | Some pool \<Rightarrow> (if a = amm_AssetOut p then amm_AmountOut p else 0) -
                         (if a = counter_asset pool (amm_AssetIn p) then amm_AmountOut p else 0))
      else 0)"

definition issued :: "env \<Rightarrow> Ledger \<Rightarrow> SignedTransaction \<Rightarrow> string \<Rightarrow> int" where
  "issued E l t a =
     (case tx_AMM t of
        Some p \<Rightarrow> amm_issued l p a
      | None \<Rightarrow>
          if IsNFT t \<or> a \<noteq> AssetPKN then 0
          else if IsMint t then tx_Amount t
          else if IsEVM t \<and> tx_Raw t \<noteq> [] \<and> (case decodeEVM E t of None \<Rightarrow> False | Some tx \<Rightarrow> eth_To tx = None)
          then - tx_Amount t else 0)"

definition normalized_payload :: "AMMPayload \<Rightarrow> bool" where
  "normalized_payload p \<longleftrightarrow> normalizeAsset (amm_Asset p) = amm_Asset p \<and>
     normalizeAsset (amm_AssetIn p) = amm_AssetIn p \<and> normalizeAsset (amm_AssetOut p) = amm_AssetOut p"

lemma normalizeAMM_payload: "tx_AMM (normalizeAMM t) = Some p \<Longrightarrow> normalized_payload p"
  by (auto simp: normalizeAMM_def normalized_payload_def Let_def normalizeFields_def fillPayload_def split: option.splits if_splits)

lemma normalizeAMM_To: "tx_AMM t \<noteq> None \<Longrightarrow> normalizeAssetAccount (tx_To (normalizeAMM t)) = tx_To (normalizeAMM t)"
  by (auto simp: normalizeAMM_def Let_def)

lemma normalizeAMM_AMM: "tx_AMM (normalizeAMM t) = None \<longleftrightarrow> tx_AMM t = None"
  by (auto simp: normalizeAMM_def Let_def split: option.split)

lemma ammAssetCredit_supply:
  assumes "ammAssetCredit l t p = (l', True)" and "solvent l" and "normalizeAsset (amm_Asset p) = amm_Asset p"
    and "supply_of l (amm_Asset p) + amm_Amount p < 2 ^ 63" and "normalizeAssetAccount (tx_To t) = tx_To t"
  shows "solvent l'" and "supply_of l' a = supply_of l a + (if a = amm_Asset p then amm_Amount p else 0)"
proof -
  have l': "l' = creditAssetLocked l (amm_Asset p) (tx_To t) (amm_Amount p)"
    and g: "0 < amm_Amount p" "normalizeAssetAccount (tx_To t) \<noteq> []"
    using assms(1,5) by (auto simp: ammAssetCredit_def split: if_splits)
  show "solvent l'" and "supply_of l' a = supply_of l a + (if a = amm_Asset p then amm_Amount p else 0)"
    unfolding l' using asset_credit_supply [OF assms(2) g assms(3,4)] by auto
qed

lemma ammAssetDebit_supply:
  assumes "ammAssetDebit l t p = (l', True)" and "solvent l" and "bounded l" and "normalizeAsset (amm_Asset p) = amm_Asset p"
  shows "solvent l'" and "supply_of l' a = supply_of l a - (if a = amm_Asset p then amm_Amount p else 0)"
proof -
  have l': "l' = fst (debitAssetLocked l (amm_Asset p) (tx_To t) (amm_Amount p))"
    and c: "canDebitAssetLocked l (amm_Asset p) (tx_To t) (amm_Amount p)"
    using assms(1) by (auto simp: ammAssetDebit_def debitAssetLocked_True split: if_splits)
  show "solvent l'" and "supply_of l' a = supply_of l a - (if a = amm_Asset p then amm_Amount p else 0)"
    unfolding l' using asset_debit_supply(1,2) [OF assms(2,3) c assms(4)] by auto
qed

lemma ammCreatePool_supply:
  assumes "ammCreatePool l t p = (l', True)" and "solvent l"
  shows "solvent l'" and "supply_of l' a = supply_of l a"
proof -
  from assms(1) obtain k pool where l': "l' = l\<lparr>AMMPools := fmupd k pool (AMMPools l)\<rparr>" "\<not> mhas (AMMPools l) k"
    and "pool_ReserveA pool = 0" "pool_ReserveB pool = 0"
    by (rule ammCreatePool_True) auto
  then have r: "reserve_of pool b = 0" for b by (simp add: reserve_of_def)
  have p: "pooled l' b = fmupd k 0 (pooled l b)" for b by (simp add: l' pooled_def r)
  have h: "holdings l' b = holdings l b" for b by (simp add: l' holdings_def)
  have z: "mget 0 (pooled l b) k = 0" for b using l'(2) by (simp add: pooled_def mget_def mhas_def)
  show "solvent l'" using assms(2) by (auto simp: solvent_def p h intro!: nonneg_map_fmupd)
  show "supply_of l' a = supply_of l a" by (simp add: supply_of_def p h z)
qed

lemma ammAddLiquidity_supply:
  assumes "ammAddLiquidity l t p = (l', True)" and "solvent l" and "bounded l" and "ledger_wf l"
  shows "solvent l'" and "supply_of l' a = supply_of l a"
proof -
  from assms(1) obtain pool l1 l2 where g: "1 \<le> amm_AmountA p" "1 \<le> amm_AmountB p"
    and look: "fmlookup (AMMPools l) (normalizePoolID (amm_PoolID p)) = Some pool"
    and cA: "canDebitAssetLocked l (pool_AssetA pool) (tx_From t) (amm_AmountA p)"
    and cB: "canDebitAssetLocked l (pool_AssetB pool) (tx_From t) (amm_AmountB p)"
    and l1: "l1 = fst (debitAssetLocked l (pool_AssetA pool) (tx_From t) (amm_AmountA p))"
    and l2: "l2 = fst (debitAssetLocked l1 (pool_AssetB pool) (tx_From t) (amm_AmountB p))"
    and l': "l' = l2\<lparr>AMMPools := fmupd (pool_ID pool) (pool\<lparr>pool_ReserveA := i64 (pool_ReserveA pool + amm_AmountA p),
       pool_ReserveB := i64 (pool_ReserveB pool + amm_AmountB p), pool_LastTx := tx_ID t\<rparr>) (AMMPools l2)\<rparr>"
    by (rule ammAddLiquidity_True)
  have wf: "pool_wf (normalizePoolID (amm_PoolID p)) pool" using ledger_wf_poolD [OF assms(4) look] by simp
  then have nA: "normalizeAsset (pool_AssetA pool) = pool_AssetA pool" and nB: "normalizeAsset (pool_AssetB pool) = pool_AssetB pool"
    and key: "pool_ID pool = normalizePoolID (amm_PoolID p)" by (simp_all add: pool_wf_def)
  note ne = pool_wf_distinct [OF wf]
  have cB1: "canDebitAssetLocked l1 (pool_AssetB pool) (tx_From t) (amm_AmountB p)"
    unfolding l1 using canDebit_other [OF cB nB nA] ne by simp
  note dA = asset_debit_supply [OF assms(2,3) cA nA, folded l1]
  note dB = asset_debit_supply [OF dA(1) asset_debit_bounded [OF assms(2,3) cA nA, folded l1] cB1 nB, folded l2]
  have look2: "fmlookup (AMMPools l2) (pool_ID pool) = Some pool" using look by (simp add: l1 l2 key)
  let ?p' = "pool\<lparr>pool_ReserveA := i64 (pool_ReserveA pool + amm_AmountA p),
       pool_ReserveB := i64 (pool_ReserveB pool + amm_AmountB p), pool_LastTx := tx_ID t\<rparr>"
  have r': "reserve_of ?p' b = reserve_of pool b + (if b = pool_AssetA pool then amm_AmountA p else 0) +
      (if b = pool_AssetB pool then amm_AmountB p else 0)" for b
    using deposit_exact(2) [OF assms(2,3) look cA nA] deposit_exact(2) [OF assms(2,3) look cB nB] ne
    by (auto simp: reserve_of_def)
  have "0 \<le> reserve_of ?p' b" for b using r' [of b] solvent_pool(1) [OF assms(2) look, of b] g by auto
  note w = pool_write_supply [OF dB(1) look2 this, folded l']
  show "solvent l'" using w(1) .
  show "supply_of l' a = supply_of l a" using w(2) [of a] r' [of a] dA(2) [of a] dB(2) [of a] by auto
qed

lemma holdings_credit_pools [simp]:
  "holdings (creditAssetLocked (l\<lparr>AMMPools := m\<rparr>) a k v) b = holdings (creditAssetLocked l a k v) b"
  by (simp add: creditAssetLocked_def Let_def holdings_def credit_def setAsset_def)

text \<open>
  The code credits the trader before it writes the pool back; the balances and reserves are
  those of the opposite order.
\<close>

lemma swap_write_order:
  assumes "reserve_of q = reserve_of q'"
  shows "solvent ((creditAssetLocked l a k v)\<lparr>AMMPools := fmupd i q (AMMPools l)\<rparr>) =
      solvent (creditAssetLocked (l\<lparr>AMMPools := fmupd i q' (AMMPools l)\<rparr>) a k v)" (is "?A = ?B")
    and "supply_of ((creditAssetLocked l a k v)\<lparr>AMMPools := fmupd i q (AMMPools l)\<rparr>) b =
      supply_of (creditAssetLocked (l\<lparr>AMMPools := fmupd i q' (AMMPools l)\<rparr>) a k v) b" (is "?C = ?D")
proof -
  have h: "holdings ((creditAssetLocked l a k v)\<lparr>AMMPools := m\<rparr>) c = holdings (creditAssetLocked l a k v) c" for c m
    by (simp add: holdings_def)
  show "?A = ?B" "?C = ?D" by (simp_all add: solvent_def supply_of_def h pooled_def assms)
qed

lemma ammSwap_supply:
  assumes "ammSwap l t p = (l', p', True)" and "solvent l" and "bounded l" and "ledger_wf l" and "normalized_payload p"
    and act: "amm_Action p = ''amm_swap''"
    and room: "supply_of l (amm_AssetOut p) + amm_issued l p' (amm_AssetOut p) < 2 ^ 63"
  shows "solvent l'" and "supply_of l' a = supply_of l a + amm_issued l p' a"
proof -
  let ?in = "amm_AssetIn p" and ?out = "amm_AssetOut p" and ?x = "amm_AmountIn p"
  from assms(1) obtain pool pool' l1 out where look: "fmlookup (AMMPools l) (normalizePoolID (amm_PoolID p)) = Some pool"
    and q: "QuoteSwap pool ?in ?x = (out, True)" and c: "canDebitAssetLocked l ?in (tx_From t) ?x"
    and sw: "applySwap pool ?in ?x out = (pool', True)"
    and l1: "l1 = creditAssetLocked (fst (debitAssetLocked l ?in (tx_From t) ?x)) ?out (tx_From t) out"
    and l': "l' = l1\<lparr>AMMPools := fmupd (pool_ID pool') (pool'\<lparr>pool_LastTx := tx_ID t\<rparr>) (AMMPools l1)\<rparr>"
    and p': "p' = p\<lparr>amm_AmountOut := out\<rparr>"
    by (rule ammSwap_True)
  have n: "normalizeAsset ?in = ?in" "normalizeAsset ?out = ?out" using assms(5) by (simp_all add: normalized_payload_def)
  have wf: "pool_wf (normalizePoolID (amm_PoolID p)) pool" using ledger_wf_poolD [OF assms(4) look] by simp
  have iss: "amm_issued l p' b = (if b = ?out then out else 0) - (if b = counter_asset pool ?in then out else 0)" for b
    by (simp add: amm_issued_def p' act look)
  have out: "0 < out" using QuoteSwap_bounds(4) [OF q] by (cases "reservesFor pool ?in") auto
  define l0 where "l0 = fst (debitAssetLocked l ?in (tx_From t) ?x)"
  note c' = canDebit_holdings [OF c n(1)]
  note d = asset_debit_supply [OF assms(2,3) c n(1), folded l0_def]
  have bnd: "supply_of l b < 2 ^ 63" for b using assms(3) by (simp add: bounded_def)
  have r: "0 \<le> reserve_of pool b" "reserve_of pool b < 2 ^ 63" for b
    using solvent_pool(1,3) [OF assms(2) look, of b] bnd [of b] by auto
  note res = applySwap_reserves [OF sw wf n(1) deposit_exact(1) [OF assms(2,3) look c n(1)] _ _ r]
  have look0: "fmlookup (AMMPools l0) (normalizePoolID (amm_PoolID p)) = Some pool" using look by (simp add: l0_def)
  note w = pool_write_supply [OF d(1) look0, of pool']
  have res': "reserve_of pool' b = reserve_of pool b + (if b = ?in then ?x else 0) - (if b = counter_asset pool ?in then out else 0)"
    "0 \<le> reserve_of pool' b" for b
    using res(1,2) [of b] c'(1) out by auto
  define k where "k = normalizePoolID (amm_PoolID p)"
  define l0' where "l0' = l0\<lparr>AMMPools := fmupd k pool' (AMMPools l0)\<rparr>"
  have s0: "solvent l0'" "\<And>b. supply_of l0' b = supply_of l b - (if b = counter_asset pool ?in then out else 0)"
    using w res' d(2) by (auto simp: l0'_def k_def)
  have "supply_of l0' ?out + out < 2 ^ 63" using room iss [of ?out] s0(2) [of ?out] by auto
  note cr = asset_credit_supply [OF s0(1) out c'(2) n(2) this]
  have "pool_ID pool' = k" using applySwap_names(1) [OF sw] wf by (simp add: pool_wf_def k_def)
  then have "l' = (creditAssetLocked l0 ?out (tx_From t) out)\<lparr>AMMPools := fmupd k (pool'\<lparr>pool_LastTx := tx_ID t\<rparr>) (AMMPools l0)\<rparr>"
    by (simp add: l' l1 l0_def)
  moreover have "reserve_of (pool'\<lparr>pool_LastTx := tx_ID t\<rparr>) = reserve_of pool'" by (simp add: fun_eq_iff reserve_of_def)
  ultimately have "solvent l' = solvent (creditAssetLocked l0' ?out (tx_From t) out)"
    "supply_of l' a = supply_of (creditAssetLocked l0' ?out (tx_From t) out) a"
    by (simp_all only: l0'_def swap_write_order)
  then show "solvent l'" and "supply_of l' a = supply_of l a + amm_issued l p' a"
    using cr s0(2) [of a] iss [of a] by auto
qed

lemma amm_supply:
  assumes "ammAction l t p = (l', p', True)" and "solvent l" and "bounded l" and "ledger_wf l" and "normalized_payload p"
    and "normalizeAssetAccount (tx_To t) = tx_To t" and "\<And>a. supply_of l a + amm_issued l p' a < 2 ^ 63"
  shows "solvent l' \<and> supply_of l' a = supply_of l a + amm_issued l p' a"
  using assms(1)
proof (cases rule: ammAction_True)
  case credit
  then have "supply_of l (amm_Asset p) + amm_Amount p < 2 ^ 63" using assms(7) [of "amm_Asset p"] by (simp add: amm_issued_def)
  then show ?thesis
    using credit ammAssetCredit_supply [OF credit(2) assms(2) _ _ assms(6)] assms(5)
    by (simp add: amm_issued_def normalized_payload_def)
next
  case debit
  then show ?thesis
    using ammAssetDebit_supply [OF debit(2) assms(2,3)] assms(5) by (simp add: amm_issued_def normalized_payload_def)
next
  case create
  then show ?thesis using ammCreatePool_supply [OF create(2) assms(2)] by (simp add: amm_issued_def)
next
  case add
  then show ?thesis using ammAddLiquidity_supply [OF add(2) assms(2-4)] by (simp add: amm_issued_def)
next
  case swap
  then show ?thesis using ammSwap_supply [OF swap(2) assms(2-5) swap(1) assms(7)] by blast
qed

lemma solvent_bookkeeping [simp]:
  "solvent (recordTx l t) = solvent l" "solvent (advanceNonce l t) = solvent l"
  "supply_of (recordTx l t) a = supply_of l a" "supply_of (advanceNonce l t) a = supply_of l a"
  "solvent (MarkValidator l k) = solvent l" "supply_of (MarkValidator l k) a = supply_of l a"
  by (auto intro!: solvent_frame simp: holdings_def ledger_ops)

lemma applyAMM_supply:
  assumes "applyAMMTransactionLocked E l t = Some (l', t', True)" and "solvent l" and "bounded l" and "ledger_wf l"
    and "\<And>a. supply_of l a + issued E l t' a < 2 ^ 63"
  shows "solvent l' \<and> supply_of l' a = supply_of l a + issued E l t' a"
  using assms(1)
proof (rule applyAMM_True)
  fix t1 p p' l1
  assume t1: "tx_AMM t1 = Some p" "t1 = normalizeAMM t \<or> t1 = normalizeAMM (normalizeAMM t)"
    and act: "ammAction l t1 p = (l1, p', True)"
    and t': "t' = t1\<lparr>tx_AMM := Some p'\<rparr>" "l' = advanceNonce (recordTx l1 t') t'"
  from t1 have n: "normalized_payload p" using normalizeAMM_payload by blast
  from t1 have to: "normalizeAssetAccount (tx_To t1) = tx_To t1"
    using normalizeAMM_To normalizeAMM_AMM by (metis option.distinct(1))
  have "issued E l t' b = amm_issued l p' b" for b by (simp add: issued_def t')
  with amm_supply [OF act assms(2-4) n to] assms(5) show ?thesis by (simp add: t')
qed

lemma contract_supply:
  assumes "applyEVMContractTransactionLocked E l t = (l', Some True)" and "solvent l" and "bounded l" and "0 \<le> tx_Amount t"
    and "\<not> IsNFT t" "\<not> IsMint t" "tx_AMM t = None" "IsEVM t" "tx_Raw t \<noteq> []"
  shows "solvent l' \<and> supply_of l' a = supply_of l a + issued E l t a"
  using assms(1)
proof (rule applyEVM_True)
  fix tx state addr left
  assume d: "decodeEVM E t = Some tx" and bal: "tx_Amount t \<le> 0 \<or> tx_Amount t \<le> mget 0 (Accounts l) (tx_From t)"
    and l': "l' = (let l1 = evm_move_value (l\<lparr>EVMAccounts := ad_accounts state\<rparr>) t tx in
       l1\<lparr>Nonces := fmupd (tx_From t) (tx_Nonce t + 1) (Nonces l1),
          TxHistory := fmupd (tx_ID t) t (TxHistory l1),
          EVMReceipts := fmupd (ToLower (tx_ID t)) \<lparr>rc_TransactionHash = ToLower (tx_ID t),
            rc_ContractAddress = addr, rc_GasUsed = gas_Used E left (evm_gas_limit tx),
            rc_Logs = evmLogsFromTypes (ad_logs state), rc_Status = 1\<rparr> (EVMReceipts l1)\<rparr>)"
  have same: "AssetBalances l' = AssetBalances l" "AMMPools l' = AMMPools l" by (simp_all add: l' Let_def)
  have iss: "issued E l t a = (if a = AssetPKN \<and> eth_To tx = None then - tx_Amount t else 0)"
    using assms(5-9) by (simp add: issued_def d)
  have bal': "tx_Amount t \<le> mget 0 (Accounts l) (tx_From t)"
    using bal solvent_holding [OF assms(2), of AssetPKN "tx_From t"] assms(4) by (auto simp: holdings_def)
  show ?thesis
  proof (cases "tx_Amount t = 0")
    case True
    then have "Accounts l' = Accounts l" by (simp add: l' Let_def evm_move_value_def)
    then show ?thesis
      using same True assms(2) solvent_frame [of l' l] by (simp add: iss holdings_def)
  next
    case False
    then have pos: "tx_Amount t > 0" using assms(4) by simp
    show ?thesis
    proof (cases "eth_To tx")
      case None
      then have "Accounts l' = Accounts (debit l (tx_From t) (tx_Amount t))"
        using pos by (simp add: l' Let_def evm_move_value_def debit_def)
      from PKN_burn_supply [OF assms(2,3,4) bal' this same] show ?thesis using None by (simp add: iss)
    next
      case (Some to)
      then have "Accounts l' = Accounts (credit (debit l (tx_From t) (tx_Amount t)) (ToLower to) (tx_Amount t))"
        using pos by (simp add: l' Let_def evm_move_value_def debit_def credit_def)
      from PKN_move_supply [OF assms(2,3,4) bal' this same] show ?thesis using Some by (simp add: iss)
    qed
  qed
qed

lemma applyEVM_None_To:
  "applyEVMContractTransactionLocked E l t = (l', None) \<Longrightarrow> \<exists>tx. decodeEVM E t = Some tx \<and> eth_To tx \<noteq> None"
  by (auto simp: applyEVMContractTransactionLocked_def Let_def split: option.splits if_splits prod.splits)

lemma validNFT_AMM:
  "validNFTMint t = (t', ok) \<Longrightarrow> tx_AMM t' = tx_AMM t" "validNFTTransfer t = (t', ok) \<Longrightarrow> tx_AMM t' = tx_AMM t"
  by (auto simp: validNFTMint_def validNFTTransfer_def Let_def split: option.splits)

lemma applyNFTMint_frame:
  assumes "applyNFTMint E l t = Some (l', t', ok)" and "\<not> IsAMM t"
  shows "Accounts l' = Accounts l \<and> AssetBalances l' = AssetBalances l \<and> AMMPools l' = AMMPools l \<and>
    tx_AMM t' = tx_AMM t \<and> tx_Kind t' = tx_Kind t"
  using assms validNFTMint_simps(3,7) [of t] validNFT_AMM(1) [of t] Verify_same [of E]
  by (fastforce simp: applyNFTMint_def Let_def recordTx_def split: option.splits if_splits prod.splits)

lemma applyNFTTransfer_frame:
  assumes "applyNFTTransfer E l t = Some (l', t', ok)" and "\<not> IsAMM t"
  shows "Accounts l' = Accounts l \<and> AssetBalances l' = AssetBalances l \<and> AMMPools l' = AMMPools l \<and>
    tx_AMM t' = tx_AMM t \<and> tx_Kind t' = tx_Kind t"
  using assms validNFTTransfer_simps(3,7) [of t] validNFT_AMM(2) [of t] Verify_same [of E]
  by (fastforce simp: applyNFTTransfer_def Let_def recordTx_def split: option.splits if_splits prod.splits)

lemma nft_supply:
  assumes "Accounts l' = Accounts l \<and> AssetBalances l' = AssetBalances l \<and> AMMPools l' = AMMPools l \<and>
    tx_AMM t' = tx_AMM t \<and> tx_Kind t' = tx_Kind t" and "\<not> IsAMM t" and "IsNFT t" and "solvent l"
  shows "solvent l' \<and> supply_of l' a = supply_of l a + issued E l t' a"
proof -
  have "issued E l t' a = 0"
    using assms(1-3) by (simp add: issued_def IsAMM_def IsNFT_def IsNFTMint_def IsNFTTransfer_def)
  moreover have "holdings l' b = holdings l b" for b using assms(1) by (simp add: holdings_def)
  ultimately show ?thesis using assms(1,4) solvent_frame [of l' l] by simp
qed

lemma mint_supply:
  assumes "applyMint E l t = Some (l', t', True)" and "\<not> IsAMM t" and "solvent l" and "supply_of l AssetPKN + tx_Amount t < 2 ^ 63"
  shows "solvent l' \<and> supply_of l' a = supply_of l a + (if a = AssetPKN then tx_Amount t else 0)"
proof -
  note m = applyMint_True [OF assms(1,2)]
  let ?x = "mget 0 (Accounts l) (tx_To t)"
  have x: "0 \<le> ?x" "?x \<le> supply_of l AssetPKN"
    using solvent_holding [OF assms(3), of AssetPKN "tx_To t"] by (simp_all add: holdings_def)
  then have e: "i64 (?x + tx_Amount t) = ?x + tx_Amount t" using m(2) assms(4) by (intro i64_small) auto
  let ?l = "credit l (tx_To t) (tx_Amount t)"
  have acc: "holdings l' b = holdings ?l b" "pooled l' b = pooled ?l b" "pooled ?l b = pooled l b" for b
    using m(5) by (simp_all add: Let_def holdings_def pooled_def ledger_ops)
  have h: "holdings ?l b = (if b = AssetPKN then fmupd (tx_To t) (?x + tx_Amount t) (Accounts l) else holdings l b)" for b
    by (simp add: holdings_credit e)
  have "nonneg_map (Accounts l)" using assms(3) by (metis solvent_def holdings_def)
  then have "solvent l'" using assms(3) x m(2) by (simp add: solvent_def acc h nonneg_map_fmupd)
  moreover have "supply_of l' a = supply_of l a + (if a = AssetPKN then tx_Amount t else 0)"
    by (simp add: supply_of_def acc h) (simp add: holdings_def)
  ultimately show ?thesis by blast
qed

lemma Transaction_supply:
  assumes "Transaction E l t = Some (l', t', True)" and "solvent l" and "bounded l" and "ledger_wf l"
    and "\<And>a. supply_of l a + issued E l t' a < 2 ^ 63"
  shows "solvent l' \<and> supply_of l' a = supply_of l a + issued E l t' a"
  using assms(1)
proof (cases rule: Transaction_True)
  case amm
  then show ?thesis using applyAMM_supply [OF amm(2) assms(2-5)] by blast
next
  case nft_mint
  then show ?thesis using nft_supply [OF applyNFTMint_frame] assms(2) by (simp add: IsNFT_def)
next
  case nft_transfer
  then show ?thesis using nft_supply [OF applyNFTTransfer_frame] assms(2) by (simp add: IsNFT_def)
next
  case mint
  then have "t' = t" "tx_AMM t = None" "\<not> IsNFT t"
    using applyMint_True(1) [OF mint(3,1)] by (auto simp: IsAMM_def IsMint_def IsNFT_def IsNFTMint_def IsNFTTransfer_def)
  then have "issued E l t' b = (if b = AssetPKN then tx_Amount t else 0)" for b
    using mint by (simp add: issued_def)
  then show ?thesis using mint_supply [OF mint(3,1) assms(2)] assms(5) [of AssetPKN] by simp
next
  case plain
  note pl = applyPlainTransfer_True [OF plain(4)]
  have "issued E l t' a = 0"
    using plain applyEVM_None_To [of E l t l] by (auto simp: issued_def IsAMM_def split: option.splits)
  moreover have "0 \<le> tx_Amount t" using applyTransfer_True(3) [OF plain(7,1)] .
  ultimately show ?thesis
    using PKN_move_supply [OF assms(2,3) _ pl(1), of l' "tx_To t"] pl(2) by (simp add: ledger_ops)
next
  case contract
  have "0 \<le> tx_Amount t" using applyTransfer_True(3) [OF contract(8,1)] .
  then show ?thesis using contract contract_supply [OF contract(7) assms(2,3)] by (simp add: IsAMM_def)
qed

text \<open>Transactions that cannot issue anything, whatever the ledger.\<close>

definition no_issue :: "SignedTransaction \<Rightarrow> bool" where
  "no_issue t \<longleftrightarrow> \<not> IsMint t \<and> (case tx_AMM t of None \<Rightarrow> True | Some p \<Rightarrow>
     ToLower (TrimSpace (amm_Action p)) \<noteq> ''asset_credit'' \<and> ToLower (TrimSpace (amm_Action p)) \<noteq> ''amm_swap'')"

lemma normalizeAction_idem: "ToLower (TrimSpace (ToLower (TrimSpace a))) = ToLower (TrimSpace a)"
  by simp

lemma normalizeAMM_Action:
  "tx_AMM t = Some q \<Longrightarrow> tx_AMM (normalizeAMM t) = Some p \<Longrightarrow> amm_Action p = ToLower (TrimSpace (amm_Action q))"
  by (auto simp: normalizeAMM_def Let_def normalizeFields_def fillPayload_def split: if_splits)

lemma ammAction_Amount:
  assumes "ammAction l t p = (l', p', True)"
  shows "amm_Action p' = amm_Action p" and "amm_Action p = ''asset_debit'' \<Longrightarrow> 0 \<le> amm_Amount p'"
proof -
  have "amm_Action p' = amm_Action p \<and> (amm_Action p = ''asset_debit'' \<longrightarrow> 0 \<le> amm_Amount p')"
    using assms by (cases rule: ammAction_True)
      (auto simp: ammAssetDebit_def elim!: ammSwap_True split: if_splits)
  then show "amm_Action p' = amm_Action p" and "amm_Action p = ''asset_debit'' \<Longrightarrow> 0 \<le> amm_Amount p'" by auto
qed

lemma applyAMM_no_issue:
  assumes "applyAMMTransactionLocked E l t = Some (l', t', True)" and "no_issue t"
  shows "issued E l t' a \<le> 0"
  using assms(1)
proof (rule applyAMM_True)
  fix t1 p p' l1
  assume t1: "tx_AMM t1 = Some p" "t1 = normalizeAMM t \<or> t1 = normalizeAMM (normalizeAMM t)"
    and act: "ammAction l t1 p = (l1, p', True)" and t': "t' = t1\<lparr>tx_AMM := Some p'\<rparr>"
  obtain q where q: "tx_AMM t = Some q" using t1 normalizeAMM_AMM by (metis option.exhaust)
  obtain r where r: "tx_AMM (normalizeAMM t) = Some r" using q normalizeAMM_AMM [of t] by auto
  have "amm_Action p = ToLower (TrimSpace (amm_Action q))"
    using t1(2)
  proof
    assume "t1 = normalizeAMM t"
    with t1(1) have "tx_AMM (normalizeAMM t) = Some p" by simp
    then show ?thesis by (rule normalizeAMM_Action [OF q])
  next
    assume "t1 = normalizeAMM (normalizeAMM t)"
    with t1(1) have "tx_AMM (normalizeAMM (normalizeAMM t)) = Some p" by simp
    then have "amm_Action p = ToLower (TrimSpace (amm_Action r))" by (rule normalizeAMM_Action [OF r])
    then show ?thesis by (simp only: normalizeAMM_Action [OF q r] normalizeAction_idem)
  qed
  then show ?thesis
    using assms(2) ammAction_Amount [OF act] by (simp add: issued_def t' amm_issued_def no_issue_def q)
qed

lemma Transaction_no_issue:
  assumes "Transaction E l t = Some (l', t', True)" and "no_issue t"
  shows "issued E l t' a \<le> 0"
  using assms(1)
proof (cases rule: Transaction_True)
  case amm
  then show ?thesis using applyAMM_no_issue assms(2) by blast
next
  case nft_mint
  then show ?thesis using applyNFTMint_frame [OF nft_mint(3,1)]
    by (simp add: issued_def IsAMM_def IsNFT_def IsNFTMint_def)
next
  case nft_transfer
  then show ?thesis using applyNFTTransfer_frame [OF nft_transfer(3,1)]
    by (simp add: issued_def IsAMM_def IsNFT_def IsNFTTransfer_def)
next
  case mint
  then show ?thesis using assms(2) by (simp add: no_issue_def)
next
  case plain
  then show ?thesis using applyTransfer_True(3) [OF plain(7,1)] by (auto simp: issued_def IsAMM_def split: option.splits)
next
  case contract
  then show ?thesis using applyTransfer_True(3) [OF contract(8,1)] by (auto simp: issued_def IsAMM_def split: option.splits)
qed

definition sound :: "Ledger \<Rightarrow> bool" where
  "sound l \<longleftrightarrow> solvent l \<and> bounded l \<and> ledger_wf l"

lemma Transaction_sound:
  assumes "Transaction E l t = Some (l', t', ok)" and "sound l" and "no_issue t"
  shows "sound l'" and "supply_of l' a \<le> supply_of l a"
proof -
  have "sound l' \<and> (\<forall>a. supply_of l' a \<le> supply_of l a)"
  proof (cases ok)
    case True
    with assms(1) have tr: "Transaction E l t = Some (l', t', True)" by simp
    note n = Transaction_no_issue [OF tr assms(3)]
    have "supply_of l a + issued E l t' a < 2 ^ 63" for a
      using n [of a] assms(2) by (auto simp: sound_def bounded_def intro: order.strict_trans1 [of _ "supply_of l a"])
    with Transaction_supply [OF tr] assms(2) have s: "solvent l'" "\<And>a. supply_of l' a = supply_of l a + issued E l t' a"
      by (auto simp: sound_def)
    then have le: "supply_of l' a \<le> supply_of l a" for a using n [of a] by simp
    moreover have "bounded l'" using le assms(2) by (auto simp: bounded_def sound_def intro: order.strict_trans1)
    ultimately show ?thesis using s Transaction_wf [OF tr] assms(2) by (simp add: sound_def)
  next
    case False
    with assms(1) have l': "l' = l\<lparr>EVMAccounts := EVMAccounts l'\<rparr>" using Transaction_False by simp
    have "holdings l' b = holdings l b" "AMMPools l' = AMMPools l" for b
      by (subst l', simp add: holdings_def)+
    then have "solvent l' = solvent l" "\<And>a. supply_of l' a = supply_of l a" using solvent_frame by blast+
    then show ?thesis using assms(2) Transaction_wf [OF assms(1)] by (simp add: sound_def bounded_def)
  qed
  then show "sound l'" and "supply_of l' a \<le> supply_of l a" by auto
qed

interpretation sound_run: step_invariant "apply_step E" no_issue sound for E
  by unfold_locales (auto simp: apply_step_def dest: Transaction_sound(1))

lemma sound_run_supply:
  assumes "run_ops (apply_step E) l ts = Some l'" and "sound l" and "list_all no_issue ts"
  shows "supply_of l' a \<le> supply_of l a"
  using assms
proof (induction ts arbitrary: l)
  case Nil
  then show ?case by simp
next
  case (Cons t ts)
  then obtain m where s: "apply_step E l t = Some m" and m: "run_ops (apply_step E) m ts = Some l'"
    by (auto split: option.splits)
  from s obtain t' ok where "Transaction E l t = Some (m, t', ok)" by (auto simp: apply_step_def)
  with Cons.prems have "sound m" "supply_of m a \<le> supply_of l a" by (auto intro: Transaction_sound)
  with Cons.IH [OF m] Cons.prems show ?case by fastforce
qed

section \<open>Exact balances\<close>

lemma plain_balances:
  assumes "applyPlainTransfer l t = (l', True)" and "in_i64 (GetBalance l (tx_From t) - tx_Amount t)"
    and "in_i64 (GetBalance l (tx_To t) + tx_Amount t)" and "in_i64 (GetBalance l (tx_To t))"
  shows "GetBalance l' a = (if tx_From t = tx_To t then GetBalance l a
    else GetBalance l a - (if a = tx_From t then tx_Amount t else 0) + (if a = tx_To t then tx_Amount t else 0))"
proof -
  have same: "GetBalance l' a = GetBalance (credit (debit l (tx_From t) (tx_Amount t)) (tx_To t) (tx_Amount t)) a"
    using applyPlainTransfer_True(2) [OF assms(1)] by (auto simp: GetBalance_def ledger_ops)
  have room: "in_i64 (GetBalance (debit l (tx_From t) (tx_Amount t)) (tx_To t) + tx_Amount t)"
    using assms(3,4) pkn.debit_bal [OF assms(2)] by simp
  show ?thesis unfolding same using pkn.credit_bal [OF room] pkn.debit_bal [OF assms(2)] by auto
qed

text \<open>Whether a transaction is sent to the contract machine: a creation, or a call with data.\<close>

definition contract_call :: "env \<Rightarrow> SignedTransaction \<Rightarrow> bool" where
  "contract_call E t \<longleftrightarrow> IsEVM t \<and> tx_Raw t \<noteq> [] \<and>
     (case decodeEVM E t of None \<Rightarrow> False | Some tx \<Rightarrow> eth_To tx = None \<or> eth_Data tx \<noteq> [])"

end
