(* ===== verification/PoolFacts.thy ===== *)
theory PoolFacts
  imports Supply
begin

text \<open>
  The reserves of a pool under every AMM action: on a ledger whose books are in order no action
  removes a pool, renames its assets or lowers the product of its reserves.
\<close>

definition pool_product :: "AMMPool \<Rightarrow> int" where
  "pool_product p = pool_ReserveA p * pool_ReserveB p"

definition pool_kept :: "Ledger \<Rightarrow> string \<Rightarrow> AMMPool \<Rightarrow> bool" where
  "pool_kept l k p \<longleftrightarrow> (\<exists>p'. fmlookup (AMMPools l) k = Some p' \<and> pool_AssetA p' = pool_AssetA p \<and>
     pool_AssetB p' = pool_AssetB p \<and> pool_product p \<le> pool_product p')"

lemma pool_kept_same: "fmlookup (AMMPools l) k = Some p \<Longrightarrow> pool_kept l k p"
  by (simp add: pool_kept_def)

lemma reserve_of_sides:
  assumes "pool_wf k p"
  shows "reserve_of p (pool_AssetA p) = pool_ReserveA p" "reserve_of p (pool_AssetB p) = pool_ReserveB p"
  using pool_wf_distinct [OF assms] by (simp_all add: reserve_of_def)

lemma pool_facts:
  assumes "sound l" and "fmlookup (AMMPools l) k = Some p"
  shows "pool_wf k p" "solvent l" "bounded l" "0 \<le> pool_ReserveA p" "0 \<le> pool_ReserveB p"
    "\<And>b. 0 \<le> reserve_of p b" "\<And>b. reserve_of p b < 2 ^ 63"
proof -
  show wf: "pool_wf k p" and sol: "solvent l" and bnd: "bounded l" using assms by (auto simp: sound_def dest: ledger_wf_poolD)
  show pos: "0 \<le> reserve_of p b" for b using solvent_pool(1) [OF sol assms(2)] .
  show "reserve_of p b < 2 ^ 63" for b
    using solvent_pool(3) [OF sol assms(2)] bnd unfolding bounded_def by (meson le_less_trans)
  show "0 \<le> pool_ReserveA p" "0 \<le> pool_ReserveB p" using pos reserve_of_sides [OF wf] by metis+
qed

lemma add_liquidity_product:
  assumes "ammAddLiquidity l t q = (l', True)" and "sound l" and "fmlookup (AMMPools l) k = Some p"
  shows "pool_kept l' k p"
  using assms(1)
proof (rule ammAddLiquidity_True)
  fix pool l1 l2
  assume q: "1 \<le> amm_AmountA q" "1 \<le> amm_AmountB q"
    and pool: "fmlookup (AMMPools l) (normalizePoolID (amm_PoolID q)) = Some pool"
    and can: "canDebitAssetLocked l (pool_AssetA pool) (tx_From t) (amm_AmountA q)"
      "canDebitAssetLocked l (pool_AssetB pool) (tx_From t) (amm_AmountB q)"
    and l1: "l1 = fst (debitAssetLocked l (pool_AssetA pool) (tx_From t) (amm_AmountA q))"
    and l2: "l2 = fst (debitAssetLocked l1 (pool_AssetB pool) (tx_From t) (amm_AmountB q))"
    and l': "l' = l2\<lparr>AMMPools := fmupd (pool_ID pool) (pool\<lparr>pool_ReserveA := i64 (pool_ReserveA pool + amm_AmountA q),
       pool_ReserveB := i64 (pool_ReserveB pool + amm_AmountB q), pool_LastTx := tx_ID t\<rparr>) (AMMPools l2)\<rparr>"
  note f = pool_facts [OF assms(2) pool]
  have norm: "normalizeAsset (pool_AssetA pool) = pool_AssetA pool" "normalizeAsset (pool_AssetB pool) = pool_AssetB pool"
    and id: "pool_ID pool = normalizePoolID (amm_PoolID q)" using f(1) by (simp_all add: pool_wf_def)
  have grow: "i64 (pool_ReserveA pool + amm_AmountA q) = pool_ReserveA pool + amm_AmountA q"
    "i64 (pool_ReserveB pool + amm_AmountB q) = pool_ReserveB pool + amm_AmountB q"
    using deposit_exact(2) [OF f(2,3) pool can(1) norm(1)] deposit_exact(2) [OF f(2,3) pool can(2) norm(2)]
    by (simp_all add: reserve_of_sides [OF f(1)])
  have pools: "AMMPools l2 = AMMPools l" by (simp add: l1 l2)
  have "pool_ReserveA pool * pool_ReserveB pool \<le> (pool_ReserveA pool + amm_AmountA q) * (pool_ReserveB pool + amm_AmountB q)"
    using f(4,5) q by (intro mult_mono) auto
  then have "pool_product pool \<le> i64 (pool_ReserveA pool + amm_AmountA q) * i64 (pool_ReserveB pool + amm_AmountB q)"
    by (simp add: pool_product_def grow)
  then show ?thesis
    using assms(3) pool by (cases "k = pool_ID pool") (auto simp: pool_kept_def l' pools id pool_product_def)
qed

lemma swap_product:
  assumes "ammSwap l t q = (l', q', True)" and "sound l" and "normalized_payload q" and "fmlookup (AMMPools l) k = Some p"
  shows "pool_kept l' k p"
  using assms(1)
proof (rule ammSwap_True)
  fix pool pool' l1 out
  let ?a = "amm_AssetIn q"
  assume q: "1 \<le> amm_AmountIn q" and pool: "fmlookup (AMMPools l) (normalizePoolID (amm_PoolID q)) = Some pool"
    and quote: "QuoteSwap pool ?a (amm_AmountIn q) = (out, True)"
    and can: "canDebitAssetLocked l ?a (tx_From t) (amm_AmountIn q)"
    and swap: "applySwap pool ?a (amm_AmountIn q) out = (pool', True)"
    and l1: "l1 = creditAssetLocked (fst (debitAssetLocked l ?a (tx_From t) (amm_AmountIn q))) (amm_AssetOut q) (tx_From t) out"
    and l': "l' = l1\<lparr>AMMPools := fmupd (pool_ID pool') (pool'\<lparr>pool_LastTx := tx_ID t\<rparr>) (AMMPools l1)\<rparr>"
  note f = pool_facts [OF assms(2) pool] and names = applySwap_names [OF swap]
  have norm: "normalizeAsset ?a = ?a" using assms(3) by (simp add: normalized_payload_def)
  have id: "pool_ID pool = normalizePoolID (amm_PoolID q)" and fee: "pool_FeeBps pool = AMMFeeBps" using f(1) by (simp_all add: pool_wf_def)
  obtain rin rout where r: "reservesFor pool ?a = (rin, rout)" by force
  note b = QuoteSwap_bounds [OF quote r]
  have room: "reserve_of pool ?a + amm_AmountIn q < 2 ^ 63" using deposit_exact(1) [OF f(2,3) pool can norm] .
  have exact: "reserve_of pool' x = reserve_of pool x + (if x = ?a then amm_AmountIn q else 0) - (if x = counter_asset pool ?a then out else 0)" for x
    using applySwap_reserves(1) [OF swap f(1) norm room] q b f(6,7) by simp
  have side: "?a = pool_AssetA pool \<or> ?a = pool_AssetB pool" using applySwap_reserves(4) [OF swap f(1) norm room] q b f(6,7) by simp
  note rs = reserve_of_sides [OF f(1)] and ne = pool_wf_distinct [OF f(1)]
  have wf': "pool_AssetA pool' \<noteq> pool_AssetB pool'" using ne names by simp
  have rs': "reserve_of pool' (pool_AssetA pool) = pool_ReserveA pool'" "reserve_of pool' (pool_AssetB pool) = pool_ReserveB pool'"
    using wf' names by (simp_all add: reserve_of_def)
  have "pool_product pool \<le> pool_product pool'"
  proof (cases "?a = pool_AssetA pool")
    case True
    then have rr: "rin = pool_ReserveA pool" "rout = pool_ReserveB pool" using r norm by (simp_all add: reservesFor_def)
    have "rin * rout \<le> (rin + amm_AmountIn q) * (rout - out)"
      by (rule QuoteSwap_product [OF quote r]) (use fee room rr True rs in \<open>simp_all add: AMMFeeBps_def in_i64_def\<close>)
    with exact [of "pool_AssetA pool"] exact [of "pool_AssetB pool"] True ne rs rs' rr show ?thesis
      by (simp add: pool_product_def counter_asset_def)
  next
    case False
    with side have B: "?a = pool_AssetB pool" by simp
    then have rr: "rin = pool_ReserveB pool" "rout = pool_ReserveA pool" using r norm ne by (simp_all add: reservesFor_def)
    have "rin * rout \<le> (rin + amm_AmountIn q) * (rout - out)"
      by (rule QuoteSwap_product [OF quote r]) (use fee room rr B rs in \<open>simp_all add: AMMFeeBps_def in_i64_def\<close>)
    with exact [of "pool_AssetA pool"] exact [of "pool_AssetB pool"] B ne rs rs' rr show ?thesis
      by (simp add: pool_product_def counter_asset_def mult.commute)
  qed
  then show ?thesis
    using assms(4) pool names by (cases "k = pool_ID pool") (auto simp: pool_kept_def l' l1 id pool_product_def)
qed

lemma ammAction_product:
  assumes "ammAction l t q = (l', q', True)" and "sound l" and "normalized_payload q" and "fmlookup (AMMPools l) k = Some p"
  shows "pool_kept l' k p"
  using assms(1)
proof (cases rule: ammAction_True)
  case credit
  then show ?thesis using assms(4) by (auto simp: ammAssetCredit_def pool_kept_def split: if_splits)
next
  case debit
  have "AMMPools l' = AMMPools l"
    using debit(2) by (auto simp: ammAssetDebit_def split: if_splits dest: debitAssetLocked_True [THEN iffD1])
  then show ?thesis using assms(4) by (simp add: pool_kept_def)
next
  case create
  from create(2) show ?thesis
    by (rule ammCreatePool_True) (use assms(4) in \<open>auto simp: pool_kept_def mhas_def\<close>)
next
  case add
  with assms show ?thesis by (blast intro: add_liquidity_product)
next
  case swap
  with assms show ?thesis by (blast intro: swap_product)
qed

end
