(* ===== verification/Demo.thy ===== *)
theory Demo
  imports ChainFacts PoolFacts
begin

text \<open>
  A small concrete instance of the environment, with a wallet, a chain and transactions,
  at which the hypotheses of the theorems hold. The hash function tells the genesis block
  from everything else and texts of even length from those of odd length; the Ethereum decoder knows one signed transfer of 5 coins from
  \<open>0xa\<close> to \<open>0xb\<close>; the wallet's key has the size of a real one and exponents 1.
\<close>

definition demo_wallet :: Account where
  "demo_wallet = \<lparr>key_n = 256 ^ 255, key_e = 1, key_d = 1\<rparr>"

definition demo_chain :: Blockchain where
  "demo_chain = NewBlockchainWithGenesis GenesisMetaData_zero"

definition demo_genesis :: Block where
  "demo_genesis = hd (Blocks demo_chain)"

definition demo_sha :: "bytes \<Rightarrow> bytes" where
  "demo_sha m = replicate 31 CHR 0x00 @ [if m = MarshalBlock demo_genesis then CHR 0x02 else if even (length m) then CHR 0x03 else CHR 0x01]"

definition demo_eth :: eth_tx where
  "demo_eth = \<lparr>eth_To = Some ''0xb'', eth_Data = [], eth_Value = 5 * EVMUnit, eth_Nonce = 0, eth_Gas = 0, eth_Hash = ''0x1''\<rparr>"

definition demo_env :: env where
  "demo_env = \<lparr>sha256 = demo_sha, FromHex = (\<lambda>s. s), UnmarshalBinary = (\<lambda>_. Some demo_eth),
     Sender = (\<lambda>_ _. Some ''0xa''), HexToAddress = (\<lambda>s. s), HexToHash = (\<lambda>s. s), Keccak256Hash = (\<lambda>_. zero_hash),
     evm_Create = (\<lambda>_ db _ _ gas _. (db, ''0xc'', gas, False)),
     evm_Call = (\<lambda>_ db _ _ _ gas _. (db, gas, False)),
     evm_StaticCall = (\<lambda>_ db _ _ _ _. (db, [], False)),
     gas_Used = (\<lambda>left initial. initial - left)\<rparr>"

definition demo_hash :: string where
  "demo_hash = hash_of demo_env demo_genesis"

definition demo_block :: Block where
  "demo_block = NewCandidateBlock demo_env demo_wallet 1 demo_hash [] 0"

text \<open>The signed transfer, and a ledger on which it applies.\<close>

definition demo_tx :: SignedTransaction where
  "demo_tx = SignedTransaction_zero\<lparr>tx_ID := ''0x1'', tx_From := ''0xa'', tx_To := ''0xb'', tx_Amount := 5,
     tx_Signature := ''evm:00'', tx_Kind := ''evm'', tx_Raw := ''0x00''\<rparr>"

definition demo_ledger :: Ledger where
  "demo_ledger = SetBalance MakeLedger ''0xa'' 7"

section \<open>The wallet\<close>

lemma length_big_Bytes_power: "length (big_Bytes (256 ^ k)) = Suc k"
  by (simp only: big_Bytes_power length_Cons length_replicate)

lemma demo_wallet_ok: "rsa_key demo_wallet" "length (big_Bytes (key_n demo_wallet)) = WALLET_KEY_SIZE"
proof -
  show "rsa_key demo_wallet" by (simp add: demo_wallet_def rsa_key_def Encrypt_def Decrypt_def big_Exp_def)
  have "key_n demo_wallet = 256 ^ 255" by (simp only: demo_wallet_def Account.select_convs)
  then show "length (big_Bytes (key_n demo_wallet)) = WALLET_KEY_SIZE"
    by (simp only: length_big_Bytes_power WALLET_KEY_SIZE_def)
qed

lemma demo_native: "isNativeValidatorAccount (SafeEncode demo_wallet)"
proof -
  have "big_Bytes (key_n demo_wallet) \<noteq> []" using demo_wallet_ok(2) by (auto simp: WALLET_KEY_SIZE_def)
  then show ?thesis by (simp add: isNativeValidatorAccount_def SafeEncode_def)
qed

lemma demo_sha_length: "length (sha256 demo_env m) = 32"
  by (simp add: demo_env_def demo_sha_def)

lemma draw_of_zero: "draw_of_hash (replicate 31 CHR 0x00 @ [c]) = 0"
  by (simp add: draw_of_hash_def BytesToBigInt_def numeral_eq_Suc)

lemma demo_draw: "blk_Draw demo_block = 0"
  by (simp add: demo_block_def NewCandidateBlock_def NewBlock_def Let_def ComputeLotteryDrawFromProof_def ComputeLotteryDraw_def
    demo_env_def demo_sha_def draw_of_zero split: option.split)

section \<open>The chain\<close>

lemma demo_Blocks: "Blocks demo_chain = [demo_genesis]"
  by (simp add: demo_genesis_def demo_chain_def NewBlockchainWithGenesis_def Let_def)

lemma demo_genesis_fields:
  "blk_ParentHash demo_genesis = NO_PARENT_HASH" "blk_VerificationKey demo_genesis = []"
  "blk_MetaData demo_genesis = b64_encode (snd (marshalGenesisMetaData GenesisMetaData_zero))"
  "blk_Type demo_genesis = BLOCK_TYPE" "blk_LotteryProof demo_genesis = []"
  by (simp_all add: demo_genesis_def demo_chain_def NewBlockchainWithGenesis_def Let_def)

lemma demo_meta: "decodeGenesisFromMeta (blk_MetaData demo_genesis) = Some (applyDefaultDynamicHardnessConfig GenesisMetaData_zero)"
  unfolding demo_genesis_fields(3)
  by (rule genesis_roundtrip) (simp add: plain_genesis_def GenesisMetaData_zero_def in_i64_def)

lemma demo_hash_nonempty: "demo_hash \<noteq> NO_PARENT_HASH"
  using demo_sha_length [of "MarshalBlock demo_genesis"] by (auto simp: demo_hash_def hash_of_def GetBlockHash_def NO_PARENT_HASH_def)

definition demo_depths :: depth_map where "demo_depths = fmupd demo_hash 0 fmempty"

definition demo_nodes :: node_map where "demo_nodes = fmupd demo_hash demo_genesis fmempty"

lemma demo_calc: "calculateDepths demo_env (Blocks demo_chain) = Some (demo_depths, demo_nodes)"
  by (simp add: demo_Blocks calculateDepths_def demo_depths_def demo_nodes_def demo_hash_def)

lemma demo_genesis_hash: "getGenesisHash demo_nodes = demo_hash"
  unfolding getGenesisHash_def
  by (rule find_genesis_only) (auto simp: demo_nodes_def demo_genesis_fields split: if_splits)

lemma demo_genesis_node: "fmlookup demo_nodes (getGenesisHash demo_nodes) = Some demo_genesis"
  by (simp add: demo_genesis_hash) (simp add: demo_nodes_def)

lemma demo_branch: "branch_up demo_nodes demo_hash = Some [demo_genesis]"
  using demo_hash_nonempty
  by (subst branch_up.simps, subst branch_up.simps) (simp add: demo_nodes_def demo_genesis_fields)

lemma demo_first_ledger: "InitializeFromGenesis MakeLedger (applyDefaultDynamicHardnessConfig GenesisMetaData_zero) = MakeLedger"
  by (simp add: InitializeFromGenesis_def GenesisMetaData_zero_def)

lemma demo_parent_ledger: "buildLedgerAtHash demo_env demo_nodes demo_hash = Some MakeLedger"
  by (simp add: buildLedgerAtHash_def demo_branch buildLedgerFromBlocks_def demo_meta demo_first_ledger)

lemma demo_tickets: "LotteryTickets MakeLedger (SafeEncode demo_wallet) = Some 30000"
  by (simp add: LotteryTickets_def demo_native MakeLedger_def IsValidator_def Let_def lottery_scale_def go_quo_def i64_def)

lemma demo_accepted: "AddBlock demo_env demo_chain demo_block = Some (demo_chain\<lparr>Blocks := [demo_genesis, demo_block]\<rparr>, True)"
proof -
  let ?g = "applyDefaultDynamicHardnessConfig GenesisMetaData_zero"
  have seed: "Seed ?g = 0" by (simp add: GenesisMetaData_zero_def)
  have block: "demo_block = NewCandidateBlock demo_env demo_wallet 1 demo_hash [] (Seed ?g)" by (simp only: demo_block_def seed)
  have h: "effectiveHardnessForBlock demo_nodes (Some ?g) demo_block = Some 100"
    by (simp add: effectiveHardnessForBlock_def demo_block_def NewCandidateBlock_fields getBlocksFromLongestBranch_def demo_branch
      EffectiveHardnessForMining_def applyDefaultDynamicHardnessConfig_def GenesisMetaData_zero_def clampHardness_def Let_def)
  have "AddBlock demo_env demo_chain demo_block = Some (demo_chain\<lparr>Blocks := Blocks demo_chain @ [demo_block]\<rparr>, True)"
    by (rule candidate_accepted [OF demo_wallet_ok demo_sha_length demo_calc _ _ demo_meta demo_parent_ledger demo_tickets _ _ _ _ block h])
      (use demo_draw demo_genesis_node in \<open>simp_all add: demo_depths_def newcomer_hardness_def WinsLottery_def
        IsValidator_def GetBalance_def MakeLedger_def GenesisMetaData_zero_def\<close>)
  then show ?thesis by (simp add: demo_Blocks)
qed

lemma demo_block_fields:
  "blk_VerificationKey demo_block = SafeEncode demo_wallet" "blk_ParentHash demo_block = demo_hash"
  "blk_MetaData demo_block = EncodeBlockTransactions []"
  by (simp_all add: demo_block_def NewCandidateBlock_fields)

lemma demo_block_hash: "hash_of demo_env demo_block \<noteq> demo_hash"
proof
  assume "hash_of demo_env demo_block = demo_hash"
  then have "demo_sha (MarshalBlock demo_block) = demo_sha (MarshalBlock demo_genesis)"
    by (simp add: demo_hash_def hash_of_def GetBlockHash_def demo_env_def)
  then have eq: "MarshalBlock demo_block = MarshalBlock demo_genesis" by (simp add: demo_sha_def split: if_splits)
  have "ascii_block demo_genesis"
    by (simp add: ascii_block_def demo_genesis_fields BLOCK_TYPE_def NO_PARENT_HASH_def)
  moreover have "ascii_block demo_block"
    by (simp add: ascii_block_def demo_block_def NewCandidateBlock_def NewBlock_def Let_def SafeEncode_def ascii_b64_encode
      SignLotteryProof_def BLOCK_TYPE_def demo_hash_def hash_of_def)
  ultimately have "blk_ParentHash demo_block = blk_ParentHash demo_genesis" using MarshalBlock_inj eq by blast
  then show False using demo_hash_nonempty by (simp add: demo_block_fields demo_genesis_fields)
qed

lemma demo_tree: "tree_blocks demo_env (Blocks demo_chain)" "tree_blocks demo_env ([demo_genesis] @ [demo_block])"
proof -
  have ne: "hash_of demo_env b \<noteq> NO_PARENT_HASH" for b
    using demo_sha_length [of "MarshalBlock b"] by (auto simp: hash_of_def GetBlockHash_def NO_PARENT_HASH_def)
  then show "tree_blocks demo_env (Blocks demo_chain)"
    by (simp add: demo_Blocks tree_blocks_def collision_free_def demo_genesis_fields)
  show "tree_blocks demo_env ([demo_genesis] @ [demo_block])"
    using ne demo_block_hash by (auto simp: tree_blocks_def collision_free_def demo_genesis_fields demo_hash_def)
qed

section \<open>The ledger\<close>

lemma demo_verify: "Verify demo_env demo_tx ''0xa'' = Some (demo_tx, True)"
  by (simp add: Verify_def VerifyEVM_def IsEVM_def IsAMM_def decodeEVM_def demo_env_def demo_eth_def demo_tx_def
    SignedTransaction_zero_def go_eval)

lemma demo_applied:
  "Transaction demo_env demo_ledger demo_tx =
     Some (demo_ledger\<lparr>Accounts := fmupd ''0xb'' 5 (fmupd ''0xa'' 2 (Accounts demo_ledger)),
       Nonces := fmupd ''0xa'' 1 fmempty, TxHistory := fmupd ''0x1'' demo_tx fmempty\<rparr>, demo_tx, True)"
  using demo_verify
  by (simp add: Transaction_def IsAMM_def IsNFTMint_def IsNFTTransfer_def IsMint_def applyTransfer_def IsEVM_def
    applyEVMContractTransactionLocked_def decodeEVM_def demo_env_def demo_eth_def applyPlainTransfer_def
    ledger_ops demo_tx_def SignedTransaction_zero_def demo_ledger_def SetBalance_def MakeLedger_def go_eval i64_def Let_def)

lemma demo_ledger_sound: "sound demo_ledger"
proof -
  have h: "holdings demo_ledger a = (if a = AssetPKN then fmupd ''0xa'' 7 fmempty else fmempty)" for a
    by (simp add: holdings_def demo_ledger_def SetBalance_def MakeLedger_def)
  have p: "pooled demo_ledger a = fmempty" for a
    by (simp add: pooled_def demo_ledger_def SetBalance_def MakeLedger_def)
  have "ledger_wf demo_ledger" by (simp add: demo_ledger_def ledger_wf_MakeLedger)
  moreover have "solvent demo_ledger" by (simp add: solvent_def h p nonneg_map_def)
  moreover have "bounded demo_ledger" by (simp add: bounded_def supply_of_def h p)
  ultimately show ?thesis by (simp add: sound_def)
qed

lemma demo_issues_nothing: "issued demo_env demo_ledger demo_tx a = 0"
  by (simp add: issued_def demo_tx_def SignedTransaction_zero_def IsNFT_def IsNFTMint_def IsNFTTransfer_def IsMint_def
    IsEVM_def decodeEVM_def demo_env_def demo_eth_def)

section \<open>A swap\<close>

definition demo_payload :: AMMPayload where
  "demo_payload = AMMPayload_zero\<lparr>amm_Action := ''amm_swap'', amm_PoolID := ''PKN-WPKN'', amm_AssetIn := ''PKN'',
     amm_AssetOut := ''WPKN'', amm_AmountIn := 100, amm_FeeBps := 30\<rparr>"

definition demo_swap :: SignedTransaction where
  "demo_swap = signTransaction demo_env (SignedTransaction_zero\<lparr>tx_ID := ''s'', tx_From := SafeEncode demo_wallet,
     tx_Kind := ''amm_swap'', tx_AMM := Some demo_payload\<rparr>) (key_d demo_wallet) (key_n demo_wallet)"

definition demo_pool :: AMMPool where
  "demo_pool = \<lparr>pool_ID = ''PKN-WPKN'', pool_AssetA = ''PKN'', pool_AssetB = ''WPKN'', pool_ReserveA = 1000, pool_ReserveB = 1000,
     pool_FeeBps = 30, pool_CreatedTx = ''c'', pool_LastTx = ''c''\<rparr>"

definition demo_holder :: string where
  "demo_holder = normalizeAssetAccount (SafeEncode demo_wallet)"

definition demo_pool_ledger :: Ledger where
  "demo_pool_ledger = MakeLedger\<lparr>Accounts := fmupd demo_holder 100 fmempty, AMMPools := fmupd ''PKN-WPKN'' demo_pool fmempty,
     TxHistory := fmupd ''c'' (SignedTransaction_zero\<lparr>tx_ID := ''c''\<rparr>) fmempty\<rparr>"

lemma demo_payload_normal: "fillPayload (normalizeFields demo_payload) = demo_payload"
  by code_simp

lemma demo_quote: "QuoteSwap demo_pool (amm_AssetIn demo_payload) (amm_AmountIn demo_payload) = (90, True)"
  by code_simp

lemma demo_applySwap: "applySwap demo_pool (amm_AssetIn demo_payload) (amm_AmountIn demo_payload) 90 =
    (demo_pool\<lparr>pool_ReserveA := 1100, pool_ReserveB := 910\<rparr>, True)"
  by code_simp

lemma demo_pool_id: "normalizePoolID (amm_PoolID demo_payload) = ''PKN-WPKN''"
  by code_simp

lemma demo_assets: "normalizeAsset (amm_AssetIn demo_payload) = AssetPKN" "normalizeAsset (amm_AssetOut demo_payload) = ''WPKN''"
  "AssetPKN \<noteq> ''WPKN''"
  by code_simp+

lemma demo_holder_nonempty: "demo_holder \<noteq> []"
proof -
  have n: "big_Bytes (key_n demo_wallet) = CHR 0x01 # replicate 255 CHR 0x00"
    by (simp only: demo_wallet_def Account.select_convs big_Bytes_power)
  have "255 = Suc (Suc 253)" by simp
  then obtain r where "big_Bytes (key_n demo_wallet) @ big_Bytes (key_e demo_wallet) = CHR 0x01 # CHR 0x00 # CHR 0x00 # r"
    unfolding n by (simp only: replicate_Suc append_Cons)
  then obtain u where u: "SafeEncode demo_wallet = CHR ''A'' # u"
    by (simp add: SafeEncode_def b64_char_def) (simp add: char_of_def bit_one_nat)
  have "TrimSpace (CHR ''A'' # u) \<noteq> []"
  proof -
    have "\<not> is_space CHR ''A''" by (simp add: is_space_def)
    then show ?thesis by (simp add: TrimSpace_def dropWhile_eq_Nil_conv)
  qed
  then show ?thesis unfolding demo_holder_def u by (simp add: normalizeAssetAccount_def Let_def)
qed

lemma demo_swap_norm: "normalizeAMM demo_swap = demo_swap" "validAMM demo_swap = (demo_swap, True)"
proof -
  show n: "normalizeAMM demo_swap = demo_swap"
    using demo_payload_normal
    by (simp add: normalizeAMM_def demo_swap_def signTransaction_def Let_def) (simp add: demo_payload_def SignedTransaction_zero_def)
  show "validAMM demo_swap = (demo_swap, True)"
    using n demo_assets demo_native
    by (simp add: validAMM_def) (simp add: demo_swap_def signTransaction_def SignedTransaction_zero_def demo_payload_def AMMPayload_zero_def
      isNativeValidatorAccount_def)
qed

lemma demo_swap_verify: "Verify demo_env demo_swap (SafeEncode demo_wallet) = Some (demo_swap, True)" "\<not> IsEVM demo_swap"
  "tx_From demo_swap = SafeEncode demo_wallet" "tx_AMM demo_swap = Some demo_payload" "tx_ID demo_swap = ''s''"
proof -
  show "Verify demo_env demo_swap (SafeEncode demo_wallet) = Some (demo_swap, True)"
    unfolding demo_swap_def by (rule signed_verifies [OF demo_wallet_ok demo_sha_length]) (simp add: SignedTransaction_zero_def)
  show "\<not> IsEVM demo_swap" unfolding demo_swap_def by (rule signed_native) (simp add: SignedTransaction_zero_def)
qed (simp_all add: demo_swap_def signTransaction_def)

lemma demo_swap_applied:
  "\<exists>l'. Transaction demo_env demo_pool_ledger demo_swap = Some (l', demo_swap\<lparr>tx_AMM := Some (demo_payload\<lparr>amm_AmountOut := 90\<rparr>)\<rparr>, True)"
proof -
  have can: "canDebitAssetLocked demo_pool_ledger (amm_AssetIn demo_payload) (SafeEncode demo_wallet) (amm_AmountIn demo_payload)"
    using demo_holder_nonempty
    by (simp add: canDebitAssetLocked_def demo_assets demo_holder_def [symmetric] demo_pool_ledger_def) (simp add: demo_payload_def)
  have pool: "fmlookup (AMMPools demo_pool_ledger) ''PKN-WPKN'' = Some demo_pool" by (simp add: demo_pool_ledger_def)
  have p: "1 \<le> amm_AmountIn demo_payload" "amm_MinAmountOut demo_payload = 0" "amm_Action demo_payload = ''amm_swap''"
    by (simp_all add: demo_payload_def AMMPayload_zero_def)
  have "\<exists>l1. ammAction demo_pool_ledger demo_swap demo_payload = (l1, demo_payload\<lparr>amm_AmountOut := 90\<rparr>, True)"
    using p can by (simp add: ammAction_def ammSwap_def demo_pool_id pool demo_quote demo_applySwap demo_swap_verify Let_def)
  then obtain l1 where "ammAction demo_pool_ledger demo_swap demo_payload = (l1, demo_payload\<lparr>amm_AmountOut := 90\<rparr>, True)" ..
  then have "\<exists>l'. applyAMMTransactionLocked demo_env demo_pool_ledger demo_swap =
      Some (l', demo_swap\<lparr>tx_AMM := Some (demo_payload\<lparr>amm_AmountOut := 90\<rparr>)\<rparr>, True)"
    using demo_swap_verify by (simp add: applyAMMTransactionLocked_def demo_swap_norm Let_def)
  then show ?thesis using demo_swap_verify(4) by (simp add: Transaction_def IsAMM_def)
qed

lemma demo_pool_sound: "sound demo_pool_ledger"
proof -
  have h: "holdings demo_pool_ledger a = (if a = AssetPKN then fmupd demo_holder 100 fmempty else fmempty)" for a
    by (simp add: holdings_def demo_pool_ledger_def MakeLedger_def)
  have p: "pooled demo_pool_ledger a = fmupd ''PKN-WPKN'' (reserve_of demo_pool a) fmempty" for a
    by (simp add: pooled_def demo_pool_ledger_def)
  have r: "0 \<le> reserve_of demo_pool a" "reserve_of demo_pool a \<le> 2000" for a by (simp_all add: reserve_of_def demo_pool_def)
  have "pool_wf ''PKN-WPKN'' demo_pool" unfolding pool_wf_def by code_simp
  then have "ledger_wf demo_pool_ledger"
    by (simp add: ledger_wf_def demo_pool_ledger_def MakeLedger_def) (simp add: demo_pool_def fmpred_iff)
  moreover have "solvent demo_pool_ledger" using r by (simp add: solvent_def h p nonneg_map_def)
  moreover have "bounded demo_pool_ledger" using r by (fastforce simp: bounded_def supply_of_def h p intro: le_less_trans)
  ultimately show ?thesis by (simp add: sound_def)
qed


section \<open>A token\<close>

definition demo_token :: NFTToken where
  "demo_token = \<lparr>tok_CollectionID = ''c'', tok_TokenID = ''1'', tok_Owner = ''0xa'', tok_Minter = ''0xa'', tok_MetadataURI = [],
     tok_MetadataHash = [], tok_ImageURI = [], tok_MintTx = ''m'', tok_LastTx = ''m'', tok_Burned = False\<rparr>"

definition demo_nft_tx :: SignedTransaction where
  "demo_nft_tx = demo_tx\<lparr>tx_Kind := ''nft_transfer'', tx_NFT := Some (NFTPayload_zero\<lparr>nft_CollectionID := ''c'', nft_TokenID := ''1''\<rparr>)\<rparr>"

definition demo_nft_ledger :: Ledger where
  "demo_nft_ledger = MakeLedger\<lparr>NFTs := fmupd ''c/1'' demo_token fmempty\<rparr>"

lemma demo_nft_applied:
  "\<exists>l'. Transaction demo_env demo_nft_ledger demo_nft_tx = Some (l', demo_nft_tx, True)"
proof -
  have v: "validNFTTransfer demo_nft_tx = (demo_nft_tx, True)" by code_simp
  have k: "NFTKey ''c'' ''1'' = ''c/1''" "sameNFTAccount ''0xa'' ''0xa''" by code_simp+
  have verify: "Verify demo_env demo_nft_tx ''0xa'' = Some (demo_nft_tx, True)"
    by (simp add: Verify_def VerifyEVM_def IsEVM_def IsAMM_def decodeEVM_def demo_env_def demo_eth_def demo_nft_tx_def demo_tx_def
      SignedTransaction_zero_def go_eval)
  have f: "tx_From demo_nft_tx = ''0xa''" "IsAMM demo_nft_tx = False" "IsNFTMint demo_nft_tx = False" "IsNFTTransfer demo_nft_tx"
    "tx_NFT demo_nft_tx = Some (NFTPayload_zero\<lparr>nft_CollectionID := ''c'', nft_TokenID := ''1''\<rparr>)"
    by (simp_all add: demo_nft_tx_def demo_tx_def SignedTransaction_zero_def IsAMM_def IsNFTMint_def IsNFTTransfer_def go_eval)
  have l: "fmlookup (NFTs demo_nft_ledger) ''c/1'' = Some demo_token" "\<not> tok_Burned demo_token" "tok_Owner demo_token = ''0xa''"
    by (simp_all add: demo_nft_ledger_def demo_token_def)
  show ?thesis by (simp add: Transaction_def f applyNFTTransfer_def v verify k l Let_def)
qed
definition demo_gold :: AMMPayload where
  "demo_gold = demo_payload\<lparr>amm_AssetOut := ''GOLD''\<rparr>"

end
