(* ===== verification/LedgerProperties.thy ===== *)
theory LedgerProperties
  imports Demo
begin

text \<open>
  What the ledger promises: conservation of the supply, exact transfers, replay protection, tokens,
  pools, lottery tickets, contract calls and signatures, each with an instance at which its hypotheses hold.
\<close>

section \<open>The supply\<close>

text \<open>
  C3. On a ledger whose books are in order (no negative balance or reserve, every total below 2^63)
  an applied transaction changes the total supply of each asset, held by accounts or by pools,
  by exactly the amount its kind issues or burns, and no balance or reserve becomes negative.
\<close>

theorem transaction_supply_exact:
  assumes "Transaction E l t = Some (l', t', True)" and "sound l" and "\<forall>a. supply_of l a + issued E l t' a < 2 ^ 63"
  shows "solvent l' \<and> (\<forall>a. supply_of l' a = supply_of l a + issued E l t' a)"
  using assms Transaction_supply unfolding sound_def by blast

theorem transaction_supply_exact_witness:
  "\<exists>l'. Transaction demo_env demo_ledger demo_tx = Some (l', demo_tx, True) \<and> solvent l' \<and>
     supply_of l' AssetPKN = supply_of demo_ledger AssetPKN"
proof -
  have "\<forall>a. supply_of demo_ledger a + issued demo_env demo_ledger demo_tx a < 2 ^ 63"
    using demo_ledger_sound by (simp add: sound_def bounded_def demo_issues_nothing)
  from transaction_supply_exact [OF demo_applied demo_ledger_sound this] demo_applied
  show ?thesis by (simp add: demo_issues_nothing)
qed

text \<open>
  C4. A sequence of transactions that are neither mints, nor operator credits, nor swaps keeps
  the books in order, and no asset's total supply grows.
\<close>

theorem transfers_never_inflate:
  assumes "run_ops (apply_step E) l ts = Some l'" and "sound l" and "list_all no_issue ts"
  shows "sound l' \<and> (\<forall>a. supply_of l' a \<le> supply_of l a)"
  using sound_run.run_inv [OF assms(2,3,1)] sound_run_supply [OF assms] by blast

theorem transfers_never_inflate_witness:
  "\<exists>l'. run_ops (apply_step demo_env) demo_ledger [demo_tx] = Some l' \<and> sound l' \<and>
     supply_of l' AssetPKN \<le> supply_of demo_ledger AssetPKN"
proof -
  have ok: "list_all no_issue [demo_tx]"
    by (simp add: no_issue_def demo_tx_def SignedTransaction_zero_def IsMint_def)
  obtain l' where "run_ops (apply_step demo_env) demo_ledger [demo_tx] = Some l'"
    by (simp add: apply_step_def demo_applied)
  with transfers_never_inflate [OF this demo_ledger_sound ok] show ?thesis by blast
qed

section \<open>Replay\<close>



section \<open>Refusals, transfers and tokens\<close>

text \<open>
  C8. A transaction that is refused leaves accounts, nonces, validators, tokens, assets, pools,
  receipts and history as they were; at most the contract accounts keep what a failed call wrote.
\<close>

theorem refused_transaction_changes_nothing:
  assumes "Transaction E l t = Some (l', t', False)"
  shows "l'\<lparr>EVMAccounts := EVMAccounts l\<rparr> = l \<and> (\<not> IsEVM t \<or> IsAMM t \<or> IsNFT t \<or> IsMint t \<longrightarrow> l' = l)"
proof -
  have "l' = l\<lparr>EVMAccounts := EVMAccounts l'\<rparr>" using assms by (rule Transaction_False)
  then have "l'\<lparr>EVMAccounts := EVMAccounts l\<rparr> = (l\<lparr>EVMAccounts := EVMAccounts l'\<rparr>)\<lparr>EVMAccounts := EVMAccounts l\<rparr>" by metis
  moreover have "l' = l" if "IsAMM t \<or> IsNFT t \<or> IsMint t"
    using that assms unfolding Transaction_def IsNFT_def
    by (auto split: if_splits dest: applyAMM_False applyNFTMint_False applyNFTTransfer_False applyMint_False)
  moreover have "l' = l" if "\<not> IsEVM t" "\<not> (IsAMM t \<or> IsNFT t \<or> IsMint t)"
  proof -
    have "applyTransfer E l t = Some (l', t', False)" using that(2) assms by (simp add: Transaction_def IsNFT_def)
    with that Verify_same [of E t "tx_From t"] show ?thesis
      by (auto simp: applyTransfer_def split: if_splits option.splits prod.splits dest: applyPlainTransfer_False)
  qed
  ultimately show ?thesis by auto
qed

theorem refused_transaction_changes_nothing_witness:
  "Transaction demo_env MakeLedger (demo_tx\<lparr>tx_Amount := 6\<rparr>) = Some (MakeLedger, demo_tx\<lparr>tx_Amount := 6\<rparr>, False) \<and>
     MakeLedger\<lparr>EVMAccounts := EVMAccounts MakeLedger\<rparr> = MakeLedger"
proof -
  have "Transaction demo_env MakeLedger (demo_tx\<lparr>tx_Amount := 6\<rparr>) = Some (MakeLedger, demo_tx\<lparr>tx_Amount := 6\<rparr>, False)"
    by (simp add: Transaction_def IsAMM_def IsNFTMint_def IsNFTTransfer_def IsMint_def applyTransfer_def IsEVM_def Verify_def VerifyEVM_def
      decodeEVM_def demo_env_def demo_eth_def demo_tx_def SignedTransaction_zero_def EVMUnit_def go_eval)
  with refused_transaction_changes_nothing [OF this] show ?thesis by blast
qed

text \<open>
  C7. A plain transfer takes the amount from the sender, gives it to the recipient and touches no
  other account; a transfer to oneself changes no balance.
\<close>

theorem transfer_moves_exactly:
  assumes "Transaction E l t = Some (l', t', True)" and "sound l" and "\<not> IsAMM t" "\<not> IsNFT t" "\<not> IsMint t" and "\<not> contract_call E t"
  shows "tx_Amount t \<le> GetBalance l (tx_From t) \<and> (\<forall>a. GetBalance l' a =
    (if tx_From t = tx_To t then GetBalance l a
     else GetBalance l a - (if a = tx_From t then tx_Amount t else 0) + (if a = tx_To t then tx_Amount t else 0)))"
  using assms(1)
proof (cases rule: Transaction_True)
  case plain
  have amount: "0 \<le> tx_Amount t" using applyTransfer_True(3) [OF plain(7,1)] .
  have le: "tx_Amount t \<le> GetBalance l (tx_From t)" using applyPlainTransfer_True(1) [OF plain(4)] by (simp add: GetBalance_def)
  have holds: "0 \<le> GetBalance l a \<and> GetBalance l a < 2 ^ 63" for a
    using assms(2) solvent_holding [of l AssetPKN a] bounded_holding [of l AssetPKN a]
    by (simp add: sound_def holdings_def GetBalance_def)
  show ?thesis
  proof (cases "tx_From t = tx_To t")
    case True
    have "GetBalance l' a = GetBalance l a" for a
      using applyPlainTransfer_True(2) [OF plain(4)] True holds [of "tx_From t"] amount
      by (auto simp: GetBalance_def ledger_ops i64_sub_add in_i64_def)
    with le True show ?thesis by simp
  next
    case False
    have "GetBalance l (tx_From t) + GetBalance l (tx_To t) < 2 ^ 63"
      using assms(2) msum_ge2 [of "Accounts l" "tx_From t" "tx_To t"] False solvent_supply(2) [of l AssetPKN]
      by (fastforce simp: sound_def solvent_def bounded_def holdings_def GetBalance_def split: if_splits dest: spec [of _ AssetPKN])
    with plain_balances [OF plain(4)] le holds [of "tx_From t"] holds [of "tx_To t"] amount False
    show ?thesis by (simp add: in_i64_def)
  qed
next
  case contract
  from contract(7) have "contract_call E t" by (rule applyEVM_True) (auto simp: contract_call_def contract)
  with assms(6) show ?thesis by simp
qed (use assms in \<open>simp_all add: IsNFT_def\<close>)

theorem transfer_moves_exactly_witness:
  "\<exists>l'. Transaction demo_env demo_ledger demo_tx = Some (l', demo_tx, True) \<and>
     GetBalance l' ''0xa'' = 2 \<and> GetBalance l' ''0xb'' = 5 \<and> GetBalance l' ''0xc'' = 0"
proof -
  have "\<not> IsAMM demo_tx" "\<not> IsNFT demo_tx" "\<not> IsMint demo_tx" "\<not> contract_call demo_env demo_tx"
    by (simp_all add: IsAMM_def IsNFT_def IsNFTMint_def IsNFTTransfer_def IsMint_def contract_call_def demo_tx_def SignedTransaction_zero_def
      decodeEVM_def demo_env_def demo_eth_def go_eval)
  from transfer_moves_exactly [OF demo_applied demo_ledger_sound this] demo_applied show ?thesis
    by (simp add: demo_tx_def SignedTransaction_zero_def demo_ledger_def SetBalance_def MakeLedger_def GetBalance_def)
qed



section \<open>Pools\<close>

text \<open>
  C10. On a ledger whose books are in order, no transaction removes a pool, renames its assets or
  lowers the product of its reserves: rounding and fees of a swap go to the pool.
\<close>

theorem pool_product_never_falls:
  assumes "Transaction E l t = Some (l', t', True)" and "sound l" and "fmlookup (AMMPools l) k = Some p"
  shows "\<exists>p'. fmlookup (AMMPools l') k = Some p' \<and> pool_AssetA p' = pool_AssetA p \<and> pool_AssetB p' = pool_AssetB p \<and>
     pool_ReserveA p * pool_ReserveB p \<le> pool_ReserveA p' * pool_ReserveB p'"
proof -
  have "pool_kept l' k p"
    using assms(1)
  proof (cases rule: Transaction_True)
    case amm
    from amm(2) obtain t1 q q' l1 where a: "tx_AMM t1 = Some q" "t1 = normalizeAMM t \<or> t1 = normalizeAMM (normalizeAMM t)"
      "ammAction l t1 q = (l1, q', True)" "l' = advanceNonce (recordTx l1 t') t'"
      by (rule applyAMM_True)
    then have "normalized_payload q" using normalizeAMM_payload by blast
    with a(3) assms(2,3) have "pool_kept l1 k p" by (blast intro: ammAction_product)
    then show ?thesis by (simp add: pool_kept_def a(4) ledger_ops)
  next
    case nft_mint
    then show ?thesis using applyNFTMint_frame [OF nft_mint(3,1)] assms(3) by (simp add: pool_kept_def)
  next
    case nft_transfer
    then show ?thesis using applyNFTTransfer_frame [OF nft_transfer(3,1)] assms(3) by (simp add: pool_kept_def)
  next
    case mint
    then show ?thesis using applyMint_True(5) [OF mint(3,1)] assms(3) by (simp add: pool_kept_def ledger_ops Let_def)
  next
    case plain
    then show ?thesis using applyPlainTransfer_True(2) [OF plain(4)] assms(3) by (simp add: pool_kept_def ledger_ops)
  next
    case contract
    from contract(7) have "AMMPools l' = AMMPools l" by (rule applyEVM_True) (simp add: Let_def)
    with assms(3) show ?thesis by (simp add: pool_kept_def)
  qed
  then show ?thesis by (simp add: pool_kept_def pool_product_def)
qed

theorem pool_product_never_falls_witness:
  "\<exists>l' t' p'. Transaction demo_env demo_pool_ledger demo_swap = Some (l', t', True) \<and> fmlookup (AMMPools l') ''PKN-WPKN'' = Some p' \<and>
     1000 * 1000 \<le> pool_ReserveA p' * pool_ReserveB p'"
proof -
  have pool: "fmlookup (AMMPools demo_pool_ledger) ''PKN-WPKN'' = Some demo_pool" by (simp add: demo_pool_ledger_def)
  obtain l' t' where a: "Transaction demo_env demo_pool_ledger demo_swap = Some (l', t', True)" using demo_swap_applied by blast
  from pool_product_never_falls [OF a demo_pool_sound pool] a show ?thesis by (auto simp: demo_pool_def)
qed


section \<open>The lottery\<close>



section \<open>What a signature covers\<close>

text \<open>
  Neither the hash nor the signature of a block covers its transactions: whoever relays
  a block can replace them and the block keeps its identity and a valid signature.
\<close>

theorem block_transactions_unsigned:
  "hash_of E (b\<lparr>blk_MetaData := m\<rparr>) = hash_of E b \<and> block_signed E (b\<lparr>blk_MetaData := m\<rparr>) = block_signed E b"
  by (simp add: hash_MetaData signed_MetaData)

text \<open>
  C18. The signature of an EVM transfer does not cover its kind: whoever relays a valid
  transfer can submit it as a mint, which credits the recipient without debiting the sender and
  without using the nonce, so that it can be repeated.
\<close>

theorem evm_transfer_accepted_as_mint:
  assumes "Verify E t (tx_From t) = Some (t, True)" and "HasPrefix (tx_Signature t) ''evm:''" and "\<not> IsAMM t"
    and "1 \<le> tx_Amount t" and "0 < GetBalance l (tx_From t)"
  shows "\<exists>l'. Transaction E l (t\<lparr>tx_Kind := ''mint''\<rparr>) = Some (l', t\<lparr>tx_Kind := ''mint''\<rparr>, True) \<and> Nonces l' = Nonces l \<and>
    Accounts l' = fmupd (tx_To t) (i64 (GetBalance l (tx_To t) + tx_Amount t)) (Accounts l)"
proof -
  let ?t = "t\<lparr>tx_Kind := ''mint''\<rparr>"
  have "tx_AMM t = None" using assms(3) by (simp add: IsAMM_def)
  then have kinds: "\<not> IsAMM ?t" "IsEVM ?t" "IsEVM t" "\<not> IsNFTMint ?t" "\<not> IsNFTTransfer ?t" "IsMint ?t"
    using assms(2) by (simp_all add: IsAMM_def IsEVM_def IsNFTMint_def IsNFTTransfer_def IsMint_def HasPrefix_def)
  have "VerifyEVM E t (tx_From t) = (t, True)" using assms(1) kinds by (simp add: Verify_def)
  then have "VerifyEVM E ?t (tx_From t) = (?t, True)"
    using assms(3) kinds(1) by (rule VerifyEVM_kind [rotated 2])
  then have "Verify E ?t (tx_From t) = Some (?t, True)" using kinds by (simp add: Verify_def)
  then show ?thesis
    using assms(4,5) kinds by (simp add: Transaction_def applyMint_def GetBalance_def ledger_ops Let_def)
qed

theorem evm_transfer_accepted_as_mint_witness:
  "\<exists>l'. Transaction demo_env demo_ledger (demo_tx\<lparr>tx_Kind := ''mint''\<rparr>) = Some (l', demo_tx\<lparr>tx_Kind := ''mint''\<rparr>, True) \<and>
     GetBalance l' ''0xa'' = 7 \<and> GetBalance l' ''0xb'' = 5"
proof -
  have t: "tx_From demo_tx = ''0xa''" "tx_To demo_tx = ''0xb''" "tx_Amount demo_tx = 5" "tx_Signature demo_tx = ''evm:00''" "\<not> IsAMM demo_tx"
    by (simp_all add: demo_tx_def SignedTransaction_zero_def IsAMM_def go_eval)
  have b: "GetBalance demo_ledger ''0xa'' = 7" "Accounts demo_ledger = fmupd ''0xa'' 7 fmempty"
    by (simp_all add: demo_ledger_def SetBalance_def MakeLedger_def GetBalance_def)
  have e: "HasPrefix ''evm:00'' ''evm:''" by code_simp
  from evm_transfer_accepted_as_mint [of demo_env demo_tx demo_ledger] demo_verify t b e
  show ?thesis by (auto simp: GetBalance_def i64_def)
qed

text \<open>
  A swap pays out in the asset its sender names, not in the pool's other asset: naming a third asset
  issues that asset from nothing.
\<close>

theorem swap_issues_named_asset:
  assumes "ammSwap l t p = (l', p', True)" and "sound l" and "normalized_payload p" and "amm_Action p = ''amm_swap''"
    and "fmlookup (AMMPools l) (normalizePoolID (amm_PoolID p)) = Some pool"
    and "amm_AssetOut p \<noteq> counter_asset pool (amm_AssetIn p)" and "supply_of l (amm_AssetOut p) + amm_AmountOut p' < 2 ^ 63"
  shows "0 < amm_AmountOut p' \<and> supply_of l' (amm_AssetOut p) = supply_of l (amm_AssetOut p) + amm_AmountOut p'"
proof -
  from assms(1) obtain out where out: "p' = p\<lparr>amm_AmountOut := out\<rparr>" "QuoteSwap pool (amm_AssetIn p) (amm_AmountIn p) = (out, True)"
    using assms(5) by (auto elim: ammSwap_True)
  then have pos: "0 < out" using QuoteSwap_bounds(4) [OF out(2)] by (metis surj_pair)
  have issue: "amm_issued l p' (amm_AssetOut p) = out" using out(1) assms(4,5,6) by (simp add: amm_issued_def)
  have "supply_of l' (amm_AssetOut p) = supply_of l (amm_AssetOut p) + amm_issued l p' (amm_AssetOut p)"
    by (rule ammSwap_supply(2) [OF assms(1)]) (use assms out issue in \<open>auto simp: sound_def\<close>)
  with pos issue out(1) show ?thesis by simp
qed

theorem swap_issues_named_asset_witness:
  "\<exists>l'. ammSwap demo_pool_ledger demo_swap demo_gold = (l', demo_gold\<lparr>amm_AmountOut := 90\<rparr>, True) \<and> supply_of l' ''GOLD'' = 90"
proof -
  have pool: "fmlookup (AMMPools demo_pool_ledger) ''PKN-WPKN'' = Some demo_pool" by (simp add: demo_pool_ledger_def)
  have same: "amm_AssetIn demo_gold = amm_AssetIn demo_payload" "amm_AmountIn demo_gold = amm_AmountIn demo_payload"
    "amm_PoolID demo_gold = amm_PoolID demo_payload" "amm_AssetOut demo_gold = ''GOLD''" by (simp_all add: demo_gold_def)
  have can: "canDebitAssetLocked demo_pool_ledger (amm_AssetIn demo_payload) (SafeEncode demo_wallet) (amm_AmountIn demo_payload)"
    using demo_holder_nonempty
    by (simp add: canDebitAssetLocked_def demo_assets demo_holder_def [symmetric] demo_pool_ledger_def) (simp add: demo_payload_def)
  have p: "1 \<le> amm_AmountIn demo_payload" "amm_MinAmountOut demo_gold = 0" "amm_Action demo_gold = ''amm_swap''"
    by (simp_all add: demo_gold_def demo_payload_def AMMPayload_zero_def)
  have "\<exists>l'. ammSwap demo_pool_ledger demo_swap demo_gold = (l', demo_gold\<lparr>amm_AmountOut := 90\<rparr>, True)"
    using p can by (simp add: ammSwap_def same demo_pool_id pool demo_quote demo_applySwap demo_swap_verify Let_def)
  then obtain l' where l': "ammSwap demo_pool_ledger demo_swap demo_gold = (l', demo_gold\<lparr>amm_AmountOut := 90\<rparr>, True)" ..
  have n: "normalized_payload demo_gold" "''GOLD'' \<noteq> counter_asset demo_pool (amm_AssetIn demo_payload)"
    unfolding normalized_payload_def by code_simp+
  have s: "supply_of demo_pool_ledger ''GOLD'' = 0"
    by (simp add: supply_of_def holdings_def pooled_def demo_pool_ledger_def demo_pool_def MakeLedger_def AssetPKN_def reserve_of_def)
  from swap_issues_named_asset [OF l' demo_pool_sound n(1) p(3), of demo_pool] l' pool n(2) s
  show ?thesis by (simp add: same demo_pool_id)
qed

text \<open>
  A block whose verification key is shorter than 256 bytes stops the node that receives it: the
  signature check slices the key out of range.
\<close>

theorem short_key_panics:
  assumes "calculateDepths E (Blocks b) = Some (depths, nodes)" and "mhas depths (blk_ParentHash block)"
    and "b64_decode (blk_Signature block) = Some s" and "b64_decode (blk_VerificationKey block) = Some k" and "length k < 256"
  shows "AddBlock E b block = None"
  using AddBlock_short_key assms by (simp add: WALLET_KEY_SIZE_def)

theorem short_key_panics_witness:
  "AddBlock demo_env demo_chain (demo_block\<lparr>blk_Signature := [], blk_VerificationKey := []\<rparr>) = None"
  by (rule short_key_panics [OF demo_calc, where s = "[]" and k = "[]"]) (simp_all add: demo_block_fields demo_depths_def b64_decode_def)

end
