(* ===== verification/ChainProperties.thy ===== *)
theory ChainProperties
  imports Demo
begin

text \<open>
  What the block tree promises: which blocks are accepted, what ledger they give, the canonical
  chain and the choice between forks, hardness, and the round trips of what blocks carry.
\<close>

text \<open>
  C1. A block enters the tree only when its parent is in the tree, its signature is the one of its
  key, its draw is the one of its lottery proof and beats the threshold that its key's tickets on
  the parent's ledger and the effective hardness give, and each of its at most 16 transactions is
  applied in turn on the parent's ledger. It is appended at the end; a refused block changes nothing.
\<close>

theorem accepted_block_valid:
  assumes "AddBlock E b block = Some (b', ok)"
  shows "if \<not> ok then Blocks b' = Blocks b
    else Blocks b' = Blocks b @ [block] \<and>
      (\<exists>depths nodes g genesis parentLedger tickets hardness txs.
        calculateDepths E (Blocks b) = Some (depths, nodes) \<and> mhas depths (blk_ParentHash block) \<and>
        block_signed E block = Some True \<and>
        fmlookup nodes (getGenesisHash nodes) = Some g \<and> decodeGenesisFromMeta (blk_MetaData g) = Some genesis \<and>
        buildLedgerAtHash E nodes (blk_ParentHash block) = Some parentLedger \<and>
        LotteryTickets parentLedger (blk_VerificationKey block) = Some tickets \<and> 0 < tickets \<and>
        lottery_draw_ok E genesis block = Some True \<and>
        effectiveHardnessForBlock nodes (Some genesis) block = Some hardness \<and>
        WinsLottery tickets (newcomer_hardness parentLedger genesis block hardness) (blk_Draw block) \<and>
        DecodeBlockTransactions (blk_MetaData block) = Some txs \<and> length txs \<le> 16 \<and>
        all_apply E parentLedger txs = Some True)"
proof -
  from assms obtain depths nodes where c: "calculateDepths E (Blocks b) = Some (depths, nodes)"
    and v: "block_valid E depths nodes block = Some ok" and blocks: "Blocks b' = (if ok then Blocks b @ [block] else Blocks b)"
    by (rule AddBlock_cases)
  show ?thesis
  proof (cases ok)
    case False
    with blocks show ?thesis by simp
  next
    case True
    with v have "block_valid E depths nodes block = Some True" by simp
    then show ?thesis
      by (rule block_valid_True) (use True blocks c in \<open>auto simp: BLOCK_SIZE_def\<close>)
  qed
qed

theorem accepted_block_valid_witness:
  "AddBlock demo_env demo_chain demo_block = Some (demo_chain\<lparr>Blocks := [demo_genesis, demo_block]\<rparr>, True) \<and>
   block_signed demo_env demo_block = Some True"
  using accepted_block_valid [OF demo_accepted] demo_accepted by auto

text \<open>
  C2. The ledger of a newly accepted block is the parent's ledger with every transaction of the
  block applied in order, the miner registered as a validator and paid the reward of 10 coins; its
  depth is the parent's plus one.
\<close>

theorem accepted_block_ledger:
  assumes "AddBlock E b block = Some (b', True)" and "tree_blocks E (Blocks b @ [block])" and "Blocks b \<noteq> []"
  shows "\<exists>depths nodes depths' nodes' d parentLedger txs l.
    calculateDepths E (Blocks b) = Some (depths, nodes) \<and> calculateDepths E (Blocks b') = Some (depths', nodes') \<and>
    fmlookup depths (blk_ParentHash block) = Some d \<and> fmlookup depths' (hash_of E block) = Some (d + 1) \<and>
    buildLedgerAtHash E nodes (blk_ParentHash block) = Some parentLedger \<and>
    DecodeBlockTransactions (blk_MetaData block) = Some txs \<and> apply_all E parentLedger txs = Some l \<and>
    buildLedgerAtHash E nodes' (hash_of E block) =
      Some (credit (MarkValidator l (blk_VerificationKey block)) (blk_VerificationKey block) 10)"
proof -
  from assms(1) obtain depths nodes where c: "calculateDepths E (Blocks b) = Some (depths, nodes)"
    and v: "block_valid E depths nodes block = Some True" and blocks: "Blocks b' = Blocks b @ [block]"
    by (rule AddBlock_cases) simp
  from v obtain g genesis parentLedger txs where f: "mhas depths (blk_ParentHash block)" "block_signed E block = Some True"
    "fmlookup nodes (getGenesisHash nodes) = Some g" "decodeGenesisFromMeta (blk_MetaData g) = Some genesis"
    "buildLedgerAtHash E nodes (blk_ParentHash block) = Some parentLedger"
    "DecodeBlockTransactions (blk_MetaData block) = Some txs" "all_apply E parentLedger txs = Some True"
    by (rule block_valid_True)
  from f(1) obtain d where d: "fmlookup depths (blk_ParentHash block) = Some d" by (auto simp: mhas_def)
  note new = snoc_branch(1) [OF assms(2,3) c f(2) d] and ledger = ledger_at_new_block [OF assms(2,3) c f(2) d f(5,3,4)]
  from all_apply_apply_all [OF f(7)] obtain l where l: "apply_all E parentLedger txs = Some l"
    "apply_all E (MarkValidator parentLedger (blk_VerificationKey block)) txs = Some (MarkValidator l (blk_VerificationKey block))"
    by blast
  have "apply_block E parentLedger block = Some (credit (MarkValidator l (blk_VerificationKey block)) (blk_VerificationKey block) 10)"
    using l(2) f(6) by (simp add: apply_block_def MINER_BLOCK_REWARD_def Let_def)
  with ledger new blocks c d f(5,6) l(1) show ?thesis by auto
qed

theorem accepted_block_ledger_witness:
  "\<exists>depths' nodes' l. calculateDepths demo_env [demo_genesis, demo_block] = Some (depths', nodes') \<and>
     fmlookup depths' (hash_of demo_env demo_block) = Some 1 \<and>
     buildLedgerAtHash demo_env nodes' (hash_of demo_env demo_block) = Some l"
proof -
  have "tree_blocks demo_env (Blocks demo_chain @ [demo_block])" "Blocks demo_chain \<noteq> []" using demo_tree(2) by (simp_all add: demo_Blocks)
  from accepted_block_ledger [OF demo_accepted this] obtain depths nodes depths' nodes' d l where
    "calculateDepths demo_env (Blocks demo_chain) = Some (depths, nodes)"
    "calculateDepths demo_env [demo_genesis, demo_block] = Some (depths', nodes')"
    "fmlookup depths (blk_ParentHash demo_block) = Some d" "fmlookup depths' (hash_of demo_env demo_block) = Some (d + 1)"
    "buildLedgerAtHash demo_env nodes' (hash_of demo_env demo_block) = Some l"
    by auto
  with demo_calc show ?thesis by (auto simp: demo_block_fields demo_depths_def)
qed

text \<open>
  C11. The canonical chain exists whenever the depths can be computed (the walk to the genesis block ends): it
  starts at a block with the genesis block's hash, each block names the hash of the one before,
  it ends in the selected leaf, and its length is the best height plus one.
\<close>

theorem canonical_chain_linked:
  assumes "tree_blocks E (Blocks b)" and "calculateDepths E (Blocks b) = Some (depths, nodes)"
  shows "\<exists>bs. CanonicalBlocks E b 0 = Some bs \<and> bs \<noteq> [] \<and> set bs \<subseteq> set (Blocks b) \<and>
    hash_of E (hd bs) = hash_of E (hd (Blocks b)) \<and> chain_up E (getLeafHash depths) (rev bs) \<and>
    BestLeafHash E b = Some (getLeafHash depths) \<and> BestHeight E b = Some (int (length bs) - 1)"
proof -
  from assms obtain bs where "CanonicalBlocks E b 0 = Some bs" "chain_up E (getLeafHash depths) (rev bs)"
    "BestHeight E b = Some (int (length bs) - 1)" "set bs \<subseteq> set (Blocks b)" "bs \<noteq> []" "hash_of E (hd bs) = hash_of E (hd (Blocks b))"
    by (rule canonical_chain)
  moreover have "BestLeafHash E b = Some (getLeafHash depths)" using assms(2) by (simp add: BestLeafHash_def)
  ultimately show ?thesis by blast
qed

theorem canonical_chain_linked_witness:
  "\<exists>bs. CanonicalBlocks demo_env demo_chain 0 = Some bs \<and> bs \<noteq> [] \<and> BestHeight demo_env demo_chain = Some (int (length bs) - 1)"
  using canonical_chain_linked [OF demo_tree(1) demo_calc] by blast

text \<open>
  C12. Which leaf is selected does not depend on the order in which the map of depths is visited:
  it is the deepest block and, among those, the one with the smallest hash.
\<close>

theorem fork_choice_deterministic:
  assumes "tree_blocks E bs" and "calculateDepths E bs = Some (depths, nodes)" and "set order = fset (fmdom depths)"
  shows "leaf_scan order depths (-1) [] = getLeafHash depths \<and> best_leaf depths (set order) (getLeafHash depths)"
proof -
  have tree: "tree_ok E (set bs) (hd bs) (length bs - 1) depths nodes" using assms(1,2) by (rule calculateDepths_ok [rotated])
  have "hash_of E (hd bs) \<in> set order"
    using tree assms(3) by (auto simp: tree_ok_def fmlookup_dom_iff)
  then have ne: "order \<noteq> []" by auto
  have pos: "\<forall>h \<in> set order. 0 \<le> mget 0 depths h"
    using tree_depth [OF tree] by (simp add: mget_def split: option.split)
  have "best_leaf depths (set order) (leaf_scan order depths (-1) [])" using ne pos by (rule leaf_scan_best)
  moreover have "best_leaf depths (set order) (getLeafHash depths)"
    using tree by (rule tree_leaf) (simp add: assms(3))
  ultimately show ?thesis using best_leaf_unique by blast
qed

theorem fork_choice_deterministic_witness:
  "leaf_scan [demo_hash, demo_hash] demo_depths (-1) [] = getLeafHash demo_depths"
  using fork_choice_deterministic [OF demo_tree(1) demo_calc, of "[demo_hash, demo_hash]"]
  by (simp add: demo_depths_def)

text \<open>
  C13. A ledger rebuilt from a chain, at any rollback, is well-formed: pools, tokens, receipts and
  history are filed under their own keys, pools have two different normalised assets, tokens
  have an owner, and the transactions that pools and tokens name are in the history.
\<close>

theorem rebuilt_ledger_wf:
  assumes "LedgerFromBlockchain E b rollback = Some l"
  shows "ledger_wf l"
  using assms by (auto simp: LedgerFromBlockchain_def split: prod.splits intro: buildLedger_wf)

theorem rebuilt_ledger_wf_witness:
  "\<exists>l. LedgerFromBlockchain demo_env demo_chain 0 = Some l \<and> ledger_wf l"
proof -
  have leaf: "getLeafHash demo_depths = demo_hash" by (simp add: getLeafHash_def demo_depths_def mkeys_def sorted_list_of_fset.rep_eq)
  have "LedgerFromBlockchain demo_env demo_chain 0 = Some MakeLedger"
    by (simp add: LedgerFromBlockchain_def demo_calc leaf getBlocksFromLongestBranch_def demo_branch drop_last_def
      buildLedgerFromBlocks_def demo_meta demo_first_ledger)
  from rebuilt_ledger_wf [OF this] this show ?thesis by blast
qed

text \<open>
  C6. A block that a wallet builds for a slot it wins is accepted by every node that has its parent:
  with a key of 256 bytes, tickets on the parent's ledger, at most 16 plain transactions that apply
  and a winning draw, \<open>AddBlock\<close> appends the candidate.
\<close>

theorem mined_block_accepted:
  assumes "rsa_key w" and "length (big_Bytes (key_n w)) = WALLET_KEY_SIZE" and "\<forall>m. length (sha256 E m) = 32"
    and "calculateDepths E (Blocks b) = Some (depths, nodes)" "mhas depths p"
    and "fmlookup nodes (getGenesisHash nodes) = Some g" "decodeGenesisFromMeta (blk_MetaData g) = Some genesis"
    and "buildLedgerAtHash E nodes p = Some parentLedger"
    and "LotteryTickets parentLedger (SafeEncode w) = Some tickets" "0 < tickets"
    and "list_all plain_tx txs" "length txs \<le> BLOCK_SIZE" "all_apply E parentLedger txs = Some True"
    and "block = NewCandidateBlock E w slot p txs (Seed genesis)"
    and "effectiveHardnessForBlock nodes (Some genesis) block = Some hardness"
    and "WinsLottery tickets (newcomer_hardness parentLedger genesis block hardness) (blk_Draw block)"
  shows "AddBlock E b block = Some (b\<lparr>Blocks := Blocks b @ [block]\<rparr>, True)"
  using candidate_accepted assms by blast

theorem mined_block_accepted_witness:
  "AddBlock demo_env demo_chain (NewCandidateBlock demo_env demo_wallet 1 demo_hash [] 0) =
     Some (demo_chain\<lparr>Blocks := [demo_genesis, demo_block]\<rparr>, True)"
proof -
  let ?g = "applyDefaultDynamicHardnessConfig GenesisMetaData_zero"
  have block: "demo_block = NewCandidateBlock demo_env demo_wallet 1 demo_hash [] (Seed ?g)"
    by (simp add: demo_block_def GenesisMetaData_zero_def)
  have h: "effectiveHardnessForBlock demo_nodes (Some ?g) demo_block = Some 100"
    by (simp add: effectiveHardnessForBlock_def demo_block_def NewCandidateBlock_fields getBlocksFromLongestBranch_def demo_branch
      EffectiveHardnessForMining_def applyDefaultDynamicHardnessConfig_def GenesisMetaData_zero_def clampHardness_def Let_def)
  have sha: "\<forall>m. length (sha256 demo_env m) = 32" by (simp add: demo_sha_length)
  have "AddBlock demo_env demo_chain demo_block = Some (demo_chain\<lparr>Blocks := Blocks demo_chain @ [demo_block]\<rparr>, True)"
    by (rule mined_block_accepted [OF demo_wallet_ok sha demo_calc _ _ demo_meta demo_parent_ledger demo_tickets _ _ _ _ block h])
      (use demo_draw demo_genesis_node in \<open>simp_all add: demo_depths_def newcomer_hardness_def WinsLottery_def
        IsValidator_def GetBalance_def MakeLedger_def GenesisMetaData_zero_def\<close>)
  then show ?thesis by (simp add: demo_Blocks demo_block_def)
qed

text \<open>
  C17. The hardness a block is judged by always lies between the minimum and the maximum that the
  genesis settings, completed by the defaults, give, and is positive.
\<close>

theorem hardness_in_bounds:
  "0 < EffectiveHardnessForMining blocks (Some g) n \<and>
   DynamicHardnessMin (applyDefaultDynamicHardnessConfig g) \<le> EffectiveHardnessForMining blocks (Some g) n \<and>
   EffectiveHardnessForMining blocks (Some g) n \<le> DynamicHardnessMax (applyDefaultDynamicHardnessConfig g)"
proof -
  let ?d = "applyDefaultDynamicHardnessConfig g"
  obtain v where v: "EffectiveHardnessForMining blocks (Some g) n = clampHardness v (DynamicHardnessMin ?d) (DynamicHardnessMax ?d)"
    using EffectiveHardness_clamp by blast
  show ?thesis unfolding v using clampHardness_range [OF defaults_positive(2,3), where v = v] defaults_positive(2) by (auto intro: less_le_trans)
qed

text \<open>
  A transaction that a wallet of 256-byte modulus builds, of any native kind, passes the
  signature check of the account it is sent from.
\<close>

theorem own_transactions_verify:
  assumes "rsa_key w" and "length (big_Bytes (key_n w)) = WALLET_KEY_SIZE" and "\<forall>m. length (sha256 E m) = 32"
    and "t \<in> {NewSignedTransaction E i w to n, NewMintTransaction E i w to n, NewNFTMintTransaction E i w c k o1 u h m,
           NewNFTTransferTransaction E i w c k to, NewAssetCreditTransaction E i w a to n, NewAssetDebitTransaction E i w a to n,
           NewAMMCreatePoolTransaction E i w a a', NewAMMAddLiquidityTransaction E i w p n n'}"
  shows "tx_From t = SafeEncode w \<and> Verify E t (tx_From t) = Some (t, True)"
proof -
  have amm: "tx_From (newOperatorAMMTransaction E i w to p) = SafeEncode w \<and>
      Verify E (newOperatorAMMTransaction E i w to p) (SafeEncode w) = Some (newOperatorAMMTransaction E i w to p, True)"
    if "ToLower (TrimSpace (amm_Action p)) \<noteq> ''evm''" for to p
    unfolding newOperatorAMMTransaction_def Let_def
    by (rule conjI [OF _ signed_verifies [OF assms(1,2)]])
      (use that assms(3) in \<open>simp_all add: normalizeAMM_def Let_def normalizeFields_def fillPayload_def\<close>)
  have act: "ToLower (TrimSpace ''asset_credit'') \<noteq> ''evm''" "ToLower (TrimSpace ''asset_debit'') \<noteq> ''evm''"
    "ToLower (TrimSpace ''amm_create_pool'') \<noteq> ''evm''" "ToLower (TrimSpace ''amm_add_liquidity'') \<noteq> ''evm''" by code_simp+
  have native: "Verify E (signTransaction E s (key_d w) (key_n w)) (SafeEncode w) = Some (signTransaction E s (key_d w) (key_n w), True)"
    if "tx_Kind s \<noteq> ''evm''" for s using signed_verifies [OF assms(1,2) _ that] assms(3) by blast
  show ?thesis
    using assms(4) amm act native
    by (auto simp: NewSignedTransaction_def NewMintTransaction_def NewNFTMintTransaction_def NewNFTTransferTransaction_def
      NewAssetCreditTransaction_def NewAssetDebitTransaction_def NewAMMCreatePoolTransaction_def NewAMMAddLiquidityTransaction_def
      Let_def SignedTransaction_zero_def)
qed

theorem own_transactions_verify_witness:
  "Verify demo_env (NewSignedTransaction demo_env ''1'' demo_wallet ''0xb'' 5) (SafeEncode demo_wallet) =
     Some (NewSignedTransaction demo_env ''1'' demo_wallet ''0xb'' 5, True)"
proof -
  have sha: "\<forall>m. length (sha256 demo_env m) = 32" by (simp add: demo_sha_length)
  from own_transactions_verify [OF demo_wallet_ok sha, of _ "''1''" "''0xb''" 5] show ?thesis by fastforce
qed

text \<open>
  C15. The transactions of a block survive the trip through its metadata, when their texts are ASCII.
\<close>

theorem block_transactions_survive:
  assumes "list_all plain_tx txs"
  shows "DecodeBlockTransactions (EncodeBlockTransactions txs) = Some txs"
  using assms by (rule block_transactions_roundtrip)

theorem block_transactions_survive_witness:
  "DecodeBlockTransactions (EncodeBlockTransactions [demo_tx, demo_tx]) = Some [demo_tx, demo_tx]"
  by (rule block_transactions_survive) (simp add: plain_tx_def demo_tx_def SignedTransaction_zero_def in_i64_def)

text \<open>
  C14. A node started from genesis settings has exactly the balances they list: the settings survive the
  genesis block's metadata, the fresh chain's canonical ledger gives every account its initial balance,
  and the validators are the accounts with a positive one.
\<close>

theorem fresh_chain_ledger:
  assumes "plain_genesis g" and "\<forall>m. length (sha256 E m) = 32"
  shows "decodeGenesisFromMeta (blk_MetaData (hd (Blocks (NewBlockchainWithGenesis g)))) = Some (applyDefaultDynamicHardnessConfig g) \<and>
    (\<exists>l. LedgerFromBlockchain E (NewBlockchainWithGenesis g) 0 = Some l \<and> Accounts l = InitialBalances g \<and>
      (\<forall>a. IsValidator l a \<longleftrightarrow> mget 0 (InitialBalances g) a > 0) \<and> TxCount l = 0)"
proof -
  let ?d = "applyDefaultDynamicHardnessConfig g"
  have "decodeGenesisFromMeta (blk_MetaData (hd (Blocks (NewBlockchainWithGenesis g)))) = Some ?d"
    using assms(1) by (simp add: NewBlockchainWithGenesis_def Let_def genesis_roundtrip)
  moreover have "TxCount (InitializeFromGenesis MakeLedger ?d) = 0" by (simp add: TxCount_def InitializeFromGenesis_def MakeLedger_def)
  ultimately show ?thesis using fresh_replay [OF assms, of 0] genesis_ledger by simp
qed

theorem fresh_chain_ledger_witness:
  "\<exists>l. LedgerFromBlockchain demo_env demo_chain 0 = Some l \<and> Accounts l = fmempty"
proof -
  have g: "plain_genesis GenesisMetaData_zero" by (simp add: plain_genesis_def GenesisMetaData_zero_def in_i64_def)
  have sha: "\<forall>m. length (sha256 demo_env m) = 32" by (simp add: demo_sha_length)
  from fresh_chain_ledger [OF g sha] show ?thesis by (auto simp: demo_chain_def GenesisMetaData_zero_def)
qed

text \<open>
  Looking up a pool by the identifier it was created under finds it: for asset names without
  dash, underscore or slash the identifier is the same for both orders of the assets and is a fixed
  point of the normalisation that every lookup applies.
\<close>

theorem pool_identifier_stable:
  assumes "plain_asset a" and "plain_asset b"
  shows "PoolID a b = PoolID b a \<and> normalizePoolID (PoolID a b) = PoolID a b"
  using PoolID_commute normalizePoolID_PoolID [OF assms] by blast

theorem pool_identifier_stable_witness: "normalizePoolID (PoolID ''wpkn'' '' pkn'') = ''PKN-WPKN''"
proof -
  have "plain_asset ''wpkn''" "plain_asset '' pkn''" unfolding plain_asset_def by code_simp+
  from pool_identifier_stable [OF this] show ?thesis by simp code_simp
qed

text \<open>
  A read-only call leaves the ledger as it was, when the machine keeps the snapshots taken before it.
\<close>

theorem call_is_read_only:
  assumes "\<forall>c db from to input gas. take (length (ad_snapshots db))
      (ad_snapshots (fst (evm_StaticCall E c db from to input gas))) = ad_snapshots db"
  shows "fst (CallEVM E l from to input) = l"
proof -
  obtain s1 i where s: "Snapshot (newEVMStateAdapter (EVMAccounts l)) = (s1, i)" by force
  let ?c = "evm_StaticCall E (newLedgerEVM (HexToAddress E from)) s1 (HexToAddress E from) (HexToAddress E to) input 5000000"
  have "ad_accounts (RevertToSnapshot (fst ?c) i) = EVMAccounts l"
    using Snapshot_restore(1) [OF s, of "fst ?c"] assms by (simp add: newEVMStateAdapter_def)
  then show ?thesis by (auto simp: CallEVM_def s Let_def split: prod.split)
qed

theorem call_is_read_only_witness: "fst (CallEVM demo_env demo_ledger ''0xa'' ''0xb'' []) = demo_ledger"
  by (rule call_is_read_only) (simp add: demo_env_def)

end
