(* ===== verification/Wire.thy ===== *)
theory Wire
  imports ChainFacts
begin

text \<open>
  The messages peers exchange (\<open>message.go\<close>, \<open>helpers/constants.go\<close> and the framing of \<open>peer.go\<close>):
  a message, its JSON text behind a four-byte length, and the JSON of what messages carry
  (blocks, peer addresses, the handshake and the chain synchronisation). A stream is a list of
  bytes; reading takes one frame off its front. Shown: a frame that is written is read again.
\<close>

section \<open>Messages\<close>

definition MESSAGE_HEADER_SIZE :: nat where "MESSAGE_HEADER_SIZE = 4"

definition CONNECT_MESSAGE_TYPE :: string where "CONNECT_MESSAGE_TYPE = ''Wave''"
definition PING_MESSAGE_TYPE :: string where "PING_MESSAGE_TYPE = ''Ping''"
definition PONG_MESSAGE_TYPE :: string where "PONG_MESSAGE_TYPE = ''Pong''"
definition TRANSACTION_MESSAGE_TYPE :: string where "TRANSACTION_MESSAGE_TYPE = ''Transaction''"
definition JOIN_MESSAGE_TYPE :: string where "JOIN_MESSAGE_TYPE = ''Join''"
definition POS_TRANSACTION_MESSAGE_TYPE :: string where "POS_TRANSACTION_MESSAGE_TYPE = ''PoSTransaction''"
definition BLOCK_MESSAGE_TYPE :: string where "BLOCK_MESSAGE_TYPE = ''Block''"
definition CHAIN_SYNC_REQUEST_MESSAGE_TYPE :: string where "CHAIN_SYNC_REQUEST_MESSAGE_TYPE = ''ChainSyncRequest''"
definition CHAIN_SYNC_RESPONSE_MESSAGE_TYPE :: string where "CHAIN_SYNC_RESPONSE_MESSAGE_TYPE = ''ChainSyncResponse''"

lemmas message_types = CONNECT_MESSAGE_TYPE_def PING_MESSAGE_TYPE_def PONG_MESSAGE_TYPE_def TRANSACTION_MESSAGE_TYPE_def
  JOIN_MESSAGE_TYPE_def POS_TRANSACTION_MESSAGE_TYPE_def BLOCK_MESSAGE_TYPE_def CHAIN_SYNC_REQUEST_MESSAGE_TYPE_def
  CHAIN_SYNC_RESPONSE_MESSAGE_TYPE_def

text \<open>The payload is a byte slice, which may be nil (\<open>None\<close>).\<close>

record Message =
  msg_Type :: string
  msg_MsgID :: string
  msg_From :: string
  msg_Payload :: "bytes option"

definition Message_zero :: Message where
  "Message_zero = \<lparr>msg_Type = [], msg_MsgID = [], msg_From = [], msg_Payload = None\<rparr>"

definition payload_bytes :: "Message \<Rightarrow> bytes" where
  "payload_bytes m = (case msg_Payload m of None \<Rightarrow> [] | Some b \<Rightarrow> b)"

definition message_json :: "Message \<Rightarrow> json" where
  "message_json m = JObj [(''Type'', JStr (msg_Type m)), (''MsgID'', JStr (msg_MsgID m)), (''From'', JStr (msg_From m)),
     (''Payload'', case msg_Payload m of None \<Rightarrow> JNull | Some b \<Rightarrow> JStr (b64_encode b))]"

fun dec_byte :: "json \<Rightarrow> char option" where
  "dec_byte JNull = Some CHR 0x00"
| "dec_byte (JNum n) = (case ParseUint n of None \<Rightarrow> None | Some w \<Rightarrow> if unat w < 256 then Some (char_of (unat w)) else None)"
| "dec_byte _ = None"

fun dec_bytes :: "json \<Rightarrow> bytes option option" where
  "dec_bytes JNull = Some None"
| "dec_bytes (JStr s) = map_option Some (b64_decode s)"
| "dec_bytes (JArr vs) = map_option Some (those (map dec_byte vs))"
| "dec_bytes _ = None"

definition message_step :: "string \<Rightarrow> json \<Rightarrow> Message \<Rightarrow> Message option" where
  "message_step k v m =
     (if EqualFold k ''Type'' then map_option (\<lambda>x. m\<lparr>msg_Type := x\<rparr>) (dec_string v (msg_Type m))
      else if EqualFold k ''MsgID'' then map_option (\<lambda>x. m\<lparr>msg_MsgID := x\<rparr>) (dec_string v (msg_MsgID m))
      else if EqualFold k ''From'' then map_option (\<lambda>x. m\<lparr>msg_From := x\<rparr>) (dec_string v (msg_From m))
      else if EqualFold k ''Payload'' then map_option (\<lambda>x. m\<lparr>msg_Payload := x\<rparr>) (dec_bytes v)
      else Some m)"

section \<open>Frames\<close>

definition PutUint32 :: "nat \<Rightarrow> bytes" where
  "PutUint32 n = [char_of (n div 16777216 mod 256), char_of (n div 65536 mod 256), char_of (n div 256 mod 256), char_of (n mod 256)]"

text \<open>The bytes that \<open>writeMessage\<close> puts on a connection; the encoder ends the text with a newline.\<close>

definition writeMessage :: "Message \<Rightarrow> bytes" where
  "writeMessage m = (let data = json_marshal (message_json m) @ [CHR 0x0A] in PutUint32 (length data) @ data)"

text \<open>
  \<open>readMessage\<close> on the bytes that are left: the message and what follows it, or an error. The
  decoder takes the first JSON value of the frame and does not look at what comes after it.
\<close>

definition readMessage :: "bytes \<Rightarrow> (Message \<times> bytes) option" where
  "readMessage s =
     (if length s < MESSAGE_HEADER_SIZE then None
      else let n = BytesToBigInt (take MESSAGE_HEADER_SIZE s); s = drop MESSAGE_HEADER_SIZE s in
        if n = 0 \<or> length s < n then None
        else let payload = take n s in
          case parse_value (Suc (2 * length payload)) 0 payload of
            None \<Rightarrow> None
          | Some (v, _) \<Rightarrow> map_option (\<lambda>m. (m, drop n s)) (dec_struct message_step v Message_zero))"

section \<open>Payloads\<close>

definition block_json :: "Block \<Rightarrow> json" where
  "block_json b = JObj [(''Type'', JStr (blk_Type b)), (''VerificationKey'', JStr (blk_VerificationKey b)),
     (''Slot'', JNum (Itoa (blk_Slot b))), (''Draw'', JNum (Itoa (blk_Draw b))), (''MetaData'', JStr (blk_MetaData b)),
     (''ParentHash'', JStr (blk_ParentHash b)), (''Signature'', JStr (blk_Signature b)), (''LotteryProof'', JStr (blk_LotteryProof b))]"

definition Block_zero :: Block where
  "Block_zero = \<lparr>blk_Type = [], blk_VerificationKey = [], blk_Slot = 0, blk_Draw = 0, blk_MetaData = [], blk_ParentHash = [],
     blk_Signature = [], blk_LotteryProof = []\<rparr>"

definition block_step :: "string \<Rightarrow> json \<Rightarrow> Block \<Rightarrow> Block option" where
  "block_step k v b =
     (if EqualFold k ''Type'' then map_option (\<lambda>x. b\<lparr>blk_Type := x\<rparr>) (dec_string v (blk_Type b))
      else if EqualFold k ''VerificationKey'' then map_option (\<lambda>x. b\<lparr>blk_VerificationKey := x\<rparr>) (dec_string v (blk_VerificationKey b))
      else if EqualFold k ''Slot'' then map_option (\<lambda>x. b\<lparr>blk_Slot := x\<rparr>) (dec_int v (blk_Slot b))
      else if EqualFold k ''Draw'' then map_option (\<lambda>x. b\<lparr>blk_Draw := x\<rparr>) (dec_int v (blk_Draw b))
      else if EqualFold k ''MetaData'' then map_option (\<lambda>x. b\<lparr>blk_MetaData := x\<rparr>) (dec_string v (blk_MetaData b))
      else if EqualFold k ''ParentHash'' then map_option (\<lambda>x. b\<lparr>blk_ParentHash := x\<rparr>) (dec_string v (blk_ParentHash b))
      else if EqualFold k ''Signature'' then map_option (\<lambda>x. b\<lparr>blk_Signature := x\<rparr>) (dec_string v (blk_Signature b))
      else if EqualFold k ''LotteryProof'' then map_option (\<lambda>x. b\<lparr>blk_LotteryProof := x\<rparr>) (dec_string v (blk_LotteryProof b))
      else Some b)"

text \<open>\<open>json.Unmarshal\<close> into a fresh structure.\<close>

definition unmarshal :: "(string \<Rightarrow> json \<Rightarrow> 'a \<Rightarrow> 'a option) \<Rightarrow> 'a \<Rightarrow> bytes \<Rightarrow> 'a option" where
  "unmarshal step zero raw = (case json_parse raw of None \<Rightarrow> None | Some v \<Rightarrow> dec_struct step v zero)"

record PeerAddress =
  adr_ID :: string
  adr_Host :: string
  adr_Port :: int

definition PeerAddress_zero :: PeerAddress where
  "PeerAddress_zero = \<lparr>adr_ID = [], adr_Host = [], adr_Port = 0\<rparr>"

definition address_json :: "PeerAddress \<Rightarrow> json" where
  "address_json a = JObj [(''id'', JStr (adr_ID a)), (''host'', JStr (adr_Host a)), (''port'', JNum (Itoa (adr_Port a)))]"

definition address_step :: "string \<Rightarrow> json \<Rightarrow> PeerAddress \<Rightarrow> PeerAddress option" where
  "address_step k v a =
     (if EqualFold k ''id'' then map_option (\<lambda>x. a\<lparr>adr_ID := x\<rparr>) (dec_string v (adr_ID a))
      else if EqualFold k ''host'' then map_option (\<lambda>x. a\<lparr>adr_Host := x\<rparr>) (dec_string v (adr_Host a))
      else if EqualFold k ''port'' then map_option (\<lambda>x. a\<lparr>adr_Port := x\<rparr>) (dec_int v (adr_Port a))
      else Some a)"

text \<open>The handshake. The list of peers may be nil.\<close>

record connectPayload =
  cp_Peers :: "string list option"
  cp_Addresses :: "PeerAddress list"
  cp_Address :: string
  cp_Validator :: string
  cp_GenesisHash :: string
  cp_Height :: int
  cp_BestHash :: string

definition connectPayload_zero :: connectPayload where
  "connectPayload_zero = \<lparr>cp_Peers = None, cp_Addresses = [], cp_Address = [], cp_Validator = [], cp_GenesisHash = [], cp_Height = 0,
     cp_BestHash = []\<rparr>"

definition connect_json :: "connectPayload \<Rightarrow> json" where
  "connect_json p = JObj ([(''peers'', case cp_Peers p of None \<Rightarrow> JNull | Some ps \<Rightarrow> JArr (map JStr ps))] @
     (if cp_Addresses p = [] then [] else [(''addresses'', JArr (map address_json (cp_Addresses p)))]) @
     str_member ''address'' (cp_Address p) @ str_member ''validator'' (cp_Validator p) @ str_member ''genesisHash'' (cp_GenesisHash p) @
     num_member ''height'' (cp_Height p) @ str_member ''bestHash'' (cp_BestHash p))"

fun dec_peers :: "json \<Rightarrow> string list option option" where
  "dec_peers JNull = Some None"
| "dec_peers (JArr vs) = map_option Some (those (map (\<lambda>v. dec_string v []) vs))"
| "dec_peers _ = None"

definition connect_step :: "string \<Rightarrow> json \<Rightarrow> connectPayload \<Rightarrow> connectPayload option" where
  "connect_step k v p =
     (if EqualFold k ''peers'' then map_option (\<lambda>x. p\<lparr>cp_Peers := x\<rparr>) (dec_peers v)
      else if EqualFold k ''addresses'' then
        map_option (\<lambda>x. p\<lparr>cp_Addresses := x\<rparr>) (dec_slice (dec_struct address_step) PeerAddress_zero v)
      else if EqualFold k ''address'' then map_option (\<lambda>x. p\<lparr>cp_Address := x\<rparr>) (dec_string v (cp_Address p))
      else if EqualFold k ''validator'' then map_option (\<lambda>x. p\<lparr>cp_Validator := x\<rparr>) (dec_string v (cp_Validator p))
      else if EqualFold k ''genesisHash'' then map_option (\<lambda>x. p\<lparr>cp_GenesisHash := x\<rparr>) (dec_string v (cp_GenesisHash p))
      else if EqualFold k ''height'' then map_option (\<lambda>x. p\<lparr>cp_Height := x\<rparr>) (dec_int v (cp_Height p))
      else if EqualFold k ''bestHash'' then map_option (\<lambda>x. p\<lparr>cp_BestHash := x\<rparr>) (dec_string v (cp_BestHash p))
      else Some p)"

record chainSyncRequest =
  req_GenesisHash :: string
  req_FromHeight :: int

definition request_json :: "chainSyncRequest \<Rightarrow> json" where
  "request_json r = JObj [(''genesisHash'', JStr (req_GenesisHash r)), (''fromHeight'', JNum (Itoa (req_FromHeight r)))]"

definition request_step :: "string \<Rightarrow> json \<Rightarrow> chainSyncRequest \<Rightarrow> chainSyncRequest option" where
  "request_step k v r =
     (if EqualFold k ''genesisHash'' then map_option (\<lambda>x. r\<lparr>req_GenesisHash := x\<rparr>) (dec_string v (req_GenesisHash r))
      else if EqualFold k ''fromHeight'' then map_option (\<lambda>x. r\<lparr>req_FromHeight := x\<rparr>) (dec_int v (req_FromHeight r))
      else Some r)"

record chainSyncResponse =
  resp_GenesisHash :: string
  resp_Height :: int
  resp_Blocks :: "Block list"

definition response_json :: "chainSyncResponse \<Rightarrow> json" where
  "response_json r = JObj [(''genesisHash'', JStr (resp_GenesisHash r)), (''height'', JNum (Itoa (resp_Height r))),
     (''blocks'', JArr (map block_json (resp_Blocks r)))]"

definition response_step :: "string \<Rightarrow> json \<Rightarrow> chainSyncResponse \<Rightarrow> chainSyncResponse option" where
  "response_step k v r =
     (if EqualFold k ''genesisHash'' then map_option (\<lambda>x. r\<lparr>resp_GenesisHash := x\<rparr>) (dec_string v (resp_GenesisHash r))
      else if EqualFold k ''height'' then map_option (\<lambda>x. r\<lparr>resp_Height := x\<rparr>) (dec_int v (resp_Height r))
      else if EqualFold k ''blocks'' then
        map_option (\<lambda>x. r\<lparr>resp_Blocks := x\<rparr>) (dec_slice (dec_struct block_step) Block_zero v)
      else Some r)"

section \<open>Round trips\<close>

lemma PutUint32_value:
  assumes "n < 2 ^ 32"
  shows "BytesToBigInt (PutUint32 n) = n" and "length (PutUint32 n) = MESSAGE_HEADER_SIZE"
proof -
  have parts: "n div 65536 = n div 256 div 256" "n div 16777216 = n div 256 div 256 div 256" by (simp_all flip: div_mult2_eq)
  have "n div 256 div 256 div 256 < 256" using assms by (simp add: less_mult_imp_div_less flip: parts(2))
  then show "BytesToBigInt (PutUint32 n) = n"
    by (simp add: PutUint32_def BytesToBigInt_def parts mult_div_mod_eq)
  show "length (PutUint32 n) = MESSAGE_HEADER_SIZE" by (simp add: PutUint32_def MESSAGE_HEADER_SIZE_def)
qed

definition ascii_message :: "Message \<Rightarrow> bool" where
  "ascii_message m \<longleftrightarrow> ascii (msg_Type m) \<and> ascii (msg_MsgID m) \<and> ascii (msg_From m)"

lemma message_members:
  "dec_members message_step ((''Type'', JStr v) # ms) m = dec_members message_step ms (m\<lparr>msg_Type := v\<rparr>)"
  "dec_members message_step ((''MsgID'', JStr v) # ms) m = dec_members message_step ms (m\<lparr>msg_MsgID := v\<rparr>)"
  "dec_members message_step ((''From'', JStr v) # ms) m = dec_members message_step ms (m\<lparr>msg_From := v\<rparr>)"
  "dec_members message_step ((''Payload'', case p of None \<Rightarrow> JNull | Some b \<Rightarrow> JStr (b64_encode b)) # ms) m =
     dec_members message_step ms (m\<lparr>msg_Payload := p\<rparr>)"
  by (auto simp: message_step_def ToLower_def EqualFold_def lower_char_def split: option.splits)

lemma dec_message: "dec_struct message_step (message_json m) Message_zero = Some m"
  by (cases m) (simp add: message_json_def message_members Message_zero_def del: dec_members.simps(2))

lemma wf_message_json:
  assumes "ascii_message m"
  shows "wf_json (message_json m)" and "json_depth (message_json m) \<le> 1"
proof -
  show "wf_json (message_json m)"
    using assms ascii_b64_encode by (auto simp: message_json_def ascii_message_def split: option.splits)
  show "json_depth (message_json m) \<le> 1"
    by (auto simp: message_json_def split: option.splits)
qed

text \<open>
  A value in front of a newline: the parser stops behind the closing brace of an object, whatever comes next.
\<close>

lemma parse_object_prefix:
  assumes "wf_json (JObj ms)" and "ms \<noteq> []" and "json_depth (JObj ms) \<le> max_depth" and "json_need (JObj ms) \<le> f"
  shows "parse_value f 0 (json_marshal (JObj ms) @ r) = Some (JObj ms, r)"
proof -
  obtain k v ms' where ms: "ms = (k, v) # ms'" using assms(2) by (cases ms) auto
  obtain f' where f: "f = Suc f'" using assms(4) by (cases f) auto
  have "parse_members f' (Suc 0) (json_members ms @ CHR ''}'' # r) = Some (ms, r)"
  proof (rule parse_marshal(3) [OF assms(2)])
    show "list_all (\<lambda>(k, v). ascii k \<and> wf_json v) ms" using assms(1) by simp
    show "sum_list (map (\<lambda>(k, v). Suc (json_need v)) ms) \<le> f'" using assms(4) by (simp add: f)
    show "list_all (\<lambda>(k, v). Suc 0 + json_depth v \<le> max_depth) ms"
      using assms(3) depth_elem [of 0 "\<lambda>(k, v). json_depth v" ms max_depth] by (fastforce simp: list_all_iff)
  qed
  moreover obtain t where t: "json_members ms @ CHR ''}'' # r = quote # t" by (simp add: ms marshal_string_def)
  ultimately show ?thesis
    by (simp add: f quote_def max_depth_def) (simp add: skip_ws_cons quote_def is_ws_def)
qed

lemma readMessage_frame:
  assumes "0 < length d" and "length d < 2 ^ 32" and "parse_value (Suc (2 * length d)) 0 d = Some (v, r)"
    and "dec_struct message_step v Message_zero = Some m"
  shows "readMessage (PutUint32 (length d) @ d @ rest) = Some (m, rest)"
proof -
  note h = PutUint32_value [OF assms(2)]
  have "take MESSAGE_HEADER_SIZE (PutUint32 (length d) @ d @ rest) = PutUint32 (length d)"
    "drop MESSAGE_HEADER_SIZE (PutUint32 (length d) @ d @ rest) = d @ rest" using h(2) by simp_all
  then show ?thesis
    using assms(1,3,4) h by (simp add: readMessage_def Let_def del: parse_value.simps)
qed

lemma read_write_message:
  assumes "ascii_message m" and "length (json_marshal (message_json m)) + 1 < 2 ^ 32"
  shows "readMessage (writeMessage m @ rest) = Some (m, rest)"
proof -
  let ?t = "json_marshal (message_json m)" and ?d = "json_marshal (message_json m) @ [CHR 0x0A]"
  obtain ms where ms: "message_json m = JObj ms" "ms \<noteq> []" by (simp add: message_json_def)
  note wf = wf_message_json [OF assms(1)]
  have need: "json_need (message_json m) \<le> 2 * length ?t - 1" using wf(1) by (rule json_need_length)
  have "parse_value (Suc (2 * length ?d)) 0 ?d = Some (message_json m, [CHR 0x0A])"
    unfolding ms(1) by (rule parse_object_prefix) (use wf need ms in \<open>auto simp: max_depth_def\<close>)
  then have "readMessage (PutUint32 (length ?d) @ ?d @ rest) = Some (m, rest)"
    by (rule readMessage_frame [rotated 2]) (use assms(2) dec_message in simp_all)
  then show ?thesis by (simp add: writeMessage_def Let_def)
qed

text \<open>Structures survive JSON when their texts are ASCII and their integers are in range.\<close>

lemma unmarshal_marshal:
  assumes "wf_json v" and "json_depth v \<le> max_depth" and "dec_struct step v zero = Some x"
  shows "unmarshal step zero (json_marshal v) = Some x"
  using json_parse_marshal [OF assms(1,2)] assms(3) by (simp add: unmarshal_def)

definition plain_block :: "Block \<Rightarrow> bool" where
  "plain_block b \<longleftrightarrow> ascii (blk_Type b) \<and> ascii (blk_VerificationKey b) \<and> in_i64 (blk_Slot b) \<and> in_i64 (blk_Draw b) \<and>
     ascii (blk_MetaData b) \<and> ascii (blk_ParentHash b) \<and> ascii (blk_Signature b) \<and> ascii (blk_LotteryProof b)"

lemma block_members:
  "dec_members block_step ((''Type'', JStr v) # ms) b = dec_members block_step ms (b\<lparr>blk_Type := v\<rparr>)"
  "dec_members block_step ((''VerificationKey'', JStr v) # ms) b = dec_members block_step ms (b\<lparr>blk_VerificationKey := v\<rparr>)"
  "dec_members block_step ((''MetaData'', JStr v) # ms) b = dec_members block_step ms (b\<lparr>blk_MetaData := v\<rparr>)"
  "dec_members block_step ((''ParentHash'', JStr v) # ms) b = dec_members block_step ms (b\<lparr>blk_ParentHash := v\<rparr>)"
  "dec_members block_step ((''Signature'', JStr v) # ms) b = dec_members block_step ms (b\<lparr>blk_Signature := v\<rparr>)"
  "dec_members block_step ((''LotteryProof'', JStr v) # ms) b = dec_members block_step ms (b\<lparr>blk_LotteryProof := v\<rparr>)"
  "in_i64 i \<Longrightarrow> dec_members block_step ((''Slot'', JNum (Itoa i)) # ms) b = dec_members block_step ms (b\<lparr>blk_Slot := i\<rparr>)"
  "in_i64 i \<Longrightarrow> dec_members block_step ((''Draw'', JNum (Itoa i)) # ms) b = dec_members block_step ms (b\<lparr>blk_Draw := i\<rparr>)"
  by (simp_all add: block_step_def ToLower_def EqualFold_def lower_char_def)

lemma dec_block: "plain_block b \<Longrightarrow> dec_struct block_step (block_json b) Block_zero = Some b"
  by (cases b) (simp add: block_json_def block_members Block_zero_def plain_block_def del: dec_members.simps(2))

lemma wf_block_json: "plain_block b \<Longrightarrow> wf_json (block_json b)" "json_depth (block_json b) \<le> Suc 0"
  by (simp_all add: block_json_def plain_block_def)

lemma block_roundtrip: "plain_block b \<Longrightarrow> unmarshal block_step Block_zero (json_marshal (block_json b)) = Some b"
  by (rule unmarshal_marshal) (use wf_block_json [of b] dec_block in \<open>auto simp: max_depth_def\<close>)

lemma tx_roundtrip: "plain_tx t \<Longrightarrow> unmarshal tx_step SignedTransaction_zero (json_marshal (tx_json t)) = Some t"
  by (rule unmarshal_marshal) (use wf_tx_json depth_tx_json [of t] dec_tx_json in \<open>auto simp: max_depth_def dec_tx_def\<close>)

definition request_zero :: chainSyncRequest where
  "request_zero = \<lparr>req_GenesisHash = [], req_FromHeight = 0\<rparr>"

definition response_zero :: chainSyncResponse where
  "response_zero = \<lparr>resp_GenesisHash = [], resp_Height = 0, resp_Blocks = []\<rparr>"

lemma request_roundtrip:
  assumes "ascii (req_GenesisHash r)" and "in_i64 (req_FromHeight r)"
  shows "unmarshal request_step request_zero (json_marshal (request_json r)) = Some r"
proof (rule unmarshal_marshal)
  show "wf_json (request_json r)" "json_depth (request_json r) \<le> max_depth"
    using assms by (simp_all add: request_json_def max_depth_def)
  show "dec_struct request_step (request_json r) request_zero = Some r"
    using assms(2) by (cases r) (simp add: request_json_def request_zero_def request_step_def ToLower_def EqualFold_def lower_char_def)
qed

lemma response_roundtrip:
  assumes "ascii (resp_GenesisHash r)" and "in_i64 (resp_Height r)" and "list_all plain_block (resp_Blocks r)"
  shows "unmarshal response_step response_zero (json_marshal (response_json r)) = Some r"
proof (rule unmarshal_marshal)
  show "wf_json (response_json r)" using assms wf_block_json(1) by (auto simp: response_json_def list_all_iff)
  have "json_depth (JArr (map block_json (resp_Blocks r))) \<le> Suc (Suc 0)"
    by (rule depth_arr) (use wf_block_json(2) in \<open>simp add: list_all_iff\<close>)
  then have "json_depth (response_json r) \<le> Suc (Suc (Suc 0))"
    unfolding response_json_def by (intro depth_obj) (simp del: json_depth.simps(1))
  then show "json_depth (response_json r) \<le> max_depth" by (rule order.trans) (simp add: max_depth_def)
  have "those (map (\<lambda>v. dec_struct block_step v Block_zero) (map block_json (resp_Blocks r))) = Some (map id (resp_Blocks r))"
    unfolding map_map comp_def by (rule those_map_Some) (use assms(3) dec_block in \<open>auto simp: list_all_iff\<close>)
  then show "dec_struct response_step (response_json r) response_zero = Some r"
    using assms(2) by (cases r) (simp add: response_json_def response_zero_def response_step_def ToLower_def EqualFold_def lower_char_def comp_def)
qed

end
