(* ===== verification/PeerState.thy ===== *)
theory PeerState
  imports Wire
begin

text \<open>
  The state of a peer (\<open>peer.go\<close>): the record, its identity, the address book, the handshake
  payload, the chain status it announces and the queries of the operations server.

  Locks make every operation one step, so they have no field; neither have the output channel and
  the start time, which nothing depends on. A connection is a number; the entry for the peer itself
  is nil (\<open>None\<close>). The pointers to blockchain, genesis settings and miner may be nil. A range over
  a map visits the keys in an unspecified order; where that only orders a list that is sent or shown,
  \<open>mkeys\<close> stands for it.
\<close>

type_synonym conn = nat

record MessageHistory =
  hist_content :: "Message option"
  hist_receivedFrom :: "string list"
  hist_isSent :: bool

definition MessageHistory_zero :: MessageHistory where
  "MessageHistory_zero = \<lparr>hist_content = None, hist_receivedFrom = [], hist_isSent = False\<rparr>"

definition NewMessageHistory :: "Message \<Rightarrow> MessageHistory" where
  "NewMessageHistory msg = \<lparr>hist_content = Some msg, hist_receivedFrom = [], hist_isSent = False\<rparr>"

record Peer =
  p_listenport :: int
  p_id :: string
  p_conns :: "(string, conn option) gomap"
  p_peerValidators :: "(string, string) gomap"
  p_peerAddresses :: "(string, PeerAddress) gomap"
  p_advertiseHost :: string
  p_msgHistory :: "(string, MessageHistory) gomap"
  p_ledger :: Ledger
  p_blockchain :: "Blockchain option"
  p_genesis :: "GenesisMetaData option"
  p_miner :: "Account option"
  p_mempool :: "(string, SignedTransaction) gomap"
  p_finalityDepth :: int
  p_acceptedBlocks :: u64
  p_minedBlocks :: u64
  p_acceptedTxs :: u64
  p_lotteryAttempts :: u64
  p_lotteryWins :: u64
  p_lotteryMisses :: u64
  p_lotteryNoTicket :: u64

definition NewPeer :: "int \<Rightarrow> Peer" where
  "NewPeer listenport = \<lparr>p_listenport = listenport, p_id = Itoa listenport, p_conns = fmempty, p_peerValidators = fmempty,
     p_peerAddresses = fmempty, p_advertiseHost = [], p_msgHistory = fmempty, p_ledger = MakeLedger, p_blockchain = None,
     p_genesis = None, p_miner = None, p_mempool = fmempty, p_finalityDepth = 0, p_acceptedBlocks = 0, p_minedBlocks = 0,
     p_acceptedTxs = 0, p_lotteryAttempts = 0, p_lotteryWins = 0, p_lotteryMisses = 0, p_lotteryNoTicket = 0\<rparr>"

section \<open>Identity and addresses\<close>

text \<open>\<open>net.JoinHostPort\<close> and \<open>net.SplitHostPort\<close>.\<close>

definition JoinHostPort :: "string \<Rightarrow> string \<Rightarrow> string" where
  "JoinHostPort host port = (if CHR '':'' \<in> set host then ''['' @ host @ '']:'' @ port else host @ '':'' @ port)"

definition SplitHostPort :: "string \<Rightarrow> (string \<times> string) option" where
  "SplitHostPort s =
     (if CHR '':'' \<notin> set s then None
      else let port = rev (takeWhile (\<lambda>c. c \<noteq> CHR '':'') (rev s)); head = take (length s - length port - 1) s in
        if hd s = CHR ''['' then
          (let inner = takeWhile (\<lambda>c. c \<noteq> CHR '']'') (tl s) in
           if CHR '']'' \<notin> set s \<or> head \<noteq> ''['' @ inner @ '']'' \<or> CHR ''['' \<in> set (tl s) \<or> CHR '']'' \<in> set port then None
           else Some (inner, port))
        else if CHR '':'' \<in> set head \<or> CHR ''['' \<in> set s \<or> CHR '']'' \<in> set s then None
        else Some (head, port))"

text \<open>Unpadded base64 with the alphabet for URLs.\<close>

definition rawurl_encode :: "bytes \<Rightarrow> string" where
  "rawurl_encode b = map (\<lambda>c. if c = CHR ''+'' then CHR ''-'' else if c = CHR ''/'' then CHR ''_'' else c)
     (filter (\<lambda>c. c \<noteq> CHR ''='') (b64_encode b))"

definition peerID :: "'a ethlib_scheme \<Rightarrow> string \<Rightarrow> int \<Rightarrow> string" where
  "peerID E host port =
     (let host = ToLower (TrimSpace host) in
      if host = [] then Itoa port
      else ''peer-'' @ rawurl_encode (take 16 (sha256 E (JoinHostPort host (Itoa port)))))"

definition rekey_map :: "string \<Rightarrow> string \<Rightarrow> ('v \<Rightarrow> 'v) \<Rightarrow> (string, 'v) gomap \<Rightarrow> (string, 'v) gomap" where
  "rekey_map oldID newID f m = (case fmlookup m oldID of None \<Rightarrow> m | Some v \<Rightarrow> fmupd newID (f v) (fmdrop oldID m))"

definition rekeyLocked :: "Peer \<Rightarrow> string \<Rightarrow> string \<Rightarrow> Peer" where
  "rekeyLocked p oldID newID =
     (if oldID = [] \<or> newID = [] \<or> oldID = newID then p
      else p\<lparr>p_id := newID, p_conns := rekey_map oldID newID (\<lambda>c. c) (p_conns p),
             p_peerValidators := rekey_map oldID newID (\<lambda>v. v) (p_peerValidators p),
             p_peerAddresses := rekey_map oldID newID (\<lambda>a. a\<lparr>adr_ID := newID\<rparr>) (p_peerAddresses p)\<rparr>)"

definition SetAdvertiseHost :: "'a ethlib_scheme \<Rightarrow> Peer \<Rightarrow> string \<Rightarrow> Peer" where
  "SetAdvertiseHost E p host =
     (let host = TrimSpace host in
      if host = [] then p
      else let oldID = p_id p; newID = peerID E host (p_listenport p);
               p = (if newID \<noteq> oldID then rekeyLocked p oldID newID else p);
               p = p\<lparr>p_advertiseHost := host\<rparr>
        in p\<lparr>p_peerAddresses := fmupd (p_id p) \<lparr>adr_ID = p_id p, adr_Host = host, adr_Port = p_listenport p\<rparr> (p_peerAddresses p)\<rparr>)"

definition connection :: "Peer \<Rightarrow> string \<Rightarrow> conn option" where
  "connection p i = mget None (p_conns p) i"

definition hasConnection :: "Peer \<Rightarrow> string \<Rightarrow> bool" where
  "hasConnection p i \<longleftrightarrow> mhas (p_conns p) i"

definition connectionSnapshot :: "Peer \<Rightarrow> (string, conn option) gomap" where
  "connectionSnapshot p = p_conns p"

definition connectionIDs :: "Peer \<Rightarrow> string list" where
  "connectionIDs p = mkeys (p_conns p)"

definition PeerCount :: "Peer \<Rightarrow> int" where
  "PeerCount p = (let conns = connectionSnapshot p in if fcard (fmdom conns) = 0 then 0 else int (fcard (fmdom conns)) - 1)"

definition usable_address :: "PeerAddress \<Rightarrow> bool" where
  "usable_address a \<longleftrightarrow> adr_ID a \<noteq> [] \<and> adr_Host a \<noteq> [] \<and> adr_Port a > 0"

definition recordPeerAddress :: "Peer \<Rightarrow> PeerAddress \<Rightarrow> Peer" where
  "recordPeerAddress p address =
     (if \<not> usable_address address then p else p\<lparr>p_peerAddresses := fmupd (adr_ID address) address (p_peerAddresses p)\<rparr>)"

definition recordPeerValidator :: "Peer \<Rightarrow> string \<Rightarrow> string \<Rightarrow> Peer" where
  "recordPeerValidator p peer validator =
     (let validator = TrimSpace validator in
      if peer = [] \<or> validator = [] then p else p\<lparr>p_peerValidators := fmupd peer validator (p_peerValidators p)\<rparr>)"

fun seen_addresses :: "PeerAddress list \<Rightarrow> (string, PeerAddress) gomap \<Rightarrow> (string, PeerAddress) gomap" where
  "seen_addresses [] seen = seen"
| "seen_addresses (a # as) seen = seen_addresses as (if usable_address a then fmupd (adr_ID a) a seen else seen)"

text \<open>The values of the map, sorted by their identifiers, which are its keys.\<close>

definition uniquePeerAddresses :: "PeerAddress list \<Rightarrow> PeerAddress list" where
  "uniquePeerAddresses addresses = (let seen = seen_addresses addresses fmempty in map (mget PeerAddress_zero seen) (mkeys seen))"

definition findPeerAddress :: "PeerAddress list \<Rightarrow> string \<Rightarrow> PeerAddress option" where
  "findPeerAddress addresses i = List.find (\<lambda>a. adr_ID a = i) addresses"

definition peerAddress :: "Peer \<Rightarrow> string \<Rightarrow> PeerAddress option" where
  "peerAddress p i = fmlookup (p_peerAddresses p) i"

definition knownPeerAddresses :: "Peer \<Rightarrow> PeerAddress list" where
  "knownPeerAddresses p = filter (\<lambda>a. usable_address a \<and> adr_ID a \<noteq> p_id p)
     (map (mget PeerAddress_zero (p_peerAddresses p)) (mkeys (p_peerAddresses p)))"

fun add_known :: "Peer \<Rightarrow> string list \<Rightarrow> PeerAddress list \<Rightarrow> PeerAddress list" where
  "add_known p [] addresses = addresses"
| "add_known p (i # is) addresses =
     (if findPeerAddress addresses i \<noteq> None then add_known p is addresses
      else case peerAddress p i of None \<Rightarrow> add_known p is addresses | Some a \<Rightarrow> add_known p is (addresses @ [a]))"

definition addressesFromConnectPayload :: "Peer \<Rightarrow> bytes \<Rightarrow> PeerAddress list" where
  "addressesFromConnectPayload p raw = (case unmarshal connect_step connectPayload_zero raw of
      None \<Rightarrow> []
    | Some payload \<Rightarrow> uniquePeerAddresses
        (add_known p (case cp_Peers payload of None \<Rightarrow> [] | Some ps \<Rightarrow> ps) (cp_Addresses payload)))"

text \<open>The remote end of a connection is a TCP address or another kind of address.\<close>

definition remote_address :: "string \<Rightarrow> (string \<times> int) option \<Rightarrow> PeerAddress" where
  "remote_address i remote = (case remote of
      Some (ip, port) \<Rightarrow> \<lparr>adr_ID = i, adr_Host = ip, adr_Port = port\<rparr>
    | None \<Rightarrow> \<lparr>adr_ID = i, adr_Host = [], adr_Port = 0\<rparr>)"

definition addressFromConnectPayload :: "string \<Rightarrow> bytes \<Rightarrow> (string \<times> int) option \<Rightarrow> PeerAddress" where
  "addressFromConnectPayload i raw remote = (case unmarshal connect_step connectPayload_zero raw of
      None \<Rightarrow> remote_address i remote
    | Some payload \<Rightarrow>
        (case List.find (\<lambda>a. adr_ID a = i \<and> adr_Host a \<noteq> [] \<and> adr_Port a > 0) (cp_Addresses payload) of
           Some a \<Rightarrow> a
         | None \<Rightarrow>
             (if cp_Address payload = [] then remote_address i remote
              else case SplitHostPort (cp_Address payload) of
                  None \<Rightarrow> remote_address i remote
                | Some (host, portText) \<Rightarrow> (case Atoi portText of
                    None \<Rightarrow> remote_address i remote
                  | Some port \<Rightarrow> \<lparr>adr_ID = i, adr_Host = host, adr_Port = port\<rparr>))))"

definition validatorFromConnectPayload :: "bytes \<Rightarrow> string" where
  "validatorFromConnectPayload raw = (case unmarshal connect_step connectPayload_zero raw of
      None \<Rightarrow> [] | Some payload \<Rightarrow> TrimSpace (cp_Validator payload))"

section \<open>Configuration\<close>

text \<open>Writing the genesis block completes the settings in place, so the peer's settings have the defaults too.\<close>

definition ConfigurePoS :: "env \<Rightarrow> Peer \<Rightarrow> GenesisMetaData \<Rightarrow> Account option \<Rightarrow> Peer go" where
  "ConfigurePoS E p genesis miner =
     (let p = p\<lparr>p_genesis := Some (fst (marshalGenesisMetaData genesis)), p_miner := miner\<rparr>;
          p = (case miner of None \<Rightarrow> p | Some m \<Rightarrow> p\<lparr>p_peerValidators := fmupd (p_id p) (SafeEncode m) (p_peerValidators p)\<rparr>);
          chain = NewBlockchainWithGenesis genesis
      in map_option (\<lambda>l. p\<lparr>p_blockchain := Some chain, p_ledger := l\<rparr>) (LedgerFromBlockchain E chain (p_finalityDepth p)))"

definition SetFinalityDepth :: "env \<Rightarrow> Peer \<Rightarrow> int \<Rightarrow> Peer go" where
  "SetFinalityDepth E p depth =
     (let p = p\<lparr>p_finalityDepth := (if depth < 0 then 0 else depth)\<rparr> in
      case p_blockchain p of
        None \<Rightarrow> Some p
      | Some chain \<Rightarrow> map_option (\<lambda>l. p\<lparr>p_ledger := l\<rparr>) (LedgerFromBlockchain E chain (p_finalityDepth p)))"

section \<open>What a peer announces\<close>

record chainStatusSummary =
  st_GenesisHash :: string
  st_Height :: int
  st_BestHash :: string

definition blockHashString :: "'a ethlib_scheme \<Rightarrow> Block \<Rightarrow> string" where
  "blockHashString E block = b64_encode (GetBlockHash E block)"

definition blockHexString :: "'a ethlib_scheme \<Rightarrow> Block \<Rightarrow> string" where
  "blockHexString E block = ''0x'' @ hex_encode (GetBlockHash E block)"

definition genesisContentHash :: "'a ethlib_scheme \<Rightarrow> Block \<Rightarrow> string" where
  "genesisContentHash E block = b64_encode (sha256 E (blk_MetaData block))"

definition chainStatus :: "'a ethlib_scheme \<Rightarrow> Peer \<Rightarrow> chainStatusSummary go" where
  "chainStatus E p =
     (let zero = \<lparr>st_GenesisHash = [], st_Height = 0, st_BestHash = []\<rparr> in
      case p_blockchain p of
        None \<Rightarrow> Some zero
      | Some chain \<Rightarrow> map_option (\<lambda>blocks. if blocks = [] then zero
            else \<lparr>st_GenesisHash = genesisContentHash E (hd blocks), st_Height = int (length blocks) - 1,
                  st_BestHash = blockHashString E (last blocks)\<rparr>) (CanonicalBlocks E chain 0))"

definition validatorAccountLocked :: "Peer \<Rightarrow> string" where
  "validatorAccountLocked p = (case p_miner p of None \<Rightarrow> [] | Some m \<Rightarrow> SafeEncode m)"

text \<open>The peer's own address is entered into the address book on the way.\<close>

definition connectPayload_of :: "'a ethlib_scheme \<Rightarrow> Peer \<Rightarrow> (Peer \<times> connectPayload) go" where
  "connectPayload_of E p =
     (let addresses = filter usable_address (map (mget PeerAddress_zero (p_peerAddresses p)) (mkeys (p_peerAddresses p)));
          self = \<lparr>adr_ID = p_id p, adr_Host = p_advertiseHost p, adr_Port = p_listenport p\<rparr>;
          (p, addresses) = (if p_advertiseHost p \<noteq> []
             then (p\<lparr>p_peerAddresses := fmupd (p_id p) self (p_peerAddresses p)\<rparr>, addresses @ [self]) else (p, addresses))
      in map_option (\<lambda>status. (p,
           \<lparr>cp_Peers = (if mkeys (p_conns p) = [] then None else Some (mkeys (p_conns p))),
            cp_Addresses = uniquePeerAddresses addresses, cp_Address = [], cp_Validator = validatorAccountLocked p,
            cp_GenesisHash = st_GenesisHash status, cp_Height = st_Height status, cp_BestHash = st_BestHash status\<rparr>))
         (chainStatus E p))"

section \<open>Queries\<close>

text \<open>The ledger of the best chain, which most queries rebuild; \<open>None\<close> inside when there is no chain.\<close>

definition best_ledger :: "env \<Rightarrow> Peer \<Rightarrow> Ledger option go" where
  "best_ledger E p = (case p_blockchain p of None \<Rightarrow> Some None | Some chain \<Rightarrow> map_option Some (LedgerFromBlockchain E chain 0))"

definition best_query :: "env \<Rightarrow> Peer \<Rightarrow> 'b \<Rightarrow> (Ledger \<Rightarrow> 'b) \<Rightarrow> 'b go" where
  "best_query E p zero f = map_option (\<lambda>l. case l of None \<Rightarrow> zero | Some l \<Rightarrow> f l) (best_ledger E p)"

definition MempoolSize :: "Peer \<Rightarrow> nat" where
  "MempoolSize p = fcard (fmdom (p_mempool p))"

definition ChainHeight :: "'a ethlib_scheme \<Rightarrow> Peer \<Rightarrow> int go" where
  "ChainHeight E p = (case p_blockchain p of None \<Rightarrow> Some 0 | Some chain \<Rightarrow> BestHeight E chain)"

definition AverageRecentBlockSlots :: "'a ethlib_scheme \<Rightarrow> Peer \<Rightarrow> int \<Rightarrow> int go" where
  "AverageRecentBlockSlots E p window = (case p_blockchain p of
      None \<Rightarrow> Some 0
    | Some chain \<Rightarrow> map_option (\<lambda>blocks. averageRecentSlotInterval blocks window) (CanonicalBlocks E chain 0))"

text \<open>Computing the hardness completes the settings in place.\<close>

definition CurrentEffectiveHardness :: "'a ethlib_scheme \<Rightarrow> Peer \<Rightarrow> (Peer \<times> int) go" where
  "CurrentEffectiveHardness E p = (case (p_blockchain p, p_genesis p) of
      (Some chain, Some g) \<Rightarrow> map_option (\<lambda>blocks.
         (p\<lparr>p_genesis := Some (applyDefaultDynamicHardnessConfig g)\<rparr>,
          EffectiveHardnessForMining blocks (Some g) (int (MempoolSize p)))) (CanonicalBlocks E chain 0)
    | _ \<Rightarrow> Some (p, 0))"

definition peer_DynamicHardnessForkHeight :: "Peer \<Rightarrow> int" where
  "peer_DynamicHardnessForkHeight p = (case p_genesis p of None \<Rightarrow> 0 | Some g \<Rightarrow> DynamicHardnessForkHeight g)"

definition DynamicHardnessActive :: "'a ethlib_scheme \<Rightarrow> Peer \<Rightarrow> bool go" where
  "DynamicHardnessActive E p =
     (let forkHeight = peer_DynamicHardnessForkHeight p in
      if forkHeight > 0 then map_option (\<lambda>h. h \<ge> forkHeight) (ChainHeight E p) else Some False)"

definition AcceptedBlocks :: "Peer \<Rightarrow> u64" where
  "AcceptedBlocks p = p_acceptedBlocks p"

definition MinedBlocks :: "Peer \<Rightarrow> u64" where
  "MinedBlocks p = p_minedBlocks p"

definition LotteryAttempts :: "Peer \<Rightarrow> u64" where
  "LotteryAttempts p = p_lotteryAttempts p"

definition LotteryWins :: "Peer \<Rightarrow> u64" where
  "LotteryWins p = p_lotteryWins p"

definition LotteryMisses :: "Peer \<Rightarrow> u64" where
  "LotteryMisses p = p_lotteryMisses p"

definition LotteryNoTicket :: "Peer \<Rightarrow> u64" where
  "LotteryNoTicket p = p_lotteryNoTicket p"

definition AcceptedTransactions :: "Peer \<Rightarrow> u64" where
  "AcceptedTransactions p = p_acceptedTxs p"

definition TxHistoryCount :: "Peer \<Rightarrow> nat" where
  "TxHistoryCount p = TxCount (p_ledger p)"

definition BalanceOf :: "Peer \<Rightarrow> string \<Rightarrow> int" where
  "BalanceOf p accountName = GetBalance (p_ledger p) accountName"

definition BestBalanceOf :: "env \<Rightarrow> Peer \<Rightarrow> string \<Rightarrow> int go" where
  "BestBalanceOf E p accountName = best_query E p 0 (\<lambda>l. GetBalance l accountName)"

definition ValidatorStake :: "Peer \<Rightarrow> int" where
  "ValidatorStake p = (case p_miner p of None \<Rightarrow> 0 | Some m \<Rightarrow> GetBalance (p_ledger p) (SafeEncode m))"

definition NonceOf :: "Peer \<Rightarrow> string \<Rightarrow> u64" where
  "NonceOf p accountName = GetNonce (p_ledger p) accountName"

definition BestNonceOf :: "env \<Rightarrow> Peer \<Rightarrow> string \<Rightarrow> u64 go" where
  "BestNonceOf E p accountName = best_query E p 0 (\<lambda>l. GetNonce l accountName)"

definition BestNFTs :: "env \<Rightarrow> Peer \<Rightarrow> (string, NFTToken) gomap go" where
  "BestNFTs E p = best_query E p fmempty CopyNFTs"

definition BestNFT :: "env \<Rightarrow> Peer \<Rightarrow> string \<Rightarrow> string \<Rightarrow> NFTToken option go" where
  "BestNFT E p collectionID tokenID = best_query E p None (\<lambda>l. NFT l collectionID tokenID)"

definition BestNFTsByOwner :: "env \<Rightarrow> Peer \<Rightarrow> string \<Rightarrow> NFTToken list go" where
  "BestNFTsByOwner E p owner = best_query E p [] (\<lambda>l. NFTsByOwner (mkeys (NFTs l)) l owner)"

fun asset_rows :: "string list \<Rightarrow> string \<Rightarrow> (string, (string, int) gomap) gomap \<Rightarrow> (string, int) gomap \<Rightarrow> (string, int) gomap" where
  "asset_rows [] name balances out = out"
| "asset_rows (asset # assets) name balances out =
     (let value = mget 0 (mget fmempty balances asset) name
      in asset_rows assets name balances (if value \<noteq> 0 then fmupd asset value out else out))"

definition BestAssetBalances :: "env \<Rightarrow> Peer \<Rightarrow> string \<Rightarrow> (string, int) gomap go" where
  "BestAssetBalances E p accountName = best_query E p fmempty (\<lambda>l.
     let name = ToLower (TrimSpace accountName); balances = CopyAssetBalances l
     in asset_rows (mkeys balances) name balances (fmupd AssetPKN (GetBalance l name) fmempty))"

definition BestAMMPools :: "env \<Rightarrow> Peer \<Rightarrow> (string, AMMPool) gomap go" where
  "BestAMMPools E p = best_query E p fmempty CopyAMMPools"

definition BestAMMPool :: "env \<Rightarrow> Peer \<Rightarrow> string \<Rightarrow> AMMPool option go" where
  "BestAMMPool E p poolID = best_query E p None (\<lambda>l. AMMPool_lookup l poolID)"

definition BestEVMCode :: "env \<Rightarrow> Peer \<Rightarrow> string \<Rightarrow> bytes go" where
  "BestEVMCode E p address = best_query E p [] (\<lambda>l. GetEVMCode l address)"

definition BestEVMStorage :: "env \<Rightarrow> Peer \<Rightarrow> string \<Rightarrow> string \<Rightarrow> string go" where
  "BestEVMStorage E p address slot = best_query E p zero_hash (\<lambda>l. GetEVMStorage l address slot)"

definition BestEVMAccounts :: "env \<Rightarrow> Peer \<Rightarrow> (string, EVMAccount) gomap go" where
  "BestEVMAccounts E p = best_query E p fmempty CopyEVMAccounts"

definition BestEVMCall :: "env \<Rightarrow> Peer \<Rightarrow> string \<Rightarrow> string \<Rightarrow> bytes \<Rightarrow> bytes option go" where
  "BestEVMCall E p from to input = best_query E p None (\<lambda>l. snd (CallEVM E l from to input))"

definition peer_EVMReceipt :: "env \<Rightarrow> Peer \<Rightarrow> string \<Rightarrow> EVMReceipt option go" where
  "peer_EVMReceipt E p txHash = best_query E p None (\<lambda>l. EVMReceipt_lookup l txHash)"

definition IsAuthorizedValidator :: "env \<Rightarrow> Peer \<Rightarrow> string \<Rightarrow> bool go" where
  "IsAuthorizedValidator E p accountName = best_query E p False (\<lambda>l. IsValidator l accountName)"

record SupplySnapshot =
  sup_TotalSupply :: int
  sup_CirculatingSupply :: int
  sup_ReservedSupply :: int
  sup_ReservedAddresses :: "string list"

fun supply_rows :: "(string, int) gomap \<Rightarrow> string list \<Rightarrow> string list \<Rightarrow> int \<Rightarrow> int \<Rightarrow> int \<times> int" where
  "supply_rows accounts reservedSet [] tot reserved = (tot, reserved)"
| "supply_rows accounts reservedSet (name # names) tot reserved =
     (let balance = mget 0 accounts name in
      if balance \<le> 0 then supply_rows accounts reservedSet names tot reserved
      else supply_rows accounts reservedSet names (i64 (tot + balance))
             (if ToLower name \<in> set reservedSet then i64 (reserved + balance) else reserved))"

definition SupplySnapshot_of :: "Peer \<Rightarrow> string list \<Rightarrow> SupplySnapshot" where
  "SupplySnapshot_of p reservedAddresses =
     (let accounts = Accounts (p_ledger p);
          (tot, reserved) = supply_rows accounts (map (\<lambda>a. ToLower (TrimSpace a)) reservedAddresses) (mkeys accounts) 0 0;
          circulating = i64 (tot - reserved)
      in \<lparr>sup_TotalSupply = tot, sup_CirculatingSupply = (if circulating < 0 then 0 else circulating), sup_ReservedSupply = reserved,
          sup_ReservedAddresses = reservedAddresses\<rparr>)"

text \<open>The pending nonce; the order in which the mempool is visited is the third argument.\<close>

fun pending_nonce :: "(string, SignedTransaction) gomap \<Rightarrow> string \<Rightarrow> string list \<Rightarrow> u64 \<Rightarrow> u64" where
  "pending_nonce mempool accountName [] nonce = nonce"
| "pending_nonce mempool accountName (i # is) nonce = (case fmlookup mempool i of
      None \<Rightarrow> pending_nonce mempool accountName is nonce
    | Some tx \<Rightarrow>
        (if IsEVM tx \<and> EqualFold (tx_From tx) accountName \<and> tx_Nonce tx \<ge> nonce
         then pending_nonce mempool accountName is (tx_Nonce tx + 1)
         else pending_nonce mempool accountName is nonce))"

definition PendingNonceOf :: "env \<Rightarrow> Peer \<Rightarrow> string list \<Rightarrow> string \<Rightarrow> u64 go" where
  "PendingNonceOf E p order accountName = map_option (pending_nonce (p_mempool p) accountName order) (BestNonceOf E p accountName)"

definition BlockByNumber :: "'a ethlib_scheme \<Rightarrow> Peer \<Rightarrow> int \<Rightarrow> (Block \<times> int) option go" where
  "BlockByNumber E p height = (case p_blockchain p of
      None \<Rightarrow> Some None
    | Some chain \<Rightarrow> map_option (\<lambda>blocks. if height < 0 \<or> height \<ge> int (length blocks) then None else Some (blocks ! nat height, height))
        (CanonicalBlocks E chain 0))"

fun find_block :: "'a ethlib_scheme \<Rightarrow> string \<Rightarrow> Block list \<Rightarrow> int \<Rightarrow> (Block \<times> int) option" where
  "find_block E hash [] height = None"
| "find_block E hash (block # blocks) height =
     (if hex_encode (GetBlockHash E block) = hash then Some (block, height) else find_block E hash blocks (height + 1))"

definition BlockByHash :: "'a ethlib_scheme \<Rightarrow> Peer \<Rightarrow> string \<Rightarrow> (Block \<times> int) option go" where
  "BlockByHash E p hash = (case p_blockchain p of
      None \<Rightarrow> Some None
    | Some chain \<Rightarrow> map_option (\<lambda>blocks. find_block E (TrimPrefix (ToLower hash) ''0x'') blocks 0) (CanonicalBlocks E chain 0))"

definition Ready :: "Peer \<Rightarrow> bool" where
  "Ready p \<longleftrightarrow> p_blockchain p \<noteq> None \<and> p_genesis p \<noteq> None \<and> p_miner p \<noteq> None"

definition peer_FinalityDepth :: "Peer \<Rightarrow> int" where
  "peer_FinalityDepth p = p_finalityDepth p"

definition CommittedHeight :: "'a ethlib_scheme \<Rightarrow> Peer \<Rightarrow> int go" where
  "CommittedHeight E p = map_option (\<lambda>height. if height \<le> p_finalityDepth p then 0 else i64 (height - p_finalityDepth p)) (ChainHeight E p)"

definition hasSeenMessage :: "Peer \<Rightarrow> string \<Rightarrow> bool" where
  "hasSeenMessage p msgID \<longleftrightarrow> mhas (p_msgHistory p) msgID"

record PeerAuthorization =
  au_PeerID :: string
  au_Validator :: string
  au_Stake :: int
  au_Authorized :: bool
  au_Local :: bool
  au_Connected :: bool

text \<open>The rows in the order the sort gives: the authorised ones first, then by identifier.\<close>

definition AuthorizedPeers :: "Peer \<Rightarrow> PeerAuthorization list" where
  "AuthorizedPeers p =
     (let validators = (case p_miner p of None \<Rightarrow> p_peerValidators p | Some m \<Rightarrow> fmupd (p_id p) (SafeEncode m) (p_peerValidators p));
          row = (\<lambda>i. let validator = mget [] validators i in
            \<lparr>au_PeerID = i, au_Validator = validator, au_Stake = BalanceOf p validator, au_Authorized = (validator \<noteq> []),
             au_Local = (i = p_id p), au_Connected = (mhas (p_conns p) i \<and> i \<noteq> p_id p)\<rparr>);
          rows = map row (mkeys validators)
      in filter au_Authorized rows @ filter (\<lambda>r. \<not> au_Authorized r) rows)"

definition ActiveAuthorizedPeers :: "Peer \<Rightarrow> PeerAuthorization list" where
  "ActiveAuthorizedPeers p = filter (\<lambda>r. au_Local r \<or> au_Connected r) (AuthorizedPeers p)"

end
