(* ===== verification/Mempool.thy ===== *)
theory Mempool
  imports PeerState
begin

text \<open>
  The transactions waiting for a block (\<open>handlePoSTransaction\<close>, \<open>pruneInvalidMempool\<close> and
  \<open>ApplyBlock\<close> of \<open>peer.go\<close>) and the older path that applies a transaction at once
  (\<open>handleTransaction\<close>).

  A transaction in the mempool points to its NFT or AMM payload. Trying it on a ledger normalises
  the payload in place, so a copy of the transaction that was tried leaves its payload in the pool:
  \<open>share_payload\<close>. Range loops over the pool take the order of the visit as an argument.
\<close>

type_synonym mempool = "(string, SignedTransaction) gomap"

definition share_payload :: "SignedTransaction \<Rightarrow> SignedTransaction \<Rightarrow> SignedTransaction" where
  "share_payload t t' = t\<lparr>tx_NFT := tx_NFT t', tx_AMM := tx_AMM t'\<rparr>"

definition store_payload :: "SignedTransaction \<Rightarrow> mempool \<Rightarrow> mempool" where
  "store_payload t' m = (case fmlookup m (tx_ID t') of None \<Rightarrow> m | Some t \<Rightarrow> fmupd (tx_ID t') (share_payload t t') m)"

section \<open>Admission\<close>

definition bestLedgerWouldAccept :: "env \<Rightarrow> Peer \<Rightarrow> SignedTransaction \<Rightarrow> (SignedTransaction \<times> bool) go" where
  "bestLedgerWouldAccept E p tx = (case p_blockchain p of
      None \<Rightarrow> Some (tx, False)
    | Some chain \<Rightarrow> do {
        ledger \<leftarrow> LedgerFromBlockchain E chain 0;
        (_, tx, ok) \<leftarrow> Transaction E ledger tx;
        Some (tx, ok)
      })"

text \<open>The pending transactions of the same sender and nonce make room for the new one.\<close>

definition same_nonce :: "SignedTransaction \<Rightarrow> SignedTransaction \<Rightarrow> bool" where
  "same_nonce pending tx \<longleftrightarrow> IsEVM pending \<and> EqualFold (tx_From pending) (tx_From tx) \<and> tx_Nonce pending = tx_Nonce tx"

definition admit :: "SignedTransaction \<Rightarrow> mempool \<Rightarrow> mempool" where
  "admit tx m =
     (let m = (if IsEVM tx then fmfilter (\<lambda>i. case fmlookup m i of None \<Rightarrow> True | Some pending \<Rightarrow> \<not> same_nonce pending tx) m else m)
      in fmupd (tx_ID tx) tx m)"

definition received_history :: "Message \<Rightarrow> MessageHistory" where
  "received_history msg =
     (let hist = NewMessageHistory msg in hist\<lparr>hist_receivedFrom := hist_receivedFrom hist @ [msg_From msg]\<rparr>)"

definition handlePoSTransaction :: "env \<Rightarrow> Peer \<Rightarrow> Message \<Rightarrow> (Peer \<times> bool) go" where
  "handlePoSTransaction E p msg = (case unmarshal tx_step SignedTransaction_zero (payload_bytes msg) of
      None \<Rightarrow> Some (p, False)
    | Some tx \<Rightarrow>
        (if tx_Amount tx < 0 \<or> \<not> IsEVM tx \<and> \<not> IsNFT tx \<and> \<not> IsAMM tx \<and> tx_Amount tx < 1 then Some (p, False)
         else do {
           (tx, verified) \<leftarrow> Verify E tx (tx_From tx);
           if \<not> verified then Some (p, False)
           else do {
             (tx, accepted) \<leftarrow> (if IsAMM tx then bestLedgerWouldAccept E p tx else Some (tx, True));
             if \<not> accepted then Some (p, False)
             else if mhas (p_msgHistory p) (msg_MsgID msg) then Some (p, False)
             else let known = mhas (p_mempool p) (tx_ID tx);
                      p = (if \<not> known then p\<lparr>p_mempool := admit tx (p_mempool p)\<rparr> else p)
               in Some (p\<lparr>p_msgHistory := fmupd (msg_MsgID msg) (received_history msg) (p_msgHistory p)\<rparr>, \<not> known)
           }
         }))"

section \<open>Pruning\<close>

text \<open>
  One pass over the pending transactions: what applies on the running ledger is kept. The pass
  reports whether it kept anything new; passes are repeated until one does not.
\<close>

fun prune_pass :: "env \<Rightarrow> Ledger \<Rightarrow> string list \<Rightarrow> SignedTransaction list \<Rightarrow> (Ledger \<times> string list \<times> SignedTransaction list \<times> bool) go" where
  "prune_pass E l keep [] = Some (l, keep, [], False)"
| "prune_pass E l keep (tx # pending) =
     (if tx_ID tx \<in> set keep then
        map_option (\<lambda>(l, keep, pending, progress). (l, keep, tx # pending, progress)) (prune_pass E l keep pending)
      else case Transaction E l tx of
          None \<Rightarrow> None
        | Some (l, candidate, ok) \<Rightarrow>
            map_option (\<lambda>(l, keep, pending, progress). (l, keep, share_payload tx candidate # pending, ok \<or> progress))
              (prune_pass E l (if ok then tx_ID tx # keep else keep) pending))"

lemma tx_ID_share [simp]: "tx_ID (share_payload t u) = tx_ID t"
  by (simp add: share_payload_def)

lemma prune_pass_tried:
  assumes "prune_pass E l keep (tx # pending) = Some (l', keep', pending', progress)" and "tx_ID tx \<notin> set keep"
  obtains l1 c ok ps pr where "Transaction E l tx = Some (l1, c, ok)"
    "prune_pass E l1 (if ok then tx_ID tx # keep else keep) pending = Some (l', keep', ps, pr)"
    "pending' = share_payload tx c # ps" "progress \<longleftrightarrow> ok \<or> pr"
proof -
  from assms obtain r where "Transaction E l tx = Some r" by (cases "Transaction E l tx") simp_all
  then obtain l1 c ok where t: "Transaction E l tx = Some (l1, c, ok)" by (cases r) blast
  with assms obtain ps pr where
    "prune_pass E l1 (if ok then tx_ID tx # keep else keep) pending = Some (l', keep', ps, pr)"
    "pending' = share_payload tx c # ps" "progress \<longleftrightarrow> ok \<or> pr"
    by (cases "prune_pass E l1 (if ok then tx_ID tx # keep else keep) pending") auto
  with t show ?thesis by (rule that)
qed

lemma prune_pass_ids:
  "prune_pass E l keep pending = Some (l', keep', pending', progress) \<Longrightarrow> map tx_ID pending' = map tx_ID pending \<and> set keep \<subseteq> set keep'"
proof (induction pending arbitrary: l keep keep' pending' progress)
  case Nil
  then show ?case by simp
next
  case (Cons tx pending)
  show ?case
  proof (cases "tx_ID tx \<in> set keep")
    case True
    with Cons.prems obtain ps where "prune_pass E l keep pending = Some (l', keep', ps, progress)" "pending' = tx # ps" by auto
    with Cons.IH show ?thesis by fastforce
  next
    case False
    obtain l1 c ok ps pr where ps: "Transaction E l tx = Some (l1, c, ok)"
      "prune_pass E l1 (if ok then tx_ID tx # keep else keep) pending = Some (l', keep', ps, pr)"
      "pending' = share_payload tx c # ps" "progress \<longleftrightarrow> ok \<or> pr"
      by (rule prune_pass_tried [OF Cons.prems False])
    show ?thesis using Cons.IH [OF ps(2)] ps(3) by (cases ok) auto
  qed
qed

definition unkept :: "string list \<Rightarrow> SignedTransaction list \<Rightarrow> nat" where
  "unkept keep pending = length (filter (\<lambda>i. i \<notin> set keep) (map tx_ID pending))"

lemma unkept_mono:
  assumes "set keep \<subseteq> set keep'" and "map tx_ID pending' = map tx_ID pending"
  shows "unkept keep' pending' \<le> unkept keep pending"
proof -
  have "length (filter (\<lambda>i. i \<notin> set keep') ids) \<le> length (filter (\<lambda>i. i \<notin> set keep) ids)" for ids
    using assms(1) by (induction ids) auto
  then show ?thesis unfolding unkept_def assms(2) .
qed

lemma prune_pass_progress:
  "prune_pass E l keep pending = Some (l', keep', pending', True) \<Longrightarrow> unkept keep' pending' < unkept keep pending"
proof (induction pending arbitrary: l keep keep' pending')
  case Nil
  then show ?case by simp
next
  case (Cons tx pending)
  show ?case
  proof (cases "tx_ID tx \<in> set keep")
    case True
    with Cons.prems obtain ps where ps: "prune_pass E l keep pending = Some (l', keep', ps, True)" "pending' = tx # ps" by auto
    with Cons.IH [OF ps(1)] True prune_pass_ids [OF ps(1)] show ?thesis by (auto simp: unkept_def)
  next
    case False
    obtain l1 c ok ps pr where ps: "Transaction E l tx = Some (l1, c, ok)"
      "prune_pass E l1 (if ok then tx_ID tx # keep else keep) pending = Some (l', keep', ps, pr)"
      "pending' = share_payload tx c # ps" "True \<longleftrightarrow> ok \<or> pr"
      by (rule prune_pass_tried [OF Cons.prems False])
    note ids = prune_pass_ids [OF ps(2)]
    show ?thesis
    proof (cases ok)
      case True
      then have "tx_ID tx \<in> set keep'" using ids by auto
      then have "unkept keep' pending' = unkept keep' ps" using ps(3) by (simp add: unkept_def)
      also have "\<dots> \<le> unkept keep pending" using ids True by (intro unkept_mono) auto
      also have "\<dots> < unkept keep (tx # pending)" using False by (simp add: unkept_def)
      finally show ?thesis .
    next
      case no: False
      with ps(2,4) have "unkept keep' ps < unkept keep pending" using Cons.IH by auto
      then show ?thesis using ps(3) False by (auto simp: unkept_def)
    qed
  qed
qed

function prune_loop :: "env \<Rightarrow> Ledger \<Rightarrow> string list \<Rightarrow> SignedTransaction list \<Rightarrow> (Ledger \<times> string list \<times> SignedTransaction list) go" where
  "prune_loop E l keep pending = (case prune_pass E l keep pending of
      None \<Rightarrow> None
    | Some (l, keep, pending, progress) \<Rightarrow> if progress then prune_loop E l keep pending else Some (l, keep, pending))"
  by pat_completeness auto

termination
  by (relation "measure (\<lambda>(E, l, keep, pending). unkept keep pending)") (auto dest: prune_pass_progress)

declare prune_loop.simps [simp del]

fun evict :: "string list \<Rightarrow> SignedTransaction list \<Rightarrow> mempool \<Rightarrow> int \<Rightarrow> mempool \<times> int" where
  "evict keep [] m removed = (m, removed)"
| "evict keep (tx # pending) m removed =
     (if tx_ID tx \<in> set keep then evict keep pending (store_payload tx m) removed
      else if mhas m (tx_ID tx) then evict keep pending (fmdrop (tx_ID tx) m) (removed + 1)
      else evict keep pending m removed)"

definition pool_values :: "string list \<Rightarrow> mempool \<Rightarrow> SignedTransaction list" where
  "pool_values order m = List.map_filter (fmlookup m) order"

definition pruneInvalidMempool :: "env \<Rightarrow> (mempool \<Rightarrow> string list) \<Rightarrow> Peer \<Rightarrow> (Peer \<times> int) go" where
  "pruneInvalidMempool E order p = (case p_blockchain p of
      None \<Rightarrow> Some (p, 0)
    | Some chain \<Rightarrow> do {
        ledger \<leftarrow> LedgerFromBlockchain E chain 0;
        (_, keep, pending) \<leftarrow> prune_loop E ledger [] (pool_values (order (p_mempool p)) (p_mempool p));
        let (m, removed) = evict keep pending (p_mempool p) 0;
        Some (p\<lparr>p_mempool := m\<rparr>, removed)
      })"

section \<open>Blocks\<close>

fun drop_included :: "SignedTransaction list \<Rightarrow> mempool \<Rightarrow> mempool" where
  "drop_included [] m = m"
| "drop_included (tx # txs) m = drop_included txs (fmdrop (tx_ID tx) m)"

text \<open>What \<open>ApplyBlock\<close> and \<open>handleBlock\<close> do with a block that was added.\<close>

definition block_added :: "env \<Rightarrow> (mempool \<Rightarrow> string list) \<Rightarrow> Peer \<Rightarrow> Blockchain \<Rightarrow> Block \<Rightarrow> Peer go" where
  "block_added E order p chain block = do {
     ledger \<leftarrow> LedgerFromBlockchain E chain (p_finalityDepth p);
     let p = p\<lparr>p_blockchain := Some chain, p_ledger := ledger, p_acceptedBlocks := p_acceptedBlocks p + 1\<rparr>;
     let p = (case DecodeBlockTransactions (blk_MetaData block) of
       None \<Rightarrow> p | Some txs \<Rightarrow> p\<lparr>p_mempool := drop_included txs (p_mempool p)\<rparr>);
     (p, _) \<leftarrow> pruneInvalidMempool E order p;
     Some p
   }"

definition ApplyBlock :: "env \<Rightarrow> (mempool \<Rightarrow> string list) \<Rightarrow> Peer \<Rightarrow> Block \<Rightarrow> (Peer \<times> bool) go" where
  "ApplyBlock E order p block = (case p_blockchain p of
      None \<Rightarrow> Some (p, False)
    | Some chain \<Rightarrow> do {
        (chain, ok) \<leftarrow> AddBlock E chain block;
        if \<not> ok then Some (p, False) else map_option (\<lambda>p. (p, True)) (block_added E order p chain block)
      })"

section \<open>Transactions applied at once\<close>

definition handleTransaction :: "env \<Rightarrow> Peer \<Rightarrow> Message \<Rightarrow> (Peer \<times> bool) go" where
  "handleTransaction E p msg = (case unmarshal tx_step SignedTransaction_zero (payload_bytes msg) of
      None \<Rightarrow> Some (p, False)
    | Some tx \<Rightarrow>
        (if mhas (p_msgHistory p) (msg_MsgID msg) then Some (p, False)
         else if HasRecordedTransaction (p_ledger p) tx then Some (p, False)
         else do {
           (ledger, _, ok) \<leftarrow> Transaction E (p_ledger p) tx;
           let p = p\<lparr>p_ledger := ledger\<rparr>;
           Some (if \<not> ok then (p, False)
                 else (p\<lparr>p_acceptedTxs := p_acceptedTxs p + 1,
                         p_msgHistory := fmupd (msg_MsgID msg) (received_history msg) (p_msgHistory p)\<rparr>, True))
         }))"

section \<open>Summaries\<close>

record MempoolTxSummary =
  ms_ID :: string
  ms_Kind :: string
  ms_From :: string
  ms_To :: string
  ms_Amount :: int
  ms_Nonce :: u64
  ms_ChainID :: int
  ms_IsEVM :: bool
  ms_IsAMM :: bool
  ms_IsNFT :: bool
  ms_BestLedgerWouldApply :: bool

text \<open>The pending transactions sorted by their identifiers, which are the keys of the pool.\<close>

fun mempool_rows :: "env \<Rightarrow> Peer \<Rightarrow> SignedTransaction list \<Rightarrow> (Peer \<times> MempoolTxSummary list) go" where
  "mempool_rows E p [] = Some (p, [])"
| "mempool_rows E p (tx # txs) = (case bestLedgerWouldAccept E p tx of
      None \<Rightarrow> None
    | Some (candidate, ok) \<Rightarrow>
        map_option (\<lambda>(p, rows). (p,
          \<lparr>ms_ID = tx_ID tx, ms_Kind = tx_Kind tx, ms_From = tx_From tx, ms_To = tx_To tx, ms_Amount = tx_Amount tx, ms_Nonce = tx_Nonce tx,
           ms_ChainID = tx_ChainID tx, ms_IsEVM = IsEVM tx, ms_IsAMM = IsAMM tx, ms_IsNFT = IsNFT tx, ms_BestLedgerWouldApply = ok\<rparr> # rows))
          (mempool_rows E (p\<lparr>p_mempool := store_payload (share_payload tx candidate) (p_mempool p)\<rparr>) txs))"

definition MempoolSummaries :: "env \<Rightarrow> Peer \<Rightarrow> (Peer \<times> MempoolTxSummary list) go" where
  "MempoolSummaries E p = mempool_rows E p (pool_values (mkeys (p_mempool p)) (p_mempool p))"

end
