(* ===== verification/Sync.thy ===== *)
theory Sync
  imports Mempool
begin

text \<open>
  Chain synchronisation (\<open>peer.go\<close>): a peer that hears of a longer chain asks for the blocks it
  misses, serves such requests and installs what it is sent.

  An operation that talks to the network extends a trace of effects, the newest last. The \<open>world\<close>
  of an operation supplies what the code does not determine: the clock in nanoseconds, read at a
  position of the trace; the order in which the \<open>k\<close>-th range loop of the operation visits the
  mempool; and what dialling an address yields, a connection with the remote end and the bytes that
  will arrive on it. Log events are left out.
\<close>

datatype effect =
    Write conn Message
  | Close conn
  | Dial PeerAddress
  | Spawn string conn bytes
  | Received Message

type_synonym trace = "effect list"

record world =
  w_now :: "nat \<Rightarrow> int"
  w_order :: "nat \<Rightarrow> mempool \<Rightarrow> string list"
  w_dial :: "nat \<Rightarrow> PeerAddress \<Rightarrow> (conn \<times> (string \<times> int) option \<times> bytes) option"

definition Send :: "Peer \<Rightarrow> trace \<Rightarrow> string \<Rightarrow> Message \<Rightarrow> trace \<times> bool" where
  "Send p tr to msg = (case connection p to of None \<Rightarrow> (tr, False) | Some conn \<Rightarrow> (tr @ [Write conn msg], True))"

section \<open>Requests\<close>

definition requestChainSync :: "world \<Rightarrow> Peer \<Rightarrow> trace \<Rightarrow> string \<Rightarrow> chainSyncRequest \<Rightarrow> trace" where
  "requestChainSync W p tr peer req =
     fst (Send p tr peer \<lparr>msg_Type = CHAIN_SYNC_REQUEST_MESSAGE_TYPE,
       msg_MsgID = ''sync-req-'' @ p_id p @ ''-'' @ Itoa (w_now W (length tr)), msg_From = p_id p,
       msg_Payload = Some (json_marshal (request_json req))\<rparr>)"

definition canAdoptRemoteGenesis :: "'a ethlib_scheme \<Rightarrow> Peer \<Rightarrow> bool go" where
  "canAdoptRemoteGenesis E p = (case p_blockchain p of
      None \<Rightarrow> Some False
    | Some chain \<Rightarrow> map_option (\<lambda>h. h = 0 \<and> TxHistoryCount p = 0 \<and> p_acceptedBlocks p = 0) (ChainHeight E p))"

definition maybeRequestChainSync :: "'a ethlib_scheme \<Rightarrow> world \<Rightarrow> Peer \<Rightarrow> trace \<Rightarrow> string \<Rightarrow> bytes \<Rightarrow> trace go" where
  "maybeRequestChainSync E W p tr peer raw = (case unmarshal connect_step connectPayload_zero raw of
      None \<Rightarrow> Some tr
    | Some payload \<Rightarrow> do {
        local \<leftarrow> chainStatus E p;
        if cp_GenesisHash payload = [] \<or> st_GenesisHash local = [] then Some tr
        else do {
          adopt \<leftarrow> (if cp_GenesisHash payload \<noteq> st_GenesisHash local then canAdoptRemoteGenesis E p else Some False);
          if cp_GenesisHash payload \<noteq> st_GenesisHash local \<and> \<not> adopt then Some tr
          else if cp_Height payload \<le> st_Height local then Some tr
          else let fromHeight = (if cp_GenesisHash payload \<noteq> st_GenesisHash local \<and> adopt then 0 else i64 (st_Height local + 1))
            in Some (requestChainSync W p tr peer \<lparr>req_GenesisHash = cp_GenesisHash payload, req_FromHeight = fromHeight\<rparr>)
        }
      })"

fun request_from :: "world \<Rightarrow> Peer \<Rightarrow> chainSyncRequest \<Rightarrow> string list \<Rightarrow> trace \<Rightarrow> trace" where
  "request_from W p req [] tr = tr"
| "request_from W p req (peer # peers) tr =
     request_from W p req peers
       (if peer = p_id p \<or> mget None (p_conns p) peer = None then tr else requestChainSync W p tr peer req)"

definition RequestChainSyncFromPeers :: "'a ethlib_scheme \<Rightarrow> world \<Rightarrow> Peer \<Rightarrow> trace \<Rightarrow> trace go" where
  "RequestChainSyncFromPeers E W p tr = map_option (\<lambda>local.
     if st_GenesisHash local = [] then tr
     else request_from W p \<lparr>req_GenesisHash = st_GenesisHash local, req_FromHeight = i64 (st_Height local + 1)\<rparr>
            (mkeys (connectionSnapshot p)) tr) (chainStatus E p)"

section \<open>Serving\<close>

definition handleChainSyncRequest :: "'a ethlib_scheme \<Rightarrow> world \<Rightarrow> Peer \<Rightarrow> trace \<Rightarrow> string \<Rightarrow> Message \<Rightarrow> trace go" where
  "handleChainSyncRequest E W p tr from msg = (case p_blockchain p of
      None \<Rightarrow> Some tr
    | Some chain \<Rightarrow> (case unmarshal request_step request_zero (payload_bytes msg) of
        None \<Rightarrow> Some tr
      | Some req \<Rightarrow> do {
          local \<leftarrow> chainStatus E p;
          if req_GenesisHash req = [] \<or> req_GenesisHash req \<noteq> st_GenesisHash local then Some tr
          else do {
            blocks \<leftarrow> CanonicalBlocks E chain 0;
            let fromHeight = (if req_FromHeight req < 0 then 0 else req_FromHeight req);
            let fromHeight = (if fromHeight > int (length blocks) then int (length blocks) else fromHeight);
            let resp = \<lparr>resp_GenesisHash = st_GenesisHash local, resp_Height = st_Height local,
                        resp_Blocks = drop (nat fromHeight) blocks\<rparr>;
            Some (fst (Send p tr from \<lparr>msg_Type = CHAIN_SYNC_RESPONSE_MESSAGE_TYPE,
              msg_MsgID = ''sync-resp-'' @ p_id p @ ''-'' @ Itoa (w_now W (length tr)), msg_From = p_id p,
              msg_Payload = Some (json_marshal (response_json resp))\<rparr>))
          }
        }))"

section \<open>Installing\<close>

text \<open>Every block names the one before it as its parent.\<close>

fun contiguous :: "'a ethlib_scheme \<Rightarrow> Block list \<Rightarrow> bool" where
  "contiguous E (a # b # bs) \<longleftrightarrow> blk_ParentHash b = blockHashString E a \<and> contiguous E (b # bs)"
| "contiguous E _ \<longleftrightarrow> True"

definition DecodeGenesisFromBlock :: "Block \<Rightarrow> GenesisMetaData option" where
  "DecodeGenesisFromBlock block = decodeGenesisFromMeta (blk_MetaData block)"

text \<open>The new blocks replace the old ones and the ledger is built again.\<close>

definition install :: "env \<Rightarrow> Peer \<Rightarrow> Blockchain \<Rightarrow> Block list \<Rightarrow> Peer go" where
  "install E p chain blocks =
     (let chain = ReplaceBlocks chain blocks
      in map_option (\<lambda>l. p\<lparr>p_blockchain := Some chain, p_ledger := l\<rparr>) (LedgerFromBlockchain E chain (p_finalityDepth p)))"

definition adoptRemoteChain :: "env \<Rightarrow> Peer \<Rightarrow> Block list \<Rightarrow> (Peer \<times> bool) go" where
  "adoptRemoteChain E p blocks = (case p_blockchain p of
      None \<Rightarrow> Some (p, False)
    | Some chain \<Rightarrow>
        (if blocks = [] then Some (p, False)
         else if blk_ParentHash (hd blocks) \<noteq> NO_PARENT_HASH then Some (p, False)
         else if \<not> contiguous E blocks then Some (p, False)
         else case DecodeGenesisFromBlock (hd blocks) of
             None \<Rightarrow> Some (p, False)
           | Some genesis \<Rightarrow> map_option (\<lambda>p. (p, True)) (install E (p\<lparr>p_genesis := Some genesis\<rparr>) chain blocks)))"

definition installSyncedSuffix ::
    "env \<Rightarrow> world \<Rightarrow> Peer \<Rightarrow> trace \<Rightarrow> Blockchain \<Rightarrow> string \<Rightarrow> string \<Rightarrow> Block list \<Rightarrow> (Peer \<times> trace \<times> bool) go" where
  "installSyncedSuffix E W p tr chain peer genesisHash blocks = do {
     localBlocks \<leftarrow> CanonicalBlocks E chain 0;
     if localBlocks = [] \<or> blocks = [] then Some (p, tr, False)
     else if blk_ParentHash (hd blocks) \<noteq> blockHashString E (last localBlocks)
     then Some (p, requestChainSync W p tr peer \<lparr>req_GenesisHash = genesisHash, req_FromHeight = 0\<rparr>, False)
     else if \<not> contiguous E blocks then Some (p, tr, False)
     else map_option (\<lambda>p. (p, tr, True)) (install E p chain (localBlocks @ blocks))
   }"

fun hash_index :: "'a ethlib_scheme \<Rightarrow> Block list \<Rightarrow> nat \<Rightarrow> (string, nat) gomap \<Rightarrow> (string, nat) gomap" where
  "hash_index E [] i m = m"
| "hash_index E (block # blocks) i m = hash_index E blocks (Suc i) (fmupd (blockHashString E block) i m)"

text \<open>The last block of the second list that the first one has too: its index there and here.\<close>

fun last_common :: "'a ethlib_scheme \<Rightarrow> (string, nat) gomap \<Rightarrow> Block list \<Rightarrow> nat \<Rightarrow> (nat \<times> nat) option \<Rightarrow> (nat \<times> nat) option" where
  "last_common E localHashes [] i common = common"
| "last_common E localHashes (block # blocks) i common =
     last_common E localHashes blocks (Suc i)
       (case fmlookup localHashes (blockHashString E block) of Some localIndex \<Rightarrow> Some (localIndex, i) | None \<Rightarrow> common)"

definition installSyncedOverlap :: "env \<Rightarrow> Peer \<Rightarrow> Blockchain \<Rightarrow> Block list \<Rightarrow> (Peer \<times> bool) go" where
  "installSyncedOverlap E p chain blocks = do {
     localBlocks \<leftarrow> CanonicalBlocks E chain 0;
     if localBlocks = [] \<or> blocks = [] then Some (p, False)
     else if \<not> contiguous E blocks then Some (p, False)
     else case last_common E (hash_index E localBlocks 0 fmempty) blocks 0 None of
         None \<Rightarrow> Some (p, False)
       | Some (commonLocalIndex, commonRemoteIndex) \<Rightarrow>
           (if commonRemoteIndex + 1 \<ge> length blocks then Some (p, False)
            else let replacement = take (commonLocalIndex + 1) localBlocks @ drop (commonRemoteIndex + 1) blocks
              in if length replacement \<le> length localBlocks then Some (p, False)
                 else map_option (\<lambda>p. (p, True)) (install E p chain replacement))
   }"

definition installFullSyncedChainFromCommonAncestor :: "env \<Rightarrow> Peer \<Rightarrow> Blockchain \<Rightarrow> Block list \<Rightarrow> (Peer \<times> bool) go" where
  "installFullSyncedChainFromCommonAncestor E p chain blocks = do {
     localBlocks \<leftarrow> CanonicalBlocks E chain 0;
     if localBlocks = [] \<or> length blocks \<le> length localBlocks then Some (p, False)
     else if genesisContentHash E (hd blocks) \<noteq> genesisContentHash E (hd localBlocks) then Some (p, False)
     else case last_common E (hash_index E localBlocks 0 fmempty) blocks 0 None of
         None \<Rightarrow> Some (p, False)
       | Some (commonLocalIndex, commonRemoteIndex) \<Rightarrow>
           (if commonRemoteIndex = 0 \<or> commonLocalIndex = 0 then Some (p, False)
            else if \<not> contiguous E blocks then Some (p, False)
            else map_option (\<lambda>p. (p, True))
              (install E p chain (take (commonLocalIndex + 1) localBlocks @ drop (commonRemoteIndex + 1) blocks)))
   }"

definition handleChainSyncResponse :: "env \<Rightarrow> world \<Rightarrow> Peer \<Rightarrow> trace \<Rightarrow> Message \<Rightarrow> (Peer \<times> trace \<times> bool) go" where
  "handleChainSyncResponse E W p tr msg = (case p_blockchain p of
      None \<Rightarrow> Some (p, tr, False)
    | Some chain \<Rightarrow> (case unmarshal response_step response_zero (payload_bytes msg) of
        None \<Rightarrow> Some (p, tr, False)
      | Some resp \<Rightarrow> do {
          local \<leftarrow> chainStatus E p;
          if resp_GenesisHash resp = [] then Some (p, tr, False)
          else do {
            adopt \<leftarrow> (if resp_GenesisHash resp \<noteq> st_GenesisHash local then canAdoptRemoteGenesis E p else Some False);
            if resp_GenesisHash resp \<noteq> st_GenesisHash local \<and> \<not> adopt then Some (p, tr, False)
            else if resp_Height resp \<le> st_Height local \<or> resp_Blocks resp = [] then Some (p, tr, False)
            else if resp_GenesisHash resp \<noteq> st_GenesisHash local then
              (if int (length (resp_Blocks resp)) \<noteq> i64 (resp_Height resp + 1) then Some (p, tr, False)
               else map_option (\<lambda>(p, ok). (p, tr, ok)) (adoptRemoteChain E p (resp_Blocks resp)))
            else if int (length (resp_Blocks resp)) = i64 (resp_Height resp + 1) then
              map_option (\<lambda>(p, ok). (p, tr, ok)) (installFullSyncedChainFromCommonAncestor E p chain (resp_Blocks resp))
            else if resp_Height resp \<noteq> i64 (st_Height local + int (length (resp_Blocks resp))) then
              map_option (\<lambda>(p, ok). (p, tr, ok)) (installSyncedOverlap E p chain (resp_Blocks resp))
            else installSyncedSuffix E W p tr chain (msg_From msg) (resp_GenesisHash resp) (resp_Blocks resp)
          }
        }))"

end
