(* ===== verification/Gossip.thy ===== *)
theory Gossip
  imports Sync
begin

text \<open>
  The peer as a whole (\<open>peer.go\<close>): connecting, flooding with deduplication, the dispatch of
  messages, blocks from the network, the transactions a peer issues itself and mining.

  A nil connection is written to only by a call of a method of nil, which panics (\<open>None\<close>).
\<close>

section \<open>Flooding\<close>

definition addReceivedFloodMessage :: "Peer \<Rightarrow> Message \<Rightarrow> Peer" where
  "addReceivedFloodMessage p msg =
     (let hist = (case fmlookup (p_msgHistory p) (msg_MsgID msg) of None \<Rightarrow> NewMessageHistory msg | Some hist \<Rightarrow> hist);
          hist = hist\<lparr>hist_receivedFrom := hist_receivedFrom hist @ [msg_From msg]\<rparr>
      in p\<lparr>p_msgHistory := fmupd (msg_MsgID msg) hist (p_msgHistory p)\<rparr>)"

fun write_to :: "Peer \<Rightarrow> string list \<Rightarrow> Message \<Rightarrow> string list \<Rightarrow> trace \<Rightarrow> trace go" where
  "write_to p receivedFrom outbound [] tr = Some tr"
| "write_to p receivedFrom outbound (peer # peers) tr =
     (if peer \<noteq> p_id p \<and> peer \<notin> set receivedFrom then
        (case mget None (p_conns p) peer of
           None \<Rightarrow> None
         | Some conn \<Rightarrow> write_to p receivedFrom outbound peers (tr @ [Write conn outbound]))
      else write_to p receivedFrom outbound peers tr)"

definition FloodNetwork :: "Peer \<Rightarrow> trace \<Rightarrow> Message \<Rightarrow> (Peer \<times> trace) go" where
  "FloodNetwork p tr msg =
     (let hist = mget MessageHistory_zero (p_msgHistory p) (msg_MsgID msg) in
      if hist_isSent hist then Some (p, tr)
      else let p = p\<lparr>p_msgHistory := fmupd (msg_MsgID msg) (hist\<lparr>hist_isSent := True\<rparr>) (p_msgHistory p)\<rparr>
        in map_option (\<lambda>tr. (p, tr))
             (write_to p (hist_receivedFrom hist) (msg\<lparr>msg_From := p_id p\<rparr>) (mkeys (connectionSnapshot p)) tr))"

definition FloodMessage :: "Peer \<Rightarrow> trace \<Rightarrow> Message \<Rightarrow> (Peer \<times> trace) go" where
  "FloodMessage p tr msg = FloodNetwork p tr msg"

definition floodJoin :: "'a ethlib_scheme \<Rightarrow> Peer \<Rightarrow> trace \<Rightarrow> (Peer \<times> trace) go" where
  "floodJoin E p tr = do {
     (p, payload) \<leftarrow> connectPayload_of E p;
     let joinMsg = \<lparr>msg_Type = JOIN_MESSAGE_TYPE, msg_MsgID = ''join-'' @ p_id p, msg_From = p_id p,
                    msg_Payload = Some (json_marshal (connect_json payload))\<rparr>;
     FloodNetwork (addReceivedFloodMessage p joinMsg) tr joinMsg
   }"

fun catch_up :: "(string, MessageHistory) gomap \<Rightarrow> conn \<Rightarrow> string list \<Rightarrow> trace \<Rightarrow> trace" where
  "catch_up history conn [] tr = tr"
| "catch_up history conn (i # is) tr =
     catch_up history conn is (case hist_content (mget MessageHistory_zero history i) of None \<Rightarrow> tr | Some msg \<Rightarrow> tr @ [Write conn msg])"

definition sendCatchUp :: "Peer \<Rightarrow> trace \<Rightarrow> conn \<Rightarrow> trace" where
  "sendCatchUp p tr conn = catch_up (p_msgHistory p) conn (mkeys (p_msgHistory p)) tr"

section \<open>Connecting\<close>

definition Start :: "bool \<Rightarrow> Peer \<Rightarrow> Peer \<times> bool" where
  "Start listening p = (if \<not> listening then (p, False) else (p\<lparr>p_conns := fmupd (p_id p) None (p_conns p)\<rparr>, True))"

text \<open>The handshake on a new connection; the answer is the first message on it, the rest is left to the decoder.\<close>

definition prepareConnection ::
    "'a ethlib_scheme \<Rightarrow> world \<Rightarrow> Peer \<Rightarrow> trace \<Rightarrow> conn \<Rightarrow> (string \<times> int) option \<Rightarrow> bytes \<Rightarrow> bool \<Rightarrow> (Peer \<times> trace \<times> PeerAddress list option) go" where
  "prepareConnection E W p tr conn remote input fromAccept = do {
     (p, payload) \<leftarrow> connectPayload_of E p;
     let tr = tr @ [Write conn \<lparr>msg_Type = CONNECT_MESSAGE_TYPE, msg_MsgID = [], msg_From = p_id p,
                      msg_Payload = Some (json_marshal (connect_json payload))\<rparr>];
     case readMessage input of
       None \<Rightarrow> Some (p, tr @ [Close conn], None)
     | Some (msg, rest) \<Rightarrow> do {
         let raw = payload_bytes msg;
         let p = p\<lparr>p_conns := fmupd (msg_From msg) (Some conn) (p_conns p)\<rparr>;
         let p = recordPeerAddress p (addressFromConnectPayload (msg_From msg) raw remote);
         let p = recordPeerValidator p (msg_From msg) (validatorFromConnectPayload raw);
         tr \<leftarrow> maybeRequestChainSync E W p (tr @ [Spawn (msg_From msg) conn rest]) (msg_From msg) raw;
         let tr = (if fromAccept then sendCatchUp p tr conn else tr);
         Some (p, tr, Some (addressesFromConnectPayload p raw))
       }
   }"

text \<open>
  The loop that accepts connections, over the connections the listener hands out; a failed \<open>Accept\<close> is \<open>None\<close> and the loop goes on.
\<close>

fun listenForPeers ::
    "'a ethlib_scheme \<Rightarrow> world \<Rightarrow> (conn \<times> (string \<times> int) option \<times> bytes) option list \<Rightarrow> Peer \<Rightarrow> trace \<Rightarrow> (Peer \<times> trace) go" where
  "listenForPeers E W [] p tr = Some (p, tr)"
| "listenForPeers E W (None # accepts) p tr = listenForPeers E W accepts p tr"
| "listenForPeers E W (Some (conn, remote, input) # accepts) p tr =
     (case prepareConnection E W p tr conn remote input True of
        None \<Rightarrow> None
      | Some (p, tr, _) \<Rightarrow> listenForPeers E W accepts p tr)"

definition ConnectAddress ::
    "'a ethlib_scheme \<Rightarrow> world \<Rightarrow> Peer \<Rightarrow> trace \<Rightarrow> PeerAddress \<Rightarrow> (Peer \<times> trace \<times> PeerAddress list option) go" where
  "ConnectAddress E W p tr address =
     (if adr_Host address = [] \<or> adr_Port address \<le> 0 then Some (p, tr, None)
      else case w_dial W (length tr) address of
          None \<Rightarrow> Some (p, tr @ [Dial address], None)
        | Some (conn, remote, input) \<Rightarrow> prepareConnection E W p (tr @ [Dial address]) conn remote input False)"

fun record_all :: "Peer \<Rightarrow> PeerAddress list \<Rightarrow> Peer" where
  "record_all p [] = p"
| "record_all p (address # addresses) = record_all (recordPeerAddress p address) addresses"

definition Connect ::
    "'a ethlib_scheme \<Rightarrow> world \<Rightarrow> Peer \<Rightarrow> trace \<Rightarrow> string \<Rightarrow> int \<Rightarrow> (Peer \<times> trace \<times> string list option) go" where
  "Connect E W p tr addr port = do {
     (p, tr, addresses) \<leftarrow> ConnectAddress E W p tr \<lparr>adr_ID = [], adr_Host = addr, adr_Port = port\<rparr>;
     Some (case addresses of
         None \<Rightarrow> (p, tr, None)
       | Some addresses \<Rightarrow> (record_all p addresses, tr, Some (filter (\<lambda>i. i \<noteq> []) (map adr_ID addresses))))
   }"

fun joinNetwork :: "'a ethlib_scheme \<Rightarrow> world \<Rightarrow> string \<Rightarrow> string list \<Rightarrow> Peer \<Rightarrow> trace \<Rightarrow> (Peer \<times> trace) go" where
  "joinNetwork E W addr [] p tr = Some (p, tr)"
| "joinNetwork E W addr (peer # peers) p tr =
     (if hasConnection p peer then joinNetwork E W addr peers p tr
      else case Atoi peer of
          None \<Rightarrow> joinNetwork E W addr peers p tr
        | Some port \<Rightarrow> (case Connect E W p tr addr port of
            None \<Rightarrow> None
          | Some (p, tr, _) \<Rightarrow> joinNetwork E W addr peers p tr))"

fun joinKnownPeers :: "'a ethlib_scheme \<Rightarrow> world \<Rightarrow> PeerAddress list \<Rightarrow> Peer \<Rightarrow> trace \<Rightarrow> (Peer \<times> trace) go" where
  "joinKnownPeers E W [] p tr = Some (p, tr)"
| "joinKnownPeers E W (address # addresses) p tr =
     (if adr_ID address = [] \<or> adr_ID address = p_id p \<or> hasConnection p (adr_ID address) then joinKnownPeers E W addresses p tr
      else case ConnectAddress E W (recordPeerAddress p address) tr address of
          None \<Rightarrow> None
        | Some (p, tr, _) \<Rightarrow> joinKnownPeers E W addresses p tr)"

definition StartWithConnection ::
    "'a ethlib_scheme \<Rightarrow> world \<Rightarrow> bool \<Rightarrow> Peer \<Rightarrow> trace \<Rightarrow> string \<Rightarrow> int \<Rightarrow> (Peer \<times> trace) go" where
  "StartWithConnection E W listening p tr addr port = do {
     let p = fst (Start listening p);
     (p, tr, peers) \<leftarrow> Connect E W p tr addr port;
     case peers of
       None \<Rightarrow> Some (p, tr)
     | Some peers \<Rightarrow> do {
         (p, tr) \<leftarrow> joinNetwork E W addr peers p tr;
         (p, tr) \<leftarrow> joinKnownPeers E W (knownPeerAddresses p) p tr;
         floodJoin E p tr
       }
   }"

definition handleJoin :: "'a ethlib_scheme \<Rightarrow> world \<Rightarrow> Peer \<Rightarrow> trace \<Rightarrow> Message \<Rightarrow> (Peer \<times> trace) go" where
  "handleJoin E W p tr msg =
     (let newPeerID = msg_From msg; raw = payload_bytes msg;
          p = record_all p (addressesFromConnectPayload p raw);
          p = recordPeerValidator p newPeerID (validatorFromConnectPayload raw)
      in if hasConnection p newPeerID then Some (p, tr)
         else case List.find (\<lambda>a. adr_ID a = newPeerID) (addressesFromConnectPayload p raw) of
             Some address \<Rightarrow> map_option (\<lambda>(p, tr, _). (p, tr)) (ConnectAddress E W p tr address)
           | None \<Rightarrow> (case Atoi newPeerID of
               None \<Rightarrow> Some (p, tr)
             | Some port \<Rightarrow> map_option (\<lambda>(p, tr, _). (p, tr)) (Connect E W p tr ''localhost'' port)))"

section \<open>Blocks from the network\<close>

definition hasBlockHash :: "'a ethlib_scheme \<Rightarrow> Peer \<Rightarrow> string \<Rightarrow> bool" where
  "hasBlockHash E p hash = (case p_blockchain p of
      None \<Rightarrow> False
    | Some chain \<Rightarrow> hash \<noteq> [] \<and> list_ex (\<lambda>b. blockHashString E b = hash) (BlocksSnapshot chain))"

definition handleBlock :: "env \<Rightarrow> world \<Rightarrow> Peer \<Rightarrow> trace \<Rightarrow> Message \<Rightarrow> (Peer \<times> trace \<times> bool) go" where
  "handleBlock E W p tr msg = (case p_blockchain p of
      None \<Rightarrow> Some (p, tr, False)
    | Some chain \<Rightarrow> (case unmarshal block_step Block_zero (payload_bytes msg) of
        None \<Rightarrow> Some (p, tr, False)
      | Some block \<Rightarrow>
          (if mhas (p_msgHistory p) (msg_MsgID msg) then Some (p, tr, False)
           else do {
             (chain, ok) \<leftarrow> AddBlock E chain block;
             if \<not> ok then
               (if hasBlockHash E p (blk_ParentHash block) then Some (p, tr, False)
                else map_option (\<lambda>local. (p,
                    (if st_GenesisHash local = [] then tr
                     else requestChainSync W p tr (msg_From msg) \<lparr>req_GenesisHash = st_GenesisHash local, req_FromHeight = 0\<rparr>),
                    False)) (chainStatus E p))
             else map_option (\<lambda>p. (p\<lparr>p_msgHistory := fmupd (msg_MsgID msg) (received_history msg) (p_msgHistory p)\<rparr>, tr, True))
                    (block_added E (w_order W 0) p chain block)
           })))"

section \<open>Dispatch\<close>

definition forward :: "Peer \<Rightarrow> trace \<Rightarrow> Message \<Rightarrow> (Peer \<times> trace) go" where
  "forward p tr msg =
     map_option (\<lambda>(p, tr). (p, if msg_Type msg = TRANSACTION_MESSAGE_TYPE \<or> msg_Type msg = ''Test-flood-message''
         then tr @ [Received msg] else tr))
       (FloodNetwork (addReceivedFloodMessage p msg) tr msg)"

definition OnMessage :: "env \<Rightarrow> world \<Rightarrow> Peer \<Rightarrow> trace \<Rightarrow> string \<Rightarrow> Message \<Rightarrow> (Peer \<times> trace) go" where
  "OnMessage E W p tr from msg =
     (if msg_Type msg = PING_MESSAGE_TYPE then
        Some (p, fst (Send p tr from \<lparr>msg_Type = PONG_MESSAGE_TYPE, msg_MsgID = msg_MsgID msg, msg_From = p_id p, msg_Payload = None\<rparr>)
                   @ [Received msg])
      else if msg_Type msg = TRANSACTION_MESSAGE_TYPE then
        do { (p, ok) \<leftarrow> handleTransaction E p msg; if ok then forward p tr msg else Some (p, tr) }
      else if msg_Type msg = POS_TRANSACTION_MESSAGE_TYPE then
        do { (p, ok) \<leftarrow> handlePoSTransaction E p msg; if ok then forward p tr msg else Some (p, tr) }
      else if msg_Type msg = BLOCK_MESSAGE_TYPE then
        do { (p, tr, ok) \<leftarrow> handleBlock E W p tr msg; if ok then forward p tr msg else Some (p, tr) }
      else if msg_Type msg = CHAIN_SYNC_REQUEST_MESSAGE_TYPE then
        map_option (\<lambda>tr. (p, tr)) (handleChainSyncRequest E W p tr from msg)
      else if msg_Type msg = CHAIN_SYNC_RESPONSE_MESSAGE_TYPE then
        map_option (\<lambda>(p, tr, _). (p, tr)) (handleChainSyncResponse E W p tr msg)
      else if msg_Type msg = JOIN_MESSAGE_TYPE then
        do { (p, tr) \<leftarrow> handleJoin E W p tr msg; forward p tr msg }
      else forward p tr msg)"

text \<open>The reader of one connection: messages until one cannot be read, then the connection is closed and forgotten.\<close>

lemma readMessage_shorter: "readMessage s = Some (m, r) \<Longrightarrow> length r < length s"
  by (auto simp: readMessage_def Let_def MESSAGE_HEADER_SIZE_def split: if_splits option.splits prod.splits)

definition close_connection :: "Peer \<Rightarrow> string \<Rightarrow> conn \<Rightarrow> Peer" where
  "close_connection p peer conn =
     (if peer \<noteq> p_id p \<and> fmlookup (p_conns p) peer = Some (Some conn) then p\<lparr>p_conns := fmdrop peer (p_conns p)\<rparr> else p)"

function handleDecode :: "env \<Rightarrow> (nat \<Rightarrow> world) \<Rightarrow> nat \<Rightarrow> string \<Rightarrow> conn \<Rightarrow> bytes \<Rightarrow> Peer \<Rightarrow> trace \<Rightarrow> (Peer \<times> trace) go" where
  "handleDecode E Ws i peer conn input p tr = (case readMessage input of
      None \<Rightarrow> Some (close_connection p peer conn, tr @ [Close conn])
    | Some (msg, input) \<Rightarrow> (case OnMessage E (Ws i) p tr (msg_From msg) msg of
        None \<Rightarrow> None
      | Some (p, tr) \<Rightarrow> handleDecode E Ws (Suc i) peer conn input p tr))"
  by pat_completeness auto

termination
  by (relation "measure (\<lambda>(E, Ws, i, peer, conn, input, p, tr). length input)") (auto dest: readMessage_shorter)

declare handleDecode.simps [simp del]

end
