(* ===== verification/Mining.thy ===== *)
theory Mining
  imports Gossip
begin

text \<open>
  What a peer starts itself (\<open>peer.go\<close>): transactions of its own wallet, which are signed, checked
  like received ones and flooded, and one attempt at a block per slot.
\<close>

section \<open>Own transactions\<close>

definition FloodPoSTransaction :: "env \<Rightarrow> Peer \<Rightarrow> trace \<Rightarrow> SignedTransaction \<Rightarrow> (Peer \<times> trace) go" where
  "FloodPoSTransaction E p tr tx =
     (let msg = \<lparr>msg_Type = POS_TRANSACTION_MESSAGE_TYPE, msg_MsgID = tx_ID tx, msg_From = p_id p,
                 msg_Payload = Some (json_marshal (tx_json tx))\<rparr>
      in do { (p, ok) \<leftarrow> handlePoSTransaction E p msg; if ok then FloodNetwork p tr msg else Some (p, tr) })"

type_synonym flooded = "(Peer \<times> trace \<times> SignedTransaction option) go"

definition flood_own :: "env \<Rightarrow> Peer \<Rightarrow> trace \<Rightarrow> SignedTransaction \<Rightarrow> flooded" where
  "flood_own E p tr tx = map_option (\<lambda>(p, tr). (p, tr, Some tx)) (FloodPoSTransaction E p tr tx)"

definition FloodMintTransaction :: "env \<Rightarrow> Peer \<Rightarrow> trace \<Rightarrow> string \<Rightarrow> string \<Rightarrow> int \<Rightarrow> flooded" where
  "FloodMintTransaction E p tr i to amount = (case p_miner p of
      None \<Rightarrow> Some (p, tr, None)
    | Some miner \<Rightarrow>
        (if amount < 1 \<or> TrimSpace to = [] then Some (p, tr, None)
         else flood_own E p tr (NewMintTransaction E i miner (TrimSpace to) amount)))"

definition FloodValidatorWithdrawTransaction :: "env \<Rightarrow> Peer \<Rightarrow> trace \<Rightarrow> string \<Rightarrow> string \<Rightarrow> int \<Rightarrow> flooded" where
  "FloodValidatorWithdrawTransaction E p tr i to amount = (case p_miner p of
      None \<Rightarrow> Some (p, tr, None)
    | Some miner \<Rightarrow>
        (if amount < 1 \<or> TrimSpace to = [] then Some (p, tr, None)
         else let to = ToLower (TrimSpace to) in
           if \<not> HasPrefix to ''0x'' \<or> length to \<noteq> 42 then Some (p, tr, None)
           else flood_own E p tr (NewSignedTransaction E i miner to amount)))"

definition named_nft :: "SignedTransaction \<Rightarrow> bool" where
  "named_nft tx \<longleftrightarrow> (case tx_NFT tx of None \<Rightarrow> False | Some n \<Rightarrow> nft_CollectionID n \<noteq> [] \<and> nft_TokenID n \<noteq> [])"

definition FloodNFTMintTransaction ::
    "env \<Rightarrow> Peer \<Rightarrow> trace \<Rightarrow> string \<Rightarrow> string \<Rightarrow> string \<Rightarrow> string \<Rightarrow> string \<Rightarrow> string \<Rightarrow> string \<Rightarrow> flooded" where
  "FloodNFTMintTransaction E p tr i collectionID tokenID owner metadataURI metadataHash imageURI = (case p_miner p of
      None \<Rightarrow> Some (p, tr, None)
    | Some miner \<Rightarrow>
        (if TrimSpace collectionID = [] \<or> TrimSpace tokenID = [] \<or> TrimSpace owner = [] then Some (p, tr, None)
         else let tx = NewNFTMintTransaction E i miner collectionID tokenID owner metadataURI metadataHash imageURI
           in if \<not> named_nft tx then Some (p, tr, None) else flood_own E p tr tx))"

definition FloodNFTTransferTransaction :: "env \<Rightarrow> Peer \<Rightarrow> trace \<Rightarrow> string \<Rightarrow> string \<Rightarrow> string \<Rightarrow> string \<Rightarrow> flooded" where
  "FloodNFTTransferTransaction E p tr i collectionID tokenID to = (case p_miner p of
      None \<Rightarrow> Some (p, tr, None)
    | Some miner \<Rightarrow>
        (if TrimSpace collectionID = [] \<or> TrimSpace tokenID = [] \<or> TrimSpace to = [] then Some (p, tr, None)
         else let tx = NewNFTTransferTransaction E i miner collectionID tokenID to
           in if \<not> named_nft tx then Some (p, tr, None) else flood_own E p tr tx))"

definition FloodAssetCreditTransaction :: "env \<Rightarrow> Peer \<Rightarrow> trace \<Rightarrow> string \<Rightarrow> string \<Rightarrow> string \<Rightarrow> int \<Rightarrow> flooded" where
  "FloodAssetCreditTransaction E p tr i asset to amount = (case p_miner p of
      None \<Rightarrow> Some (p, tr, None)
    | Some miner \<Rightarrow>
        (if TrimSpace asset = [] \<or> TrimSpace to = [] \<or> amount < 1 then Some (p, tr, None)
         else flood_own E p tr (NewAssetCreditTransaction E i miner asset to amount)))"

definition FloodAssetDebitTransaction :: "env \<Rightarrow> Peer \<Rightarrow> trace \<Rightarrow> string \<Rightarrow> string \<Rightarrow> string \<Rightarrow> int \<Rightarrow> flooded" where
  "FloodAssetDebitTransaction E p tr i asset accountName amount = (case p_miner p of
      None \<Rightarrow> Some (p, tr, None)
    | Some miner \<Rightarrow>
        (if TrimSpace asset = [] \<or> TrimSpace accountName = [] \<or> amount < 1 then Some (p, tr, None)
         else flood_own E p tr (NewAssetDebitTransaction E i miner asset accountName amount)))"

definition FloodAMMCreatePoolTransaction :: "env \<Rightarrow> Peer \<Rightarrow> trace \<Rightarrow> string \<Rightarrow> string \<Rightarrow> string \<Rightarrow> flooded" where
  "FloodAMMCreatePoolTransaction E p tr i assetA assetB = (case p_miner p of
      None \<Rightarrow> Some (p, tr, None)
    | Some miner \<Rightarrow>
        (if PoolID assetA assetB = [] then Some (p, tr, None)
         else flood_own E p tr (NewAMMCreatePoolTransaction E i miner assetA assetB)))"

definition FloodAMMAddLiquidityTransaction :: "env \<Rightarrow> Peer \<Rightarrow> trace \<Rightarrow> string \<Rightarrow> string \<Rightarrow> int \<Rightarrow> int \<Rightarrow> flooded" where
  "FloodAMMAddLiquidityTransaction E p tr i poolID amountA amountB = (case p_miner p of
      None \<Rightarrow> Some (p, tr, None)
    | Some miner \<Rightarrow>
        (if TrimSpace poolID = [] \<or> amountA < 1 \<or> amountB < 1 then Some (p, tr, None)
         else flood_own E p tr (NewAMMAddLiquidityTransaction E i miner poolID amountA amountB)))"

definition FloodTransaction :: "env \<Rightarrow> Peer \<Rightarrow> trace \<Rightarrow> SignedTransaction \<Rightarrow> (Peer \<times> trace) go" where
  "FloodTransaction E p tr tx =
     (if hasSeenMessage p (tx_ID tx) then Some (p, tr)
      else let msg = \<lparr>msg_Type = TRANSACTION_MESSAGE_TYPE, msg_MsgID = tx_ID tx, msg_From = p_id p,
                      msg_Payload = Some (json_marshal (tx_json tx))\<rparr>
        in do {
          (p, ok) \<leftarrow> handleTransaction E p msg;
          if ok then FloodNetwork p (tr @ [Received msg]) msg else Some (p, tr)
        })"

section \<open>Mining\<close>

definition optimisticLotteryHardness :: "Peer \<Rightarrow> int" where
  "optimisticLotteryHardness p = (case p_genesis p of
      None \<Rightarrow> 0
    | Some g \<Rightarrow> if DynamicHardnessMax g > 0 then DynamicHardnessMax g else if Hardness g > 0 then Hardness g else 1)"

text \<open>The pending transactions that apply one after another, at most a block of them.\<close>

fun select_txs :: "env \<Rightarrow> Ledger \<Rightarrow> SignedTransaction list \<Rightarrow> mempool \<Rightarrow> SignedTransaction list \<Rightarrow> (mempool \<times> SignedTransaction list) go" where
  "select_txs E l [] m selected = Some (m, selected)"
| "select_txs E l (tx # txs) m selected = (case Transaction E l tx of
      None \<Rightarrow> None
    | Some (l, tx, ok) \<Rightarrow>
        (let m = store_payload tx m; selected = (if ok then selected @ [tx] else selected) in
         if length selected \<ge> BLOCK_SIZE then Some (m, selected) else select_txs E l txs m selected))"

definition select_candidate :: "env \<Rightarrow> world \<Rightarrow> Peer \<Rightarrow> Ledger \<Rightarrow> (Peer \<times> SignedTransaction list) go" where
  "select_candidate E W p parentLedger = do {
     (p, _) \<leftarrow> pruneInvalidMempool E (w_order W 0) p;
     (m, selected) \<leftarrow> select_txs E parentLedger (pool_values (w_order W 1 (p_mempool p)) (p_mempool p)) (p_mempool p) [];
     Some (p\<lparr>p_mempool := m\<rparr>, selected)
   }"

definition block_message :: "'a ethlib_scheme \<Rightarrow> Peer \<Rightarrow> Block \<Rightarrow> Message" where
  "block_message E p block = \<lparr>msg_Type = BLOCK_MESSAGE_TYPE, msg_MsgID = b64_encode (GetBlockHash E block), msg_From = p_id p,
     msg_Payload = Some (json_marshal (block_json block))\<rparr>"

definition publish_block :: "env \<Rightarrow> world \<Rightarrow> Peer \<Rightarrow> trace \<Rightarrow> Block \<Rightarrow> (Peer \<times> trace \<times> Block option) go" where
  "publish_block E W p tr block = do {
     let msg = block_message E p block;
     (p, ok) \<leftarrow> ApplyBlock E (w_order W 2) p block;
     if \<not> ok then Some (p, tr, None)
     else map_option (\<lambda>(p, tr). (p, tr, Some block)) (FloodNetwork (p\<lparr>p_minedBlocks := p_minedBlocks p + 1\<rparr>) tr msg)
   }"

definition mine_candidate ::
    "env \<Rightarrow> world \<Rightarrow> Peer \<Rightarrow> trace \<Rightarrow> Blockchain \<Rightarrow> Account \<Rightarrow> GenesisMetaData \<Rightarrow> int \<Rightarrow> int \<Rightarrow> int \<Rightarrow> (Peer \<times> trace \<times> Block option) go" where
  "mine_candidate E W p tr chain miner genesis slot tickets draw = do {
     parentBlocks \<leftarrow> CanonicalBlocks E chain 0;
     parentLedger \<leftarrow> LedgerFromBlockchain E chain 0;
     parentHash \<leftarrow> BestLeafHash E chain;
     (p, selected) \<leftarrow> select_candidate E W p parentLedger;
     let p = p\<lparr>p_genesis := Some (applyDefaultDynamicHardnessConfig genesis)\<rparr>;
     if \<not> WinsLottery tickets (EffectiveHardnessForMining parentBlocks (Some genesis) (int (length selected))) draw
     then Some (p\<lparr>p_lotteryMisses := p_lotteryMisses p + 1\<rparr>, tr, None)
     else publish_block E W (p\<lparr>p_lotteryWins := p_lotteryWins p + 1\<rparr>) tr
            (NewCandidateBlock E miner slot parentHash selected (Seed genesis))
   }"

definition MineOneSlot :: "env \<Rightarrow> world \<Rightarrow> Peer \<Rightarrow> trace \<Rightarrow> int \<Rightarrow> (Peer \<times> trace \<times> Block option) go" where
  "MineOneSlot E W p tr slot = (case (p_blockchain p, p_miner p, p_genesis p) of
      (Some chain, Some miner, Some genesis) \<Rightarrow>
        (let p = p\<lparr>p_lotteryAttempts := p_lotteryAttempts p + 1\<rparr> in
         case ComputeLotteryDrawFromProof E (SignLotteryProof E (Seed genesis) slot (Some miner)) of
           None \<Rightarrow> Some (p\<lparr>p_lotteryMisses := p_lotteryMisses p + 1\<rparr>, tr, None)
         | Some draw \<Rightarrow>
             (let tickets = ValidatorStake p in
              if tickets \<le> 0 then Some (p\<lparr>p_lotteryNoTicket := p_lotteryNoTicket p + 1\<rparr>, tr, None)
              else if \<not> WinsLottery tickets (optimisticLotteryHardness p) draw
              then Some (p\<lparr>p_lotteryMisses := p_lotteryMisses p + 1\<rparr>, tr, None)
              else mine_candidate E W p tr chain miner genesis slot tickets draw))
    | _ \<Rightarrow> Some (p, tr, None))"

end
