(* ===== verification/PeerSteps.thy ===== *)
theory PeerSteps
  imports Mining
begin

text \<open>
  The peer as a state machine. \<open>peer_step\<close> has a rule for every operation of the code that changes
  a peer: a message, an accepted or dialled connection, mining, own transactions, configuration.
  Every operation is a sequence of a few elementary updates (\<open>peer_update\<close>), so a property of
  all operations is proved once for each update.
\<close>

section \<open>Elementary updates\<close>

text \<open>The fields no invariant is about: the address book, the validators, the settings and the counters.\<close>

definition same_core :: "Peer \<Rightarrow> Peer \<Rightarrow> bool" where
  "same_core p p' \<longleftrightarrow> p_id p' = p_id p \<and> p_conns p' = p_conns p \<and> p_msgHistory p' = p_msgHistory p \<and> p_ledger p' = p_ledger p \<and>
     p_blockchain p' = p_blockchain p \<and> p_mempool p' = p_mempool p \<and> p_finalityDepth p' = p_finalityDepth p"

text \<open>A history only grows: a message keeps its content, and once sent it stays sent.\<close>

definition hist_grows :: "(string, MessageHistory) gomap \<Rightarrow> (string, MessageHistory) gomap \<Rightarrow> bool" where
  "hist_grows m m' \<longleftrightarrow> (\<forall>i h. fmlookup m i = Some h \<longrightarrow> (\<exists>h'. fmlookup m' i = Some h' \<and> hist_content h' = hist_content h \<and>
     (hist_isSent h \<longrightarrow> hist_isSent h') \<and> set (hist_receivedFrom h) \<subseteq> set (hist_receivedFrom h')))"

text \<open>A pool shrinks: what is left is what was there, up to normalised payloads.\<close>

definition pool_le :: "mempool \<Rightarrow> mempool \<Rightarrow> bool" where
  "pool_le m' m \<longleftrightarrow> (\<forall>i t'. fmlookup m' i = Some t' \<longrightarrow> (\<exists>t. fmlookup m i = Some t \<and> share_payload t t' = t'))"

text \<open>
  What a pending transaction has in common with one whose signature was checked: all that is not
  normalised. The amount is not negative, and not zero in a plain transfer or a mint.
\<close>

definition signed_part :: "SignedTransaction \<Rightarrow> string \<times> string \<times> int \<times> string \<times> u64 \<times> string \<times> int" where
  "signed_part t = (tx_ID t, tx_From t, tx_Amount t, tx_Signature t, tx_Nonce t, tx_Raw t, tx_ChainID t)"

definition admissible :: "env \<Rightarrow> SignedTransaction \<Rightarrow> bool" where
  "admissible E t \<longleftrightarrow> 0 \<le> tx_Amount t \<and> (\<exists>t0 t1. signed_part t = signed_part t0 \<and> Verify E t0 (tx_From t0) = Some (t1, True) \<and>
     (IsEVM t0 \<or> IsNFT t0 \<or> IsAMM t0 \<or> 0 < tx_Amount t0))"

inductive peer_update :: "env \<Rightarrow> bool \<Rightarrow> Peer \<Rightarrow> Peer \<Rightarrow> bool" for E legacy where
  u_other: "same_core p p' \<Longrightarrow> peer_update E legacy p p'"
| u_connect: "peer_update E legacy p (p\<lparr>p_conns := fmupd i (Some c) (p_conns p)\<rparr>)"
| u_start: "peer_update E legacy p (p\<lparr>p_conns := fmupd (p_id p) None (p_conns p)\<rparr>)"
| u_close: "peer_update E legacy p (p\<lparr>p_conns := fmdrop i (p_conns p)\<rparr>)"
| u_rekey: "peer_update E legacy p (rekeyLocked p (p_id p) i)"
| u_history: "hist_grows (p_msgHistory p) m \<Longrightarrow> peer_update E legacy p (p\<lparr>p_msgHistory := m\<rparr>)"
| u_admit: "\<not> mhas (p_mempool p) (tx_ID t) \<Longrightarrow> admissible E t \<Longrightarrow> peer_update E legacy p (p\<lparr>p_mempool := admit t (p_mempool p)\<rparr>)"
| u_pool: "pool_le m (p_mempool p) \<Longrightarrow> peer_update E legacy p (p\<lparr>p_mempool := m\<rparr>)"
| u_replay: "LedgerFromBlockchain E chain d = Some l \<Longrightarrow>
     peer_update E legacy p (p\<lparr>p_blockchain := Some chain, p_finalityDepth := d, p_ledger := l\<rparr>)"
| u_legacy: "legacy \<Longrightarrow> Transaction E (p_ledger p) t = Some (l, t', ok) \<Longrightarrow> peer_update E legacy p (p\<lparr>p_ledger := l\<rparr>)"
| u_depth: "p_blockchain p = None \<Longrightarrow> peer_update E legacy p (p\<lparr>p_finalityDepth := d\<rparr>)"

abbreviation ups :: "env \<Rightarrow> bool \<Rightarrow> Peer \<Rightarrow> Peer \<Rightarrow> bool" where
  "ups E legacy \<equiv> (peer_update E legacy)\<^sup>*\<^sup>*"

lemma up_step: "peer_update E g p p' \<Longrightarrow> ups E g p p'"
  by (rule r_into_rtranclp)

lemmas up = peer_update.intros [THEN up_step]

lemma up_trans: "ups E g p q \<Longrightarrow> ups E g q r \<Longrightarrow> ups E g p r"
  by (rule rtranclp_trans)

lemma up_other: "same_core p p' \<Longrightarrow> ups E g p p'"
  by (rule up(1))

lemma share_payload_trans: "share_payload t u = u \<Longrightarrow> share_payload u v = v \<Longrightarrow> share_payload t v = v"
  by (cases t; cases u; cases v) (simp add: share_payload_def)

lemma share_payload_same [simp]: "share_payload t t = t" "share_payload t (share_payload t u) = share_payload t u"
  by (simp_all add: share_payload_def)

lemma pool_le_refl [simp]: "pool_le m m"
  by (auto simp: pool_le_def)

lemma pool_le_trans: "pool_le m m' \<Longrightarrow> pool_le m' m'' \<Longrightarrow> pool_le m m''"
  unfolding pool_le_def by (meson share_payload_trans)

lemma pool_le_drop [simp]: "pool_le (fmdrop i m) m"
  by (auto simp: pool_le_def split: if_splits)

lemma pool_le_store [simp]: "pool_le (store_payload t m) m"
  by (auto simp: pool_le_def store_payload_def split: option.splits if_splits)

lemma pool_le_evict: "evict keep pending m n = (m', n') \<Longrightarrow> pool_le m' m"
proof (induction keep pending m n rule: evict.induct)
  case (2 keep tx pending m n)
  from "2.prems" show ?case by (auto split: if_splits dest: "2.IH" intro: pool_le_trans)
qed simp

lemma pool_le_included: "pool_le (drop_included txs m) m"
  by (induction txs m rule: drop_included.induct) (auto intro: pool_le_trans)

lemma pool_le_select: "select_txs E l txs m s = Some (m', s') \<Longrightarrow> pool_le m' m"
proof (induction txs arbitrary: l m s)
  case (Cons tx txs)
  then obtain l1 t1 ok where t: "Transaction E l tx = Some (l1, t1, ok)" by (cases "Transaction E l tx") auto
  define s1 where "s1 = (if ok then s @ [t1] else s)"
  show ?case
  proof (cases "length s1 \<ge> BLOCK_SIZE")
    case True
    with Cons.prems t have "m' = store_payload t1 m" by (auto simp: s1_def)
    then show ?thesis by simp
  next
    case False
    with Cons.prems t have "select_txs E l1 txs (store_payload t1 m) s1 = Some (m', s')" by (simp add: s1_def)
    from Cons.IH [OF this] show ?thesis by (rule pool_le_trans) simp
  qed
qed simp

lemma pool_le_rows:
  assumes "mempool_rows E p txs = Some (p', rows)"
  shows "ups E g p p'"
  using assms
proof (induction txs arbitrary: p rows)
  case (Cons tx txs)
  then obtain c ok where "bestLedgerWouldAccept E p tx = Some (c, ok)" by (cases "bestLedgerWouldAccept E p tx") auto
  with Cons.prems obtain rows' where
    "mempool_rows E (p\<lparr>p_mempool := store_payload (share_payload tx c) (p_mempool p)\<rparr>) txs = Some (p', rows')" by auto
  from Cons.IH [OF this] show ?case by (rule up_trans [rotated]) (rule up(8), simp)
qed simp

section \<open>The operations as sequences of updates\<close>

lemma hist_grows_insert: "\<not> mhas m i \<Longrightarrow> hist_grows m (fmupd i h m)"
  by (auto simp: hist_grows_def mhas_def)

lemma hist_grows_sent: "hist_grows m (fmupd i ((mget MessageHistory_zero m i)\<lparr>hist_isSent := True\<rparr>) m)"
  by (auto simp: hist_grows_def mget_def)

lemma hist_grows_heard:
  "hist_grows m (fmupd i ((case fmlookup m i of None \<Rightarrow> h | Some h \<Rightarrow> h)\<lparr>hist_receivedFrom := hist_receivedFrom (case fmlookup m i of None \<Rightarrow> h | Some h \<Rightarrow> h) @ xs\<rparr>) m)"
  by (auto simp: hist_grows_def)

lemma up_heard: "ups E g p (addReceivedFloodMessage p msg)"
  unfolding addReceivedFloodMessage_def Let_def by (rule up(6)) (rule hist_grows_heard)

lemma up_FloodNetwork: "FloodNetwork p tr msg = Some (p', tr') \<Longrightarrow> ups E g p p'"
  unfolding FloodNetwork_def Let_def by (auto split: if_splits intro: up(6) hist_grows_sent)

lemma up_forward: "forward p tr msg = Some (p', tr') \<Longrightarrow> ups E g p p'"
  unfolding forward_def by (auto intro: up_trans up_heard up_FloodNetwork)

text \<open>A pending transaction is refused, or its message is entered into the history, and it into the pool if it is new.\<close>

lemma handlePoSTransaction_cases:
  assumes "handlePoSTransaction E p msg = Some (p', ok)"
  obtains "p' = p" "\<not> ok"
  | t0 t1 t where "unmarshal tx_step SignedTransaction_zero (payload_bytes msg) = Some t0" "Verify E t0 (tx_From t0) = Some (t1, True)"
      "0 \<le> tx_Amount t0" "IsEVM t0 \<or> IsNFT t0 \<or> IsAMM t0 \<or> 0 < tx_Amount t0"
      "if IsAMM t1 then bestLedgerWouldAccept E p t1 = Some (t, True) else t = t1"
      "\<not> mhas (p_msgHistory p) (msg_MsgID msg)" "ok \<longleftrightarrow> \<not> mhas (p_mempool p) (tx_ID t)"
      "p' = (if mhas (p_mempool p) (tx_ID t) then p else p\<lparr>p_mempool := admit t (p_mempool p)\<rparr>)
         \<lparr>p_msgHistory := fmupd (msg_MsgID msg) (received_history msg) (p_msgHistory p)\<rparr>"
proof (cases "unmarshal tx_step SignedTransaction_zero (payload_bytes msg)")
  case None
  with assms show ?thesis by (simp add: handlePoSTransaction_def that(1))
next
  case (Some t0)
  let ?bad = "tx_Amount t0 < 0 \<or> \<not> IsEVM t0 \<and> \<not> IsNFT t0 \<and> \<not> IsAMM t0 \<and> tx_Amount t0 < 1"
  show ?thesis
  proof (cases ?bad)
    case True
    with assms Some show ?thesis by (simp add: handlePoSTransaction_def that(1))
  next
    case amount: False
    with assms Some obtain t1 v where v: "Verify E t0 (tx_From t0) = Some (t1, v)" by (auto simp: handlePoSTransaction_def)
    show ?thesis
    proof (cases v)
      case False
      with assms Some amount v show ?thesis by (simp add: handlePoSTransaction_def that(1))
    next
      case True
      with assms Some amount v obtain t a where t: "(if IsAMM t1 then bestLedgerWouldAccept E p t1 else Some (t1, True)) = Some (t, a)"
        by (auto simp: handlePoSTransaction_def)
      show ?thesis
      proof (cases "a \<and> \<not> mhas (p_msgHistory p) (msg_MsgID msg)")
        case False
        with assms Some amount v True t show ?thesis by (auto simp: handlePoSTransaction_def intro: that(1) split: if_splits)
      next
        case good: True
        show ?thesis
          by (rule that(2) [OF Some, of t1 t])
            (use assms Some amount v True t good in \<open>auto simp: handlePoSTransaction_def Let_def split: if_splits\<close>)
      qed
    qed
  qed
qed

lemma accepted_amm_part:
  assumes "Transaction E l t = Some (l', t', True)" and "IsAMM t"
  shows "signed_part t' = signed_part t"
  using assms(1)
proof (cases rule: Transaction_True)
  case amm
  from amm(2) obtain t1 p where "t1 = normalizeAMM t \<or> t1 = normalizeAMM (normalizeAMM t)" "t' = t1\<lparr>tx_AMM := Some p\<rparr>"
    by (rule applyAMM_True)
  then show ?thesis by (auto simp: signed_part_def)
qed (use assms(2) in simp_all)

lemma Verify_part: "Verify E t a = Some (t', ok) \<Longrightarrow> signed_part t' = signed_part t"
  by (auto simp: signed_part_def dest!: Verify_tx)

lemma up_handlePoSTransaction:
  assumes "handlePoSTransaction E p msg = Some (p', ok)"
  shows "ups E g p p'"
  using assms
proof (cases rule: handlePoSTransaction_cases)
  case (2 t0 t1 t)
  let ?q = "if mhas (p_mempool p) (tx_ID t) then p else p\<lparr>p_mempool := admit t (p_mempool p)\<rparr>"
  have "signed_part t = signed_part t1"
    using 2(5) by (auto simp: bestLedgerWouldAccept_def accepted_amm_part split: if_splits option.splits)
  with Verify_part [OF 2(2)] have part: "signed_part t = signed_part t0" by simp
  then have "admissible E t" using 2(2-4) unfolding admissible_def by (auto simp: signed_part_def)
  then have "ups E g p ?q" by (simp add: up(7))
  moreover have "hist_grows (p_msgHistory ?q) (fmupd (msg_MsgID msg) (received_history msg) (p_msgHistory p))"
    using hist_grows_insert [OF 2(6)] by simp
  from up(6) [OF this] have "ups E g ?q p'" unfolding 2(8) .
  ultimately show ?thesis by (rule up_trans)
qed simp

lemma pruneInvalidMempool_cases:
  assumes "pruneInvalidMempool E order p = Some (p', n)"
  obtains "p_blockchain p = None" "p' = p" "n = 0"
  | chain ledger l keep pending m where "p_blockchain p = Some chain" "LedgerFromBlockchain E chain 0 = Some ledger"
      "prune_loop E ledger [] (pool_values (order (p_mempool p)) (p_mempool p)) = Some (l, keep, pending)"
      "evict keep pending (p_mempool p) 0 = (m, n)" "p' = p\<lparr>p_mempool := m\<rparr>"
proof (cases "p_blockchain p")
  case None
  with assms show ?thesis by (auto simp: pruneInvalidMempool_def intro: that(1))
next
  case (Some chain)
  with assms obtain ledger l keep pending where
    r: "LedgerFromBlockchain E chain 0 = Some ledger"
      "prune_loop E ledger [] (pool_values (order (p_mempool p)) (p_mempool p)) = Some (l, keep, pending)"
    by (auto simp: pruneInvalidMempool_def)
  obtain m k where e: "evict keep pending (p_mempool p) 0 = (m, k)" by fastforce
  with assms Some r have "k = n" "p' = p\<lparr>p_mempool := m\<rparr>" by (auto simp: pruneInvalidMempool_def)
  with e have "evict keep pending (p_mempool p) 0 = (m, n)" "p' = p\<lparr>p_mempool := m\<rparr>" by simp_all
  with Some r show ?thesis by (rule that(2))
qed

lemma prune_frame:
  assumes "pruneInvalidMempool E order p = Some (p', n)"
  shows "\<exists>m. p' = p\<lparr>p_mempool := m\<rparr> \<and> pool_le m (p_mempool p)"
  using assms
proof (cases rule: pruneInvalidMempool_cases)
  case 1
  then have "p' = p\<lparr>p_mempool := p_mempool p\<rparr>" by simp
  then show ?thesis using pool_le_refl by blast
next
  case (2 chain ledger l keep pending m)
  then show ?thesis using pool_le_evict by blast
qed

lemma up_prune:
  assumes "pruneInvalidMempool E order p = Some (p', n)"
  shows "ups E g p p'"
  using assms by (cases rule: pruneInvalidMempool_cases) (auto intro: up(8) pool_le_evict)

lemma block_added_cases:
  assumes "block_added E order p chain block = Some p'"
  obtains l n m where "LedgerFromBlockchain E chain (p_finalityDepth p) = Some l"
    "pool_le m (p_mempool p)" "DecodeBlockTransactions (blk_MetaData block) = None \<Longrightarrow> m = p_mempool p"
    "\<And>txs. DecodeBlockTransactions (blk_MetaData block) = Some txs \<Longrightarrow> m = drop_included txs (p_mempool p)"
    "pruneInvalidMempool E order (p\<lparr>p_blockchain := Some chain, p_ledger := l,
       p_acceptedBlocks := p_acceptedBlocks p + 1, p_mempool := m\<rparr>) = Some (p', n)"
proof -
  from assms obtain l where l: "LedgerFromBlockchain E chain (p_finalityDepth p) = Some l" by (auto simp: block_added_def)
  show ?thesis
  proof (cases "DecodeBlockTransactions (blk_MetaData block)")
    case None
    with assms l obtain n where "pruneInvalidMempool E order (p\<lparr>p_blockchain := Some chain, p_ledger := l,
       p_acceptedBlocks := p_acceptedBlocks p + 1\<rparr>) = Some (p', n)" by (auto simp: block_added_def)
    with None l show ?thesis by (intro that [of l "p_mempool p" n]) simp_all
  next
    case (Some txs)
    with assms l obtain n where "pruneInvalidMempool E order (p\<lparr>p_blockchain := Some chain, p_ledger := l,
       p_acceptedBlocks := p_acceptedBlocks p + 1, p_mempool := drop_included txs (p_mempool p)\<rparr>) = Some (p', n)"
      by (auto simp: block_added_def)
    with Some l show ?thesis by (intro that [of l "drop_included txs (p_mempool p)" n]) (simp_all add: pool_le_included)
  qed
qed

lemma up_block_added:
  assumes "block_added E order p chain block = Some p'"
  shows "ups E g p p'"
  using assms
proof (cases rule: block_added_cases)
  case (1 l n m)
  let ?q = "p\<lparr>p_blockchain := Some chain, p_finalityDepth := p_finalityDepth p, p_ledger := l\<rparr>"
  have "ups E g p ?q" using 1(1) by (rule up(9))
  also have "ups E g ?q (?q\<lparr>p_mempool := m\<rparr>)" using 1(2) by (intro up(8)) simp
  also have "ups E g (?q\<lparr>p_mempool := m\<rparr>) (?q\<lparr>p_mempool := m, p_acceptedBlocks := p_acceptedBlocks p + 1\<rparr>)"
    by (rule up_other) (simp add: same_core_def)
  also have "?q\<lparr>p_mempool := m, p_acceptedBlocks := p_acceptedBlocks p + 1\<rparr> = p\<lparr>p_blockchain := Some chain, p_ledger := l,
       p_acceptedBlocks := p_acceptedBlocks p + 1, p_mempool := m\<rparr>" by simp
  also have "ups E g \<dots> p'" using 1(5) by (rule up_prune)
  finally show ?thesis .
qed

lemma block_added_frame:
  assumes "block_added E order p chain block = Some p'"
  shows "p_msgHistory p' = p_msgHistory p" "p_conns p' = p_conns p" "p_id p' = p_id p" "p_blockchain p' = Some chain"
    "p_finalityDepth p' = p_finalityDepth p" "LedgerFromBlockchain E chain (p_finalityDepth p) = Some (p_ledger p')"
    "p_acceptedBlocks p' = p_acceptedBlocks p + 1" "p_minedBlocks p' = p_minedBlocks p" "p_miner p' = p_miner p"
    "p_lotteryWins p' = p_lotteryWins p" "p_genesis p' = p_genesis p"
proof -
  obtain l n m where l: "LedgerFromBlockchain E chain (p_finalityDepth p) = Some l" and
    "pruneInvalidMempool E order (p\<lparr>p_blockchain := Some chain, p_ledger := l,
       p_acceptedBlocks := p_acceptedBlocks p + 1, p_mempool := m\<rparr>) = Some (p', n)"
    by (rule block_added_cases [OF assms])
  from prune_frame [OF this(2)] obtain m' where
    p': "p' = p\<lparr>p_blockchain := Some chain, p_ledger := l, p_acceptedBlocks := p_acceptedBlocks p + 1, p_mempool := m'\<rparr>" by auto
  show "p_msgHistory p' = p_msgHistory p" "p_conns p' = p_conns p" "p_id p' = p_id p" "p_blockchain p' = Some chain"
    "p_finalityDepth p' = p_finalityDepth p" "LedgerFromBlockchain E chain (p_finalityDepth p) = Some (p_ledger p')"
    "p_acceptedBlocks p' = p_acceptedBlocks p + 1" "p_minedBlocks p' = p_minedBlocks p" "p_miner p' = p_miner p"
    "p_lotteryWins p' = p_lotteryWins p" "p_genesis p' = p_genesis p"
    using l by (simp_all add: p')
qed

lemma up_ApplyBlock: "ApplyBlock E order p block = Some (p', ok) \<Longrightarrow> ups E g p p'"
  unfolding ApplyBlock_def by (auto split: option.splits if_splits intro: up_block_added)

lemma handleBlock_cases:
  assumes "handleBlock E W p tr msg = Some (p', tr', ok)"
  obtains "p' = p" "\<not> ok"
  | chain chain' block q where "p_blockchain p = Some chain" "unmarshal block_step Block_zero (payload_bytes msg) = Some block"
      "\<not> mhas (p_msgHistory p) (msg_MsgID msg)" "AddBlock E chain block = Some (chain', True)"
      "block_added E (w_order W 0) p chain' block = Some q"
      "p' = q\<lparr>p_msgHistory := fmupd (msg_MsgID msg) (received_history msg) (p_msgHistory p)\<rparr>" "ok" "tr' = tr"
proof (cases "p_blockchain p")
  case None
  with assms show ?thesis by (auto simp: handleBlock_def intro: that(1))
next
  case chain: (Some chain)
  show ?thesis
  proof (cases "unmarshal block_step Block_zero (payload_bytes msg)")
    case None
    with assms chain show ?thesis by (auto simp: handleBlock_def intro: that(1))
  next
    case block: (Some block)
    show ?thesis
    proof (cases "mhas (p_msgHistory p) (msg_MsgID msg)")
      case True
      with assms chain block show ?thesis by (auto simp: handleBlock_def intro: that(1))
    next
      case new: False
      with assms chain block obtain chain' added where a: "AddBlock E chain block = Some (chain', added)"
        by (auto simp: handleBlock_def)
      show ?thesis
      proof (cases added)
        case False
        with assms chain block new a show ?thesis by (auto simp: handleBlock_def split: if_splits intro: that(1))
      next
        case True
        with assms chain block new a obtain q where q: "block_added E (w_order W 0) p chain' block = Some q"
          "p' = q\<lparr>p_msgHistory := fmupd (msg_MsgID msg) (received_history msg) (p_msgHistory q)\<rparr>" "ok" "tr' = tr"
          by (auto simp: handleBlock_def)
        show ?thesis by (rule that(2) [OF chain block new]) (use a True q block_added_frame(1) [OF q(1)] in simp_all)
      qed
    qed
  qed
qed

lemma up_handleBlock:
  assumes "handleBlock E W p tr msg = Some (p', tr', ok)"
  shows "ups E g p p'"
  using assms
proof (cases rule: handleBlock_cases)
  case (2 chain chain' block q)
  from up_block_added [OF 2(5)] show ?thesis unfolding 2(6) block_added_frame(1) [OF 2(5), symmetric]
    using 2(3) block_added_frame(1) [OF 2(5)] by (auto intro!: up_trans [OF _ up(6)] hist_grows_insert)
qed simp

end
