(* ===== verification/SyncFacts.thy ===== *)
theory SyncFacts
  imports PeerSteps
begin

text \<open>
  What an answer to a synchronisation request may do: nothing, or install a chain that one of the
  four routines of \<open>peer.go\<close> built from it.
\<close>

lemma install_cases:
  assumes "install E p chain blocks = Some p'"
  obtains l where "LedgerFromBlockchain E (ReplaceBlocks chain blocks) (p_finalityDepth p) = Some l"
    "p' = p\<lparr>p_blockchain := Some (ReplaceBlocks chain blocks), p_ledger := l\<rparr>"
  using assms by (auto simp: install_def Let_def)

lemma up_install:
  assumes "install E p chain blocks = Some p'"
  shows "ups E g p p'"
  using assms
proof (cases rule: install_cases)
  case (1 l)
  from up(9) [OF 1(1), of g p] show ?thesis by (simp add: 1(2))
qed

lemma adoptRemoteChain_cases:
  assumes "adoptRemoteChain E p blocks = Some (p', ok)"
  obtains "p' = p" "\<not> ok"
  | chain genesis where "p_blockchain p = Some chain" "blocks \<noteq> []" "blk_ParentHash (hd blocks) = NO_PARENT_HASH" "contiguous E blocks"
      "DecodeGenesisFromBlock (hd blocks) = Some genesis" "install E (p\<lparr>p_genesis := Some genesis\<rparr>) chain blocks = Some p'" "ok"
  using assms unfolding adoptRemoteChain_def by (auto split: option.splits if_splits)

lemma installSyncedSuffix_cases:
  assumes "installSyncedSuffix E W p tr chain peer gh blocks = Some (p', tr', ok)"
  obtains "p' = p" "\<not> ok"
  | localBlocks where "CanonicalBlocks E chain 0 = Some localBlocks" "localBlocks \<noteq> []" "blocks \<noteq> []"
      "blk_ParentHash (hd blocks) = blockHashString E (last localBlocks)" "contiguous E blocks"
      "install E p chain (localBlocks @ blocks) = Some p'" "ok" "tr' = tr"
proof -
  from assms obtain lb where lb: "CanonicalBlocks E chain 0 = Some lb" by (auto simp: installSyncedSuffix_def)
  show ?thesis
  proof (cases "lb \<noteq> [] \<and> blocks \<noteq> [] \<and> blk_ParentHash (hd blocks) = blockHashString E (last lb) \<and> contiguous E blocks")
    case True
    with assms lb show ?thesis by (intro that(2) [of lb]) (auto simp: installSyncedSuffix_def)
  next
    case False
    with assms lb show ?thesis by (intro that(1)) (auto simp: installSyncedSuffix_def split: if_splits)
  qed
qed

definition rebase :: "Block list \<Rightarrow> Block list \<Rightarrow> nat \<Rightarrow> nat \<Rightarrow> Block list" where
  "rebase localBlocks blocks i j = take (i + 1) localBlocks @ drop (j + 1) blocks"

lemma installSyncedOverlap_cases:
  assumes "installSyncedOverlap E p chain blocks = Some (p', ok)"
  obtains "p' = p" "\<not> ok"
  | localBlocks i j where "CanonicalBlocks E chain 0 = Some localBlocks" "localBlocks \<noteq> []" "contiguous E blocks"
      "last_common E (hash_index E localBlocks 0 fmempty) blocks 0 None = Some (i, j)" "j + 1 < length blocks"
      "length localBlocks < length (rebase localBlocks blocks i j)" "install E p chain (rebase localBlocks blocks i j) = Some p'" "ok"
proof -
  from assms obtain lb where lb: "CanonicalBlocks E chain 0 = Some lb" by (auto simp: installSyncedOverlap_def)
  show ?thesis
  proof (cases "lb \<noteq> [] \<and> blocks \<noteq> [] \<and> contiguous E blocks")
    case False
    with assms lb show ?thesis by (intro that(1)) (auto simp: installSyncedOverlap_def split: if_splits)
  next
    case True
    show ?thesis
    proof (cases "last_common E (hash_index E lb 0 fmempty) blocks 0 None")
      case None
      with assms lb True show ?thesis by (intro that(1)) (auto simp: installSyncedOverlap_def)
    next
      case (Some ij)
      obtain i j where ij: "ij = (i, j)" by fastforce
      show ?thesis
      proof (cases "j + 1 < length blocks \<and> length lb < length (rebase lb blocks i j)")
        case False
        with assms lb True Some ij show ?thesis
          by (intro that(1)) (auto simp: installSyncedOverlap_def Let_def rebase_def split: if_splits)
      next
        case good: True
        then have "\<not> length (take (i + 1) lb @ drop (j + 1) blocks) \<le> length lb" unfolding rebase_def not_le by blast
        with assms lb True Some ij good show ?thesis
          by (intro that(2) [of lb i j]) (auto simp: installSyncedOverlap_def Let_def rebase_def simp del: length_append length_take length_drop)
      qed
    qed
  qed
qed

lemma installFull_cases:
  assumes "installFullSyncedChainFromCommonAncestor E p chain blocks = Some (p', ok)"
  obtains "p' = p" "\<not> ok"
  | localBlocks i j where "CanonicalBlocks E chain 0 = Some localBlocks" "localBlocks \<noteq> []" "length localBlocks < length blocks"
      "genesisContentHash E (hd blocks) = genesisContentHash E (hd localBlocks)"
      "last_common E (hash_index E localBlocks 0 fmempty) blocks 0 None = Some (i, j)" "0 < i" "0 < j" "contiguous E blocks"
      "install E p chain (rebase localBlocks blocks i j) = Some p'" "ok"
proof -
  from assms obtain lb where lb: "CanonicalBlocks E chain 0 = Some lb" by (auto simp: installFullSyncedChainFromCommonAncestor_def)
  show ?thesis
  proof (cases "lb \<noteq> [] \<and> length lb < length blocks \<and> genesisContentHash E (hd blocks) = genesisContentHash E (hd lb)")
    case False
    with assms lb show ?thesis by (intro that(1)) (auto simp: installFullSyncedChainFromCommonAncestor_def split: if_splits)
  next
    case True
    show ?thesis
    proof (cases "last_common E (hash_index E lb 0 fmempty) blocks 0 None")
      case None
      with assms lb True show ?thesis by (intro that(1)) (auto simp: installFullSyncedChainFromCommonAncestor_def)
    next
      case (Some ij)
      obtain i j where ij: "ij = (i, j)" by fastforce
      show ?thesis
      proof (cases "0 < i \<and> 0 < j \<and> contiguous E blocks")
        case False
        with assms lb True Some ij show ?thesis
          by (intro that(1)) (auto simp: installFullSyncedChainFromCommonAncestor_def split: if_splits)
      next
        case good: True
        with assms lb True Some ij show ?thesis
          by (intro that(2) [of lb i j]) (auto simp: installFullSyncedChainFromCommonAncestor_def rebase_def)
      qed
    qed
  qed
qed

text \<open>What was installed, and under which conditions.\<close>

inductive synced :: "env \<Rightarrow> Peer \<Rightarrow> chainSyncResponse \<Rightarrow> Block list \<Rightarrow> Block list \<Rightarrow> Peer \<Rightarrow> bool" for E p resp localBlocks where
  adopted: "canAdoptRemoteGenesis E p = Some True \<Longrightarrow> p_blockchain p = Some chain \<Longrightarrow>
     int (length (resp_Blocks resp)) = i64 (resp_Height resp + 1) \<Longrightarrow>
     blk_ParentHash (hd (resp_Blocks resp)) = NO_PARENT_HASH \<Longrightarrow> contiguous E (resp_Blocks resp) \<Longrightarrow>
     DecodeGenesisFromBlock (hd (resp_Blocks resp)) = Some genesis \<Longrightarrow>
     install E (p\<lparr>p_genesis := Some genesis\<rparr>) chain (resp_Blocks resp) = Some p' \<Longrightarrow>
     synced E p resp localBlocks (resp_Blocks resp) p'"
| extended: "p_blockchain p = Some chain \<Longrightarrow> blk_ParentHash (hd (resp_Blocks resp)) = blockHashString E (last localBlocks) \<Longrightarrow>
     contiguous E (resp_Blocks resp) \<Longrightarrow> install E p chain (localBlocks @ resp_Blocks resp) = Some p' \<Longrightarrow>
     synced E p resp localBlocks (localBlocks @ resp_Blocks resp) p'"
| rebased: "p_blockchain p = Some chain \<Longrightarrow> contiguous E (resp_Blocks resp) \<Longrightarrow>
     last_common E (hash_index E localBlocks 0 fmempty) (resp_Blocks resp) 0 None = Some (i, j) \<Longrightarrow>
     length localBlocks < length (resp_Blocks resp) \<or> length localBlocks < length (rebase localBlocks (resp_Blocks resp) i j) \<Longrightarrow>
     install E p chain (rebase localBlocks (resp_Blocks resp) i j) = Some p' \<Longrightarrow>
     synced E p resp localBlocks (rebase localBlocks (resp_Blocks resp) i j) p'"

lemma handleChainSyncResponse_cases:
  assumes "handleChainSyncResponse E W p tr msg = Some (p', tr', ok)"
  obtains "p' = p" "\<not> ok"
  | chain resp localBlocks blocks where "p_blockchain p = Some chain" "CanonicalBlocks E chain 0 = Some localBlocks"
      "unmarshal response_step response_zero (payload_bytes msg) = Some resp" "resp_Blocks resp \<noteq> []" "resp_GenesisHash resp \<noteq> []"
      "localBlocks \<noteq> [] \<Longrightarrow> int (length localBlocks) - 1 < resp_Height resp"
      "synced E p resp localBlocks blocks p'" "ok" "localBlocks = [] \<Longrightarrow> canAdoptRemoteGenesis E p = Some True \<and> blocks = resp_Blocks resp"
proof (cases "p_blockchain p")
  case None
  with assms show ?thesis by (intro that(1)) (simp_all add: handleChainSyncResponse_def)
next
  case chain: (Some chain)
  show ?thesis
  proof (cases "unmarshal response_step response_zero (payload_bytes msg)")
    case None
    with assms chain show ?thesis by (intro that(1)) (simp_all add: handleChainSyncResponse_def)
  next
    case resp: (Some resp)
    from assms chain resp obtain st where st: "chainStatus E p = Some st" by (auto simp: handleChainSyncResponse_def)
    with chain obtain lb where lb: "CanonicalBlocks E chain 0 = Some lb" by (auto simp: chainStatus_def Let_def)
    have height: "lb \<noteq> [] \<Longrightarrow> st_Height st = int (length lb) - 1" and genesis: "lb = [] \<Longrightarrow> st_GenesisHash st = []"
      using st chain lb by (auto simp: chainStatus_def Let_def)
    let ?B = "resp_Blocks resp"
    show ?thesis
    proof (cases "resp_GenesisHash resp = [] \<or> resp_Height resp \<le> st_Height st \<or> ?B = []")
      case True
      with assms chain resp st show ?thesis by (intro that(1)) (auto simp: handleChainSyncResponse_def split: if_splits)
    next
      case early: False
      note facts = chain lb resp
      show ?thesis
      proof (cases "resp_GenesisHash resp = st_GenesisHash st")
        case False
        with assms chain resp st early obtain a where a: "canAdoptRemoteGenesis E p = Some a" by (auto simp: handleChainSyncResponse_def)
        show ?thesis
        proof (cases "a \<and> int (length ?B) = i64 (resp_Height resp + 1)")
          case no: False
          with assms chain resp st early False a show ?thesis by (intro that(1)) (auto simp: handleChainSyncResponse_def split: if_splits)
        next
          case yes: True
          with assms chain resp st early False a have "adoptRemoteChain E p ?B = Some (p', ok)" by (auto simp: handleChainSyncResponse_def)
          then show ?thesis
          proof (cases rule: adoptRemoteChain_cases)
            case 1
            then show ?thesis by (rule that(1))
          next
            case (2 chain genesis)
            with early height a yes adopted [of E p chain resp genesis p' lb] show ?thesis by (intro that(2) [OF facts]) auto
          qed
        qed
      next
        case same: True
        with genesis early have ne: "lb \<noteq> []" by auto
        consider (full) "installFullSyncedChainFromCommonAncestor E p chain ?B = Some (p', ok)"
          | (overlap) "installSyncedOverlap E p chain ?B = Some (p', ok)"
          | (suffix) "installSyncedSuffix E W p tr chain (msg_From msg) (resp_GenesisHash resp) ?B = Some (p', tr', ok)"
          using assms chain resp st early same by (auto simp: handleChainSyncResponse_def split: if_splits)
        then show ?thesis
        proof cases
          case full
          then show ?thesis
          proof (cases rule: installFull_cases)
            case 1
            then show ?thesis by (rule that(1))
          next
            case (2 lb' i j)
            with lb have "lb' = lb" by simp
            with 2 early height ne rebased [OF chain, of E resp lb i j p'] show ?thesis by (intro that(2) [OF facts]) auto
          qed
        next
          case overlap
          then show ?thesis
          proof (cases rule: installSyncedOverlap_cases)
            case 1
            then show ?thesis by (rule that(1))
          next
            case (2 lb' i j)
            with lb have "lb' = lb" by simp
            with 2 early height ne rebased [OF chain, of E resp lb i j p'] show ?thesis by (intro that(2) [OF facts]) auto
          qed
        next
          case suffix
          then show ?thesis
          proof (cases rule: installSyncedSuffix_cases)
            case 1
            then show ?thesis by (rule that(1))
          next
            case (2 lb')
            with lb have "lb' = lb" by simp
            with 2 early height ne extended [OF chain, of resp E lb p'] show ?thesis by (intro that(2) [OF facts]) auto
          qed
        qed
      qed
    qed
  qed
qed

lemma up_synced: "synced E p resp lb blocks p' \<Longrightarrow> ups E g p p'"
proof (induction rule: synced.induct)
  case (adopted chain genesis p')
  have "ups E g p (p\<lparr>p_genesis := Some genesis\<rparr>)" by (rule up_other) (simp add: same_core_def)
  with up_install [OF adopted(7)] show ?case by (blast intro: up_trans)
qed (erule up_install)+

lemma up_handleChainSyncResponse:
  assumes "handleChainSyncResponse E W p tr msg = Some (p', tr', ok)"
  shows "ups E g p p'"
  using assms by (cases rule: handleChainSyncResponse_cases) (auto intro: up_synced)

end
