(* ===== verification/PeerMachine.thy ===== *)
theory PeerMachine
  imports SyncFacts
begin

text \<open>
  The operations of a peer as the steps of a state machine, and the invariants of the states it
  reaches from a new peer.
\<close>

section \<open>The remaining operations\<close>

lemma up_handleTransaction:
  assumes "handleTransaction E p msg = Some (p', ok)" and g: "g \<or> p' = p"
  shows "ups E g p p'"
proof (cases "p' = p")
  case False
  with g have "g" by simp
  from assms(1) False obtain t l t' applied where t: "Transaction E (p_ledger p) t = Some (l, t', applied)"
    and new: "\<not> mhas (p_msgHistory p) (msg_MsgID msg)"
    and p': "p' = (if applied then p\<lparr>p_ledger := l, p_acceptedTxs := p_acceptedTxs p + 1,
      p_msgHistory := fmupd (msg_MsgID msg) (received_history msg) (p_msgHistory p)\<rparr> else p\<lparr>p_ledger := l\<rparr>)"
    by (auto simp: handleTransaction_def Let_def split: option.splits if_splits)
  have l: "ups E g p (p\<lparr>p_ledger := l\<rparr>)" using \<open>g\<close> t by (rule up(10))
  show ?thesis
  proof (cases applied)
    case False
    with l p' show ?thesis by simp
  next
    case True
    note l
    also have "ups E g (p\<lparr>p_ledger := l\<rparr>) (p\<lparr>p_ledger := l, p_acceptedTxs := p_acceptedTxs p + 1\<rparr>)"
      by (rule up_other) (simp add: same_core_def)
    also have "ups E g (p\<lparr>p_ledger := l, p_acceptedTxs := p_acceptedTxs p + 1\<rparr>) p'"
      using up(6) [of "p\<lparr>p_ledger := l, p_acceptedTxs := p_acceptedTxs p + 1\<rparr>", OF _ , of "fmupd (msg_MsgID msg) (received_history msg) (p_msgHistory p)"]
        hist_grows_insert [OF new] p' True by simp
    finally show ?thesis .
  qed
qed simp

lemma up_recordPeerAddress: "ups E g p (recordPeerAddress p a)"
  by (rule up_other) (simp add: recordPeerAddress_def same_core_def)

lemma up_recordPeerValidator: "ups E g p (recordPeerValidator p i v)"
  by (rule up_other) (simp add: recordPeerValidator_def same_core_def Let_def)

lemma up_record_all: "ups E g p (record_all p as)"
  by (induction p as rule: record_all.induct) (auto intro: up_trans up_recordPeerAddress)

lemma up_connectPayload: "connectPayload_of E p = Some (p', payload) \<Longrightarrow> ups E' g p p'"
  by (rule up_other) (auto simp: connectPayload_of_def same_core_def Let_def split: if_splits prod.splits)

lemma up_prepareConnection:
  assumes "prepareConnection E W p tr conn remote input fromAccept = Some (p', tr', r)"
  shows "ups E' g p p'"
proof -
  from assms obtain q payload where q: "connectPayload_of E p = Some (q, payload)" by (auto simp: prepareConnection_def)
  note up_q = up_connectPayload [OF q, of E' g]
  show ?thesis
  proof (cases "readMessage input")
    case None
    with assms q up_q show ?thesis by (simp add: prepareConnection_def)
  next
    case (Some mr)
    obtain msg rest where "mr = (msg, rest)" by fastforce
    let ?q1 = "q\<lparr>p_conns := fmupd (msg_From msg) (Some conn) (p_conns q)\<rparr>"
    let ?q2 = "recordPeerAddress ?q1 (addressFromConnectPayload (msg_From msg) (payload_bytes msg) remote)"
    from assms q Some \<open>mr = _\<close> have p': "p' = recordPeerValidator ?q2 (msg_From msg) (validatorFromConnectPayload (payload_bytes msg))"
      by (auto simp: prepareConnection_def Let_def)
    note up_q
    also have "ups E' g q ?q1" by (rule up(2))
    also have "ups E' g ?q1 ?q2" by (rule up_recordPeerAddress)
    also have "ups E' g ?q2 p'" unfolding p' by (rule up_recordPeerValidator)
    finally show ?thesis .
  qed
qed

lemma up_ConnectAddress: "ConnectAddress E W p tr a = Some (p', tr', r) \<Longrightarrow> ups E' g p p'"
  unfolding ConnectAddress_def by (auto split: if_splits option.splits prod.splits intro: up_prepareConnection)

lemma up_Connect:
  assumes "Connect E W p tr host port = Some (p', tr', r)"
  shows "ups E' g p p'"
proof -
  from assms obtain q tr1 as where q: "ConnectAddress E W p tr \<lparr>adr_ID = [], adr_Host = host, adr_Port = port\<rparr> = Some (q, tr1, as)"
    by (auto simp: Connect_def)
  with assms have "p' = (case as of None \<Rightarrow> q | Some as \<Rightarrow> record_all q as)" by (auto simp: Connect_def split: option.splits)
  then have "ups E' g q p'" by (auto simp: up_record_all split: option.split)
  with up_ConnectAddress [OF q] show ?thesis by (rule up_trans)
qed

lemma up_joinNetwork: "joinNetwork E W addr peers p tr = Some (p', tr') \<Longrightarrow> ups E' g p p'"
proof (induction peers arbitrary: p tr)
  case (Cons peer peers)
  show ?case
  proof (cases "hasConnection p peer \<or> Atoi peer = None")
    case True
    with Cons show ?thesis by (auto split: if_splits)
  next
    case False
    with Cons.prems obtain port q tr1 r where "Connect E W p tr addr port = Some (q, tr1, r)" "joinNetwork E W addr peers q tr1 = Some (p', tr')"
      by (auto split: option.splits)
    with up_Connect Cons.IH show ?thesis by (metis up_trans)
  qed
qed simp

lemma up_joinKnownPeers: "joinKnownPeers E W as p tr = Some (p', tr') \<Longrightarrow> ups E' g p p'"
proof (induction as arbitrary: p tr)
  case (Cons a as)
  show ?case
  proof (cases "adr_ID a = [] \<or> adr_ID a = p_id p \<or> hasConnection p (adr_ID a)")
    case True
    with Cons show ?thesis by auto
  next
    case False
    with Cons.prems obtain q tr1 r where "ConnectAddress E W (recordPeerAddress p a) tr a = Some (q, tr1, r)"
      "joinKnownPeers E W as q tr1 = Some (p', tr')" by (auto split: option.splits)
    with up_ConnectAddress Cons.IH up_recordPeerAddress show ?thesis by (metis up_trans)
  qed
qed simp

lemma up_floodJoin:
  assumes "floodJoin E p tr = Some (p', tr')"
  shows "ups E' g p p'"
proof -
  from assms obtain q payload msg where "connectPayload_of E p = Some (q, payload)" "FloodNetwork (addReceivedFloodMessage q msg) tr msg = Some (p', tr')"
    by (auto simp: floodJoin_def Let_def)
  with up_connectPayload up_FloodNetwork up_heard show ?thesis by (metis up_trans)
qed

lemma up_handleJoin:
  assumes "handleJoin E W p tr msg = Some (p', tr')"
  shows "ups E' g p p'"
proof -
  define q where "q = recordPeerValidator (record_all p (addressesFromConnectPayload p (payload_bytes msg))) (msg_From msg)
    (validatorFromConnectPayload (payload_bytes msg))"
  have "ups E' g p q" unfolding q_def by (rule up_trans [OF up_record_all up_recordPeerValidator])
  moreover from assms have "p' = q \<or> (\<exists>a tr1 r. ConnectAddress E W q tr a = Some (p', tr1, r)) \<or>
      (\<exists>port tr1 r. Connect E W q tr ''localhost'' port = Some (p', tr1, r))"
    by (auto simp: handleJoin_def Let_def q_def [symmetric] split: if_splits option.splits)
  then have "ups E' g q p'" by (auto intro: up_ConnectAddress up_Connect)
  ultimately show ?thesis by (rule up_trans)
qed

text \<open>Messages of the older kind change the ledger directly; all others do not.\<close>

lemma up_OnMessage:
  assumes "OnMessage E W p tr from msg = Some (p', tr')" and "g \<or> msg_Type msg \<noteq> TRANSACTION_MESSAGE_TYPE"
  shows "ups E g p p'"
proof -
  from assms consider "p' = p"
    | q tr1 where "ups E g p q" "forward q tr1 msg = Some (p', tr')"
    | "ups E g p p'"
    by (auto simp: OnMessage_def split: if_splits
        dest: up_handleTransaction [where g = g] up_handlePoSTransaction [where g = g] up_handleBlock [where g = g]
          up_handleChainSyncResponse [where g = g] up_handleJoin [where g = g and E' = E])
  then show ?thesis
  proof cases
    case 2
    from up_trans [OF 2(1) up_forward [OF 2(2)]] show ?thesis .
  qed simp_all
qed

section \<open>Steps\<close>

lemma up_FloodPoSTransaction:
  assumes "FloodPoSTransaction E p tr t = Some (p', tr')"
  shows "ups E g p p'"
proof -
  from assms obtain msg q ok where q: "handlePoSTransaction E p msg = Some (q, ok)" "p' = q \<or> FloodNetwork q tr msg = Some (p', tr')"
    by (auto simp: FloodPoSTransaction_def Let_def split: if_splits)
  then have "ups E g q p'" by (auto intro: up_FloodNetwork)
  with up_handlePoSTransaction [OF q(1)] show ?thesis by (rule up_trans)
qed

lemma up_FloodTransaction:
  assumes "FloodTransaction E p tr t = Some (p', tr')"
  shows "ups E True p p'"
proof (cases "hasSeenMessage p (tx_ID t)")
  case False
  with assms obtain msg q ok where q: "handleTransaction E p msg = Some (q, ok)" "p' = q \<or> FloodNetwork q (tr @ [Received msg]) msg = Some (p', tr')"
    by (auto simp: FloodTransaction_def Let_def split: if_splits)
  then have "ups E True q p'" by (auto intro: up_FloodNetwork)
  with up_handleTransaction [OF q(1)] show ?thesis by (blast intro: up_trans)
qed (use assms in \<open>simp add: FloodTransaction_def\<close>)

lemma select_candidate_frame:
  assumes "select_candidate E W p l = Some (p', selected)"
  shows "\<exists>m. p' = p\<lparr>p_mempool := m\<rparr> \<and> pool_le m (p_mempool p)"
proof -
  from assms obtain q n m where q: "pruneInvalidMempool E (w_order W 0) p = Some (q, n)"
    "select_txs E l (pool_values (w_order W 1 (p_mempool q)) (p_mempool q)) (p_mempool q) [] = Some (m, selected)" "p' = q\<lparr>p_mempool := m\<rparr>"
    by (auto simp: select_candidate_def)
  from prune_frame [OF q(1)] obtain m1 where m1: "q = p\<lparr>p_mempool := m1\<rparr>" "pool_le m1 (p_mempool p)" by blast
  from q(3) have "p' = p\<lparr>p_mempool := m\<rparr>" unfolding m1(1) by simp
  moreover from pool_le_select [OF q(2)] m1 have "pool_le m (p_mempool p)" by (auto intro: pool_le_trans)
  ultimately show ?thesis by blast
qed

lemma up_publish_block:
  assumes "publish_block E W p tr block = Some (p', tr', r)"
  shows "ups E g p p'"
proof -
  from assms obtain q ok where q: "ApplyBlock E (w_order W 2) p block = Some (q, ok)" by (auto simp: publish_block_def)
  show ?thesis
  proof (cases ok)
    case False
    with assms q up_ApplyBlock show ?thesis by (auto simp: publish_block_def)
  next
    case True
    note up_ApplyBlock [OF q]
    also have "ups E g q (q\<lparr>p_minedBlocks := p_minedBlocks q + 1\<rparr>)" by (rule up_other) (simp add: same_core_def)
    also have "ups E g (q\<lparr>p_minedBlocks := p_minedBlocks q + 1\<rparr>) p'"
      using assms q True by (auto simp: publish_block_def Let_def intro: up_FloodNetwork)
    finally show ?thesis .
  qed
qed

lemma up_mine_candidate:
  assumes "mine_candidate E W p tr chain miner genesis slot tickets draw = Some (p', tr', r)"
  shows "ups E g p p'"
proof -
  from assms obtain pb pl ph where f: "CanonicalBlocks E chain 0 = Some pb" "LedgerFromBlockchain E chain 0 = Some pl"
    "BestLeafHash E chain = Some ph" by (auto simp: mine_candidate_def)
  with assms obtain q selected where q: "select_candidate E W p pl = Some (q, selected)" by (auto simp: mine_candidate_def)
  from select_candidate_frame [OF q] have "ups E g p q" by (auto intro: up(8))
  also have "ups E g q (q\<lparr>p_genesis := Some (applyDefaultDynamicHardnessConfig genesis), p_lotteryWins := p_lotteryWins q + 1\<rparr>)"
    by (rule up_other) (simp add: same_core_def)
  finally have won: "ups E g p (q\<lparr>p_genesis := Some (applyDefaultDynamicHardnessConfig genesis), p_lotteryWins := p_lotteryWins q + 1\<rparr>)" .
  have lost: "ups E g q (q\<lparr>p_genesis := Some (applyDefaultDynamicHardnessConfig genesis), p_lotteryMisses := p_lotteryMisses q + 1\<rparr>)"
    by (rule up_other) (simp add: same_core_def)
  show ?thesis
  proof (cases "WinsLottery tickets (EffectiveHardnessForMining pb (Some genesis) (int (length selected))) draw")
    case True
    with assms f q have "publish_block E W (q\<lparr>p_genesis := Some (applyDefaultDynamicHardnessConfig genesis), p_lotteryWins := p_lotteryWins q + 1\<rparr>) tr
        (NewCandidateBlock E miner slot ph selected (Seed genesis)) = Some (p', tr', r)" by (simp add: mine_candidate_def)
    from won up_publish_block [OF this] show ?thesis by (rule up_trans)
  next
    case False
    with assms f q have "p' = q\<lparr>p_genesis := Some (applyDefaultDynamicHardnessConfig genesis), p_lotteryMisses := p_lotteryMisses q + 1\<rparr>"
      by (simp add: mine_candidate_def)
    with \<open>ups E g p q\<close> lost show ?thesis by (auto intro: up_trans)
  qed
qed

lemma MineOneSlot_cases:
  assumes "MineOneSlot E W p tr slot = Some (p', tr', r)"
  obtains "same_core p p'" "tr' = tr" "r = None"
  | chain miner genesis draw where "p_blockchain p = Some chain" "p_miner p = Some miner" "p_genesis p = Some genesis"
      "ComputeLotteryDrawFromProof E (SignLotteryProof E (Seed genesis) slot (Some miner)) = Some draw" "0 < ValidatorStake p"
      "mine_candidate E W (p\<lparr>p_lotteryAttempts := p_lotteryAttempts p + 1\<rparr>) tr chain miner genesis slot (ValidatorStake p) draw = Some (p', tr', r)"
proof (cases "p_blockchain p = None \<or> p_miner p = None \<or> p_genesis p = None")
  case True
  with assms show ?thesis by (intro that(1)) (auto simp: MineOneSlot_def same_core_def split: option.splits)
next
  case False
  then obtain chain miner genesis where f: "p_blockchain p = Some chain" "p_miner p = Some miner" "p_genesis p = Some genesis" by auto
  have stake: "ValidatorStake (p\<lparr>p_lotteryAttempts := p_lotteryAttempts p + 1\<rparr>) = ValidatorStake p" by (simp add: ValidatorStake_def split: option.split)
  show ?thesis
  proof (cases "ComputeLotteryDrawFromProof E (SignLotteryProof E (Seed genesis) slot (Some miner))")
    case None
    with assms f show ?thesis by (intro that(1)) (auto simp: MineOneSlot_def same_core_def)
  next
    case (Some draw)
    show ?thesis
    proof (cases "0 < ValidatorStake p \<and> WinsLottery (ValidatorStake p) (optimisticLotteryHardness (p\<lparr>p_lotteryAttempts := p_lotteryAttempts p + 1\<rparr>)) draw")
      case True
      with assms f Some stake show ?thesis by (intro that(2) [OF f Some]) (simp_all add: MineOneSlot_def Let_def)
    next
      case False
      with assms f Some stake show ?thesis
        by (intro that(1)) (auto simp: MineOneSlot_def same_core_def Let_def split: if_splits)
    qed
  qed
qed

lemma up_MineOneSlot:
  assumes "MineOneSlot E W p tr slot = Some (p', tr', r)"
  shows "ups E g p p'"
  using assms
proof (cases rule: MineOneSlot_cases)
  case 1
  then show ?thesis by (blast intro: up_other)
next
  case (2 chain miner genesis draw)
  have "ups E g p (p\<lparr>p_lotteryAttempts := p_lotteryAttempts p + 1\<rparr>)" by (rule up_other) (simp add: same_core_def)
  with up_mine_candidate [OF 2(6)] show ?thesis by (blast intro: up_trans)
qed

lemma up_ConfigurePoS:
  assumes "ConfigurePoS E p genesis miner = Some p'"
  shows "ups E g p p'"
proof -
  define v where "v = (case miner of None \<Rightarrow> p_peerValidators p | Some m \<Rightarrow> fmupd (p_id p) (SafeEncode m) (p_peerValidators p))"
  from assms obtain l where l: "LedgerFromBlockchain E (NewBlockchainWithGenesis genesis) (p_finalityDepth p) = Some l"
    "p' = p\<lparr>p_genesis := Some (fst (marshalGenesisMetaData genesis)), p_miner := miner, p_peerValidators := v,
       p_blockchain := Some (NewBlockchainWithGenesis genesis), p_ledger := l\<rparr>"
    by (cases miner) (auto simp: ConfigurePoS_def Let_def v_def)
  have "ups E g p (p\<lparr>p_genesis := Some (fst (marshalGenesisMetaData genesis)), p_miner := miner, p_peerValidators := v\<rparr>)"
    by (rule up_other) (simp add: same_core_def)
  with up(9) [OF l(1), of g "p\<lparr>p_genesis := Some (fst (marshalGenesisMetaData genesis)), p_miner := miner, p_peerValidators := v\<rparr>"]
  show ?thesis by (simp add: l(2) up_trans)
qed

lemma up_SetFinalityDepth:
  assumes "SetFinalityDepth E p depth = Some p'"
  shows "ups E g p p'"
proof (cases "p_blockchain p")
  case None
  with assms show ?thesis by (auto simp: SetFinalityDepth_def intro: up(11))
next
  case (Some chain)
  define d where "d = (if depth < 0 then 0 else depth)"
  from assms Some obtain l where l: "LedgerFromBlockchain E chain d = Some l" "p' = p\<lparr>p_finalityDepth := d, p_ledger := l\<rparr>"
    by (auto simp: SetFinalityDepth_def Let_def d_def)
  have "p' = p\<lparr>p_blockchain := Some chain, p_finalityDepth := d, p_ledger := l\<rparr>" using l(2) Some by (cases p) simp
  with up(9) [OF l(1)] show ?thesis by simp
qed

lemma up_SetAdvertiseHost: "ups E' g p (SetAdvertiseHost E p host)"
proof (cases "TrimSpace host = []")
  case False
  let ?new = "peerID E (TrimSpace host) (p_listenport p)"
  let ?q = "if ?new \<noteq> p_id p then rekeyLocked p (p_id p) ?new else p"
  have "ups E' g p ?q" by (simp add: up(5))
  also have "ups E' g ?q (SetAdvertiseHost E p host)"
    using False by (intro up_other) (simp add: SetAdvertiseHost_def same_core_def Let_def)
  finally show ?thesis .
qed (simp add: SetAdvertiseHost_def)

text \<open>
  The steps of a peer. With \<open>legacy\<close> the peer also takes the messages that apply a transaction to the
  ledger at once.
\<close>

inductive peer_step :: "env \<Rightarrow> bool \<Rightarrow> Peer \<Rightarrow> Peer \<Rightarrow> bool" for E legacy where
  on_message: "OnMessage E W p tr from msg = Some (p', tr') \<Longrightarrow> legacy \<or> msg_Type msg \<noteq> TRANSACTION_MESSAGE_TYPE \<Longrightarrow> peer_step E legacy p p'"
| on_accept: "prepareConnection E W p tr conn remote input True = Some (p', tr', r) \<Longrightarrow> peer_step E legacy p p'"
| on_dial: "ConnectAddress E W p tr address = Some (p', tr', peers) \<Longrightarrow> peer_step E legacy p p'"
| on_connect: "Connect E W p tr addr port = Some (p', tr', ids) \<Longrightarrow> peer_step E legacy p p'"
| on_join: "joinNetwork E W addr ids p tr = Some (p', tr') \<Longrightarrow> peer_step E legacy p p'"
| on_known: "joinKnownPeers E W addresses p tr = Some (p', tr') \<Longrightarrow> peer_step E legacy p p'"
| on_announce: "floodJoin E p tr = Some (p', tr') \<Longrightarrow> peer_step E legacy p p'"
| on_close: "peer_step E legacy p (close_connection p peer conn)"
| on_mine: "MineOneSlot E W p tr slot = Some (p', tr', r) \<Longrightarrow> peer_step E legacy p p'"
| on_submit: "FloodPoSTransaction E p tr t = Some (p', tr') \<Longrightarrow> peer_step E legacy p p'"
| on_apply: "legacy \<Longrightarrow> FloodTransaction E p tr t = Some (p', tr') \<Longrightarrow> peer_step E legacy p p'"
| on_block: "ApplyBlock E order p block = Some (p', ok) \<Longrightarrow> peer_step E legacy p p'"
| on_configure: "ConfigurePoS E p genesis miner = Some p' \<Longrightarrow> peer_step E legacy p p'"
| on_finality: "SetFinalityDepth E p depth = Some p' \<Longrightarrow> peer_step E legacy p p'"
| on_advertise: "peer_step E legacy p (SetAdvertiseHost E p host)"
| on_start: "peer_step E legacy p (fst (Start listening p))"
| on_summaries: "MempoolSummaries E p = Some (p', rows) \<Longrightarrow> peer_step E legacy p p'"
| on_hardness: "CurrentEffectiveHardness E p = Some (p', h) \<Longrightarrow> peer_step E legacy p p'"

lemma step_updates: "peer_step E g p p' \<Longrightarrow> ups E g p p'"
proof (induction rule: peer_step.induct)
  case (on_message W p tr "from" msg p' tr')
  then show ?case by (rule up_OnMessage)
next
  case (on_close p peer conn)
  show ?case by (simp add: close_connection_def up(4))
next
  case (on_apply p tr t p' tr')
  then show ?case using up_FloodTransaction [OF on_apply(2)] by simp
next
  case (on_finality p depth p')
  then show ?case by (rule up_SetFinalityDepth)
next
  case (on_start p listening)
  show ?case by (simp add: Start_def up(3))
next
  case (on_summaries p p' rows)
  then show ?case by (auto simp: MempoolSummaries_def intro: pool_le_rows)
next
  case (on_hardness p p' h)
  then show ?case by (intro up_other) (auto simp: CurrentEffectiveHardness_def same_core_def split: option.splits)
qed (blast intro: up_prepareConnection up_ConnectAddress up_Connect up_joinNetwork up_joinKnownPeers up_floodJoin up_MineOneSlot
    up_FloodPoSTransaction up_ApplyBlock up_ConfigurePoS up_SetAdvertiseHost)+

text \<open>The accepting loop is a sequence of such steps.\<close>

lemma listenForPeers_steps: "listenForPeers E W accepts p tr = Some (p', tr') \<Longrightarrow> (peer_step E legacy)\<^sup>*\<^sup>* p p'"
proof (induction E W accepts p tr rule: listenForPeers.induct)
  case (3 E W conn remote input accepts p tr)
  then obtain q trq r where "prepareConnection E W p tr conn remote input True = Some (q, trq, r)"
    and "(peer_step E legacy)\<^sup>*\<^sup>* q p'" by (auto split: option.splits)
  then show ?case by (blast intro: peer_step.on_accept converse_rtranclp_into_rtranclp)
qed auto

end
