(* ===== verification/PeerInvariants.thy ===== *)
theory PeerInvariants
  imports PeerMachine
begin

text \<open>
  The invariants of the peers the code can reach. \<open>update_invariant\<close> is the contract: a property
  that every elementary update keeps holds of all reachable peers. It is interpreted for the shape of the
  mempool, for the connections and for the cached ledger; \<open>update_order\<close> is the contract of
  a relation between earlier and later states, interpreted for the history of messages.
\<close>

inductive reachable :: "env \<Rightarrow> bool \<Rightarrow> Peer \<Rightarrow> bool" for E legacy where
  new_peer: "reachable E legacy (NewPeer listenport)"
| step_on: "reachable E legacy p \<Longrightarrow> peer_step E legacy p p' \<Longrightarrow> reachable E legacy p'"

locale update_invariant =
  fixes E :: env and legacy :: bool and inv :: "Peer \<Rightarrow> bool"
  assumes initial: "inv (NewPeer listenport)"
    and kept: "peer_update E legacy p p' \<Longrightarrow> inv p \<Longrightarrow> inv p'"
begin

lemma updates_inv: "ups E legacy p p' \<Longrightarrow> inv p \<Longrightarrow> inv p'"
  by (induction rule: rtranclp_induct) (auto intro: kept)

lemma step_inv: "peer_step E legacy p p' \<Longrightarrow> inv p \<Longrightarrow> inv p'"
  by (rule updates_inv [OF step_updates])

lemma reachable_inv: "reachable E legacy p \<Longrightarrow> inv p"
  by (induction rule: reachable.induct) (auto intro: initial step_inv)

end

locale update_order =
  fixes le :: "Peer \<Rightarrow> Peer \<Rightarrow> bool"
  assumes le_refl: "le p p"
    and le_trans: "le p q \<Longrightarrow> le q r \<Longrightarrow> le p r"
    and le_update: "peer_update E legacy p p' \<Longrightarrow> le p p'"
begin

lemma updates_le: "ups E legacy p p' \<Longrightarrow> le p p'"
  by (induction rule: rtranclp_induct) (auto intro: le_refl le_trans le_update)

lemma step_le: "peer_step E legacy p p' \<Longrightarrow> le p p'"
  by (rule updates_le [OF step_updates])

lemma steps_le: "(peer_step E legacy)\<^sup>*\<^sup>* p p' \<Longrightarrow> le p p'"
  by (induction rule: rtranclp_induct) (auto intro: le_refl le_trans step_le)

end

section \<open>The mempool\<close>

text \<open>The key of a pending transaction is its identifier; a sender has one pending EVM transaction per nonce.\<close>

definition mempool_ok :: "mempool \<Rightarrow> bool" where
  "mempool_ok m \<longleftrightarrow> (\<forall>i t. fmlookup m i = Some t \<longrightarrow> tx_ID t = i) \<and>
     (\<forall>i j t u. fmlookup m i = Some t \<longrightarrow> fmlookup m j = Some u \<longrightarrow> IsEVM t \<longrightarrow> same_nonce u t \<longrightarrow> i = j)"

lemma mempool_okD:
  "mempool_ok m \<Longrightarrow> fmlookup m i = Some t \<Longrightarrow> tx_ID t = i"
  "mempool_ok m \<Longrightarrow> fmlookup m i = Some t \<Longrightarrow> fmlookup m j = Some u \<Longrightarrow> IsEVM t \<Longrightarrow> same_nonce u t \<Longrightarrow> i = j"
  unfolding mempool_ok_def by blast+

lemma mempool_ok_empty [simp]: "mempool_ok fmempty"
  by (simp add: mempool_ok_def)

lemma share_keeps:
  assumes "share_payload t t' = t'"
  shows "tx_ID t' = tx_ID t" "IsEVM t' = IsEVM t" "same_nonce t' u = same_nonce t u" "same_nonce u t' = same_nonce u t"
  by (subst assms [symmetric], simp add: share_payload_def IsEVM_def same_nonce_def)+

lemma mempool_ok_le:
  assumes "mempool_ok m" and "pool_le m' m"
  shows "mempool_ok m'"
proof -
  have old: "\<exists>t. fmlookup m i = Some t \<and> share_payload t t' = t'" if "fmlookup m' i = Some t'" for i t'
    using assms(2) that unfolding pool_le_def by blast
  show ?thesis unfolding mempool_ok_def
  proof (intro conjI allI impI)
    fix i t' assume "fmlookup m' i = Some t'"
    then obtain t where t: "fmlookup m i = Some t" "share_payload t t' = t'" using old by blast
    from mempool_okD(1) [OF assms(1) t(1)] share_keeps(1) [OF t(2)] show "tx_ID t' = i" by simp
  next
    fix i j t' u' assume "fmlookup m' i = Some t'" "fmlookup m' j = Some u'" and n: "IsEVM t'" "same_nonce u' t'"
    then obtain t u where t: "fmlookup m i = Some t" "share_payload t t' = t'" and u: "fmlookup m j = Some u" "share_payload u u' = u'"
      using old by blast
    from n have "IsEVM t" "same_nonce u t" unfolding share_keeps(2,4) [OF t(2)] share_keeps(3) [OF u(2)] .
    with mempool_okD(2) [OF assms(1) t(1) u(1)] show "i = j" by blast
  qed
qed

lemma same_nonce_sym: "IsEVM t \<Longrightarrow> same_nonce u t \<Longrightarrow> same_nonce t u"
  by (simp add: same_nonce_def EqualFold_def)

lemma admit_lookup:
  "fmlookup (admit t m) i = (if i = tx_ID t then Some t
     else case fmlookup m i of None \<Rightarrow> None | Some u \<Rightarrow> if IsEVM t \<and> same_nonce u t then None else Some u)"
  by (auto simp: admit_def Let_def split: option.splits)

lemma mempool_ok_admit:
  assumes "mempool_ok m"
  shows "mempool_ok (admit t m)"
  unfolding mempool_ok_def
proof (intro conjI allI impI)
  fix i u
  assume "fmlookup (admit t m) i = Some u"
  with mempool_okD(1) [OF assms] show "tx_ID u = i" by (auto simp: admit_lookup split: if_splits option.splits)
next
  fix i j u v
  assume u: "fmlookup (admit t m) i = Some u" and v: "fmlookup (admit t m) j = Some v" and n: "IsEVM u" "same_nonce v u"
  have "IsEVM v" using n(2) by (simp add: same_nonce_def)
  show "i = j"
  proof (rule ccontr)
    assume "i \<noteq> j"
    with u v n \<open>IsEVM v\<close> same_nonce_sym [OF n] mempool_okD(2) [OF assms] show False
      by (auto simp: admit_lookup split: if_splits option.splits)
  qed
qed

interpretation pool_inv: update_invariant E legacy "\<lambda>p. mempool_ok (p_mempool p)" for E legacy
proof
  fix p p'
  assume "peer_update E legacy p p'" "mempool_ok (p_mempool p)"
  then show "mempool_ok (p_mempool p')"
    by (induction rule: peer_update.induct) (auto simp: same_core_def rekeyLocked_def intro: mempool_ok_admit mempool_ok_le)
qed (simp add: NewPeer_def)

text \<open>Every pending transaction passed the signature check.\<close>

definition pool_verified :: "env \<Rightarrow> mempool \<Rightarrow> bool" where
  "pool_verified E m \<longleftrightarrow> fmpred (\<lambda>_ t. admissible E t) m"

lemma share_part: "share_payload t t' = t' \<Longrightarrow> signed_part t' = signed_part t"
  by (erule subst) (simp add: share_payload_def signed_part_def)

lemma admissible_cong: "signed_part t = signed_part u \<Longrightarrow> admissible E t = admissible E u"
  by (simp add: admissible_def signed_part_def)

lemma pool_verified_le:
  assumes "pool_verified E m" and "pool_le m' m"
  shows "pool_verified E m'"
  using assms admissible_cong [OF share_part] unfolding pool_verified_def fmpred_iff pool_le_def by blast

lemma pool_verified_admit: "pool_verified E m \<Longrightarrow> admissible E t \<Longrightarrow> pool_verified E (admit t m)"
  by (auto simp: pool_verified_def fmpred_iff admit_lookup split: if_splits option.splits)

interpretation verified_inv: update_invariant E legacy "\<lambda>p. pool_verified E (p_mempool p)" for E legacy
proof
  fix p p'
  assume "peer_update E legacy p p'" "pool_verified E (p_mempool p)"
  then show "pool_verified E (p_mempool p')"
    by (induction rule: peer_update.induct) (auto simp: same_core_def rekeyLocked_def intro: pool_verified_admit pool_verified_le)
qed (simp add: NewPeer_def pool_verified_def)

section \<open>Connections\<close>

text \<open>The only nil connection is the peer's own.\<close>

definition nil_self :: "Peer \<Rightarrow> bool" where
  "nil_self p \<longleftrightarrow> (\<forall>i. fmlookup (p_conns p) i = Some None \<longrightarrow> i = p_id p)"

interpretation conn_inv: update_invariant E legacy nil_self for E legacy
proof
  fix p p'
  assume "peer_update E legacy p p'" "nil_self p"
  then show "nil_self p'"
    by (induction rule: peer_update.induct) (auto simp: same_core_def rekeyLocked_def rekey_map_def nil_self_def split: option.splits if_splits)
qed (simp add: NewPeer_def nil_self_def)

lemma write_to_writes:
  assumes "nil_self p" and "set peers \<subseteq> fset (fmdom (p_conns p))"
  shows "write_to p heard msg peers tr =
    Some (tr @ map (\<lambda>i. Write (the (connection p i)) msg) (filter (\<lambda>i. i \<noteq> p_id p \<and> i \<notin> set heard) peers))"
  using assms(2)
proof (induction peers arbitrary: tr)
  case (Cons i ids)
  then obtain c where c: "fmlookup (p_conns p) i = Some c" by (metis fmdomE insert_subset list.simps(15))
  with assms(1) Cons show ?case by (cases c) (auto simp: mget_def connection_def nil_self_def)
qed simp

section \<open>The cached ledger\<close>

definition ledger_cached :: "env \<Rightarrow> Peer \<Rightarrow> bool" where
  "ledger_cached E p \<longleftrightarrow> (\<forall>chain. p_blockchain p = Some chain \<longrightarrow> LedgerFromBlockchain E chain (p_finalityDepth p) = Some (p_ledger p))"

interpretation cache_inv: update_invariant E False "ledger_cached E" for E
proof
  fix p p'
  assume "peer_update E False p p'" "ledger_cached E p"
  then show "ledger_cached E p'"
    by (induction rule: peer_update.induct) (auto simp: same_core_def rekeyLocked_def ledger_cached_def)
qed (simp add: NewPeer_def ledger_cached_def)

section \<open>The history of messages\<close>

lemma hist_grows_refl: "hist_grows m m"
  by (auto simp: hist_grows_def)

lemma hist_grows_trans:
  assumes "hist_grows m m'" and "hist_grows m' m''"
  shows "hist_grows m m''"
  unfolding hist_grows_def
proof (intro allI impI)
  fix i h assume "fmlookup m i = Some h"
  with assms(1) obtain h' where h': "fmlookup m' i = Some h'" "hist_content h' = hist_content h" "hist_isSent h \<longrightarrow> hist_isSent h'"
    "set (hist_receivedFrom h) \<subseteq> set (hist_receivedFrom h')" unfolding hist_grows_def by blast
  from assms(2) h'(1) obtain h'' where "fmlookup m'' i = Some h''" "hist_content h'' = hist_content h'" "hist_isSent h' \<longrightarrow> hist_isSent h''"
    "set (hist_receivedFrom h') \<subseteq> set (hist_receivedFrom h'')" unfolding hist_grows_def by blast
  with h' show "\<exists>h''. fmlookup m'' i = Some h'' \<and> hist_content h'' = hist_content h \<and> (hist_isSent h \<longrightarrow> hist_isSent h'') \<and>
    set (hist_receivedFrom h) \<subseteq> set (hist_receivedFrom h'')" by auto
qed

interpretation history: update_order "\<lambda>p p'. hist_grows (p_msgHistory p) (p_msgHistory p')"
proof
  fix E legacy p p'
  assume "peer_update E legacy p p'"
  then show "hist_grows (p_msgHistory p) (p_msgHistory p')"
    by (induction rule: peer_update.induct) (auto simp: same_core_def rekeyLocked_def hist_grows_refl)
qed (auto intro: hist_grows_refl hist_grows_trans)

lemma hist_grows_mhas: "hist_grows m m' \<Longrightarrow> mhas m i \<Longrightarrow> mhas m' i"
  by (force simp: hist_grows_def mhas_def)

lemma hist_grows_sentD:
  assumes "hist_grows m m'" and "hist_isSent (mget MessageHistory_zero m i)"
  shows "hist_isSent (mget MessageHistory_zero m' i)"
  using assms by (force simp: hist_grows_def mget_def MessageHistory_zero_def split: option.splits)

end
