(* ===== verification/PruneFacts.thy ===== *)
theory PruneFacts
  imports PeerInvariants
begin

text \<open>
  What pruning the mempool leaves. \<open>try_all\<close> is the specification: transactions tried one after another
  on a ledger, with the identifiers of those that applied. The loop of \<open>pruneInvalidMempool\<close> tries
  pending transactions until none applies any more.
\<close>

fun try_all :: "env \<Rightarrow> Ledger \<Rightarrow> SignedTransaction list \<Rightarrow> (Ledger \<times> string list) go" where
  "try_all E l [] = Some (l, [])"
| "try_all E l (t # ts) = (case Transaction E l t of
      None \<Rightarrow> None
    | Some (l, _, ok) \<Rightarrow> map_option (\<lambda>(l, ids). (l, if ok then tx_ID t # ids else ids)) (try_all E l ts))"

lemma try_all_append:
  assumes "try_all E l xs = Some (l1, ids)" and "try_all E l1 ys = Some (l2, ids')"
  shows "try_all E l (xs @ ys) = Some (l2, ids @ ids')"
  using assms(1)
proof (induction xs arbitrary: l ids)
  case Nil
  with assms(2) show ?case by simp
next
  case (Cons t ts)
  then obtain l0 t0 ok where t: "Transaction E l t = Some (l0, t0, ok)" by (cases "Transaction E l t") auto
  with Cons.prems obtain is0 where "try_all E l0 ts = Some (l1, is0)" "ids = (if ok then tx_ID t # is0 else is0)" by auto
  with Cons.IH t show ?case by auto
qed

definition same_but_contracts :: "Ledger \<Rightarrow> Ledger \<Rightarrow> bool" where
  "same_but_contracts l l' \<longleftrightarrow> l\<lparr>EVMAccounts := EVMAccounts l'\<rparr> = l'"

lemma same_but_contracts_refl [simp]: "same_but_contracts l l"
  by (simp add: same_but_contracts_def)

lemma same_but_contracts_trans: "same_but_contracts l l' \<Longrightarrow> same_but_contracts l' l'' \<Longrightarrow> same_but_contracts l l''"
  by (cases l; cases l'; cases l'') (simp add: same_but_contracts_def)

lemma refused_same: "Transaction E l t = Some (l', t', False) \<Longrightarrow> same_but_contracts l l'"
  using Transaction_False by (simp add: same_but_contracts_def)

text \<open>The copies of the pending transactions, with payloads that trying them normalised.\<close>

abbreviation normalised :: "SignedTransaction list \<Rightarrow> SignedTransaction list \<Rightarrow> bool" where
  "normalised \<equiv> list_all2 (\<lambda>t t'. share_payload t t' = t')"

lemma normalised_refl: "normalised ts ts"
  by (simp add: list_all2_same)

lemma normalised_trans: "normalised ts us \<Longrightarrow> normalised us vs \<Longrightarrow> normalised ts vs"
  unfolding list_all2_conv_all_nth by (metis share_payload_trans)

lemma normalised_ids: "normalised ts us \<Longrightarrow> map tx_ID us = map tx_ID ts"
proof (induction rule: list_all2_induct)
  case (Cons t ts u us)
  then show ?case using share_keeps(1) [of t u] by simp
qed simp

lemma prune_pass_spec:
  assumes "prune_pass E l keep pending = Some (l', keep', pending', progress)"
  shows "\<exists>attempts ids. try_all E l attempts = Some (l', ids) \<and> keep' = rev ids @ keep \<and> set attempts \<subseteq> set pending \<and>
    normalised pending pending' \<and> distinct ids \<and> set ids \<inter> set keep = {} \<and> set ids \<subseteq> tx_ID ` set pending"
  using assms
proof (induction pending arbitrary: l keep keep' pending' progress)
  case Nil
  then show ?case by (intro exI [of _ "[]"]) simp
next
  case (Cons tx pending)
  show ?case
  proof (cases "tx_ID tx \<in> set keep")
    case True
    with Cons.prems obtain ps where ps: "prune_pass E l keep pending = Some (l', keep', ps, progress)" "pending' = tx # ps" by auto
    from Cons.IH [OF ps(1)] ps(2) show ?thesis by fastforce
  next
    case False
    obtain l1 c ok ps pr where ps: "Transaction E l tx = Some (l1, c, ok)"
      "prune_pass E l1 (if ok then tx_ID tx # keep else keep) pending = Some (l', keep', ps, pr)"
      "pending' = share_payload tx c # ps" "progress \<longleftrightarrow> ok \<or> pr"
      by (rule prune_pass_tried [OF Cons.prems False])
    from Cons.IH [OF ps(2)] obtain attempts ids where
      ih: "try_all E l1 attempts = Some (l', ids)" "keep' = rev ids @ (if ok then tx_ID tx # keep else keep)" "set attempts \<subseteq> set pending"
        "normalised pending ps" "distinct ids" "set ids \<inter> set (if ok then tx_ID tx # keep else keep) = {}" "set ids \<subseteq> tx_ID ` set pending"
      by blast
    show ?thesis
      by (intro exI [of _ "tx # attempts"] exI [of _ "if ok then tx_ID tx # ids else ids"])
        (use ih ps False in \<open>auto split: if_splits\<close>)
  qed
qed

lemma prune_pass_last:
  assumes "prune_pass E l keep pending = Some (l', keep', pending', False)"
  shows "keep' = keep \<and> same_but_contracts l l' \<and> (\<forall>t \<in> set pending. tx_ID t \<notin> set keep \<longrightarrow>
    (\<exists>l1 l2 t'. same_but_contracts l1 l' \<and> Transaction E l1 t = Some (l2, t', False)))"
  using assms
proof (induction pending arbitrary: l keep keep' pending')
  case (Cons tx pending)
  show ?case
  proof (cases "tx_ID tx \<in> set keep")
    case True
    with Cons.prems obtain ps where ps: "prune_pass E l keep pending = Some (l', keep', ps, False)" by auto
    from Cons.IH [OF ps(1)] True show ?thesis by auto
  next
    case False
    obtain l1 c ok ps pr where ps: "Transaction E l tx = Some (l1, c, ok)"
      "prune_pass E l1 (if ok then tx_ID tx # keep else keep) pending = Some (l', keep', ps, pr)"
      "pending' = share_payload tx c # ps" "False \<longleftrightarrow> ok \<or> pr"
      by (rule prune_pass_tried [OF Cons.prems False])
    with Cons.IH [of l1 keep keep' ps] have ih: "keep' = keep" "same_but_contracts l1 l'" "\<forall>t \<in> set pending. tx_ID t \<notin> set keep \<longrightarrow>
      (\<exists>l1 l2 t'. same_but_contracts l1 l' \<and> Transaction E l1 t = Some (l2, t', False))" by auto
    have "same_but_contracts l l1" using ps(1,4) by (auto intro: refused_same)
    from same_but_contracts_trans [OF this ih(2)] have "same_but_contracts l l'" .
    with ih ps(1,4) show ?thesis by auto
  qed
qed simp

lemma prune_loop_spec:
  assumes "prune_loop E l keep pending = Some (l', keep', pending')"
  shows "\<exists>attempts ids. try_all E l attempts = Some (l', ids) \<and> keep' = rev ids @ keep \<and> distinct ids \<and> set ids \<inter> set keep = {} \<and>
    set ids \<subseteq> tx_ID ` set pending \<and> normalised pending pending' \<and> (\<forall>t \<in> set attempts. \<exists>u \<in> set pending. share_payload u t = t) \<and>
    (\<forall>u \<in> set pending. tx_ID u \<notin> set keep' \<longrightarrow>
       (\<exists>t l1 l2 t'. share_payload u t = t \<and> same_but_contracts l1 l' \<and> Transaction E l1 t = Some (l2, t', False)))"
  using assms
proof (induction E l keep pending rule: prune_loop.induct)
  case (1 E l keep pending)
  from "1.prems" obtain r where "prune_pass E l keep pending = Some r" by (subst (asm) prune_loop.simps) (cases "prune_pass E l keep pending"; simp)
  then obtain l1 k1 p1 progress where pass: "prune_pass E l keep pending = Some (l1, k1, p1, progress)" by (cases r) blast
  from prune_pass_spec [OF pass] obtain attempts ids where
    a: "try_all E l attempts = Some (l1, ids)" "k1 = rev ids @ keep" "set attempts \<subseteq> set pending"
      "normalised pending p1" "distinct ids" "set ids \<inter> set keep = {}" "set ids \<subseteq> tx_ID ` set pending" by blast
  show ?case
  proof (cases progress)
    case False
    with "1.prems" pass have r: "l' = l1" "keep' = k1" "pending' = p1" by (simp_all add: prune_loop.simps)
    from pass False have "prune_pass E l keep pending = Some (l1, k1, p1, False)" by simp
    from prune_pass_last [OF this] have "k1 = keep"
      and last: "\<forall>t \<in> set pending. tx_ID t \<notin> set keep \<longrightarrow> (\<exists>l2 l3 t'. same_but_contracts l2 l1 \<and> Transaction E l2 t = Some (l3, t', False))" by auto
    have tried: "\<forall>t \<in> set attempts. \<exists>u \<in> set pending. share_payload u t = t" using a(3) by (auto intro!: bexI)
    have refused: "\<forall>u \<in> set pending. tx_ID u \<notin> set k1 \<longrightarrow>
       (\<exists>t l2 l3 t'. share_payload u t = t \<and> same_but_contracts l2 l1 \<and> Transaction E l2 t = Some (l3, t', False))"
      using last \<open>k1 = keep\<close> share_payload_same(1) by fast
    show ?thesis unfolding r
      by (intro exI [of _ attempts] exI [of _ ids] conjI tried refused a)
  next
    case True
    with "1.prems" pass have "prune_loop E l1 k1 p1 = Some (l', keep', pending')" by (simp add: prune_loop.simps)
    from "1.IH" [OF pass _ _ _ True this, of "(k1, p1, progress)" "(p1, progress)"] obtain attempts' ids' where
      b: "try_all E l1 attempts' = Some (l', ids')" "keep' = rev ids' @ k1" "distinct ids'" "set ids' \<inter> set k1 = {}"
        "set ids' \<subseteq> tx_ID ` set p1" "normalised p1 pending'" "\<forall>t \<in> set attempts'. \<exists>u \<in> set p1. share_payload u t = t"
        "\<forall>u \<in> set p1. tx_ID u \<notin> set keep' \<longrightarrow>
          (\<exists>t l1 l2 t'. share_payload u t = t \<and> same_but_contracts l1 l' \<and> Transaction E l1 t = Some (l2, t', False))"
      by auto
    have origin: "\<exists>u \<in> set pending. share_payload u t = t" if "t \<in> set p1" for t
      using a(4) that unfolding list_all2_conv_all_nth in_set_conv_nth by (metis nth_mem)
    have to: "\<exists>t \<in> set p1. share_payload u t = t" if "u \<in> set pending" for u
      using a(4) that unfolding list_all2_conv_all_nth in_set_conv_nth by (metis nth_mem)
    have "tx_ID ` set p1 \<subseteq> tx_ID ` set pending" using origin share_keeps(1) by (metis image_eqI image_subsetI)
    with a(7) b(5) have ids: "set (ids @ ids') \<subseteq> tx_ID ` set pending" by auto
    have tried: "\<forall>t \<in> set (attempts @ attempts'). \<exists>u \<in> set pending. share_payload u t = t"
      using a(3) b(7) origin share_payload_trans share_payload_same(1) by (metis Un_iff set_append subsetD)
    have refused: "\<forall>u \<in> set pending. tx_ID u \<notin> set keep' \<longrightarrow>
       (\<exists>t l1 l2 t'. share_payload u t = t \<and> same_but_contracts l1 l' \<and> Transaction E l1 t = Some (l2, t', False))"
      using b(8) to share_keeps(1) share_payload_trans by metis
    show ?thesis
      by (intro exI [of _ "attempts @ attempts'"] exI [of _ "ids @ ids'"] conjI ids tried refused try_all_append [OF a(1) b(1)]
          normalised_trans [OF a(4) b(6)]) (use a b in auto)
  qed
qed

lemma store_payload_dom [simp]: "mhas (store_payload t m) i = mhas m i"
  by (auto simp: store_payload_def mhas_def split: option.split)

lemma evict_spec:
  assumes "evict keep pending m n = (m', n')" and "distinct (map tx_ID pending)" and "\<forall>t \<in> set pending. mhas m (tx_ID t)"
  shows "(\<forall>i. mhas m' i \<longleftrightarrow> mhas m i \<and> (i \<in> tx_ID ` set pending \<longrightarrow> i \<in> set keep)) \<and>
    n' = n + int (length (filter (\<lambda>t. tx_ID t \<notin> set keep) pending))"
  using assms
proof (induction keep pending m n rule: evict.induct)
  case (2 keep tx pending m n)
  have rest: "\<forall>t \<in> set pending. mhas (fmdrop (tx_ID tx) m) (tx_ID t)" using "2.prems"(2,3) by (auto simp: image_iff)
  show ?case
  proof (cases "tx_ID tx \<in> set keep")
    case True
    with 2 show ?thesis by auto
  next
    case False
    with "2.prems" "2.IH"(2) [OF False] rest show ?thesis by auto
  qed
qed simp

lemma pool_values_ids:
  assumes "mempool_ok m" and "set order \<subseteq> fset (fmdom m)"
  shows "map tx_ID (pool_values order m) = order"
  using assms(2)
proof (induction order)
  case (Cons i ids)
  then obtain t where "fmlookup m i = Some t" by (metis fmdomE insert_subset list.simps(15))
  with Cons mempool_okD(1) [OF assms(1)] show ?case by (simp add: pool_values_def List.map_filter_def)
qed (simp add: pool_values_def List.map_filter_def)

lemma pool_values_in: "t \<in> set (pool_values order m) \<longleftrightarrow> (\<exists>i \<in> set order. fmlookup m i = Some t)"
  by (induction order) (auto simp: pool_values_def List.map_filter_def)

text \<open>When no check of a pending transaction panics, pruning returns.\<close>

lemma prune_pass_total:
  assumes "\<forall>l. \<forall>u \<in> set pending. \<forall>t. share_payload u t = t \<longrightarrow> Transaction E l t \<noteq> None"
  shows "prune_pass E l keep pending \<noteq> None"
  using assms
proof (induction pending arbitrary: l keep)
  case (Cons tx pending)
  have rest: "prune_pass E l' keep' pending \<noteq> None" for l' keep' using Cons.prems by (intro Cons.IH) simp
  have "Transaction E l tx \<noteq> None" using Cons.prems share_payload_same(1) [of tx] by (metis list.set_intros(1))
  then obtain l1 c ok where t: "Transaction E l tx = Some (l1, c, ok)" by (cases "Transaction E l tx") auto
  show ?case using rest [of l keep] rest [of l1 "if ok then tx_ID tx # keep else keep"] by (auto simp: t)
qed simp

lemma prune_loop_total:
  assumes "\<forall>l. \<forall>u \<in> set pending. \<forall>t. share_payload u t = t \<longrightarrow> Transaction E l t \<noteq> None"
  shows "prune_loop E l keep pending \<noteq> None"
  using assms
proof (induction E l keep pending rule: prune_loop.induct)
  case (1 E l keep pending)
  obtain l1 k1 p1 progress where pass: "prune_pass E l keep pending = Some (l1, k1, p1, progress)"
    using prune_pass_total [OF "1.prems", of l keep] by (cases "prune_pass E l keep pending") auto
  from prune_pass_spec [OF pass] have n: "normalised pending p1" by blast
  have "\<forall>l. \<forall>u \<in> set p1. \<forall>t. share_payload u t = t \<longrightarrow> Transaction E l t \<noteq> None"
  proof (intro allI ballI impI)
    fix la u t assume u: "u \<in> set p1" and t: "share_payload u t = t"
    from n u obtain v where v: "v \<in> set pending" "share_payload v u = u" unfolding list_all2_conv_all_nth in_set_conv_nth by (metis nth_mem)
    with "1.prems" share_payload_trans [OF v(2) t] show "Transaction E la t \<noteq> None" by blast
  qed
  then have "progress \<Longrightarrow> prune_loop E l1 k1 p1 \<noteq> None" using "1.IH" [OF pass refl refl refl] by blast
  with pass show ?case by (subst prune_loop.simps) auto
qed

lemma prune_total:
  assumes "\<forall>l i u t. fmlookup (p_mempool p) i = Some u \<longrightarrow> share_payload u t = t \<longrightarrow> Transaction E l t \<noteq> None"
    and "p_blockchain p = Some chain" and "LedgerFromBlockchain E chain 0 = Some best"
  shows "\<exists>p' n. pruneInvalidMempool E order p = Some (p', n)"
proof -
  have "prune_loop E best [] (pool_values (order (p_mempool p)) (p_mempool p)) \<noteq> None"
    using assms(1) by (intro prune_loop_total) (auto simp: pool_values_in)
  then obtain l keep pending where loop: "prune_loop E best [] (pool_values (order (p_mempool p)) (p_mempool p)) = Some (l, keep, pending)"
    by (cases "prune_loop E best [] (pool_values (order (p_mempool p)) (p_mempool p))") auto
  obtain m n where "evict keep pending (p_mempool p) 0 = (m, n)" by fastforce
  then have "pruneInvalidMempool E order p = Some (p\<lparr>p_mempool := m\<rparr>, n)" using loop assms(2,3) by (simp add: pruneInvalidMempool_def)
  then show ?thesis by blast
qed

text \<open>A transaction with an Ethereum signature that is no NFT transaction is checked without a panic.\<close>

lemma Verify_EVM: "HasPrefix (tx_Signature t) ''evm:'' \<Longrightarrow> Verify E t a = Some (VerifyEVM E t a)"
  by (simp add: Verify_def IsEVM_def)

lemma evm_never_panics:
  assumes "HasPrefix (tx_Signature t) ''evm:''" and "\<not> IsNFT t"
  shows "Transaction E l t \<noteq> None"
proof -
  have sig: "HasPrefix (tx_Signature (fst (validAMM t))) ''evm:''" using assms(1) by (auto simp: validAMM_def Let_def split: option.split)
  have "applyAMMTransactionLocked E l t \<noteq> None"
    using Verify_EVM [OF sig, of E] by (auto simp: applyAMMTransactionLocked_def Let_def split: prod.splits option.splits)
  moreover have "applyMint E l t \<noteq> None" "applyTransfer E l t \<noteq> None"
    using Verify_EVM [OF assms(1), of E] by (auto simp: applyMint_def applyTransfer_def Let_def split: prod.splits option.splits)
  ultimately show ?thesis using assms(2) by (simp add: Transaction_def IsNFT_def)
qed

lemma prune_result:
  assumes "pruneInvalidMempool E order p = Some (p', n)" and "p_blockchain p = Some chain" and "mempool_ok (p_mempool p)"
    and "visits (order (p_mempool p)) (p_mempool p)"
  obtains best final attempts ids where "LedgerFromBlockchain E chain 0 = Some best" "try_all E best attempts = Some (final, ids)"
    "\<forall>t \<in> set attempts. \<exists>u. fmlookup (p_mempool p) (tx_ID t) = Some u \<and> share_payload u t = t"
    "distinct ids" "set ids = fset (fmdom (p_mempool p'))" "int (length ids) + n = int (fcard (fmdom (p_mempool p)))"
    "\<forall>i u. fmlookup (p_mempool p) i = Some u \<longrightarrow> i \<notin> set ids \<longrightarrow>
       (\<exists>t l l' t'. share_payload u t = t \<and> same_but_contracts l final \<and> Transaction E l t = Some (l', t', False))"
  using assms(1)
proof (cases rule: pruneInvalidMempool_cases)
  case (2 chain' best l keep pending m)
  let ?m = "p_mempool p" and ?vals = "pool_values (order (p_mempool p)) (p_mempool p)"
  have order: "distinct (order ?m)" "set (order ?m) = fset (fmdom ?m)" using assms(4) by (simp_all add: visits_def)
  have vals: "map tx_ID ?vals = order ?m" using assms(3) order(2) by (intro pool_values_ids) simp_all
  from prune_loop_spec [OF 2(3)] obtain attempts ids where
    a: "try_all E best attempts = Some (l, ids)" "keep = rev ids @ []" "distinct ids" "set ids \<subseteq> tx_ID ` set ?vals"
      "normalised ?vals pending" "\<forall>t \<in> set attempts. \<exists>u \<in> set ?vals. share_payload u t = t"
      "\<forall>u \<in> set ?vals. tx_ID u \<notin> set keep \<longrightarrow>
         (\<exists>t l1 l2 t'. share_payload u t = t \<and> same_but_contracts l1 l \<and> Transaction E l1 t = Some (l2, t', False))"
    by blast
  have "map tx_ID pending = map tx_ID ?vals" using a(5) by (rule normalised_ids)
  then have pending: "map tx_ID pending = order ?m" using vals by simp
  then have ids: "tx_ID ` set pending = fset (fmdom ?m)" using order(2) by (metis set_map)
  have dom: "mhas ?m i \<longleftrightarrow> i \<in> fset (fmdom ?m)" for i by (simp add: mhas_iff_dom)
  have ev: "(\<forall>i. mhas m i \<longleftrightarrow> mhas ?m i \<and> (i \<in> tx_ID ` set pending \<longrightarrow> i \<in> set keep)) \<and>
    n = 0 + int (length (filter (\<lambda>t. tx_ID t \<notin> set keep) pending))"
    by (rule evict_spec [OF 2(4)]) (use pending order ids dom in auto)
  have sub: "set ids \<subseteq> fset (fmdom ?m)" using a(4) vals order(2) by (metis set_map)
  have "fset (fmdom m) = set ids" using ev a(2) ids sub by (auto simp: mhas_iff_dom)
  have "length (filter (\<lambda>t. tx_ID t \<notin> set keep) pending) = length (filter (\<lambda>i. i \<notin> set ids) (map tx_ID pending))"
    using a(2) by (simp add: filter_map comp_def)
  also have "\<dots> = card (fset (fmdom ?m) - set ids)"
    unfolding pending by (subst distinct_card [symmetric]) (use order in \<open>auto intro!: arg_cong [where f = card]\<close>)
  finally have "n = int (card (fset (fmdom ?m) - set ids))" using ev by simp
  moreover have "card (fset (fmdom ?m) - set ids) + length ids = card (fset (fmdom ?m))"
    using sub distinct_card [OF a(3)] card_mono [OF _ sub] by (simp add: card_Diff_subset)
  ultimately have "int (length ids) + n = int (card (fset (fmdom ?m)))" by linarith
  then have count: "int (length ids) + n = int (fcard (fmdom ?m))" by (simp add: fcard.rep_eq)
  show ?thesis
  proof (rule that [OF _ a(1)])
    show "LedgerFromBlockchain E chain 0 = Some best" using 2(1,2) assms(2) by simp
    show "\<forall>t \<in> set attempts. \<exists>u. fmlookup ?m (tx_ID t) = Some u \<and> share_payload u t = t"
    proof
      fix t assume "t \<in> set attempts"
      then obtain u where "u \<in> set ?vals" and share: "share_payload u t = t" using a(6) by meson
      then obtain i where u: "fmlookup ?m i = Some u" using pool_values_in by meson
      from u mempool_okD(1) [OF assms(3) u] share_keeps(1) [OF share] share show "\<exists>u. fmlookup ?m (tx_ID t) = Some u \<and> share_payload u t = t" by auto
    qed
    show "set ids = fset (fmdom (p_mempool p'))" using 2(5) \<open>fset (fmdom m) = set ids\<close> by simp
    show "\<forall>i u. fmlookup ?m i = Some u \<longrightarrow> i \<notin> set ids \<longrightarrow>
       (\<exists>t la l' t'. share_payload u t = t \<and> same_but_contracts la l \<and> Transaction E la t = Some (l', t', False))"
    proof (intro allI impI)
      fix i u assume u: "fmlookup ?m i = Some u" and "i \<notin> set ids"
      then have "u \<in> set ?vals" "tx_ID u \<notin> set keep"
        using mempool_okD(1) [OF assms(3) u] order(2) a(2) by (auto simp: pool_values_in fmdomI)
      with a(7) show "\<exists>t la l' t'. share_payload u t = t \<and> same_but_contracts la l \<and> Transaction E la t = Some (l', t', False)" by blast
    qed
  qed (use a(3) count in simp_all)
qed (use assms(2) in simp)

end
