(* ===== verification/PeerDemo.thy ===== *)
theory PeerDemo
  imports PruneFacts Demo
begin

text \<open>
  A peer on the chain of \<open>Demo\<close>, with the wallet as its miner, and one with a pending transfer,
  at which the hypotheses of the theorems about peers hold.
\<close>

definition demo_peer :: Peer where
  "demo_peer = (NewPeer 1)\<lparr>p_genesis := Some (applyDefaultDynamicHardnessConfig GenesisMetaData_zero), p_miner := Some demo_wallet,
     p_peerValidators := fmupd (Itoa 1) (SafeEncode demo_wallet) fmempty, p_blockchain := Some demo_chain, p_ledger := MakeLedger\<rparr>"

definition demo_message :: Message where
  "demo_message = \<lparr>msg_Type = POS_TRANSACTION_MESSAGE_TYPE, msg_MsgID = tx_ID demo_tx, msg_From = p_id demo_peer,
     msg_Payload = Some (json_marshal (tx_json demo_tx))\<rparr>"

definition demo_busy :: Peer where
  "demo_busy = demo_peer\<lparr>p_mempool := fmupd (tx_ID demo_tx) demo_tx fmempty,
     p_msgHistory := fmupd (tx_ID demo_tx) ((received_history demo_message)\<lparr>hist_isSent := True\<rparr>) fmempty\<rparr>"

lemma demo_leaf: "getLeafHash demo_depths = demo_hash"
  by (simp add: getLeafHash_def demo_depths_def mkeys_def sorted_list_of_fset.rep_eq)

lemma demo_canonical: "CanonicalBlocks demo_env demo_chain 0 = Some [demo_genesis]"
  by (simp add: CanonicalBlocks_def demo_calc demo_leaf getBlocksFromLongestBranch_def demo_branch drop_last_def)

lemma demo_replay: "LedgerFromBlockchain demo_env demo_chain 0 = Some MakeLedger"
  by (simp add: LedgerFromBlockchain_def demo_calc demo_leaf getBlocksFromLongestBranch_def demo_branch drop_last_def
    buildLedgerFromBlocks_def demo_meta demo_first_ledger)

lemma demo_configured: "ConfigurePoS demo_env (NewPeer 1) GenesisMetaData_zero (Some demo_wallet) = Some demo_peer"
  using demo_replay
  by (simp add: ConfigurePoS_def demo_peer_def NewPeer_def demo_chain_def [symmetric] marshalGenesisMetaData_def Let_def)

lemma demo_plain: "plain_tx demo_tx"
  by (simp add: plain_tx_def demo_tx_def SignedTransaction_zero_def in_i64_def)

lemma demo_tx_facts: "tx_From demo_tx = ''0xa''" "tx_Amount demo_tx = 5" "tx_ID demo_tx = ''0x1''" "IsEVM demo_tx" "\<not> IsAMM demo_tx"
  "\<not> IsNFT demo_tx" "\<not> IsMint demo_tx"
  by (simp_all add: demo_tx_def SignedTransaction_zero_def IsEVM_def IsAMM_def IsNFT_def IsNFTMint_def IsNFTTransfer_def IsMint_def go_eval)

lemma demo_peer_fields: "p_msgHistory demo_peer = fmempty" "p_mempool demo_peer = fmempty" "p_conns demo_peer = fmempty"
  "p_blockchain demo_peer = Some demo_chain" "p_finalityDepth demo_peer = 0" "p_ledger demo_peer = MakeLedger"
  by (simp_all add: demo_peer_def NewPeer_def)

lemma demo_handled: "handlePoSTransaction demo_env demo_peer demo_message = Some (demo_peer\<lparr>p_mempool := fmupd (tx_ID demo_tx) demo_tx fmempty,
     p_msgHistory := fmupd (tx_ID demo_tx) (received_history demo_message) fmempty\<rparr>, True)"
proof -
  have payload: "payload_bytes demo_message = json_marshal (tx_json demo_tx)" "msg_MsgID demo_message = tx_ID demo_tx"
    by (simp_all add: demo_message_def payload_bytes_def)
  show ?thesis
    by (simp add: handlePoSTransaction_def payload tx_roundtrip [OF demo_plain] demo_tx_facts(1,2,4,5) demo_verify Let_def
        demo_peer_fields admit_def)
qed

lemma demo_submitted: "FloodPoSTransaction demo_env demo_peer [] demo_tx = Some (demo_busy, [])"
  unfolding FloodPoSTransaction_def Let_def demo_message_def [symmetric]
  by (simp add: demo_handled FloodNetwork_def Let_def demo_busy_def received_history_def NewMessageHistory_def connectionSnapshot_def
      demo_peer_fields) (simp add: demo_message_def)

lemma demo_reachable: "reachable demo_env legacy demo_peer"
  by (rule reachable.step_on [OF reachable.new_peer peer_step.on_configure [OF demo_configured]])

lemma demo_busy_reachable: "reachable demo_env legacy demo_busy"
  by (rule reachable.step_on [OF demo_reachable peer_step.on_submit [OF demo_submitted]])

definition demo_world :: world where
  "demo_world = \<lparr>w_now = (\<lambda>_. 0), w_order = (\<lambda>_. mkeys), w_dial = (\<lambda>_ _. None)\<rparr>"

lemma demo_seen_again: "handlePoSTransaction demo_env demo_busy demo_message = Some (demo_busy, False)"
proof -
  have payload: "payload_bytes demo_message = json_marshal (tx_json demo_tx)" "msg_MsgID demo_message = tx_ID demo_tx"
    by (simp_all add: demo_message_def payload_bytes_def)
  show ?thesis
    by (simp add: handlePoSTransaction_def payload tx_roundtrip [OF demo_plain] demo_tx_facts(1,2,4,5) demo_verify Let_def demo_busy_def)
qed

lemma demo_never_panics: "Transaction demo_env l (share_payload demo_tx t) \<noteq> None"
  by (rule evm_never_panics)
    (simp_all add: share_payload_def demo_tx_def SignedTransaction_zero_def IsNFT_def IsNFTMint_def IsNFTTransfer_def go_eval)

end
