(* ===== verification/PeerProperties.thy ===== *)
theory PeerProperties
  imports PeerDemo
begin

text \<open>
  The properties of a peer: its mempool, its flooding and deduplication of messages, its cached
  ledger and the pruning of pending transactions.
\<close>

text \<open>
  C19. In every state a peer reaches from its creation by any sequence of messages, connections, mined
  slots, own transactions and configuration, each pending transaction is stored under its identifier,
  carries the fields of a transaction whose signature was verified, has no negative amount, and no other
  pending EVM transaction has its sender and nonce.
\<close>

theorem mempool_invariant:
  assumes "reachable E legacy p" and "fmlookup (p_mempool p) i = Some t"
  shows "tx_ID t = i \<and> 0 \<le> tx_Amount t \<and> (\<exists>t0 t1. signed_part t = signed_part t0 \<and> Verify E t0 (tx_From t0) = Some (t1, True)) \<and>
    (\<forall>j u. fmlookup (p_mempool p) j = Some u \<longrightarrow> IsEVM t \<longrightarrow> same_nonce u t \<longrightarrow> j = i)"
proof -
  have ok: "mempool_ok (p_mempool p)" using assms(1) by (rule pool_inv.reachable_inv)
  have "admissible E t" using verified_inv.reachable_inv [OF assms(1)] assms(2) by (simp add: pool_verified_def fmpred_iff)
  with mempool_okD(1) [OF ok assms(2)] mempool_okD(2) [OF ok assms(2)] show ?thesis by (auto simp: admissible_def)
qed

theorem mempool_invariant_witness: "tx_ID demo_tx = ''0x1'' \<and> 0 \<le> tx_Amount demo_tx \<and> reachable demo_env False demo_busy"
proof -
  have "fmlookup (p_mempool demo_busy) ''0x1'' = Some demo_tx" by (simp add: demo_busy_def demo_tx_facts)
  from mempool_invariant [OF demo_busy_reachable this] demo_busy_reachable show ?thesis by blast
qed



text \<open>
  A message is flooded at most once: after it was flooded, whatever the peer does next, flooding a
  message with its identifier again neither writes anything nor changes the peer.
\<close>

theorem flood_at_most_once:
  assumes "FloodNetwork p tr msg = Some (q, tr1)" and "(peer_step E legacy)\<^sup>*\<^sup>* q p'" and "msg_MsgID msg' = msg_MsgID msg"
  shows "FloodNetwork p' tr2 msg' = Some (p', tr2)"
proof -
  have "hist_isSent (mget MessageHistory_zero (p_msgHistory q) (msg_MsgID msg))"
    using assms(1) by (auto simp: FloodNetwork_def Let_def split: if_splits)
  with history.steps_le [OF assms(2)] have "hist_isSent (mget MessageHistory_zero (p_msgHistory p') (msg_MsgID msg))"
    by (rule hist_grows_sentD)
  then show ?thesis by (simp add: FloodNetwork_def Let_def assms(3))
qed

theorem flood_at_most_once_witness: "FloodNetwork demo_busy [] demo_message = Some (demo_busy, [])"
proof (rule flood_at_most_once)
  show "FloodNetwork demo_busy [] demo_message = Some (demo_busy, [])"
    by (simp add: FloodNetwork_def Let_def demo_busy_def demo_message_def)
  show "(peer_step demo_env False)\<^sup>*\<^sup>* demo_busy demo_busy" by simp
qed simp

text \<open>
  C21. A transaction or block is handled once: a message whose identifier the peer has in its history, from then
  on and in whatever state, changes nothing and is not forwarded.
\<close>

theorem message_handled_once:
  assumes "hasSeenMessage p (msg_MsgID msg)" and "(peer_step E legacy)\<^sup>*\<^sup>* p p'"
    and "msg_Type msg \<in> {TRANSACTION_MESSAGE_TYPE, POS_TRANSACTION_MESSAGE_TYPE, BLOCK_MESSAGE_TYPE}"
    and "OnMessage E' W p' tr from msg = Some (q, tr')"
  shows "q = p' \<and> tr' = tr"
proof -
  have seen: "mhas (p_msgHistory p') (msg_MsgID msg)"
    using hist_grows_mhas [OF history.steps_le [OF assms(2)]] assms(1) by (simp add: hasSeenMessage_def)
  have tx: "handleTransaction E' p' msg = Some (r, ok) \<Longrightarrow> r = p' \<and> \<not> ok" for r ok
    using seen by (auto simp: handleTransaction_def split: option.splits)
  have pos: "handlePoSTransaction E' p' msg = Some (r, ok) \<Longrightarrow> r = p' \<and> \<not> ok" for r ok
    by (erule handlePoSTransaction_cases) (use seen in auto)
  have block: "handleBlock E' W p' tr msg = Some (r, s, ok) \<Longrightarrow> r = p' \<and> s = tr \<and> \<not> ok" for r s ok
    using seen by (auto simp: handleBlock_def split: option.splits)
  show ?thesis using assms(3,4) tx pos block
    by (fastforce simp: OnMessage_def message_types split: if_splits)
qed

theorem message_handled_once_witness:
  "OnMessage demo_env demo_world demo_busy [] ''2'' demo_message = Some (demo_busy, [])"
proof -
  have seen: "hasSeenMessage demo_busy (msg_MsgID demo_message)" by (simp add: hasSeenMessage_def demo_busy_def demo_message_def)
  have type: "msg_Type demo_message = POS_TRANSACTION_MESSAGE_TYPE" by (simp add: demo_message_def)
  obtain q tr where r: "OnMessage demo_env demo_world demo_busy [] ''2'' demo_message = Some (q, tr)"
    by (simp add: OnMessage_def type message_types demo_seen_again)
  have "q = demo_busy \<and> tr = []"
    by (rule message_handled_once [OF seen rtranclp.rtrancl_refl [of "peer_step demo_env False"] _ r]) (simp add: type)
  with r show ?thesis by simp
qed

text \<open>
  C22. The ledger a peer answers from is a cache: in every state reached without the older kind of
  transaction message it is the replay of the peer's chain up to the finality depth, it is well-formed,
  and at depth 0 the queries on it agree with those that replay the best chain.
\<close>

theorem peer_ledger_is_replay:
  assumes "reachable E False p" and "p_blockchain p = Some chain"
  shows "LedgerFromBlockchain E chain (p_finalityDepth p) = Some (p_ledger p) \<and> ledger_wf (p_ledger p) \<and>
    (p_finalityDepth p = 0 \<longrightarrow> BestBalanceOf E p a = Some (BalanceOf p a) \<and> BestNonceOf E p a = Some (NonceOf p a))"
proof -
  have replay: "LedgerFromBlockchain E chain (p_finalityDepth p) = Some (p_ledger p)"
    using cache_inv.reachable_inv [OF assms(1)] assms(2) by (simp add: ledger_cached_def)
  moreover from replay have "ledger_wf (p_ledger p)"
    by (auto simp: LedgerFromBlockchain_def split: prod.splits intro: buildLedger_wf)
  ultimately show ?thesis using assms(2)
    by (auto simp: BestBalanceOf_def BestNonceOf_def best_query_def best_ledger_def BalanceOf_def NonceOf_def)
qed

theorem peer_ledger_is_replay_witness:
  "LedgerFromBlockchain demo_env demo_chain 0 = Some (p_ledger demo_busy) \<and> BestBalanceOf demo_env demo_busy ''0xa'' = Some (BalanceOf demo_busy ''0xa'')"
proof -
  have "p_blockchain demo_busy = Some demo_chain" "p_finalityDepth demo_busy = 0" by (simp_all add: demo_busy_def demo_peer_fields)
  with peer_ledger_is_replay [OF demo_busy_reachable this(1)] show ?thesis by auto
qed

text \<open>
  The older kind of message bypasses the chain: a peer with a blockchain that receives a transaction in a message of type
  \<open>Transaction\<close> applies it to its ledger at once and records the message, with no block, no mempool and the chain unchanged.
\<close>

theorem legacy_message_bypasses_chain:
  assumes "handleTransaction E p msg = Some (p', True)"
  shows "p_blockchain p' = p_blockchain p \<and> p_mempool p' = p_mempool p \<and> hasSeenMessage p' (msg_MsgID msg) \<and>
    (\<exists>t t'. unmarshal tx_step SignedTransaction_zero (payload_bytes msg) = Some t \<and> \<not> HasRecordedTransaction (p_ledger p) t \<and>
      Transaction E (p_ledger p) t = Some (p_ledger p', t', True))"
  using assms by (auto simp: handleTransaction_def hasSeenMessage_def Let_def split: option.splits if_splits)

theorem legacy_message_bypasses_chain_witness:
  "\<exists>p'. handleTransaction demo_env (demo_peer\<lparr>p_ledger := demo_ledger\<rparr>) demo_message = Some (p', True) \<and>
     p_blockchain p' = Some demo_chain \<and> GetBalance (p_ledger p') ''0xb'' = 5"
proof -
  have payload: "payload_bytes demo_message = json_marshal (tx_json demo_tx)" by (simp add: demo_message_def payload_bytes_def)
  have "\<not> HasRecordedTransaction demo_ledger demo_tx" by (simp add: HasRecordedTransaction_def demo_ledger_def SetBalance_def MakeLedger_def)
  then obtain p' where p': "handleTransaction demo_env (demo_peer\<lparr>p_ledger := demo_ledger\<rparr>) demo_message = Some (p', True)"
    by (simp add: handleTransaction_def payload tx_roundtrip [OF demo_plain] demo_peer_fields demo_applied)
  from legacy_message_bypasses_chain [OF p'] have "Transaction demo_env demo_ledger demo_tx = Some (p_ledger p', demo_tx, True)"
    "p_blockchain p' = Some demo_chain" by (auto simp: payload tx_roundtrip [OF demo_plain] demo_peer_fields demo_applied)
  moreover from this have "GetBalance (p_ledger p') ''0xb'' = 5" unfolding demo_applied by (auto simp: Ledger.GetBalance_def dest!: sym [of _ "p_ledger p'"])
  ultimately show ?thesis using p' by blast
qed

text \<open>
  C23. Pruning terminates and is exact. In a reachable state, in whatever order the pool is visited and unless a check of a pending
  transaction panics, \<open>pruneInvalidMempool\<close> returns; the transactions it leaves are those that applied when pending
  transactions were tried one after another on the best ledger; every other one is refused by the ledger that results
  (up to the contract accounts, where refused calls may leave writes); and the count it returns is the number of those.
\<close>

theorem prune_exact:
  assumes "reachable E legacy p" and "p_blockchain p = Some chain" and "LedgerFromBlockchain E chain 0 = Some best"
    and "visits (order (p_mempool p)) (p_mempool p)"
    and "\<forall>l i u t. fmlookup (p_mempool p) i = Some u \<longrightarrow> share_payload u t = t \<longrightarrow> Transaction E l t \<noteq> None"
  shows "\<exists>p' n final attempts ids. pruneInvalidMempool E order p = Some (p', n) \<and> try_all E best attempts = Some (final, ids) \<and>
    (\<forall>t \<in> set attempts. \<exists>u. fmlookup (p_mempool p) (tx_ID t) = Some u \<and> share_payload u t = t) \<and>
    fset (fmdom (p_mempool p')) = set ids \<and> distinct ids \<and> n = int (MempoolSize p) - int (MempoolSize p') \<and>
    (\<forall>i u. fmlookup (p_mempool p) i = Some u \<longrightarrow> i \<notin> set ids \<longrightarrow>
       (\<exists>t l l' t'. share_payload u t = t \<and> same_but_contracts l final \<and> Transaction E l t = Some (l', t', False)))"
proof -
  have ok: "mempool_ok (p_mempool p)" using assms(1) by (rule pool_inv.reachable_inv)
  from prune_total [OF assms(5,2,3)] obtain p' n where p': "pruneInvalidMempool E order p = Some (p', n)" by blast
  obtain best' final attempts ids where r: "LedgerFromBlockchain E chain 0 = Some best'" "try_all E best' attempts = Some (final, ids)"
    "\<forall>t \<in> set attempts. \<exists>u. fmlookup (p_mempool p) (tx_ID t) = Some u \<and> share_payload u t = t"
    "distinct ids" "set ids = fset (fmdom (p_mempool p'))" "int (length ids) + n = int (fcard (fmdom (p_mempool p)))"
    "\<forall>i u. fmlookup (p_mempool p) i = Some u \<longrightarrow> i \<notin> set ids \<longrightarrow>
       (\<exists>t l l' t'. share_payload u t = t \<and> same_but_contracts l final \<and> Transaction E l t = Some (l', t', False))"
    by (rule prune_result [OF p' assms(2) ok assms(4)])
  have "MempoolSize p' = length ids" using r(4,5) by (simp add: MempoolSize_def fcard.rep_eq distinct_card [symmetric])
  then have n: "n = int (MempoolSize p) - int (MempoolSize p')" using r(6) by (simp add: MempoolSize_def)
  show ?thesis using p' r n assms(3) by (intro exI [of _ p'] exI [of _ n] exI [of _ final] exI [of _ attempts] exI [of _ ids]) simp
qed

theorem prune_exact_witness:
  "\<exists>p' n final attempts ids. pruneInvalidMempool demo_env mkeys demo_busy = Some (p', n) \<and>
     try_all demo_env MakeLedger attempts = Some (final, ids) \<and> fset (fmdom (p_mempool p')) = set ids"
proof -
  have chain: "p_blockchain demo_busy = Some demo_chain" by (simp add: demo_busy_def demo_peer_fields)
  have "Transaction demo_env l t \<noteq> None" if "share_payload demo_tx t = t" for l t
    by (subst that [symmetric]) (rule demo_never_panics)
  then have safe: "\<forall>l i u t. fmlookup (p_mempool demo_busy) i = Some u \<longrightarrow> share_payload u t = t \<longrightarrow> Transaction demo_env l t \<noteq> None"
    by (simp add: demo_busy_def)
  from prune_exact [where order = mkeys, OF demo_busy_reachable chain demo_replay visits_mkeys safe] show ?thesis by blast
qed

end
