(* ===== verification/SyncChain.thy ===== *)
theory SyncChain
  imports SyncFacts
begin

text \<open>
  Chains given as a list of blocks, each naming the one before it: what synchronisation installs, and what
  the fork choice makes of it.
\<close>

section \<open>Contiguous lists\<close>

lemma blockHashString_hash: "blockHashString E = hash_of E"
  by (simp add: fun_eq_iff blockHashString_def hash_of_def)

lemma contiguous_append:
  "contiguous E (xs @ ys) \<longleftrightarrow> contiguous E xs \<and> contiguous E ys \<and>
     (xs \<noteq> [] \<longrightarrow> ys \<noteq> [] \<longrightarrow> blk_ParentHash (hd ys) = hash_of E (last xs))"
proof (induction xs rule: induct_list012)
  case (2 b)
  then show ?case by (cases ys) (auto simp: blockHashString_hash)
qed auto

lemma contiguous_nth:
  assumes "contiguous E bs" and "Suc k < length bs"
  shows "blk_ParentHash (bs ! Suc k) = hash_of E (bs ! k)"
proof -
  have "contiguous E (take (Suc k) bs @ drop (Suc k) bs)" using assms(1) by simp
  then show ?thesis unfolding contiguous_append using assms(2) by (auto simp: hd_drop_conv_nth last_conv_nth)
qed

lemma contiguous_take_drop: "contiguous E bs \<Longrightarrow> contiguous E (take k bs)" "contiguous E bs \<Longrightarrow> contiguous E (drop k bs)"
  by (metis append_take_drop_id contiguous_append)+

lemma chain_up_contiguous:
  "chain_up E h (rev bs) \<Longrightarrow> bs \<noteq> [] \<Longrightarrow> contiguous E bs \<and> blk_ParentHash (hd bs) = NO_PARENT_HASH \<and> hash_of E (last bs) = h"
proof (induction bs arbitrary: h rule: rev_induct)
  case (snoc b bs)
  then show ?case by (cases "bs = []") (auto simp: contiguous_append)
qed simp

text \<open>Without collisions, the blocks of two chains that agree at one place agree before it.\<close>

lemma common_history:
  assumes "contiguous E xs" and "contiguous E ys" and "collision_free E (set xs \<union> set ys)"
    and "i < length xs" "j < length ys" "hash_of E (xs ! i) = hash_of E (ys ! j)" "k \<le> i" "k \<le> j"
  shows "hash_of E (xs ! (i - k)) = hash_of E (ys ! (j - k))"
  using assms(7,8)
proof (induction k)
  case 0
  then show ?case using assms(6) by simp
next
  case (Suc k)
  then have eq: "hash_of E (xs ! (i - k)) = hash_of E (ys ! (j - k))" by simp
  have "blk_ParentHash (xs ! (i - k)) = blk_ParentHash (ys ! (j - k))"
    using assms(3-5) by (intro collision_freeD(2) [OF assms(3) _ _ eq]) auto
  moreover have "i - k = Suc (i - Suc k)" "j - k = Suc (j - Suc k)" using Suc.prems by simp_all
  ultimately show ?case using contiguous_nth [OF assms(1), of "i - Suc k"] contiguous_nth [OF assms(2), of "j - Suc k"] assms(4,5) by simp
qed

text \<open>A block cannot be further from the first block of the other chain than from its own, when that has no parent.\<close>

lemma common_position:
  assumes "contiguous E xs" and "contiguous E ys" and "collision_free E (set xs \<union> set ys)"
    and "i < length xs" "j < length ys" "hash_of E (xs ! i) = hash_of E (ys ! j)" and "blk_ParentHash (hd xs) = NO_PARENT_HASH"
  shows "j \<le> i"
proof (rule ccontr)
  assume "\<not> j \<le> i"
  then have eq: "hash_of E (xs ! 0) = hash_of E (ys ! (j - i))" using common_history [OF assms(1-6), of i] by simp
  have "blk_ParentHash (xs ! 0) = blk_ParentHash (ys ! (j - i))"
    using assms(4,5) by (intro collision_freeD(2) [OF assms(3) _ _ eq]) (auto intro: nth_mem)
  moreover have "j - i = Suc (j - i - 1)" using \<open>\<not> j \<le> i\<close> by simp
  then have "blk_ParentHash (ys ! (j - i)) = hash_of E (ys ! (j - i - 1))"
    using contiguous_nth [OF assms(2), of "j - i - 1"] assms(5) by simp
  moreover have "hash_of E (ys ! (j - i - 1)) \<noteq> NO_PARENT_HASH" using assms(5) by (intro collision_freeD(1) [OF assms(3)]) auto
  moreover have "blk_ParentHash (xs ! 0) = NO_PARENT_HASH" using assms(4,7) by (cases xs) simp_all
  ultimately show False by simp
qed

lemma contiguous_distinct:
  assumes "contiguous E xs" and "collision_free E (set xs)" and "xs \<noteq> []" and "blk_ParentHash (hd xs) = NO_PARENT_HASH"
  shows "distinct (map (hash_of E) xs)"
  unfolding distinct_conv_nth
proof (intro allI impI)
  fix i j
  assume "i < length (map (hash_of E) xs)" "j < length (map (hash_of E) xs)" "i \<noteq> j"
  then show "map (hash_of E) xs ! i \<noteq> map (hash_of E) xs ! j"
    using common_position [OF assms(1,1), of i j] common_position [OF assms(1,1), of j i] assms(2,4) by auto
qed

section \<open>Common ancestors\<close>

lemma hash_index_spec:
  "fmlookup (hash_index E bs k m) h = Some i \<Longrightarrow> fmlookup m h = Some i \<or> k \<le> i \<and> i < k + length bs \<and> hash_of E (bs ! (i - k)) = h"
proof (induction E bs k m rule: hash_index.induct)
  case (2 E b bs k m)
  then consider "fmlookup (fmupd (hash_of E b) k m) h = Some i" | "Suc k \<le> i" "i < Suc k + length bs" "hash_of E (bs ! (i - Suc k)) = h"
    by (auto simp: blockHashString_hash)
  then show ?case
  proof cases
    case 1
    then show ?thesis by (auto split: if_splits)
  next
    case 2
    then show ?thesis by (auto simp: nth_Cons' Suc_diff_le)
  qed
qed simp

lemma last_common_spec:
  "last_common E m bs k c = Some (i, j) \<Longrightarrow> c = Some (i, j) \<or> k \<le> j \<and> j < k + length bs \<and> fmlookup m (hash_of E (bs ! (j - k))) = Some i"
proof (induction E m bs k c rule: last_common.induct)
  case (2 E m b bs k c)
  then have "(case fmlookup m (hash_of E b) of Some l \<Rightarrow> Some (l, k) | None \<Rightarrow> c) = Some (i, j) \<or>
    Suc k \<le> j \<and> j < Suc k + length bs \<and> fmlookup m (hash_of E (bs ! (j - Suc k))) = Some i" by (simp add: blockHashString_hash)
  then show ?case by (auto simp: nth_Cons' Suc_diff_le split: option.splits)
qed simp

lemma common_found:
  assumes "last_common E (hash_index E lb 0 fmempty) bs 0 None = Some (i, j)"
  shows "i < length lb" "j < length bs" "hash_of E (lb ! i) = hash_of E (bs ! j)"
  using last_common_spec [OF assms] hash_index_spec [of E lb 0 fmempty "hash_of E (bs ! j)" i] by auto

lemma rebase_contiguous:
  assumes "contiguous E lb" and "contiguous E bs" and "i < length lb" "j < length bs" "hash_of E (lb ! i) = hash_of E (bs ! j)"
  shows "contiguous E (rebase lb bs i j)" and "hd (rebase lb bs i j) = hd lb"
proof -
  have "last (take (i + 1) lb) = lb ! i" using assms(3) by (simp add: take_Suc_conv_app_nth)
  moreover have "blk_ParentHash (hd (drop (j + 1) bs)) = hash_of E (bs ! j)" if "drop (j + 1) bs \<noteq> []"
    using contiguous_nth [OF assms(2), of j] that by (simp add: hd_drop_conv_nth)
  ultimately show "contiguous E (rebase lb bs i j)"
    unfolding rebase_def contiguous_append using assms(1,2,5) by (auto simp: contiguous_take_drop)
  show "hd (rebase lb bs i j) = hd lb" using assms(3) by (cases lb) (simp_all add: rebase_def)
qed

section \<open>The fork choice on a chain\<close>

lemma depths_loop_append:
  "depths_loop E (xs @ ys) depths nodes = Option.bind (depths_loop E xs depths nodes) (\<lambda>(d, n). depths_loop E ys d n)"
  by (induction E xs depths nodes rule: depths_loop.induct) (auto split: option.splits)

lemma depths_loop_skip:
  assumes "\<forall>b \<in> set bs. block_signed E b = Some False \<or> block_signed E b = Some True \<and> fmlookup depths (blk_ParentHash b) = None"
  shows "depths_loop E bs depths nodes = Some (depths, nodes)"
  using assms by (induction bs) (auto split: option.split)

text \<open>A chain of signed blocks on a genesis block: the depths are the positions and the branch is the chain.\<close>

lemma linear_tree:
  assumes "tree_blocks E bs" and "contiguous E bs" and "\<forall>b \<in> set (tl bs). block_signed E b = Some True"
  shows "\<exists>depths nodes. calculateDepths E bs = Some (depths, nodes) \<and> (\<forall>k < length bs. fmlookup depths (hash_of E (bs ! k)) = Some (int k)) \<and>
    (\<forall>h. mhas depths h \<longrightarrow> h \<in> hash_of E ` set bs) \<and> branch_up nodes (hash_of E (last bs)) = Some (rev bs)"
  using assms
proof (induction bs rule: rev_induct)
  case Nil
  then show ?case by (simp add: tree_blocks_def)
next
  case (snoc c bs)
  show ?case
  proof (cases "bs = []")
    case True
    have "hash_of E c \<noteq> NO_PARENT_HASH" "blk_ParentHash c = NO_PARENT_HASH"
      using snoc.prems(1) True by (auto simp: tree_blocks_def collision_free_def)
    then have "branch_up (fmupd (hash_of E c) c fmempty) (hash_of E c) = Some [c]"
      by (subst branch_up.simps, subst branch_up.simps) simp
    then show ?thesis using True by (auto simp: calculateDepths_def)
  next
    case False
    have "contiguous E bs" and parent: "blk_ParentHash c = hash_of E (last bs)" using snoc.prems(2) False by (auto simp: contiguous_append)
    moreover have "\<forall>b \<in> set (tl bs). block_signed E b = Some True" and signed: "block_signed E c = Some True" using snoc.prems(3) False by auto
    ultimately obtain depths nodes where ih: "calculateDepths E bs = Some (depths, nodes)"
      "\<forall>k < length bs. fmlookup depths (hash_of E (bs ! k)) = Some (int k)" "\<forall>h. mhas depths h \<longrightarrow> h \<in> hash_of E ` set bs"
      "branch_up nodes (hash_of E (last bs)) = Some (rev bs)" using snoc.IH tree_blocks_prefix [OF snoc.prems(1) False] by blast
    have d: "fmlookup depths (blk_ParentHash c) = Some (int (length bs) - 1)"
      using ih(2) [rule_format, of "length bs - 1"] False by (cases bs rule: rev_cases) (simp_all add: parent nth_append)
    note new = snoc_branch [OF snoc.prems(1) False ih(1) signed d]
    have "distinct (map (hash_of E) (bs @ [c]))"
      by (rule contiguous_distinct [OF snoc.prems(2)]) (use snoc.prems(1) in \<open>auto simp: tree_blocks_def\<close>)
    then have fresh: "hash_of E c \<notin> hash_of E ` set bs" by simp
    have "fmlookup (fmupd (hash_of E c) (int (length bs) - 1 + 1) depths) (hash_of E ((bs @ [c]) ! k)) = Some (int k)" if "k < length (bs @ [c])" for k
      using that ih(2) fresh by (cases "k < length bs") (auto simp: nth_append less_Suc_eq)
    moreover have "branch_up (fmupd (hash_of E c) c nodes) (hash_of E c) = Some (rev (bs @ [c]))" using new(2) ih(4) parent by simp
    ultimately show ?thesis using new(1) ih(3) by auto
  qed
qed

definition signed_prefix :: "'a ethlib_scheme \<Rightarrow> Block list \<Rightarrow> Block list" where
  "signed_prefix E bs = hd bs # takeWhile (\<lambda>b. block_signed E b = Some True) (tl bs)"

lemma signed_prefix_split:
  assumes "bs \<noteq> []"
  obtains rest where "bs = signed_prefix E bs @ rest" "rest \<noteq> [] \<longrightarrow> block_signed E (hd rest) \<noteq> Some True"
    "\<forall>b \<in> set (tl (signed_prefix E bs)). block_signed E b = Some True"
proof (rule that [of "dropWhile (\<lambda>b. block_signed E b = Some True) (tl bs)"])
  show "bs = signed_prefix E bs @ dropWhile (\<lambda>b. block_signed E b = Some True) (tl bs)" using assms by (simp add: signed_prefix_def)
  show "dropWhile (\<lambda>b. block_signed E b = Some True) (tl bs) \<noteq> [] \<longrightarrow>
      block_signed E (hd (dropWhile (\<lambda>b. block_signed E b = Some True) (tl bs))) \<noteq> Some True"
    using hd_dropWhile [of "\<lambda>b. block_signed E b = Some True" "tl bs"] by blast
  show "\<forall>b \<in> set (tl (signed_prefix E bs)). block_signed E b = Some True" by (auto simp: signed_prefix_def dest: set_takeWhileD)
qed

text \<open>The fork choice on a contiguous list: the blocks up to the first one whose signature fails.\<close>

lemma contiguous_canonical:
  assumes "tree_blocks E bs" and "contiguous E bs" and "\<forall>b \<in> set (tl bs). block_signed E b \<noteq> None"
  shows "CanonicalBlocks E \<lparr>Blocks = bs\<rparr> 0 = Some (signed_prefix E bs)"
proof -
  let ?g = "signed_prefix E bs"
  have ne: "bs \<noteq> []" and parent: "blk_ParentHash (hd bs) = NO_PARENT_HASH" and cf: "collision_free E (set bs)"
    using assms(1) by (simp_all add: tree_blocks_def)
  obtain rest where rest: "bs = ?g @ rest" "rest \<noteq> [] \<longrightarrow> block_signed E (hd rest) \<noteq> Some True"
    "\<forall>b \<in> set (tl ?g). block_signed E b = Some True" by (rule signed_prefix_split [OF ne, of E])
  have g: "?g \<noteq> []" "hd ?g = hd bs" by (simp_all add: signed_prefix_def)
  have "set ?g \<subseteq> set bs" "length ?g \<le> length bs" by (metis Un_upper1 rest(1) set_append, metis rest(1) length_append le_add1)
  then have tree: "tree_blocks E ?g" using assms(1) g collision_free_subset [OF cf] by (auto simp: tree_blocks_def)
  have cg: "contiguous E ?g" and cr: "contiguous E rest" and link: "rest \<noteq> [] \<Longrightarrow> blk_ParentHash (hd rest) = hash_of E (last ?g)"
    using assms(2) g(1) by (subst (asm) rest(1), simp add: contiguous_append)+
  from linear_tree [OF tree cg rest(3)] obtain depths nodes where
    t: "calculateDepths E ?g = Some (depths, nodes)" "\<forall>k < length ?g. fmlookup depths (hash_of E (?g ! k)) = Some (int k)"
      "\<forall>h. mhas depths h \<longrightarrow> h \<in> hash_of E ` set ?g" "branch_up nodes (hash_of E (last ?g)) = Some (rev ?g)" by blast
  have "distinct (map (hash_of E) bs)" using assms(2) cf ne parent by (rule contiguous_distinct)
  then have fresh: "hash_of E ` set ?g \<inter> hash_of E ` set rest = {}" by (subst (asm) rest(1)) auto
  have "block_signed E b = Some False \<or> block_signed E b = Some True \<and> fmlookup depths (blk_ParentHash b) = None" if b: "b \<in> set rest" for b
  proof -
    obtain k where k: "k < length rest" "b = rest ! k" using b by (auto simp: in_set_conv_nth)
    have "b \<in> set (tl bs)" using b g(1) by (subst rest(1)) simp
    with assms(3) have some: "block_signed E b \<noteq> None" by blast
    show ?thesis
    proof (cases k)
      case 0
      with rest(2) k some show ?thesis by (cases rest) auto
    next
      case (Suc m)
      with contiguous_nth [OF cr, of m] k have "blk_ParentHash b = hash_of E (rest ! m)" by simp
      moreover have "hash_of E (rest ! m) \<in> hash_of E ` set rest" using k Suc by simp
      ultimately have "\<not> mhas depths (blk_ParentHash b)" using t(3) fresh by auto
      with some show ?thesis by (auto simp: mhas_def)
    qed
  qed
  then have "depths_loop E rest depths nodes = Some (depths, nodes)" by (intro depths_loop_skip) blast
  then have calc: "calculateDepths E bs = Some (depths, nodes)"
    using t(1) g by (subst rest(1)) (cases ?g; simp add: calculateDepths_def depths_loop_append)
  from calculateDepths_ok [OF t(1) tree] obtain d where leaf: "fmlookup depths (getLeafHash depths) = Some d"
    "best_leaf depths (set (mkeys depths)) (getLeafHash depths)" by (rule tree_leaf)
  obtain k where k: "k < length ?g" "getLeafHash depths = hash_of E (?g ! k)"
  proof -
    have "getLeafHash depths \<in> hash_of E ` set ?g" using t(3) leaf(1) by (simp add: mhas_def)
    then show thesis using that by (auto simp: in_set_conv_nth)
  qed
  have top: "fmlookup depths (hash_of E (?g ! (length ?g - 1))) = Some (int (length ?g - 1))" using t(2) g(1) by simp
  have "mget 0 depths (hash_of E (?g ! (length ?g - 1))) \<le> mget 0 depths (getLeafHash depths)"
    using leaf(2) fmdomI [OF top] unfolding best_leaf_def set_mkeys by force
  with top k t(2) have "k = length ?g - 1" by (simp add: mget_def)
  with k g(1) have "getLeafHash depths = hash_of E (last ?g)" by (simp add: last_conv_nth)
  then show ?thesis using calc t(4) by (simp add: CanonicalBlocks_def getBlocksFromLongestBranch_def drop_last_def)
qed

lemma Blocks_update: "(b :: Blockchain)\<lparr>Blocks := bs\<rparr> = \<lparr>Blocks = bs\<rparr>"
  by (cases b) simp

text \<open>A ledger is built from the canonical blocks.\<close>

lemma ledger_of_canonical: "CanonicalBlocks E b rollback = Some bs \<Longrightarrow> LedgerFromBlockchain E b rollback = buildLedgerFromBlocks E bs"
  by (auto simp: CanonicalBlocks_def LedgerFromBlockchain_def)

end
