(* ===== verification/SyncProperties.thy ===== *)
theory SyncProperties
  imports SyncChain PeerDemo
begin

text \<open>
  What synchronisation does to a peer's chain, and that peers with the same blocks agree.
\<close>

definition demo_answer :: chainSyncResponse where
  "demo_answer = \<lparr>resp_GenesisHash = genesisContentHash demo_env demo_genesis, resp_Height = 1, resp_Blocks = [demo_block]\<rparr>"

definition demo_answer_message :: Message where
  "demo_answer_message = \<lparr>msg_Type = CHAIN_SYNC_RESPONSE_MESSAGE_TYPE, msg_MsgID = [], msg_From = ''2'',
     msg_Payload = Some (json_marshal (response_json demo_answer))\<rparr>"

section \<open>Heights\<close>

lemma ParseInt_range: "ParseInt s = Some i \<Longrightarrow> in_i64 i"
  by (auto simp: ParseInt_def Let_def in_i64_def split: if_splits prod.splits)

lemma dec_int_range: "dec_int v cur = Some i \<Longrightarrow> in_i64 cur \<Longrightarrow> in_i64 i"
  by (cases v) (auto intro: ParseInt_range)

lemma dec_members_inv:
  assumes "dec_members step ms cur = Some r" and "P cur" and "\<And>k v c c'. step k v c = Some c' \<Longrightarrow> P c \<Longrightarrow> P c'"
  shows "P r"
  using assms(1,2)
proof (induction ms arbitrary: cur)
  case (Cons kv ms)
  obtain k v where kv: "kv = (k, v)" by fastforce
  with Cons.prems obtain c where "step k v cur = Some c" "dec_members step ms c = Some r" by (auto split: option.splits)
  with Cons.IH Cons.prems(2) assms(3) show ?case by blast
qed simp

lemma response_height: "unmarshal response_step response_zero raw = Some resp \<Longrightarrow> in_i64 (resp_Height resp)"
proof -
  assume "unmarshal response_step response_zero raw = Some resp"
  then obtain v where "dec_struct response_step v response_zero = Some resp" by (auto simp: unmarshal_def split: option.splits)
  then consider "resp = response_zero" | ms where "dec_members response_step ms response_zero = Some resp" by (cases v) auto
  then show ?thesis
  proof cases
    case 2
    have zero: "in_i64 (resp_Height response_zero)" by (simp add: response_zero_def in_i64_def)
    from 2 zero show ?thesis
      by (rule dec_members_inv) (auto simp: response_step_def split: if_splits dest: dec_int_range)
  qed (simp add: response_zero_def in_i64_def)
qed

lemma local_chain:
  assumes "CanonicalBlocks E chain 0 = Some localBlocks" and "tree_blocks E (Blocks chain)"
  shows "contiguous E localBlocks" "localBlocks \<noteq> []" "blk_ParentHash (hd localBlocks) = NO_PARENT_HASH"
    "set localBlocks \<subseteq> set (Blocks chain)"
proof -
  from assms(1) obtain depths nodes where c: "calculateDepths E (Blocks chain) = Some (depths, nodes)" by (auto simp: CanonicalBlocks_def)
  obtain bs where bs: "CanonicalBlocks E chain 0 = Some bs" "chain_up E (getLeafHash depths) (rev bs)"
    "BestHeight E chain = Some (int (length bs) - 1)" "set bs \<subseteq> set (Blocks chain)" "bs \<noteq> []"
    "hash_of E (hd bs) = hash_of E (hd (Blocks chain))" by (rule canonical_chain [OF assms(2) c])
  with assms(1) chain_up_contiguous [OF bs(2,5)] show "contiguous E localBlocks" "localBlocks \<noteq> []"
    "blk_ParentHash (hd localBlocks) = NO_PARENT_HASH" "set localBlocks \<subseteq> set (Blocks chain)" by auto
qed

section \<open>What is installed\<close>

lemma synced_facts:
  assumes "synced E p resp lb blocks p'" and "contiguous E lb" "lb \<noteq> []" "blk_ParentHash (hd lb) = NO_PARENT_HASH"
    and "collision_free E (set lb \<union> set (resp_Blocks resp))" and "in_i64 (resp_Height resp)" "int (length lb) - 1 < resp_Height resp"
    and "resp_Blocks resp \<noteq> []"
  shows "contiguous E blocks \<and> length lb < length blocks \<and> blk_ParentHash (hd blocks) = NO_PARENT_HASH \<and>
    set blocks \<subseteq> set lb \<union> set (resp_Blocks resp) \<and> (hd blocks = hd lb \<or> canAdoptRemoteGenesis E p = Some True)"
  using assms(1)
proof cases
  case (adopted chain genesis)
  have "resp_Height resp + 1 < 2 ^ 63 \<or> resp_Height resp + 1 = 2 ^ 63" using assms(6) by (auto simp: in_i64_def)
  then have "i64 (resp_Height resp + 1) = resp_Height resp + 1"
  proof
    assume "resp_Height resp + 1 = 2 ^ 63"
    then have "i64 (resp_Height resp + 1) < 0" by (simp add: i64_def)
    with adopted(4) show ?thesis by linarith
  qed (use assms(7) in \<open>auto intro!: i64_small\<close>)
  with adopted assms(7) show ?thesis by simp
next
  case (extended chain)
  then show ?thesis using assms(2-4,8) by (auto simp: contiguous_append blockHashString_hash)
next
  case (rebased chain i j)
  note common = common_found [OF rebased(4)]
  note rebase = rebase_contiguous [OF assms(2) rebased(3) common]
  have "j \<le> i" using assms(2) rebased(3) assms(5) common assms(4) by (rule common_position)
  then have "length (resp_Blocks resp) \<le> length (rebase lb (resp_Blocks resp) i j)" using common by (simp add: rebase_def)
  then have "length lb < length blocks" using rebased(1,5) by auto
  moreover have "set blocks \<subseteq> set lb \<union> set (resp_Blocks resp)"
    unfolding rebased(1) rebase_def by (auto dest: in_set_takeD in_set_dropD)
  ultimately show ?thesis using rebase assms(4) rebased(1) by auto
qed

lemma synced_peer:
  assumes "synced E p resp lb blocks p'" and "blocks \<noteq> []"
  obtains chain where "p_blockchain p = Some chain" "p_blockchain p' = Some (chain\<lparr>Blocks := blocks\<rparr>)"
    "LedgerFromBlockchain E (chain\<lparr>Blocks := blocks\<rparr>) (p_finalityDepth p) = Some (p_ledger p')"
    "p_mempool p' = p_mempool p" "p_msgHistory p' = p_msgHistory p" "p_conns p' = p_conns p" "p_finalityDepth p' = p_finalityDepth p"
  using assms(1)
proof cases
  case (adopted chain genesis)
  from adopted(8) show ?thesis by (rule install_cases) (use adopted assms(2) in \<open>auto simp: ReplaceBlocks_def intro!: that\<close>)
next
  case (extended chain)
  from extended(5) show ?thesis by (rule install_cases) (use extended assms(2) in \<open>auto simp: ReplaceBlocks_def intro!: that\<close>)
next
  case (rebased chain i j)
  from rebased(6) show ?thesis by (rule install_cases) (use rebased assms(2) in \<open>auto simp: ReplaceBlocks_def intro!: that\<close>)
qed

lemma sync_installed:
  assumes "handleChainSyncResponse E W p tr msg = Some (p', tr', ok)" and "p_blockchain p = Some chain"
    and "CanonicalBlocks E chain 0 = Some localBlocks" and "tree_blocks E (Blocks chain)"
    and "unmarshal response_step response_zero (payload_bytes msg) = Some resp"
    and "collision_free E (set (Blocks chain) \<union> set (resp_Blocks resp))"
  obtains "p' = p" "\<not> ok"
  | blocks where "ok" "synced E p resp localBlocks blocks p'" "contiguous E blocks" "length localBlocks < length blocks"
      "blk_ParentHash (hd blocks) = NO_PARENT_HASH" "set blocks \<subseteq> set (Blocks chain) \<union> set (resp_Blocks resp)"
      "hd blocks = hd localBlocks \<or> canAdoptRemoteGenesis E p = Some True"
  using assms(1)
proof (cases rule: handleChainSyncResponse_cases)
  case (2 chain' resp' lb blocks)
  have [simp]: "chain' = chain" "resp' = resp" "lb = localBlocks" using 2(1,2,3) assms(2,3,5) by simp_all
  note l = local_chain [OF assms(3,4)]
  have cf: "collision_free E (set localBlocks \<union> set (resp_Blocks resp))" using l(4) by (intro collision_free_subset [OF assms(6)]) blast
  have s: "synced E p resp localBlocks blocks p'" using 2(7) by simp
  have "contiguous E blocks \<and> length localBlocks < length blocks \<and> blk_ParentHash (hd blocks) = NO_PARENT_HASH \<and>
      set blocks \<subseteq> set localBlocks \<union> set (resp_Blocks resp) \<and> (hd blocks = hd localBlocks \<or> canAdoptRemoteGenesis E p = Some True)"
    by (rule synced_facts [OF s l(1-3) cf response_height [OF assms(5)]]) (use 2(4,6) l(2) in simp_all)
  then show ?thesis by (intro that(2) [OF 2(8) s]) (use l(4) in auto)
qed (auto intro: that(1))

section \<open>An answer with the next block\<close>

lemma demo_block_plain: "plain_block demo_block"
proof -
  have "blk_Slot demo_block = 1" by (simp add: demo_block_def NewCandidateBlock_fields)
  moreover have "ascii (EncodeBlockTransactions [])" by code_simp
  ultimately show ?thesis using demo_draw
    by (simp add: plain_block_def demo_block_fields in_i64_def)
      (simp add: demo_block_def NewCandidateBlock_def NewBlock_def Let_def SafeEncode_def ascii_b64_encode SignLotteryProof_def BLOCK_TYPE_def
        demo_hash_def hash_of_def Sign_def)
qed

lemma demo_answer_decoded: "unmarshal response_step response_zero (payload_bytes demo_answer_message) = Some demo_answer"
proof -
  have "payload_bytes demo_answer_message = json_marshal (response_json demo_answer)" by (simp add: demo_answer_message_def payload_bytes_def)
  then show ?thesis
    by (simp only:) (rule response_roundtrip, simp_all add: demo_answer_def genesisContentHash_def ascii_b64_encode in_i64_def demo_block_plain)
qed

lemma demo_block_signed: "block_signed demo_env demo_block = Some True"
  unfolding demo_block_def by (rule candidate_signed [OF demo_wallet_ok demo_sha_length])

lemma demo_two_canonical: "CanonicalBlocks demo_env (demo_chain\<lparr>Blocks := [demo_genesis, demo_block]\<rparr>) 0 = Some [demo_genesis, demo_block]"
proof -
  have c: "contiguous demo_env [demo_genesis, demo_block]" by (simp add: blockHashString_hash demo_block_fields demo_hash_def)
  have "CanonicalBlocks demo_env \<lparr>Blocks = [demo_genesis, demo_block]\<rparr> 0 = Some (signed_prefix demo_env [demo_genesis, demo_block])"
    by (rule contiguous_canonical [OF _ c]) (use demo_tree(2) demo_block_signed in simp_all)
  then show ?thesis by (simp add: signed_prefix_def demo_block_signed Blocks_update)
qed

lemma demo_answer_collisions: "collision_free demo_env (set (Blocks demo_chain) \<union> set (resp_Blocks demo_answer))"
  using demo_tree(2) by (simp add: demo_Blocks tree_blocks_def demo_answer_def insert_commute)

lemma demo_two_ledger: "\<exists>l. LedgerFromBlockchain demo_env (demo_chain\<lparr>Blocks := [demo_genesis, demo_block]\<rparr>) 0 = Some l"
  by (simp add: ledger_of_canonical [OF demo_two_canonical] buildLedgerFromBlocks_def demo_meta apply_block_def demo_block_fields
      block_transactions_roundtrip)

lemma demo_answered: "\<exists>p'. handleChainSyncResponse demo_env demo_world demo_peer [] demo_answer_message = Some (p', [], True) \<and>
    p_blockchain p' = Some (demo_chain\<lparr>Blocks := [demo_genesis, demo_block]\<rparr>)"
proof -
  have status: "chainStatus demo_env demo_peer = Some \<lparr>st_GenesisHash = genesisContentHash demo_env demo_genesis, st_Height = 0, st_BestHash = demo_hash\<rparr>"
    by (simp add: chainStatus_def Let_def demo_peer_fields demo_canonical blockHashString_hash demo_hash_def)
  have ne: "genesisContentHash demo_env demo_genesis \<noteq> []"
    using demo_sha_length [of "blk_MetaData demo_genesis"] by (auto simp: genesisContentHash_def)
  obtain l where l: "LedgerFromBlockchain demo_env (demo_chain\<lparr>Blocks := [demo_genesis, demo_block]\<rparr>) 0 = Some l"
    using demo_two_ledger by blast
  show ?thesis
    by (simp add: handleChainSyncResponse_def demo_peer_fields demo_answer_decoded status ne)
      (auto simp: demo_answer_def i64_def installSyncedSuffix_def demo_canonical blockHashString_hash demo_block_fields demo_hash_def [symmetric] install_def
        ReplaceBlocks_def Let_def l demo_peer_fields)
qed

text \<open>
  C24. An answer to a synchronisation request is all or nothing. If it is refused the peer is unchanged. If it is
  installed, then (for hashes without collisions) the new chain is linked by its hashes from a block without parent, is longer than the
  peer's canonical chain, keeps the peer's genesis block unless the peer was still without history, and
  the ledger is its replay; the mempool, the history and the connections stay.
\<close>

theorem synced_chain_linked:
  assumes "handleChainSyncResponse E W p tr msg = Some (p', tr', ok)" and "p_blockchain p = Some chain"
    and "CanonicalBlocks E chain 0 = Some localBlocks" and "tree_blocks E (Blocks chain)"
    and "unmarshal response_step response_zero (payload_bytes msg) = Some resp"
    and "collision_free E (set (Blocks chain) \<union> set (resp_Blocks resp))"
  shows "if \<not> ok then p' = p
    else \<exists>blocks. p_blockchain p' = Some (chain\<lparr>Blocks := blocks\<rparr>) \<and> contiguous E blocks \<and> length localBlocks < length blocks \<and>
      blk_ParentHash (hd blocks) = NO_PARENT_HASH \<and> (hd blocks = hd localBlocks \<or> canAdoptRemoteGenesis E p = Some True) \<and>
      LedgerFromBlockchain E (chain\<lparr>Blocks := blocks\<rparr>) (p_finalityDepth p) = Some (p_ledger p') \<and>
      p_mempool p' = p_mempool p \<and> p_msgHistory p' = p_msgHistory p \<and> p_conns p' = p_conns p"
  using assms
proof (cases rule: sync_installed)
  case (2 blocks)
  from 2(4) have "blocks \<noteq> []" by auto
  with 2(2) show ?thesis by (rule synced_peer) (use 2 assms(2) in auto)
qed simp

theorem synced_chain_linked_witness:
  "\<exists>p' blocks. handleChainSyncResponse demo_env demo_world demo_peer [] demo_answer_message = Some (p', [], True) \<and>
     p_blockchain p' = Some (demo_chain\<lparr>Blocks := blocks\<rparr>) \<and> contiguous demo_env blocks \<and> 1 < length blocks"
proof -
  obtain p' where p': "handleChainSyncResponse demo_env demo_world demo_peer [] demo_answer_message = Some (p', [], True)"
    using demo_answered by blast
  from synced_chain_linked [OF p' demo_peer_fields(4) demo_canonical demo_tree(1) demo_answer_decoded demo_answer_collisions]
  obtain blocks where "p_blockchain p' = Some (demo_chain\<lparr>Blocks := blocks\<rparr>)" "contiguous demo_env blocks" "1 < length blocks"
    by auto
  with p' show ?thesis by blast
qed

text \<open>
  C25. What the fork choice makes of an installed chain: its blocks up to the first one whose signature does not verify. Installing
  checks the links only, so forged blocks are dropped afterwards, and with them the local blocks they replaced.
\<close>

theorem synced_chain_canonical:
  assumes "handleChainSyncResponse E W p tr msg = Some (p', tr', True)" and "p_blockchain p = Some chain"
    and "CanonicalBlocks E chain 0 = Some localBlocks" and "tree_blocks E (Blocks chain)"
    and "unmarshal response_step response_zero (payload_bytes msg) = Some resp"
    and "collision_free E (set (Blocks chain) \<union> set (resp_Blocks resp))"
    and "p_blockchain p' = Some chain'" and "length (Blocks chain') < 2 ^ 63" and "\<forall>b \<in> set (tl (Blocks chain')). block_signed E b \<noteq> None"
  shows "CanonicalBlocks E chain' 0 = Some (signed_prefix E (Blocks chain'))"
  using assms(1-6)
proof (cases rule: sync_installed)
  case (2 blocks)
  from 2(4) have ne: "blocks \<noteq> []" by auto
  from 2(2) ne have "chain' = chain\<lparr>Blocks := blocks\<rparr>" by (rule synced_peer) (use assms(2,7) in auto)
  then have c: "chain' = \<lparr>Blocks = blocks\<rparr>" by (simp add: Blocks_update)
  have "tree_blocks E blocks" using 2 ne assms(8) collision_free_subset [OF assms(6) 2(6)] by (simp add: tree_blocks_def c)
  then show ?thesis unfolding c using 2 assms(9) c by (auto intro!: contiguous_canonical)
qed simp

theorem synced_chain_canonical_witness:
  "\<exists>p' chain'. handleChainSyncResponse demo_env demo_world demo_peer [] demo_answer_message = Some (p', [], True) \<and>
     p_blockchain p' = Some chain' \<and> CanonicalBlocks demo_env chain' 0 = Some [demo_genesis, demo_block]"
proof -
  let ?c = "demo_chain\<lparr>Blocks := [demo_genesis, demo_block]\<rparr>"
  obtain p' where p': "handleChainSyncResponse demo_env demo_world demo_peer [] demo_answer_message = Some (p', [], True)"
    "p_blockchain p' = Some ?c" using demo_answered by blast
  have "CanonicalBlocks demo_env ?c 0 = Some (signed_prefix demo_env (Blocks ?c))"
    by (rule synced_chain_canonical [OF p'(1) demo_peer_fields(4) demo_canonical demo_tree(1) demo_answer_decoded demo_answer_collisions p'(2)])
      (simp_all add: demo_block_signed)
  with p' show ?thesis by (auto simp: signed_prefix_def demo_block_signed)
qed

end
