(* ===== verification/MiningFacts.thy ===== *)
theory MiningFacts
  imports PeerMachine
begin

text \<open>
  What one slot of mining does to a peer: nothing that matters, or one block published.
\<close>

lemma included_gone: "fmlookup (drop_included txs m) i = (if i \<in> tx_ID ` set txs then None else fmlookup m i)"
  by (induction txs m rule: drop_included.induct) auto

lemma block_added_gone:
  assumes "block_added E order p chain block = Some p'" and "DecodeBlockTransactions (blk_MetaData block) = Some txs" and "t \<in> set txs"
  shows "fmlookup (p_mempool p') (tx_ID t) = None"
  using assms(1)
proof (cases rule: block_added_cases)
  case (1 l n m)
  from prune_frame [OF 1(5)] obtain m' where m': "p_mempool p' = m'" "pool_le m' m" by auto
  have "fmlookup m (tx_ID t) = None" using 1(4) [OF assms(2)] assms(3) by (simp add: included_gone)
  with m' show ?thesis unfolding pool_le_def by (metis option.distinct(1) option.exhaust)
qed

lemma FloodNetwork_frame:
  assumes "FloodNetwork p tr msg = Some (p', tr')"
  obtains h where "p' = p\<lparr>p_msgHistory := h\<rparr>" "mhas h (msg_MsgID msg)"
proof (cases "hist_isSent (mget MessageHistory_zero (p_msgHistory p) (msg_MsgID msg))")
  case True
  with assms have "p' = p" by (simp add: FloodNetwork_def)
  moreover from True have "mhas (p_msgHistory p) (msg_MsgID msg)"
    by (auto simp: mget_def mhas_def MessageHistory_zero_def split: option.splits)
  ultimately show ?thesis by (intro that [of "p_msgHistory p"]) auto
next
  case False
  with assms show ?thesis by (intro that) (auto simp: FloodNetwork_def Let_def mhas_def)
qed

text \<open>What mining leaves alone until a block is published.\<close>

definition unmined :: "Peer \<Rightarrow> Peer \<Rightarrow> bool" where
  "unmined p p' \<longleftrightarrow> p_blockchain p' = p_blockchain p \<and> p_ledger p' = p_ledger p \<and> p_msgHistory p' = p_msgHistory p \<and>
     p_acceptedBlocks p' = p_acceptedBlocks p \<and> p_minedBlocks p' = p_minedBlocks p \<and> p_finalityDepth p' = p_finalityDepth p"

definition published :: "env \<Rightarrow> Peer \<Rightarrow> Peer \<Rightarrow> Block \<Rightarrow> bool" where
  "published E p p' b \<longleftrightarrow> (\<exists>chain chain'. p_blockchain p = Some chain \<and> AddBlock E chain b = Some (chain', True) \<and>
     p_blockchain p' = Some chain' \<and> LedgerFromBlockchain E chain' (p_finalityDepth p) = Some (p_ledger p') \<and>
     p_acceptedBlocks p' = p_acceptedBlocks p + 1 \<and> p_minedBlocks p' = p_minedBlocks p + 1 \<and>
     hasSeenMessage p' (b64_encode (GetBlockHash E b)) \<and>
     (\<forall>txs t. DecodeBlockTransactions (blk_MetaData b) = Some txs \<longrightarrow> t \<in> set txs \<longrightarrow> fmlookup (p_mempool p') (tx_ID t) = None))"

lemma publish_block_cases:
  assumes "publish_block E W p tr block = Some (p', tr', r)"
  obtains "r = None" "p' = p" "tr' = tr" | "r = Some block" "published E p p' block"
proof -
  from assms obtain q ok where q: "ApplyBlock E (w_order W 2) p block = Some (q, ok)" by (auto simp: publish_block_def)
  show ?thesis
  proof (cases ok)
    case False
    then have "q = p" using q by (auto simp: ApplyBlock_def split: option.splits if_splits)
    with False assms q show ?thesis by (intro that(1)) (auto simp: publish_block_def)
  next
    case True
    with q obtain chain chain' where c: "p_blockchain p = Some chain" "AddBlock E chain block = Some (chain', True)"
      "block_added E (w_order W 2) p chain' block = Some q" by (auto simp: ApplyBlock_def split: option.splits if_splits)
    from True assms q have r: "r = Some block"
      and f: "FloodNetwork (q\<lparr>p_minedBlocks := p_minedBlocks q + 1\<rparr>) tr (block_message E p block) = Some (p', tr')"
      by (auto simp: publish_block_def Let_def)
    from f obtain h where h: "p' = q\<lparr>p_minedBlocks := p_minedBlocks q + 1, p_msgHistory := h\<rparr>" "mhas h (b64_encode (GetBlockHash E block))"
      by (rule FloodNetwork_frame) (auto simp: block_message_def)
    have "published E p p' block" unfolding published_def h(1)
      using c h(2) block_added_frame [OF c(3)] block_added_gone [OF c(3)] by (auto simp: hasSeenMessage_def)
    with r show ?thesis by (rule that(2))
  qed
qed

lemma mine_candidate_cases:
  assumes "mine_candidate E W p tr chain miner genesis slot tickets draw = Some (p', tr', r)"
  obtains "r = None" "unmined p p'" "tr' = tr"
  | q ph selected where "unmined p q" "r = Some (NewCandidateBlock E miner slot ph selected (Seed genesis))"
      "published E q p' (NewCandidateBlock E miner slot ph selected (Seed genesis))"
proof -
  from assms obtain pb pl ph where f: "CanonicalBlocks E chain 0 = Some pb" "LedgerFromBlockchain E chain 0 = Some pl"
    "BestLeafHash E chain = Some ph" by (auto simp: mine_candidate_def)
  with assms obtain q selected where q: "select_candidate E W p pl = Some (q, selected)" by (auto simp: mine_candidate_def)
  from select_candidate_frame [OF q] obtain m where m: "q = p\<lparr>p_mempool := m\<rparr>" by blast
  let ?g = "q\<lparr>p_genesis := Some (applyDefaultDynamicHardnessConfig genesis)\<rparr>"
  show ?thesis
  proof (cases "WinsLottery tickets (EffectiveHardnessForMining pb (Some genesis) (int (length selected))) draw")
    case True
    with assms f q have "publish_block E W (?g\<lparr>p_lotteryWins := p_lotteryWins q + 1\<rparr>) tr
        (NewCandidateBlock E miner slot ph selected (Seed genesis)) = Some (p', tr', r)" by (simp add: mine_candidate_def)
    then show ?thesis
    proof (cases rule: publish_block_cases)
      case 1
      then show ?thesis by (intro that(1)) (simp_all add: m unmined_def)
    next
      case 2
      then show ?thesis by (intro that(2)) (simp_all add: m unmined_def)
    qed
  next
    case False
    with assms f q have "p' = ?g\<lparr>p_lotteryMisses := p_lotteryMisses q + 1\<rparr>" "r = None" "tr' = tr" by (simp_all add: mine_candidate_def)
    then show ?thesis by (intro that(1)) (simp_all add: m unmined_def)
  qed
qed

lemma published_cong: "unmined p q \<Longrightarrow> published E q p' b \<Longrightarrow> published E p p' b"
  by (simp add: published_def unmined_def)

lemma MineOneSlot_mined:
  assumes "MineOneSlot E W p tr slot = Some (p', tr', r)"
  obtains "r = None" "p_blockchain p' = p_blockchain p" "p_ledger p' = p_ledger p" "p_msgHistory p' = p_msgHistory p" "tr' = tr"
  | b miner where "r = Some b" "p_miner p = Some miner" "blk_VerificationKey b = SafeEncode miner" "blk_Slot b = slot" "published E p p' b"
  using assms
proof (cases rule: MineOneSlot_cases)
  case 1
  then show ?thesis by (intro that(1)) (simp_all add: same_core_def)
next
  case (2 chain miner genesis draw)
  let ?p = "p\<lparr>p_lotteryAttempts := p_lotteryAttempts p + 1\<rparr>"
  have p: "unmined p ?p" by (simp add: unmined_def)
  note miner = 2(2)
  from 2(6) show ?thesis
  proof (cases rule: mine_candidate_cases)
    case 1
    then show ?thesis by (intro that(1)) (simp_all add: unmined_def)
  next
    case (2 q ph selected)
    have "published E p p' (NewCandidateBlock E miner slot ph selected (Seed genesis))"
      by (rule published_cong [OF p published_cong [OF 2(1,3)]])
    with 2(2) miner show ?thesis by (intro that(2)) (simp_all add: NewCandidateBlock_fields)
  qed
qed

end
