(* ===== verification/ChainGrowth.thy ===== *)
theory ChainGrowth
  imports PeerInvariants MiningFacts
begin

text \<open>
  How the block tree of a peer changes. Everything a peer does between its configuration and a synchronisation leaves the tree alone or adds one block
  that \<open>AddBlock\<close> accepted; the operations of the network layer leave it alone.
\<close>

section \<open>Operations that leave the tree alone\<close>

lemma same_tree [simp]:
  "p_blockchain (recordPeerAddress p a) = p_blockchain p" "p_blockchain (recordPeerValidator p i v) = p_blockchain p"
  "p_blockchain (addReceivedFloodMessage p m) = p_blockchain p" "p_blockchain (close_connection p i c) = p_blockchain p"
  "p_blockchain (rekeyLocked p i j) = p_blockchain p" "p_blockchain (fst (Start l p)) = p_blockchain p"
  by (simp_all add: recordPeerAddress_def recordPeerValidator_def addReceivedFloodMessage_def close_connection_def rekeyLocked_def Start_def Let_def)

lemma same_tree_record_all [simp]: "p_blockchain (record_all p as) = p_blockchain p"
  by (induction as arbitrary: p) simp_all

lemma same_tree_advertise [simp]: "p_blockchain (SetAdvertiseHost E p host) = p_blockchain p"
  by (simp add: SetAdvertiseHost_def Let_def)

lemma FloodNetwork_tree: "FloodNetwork p tr m = Some (p', tr') \<Longrightarrow> p_blockchain p' = p_blockchain p"
  by (erule FloodNetwork_frame) simp

lemma connectPayload_tree: "connectPayload_of E p = Some (p', payload) \<Longrightarrow> p_blockchain p' = p_blockchain p"
  by (auto simp: connectPayload_of_def Let_def split: option.splits if_splits)

lemma prepareConnection_tree: "prepareConnection E W p tr conn remote input acc = Some (p', tr', r) \<Longrightarrow> p_blockchain p' = p_blockchain p"
  by (auto simp: prepareConnection_def Let_def option_bind_eq_Some dest!: connectPayload_tree split: option.splits prod.splits)

lemma ConnectAddress_tree: "ConnectAddress E W p tr a = Some (p', tr', r) \<Longrightarrow> p_blockchain p' = p_blockchain p"
  by (auto simp: ConnectAddress_def dest: prepareConnection_tree split: if_splits option.splits)

lemma Connect_tree: "Connect E W p tr a port = Some (p', tr', r) \<Longrightarrow> p_blockchain p' = p_blockchain p"
  by (auto simp: Connect_def dest!: ConnectAddress_tree split: option.splits)

lemma joinNetwork_tree: "joinNetwork E W a peers p tr = Some (p', tr') \<Longrightarrow> p_blockchain p' = p_blockchain p"
proof (induction peers arbitrary: p tr)
  case (Cons i peers)
  then show ?case by (auto split: if_splits option.splits dest!: Connect_tree)
qed simp

lemma joinKnownPeers_tree: "joinKnownPeers E W as p tr = Some (p', tr') \<Longrightarrow> p_blockchain p' = p_blockchain p"
proof (induction as arbitrary: p tr)
  case (Cons a as)
  then show ?case by (auto split: if_splits option.splits dest!: ConnectAddress_tree)
qed simp

lemma floodJoin_tree: "floodJoin E p tr = Some (p', tr') \<Longrightarrow> p_blockchain p' = p_blockchain p"
  by (auto simp: floodJoin_def Let_def dest!: FloodNetwork_tree connectPayload_tree)

lemma forward_tree: "forward p tr m = Some (p', tr') \<Longrightarrow> p_blockchain p' = p_blockchain p"
  by (auto simp: forward_def dest!: FloodNetwork_tree)

lemma handleJoin_tree: "handleJoin E W p tr m = Some (p', tr') \<Longrightarrow> p_blockchain p' = p_blockchain p"
  by (auto simp: handleJoin_def Let_def dest!: ConnectAddress_tree Connect_tree split: if_splits option.splits)

lemma handlePoSTransaction_tree: "handlePoSTransaction E p m = Some (p', ok) \<Longrightarrow> p_blockchain p' = p_blockchain p"
  by (erule handlePoSTransaction_cases) auto

lemma FloodPoSTransaction_tree: "FloodPoSTransaction E p tr t = Some (p', tr') \<Longrightarrow> p_blockchain p' = p_blockchain p"
  by (auto simp: FloodPoSTransaction_def Let_def dest!: FloodNetwork_tree handlePoSTransaction_tree split: if_splits)

lemma mempool_rows_tree: "mempool_rows E p txs = Some (p', rows) \<Longrightarrow> p_blockchain p' = p_blockchain p"
proof (induction txs arbitrary: p rows)
  case (Cons tx txs)
  then show ?case by (auto split: option.splits)
qed simp

section \<open>Operations that add a block\<close>

definition tree_grows :: "env \<Rightarrow> Peer \<Rightarrow> Peer \<Rightarrow> bool" where
  "tree_grows E p p' \<longleftrightarrow> p_blockchain p' = p_blockchain p \<or>
     (\<exists>chain b chain'. p_blockchain p = Some chain \<and> AddBlock E chain b = Some (chain', True) \<and> p_blockchain p' = Some chain')"

lemma same_tree_grows: "p_blockchain p' = p_blockchain p \<Longrightarrow> tree_grows E p p'"
  by (simp add: tree_grows_def)

lemma ApplyBlock_tree: "ApplyBlock E order p b = Some (p', ok) \<Longrightarrow> tree_grows E p p'"
  by (auto simp: ApplyBlock_def tree_grows_def dest!: block_added_frame(4) split: option.splits if_splits)

lemma handleBlock_tree: "handleBlock E W p tr m = Some (p', tr', ok) \<Longrightarrow> tree_grows E p p'"
  by (auto simp: handleBlock_def tree_grows_def dest!: block_added_frame(4) split: option.splits if_splits)

lemma MineOneSlot_tree: "MineOneSlot E W p tr slot = Some (p', tr', r) \<Longrightarrow> tree_grows E p p'"
  by (erule MineOneSlot_mined) (auto simp: tree_grows_def published_def)

lemma OnMessage_tree:
  assumes "OnMessage E W p tr src m = Some (p', tr')" and "msg_Type m \<noteq> CHAIN_SYNC_RESPONSE_MESSAGE_TYPE" and "msg_Type m \<noteq> TRANSACTION_MESSAGE_TYPE"
  shows "tree_grows E p p'"
proof -
  consider "p_blockchain p' = p_blockchain p"
    | q tr1 ok where "handleBlock E W p tr m = Some (q, tr1, ok)" "p_blockchain p' = p_blockchain q"
    using assms by (fastforce simp: OnMessage_def dest: forward_tree handleJoin_tree handlePoSTransaction_tree split: if_splits)
  then show ?thesis
  proof cases
    case 2
    with handleBlock_tree [OF 2(1)] show ?thesis by (simp add: tree_grows_def)
  qed (simp add: tree_grows_def)
qed

text \<open>The steps of a peer that follows its chain: all but synchronisation, a new configuration and the legacy messages.\<close>

inductive follow_step :: "env \<Rightarrow> Peer \<Rightarrow> Peer \<Rightarrow> bool" for E where
  f_message: "OnMessage E W p tr src m = Some (p', tr') \<Longrightarrow> msg_Type m \<noteq> CHAIN_SYNC_RESPONSE_MESSAGE_TYPE \<Longrightarrow>
    msg_Type m \<noteq> TRANSACTION_MESSAGE_TYPE \<Longrightarrow> follow_step E p p'"
| f_accept: "prepareConnection E W p tr conn remote input True = Some (p', tr', r) \<Longrightarrow> follow_step E p p'"
| f_dial: "ConnectAddress E W p tr address = Some (p', tr', peers) \<Longrightarrow> follow_step E p p'"
| f_connect: "Connect E W p tr addr port = Some (p', tr', ids) \<Longrightarrow> follow_step E p p'"
| f_join: "joinNetwork E W addr ids p tr = Some (p', tr') \<Longrightarrow> follow_step E p p'"
| f_known: "joinKnownPeers E W addresses p tr = Some (p', tr') \<Longrightarrow> follow_step E p p'"
| f_announce: "floodJoin E p tr = Some (p', tr') \<Longrightarrow> follow_step E p p'"
| f_close: "follow_step E p (close_connection p peer conn)"
| f_mine: "MineOneSlot E W p tr slot = Some (p', tr', r) \<Longrightarrow> follow_step E p p'"
| f_submit: "FloodPoSTransaction E p tr t = Some (p', tr') \<Longrightarrow> follow_step E p p'"
| f_block: "ApplyBlock E order p block = Some (p', ok) \<Longrightarrow> follow_step E p p'"
| f_finality: "SetFinalityDepth E p depth = Some p' \<Longrightarrow> follow_step E p p'"
| f_advertise: "follow_step E p (SetAdvertiseHost E p host)"
| f_start: "follow_step E p (fst (Start listening p))"
| f_summaries: "MempoolSummaries E p = Some (p', rows) \<Longrightarrow> follow_step E p p'"
| f_hardness: "CurrentEffectiveHardness E p = Some (p', h) \<Longrightarrow> follow_step E p p'"

lemma follow_peer_step: "follow_step E p p' \<Longrightarrow> peer_step E False p p'"
  by (induction rule: follow_step.induct) (blast intro: peer_step.intros)+

lemma follow_tree: "follow_step E p p' \<Longrightarrow> tree_grows E p p'"
proof (induction rule: follow_step.induct)
  case (f_finality p depth p')
  then show ?case by (intro same_tree_grows) (auto simp: SetFinalityDepth_def Let_def split: option.splits)
next
  case (f_summaries p p' rows)
  then show ?case by (intro same_tree_grows) (auto simp: MempoolSummaries_def dest: mempool_rows_tree)
next
  case (f_hardness p p' h)
  then show ?case by (intro same_tree_grows) (auto simp: CurrentEffectiveHardness_def split: option.splits)
qed (auto intro: OnMessage_tree MineOneSlot_tree ApplyBlock_tree same_tree_grows
    dest: prepareConnection_tree ConnectAddress_tree Connect_tree joinNetwork_tree joinKnownPeers_tree floodJoin_tree FloodPoSTransaction_tree)

end
