(* ===== verification/Convergence.thy ===== *)
theory Convergence
  imports ChainFacts Demo
begin

text \<open>
  Peers that accepted the same blocks agree, whatever the order in which the blocks reached them.
\<close>

text \<open>The block lists that \<open>AddBlock\<close> builds from a genesis block.\<close>

inductive built :: "env \<Rightarrow> Block \<Rightarrow> Block list \<Rightarrow> bool" for E genesis where
  built_genesis: "built E genesis [genesis]"
| built_block: "built E genesis bs \<Longrightarrow> AddBlock E \<lparr>Blocks = bs\<rparr> b = Some (chain, True) \<Longrightarrow> built E genesis (bs @ [b])"

inductive_cases built_singletonE: "built E genesis [b]"

lemma built_connected:
  assumes "built E g bs"
  shows "bs \<noteq> [] \<and> hd bs = g \<and> (\<exists>depths nodes. calculateDepths E bs = Some (depths, nodes) \<and> (\<forall>b \<in> set bs. mhas depths (hash_of E b)))"
  using assms
proof (induction rule: built.induct)
  case built_genesis
  show ?case by (simp add: calculateDepths_def)
next
  case (built_block bs b chain)
  then obtain depths nodes where ih: "calculateDepths E bs = Some (depths, nodes)" "\<forall>b \<in> set bs. mhas depths (hash_of E b)" by blast
  obtain depths' nodes' where a: "calculateDepths E (Blocks \<lparr>Blocks = bs\<rparr>) = Some (depths', nodes')" "block_valid E depths' nodes' b = Some True"
    by (rule AddBlock_cases [OF built_block.hyps(2)])
  then have v: "block_valid E depths nodes b = Some True" using ih(1) by simp
  obtain d where "fmlookup depths (blk_ParentHash b) = Some d" and "block_signed E b = Some True"
    using v by (rule block_valid_True) (auto simp: mhas_def)
  from calculateDepths_snoc [OF ih(1) this(2,1)] ih(2) built_block.IH show ?case by auto
qed

text \<open>The tree of a set of blocks is determined: the depth of a block is its distance from the genesis block.\<close>

lemma depths_agree:
  assumes x: "tree_ok E B g n dx nx" and y: "tree_ok E B g m dy ny" and inj: "inj_on (hash_of E) B"
    and all: "\<forall>b \<in> B. mhas dy (hash_of E b)" and "fmlookup dx h = Some (int k)"
  shows "fmlookup dy h = Some (int k)"
  using assms(5)
proof (induction k arbitrary: h)
  case (0 h)
  obtain b where b: "fmlookup nx h = Some b" using tree_node [OF x "0.prems"] by blast
  show ?case
  proof (cases "h = hash_of E g")
    case True
    then show ?thesis using y by (simp add: tree_ok_def)
  next
    case False
    with tree_parent [OF x b] tree_depth [OF x] "0.prems" show ?thesis by fastforce
  qed
next
  case (Suc k h)
  obtain b where b: "fmlookup nx h = Some b" "hash_of E b = h" "b \<in> B" using tree_node [OF x Suc.prems] by blast
  have ne: "h \<noteq> hash_of E g"
  proof
    assume "h = hash_of E g"
    with x Suc.prems show False by (simp add: tree_ok_def)
  qed
  with tree_parent [OF x b(1)] Suc.prems have "fmlookup dx (blk_ParentHash b) = Some (int k)" by auto
  then have parent: "fmlookup dy (blk_ParentHash b) = Some (int k)" by (rule Suc.IH)
  obtain e where "fmlookup dy h = Some e" using all b(2,3) by (auto simp: mhas_def)
  then obtain b' where b': "fmlookup ny h = Some b'" "hash_of E b' = h" "b' \<in> B" using tree_node [OF y] by blast
  then have "b' = b" using inj b(2,3) by (auto dest: inj_onD)
  with tree_parent [OF y b'(1) ne] parent show ?case by auto
qed

lemma trees_agree:
  assumes x: "tree_ok E B g n dx nx" and y: "tree_ok E B g m dy ny" and inj: "inj_on (hash_of E) B"
    and "\<forall>b \<in> B. mhas dx (hash_of E b)" "\<forall>b \<in> B. mhas dy (hash_of E b)"
  shows "dx = dy \<and> nx = ny"
proof
  have le: "fmlookup dy h = Some d" if "fmlookup dx h = Some d" for h d
    using depths_agree [OF x y inj assms(5), of h "nat d"] tree_depth [OF x that] that by simp
  have ge: "fmlookup dx h = Some d" if "fmlookup dy h = Some d" for h d
    using depths_agree [OF y x inj assms(4), of h "nat d"] tree_depth [OF y that] that by simp
  show d: "dx = dy" by (rule fmap_ext) (metis le ge not_None_eq)
  have dom: "mhas nx h = mhas ny h" for h using x y d by (simp add: tree_ok_def)
  have nodes: "hash_of E b = h \<and> b \<in> B" if "fmlookup nx h = Some b \<or> fmlookup ny h = Some b" for h b
    using that x y by (auto simp: tree_ok_def)
  show "nx = ny"
  proof (rule fmap_ext)
    fix h
    show "fmlookup nx h = fmlookup ny h"
    proof (cases "fmlookup nx h")
      case None
      with dom [of h] show ?thesis by (auto simp: mhas_def)
    next
      case (Some b)
      with dom [of h] obtain c where "fmlookup ny h = Some c" by (auto simp: mhas_def)
      with Some nodes [of h b] nodes [of h c] inj show ?thesis by (auto dest: inj_onD)
    qed
  qed
qed

text \<open>
  Peers converge. Two peers that built their trees with \<open>AddBlock\<close> on the same genesis block and hold the same set of blocks,
  in whatever order they arrived, select the same leaf and have the same best height, canonical chain and ledger at every
  finality depth, for hashes that tell the blocks apart.
\<close>

theorem peers_converge:
  assumes "built E g xs" and "built E g ys" and "set xs = set ys" and "blk_ParentHash g = NO_PARENT_HASH"
    and "inj_on (hash_of E) (set xs)" and "\<forall>b \<in> set xs. hash_of E b \<noteq> NO_PARENT_HASH" and "length xs < 2 ^ 63" "length ys < 2 ^ 63"
  shows "BestLeafHash E \<lparr>Blocks = xs\<rparr> = BestLeafHash E \<lparr>Blocks = ys\<rparr> \<and> BestHeight E \<lparr>Blocks = xs\<rparr> = BestHeight E \<lparr>Blocks = ys\<rparr> \<and>
    CanonicalBlocks E \<lparr>Blocks = xs\<rparr> d = CanonicalBlocks E \<lparr>Blocks = ys\<rparr> d \<and>
    LedgerFromBlockchain E \<lparr>Blocks = xs\<rparr> d = LedgerFromBlockchain E \<lparr>Blocks = ys\<rparr> d"
proof -
  have cf: "collision_free E (set xs)" using assms(5,6) by (auto simp: collision_free_def dest: inj_onD)
  from built_connected [OF assms(1)] obtain dx nx where x: "xs \<noteq> []" "hd xs = g" "calculateDepths E xs = Some (dx, nx)"
    "\<forall>b \<in> set xs. mhas dx (hash_of E b)" by blast
  from built_connected [OF assms(2)] obtain dy ny where y: "ys \<noteq> []" "hd ys = g" "calculateDepths E ys = Some (dy, ny)"
    "\<forall>b \<in> set ys. mhas dy (hash_of E b)" by blast
  have "tree_ok E (set xs) g (length xs - 1) dx nx"
    using calculateDepths_ok [OF x(3)] x cf assms(4,7) by (simp add: tree_blocks_def)
  moreover have "tree_ok E (set xs) g (length ys - 1) dy ny"
    using calculateDepths_ok [OF y(3)] y cf assms(3,4,8) by (simp add: tree_blocks_def)
  ultimately have "dx = dy \<and> nx = ny" using assms(5) x(4) y(4) assms(3) by (intro trees_agree) auto
  then show ?thesis using x(3) y(3)
    by (simp add: BestLeafHash_def BestHeight_def CanonicalBlocks_def LedgerFromBlockchain_def)
qed

theorem peers_converge_witness:
  "built demo_env demo_genesis [demo_genesis, demo_block] \<and>
   LedgerFromBlockchain demo_env \<lparr>Blocks = [demo_genesis, demo_block]\<rparr> 0 = LedgerFromBlockchain demo_env \<lparr>Blocks = [demo_genesis, demo_block]\<rparr> 0"
proof -
  have chain: "demo_chain = \<lparr>Blocks = [demo_genesis]\<rparr>" using demo_Blocks by (cases demo_chain) simp
  have b: "built demo_env demo_genesis ([demo_genesis] @ [demo_block])"
    by (rule built.built_block [OF built.built_genesis demo_accepted [unfolded chain]])
  have t: "tree_blocks demo_env ([demo_genesis] @ [demo_block])" by (rule demo_tree(2))
  have "inj_on (hash_of demo_env) (set ([demo_genesis] @ [demo_block]))" using demo_block_hash by (auto simp: inj_on_def demo_hash_def)
  moreover have "\<forall>b \<in> set ([demo_genesis] @ [demo_block]). hash_of demo_env b \<noteq> NO_PARENT_HASH"
    using t by (auto simp: tree_blocks_def collision_free_def)
  ultimately have "LedgerFromBlockchain demo_env \<lparr>Blocks = [demo_genesis] @ [demo_block]\<rparr> 0 =
      LedgerFromBlockchain demo_env \<lparr>Blocks = [demo_genesis] @ [demo_block]\<rparr> 0"
    using peers_converge [OF b b refl demo_genesis_fields(1)] by simp
  with b show ?thesis by simp
qed

end
