(* ===== verification/MiningProperties.thy ===== *)
theory MiningProperties
  imports SyncProperties MiningFacts
begin

text \<open>
  The effect of one slot of mining on the peer.
\<close>

text \<open>
  C31. One slot of mining. Without a block the chain, the ledger and the history of messages are as before and
  nothing is sent. With a block, it is the miner's own for this slot, \<open>AddBlock\<close> accepted it, the ledger is the replay of the
  longer chain, the block is counted once as accepted and as mined, its message is in the history and none of its transactions
  is pending any more.
\<close>

theorem mined_slot_effects:
  assumes "MineOneSlot E W p tr slot = Some (p', tr', r)"
  shows "case r of
      None \<Rightarrow> p_blockchain p' = p_blockchain p \<and> p_ledger p' = p_ledger p \<and> p_msgHistory p' = p_msgHistory p \<and> tr' = tr
    | Some b \<Rightarrow> \<exists>chain chain' miner. p_blockchain p = Some chain \<and> p_miner p = Some miner \<and> AddBlock E chain b = Some (chain', True) \<and>
        blk_VerificationKey b = SafeEncode miner \<and> blk_Slot b = slot \<and> p_blockchain p' = Some chain' \<and>
        LedgerFromBlockchain E chain' (p_finalityDepth p) = Some (p_ledger p') \<and>
        p_acceptedBlocks p' = p_acceptedBlocks p + 1 \<and> p_minedBlocks p' = p_minedBlocks p + 1 \<and>
        hasSeenMessage p' (b64_encode (GetBlockHash E b)) \<and>
        (\<forall>txs t. DecodeBlockTransactions (blk_MetaData b) = Some txs \<longrightarrow> t \<in> set txs \<longrightarrow> fmlookup (p_mempool p') (tx_ID t) = None)"
  using assms
proof (cases rule: MineOneSlot_mined)
  case 1
  then show ?thesis by simp
next
  case (2 b miner)
  then show ?thesis by (auto simp: published_def)
qed

text \<open>The peer of \<open>PeerDemo\<close> with one coin of stake wins slot 1.\<close>

definition demo_staker :: Peer where
  "demo_staker = demo_peer\<lparr>p_ledger := SetBalance MakeLedger (SafeEncode demo_wallet) 1\<rparr>"

lemma demo_proof_draw: "ComputeLotteryDrawFromProof demo_env (SignLotteryProof demo_env 0 1 (Some demo_wallet)) = Some 0"
proof -
  have one: "BytesToBigInt (demo_sha m) \<in> {1, 2, 3}" for m by (simp add: demo_sha_def BytesToBigInt_def numeral_eq_Suc)
  have "key_n demo_wallet = 256 ^ 255" "key_d demo_wallet = 1" by (simp_all only: demo_wallet_def Account.select_convs)
  moreover have "(3::nat) < 256 ^ 255" by simp
  ultimately have "RSASign demo_sha m (key_d demo_wallet) (key_n demo_wallet) \<noteq> 0" for m
    using one [of m] by (auto simp: RSASign_def applyHash_def Decrypt_def big_Exp_def Let_def)
  then have "big_Bytes (RSASign demo_sha m (key_d demo_wallet) (key_n demo_wallet)) \<noteq> []" for m
    by (subst big_Bytes.simps) simp
  then show ?thesis
    by (simp add: ComputeLotteryDrawFromProof_def SignLotteryProof_def demo_env_def) (simp add: demo_sha_def draw_of_zero)
qed

lemma prune_empty:
  assumes "p_blockchain p = Some chain" and "LedgerFromBlockchain E chain 0 = Some l" and "p_mempool p = fmempty"
  shows "pruneInvalidMempool E mkeys p = Some (p, 0)"
proof -
  have "p\<lparr>p_mempool := fmempty\<rparr> = p" using assms(3) by (cases p) simp
  with assms show ?thesis by (simp add: pruneInvalidMempool_def pool_values_def prune_loop.simps)
qed

lemma demo_two_added:
  assumes "p_finalityDepth p = 0" and "p_mempool p = fmempty"
  shows "\<exists>p'. block_added demo_env mkeys p (demo_chain\<lparr>Blocks := [demo_genesis, demo_block]\<rparr>) demo_block = Some p' \<and>
    p_conns p' = p_conns p \<and> p_msgHistory p' = p_msgHistory p"
proof -
  let ?c = "demo_chain\<lparr>Blocks := [demo_genesis, demo_block]\<rparr>"
  obtain l where l: "LedgerFromBlockchain demo_env ?c 0 = Some l" using demo_two_ledger by blast
  define q where "q = p\<lparr>p_blockchain := Some ?c, p_ledger := l, p_acceptedBlocks := p_acceptedBlocks p + 1\<rparr>"
  have q: "q\<lparr>p_mempool := drop_included [] (p_mempool q)\<rparr> = q" by (cases q) simp
  have "pruneInvalidMempool demo_env mkeys q = Some (q, 0)" by (rule prune_empty [OF _ l]) (simp_all add: q_def assms(2))
  then have "block_added demo_env mkeys p ?c demo_block = Some q"
    using q by (simp add: block_added_def l assms(1) demo_block_fields block_transactions_roundtrip q_def [symmetric] Let_def)
  then show ?thesis by (simp add: q_def)
qed

lemma demo_mined: "\<exists>p'. MineOneSlot demo_env demo_world demo_staker [] 1 = Some (p', [], Some demo_block)"
proof -
  let ?g = "applyDefaultDynamicHardnessConfig GenesisMetaData_zero"
  let ?p = "demo_staker\<lparr>p_lotteryAttempts := p_lotteryAttempts demo_staker + 1\<rparr>"
  let ?q = "?p\<lparr>p_genesis := Some (applyDefaultDynamicHardnessConfig ?g), p_lotteryWins := p_lotteryWins ?p + 1\<rparr>"
  have f: "p_blockchain demo_staker = Some demo_chain" "p_miner demo_staker = Some demo_wallet" "p_genesis demo_staker = Some ?g"
    "p_mempool demo_staker = fmempty" "p_conns demo_staker = fmempty" "p_finalityDepth demo_staker = 0" "p_msgHistory demo_staker = fmempty"
    by (simp_all add: demo_staker_def demo_peer_def NewPeer_def)
  have seed: "Seed ?g = 0" "Seed GenesisMetaData_zero = 0" by (simp_all add: GenesisMetaData_zero_def)
  have stake: "ValidatorStake ?p = 1" by (simp add: ValidatorStake_def f demo_staker_def demo_peer_def GetBalance_def SetBalance_def mget_def)
  have hard: "optimisticLotteryHardness ?p = 10000000" "EffectiveHardnessForMining [demo_genesis] (Some ?g) 0 = 100"
    by (simp_all add: optimisticLotteryHardness_def EffectiveHardnessForMining_def f applyDefaultDynamicHardnessConfig_def
        GenesisMetaData_zero_def clampHardness_def)
  have "select_candidate demo_env demo_world ?p MakeLedger = Some (?p, [])"
    using prune_empty [of ?p, OF _ demo_replay] by (simp add: select_candidate_def demo_world_def f pool_values_def)
  moreover obtain q where q: "block_added demo_env mkeys ?q (demo_chain\<lparr>Blocks := [demo_genesis, demo_block]\<rparr>) demo_block = Some q"
    "p_conns q = fmempty" "p_msgHistory q = fmempty" using demo_two_added [of ?q] by (auto simp: f)
  have "\<exists>p'. publish_block demo_env demo_world ?q [] demo_block = Some (p', [], Some demo_block)"
    using q by (simp add: publish_block_def ApplyBlock_def f demo_accepted demo_world_def FloodNetwork_def connectionSnapshot_def Let_def
        MessageHistory_zero_def mget_def)
  moreover have "BestLeafHash demo_env demo_chain = Some demo_hash" by (simp add: BestLeafHash_def demo_calc demo_leaf)
  ultimately have "\<exists>p'. mine_candidate demo_env demo_world ?p [] demo_chain demo_wallet ?g 1 1 0 = Some (p', [], Some demo_block)"
    by (simp add: mine_candidate_def demo_canonical demo_replay hard WinsLottery_def demo_block_def seed)
  then show ?thesis by (simp add: MineOneSlot_def f seed demo_proof_draw stake hard WinsLottery_def)
qed

theorem mined_slot_effects_witness:
  "\<exists>p'. MineOneSlot demo_env demo_world demo_staker [] 1 = Some (p', [], Some demo_block) \<and>
     AddBlock demo_env demo_chain demo_block = Some (demo_chain\<lparr>Blocks := [demo_genesis, demo_block]\<rparr>, True) \<and>
     p_blockchain p' = Some (demo_chain\<lparr>Blocks := [demo_genesis, demo_block]\<rparr>) \<and> p_minedBlocks p' = 1"
proof -
  obtain p' where p': "MineOneSlot demo_env demo_world demo_staker [] 1 = Some (p', [], Some demo_block)" using demo_mined by blast
  from mined_slot_effects [OF p'] show ?thesis using p' demo_accepted by (auto simp: demo_staker_def demo_peer_def NewPeer_def)
qed

end
