(* ===== verification/ForkDemo.thy ===== *)
theory ForkDemo
  imports MiningProperties
begin

text \<open>
  Forks of the chain of \<open>Demo\<close>: the wallet's blocks for any slots, all on the genesis block. They are accepted in any order.
\<close>

definition demo_cand :: "int \<Rightarrow> Block" where
  "demo_cand slot = NewCandidateBlock demo_env demo_wallet slot demo_hash [] 0"

lemma cand_fields:
  "blk_ParentHash (demo_cand s) = demo_hash" "blk_MetaData (demo_cand s) = EncodeBlockTransactions []" "blk_Draw (demo_cand s) = 0"
  "blk_VerificationKey (demo_cand s) = SafeEncode demo_wallet"
  by (simp_all add: demo_cand_def NewCandidateBlock_fields)
    (simp add: NewCandidateBlock_def NewBlock_def Let_def ComputeLotteryDrawFromProof_def ComputeLotteryDraw_def
      demo_env_def demo_sha_def draw_of_zero split: option.split)

lemma hash_cand: "hash_of demo_env (demo_cand s) \<noteq> demo_hash"
proof
  assume "hash_of demo_env (demo_cand s) = demo_hash"
  then have "demo_sha (MarshalBlock (demo_cand s)) = demo_sha (MarshalBlock demo_genesis)"
    by (simp add: demo_hash_def hash_of_def GetBlockHash_def demo_env_def)
  then have eq: "MarshalBlock (demo_cand s) = MarshalBlock demo_genesis" by (simp add: demo_sha_def split: if_splits)
  have "ascii_block demo_genesis" by (simp add: ascii_block_def demo_genesis_fields BLOCK_TYPE_def NO_PARENT_HASH_def)
  moreover have "ascii_block (demo_cand s)"
    by (simp add: ascii_block_def demo_cand_def NewCandidateBlock_def NewBlock_def Let_def SafeEncode_def ascii_b64_encode
      SignLotteryProof_def BLOCK_TYPE_def demo_hash_def hash_of_def)
  ultimately have "blk_ParentHash (demo_cand s) = blk_ParentHash demo_genesis" using MarshalBlock_inj eq by blast
  then show False using demo_hash_nonempty by (simp add: cand_fields demo_genesis_fields)
qed

section \<open>Forks are accepted\<close>

definition fork :: "depth_map \<Rightarrow> node_map \<Rightarrow> bool" where
  "fork depths nodes \<longleftrightarrow> fmlookup depths demo_hash = Some 0 \<and> fmlookup nodes demo_hash = Some demo_genesis \<and>
     (\<forall>h b. fmlookup nodes h = Some b \<longrightarrow> h \<noteq> demo_hash \<longrightarrow> b \<in> range demo_cand)"

lemma fork_start: "fork demo_depths demo_nodes"
  by (simp add: fork_def demo_depths_def demo_nodes_def)

lemma fork_root: "fork depths nodes \<Longrightarrow> branch_up nodes demo_hash = Some [demo_genesis]"
  using demo_hash_nonempty by (subst branch_up.simps, subst branch_up.simps) (simp add: fork_def demo_genesis_fields)

lemma fork_genesis: "fork depths nodes \<Longrightarrow> getGenesisHash nodes = demo_hash"
  unfolding getGenesisHash_def
proof (rule find_genesis_only)
  fix h b assume "fork depths nodes" "fmlookup nodes h = Some b"
  then consider "h = demo_hash" "b = demo_genesis" | s where "h \<noteq> demo_hash" "b = demo_cand s" unfolding fork_def by (metis option.inject rangeE)
  then show "blk_ParentHash b = NO_PARENT_HASH \<longleftrightarrow> h = demo_hash"
    using demo_hash_nonempty by cases (simp_all add: demo_genesis_fields cand_fields)
qed (auto simp: fork_def mhas_def fmdomI)

lemma fork_branch:
  assumes "fork depths nodes"
  shows "\<exists>bs. branch_up nodes h = Some bs \<and> bs \<in> {[], [demo_genesis]} \<union> (\<lambda>s. [demo_cand s, demo_genesis]) ` UNIV"
proof (cases "fmlookup nodes h")
  case None
  then show ?thesis by (subst branch_up.simps) auto
next
  case (Some b)
  show ?thesis
  proof (cases "h = demo_hash")
    case True
    with fork_root [OF assms] show ?thesis by auto
  next
    case False
    with Some assms obtain s where "b = demo_cand s" by (auto simp: fork_def)
    with Some fork_root [OF assms] show ?thesis by (subst branch_up.simps) (auto simp: cand_fields)
  qed
qed

lemma fork_ledger:
  assumes "calculateDepths demo_env bs = Some (depths, nodes)" and "fork depths nodes"
  shows "\<exists>l. LedgerFromBlockchain demo_env \<lparr>Blocks = bs\<rparr> 0 = Some l"
proof -
  have step: "\<exists>l. apply_block demo_env l0 (demo_cand s) = Some l" for l0 s
    by (simp add: apply_block_def cand_fields block_transactions_roundtrip Let_def)
  from fork_branch [OF assms(2)] obtain bs' where b: "branch_up nodes (getLeafHash depths) = Some bs'"
    "bs' \<in> {[], [demo_genesis]} \<union> (\<lambda>s. [demo_cand s, demo_genesis]) ` UNIV" by blast
  have "\<exists>l. buildLedgerFromBlocks demo_env (rev bs') = Some l"
    using b(2) step by (fastforce simp: buildLedgerFromBlocks_def demo_meta split: option.split)
  with b(1) assms(1) show ?thesis by (auto simp: LedgerFromBlockchain_def getBlocksFromLongestBranch_def drop_last_def)
qed

lemma fork_accepted:
  assumes "calculateDepths demo_env bs = Some (depths, nodes)" and "fork depths nodes"
  shows "AddBlock demo_env \<lparr>Blocks = bs\<rparr> (demo_cand s) = Some (\<lparr>Blocks = bs @ [demo_cand s]\<rparr>, True)"
    and "\<exists>depths' nodes'. calculateDepths demo_env (bs @ [demo_cand s]) = Some (depths', nodes') \<and> fork depths' nodes'"
proof -
  let ?g = "applyDefaultDynamicHardnessConfig GenesisMetaData_zero"
  have seed: "Seed ?g = 0" by (simp add: GenesisMetaData_zero_def)
  have block: "demo_cand s = NewCandidateBlock demo_env demo_wallet s demo_hash [] (Seed ?g)" by (simp only: demo_cand_def seed)
  have h: "effectiveHardnessForBlock nodes (Some ?g) (demo_cand s) = Some 100"
    using fork_root [OF assms(2)]
    by (simp add: effectiveHardnessForBlock_def cand_fields getBlocksFromLongestBranch_def block_transactions_roundtrip
      EffectiveHardnessForMining_def applyDefaultDynamicHardnessConfig_def GenesisMetaData_zero_def clampHardness_def Let_def)
  have l: "buildLedgerAtHash demo_env nodes demo_hash = Some MakeLedger"
    by (simp add: buildLedgerAtHash_def fork_root [OF assms(2)] buildLedgerFromBlocks_def demo_meta demo_first_ledger)
  have calc: "calculateDepths demo_env (Blocks \<lparr>Blocks = bs\<rparr>) = Some (depths, nodes)" using assms(1) by simp
  have "AddBlock demo_env \<lparr>Blocks = bs\<rparr> (demo_cand s) = Some (\<lparr>Blocks = bs\<rparr>\<lparr>Blocks := Blocks \<lparr>Blocks = bs\<rparr> @ [demo_cand s]\<rparr>, True)"
    by (rule candidate_accepted [OF demo_wallet_ok demo_sha_length calc _ _ demo_meta l demo_tickets _ _ _ _ block h])
      (use assms(2) in \<open>simp_all add: fork_def mhas_def fork_genesis [OF assms(2)] newcomer_hardness_def WinsLottery_def cand_fields
        IsValidator_def GetBalance_def MakeLedger_def GenesisMetaData_zero_def\<close>)
  then show "AddBlock demo_env \<lparr>Blocks = bs\<rparr> (demo_cand s) = Some (\<lparr>Blocks = bs @ [demo_cand s]\<rparr>, True)" by simp
  have signed: "block_signed demo_env (demo_cand s) = Some True"
    unfolding demo_cand_def by (rule candidate_signed [OF demo_wallet_ok demo_sha_length])
  have "fmlookup depths (blk_ParentHash (demo_cand s)) = Some 0" using assms(2) by (simp add: fork_def cand_fields)
  from calculateDepths_snoc [OF assms(1) signed this] assms(2) hash_cand [of s]
  show "\<exists>depths' nodes'. calculateDepths demo_env (bs @ [demo_cand s]) = Some (depths', nodes') \<and> fork depths' nodes'"
    by (auto simp: fork_def)
qed

lemma fork_apply:
  assumes "p_blockchain p = Some \<lparr>Blocks = bs\<rparr>" and "p_mempool p = fmempty" and "p_finalityDepth p = 0"
    and "calculateDepths demo_env bs = Some (depths, nodes)" and "fork depths nodes"
  obtains p' where "ApplyBlock demo_env mkeys p (demo_cand s) = Some (p', True)" "p_blockchain p' = Some \<lparr>Blocks = bs @ [demo_cand s]\<rparr>"
    "p_mempool p' = fmempty" "p_finalityDepth p' = 0"
proof -
  let ?c = "\<lparr>Blocks = bs @ [demo_cand s]\<rparr>"
  from fork_accepted(2) [OF assms(4,5)] fork_ledger obtain l where l: "LedgerFromBlockchain demo_env ?c 0 = Some l" by blast
  define q where "q = p\<lparr>p_blockchain := Some ?c, p_ledger := l, p_acceptedBlocks := p_acceptedBlocks p + 1\<rparr>"
  have q: "q\<lparr>p_mempool := drop_included [] (p_mempool q)\<rparr> = q" by (cases q) simp
  have "pruneInvalidMempool demo_env mkeys q = Some (q, 0)" by (rule prune_empty [OF _ l]) (simp_all add: q_def assms(2))
  then have "block_added demo_env mkeys p ?c (demo_cand s) = Some q"
    using q by (simp add: block_added_def l assms(3) cand_fields block_transactions_roundtrip q_def [symmetric] Let_def)
  then show ?thesis
    by (intro that [of q]) (simp_all add: ApplyBlock_def assms(1) fork_accepted(1) [OF assms(4,5)], simp_all add: q_def assms)
qed

section \<open>Two of them\<close>

lemma length_marshal_strings: "length (marshal_strings ws) = (if ws = [] then 2 else Suc (sum_list (map (\<lambda>w. Suc (length (marshal_string w))) ws)))"
proof -
  have "ws \<noteq> [] \<Longrightarrow> Suc (length (json_elems (map JStr ws))) = sum_list (map (\<lambda>w. Suc (length (marshal_string w))) ws)" by (induction ws) auto
  then show ?thesis by (cases ws) (simp_all add: marshal_strings_def)
qed

lemma small_signature: "RSASign (sha256 demo_env) m (key_d demo_wallet) (key_n demo_wallet) \<in> {1, 2, 3}"
proof -
  have "BytesToBigInt (demo_sha m) \<in> {1, 2, 3}" by (simp add: demo_sha_def BytesToBigInt_def numeral_eq_Suc)
  moreover have "key_n demo_wallet = 256 ^ 255" "key_d demo_wallet = 1" by (simp_all only: demo_wallet_def Account.select_convs)
  moreover have "(3::nat) < 256 ^ 255" by simp
  moreover have "sha256 demo_env = demo_sha" by (simp add: demo_env_def)
  ultimately show ?thesis by (auto simp: RSASign_def applyHash_def Decrypt_def big_Exp_def Let_def)
qed

lemma small_bytes: "v \<in> {1, 2, 3} \<Longrightarrow> length (big_Bytes v) = 1 \<and> length (marshal_string (b64_encode (big_Bytes v))) = 6 \<and> b64_encode (big_Bytes v) \<noteq> []"
proof -
  have "length (big_Bytes 1) = 1 \<and> length (marshal_string (b64_encode (big_Bytes 1))) = 6 \<and> b64_encode (big_Bytes 1) \<noteq> []"
    "length (big_Bytes 2) = 1 \<and> length (marshal_string (b64_encode (big_Bytes 2))) = 6 \<and> b64_encode (big_Bytes 2) \<noteq> []"
    "length (big_Bytes 3) = 1 \<and> length (marshal_string (b64_encode (big_Bytes 3))) = 6 \<and> b64_encode (big_Bytes 3) \<noteq> []" by code_simp+
  then show "v \<in> {1, 2, 3} \<Longrightarrow> length (big_Bytes v) = 1 \<and> length (marshal_string (b64_encode (big_Bytes v))) = 6 \<and> b64_encode (big_Bytes v) \<noteq> []" by auto
qed

lemma length_cand: "length (MarshalBlock (demo_cand s)) = length (marshal_string (Itoa s)) + length (MarshalBlock (demo_cand 0)) - 3"
proof -
  have sig: "\<exists>v \<in> {1, 2, 3}. blk_Signature (demo_cand t) = b64_encode (big_Bytes v)" for t
  proof -
    have "\<exists>m. blk_Signature (demo_cand t) = b64_encode (big_Bytes (RSASign (sha256 demo_env) m (key_d demo_wallet) (key_n demo_wallet)))"
      by (auto simp: demo_cand_def NewCandidateBlock_def Let_def Sign_def)
    with small_signature show ?thesis by blast
  qed
  have pr: "\<exists>v \<in> {1, 2, 3}. blk_LotteryProof (demo_cand t) = b64_encode (big_Bytes v)" for t
    using small_signature by (simp only: demo_cand_def NewCandidateBlock_fields SignLotteryProof_def option.case) blast
  have slot: "blk_Slot (demo_cand t) = t" "blk_Type (demo_cand t) = BLOCK_TYPE" for t
    by (simp_all add: demo_cand_def NewCandidateBlock_fields) (simp add: NewCandidateBlock_def NewBlock_def Let_def)
  have "length (MarshalBlock (demo_cand t)) = length (marshal_string (Itoa t)) + (14 + length (marshal_string BLOCK_TYPE) +
      length (marshal_string (SafeEncode demo_wallet)) + length (marshal_string (Itoa 0)) + length (marshal_string demo_hash))" for t
  proof -
    from sig [of t] pr [of t] obtain v u where "v \<in> {1, 2, 3}" "blk_Signature (demo_cand t) = b64_encode (big_Bytes v)"
      "u \<in> {1, 2, 3}" "blk_LotteryProof (demo_cand t) = b64_encode (big_Bytes u)" by blast
    with small_bytes [of v] small_bytes [of u] show ?thesis
      by (simp add: MarshalBlock_def marshalForSignature_def Let_def length_marshal_strings slot cand_fields)
  qed
  moreover have "length (marshal_string (Itoa 0)) = 3" by code_simp
  ultimately show ?thesis by simp
qed

lemma fork_hashes: "hash_of demo_env (demo_cand 1) \<noteq> hash_of demo_env (demo_cand 10)"
proof
  assume eq: "hash_of demo_env (demo_cand 1) = hash_of demo_env (demo_cand 10)"
  then have "demo_sha (MarshalBlock (demo_cand 1)) = demo_sha (MarshalBlock (demo_cand 10))" by (simp add: hash_of_def GetBlockHash_def demo_env_def)
  moreover have "MarshalBlock (demo_cand t) \<noteq> MarshalBlock demo_genesis" for t
    using hash_cand [of t] by (auto simp: demo_hash_def hash_of_def GetBlockHash_def)
  ultimately have parity: "even (length (MarshalBlock (demo_cand 1))) \<longleftrightarrow> even (length (MarshalBlock (demo_cand 10)))"
    by (simp add: demo_sha_def split: if_splits)
  have "Itoa 10 = ''10''" by (simp add: Itoa_def nat_digits.simps) code_simp
  moreover have "length (marshal_string (Itoa 1)) = 3" "length (marshal_string ''10'') = 4" by code_simp+
  ultimately have "length (MarshalBlock (demo_cand 10)) = Suc (length (MarshalBlock (demo_cand 1)))" using length_cand [of 10] length_cand [of 1] by simp
  with parity show False by simp
qed

end
