(* ===== verification/Agreement.thy ===== *)
theory Agreement
  imports ChainGrowth Convergence ForkDemo
begin

text \<open>
  Peers that started from the same genesis settings and hold the same blocks agree on everything the chain determines.
\<close>

section \<open>Peers and their trees\<close>

definition grown :: "env \<Rightarrow> Block \<Rightarrow> Peer \<Rightarrow> bool" where
  "grown E g p \<longleftrightarrow> (\<exists>chain. p_blockchain p = Some chain \<and> built E g (Blocks chain))"

lemma chain_eta [simp]: "\<lparr>Blocks = Blocks chain\<rparr> = chain"
  by (cases chain) simp

lemma AddBlock_blocks: "AddBlock E chain b = Some (chain', True) \<Longrightarrow> Blocks chain' = Blocks chain @ [b]"
  by (auto simp: AddBlock_def split: option.splits if_splits)

lemma grown_follow:
  assumes "follow_step E p p'" and "grown E g p"
  shows "grown E g p'"
proof -
  from assms(2) obtain chain where c: "p_blockchain p = Some chain" "built E g (Blocks chain)" by (auto simp: grown_def)
  from follow_tree [OF assms(1)] c(1) consider "p_blockchain p' = Some chain"
    | b chain' where "AddBlock E chain b = Some (chain', True)" "p_blockchain p' = Some chain'" by (auto simp: tree_grows_def)
  then show ?thesis
  proof cases
    case 2
    have "AddBlock E \<lparr>Blocks = Blocks chain\<rparr> b = Some (chain', True)" using 2(1) by simp
    from built.built_block [OF c(2) this] AddBlock_blocks [OF 2(1)] 2(2) show ?thesis by (simp add: grown_def)
  qed (use c in \<open>auto simp: grown_def\<close>)
qed

lemma grown_follows: "(follow_step E)\<^sup>*\<^sup>* p p' \<Longrightarrow> grown E g p \<Longrightarrow> grown E g p'"
  by (induction rule: rtranclp_induct) (auto intro: grown_follow)

definition genesis_block :: "GenesisMetaData \<Rightarrow> Block" where
  "genesis_block genesis = hd (Blocks (NewBlockchainWithGenesis genesis))"

lemma grown_configured:
  assumes "ConfigurePoS E p genesis miner = Some p'"
  shows "grown E (genesis_block genesis) p'"
proof -
  have "Blocks (NewBlockchainWithGenesis genesis) = [genesis_block genesis]"
    by (simp add: genesis_block_def NewBlockchainWithGenesis_def Let_def)
  moreover have "p_blockchain p' = Some (NewBlockchainWithGenesis genesis)" using assms by (auto simp: ConfigurePoS_def Let_def split: option.splits)
  ultimately show ?thesis by (simp add: grown_def built.built_genesis)
qed

text \<open>A peer that has followed its chain since it was configured.\<close>

definition follows :: "env \<Rightarrow> GenesisMetaData \<Rightarrow> Peer \<Rightarrow> bool" where
  "follows E genesis p \<longleftrightarrow> (\<exists>p0 p1 miner. reachable E False p0 \<and> ConfigurePoS E p0 genesis miner = Some p1 \<and> (follow_step E)\<^sup>*\<^sup>* p1 p)"

lemma follows_grown: "follows E genesis p \<Longrightarrow> grown E (genesis_block genesis) p"
  unfolding follows_def using grown_follows grown_configured by blast

lemma follows_cached: "follows E genesis p \<Longrightarrow> ledger_cached E p"
proof -
  assume "follows E genesis p"
  then obtain p0 p1 miner where p: "reachable E False p0" "ConfigurePoS E p0 genesis miner = Some p1" "(follow_step E)\<^sup>*\<^sup>* p1 p"
    by (auto simp: follows_def)
  have "reachable E False p1" by (rule reachable.step_on [OF p(1) peer_step.on_configure [OF p(2)]])
  from p(3) this have "reachable E False p" by (induction rule: rtranclp_induct) (auto intro: reachable.step_on follow_peer_step)
  then show ?thesis by (rule cache_inv.reachable_inv)
qed

text \<open>
  C26. Peers agree. Two peers that were configured with the same genesis settings, have followed their chains since then in whatever way (messages,
  connections, mining, own transactions; not by adopting a chain that a synchronisation sent, nor by the legacy transaction message) and hold the same set of blocks, in whatever order they came, select the same leaf and have the same
  canonical chain, and with the same finality depth the same ledger, for hashes that tell the blocks apart.
\<close>

theorem peers_agree:
  assumes "follows E genesis p" and "follows E genesis q" and "p_blockchain p = Some xs" and "p_blockchain q = Some ys"
    and "set (Blocks xs) = set (Blocks ys)" and "inj_on (hash_of E) (set (Blocks xs))" and "\<forall>b \<in> set (Blocks xs). hash_of E b \<noteq> NO_PARENT_HASH"
    and "length (Blocks xs) < 2 ^ 63" and "length (Blocks ys) < 2 ^ 63" and "p_finalityDepth p = p_finalityDepth q"
  shows "BestLeafHash E xs = BestLeafHash E ys \<and> CanonicalBlocks E xs d = CanonicalBlocks E ys d \<and> p_ledger p = p_ledger q"
proof -
  let ?g = "genesis_block genesis"
  have b: "built E ?g (Blocks xs)" "built E ?g (Blocks ys)"
    using follows_grown [OF assms(1)] follows_grown [OF assms(2)] assms(3,4) by (simp_all add: grown_def)
  have "blk_ParentHash ?g = NO_PARENT_HASH" by (simp add: genesis_block_def NewBlockchainWithGenesis_def Let_def)
  from peers_converge [OF b assms(5) this assms(6-9)]
  have agree: "BestLeafHash E xs = BestLeafHash E ys" "CanonicalBlocks E xs d = CanonicalBlocks E ys d"
      "LedgerFromBlockchain E xs d = LedgerFromBlockchain E ys d" for d by simp_all
  have "Some (p_ledger p) = Some (p_ledger q)"
    using follows_cached [OF assms(1)] follows_cached [OF assms(2)] assms(3,4,10) agree(3) by (simp add: ledger_cached_def)
  with agree show ?thesis by simp
qed

section \<open>Two peers, two orders\<close>

lemma demo_follow_apply:
  assumes "follows demo_env genesis p" and "p_blockchain p = Some \<lparr>Blocks = bs\<rparr>" and "p_mempool p = fmempty" and "p_finalityDepth p = 0"
    and "\<exists>depths nodes. calculateDepths demo_env bs = Some (depths, nodes) \<and> fork depths nodes"
  obtains p' where "follows demo_env genesis p'" "p_blockchain p' = Some \<lparr>Blocks = bs @ [demo_cand s]\<rparr>" "p_mempool p' = fmempty"
    "p_finalityDepth p' = 0" "\<exists>depths nodes. calculateDepths demo_env (bs @ [demo_cand s]) = Some (depths, nodes) \<and> fork depths nodes"
proof -
  from assms(5) obtain depths nodes where c: "calculateDepths demo_env bs = Some (depths, nodes)" "fork depths nodes" by blast
  obtain p' where p': "ApplyBlock demo_env mkeys p (demo_cand s) = Some (p', True)" "p_blockchain p' = Some \<lparr>Blocks = bs @ [demo_cand s]\<rparr>"
    "p_mempool p' = fmempty" "p_finalityDepth p' = 0" using fork_apply [OF assms(2-4) c] by blast
  have "follows demo_env genesis p'"
    using assms(1) follow_step.f_block [OF p'(1)] unfolding follows_def by (blast intro: rtranclp.rtrancl_into_rtrancl)
  with p' fork_accepted(2) [OF c] show ?thesis by (blast intro: that)
qed

lemma demo_forked:
  obtains p where "follows demo_env GenesisMetaData_zero p" "p_blockchain p = Some \<lparr>Blocks = [demo_genesis, demo_cand s, demo_cand t]\<rparr>" "p_finalityDepth p = 0"
proof -
  have start: "follows demo_env GenesisMetaData_zero demo_peer"
    unfolding follows_def using reachable.new_peer demo_configured by blast
  have chain: "demo_chain = \<lparr>Blocks = [demo_genesis]\<rparr>" using demo_Blocks by (cases demo_chain) simp
  have calc: "\<exists>depths nodes. calculateDepths demo_env [demo_genesis] = Some (depths, nodes) \<and> fork depths nodes"
    using demo_calc fork_start by (simp add: demo_Blocks)
  obtain p where p: "follows demo_env GenesisMetaData_zero p" "p_blockchain p = Some \<lparr>Blocks = [demo_genesis] @ [demo_cand s]\<rparr>" "p_mempool p = fmempty"
    "p_finalityDepth p = 0" "\<exists>depths nodes. calculateDepths demo_env ([demo_genesis] @ [demo_cand s]) = Some (depths, nodes) \<and> fork depths nodes"
    by (rule demo_follow_apply [OF start _ _ _ calc]) (simp_all add: demo_peer_fields chain)
  show ?thesis by (rule demo_follow_apply [OF p, of t]) (intro that, simp_all)
qed

theorem peers_agree_witness:
  "\<exists>p q. p_blockchain p = Some \<lparr>Blocks = [demo_genesis, demo_cand 1, demo_cand 10]\<rparr> \<and> p_blockchain q = Some \<lparr>Blocks = [demo_genesis, demo_cand 10, demo_cand 1]\<rparr> \<and>
    demo_cand 1 \<noteq> demo_cand 10 \<and> follows demo_env GenesisMetaData_zero p \<and> follows demo_env GenesisMetaData_zero q \<and> p_ledger p = p_ledger q"
proof -
  obtain p where p: "follows demo_env GenesisMetaData_zero p" "p_blockchain p = Some \<lparr>Blocks = [demo_genesis, demo_cand 1, demo_cand 10]\<rparr>" "p_finalityDepth p = 0"
    by (rule demo_forked)
  obtain q where q: "follows demo_env GenesisMetaData_zero q" "p_blockchain q = Some \<lparr>Blocks = [demo_genesis, demo_cand 10, demo_cand 1]\<rparr>" "p_finalityDepth q = 0"
    by (rule demo_forked)
  have "inj_on (hash_of demo_env) {demo_genesis, demo_cand 1, demo_cand 10}"
    using fork_hashes hash_cand [of 1] hash_cand [of 10] by (auto simp: inj_on_def demo_hash_def)
  moreover have "hash_of demo_env b \<noteq> NO_PARENT_HASH" for b
    using demo_sha_length [of "MarshalBlock b"] by (auto simp: hash_of_def GetBlockHash_def NO_PARENT_HASH_def)
  ultimately have "p_ledger p = p_ledger q" using peers_agree [OF p(1) q(1) p(2) q(2)] p(3) q(3) by (simp add: insert_commute)
  with p q fork_hashes show ?thesis by (metis)
qed

end
