(* ===== verification/NetworkProperties.thy ===== *)
theory NetworkProperties
  imports PeerProperties
begin

text \<open>
  Properties of the wire format, of the reader of a connection, of mining and of the queries.
\<close>


text \<open>The messages that survive the wire: ASCII type, identifier and sender, and a length that fits the header.\<close>

definition sendable :: "Message \<Rightarrow> bool" where
  "sendable m \<longleftrightarrow> ascii_message m \<and> length (json_marshal (message_json m)) + 1 < 2 ^ 32"

section \<open>The wire\<close>

text \<open>
  A block that a peer broadcasts arrives as it was: the receiver reads exactly the frame that was written, leaves what
  follows, and decodes the same block from it.
\<close>

theorem broadcast_block_arrives:
  assumes "plain_block b" and "sendable ((block_message E p b)\<lparr>msg_From := p_id p\<rparr>)"
  shows "readMessage (writeMessage ((block_message E p b)\<lparr>msg_From := p_id p\<rparr>) @ rest) =
      Some ((block_message E p b)\<lparr>msg_From := p_id p\<rparr>, rest) \<and>
    unmarshal block_step Block_zero (payload_bytes ((block_message E p b)\<lparr>msg_From := p_id p\<rparr>)) = Some b"
  using assms read_write_message block_roundtrip by (simp add: sendable_def block_message_def payload_bytes_def)

text \<open>The empty block of a peer on port 1, with a hash function that gives nothing.\<close>

definition demo_frame :: Message where
  "demo_frame = block_message (demo_env\<lparr>sha256 := (\<lambda>_. [])\<rparr>) (NewPeer 1) Block_zero"

lemma demo_sendable: "sendable (demo_frame\<lparr>msg_From := p_id (NewPeer 1)\<rparr>)"
proof -
  have "demo_frame\<lparr>msg_From := p_id (NewPeer 1)\<rparr> = \<lparr>msg_Type = BLOCK_MESSAGE_TYPE, msg_MsgID = [], msg_From = ''1'',
      msg_Payload = Some (json_marshal (block_json Block_zero))\<rparr>"
    by (simp add: demo_frame_def block_message_def GetBlockHash_def NewPeer_def) code_simp
  moreover have "ascii_message \<lparr>msg_Type = BLOCK_MESSAGE_TYPE, msg_MsgID = [], msg_From = ''1'',
      msg_Payload = Some (json_marshal (block_json Block_zero))\<rparr>" by code_simp
  moreover have "length (json_marshal (message_json \<lparr>msg_Type = BLOCK_MESSAGE_TYPE, msg_MsgID = [], msg_From = ''1'',
      msg_Payload = Some (json_marshal (block_json Block_zero))\<rparr>)) < 500" by code_simp
  ultimately show ?thesis by (simp add: sendable_def)
qed

theorem broadcast_block_arrives_witness:
  "readMessage (writeMessage (demo_frame\<lparr>msg_From := p_id (NewPeer 1)\<rparr>) @ ''next'') =
      Some (demo_frame\<lparr>msg_From := p_id (NewPeer 1)\<rparr>, ''next'') \<and>
    unmarshal block_step Block_zero (payload_bytes (demo_frame\<lparr>msg_From := p_id (NewPeer 1)\<rparr>)) = Some Block_zero"
  unfolding demo_frame_def
  by (rule broadcast_block_arrives) (use demo_sendable in \<open>simp_all add: demo_frame_def plain_block_def Block_zero_def in_i64_def\<close>)



section \<open>Addresses\<close>

lemma seen_addresses_spec:
  "fmlookup (seen_addresses as seen) i =
     (let us = filter (\<lambda>a. usable_address a \<and> adr_ID a = i) as in if us = [] then fmlookup seen i else Some (last us))"
  by (induction as arbitrary: seen) (auto simp: Let_def)

text \<open>
  The address list a peer exchanges has one usable entry per identifier, sorted by it: the last one that was given.
\<close>

theorem peer_addresses_unique:
  "sorted (map adr_ID (uniquePeerAddresses as)) \<and> distinct (map adr_ID (uniquePeerAddresses as)) \<and>
   (\<forall>a. a \<in> set (uniquePeerAddresses as) \<longleftrightarrow>
      (\<exists>us. filter (\<lambda>b. usable_address b \<and> adr_ID b = adr_ID a) as = us @ [a]))"
proof -
  let ?seen = "seen_addresses as fmempty"
  have key: "adr_ID (mget PeerAddress_zero ?seen i) = i" if "i \<in> fset (fmdom ?seen)" for i
  proof -
    from that obtain a where a: "fmlookup ?seen i = Some a" by (metis fmdomE)
    then have "filter (\<lambda>a. usable_address a \<and> adr_ID a = i) as \<noteq> []" "a = last (filter (\<lambda>a. usable_address a \<and> adr_ID a = i) as)"
      by (auto simp: seen_addresses_spec Let_def split: if_splits)
    then have "a \<in> set (filter (\<lambda>a. usable_address a \<and> adr_ID a = i) as)" by (metis last_in_set)
    with a show ?thesis by (simp add: mget_def)
  qed
  have ids: "map adr_ID (uniquePeerAddresses as) = mkeys ?seen"
    by (auto simp: uniquePeerAddresses_def Let_def intro!: map_idI key)
  have "a \<in> set (uniquePeerAddresses as) \<longleftrightarrow> fmlookup ?seen (adr_ID a) = Some a" for a
  proof
    assume "a \<in> set (uniquePeerAddresses as)"
    then obtain i b where i: "fmlookup ?seen i = Some b" "a = mget PeerAddress_zero ?seen i"
      by (auto simp: uniquePeerAddresses_def Let_def elim: fmdomE)
    with key [OF fmdomI [OF i(1)]] show "fmlookup ?seen (adr_ID a) = Some a" by (simp add: mget_def)
  next
    assume "fmlookup ?seen (adr_ID a) = Some a"
    then show "a \<in> set (uniquePeerAddresses as)"
      by (auto simp: uniquePeerAddresses_def Let_def mget_def intro!: image_eqI [of _ _ "adr_ID a"] fmdomI)
  qed
  moreover have "fmlookup ?seen (adr_ID a) = Some a \<longleftrightarrow> (\<exists>us. filter (\<lambda>b. usable_address b \<and> adr_ID b = adr_ID a) as = us @ [a])" for a
    by (cases "filter (\<lambda>b. usable_address b \<and> adr_ID b = adr_ID a) as" rule: rev_cases) (auto simp: seen_addresses_spec Let_def)
  ultimately show ?thesis unfolding ids by (simp add: mkeys_def sorted_list_of_fset.rep_eq)
qed

end
