(* ===== verification/Bootstrap.thy ===== *)
theory Bootstrap
  imports PeerState
begin

text \<open>
  The bootstrap manifest (\<open>bootstrap_manifest.go\<close>): the registry of the peers it lists, and how
  lists of addresses are merged.

  The HTTP client and the JSON decoder of the manifest (which has floating-point members) are outside the
  model: the answer to a GET request is an argument, either an error or a status code and a body that decodes
  to a manifest or not. A \<open>float64\<close> is its bit pattern, since the code only copies it. The registry
  is never nil here: \<open>runNode\<close> creates it.
\<close>

type_synonym float64 = "64 word"

record BootstrapPeerStatus =
  bps_ID :: string
  bps_Label :: string
  bps_Host :: string
  bps_Port :: int
  bps_Version :: string
  bps_Status :: string
  bps_AgeDays :: int
  bps_ExternalObservers :: int
  bps_Grandfathered :: bool
  bps_VettingUptime :: float64
  bps_UptimeRatio365d :: float64

record BootstrapPolicy =
  pol_VettingDays :: int
  pol_VettingMinimumUptime :: float64
  pol_BootstrapMaturityDays :: int
  pol_EligibilityWindowDays :: int
  pol_MinimumUptimeRatio :: float64
  pol_MinimumExternalObservers :: int

record BootstrapNetwork =
  net_Name :: string
  net_BootstrapManifestURL :: string
  net_BootstrapRefreshIntervalHours :: int

record BootstrapEVM =
  bevm_ChainID :: int
  bevm_NetworkID :: string

record BootstrapJoinTarget =
  join_Host :: string
  join_Port :: int

record BootstrapDefaults =
  def_FallbackPeers :: "string list"
  def_DefaultJoinPeer :: BootstrapJoinTarget

record bootstrapManifest =
  man_SchemaVersion :: int
  man_GeneratedAt :: string
  man_ValidForHours :: int
  man_Network :: BootstrapNetwork
  man_EVM :: BootstrapEVM
  man_Bootstrap :: BootstrapDefaults
  man_Policy :: BootstrapPolicy
  man_Peers :: "BootstrapPeerStatus list"
  man_Candidates :: "BootstrapPeerStatus list"
  man_FallbackPeers :: "string list"

record BootstrapRegistryStatus =
  rs_ManifestURL :: string
  rs_LastRefreshAt :: string
  rs_LastError :: string
  rs_Network :: BootstrapNetwork
  rs_EVM :: BootstrapEVM
  rs_Bootstrap :: BootstrapDefaults
  rs_Policy :: BootstrapPolicy
  rs_Peers :: "BootstrapPeerStatus list"
  rs_Candidates :: "BootstrapPeerStatus list"
  rs_FallbackPeers :: "string list"

text \<open>The interval is a \<open>time.Duration\<close>, a number of nanoseconds.\<close>

record BootstrapRegistry =
  reg_url :: string
  reg_refreshInterval :: int
  reg_status :: BootstrapRegistryStatus

definition BootstrapNetwork_zero :: BootstrapNetwork where
  "BootstrapNetwork_zero = \<lparr>net_Name = [], net_BootstrapManifestURL = [], net_BootstrapRefreshIntervalHours = 0\<rparr>"

definition BootstrapEVM_zero :: BootstrapEVM where
  "BootstrapEVM_zero = \<lparr>bevm_ChainID = 0, bevm_NetworkID = []\<rparr>"

definition BootstrapDefaults_zero :: BootstrapDefaults where
  "BootstrapDefaults_zero = \<lparr>def_FallbackPeers = [], def_DefaultJoinPeer = \<lparr>join_Host = [], join_Port = 0\<rparr>\<rparr>"

definition BootstrapPolicy_zero :: BootstrapPolicy where
  "BootstrapPolicy_zero = \<lparr>pol_VettingDays = 0, pol_VettingMinimumUptime = 0, pol_BootstrapMaturityDays = 0,
     pol_EligibilityWindowDays = 0, pol_MinimumUptimeRatio = 0, pol_MinimumExternalObservers = 0\<rparr>"

definition bootstrapManifest_zero :: bootstrapManifest where
  "bootstrapManifest_zero = \<lparr>man_SchemaVersion = 0, man_GeneratedAt = [], man_ValidForHours = 0, man_Network = BootstrapNetwork_zero,
     man_EVM = BootstrapEVM_zero, man_Bootstrap = BootstrapDefaults_zero, man_Policy = BootstrapPolicy_zero, man_Peers = [],
     man_Candidates = [], man_FallbackPeers = []\<rparr>"

section \<open>Addresses\<close>

definition peerAddressStrings :: "PeerAddress list \<Rightarrow> string list" where
  "peerAddressStrings addresses = map (\<lambda>a. adr_Host a @ '':'' @ Itoa (adr_Port a))
     (filter (\<lambda>a. adr_Host a \<noteq> [] \<and> adr_Port a > 0) addresses)"

definition bootstrapStatusesToAddresses :: "'a ethlib_scheme \<Rightarrow> BootstrapPeerStatus list \<Rightarrow> PeerAddress list" where
  "bootstrapStatusesToAddresses E peers =
     map (\<lambda>p. \<lparr>adr_ID = peerID E (bps_Host p) (bps_Port p), adr_Host = bps_Host p, adr_Port = bps_Port p\<rparr>)
       (filter (\<lambda>p. bps_Host p \<noteq> [] \<and> bps_Port p > 0) peers)"

definition manifestFallbackPeers :: "bootstrapManifest \<Rightarrow> string list" where
  "manifestFallbackPeers manifest =
     (if length (def_FallbackPeers (man_Bootstrap manifest)) > 0 then def_FallbackPeers (man_Bootstrap manifest)
      else man_FallbackPeers manifest)"

fun merge_seen :: "'a ethlib_scheme \<Rightarrow> PeerAddress list \<Rightarrow> (string, PeerAddress) gomap \<Rightarrow> (string, PeerAddress) gomap" where
  "merge_seen E [] seen = seen"
| "merge_seen E (a # as) seen =
     (if adr_Host a = [] \<or> adr_Port a \<le> 0 then merge_seen E as seen
      else merge_seen E as (fmupd (adr_Host a @ '':'' @ Itoa (adr_Port a)) (a\<lparr>adr_ID := peerID E (adr_Host a) (adr_Port a)\<rparr>) seen))"

text \<open>The order of the result is the order in which the map is visited.\<close>

definition mergeBootstrapPeers ::
    "'a ethlib_scheme \<Rightarrow> ((string, PeerAddress) gomap \<Rightarrow> string list) \<Rightarrow> PeerAddress list list \<Rightarrow> PeerAddress list" where
  "mergeBootstrapPeers E order groups =
     (let seen = merge_seen E (concat groups) fmempty in map (mget PeerAddress_zero seen) (order seen))"

definition is_self :: "string \<Rightarrow> int \<Rightarrow> PeerAddress \<Rightarrow> bool" where
  "is_self advertiseHost listenPort a \<longleftrightarrow>
     (let selfHost = ToLower (TrimSpace advertiseHost); host = ToLower (TrimSpace (adr_Host a))
      in adr_Port a = listenPort \<and> (host = selfHost \<or> host = ''127.0.0.1'' \<or> host = ''localhost''))"

definition filterSelfBootstrapPeers :: "PeerAddress list \<Rightarrow> string \<Rightarrow> int \<Rightarrow> PeerAddress list" where
  "filterSelfBootstrapPeers addresses advertiseHost listenPort = filter (\<lambda>a. \<not> is_self advertiseHost listenPort a) addresses"

section \<open>The registry\<close>

definition NewBootstrapRegistry :: "string \<Rightarrow> int \<Rightarrow> PeerAddress list \<Rightarrow> BootstrapRegistry" where
  "NewBootstrapRegistry url refreshHours fallback =
     (let refreshHours = (if refreshHours \<le> 0 then 24 else refreshHours) in
      \<lparr>reg_url = url, reg_refreshInterval = i64 (refreshHours * 3600000000000),
       reg_status = \<lparr>rs_ManifestURL = url, rs_LastRefreshAt = [], rs_LastError = [], rs_Network = BootstrapNetwork_zero,
         rs_EVM = BootstrapEVM_zero, rs_Bootstrap = BootstrapDefaults_zero, rs_Policy = BootstrapPolicy_zero, rs_Peers = [],
         rs_Candidates = [], rs_FallbackPeers = peerAddressStrings fallback\<rparr>\<rparr>)"

text \<open>The answer to a GET: an error, or a status and what the body decodes to.\<close>

type_synonym http_answer = "string + (int \<times> (string + bootstrapManifest))"

definition get_manifest :: "http_answer \<Rightarrow> string + bootstrapManifest" where
  "get_manifest answer = (case answer of
      Inl err \<Rightarrow> Inl err
    | Inr (code, body) \<Rightarrow> if code < 200 \<or> code \<ge> 300 then Inl (''manifest returned HTTP '' @ Itoa code) else body)"

definition FetchBootstrapManifestDefaults :: "http_answer \<Rightarrow> string \<Rightarrow> string + bootstrapManifest" where
  "FetchBootstrapManifestDefaults answer url = (if TrimSpace url = [] then Inr bootstrapManifest_zero else get_manifest answer)"

definition fetch :: "http_answer \<Rightarrow> BootstrapRegistry \<Rightarrow> BootstrapRegistry \<times> (string + BootstrapPeerStatus list)" where
  "fetch answer r =
     (if reg_url r = [] then (r, Inr [])
      else case get_manifest answer of
          Inl err \<Rightarrow> (r, Inl err)
        | Inr manifest \<Rightarrow>
            (r\<lparr>reg_status := (reg_status r)\<lparr>rs_Network := man_Network manifest, rs_EVM := man_EVM manifest,
                 rs_Bootstrap := man_Bootstrap manifest, rs_Policy := man_Policy manifest,
                 rs_Candidates := man_Candidates manifest, rs_FallbackPeers := manifestFallbackPeers manifest\<rparr>\<rparr>,
             Inr (man_Peers manifest)))"

text \<open>The time is the text that \<open>time.Format\<close> gives.\<close>

definition Peers :: "'a ethlib_scheme \<Rightarrow> http_answer \<Rightarrow> string \<Rightarrow> BootstrapRegistry \<Rightarrow> BootstrapRegistry \<times> PeerAddress list" where
  "Peers E answer now r = (case fetch answer r of
      (r, Inl err) \<Rightarrow> (r\<lparr>reg_status := (reg_status r)\<lparr>rs_LastError := err\<rparr>\<rparr>, [])
    | (r, Inr peers) \<Rightarrow>
        (r\<lparr>reg_status := (reg_status r)\<lparr>rs_LastError := [], rs_LastRefreshAt := now, rs_Peers := peers\<rparr>\<rparr>,
         bootstrapStatusesToAddresses E peers))"

definition CachedPeers :: "'a ethlib_scheme \<Rightarrow> BootstrapRegistry \<Rightarrow> PeerAddress list" where
  "CachedPeers E r = bootstrapStatusesToAddresses E (rs_Peers (reg_status r))"

definition Status :: "BootstrapRegistry \<Rightarrow> BootstrapRegistryStatus" where
  "Status r = reg_status r"

section \<open>Merged addresses\<close>

lemma split_last_colon:
  assumes "CHR '':'' \<notin> set s" and "CHR '':'' \<notin> set t" and "h @ CHR '':'' # s = k @ CHR '':'' # t"
  shows "h = k \<and> s = t"
  using assms(3)
proof (induction h arbitrary: k)
  case Nil
  with assms(1,2) show ?case by (cases k) auto
next
  case (Cons c h)
  with assms(1,2) show ?case by (cases k) auto
qed

lemma Itoa_no_colon [simp]: "CHR '':'' \<notin> set (Itoa i)"
proof -
  have "CHR '':'' \<notin> set (nat_digits n)" for n
    using nat_digits_all [of n] by (auto simp: list_all_iff is_digit_def)
  then show ?thesis by (simp add: Itoa_def)
qed

lemma host_port_inj: "h @ '':'' @ Itoa p = k @ '':'' @ Itoa q \<longleftrightarrow> h = k \<and> p = q"
  using split_last_colon [of "Itoa p" "Itoa q" h k] by auto

definition listed :: "'a ethlib_scheme \<Rightarrow> string \<Rightarrow> int \<Rightarrow> PeerAddress" where
  "listed E h p = \<lparr>adr_ID = peerID E h p, adr_Host = h, adr_Port = p\<rparr>"

definition host_key :: "PeerAddress \<Rightarrow> string" where
  "host_key a = adr_Host a @ '':'' @ Itoa (adr_Port a)"

lemma host_key_inj: "host_key a = host_key b \<longleftrightarrow> adr_Host a = adr_Host b \<and> adr_Port a = adr_Port b"
  unfolding host_key_def by (rule host_port_inj)

lemma merge_seen_lookup:
  "fmlookup (merge_seen E as seen) k = Some a \<longleftrightarrow>
     (\<exists>b \<in> set as. adr_Host b \<noteq> [] \<and> 0 < adr_Port b \<and> k = host_key b \<and> a = listed E (adr_Host b) (adr_Port b)) \<or>
     fmlookup seen k = Some a \<and> \<not> (\<exists>b \<in> set as. adr_Host b \<noteq> [] \<and> 0 < adr_Port b \<and> k = host_key b)"
proof (induction as arbitrary: seen)
  case (Cons b as)
  show ?case
  proof (cases "adr_Host b = [] \<or> adr_Port b \<le> 0")
    case True
    then show ?thesis using Cons.IH by auto
  next
    case False
    have "b\<lparr>adr_ID := peerID E (adr_Host b) (adr_Port b)\<rparr> = listed E (adr_Host b) (adr_Port b)" by (simp add: listed_def)
    then have step: "merge_seen E (b # as) seen = merge_seen E as (fmupd (host_key b) (listed E (adr_Host b) (adr_Port b)) seen)"
      using False by (simp add: host_key_def)
    show ?thesis unfolding step Cons.IH using False by (auto simp: host_key_inj)
  qed
qed simp

end
