(* ===== verification/Config.thy ===== *)
theory Config
  imports Bootstrap
begin

text \<open>
  The configuration of a node (\<open>runtime_config.go\<close>). The environment of the process is a
  function from names to texts, with the empty text for a variable that is not set.
\<close>

type_synonym environ = "string \<Rightarrow> string"

record NodeConfig =
  RunMode :: string
  ListenPort :: int
  AdvertiseHost :: string
  JoinHost :: string
  JoinPort :: int
  BootstrapPeers :: "PeerAddress list"
  BootstrapManifestURL :: string
  BootstrapRefreshHours :: int
  OpsAddr :: string
  AdminToken :: string
  RewardPayoutAddress :: string
  ReservedSupplyAddresses :: "string list"
  SlotSeconds :: int
  IdleSlotInterval :: int
  BaseMineAttemptsPerTick :: int
  MaxMineAttemptsPerTick :: int
  MineAttemptsPerPendingTx :: int
  cfg_DynamicHardnessForkHeight :: int
  cfg_DynamicHardnessMin :: int
  cfg_DynamicHardnessMax :: int
  cfg_DynamicHardnessWindow :: int
  cfg_FastBlockTargetSlots :: int
  cfg_IdleBlockTargetSlots :: int
  GenesisHardness :: int
  GenesisSeed :: int
  InitialBalance :: int
  StateDir :: string
  StateSaveIntervalSeconds :: int
  ReconnectIntervalSeconds :: int
  FinalityDepth :: int
  EVMChainID :: int
  EVMNetworkID :: string
  EVMGenesisAlloc :: "(string, int) gomap"

section \<open>Variables\<close>

definition envOrDefault :: "environ \<Rightarrow> string \<Rightarrow> string \<Rightarrow> string" where
  "envOrDefault getenv key fallback = (let v = TrimSpace (getenv key) in if v = [] then fallback else v)"

definition csv_values :: "string \<Rightarrow> string list" where
  "csv_values raw = filter (\<lambda>v. v \<noteq> []) (map (\<lambda>item. ToLower (TrimSpace item)) (Split raw CHR '',''))"

definition envCSVOrDefault :: "environ \<Rightarrow> string \<Rightarrow> string list \<Rightarrow> string list" where
  "envCSVOrDefault getenv key fallback =
     (let raw = TrimSpace (getenv key) in
      if raw = [] then fallback
      else let values = csv_values raw in if length values = 0 then fallback else values)"

definition envIntOrDefault :: "environ \<Rightarrow> string \<Rightarrow> int \<Rightarrow> int" where
  "envIntOrDefault getenv key fallback =
     (let raw = TrimSpace (getenv key) in
      if raw = [] then fallback else case Atoi raw of None \<Rightarrow> fallback | Some v \<Rightarrow> v)"

definition envInt64OrDefault :: "environ \<Rightarrow> string \<Rightarrow> int \<Rightarrow> int" where
  "envInt64OrDefault getenv key fallback =
     (let raw = TrimSpace (getenv key) in
      if raw = [] then fallback else case ParseInt raw of None \<Rightarrow> fallback | Some v \<Rightarrow> v)"

text \<open>\<open>strings.SplitN\<close> with the limit 2: the texts before and after the first separator.\<close>

definition SplitN2 :: "string \<Rightarrow> char \<Rightarrow> string list" where
  "SplitN2 s sep = (if sep \<in> set s then [takeWhile (\<lambda>c. c \<noteq> sep) s, tl (dropWhile (\<lambda>c. c \<noteq> sep) s)] else [s])"

fun alloc_entries :: "string list \<Rightarrow> (string, int) gomap \<Rightarrow> (string, int) gomap" where
  "alloc_entries [] alloc = alloc"
| "alloc_entries (entry # entries) alloc = (case SplitN2 (TrimSpace entry) CHR '':'' of
      [a, n] \<Rightarrow>
        (let address = ToLower (TrimSpace a) in
         case Atoi (TrimSpace n) of
           None \<Rightarrow> alloc_entries entries alloc
         | Some amount \<Rightarrow>
             (if address = [] \<or> amount < 0 then alloc_entries entries alloc
              else alloc_entries entries (fmupd address amount alloc)))
    | _ \<Rightarrow> alloc_entries entries alloc)"

definition envAllocOrDefault :: "environ \<Rightarrow> string \<Rightarrow> (string, int) gomap \<Rightarrow> (string, int) gomap" where
  "envAllocOrDefault getenv key fallback =
     (let raw = TrimSpace (getenv key) in if raw = [] then fallback else alloc_entries (Split raw CHR '','') fmempty)"

section \<open>Addresses\<close>

text \<open>\<open>strings.Trim\<close> of brackets.\<close>

definition trim_brackets :: "string \<Rightarrow> string" where
  "trim_brackets s =
     (let bracket = (\<lambda>c. c = CHR ''['' \<or> c = CHR '']'') in rev (dropWhile bracket (rev (dropWhile bracket s))))"

definition splitHostPortLenient :: "string \<Rightarrow> (string \<times> string) option" where
  "splitHostPortLenient v =
     (let parts = Split v CHR '':'' in
      if length parts < 2 then None
      else let port = last parts; host = trim_brackets (Join (butlast parts) '':'') in
        if TrimSpace host = [] \<or> TrimSpace port = [] then None else Some (TrimSpace host, TrimSpace port))"

fun bootstrap_entries :: "string list \<Rightarrow> PeerAddress list" where
  "bootstrap_entries [] = []"
| "bootstrap_entries (entry # entries) =
     (let entry = TrimSpace entry in
      if entry = [] then bootstrap_entries entries
      else case splitHostPortLenient entry of
          None \<Rightarrow> bootstrap_entries entries
        | Some (host, portText) \<Rightarrow> (case Atoi portText of
            None \<Rightarrow> bootstrap_entries entries
          | Some port \<Rightarrow>
              (if port \<le> 0 then bootstrap_entries entries
               else \<lparr>adr_ID = Itoa port, adr_Host = host, adr_Port = port\<rparr> # bootstrap_entries entries)))"

definition parseBootstrapPeers :: "string \<Rightarrow> PeerAddress list" where
  "parseBootstrapPeers raw = (if TrimSpace raw = [] then [] else bootstrap_entries (Split raw CHR '',''))"

definition envBootstrapPeersOrDefaultWithFallback ::
    "environ \<Rightarrow> string \<Rightarrow> string \<Rightarrow> int \<Rightarrow> PeerAddress list \<Rightarrow> PeerAddress list" where
  "envBootstrapPeersOrDefaultWithFallback getenv key joinHost joinPort fallback =
     (let peers = parseBootstrapPeers (TrimSpace (getenv key)) in
      if length peers > 0 then peers
      else if length fallback > 0 then fallback
      else if joinPort > 0 \<and> TrimSpace joinHost \<noteq> []
      then [\<lparr>adr_ID = Itoa joinPort, adr_Host = TrimSpace joinHost, adr_Port = joinPort\<rparr>]
      else [])"

definition envBootstrapPeersOrDefault :: "environ \<Rightarrow> string \<Rightarrow> string \<Rightarrow> int \<Rightarrow> PeerAddress list" where
  "envBootstrapPeersOrDefault getenv key joinHost joinPort = envBootstrapPeersOrDefaultWithFallback getenv key joinHost joinPort []"

section \<open>The configuration\<close>

text \<open>The tests in the order of the code; the first that holds is the error.\<close>

definition config_errors :: "NodeConfig \<Rightarrow> (bool \<times> string) list" where
  "config_errors cfg =
    [(ListenPort cfg \<le> 0, ''POKOINPOS_LISTEN_PORT must be > 0''),
     (TrimSpace (AdvertiseHost cfg) = [], ''POKOINPOS_ADVERTISE_HOST must not be empty''),
     (SlotSeconds cfg \<le> 0, ''POKOINPOS_SLOT_SECONDS must be > 0''),
     (IdleSlotInterval cfg < 0, ''POKOINPOS_IDLE_SLOT_INTERVAL must be >= 0''),
     (BaseMineAttemptsPerTick cfg \<le> 0, ''POKOINPOS_BASE_MINE_ATTEMPTS_PER_TICK must be > 0''),
     (MaxMineAttemptsPerTick cfg \<le> 0, ''POKOINPOS_MAX_MINE_ATTEMPTS_PER_TICK must be > 0''),
     (MineAttemptsPerPendingTx cfg < 0, ''POKOINPOS_MINE_ATTEMPTS_PER_PENDING_TX must be >= 0''),
     (cfg_DynamicHardnessForkHeight cfg < 0, ''POKOINPOS_DYNAMIC_HARDNESS_FORK_HEIGHT must be >= 0''),
     (cfg_DynamicHardnessMin cfg \<le> 0, ''POKOINPOS_DYNAMIC_HARDNESS_MIN must be > 0''),
     (cfg_DynamicHardnessMax cfg < cfg_DynamicHardnessMin cfg,
        ''POKOINPOS_DYNAMIC_HARDNESS_MAX must be >= POKOINPOS_DYNAMIC_HARDNESS_MIN''),
     (cfg_DynamicHardnessWindow cfg \<le> 0, ''POKOINPOS_DYNAMIC_HARDNESS_WINDOW must be > 0''),
     (cfg_FastBlockTargetSlots cfg \<le> 0, ''POKOINPOS_FAST_BLOCK_TARGET_SLOTS must be > 0''),
     (cfg_IdleBlockTargetSlots cfg \<le> 0, ''POKOINPOS_IDLE_BLOCK_TARGET_SLOTS must be > 0''),
     (\<not> HasPrefix (OpsAddr cfg) '':'' \<and> CHR '':'' \<notin> set (OpsAddr cfg), ''POKOINPOS_OPS_ADDR must be host:port or :port''),
     (RewardPayoutAddress cfg \<noteq> [] \<and> (\<not> HasPrefix (RewardPayoutAddress cfg) ''0x'' \<or> length (RewardPayoutAddress cfg) \<noteq> 42),
        ''POKOINPOS_REWARD_PAYOUT_ADDRESS must be an EVM 0x address''),
     (StateSaveIntervalSeconds cfg \<le> 0, ''POKOINPOS_STATE_SAVE_INTERVAL_SECONDS must be > 0''),
     (ReconnectIntervalSeconds cfg \<le> 0, ''POKOINPOS_RECONNECT_INTERVAL_SECONDS must be > 0''),
     (BootstrapRefreshHours cfg \<le> 0, ''POKOINPOS_BOOTSTRAP_REFRESH_INTERVAL_HOURS must be > 0''),
     (FinalityDepth cfg < 0, ''POKOINPOS_FINALITY_DEPTH must be >= 0''),
     (EVMChainID cfg \<le> 0, ''POKOINPOS_EVM_CHAIN_ID must be > 0''),
     (TrimSpace (EVMNetworkID cfg) = [], ''POKOINPOS_EVM_NETWORK_ID must not be empty'')]"

definition config_error :: "NodeConfig \<Rightarrow> string option" where
  "config_error cfg = map_option snd (List.find fst (config_errors cfg))"

definition default_url :: string where
  "default_url = ''https://pokoin.com/bootstrap-peers.json''"

text \<open>The manifest is fetched only when its address is set; without an answer it is the zero value.\<close>

definition manifest_defaults :: "environ \<Rightarrow> http_answer \<Rightarrow> bootstrapManifest" where
  "manifest_defaults getenv answer =
     (if TrimSpace (getenv ''POKOINPOS_BOOTSTRAP_MANIFEST_URL'') = [] then bootstrapManifest_zero
      else case FetchBootstrapManifestDefaults answer (envOrDefault getenv ''POKOINPOS_BOOTSTRAP_MANIFEST_URL'' default_url) of
          Inl _ \<Rightarrow> bootstrapManifest_zero
        | Inr manifest \<Rightarrow> manifest)"

definition node_config :: "environ \<Rightarrow> bootstrapManifest \<Rightarrow> NodeConfig" where
  "node_config getenv manifest =
     (let target = def_DefaultJoinPeer (man_Bootstrap manifest);
          (defaultJoinHost, defaultJoinPort) =
            (if join_Host target \<noteq> [] \<and> join_Port target > 0 then (join_Host target, join_Port target) else (''127.0.0.1'', -1));
          defaultBootstrapPeers = parseBootstrapPeers (Join (manifestFallbackPeers manifest) '','');
          hours = net_BootstrapRefreshIntervalHours (man_Network manifest);
          chainID = bevm_ChainID (man_EVM manifest);
          networkID = TrimSpace (bevm_NetworkID (man_EVM manifest));
          joinHost = envOrDefault getenv ''POKOINPOS_JOIN_HOST'' defaultJoinHost;
          joinPort = envIntOrDefault getenv ''POKOINPOS_JOIN_PORT'' defaultJoinPort
      in \<lparr>RunMode = envOrDefault getenv ''POKOINPOS_RUN_MODE'' ''demo'',
          ListenPort = envIntOrDefault getenv ''POKOINPOS_LISTEN_PORT'' 43000,
          AdvertiseHost = envOrDefault getenv ''POKOINPOS_ADVERTISE_HOST'' joinHost,
          JoinHost = joinHost,
          JoinPort = joinPort,
          BootstrapPeers = envBootstrapPeersOrDefaultWithFallback getenv ''POKOINPOS_BOOTSTRAP_PEERS'' joinHost joinPort
            defaultBootstrapPeers,
          BootstrapManifestURL = envOrDefault getenv ''POKOINPOS_BOOTSTRAP_MANIFEST_URL'' default_url,
          BootstrapRefreshHours = envIntOrDefault getenv ''POKOINPOS_BOOTSTRAP_REFRESH_INTERVAL_HOURS'' (if hours \<le> 0 then 24 else hours),
          OpsAddr = envOrDefault getenv ''POKOINPOS_OPS_ADDR'' '':8080'',
          AdminToken = envOrDefault getenv ''POKOINPOS_OPERATOR_TOKEN'' (envOrDefault getenv ''POKOINPOS_ADMIN_TOKEN'' []),
          RewardPayoutAddress = ToLower (envOrDefault getenv ''POKOINPOS_REWARD_PAYOUT_ADDRESS'' []),
          ReservedSupplyAddresses = envCSVOrDefault getenv ''POKOINPOS_RESERVED_SUPPLY_ADDRESSES''
            [''0x74466c3a204429b22ce8558f3f18f3c59f67fcb3''],
          SlotSeconds = envIntOrDefault getenv ''POKOINPOS_SLOT_SECONDS'' 1,
          IdleSlotInterval = envIntOrDefault getenv ''POKOINPOS_IDLE_SLOT_INTERVAL'' 300,
          BaseMineAttemptsPerTick = envIntOrDefault getenv ''POKOINPOS_BASE_MINE_ATTEMPTS_PER_TICK'' 1,
          MaxMineAttemptsPerTick = envIntOrDefault getenv ''POKOINPOS_MAX_MINE_ATTEMPTS_PER_TICK''
            (envIntOrDefault getenv ''POKOINPOS_MINE_ATTEMPTS_PER_TICK'' 5),
          MineAttemptsPerPendingTx = envIntOrDefault getenv ''POKOINPOS_MINE_ATTEMPTS_PER_PENDING_TX'' 1,
          cfg_DynamicHardnessForkHeight = envIntOrDefault getenv ''POKOINPOS_DYNAMIC_HARDNESS_FORK_HEIGHT'' 0,
          cfg_DynamicHardnessMin = envIntOrDefault getenv ''POKOINPOS_DYNAMIC_HARDNESS_MIN'' 100,
          cfg_DynamicHardnessMax = envIntOrDefault getenv ''POKOINPOS_DYNAMIC_HARDNESS_MAX'' 10000000,
          cfg_DynamicHardnessWindow = envIntOrDefault getenv ''POKOINPOS_DYNAMIC_HARDNESS_WINDOW'' 32,
          cfg_FastBlockTargetSlots = envIntOrDefault getenv ''POKOINPOS_FAST_BLOCK_TARGET_SLOTS'' 2,
          cfg_IdleBlockTargetSlots = envIntOrDefault getenv ''POKOINPOS_IDLE_BLOCK_TARGET_SLOTS'' 20,
          GenesisHardness = envIntOrDefault getenv ''POKOINPOS_GENESIS_HARDNESS'' 10000,
          GenesisSeed = envIntOrDefault getenv ''POKOINPOS_GENESIS_SEED'' 42,
          InitialBalance = envIntOrDefault getenv ''POKOINPOS_INITIAL_BALANCE'' 1000000,
          StateDir = envOrDefault getenv ''POKOINPOS_STATE_DIR'' ''/data'',
          StateSaveIntervalSeconds = envIntOrDefault getenv ''POKOINPOS_STATE_SAVE_INTERVAL_SECONDS'' 15,
          ReconnectIntervalSeconds = envIntOrDefault getenv ''POKOINPOS_RECONNECT_INTERVAL_SECONDS'' 5,
          FinalityDepth = envIntOrDefault getenv ''POKOINPOS_FINALITY_DEPTH'' 1,
          EVMChainID = envInt64OrDefault getenv ''POKOINPOS_EVM_CHAIN_ID'' (if chainID \<le> 0 then 26062026 else chainID),
          EVMNetworkID = envOrDefault getenv ''POKOINPOS_EVM_NETWORK_ID'' (if networkID = [] then ''26062026'' else networkID),
          EVMGenesisAlloc = envAllocOrDefault getenv ''POKOINPOS_EVM_GENESIS_ALLOC'' fmempty\<rparr>)"

definition LoadNodeConfigFromEnv :: "environ \<Rightarrow> http_answer \<Rightarrow> NodeConfig \<times> string option" where
  "LoadNodeConfigFromEnv getenv answer =
     (let cfg = node_config getenv (manifest_defaults getenv answer) in (cfg, config_error cfg))"

end
