(* ===== verification/ConfigProperties.thy ===== *)
theory ConfigProperties
  imports Config Demo
begin

text \<open>
  Properties of the lists of bootstrap peers: merging is independent of the order of the map, and the
  texts that the registry publishes are read back by the configuration.
\<close>

section \<open>Merging\<close>

text \<open>
  The peers a node dials at its start, merged from the manifest and the configuration: every address with a host and a port that is not
  the node itself, once, under the identifier that its host and port have, in whatever order the map is visited.
\<close>

theorem bootstrap_peers_merged:
  assumes "\<forall>m. visits (order m) m" and "out = filterSelfBootstrapPeers (mergeBootstrapPeers E order groups) advertiseHost listenPort"
  shows "distinct (map (\<lambda>a. (adr_Host a, adr_Port a)) out) \<and>
    set out = {\<lparr>adr_ID = peerID E (adr_Host a) (adr_Port a), adr_Host = adr_Host a, adr_Port = adr_Port a\<rparr> | a.
      a \<in> set (concat groups) \<and> adr_Host a \<noteq> [] \<and> 0 < adr_Port a \<and> \<not> is_self advertiseHost listenPort a}"
proof -
  let ?seen = "merge_seen E (concat groups) fmempty"
  let ?out = "mergeBootstrapPeers E order groups"
  have ord: "distinct (order ?seen)" "set (order ?seen) = fset (fmdom ?seen)" using assms(1) by (simp_all add: visits_def)
  have key: "host_key (mget PeerAddress_zero ?seen k) = k" if "k \<in> set (order ?seen)" for k
  proof -
    from that ord(2) obtain a where a: "fmlookup ?seen k = Some a" by (metis fmdomE)
    then have "host_key a = k" by (auto simp: merge_seen_lookup listed_def host_key_def)
    with a show ?thesis by (simp add: mget_def)
  qed
  have keys: "map host_key ?out = order ?seen"
    using key by (auto simp: mergeBootstrapPeers_def Let_def intro!: map_idI)
  have "distinct (map host_key ?out)" unfolding keys by (rule ord(1))
  then have "distinct (map (\<lambda>a. (adr_Host a, adr_Port a)) ?out)"
    by (auto simp: distinct_map inj_on_def host_key_inj)
  then have "distinct (map (\<lambda>a. (adr_Host a, adr_Port a)) out)"
    unfolding assms(2) filterSelfBootstrapPeers_def by (rule distinct_map_filter)
  moreover have "set ?out = {b. \<exists>k. fmlookup ?seen k = Some b}"
    unfolding mergeBootstrapPeers_def Let_def set_map ord(2) by (force simp: mget_def elim: fmdomE intro: fmdomI)
  then have "set ?out = {listed E (adr_Host a) (adr_Port a) | a. a \<in> set (concat groups) \<and> adr_Host a \<noteq> [] \<and> 0 < adr_Port a}"
    by (auto simp: merge_seen_lookup)
  then have "set out = {listed E (adr_Host a) (adr_Port a) | a.
      a \<in> set (concat groups) \<and> adr_Host a \<noteq> [] \<and> 0 < adr_Port a \<and> \<not> is_self advertiseHost listenPort a}"
    unfolding assms(2) filterSelfBootstrapPeers_def set_filter by (auto simp: listed_def is_self_def)
  ultimately show ?thesis by (simp add: listed_def)
qed

theorem bootstrap_peers_merged_witness:
  "set (filterSelfBootstrapPeers (mergeBootstrapPeers demo_env mkeys [[\<lparr>adr_ID = ''9'', adr_Host = ''h'', adr_Port = 9\<rparr>], []]) ''h'' 8) =
     {\<lparr>adr_ID = peerID demo_env ''h'' 9, adr_Host = ''h'', adr_Port = 9\<rparr>}"
proof -
  have v: "\<forall>m :: (string, PeerAddress) gomap. visits (mkeys m) m" by simp
  show ?thesis using bootstrap_peers_merged [OF v refl, of demo_env "[[\<lparr>adr_ID = ''9'', adr_Host = ''h'', adr_Port = 9\<rparr>], []]" "''h''" 8]
    by (auto simp: is_self_def)
qed

section \<open>Texts of addresses\<close>

lemma Split_Join:
  assumes "list_all (\<lambda>w. sep \<notin> set w) ws" and "ws \<noteq> []"
  shows "Split (Join ws [sep]) sep = ws"
  using assms by (induction ws rule: induct_list012) (simp_all add: Split_no_sep Split_append)

lemma set_Join: "w \<in> set ws \<Longrightarrow> set w \<subseteq> set (Join ws sep)"
  by (induction ws rule: induct_list012) auto

lemma TrimSpace_Nil: "TrimSpace s = [] \<longleftrightarrow> (\<forall>c \<in> set s. is_space c)"
proof
  assume "TrimSpace s = []"
  then have "\<forall>c \<in> set (dropWhile is_space s). is_space c" by (simp add: TrimSpace_def)
  then have "dropWhile is_space s = []" using hd_dropWhile [of is_space s] hd_in_set by blast
  then show "\<forall>c \<in> set s. is_space c" by simp
qed (auto simp: TrimSpace_def dest: set_dropWhileD)

lemma Split_snoc: "sep \<notin> set t \<Longrightarrow> Split (s @ sep # t) sep = Split s sep @ [t]"
proof (induction s)
  case (Cons c s)
  then show ?case by (cases "Split s sep") auto
qed (simp add: Split_no_sep)

definition clean_host :: "string \<Rightarrow> bool" where
  "clean_host h \<longleftrightarrow> h \<noteq> [] \<and> trimmed h \<and> CHR '','' \<notin> set h \<and> hd h \<notin> {CHR ''['', CHR '']''} \<and> last h \<notin> {CHR ''['', CHR '']''}"

lemma trim_brackets_clean:
  assumes "clean_host h"
  shows "trim_brackets h = h"
proof -
  let ?b = "\<lambda>c. c = CHR ''['' \<or> c = CHR '']''"
  have "dropWhile ?b h = h" using assms by (cases h) (auto simp: clean_host_def)
  moreover have "dropWhile ?b (rev h) = rev h" using assms by (cases h rule: rev_cases) (auto simp: clean_host_def)
  ultimately show ?thesis by (simp add: trim_brackets_def)
qed

lemma Itoa_digits: "0 < p \<Longrightarrow> Itoa p \<noteq> [] \<and> list_all is_digit (Itoa p)"
  by (simp add: Itoa_def nat_digits_all)

lemma not_space_digit: "is_digit c \<Longrightarrow> \<not> is_space c"
  by (simp add: is_digit_def is_space_def Let_def)

lemma address_text:
  assumes "clean_host h" and "0 < p" and "in_i64 p"
  shows "trimmed (h @ CHR '':'' # Itoa p)" "splitHostPortLenient (h @ CHR '':'' # Itoa p) = Some (h, Itoa p)"
    "CHR '','' \<notin> set (h @ CHR '':'' # Itoa p)"
proof -
  have d: "is_digit c" if "c \<in> set (Itoa p)" for c using that Itoa_digits [OF assms(2)] by (auto simp: list_all_iff)
  have ends: "\<not> is_space (last (Itoa p))" "\<not> is_space (hd (Itoa p))" using d not_space_digit by auto
  then have t: "trimmed (Itoa p)" by (simp add: trimmed_def)
  from assms(1) ends show "trimmed (h @ CHR '':'' # Itoa p)" by (auto simp: trimmed_def clean_host_def)
  have "CHR '','' \<notin> set (Itoa p)" using d [of "CHR '',''"] by (auto simp: is_digit_def)
  with assms(1) show "CHR '','' \<notin> set (h @ CHR '':'' # Itoa p)" by (simp add: clean_host_def)
  have "Join (Split h CHR '':'') '':'' = h" by (rule Join_Split)
  moreover have "length (Split h CHR '':'') \<ge> 1" by (simp add: Suc_le_eq)
  ultimately show "splitHostPortLenient (h @ CHR '':'' # Itoa p) = Some (h, Itoa p)"
    using assms(1) t trim_brackets_clean [OF assms(1)] by (simp add: splitHostPortLenient_def Split_snoc clean_host_def)
qed

text \<open>
  The texts of addresses that the registry publishes, joined by commas, are what the configuration reads: the same hosts and ports in the same
  order, each under the identifier of its port, for hosts without commas, surrounding space or brackets.
\<close>

theorem bootstrap_list_roundtrip:
  assumes "list_all (\<lambda>a. clean_host (adr_Host a) \<and> 0 < adr_Port a \<and> in_i64 (adr_Port a)) as"
  shows "parseBootstrapPeers (Join (peerAddressStrings as) '','') = map (\<lambda>a. a\<lparr>adr_ID := Itoa (adr_Port a)\<rparr>) as"
proof (cases "as = []")
  case False
  let ?text = "\<lambda>a. adr_Host a @ CHR '':'' # Itoa (adr_Port a)"
  have ws: "peerAddressStrings as = map ?text as"
    using assms by (auto simp: peerAddressStrings_def list_all_iff clean_host_def intro!: filter_True)
  have "list_all (\<lambda>w. CHR '','' \<notin> set w) (map ?text as)" using assms address_text(3) by (auto simp: list_all_iff)
  then have split: "Split (Join (map ?text as) '','') CHR '','' = map ?text as" using False by (simp add: Split_Join)
  have entries: "bootstrap_entries (map ?text bs) = map (\<lambda>a. a\<lparr>adr_ID := Itoa (adr_Port a)\<rparr>) bs"
    if "list_all (\<lambda>a. clean_host (adr_Host a) \<and> 0 < adr_Port a \<and> in_i64 (adr_Port a)) bs" for bs
    using that address_text(1,2) by (induction bs) auto
  have "CHR '':'' \<in> set (Join (map ?text as) '','')"
    using set_Join [of "?text (hd as)" "map ?text as" "'',''"] False by auto
  moreover have "\<not> is_space CHR '':''" by (simp add: is_space_def)
  ultimately have "TrimSpace (Join (map ?text as) '','') \<noteq> []" by (auto simp: TrimSpace_Nil)
  then show ?thesis unfolding ws parseBootstrapPeers_def using split entries [OF assms] by simp
qed (simp add: parseBootstrapPeers_def peerAddressStrings_def TrimSpace_def)

theorem bootstrap_list_roundtrip_witness:
  "parseBootstrapPeers (Join (peerAddressStrings [\<lparr>adr_ID = ''a'', adr_Host = ''h.org'', adr_Port = 43000\<rparr>]) '','') =
     [\<lparr>adr_ID = Itoa 43000, adr_Host = ''h.org'', adr_Port = 43000\<rparr>]"
  using bootstrap_list_roundtrip [of "[\<lparr>adr_ID = ''a'', adr_Host = ''h.org'', adr_Port = 43000\<rparr>]"]
  by (simp add: clean_host_def trimmed_def is_space_def in_i64_def)

end
