(* ===== verification/JsonIndent.thy ===== *)
theory JsonIndent
  imports GoJson
begin

text \<open>
  The text that \<open>json.MarshalIndent\<close> writes with two blanks per level, and that it is read back
  as the value it was written from.
\<close>

definition newline :: "nat \<Rightarrow> string" where
  "newline d = CHR 0x0A # replicate (2 * d) CHR '' ''"

fun json_indent :: "nat \<Rightarrow> json \<Rightarrow> string"
  and indent_elems :: "nat \<Rightarrow> json list \<Rightarrow> string"
  and indent_members :: "nat \<Rightarrow> (string \<times> json) list \<Rightarrow> string" where
  "json_indent d JNull = json_marshal JNull"
| "json_indent d (JBool b) = json_marshal (JBool b)"
| "json_indent d (JNum n) = json_marshal (JNum n)"
| "json_indent d (JStr s) = json_marshal (JStr s)"
| "json_indent d (JArr vs) = (if vs = [] then ''[]'' else CHR ''['' # indent_elems (Suc d) vs @ newline d @ '']'')"
| "json_indent d (JObj ms) = (if ms = [] then ''{}'' else CHR ''{'' # indent_members (Suc d) ms @ newline d @ ''}'')"
| "indent_elems d [] = []"
| "indent_elems d (v # vs) = newline d @ json_indent d v @ (if vs = [] then [] else CHR '','' # indent_elems d vs)"
| "indent_members d [] = []"
| "indent_members d ((k, v) # ms) =
     newline d @ marshal_string k @ CHR '':'' # CHR '' '' # json_indent d v @ (if ms = [] then [] else CHR '','' # indent_members d ms)"

definition MarshalIndent :: "json \<Rightarrow> bytes" where
  "MarshalIndent v = json_indent 0 v"

section \<open>White space\<close>

lemma skip_newline [simp]: "skip_ws (newline d @ s) = skip_ws s"
proof -
  have "\<forall>c \<in> set (newline d). is_ws c" by (auto simp: newline_def is_ws_def)
  then show ?thesis by (simp add: skip_ws_def dropWhile_append2)
qed

lemma skip_blank [simp]: "skip_ws (CHR '' '' # s) = skip_ws s"
  by (simp add: skip_ws_def is_ws_def)

lemma parse_value_skip: "skip_ws s = skip_ws t \<Longrightarrow> parse_value f d s = parse_value f d t"
  by (cases f) simp_all

lemma parse_members_skip: "skip_ws s = skip_ws t \<Longrightarrow> parse_members f d s = parse_members f d t"
  by (cases f) simp_all

lemma parse_elems_skip: "skip_ws s = skip_ws t \<Longrightarrow> parse_elems f d s = parse_elems f d t"
  by (cases f) (simp_all add: parse_value_skip [of s t] del: parse_value.simps)

lemma follow_newline [simp]: "follow (newline d @ r)"
  by (simp add: newline_def)

lemma json_indent_hd:
  assumes "wf_json v"
  shows "\<exists>c t. json_indent d v = c # t \<and> \<not> is_ws c \<and> c \<noteq> CHR '']'' \<and> c \<noteq> CHR ''}''"
  using json_marshal_hd [OF assms] by (cases v) auto

section \<open>Reading it back\<close>

lemma skip_ws_idem [simp]: "skip_ws (skip_ws s) = skip_ws s"
  by (simp add: skip_ws_def)

lemma parse_indent:
  "wf_json v \<Longrightarrow> follow r \<Longrightarrow> json_need v \<le> f \<Longrightarrow> d + json_depth v \<le> max_depth \<Longrightarrow>
     parse_value f d (json_indent i v @ r) = Some (v, r)"
  "vs \<noteq> [] \<Longrightarrow> list_all wf_json vs \<Longrightarrow> sum_list (map (\<lambda>v. Suc (json_need v)) vs) \<le> f \<Longrightarrow>
     list_all (\<lambda>v. d + json_depth v \<le> max_depth) vs \<Longrightarrow>
     parse_elems f d (indent_elems i vs @ newline j @ CHR '']'' # r) = Some (vs, r)"
  "ms \<noteq> [] \<Longrightarrow> list_all (\<lambda>(k, v). ascii k \<and> wf_json v) ms \<Longrightarrow>
     sum_list (map (\<lambda>(k, v). Suc (json_need v)) ms) \<le> f \<Longrightarrow>
     list_all (\<lambda>(k, v). d + json_depth v \<le> max_depth) ms \<Longrightarrow>
     parse_members f d (indent_members i ms @ newline j @ CHR ''}'' # r) = Some (ms, r)"
proof (induction i v and i vs and i ms arbitrary: f d r and f d r j and f d r j
    rule: json_indent_indent_elems_indent_members.induct)
  case (1 i)
  then show ?case using parse_marshal(1) [of JNull] by simp
next
  case (2 i b)
  then show ?case using parse_marshal(1) [of "JBool b"] by (simp del: json_marshal.simps)
next
  case (3 i n)
  then show ?case using parse_marshal(1) [of "JNum n"] by (simp del: json_marshal.simps)
next
  case (4 i s)
  then show ?case using parse_marshal(1) [of "JStr s"] by (simp del: json_marshal.simps)
next
  case (5 i vs)
  then obtain g where f: "f = Suc g" by (cases f) auto
  show ?case
  proof (cases vs)
    case Nil
    with 5 show ?thesis by (simp add: f quote_def)
  next
    case (Cons v vs')
    with "5.prems" obtain c t where c: "json_indent (Suc i) v = c # t" "\<not> is_ws c" "c \<noteq> CHR '']''"
      using json_indent_hd [of v "Suc i"] by auto
    let ?s = "indent_elems (Suc i) vs @ newline i @ CHR '']'' # r"
    have "list_all (\<lambda>v. Suc d + json_depth v \<le> max_depth) vs"
      using "5.prems"(4) depth_elem by (fastforce simp: list_all_iff)
    then have "parse_elems g (Suc d) ?s = Some (vs, r)"
      using "5.prems" by (intro "5.IH") (auto simp: f Cons)
    then have "parse_elems g (Suc d) (skip_ws ?s) = Some (vs, r)"
      using parse_elems_skip [of "skip_ws ?s" ?s] by simp
    moreover obtain t' where "skip_ws ?s = c # t'" using c by (simp add: Cons)
    ultimately show ?thesis using "5.prems" c by (simp add: f quote_def Cons)
  qed
next
  case (6 i ms)
  then obtain g where f: "f = Suc g" by (cases f) auto
  show ?case
  proof (cases ms)
    case Nil
    with 6 show ?thesis by (simp add: f quote_def)
  next
    case (Cons m ms')
    obtain k v where m: "m = (k, v)" by (cases m)
    let ?s = "indent_members (Suc i) ms @ newline i @ CHR ''}'' # r"
    have "list_all (\<lambda>(k, v). Suc d + json_depth v \<le> max_depth) ms"
      using "6.prems"(4) depth_elem [of d "\<lambda>(k, v). json_depth v" ms max_depth]
      by (fastforce simp: list_all_iff split_beta)
    then have "parse_members g (Suc d) ?s = Some (ms, r)"
      using "6.prems" by (intro "6.IH") (auto simp: f Cons)
    then have "parse_members g (Suc d) (skip_ws ?s) = Some (ms, r)"
      using parse_members_skip [of "skip_ws ?s" ?s] by simp
    moreover obtain t' where "skip_ws ?s = quote # t'" by (simp add: Cons m marshal_string_def)
    moreover have "quote \<noteq> CHR ''}''" by (simp add: quote_def)
    ultimately show ?thesis
      using "6.prems" by (simp add: f Cons m) (simp add: quote_def)
  qed
next
  case (8 i v vs)
  then obtain g where f: "f = Suc g" by (cases f) auto
  have skip: "parse_value g d (newline i @ s) = parse_value g d s" for s by (rule parse_value_skip) simp
  show ?case
  proof (cases "vs = []")
    case True
    with 8 show ?thesis by (simp add: f skip del: parse_value.simps)
  next
    case False
    with 8 show ?thesis by (simp add: f skip del: parse_value.simps)
  qed
next
  case (10 i k v ms)
  then obtain g where f: "f = Suc g" by (cases f) auto
  have k: "ascii k" using "10.prems" by simp
  have skip: "parse_value g d (CHR '' '' # s) = parse_value g d s" for s by (rule parse_value_skip) simp
  show ?case
  proof (cases "ms = []")
    case True
    with 10 show ?thesis
      using length_escape_string [OF k] by (simp add: f marshal_string_def parse_string_escape skip del: parse_value.simps)
  next
    case False
    with 10 show ?thesis
      using length_escape_string [OF k] by (simp add: f marshal_string_def parse_string_escape skip del: parse_value.simps)
  qed
qed simp_all

lemma length_indent:
  "length (json_marshal v) \<le> length (json_indent i v)"
  "length (json_elems vs) \<le> length (indent_elems i vs)"
  "length (json_members ms) \<le> length (indent_members i ms)"
  by (induction i v and i vs and i ms rule: json_indent_indent_elems_indent_members.induct) auto

lemma parse_MarshalIndent:
  assumes "wf_json v" and "json_depth v \<le> max_depth"
  shows "json_parse (MarshalIndent v) = Some v"
proof -
  have "json_need v \<le> Suc (2 * length (json_indent 0 v))"
    using json_need_length(1) [OF assms(1)] length_indent(1) [of v 0] by linarith
  then have "parse_value (Suc (2 * length (json_indent 0 v))) 0 (json_indent 0 v @ []) = Some (v, [])"
    using assms by (intro parse_indent(1)) simp_all
  then show ?thesis by (simp add: json_parse_def MarshalIndent_def skip_ws_def)
qed

end
