(* ===== verification/NodeState.thy ===== *)
theory NodeState
  imports PeerState JsonIndent
begin

text \<open>
  The state a node keeps on disk (\<open>runtime_state.go\<close>): its JSON text, where it is kept, and how
  it is written and read. The files are a map from paths to contents. What the operating system
  may do is an argument: creating the directory may fail, a write may fail and leave any content behind,
  and the renaming may fail.
\<close>

record nodeState =
  ns_Genesis :: GenesisMetaData
  ns_Miner :: AccountKeyMaterial
  ns_Blocks :: "Block list"
  ns_LastSlot :: int
  ns_LastPayoutUnix :: int

definition AccountKeyMaterial_zero :: AccountKeyMaterial where
  "AccountKeyMaterial_zero = \<lparr>mat_N = [], mat_E = [], mat_D = []\<rparr>"

definition nodeState_zero :: nodeState where
  "nodeState_zero = \<lparr>ns_Genesis = GenesisMetaData_zero, ns_Miner = AccountKeyMaterial_zero, ns_Blocks = [], ns_LastSlot = 0,
     ns_LastPayoutUnix = 0\<rparr>"

section \<open>The text\<close>

definition material_json :: "AccountKeyMaterial \<Rightarrow> json" where
  "material_json m = JObj [(''n'', JStr (mat_N m)), (''e'', JStr (mat_E m)), (''d'', JStr (mat_D m))]"

definition material_step :: "string \<Rightarrow> json \<Rightarrow> AccountKeyMaterial \<Rightarrow> AccountKeyMaterial option" where
  "material_step k v m =
     (if EqualFold k ''n'' then map_option (\<lambda>x. m\<lparr>mat_N := x\<rparr>) (dec_string v (mat_N m))
      else if EqualFold k ''e'' then map_option (\<lambda>x. m\<lparr>mat_E := x\<rparr>) (dec_string v (mat_E m))
      else if EqualFold k ''d'' then map_option (\<lambda>x. m\<lparr>mat_D := x\<rparr>) (dec_string v (mat_D m))
      else Some m)"

definition state_json :: "nodeState \<Rightarrow> json" where
  "state_json s = JObj ([(''genesis'', genesis_json (ns_Genesis s)), (''miner'', material_json (ns_Miner s)),
     (''blocks'', JArr (map block_json (ns_Blocks s))), (''lastSlot'', JNum (Itoa (ns_LastSlot s)))] @
     (if ns_LastPayoutUnix s = 0 then [] else [(''lastPayoutUnix'', JNum (Itoa (ns_LastPayoutUnix s)))]))"

definition state_step :: "string \<Rightarrow> json \<Rightarrow> nodeState \<Rightarrow> nodeState option" where
  "state_step k v s =
     (if EqualFold k ''genesis'' then map_option (\<lambda>x. s\<lparr>ns_Genesis := x\<rparr>) (dec_struct genesis_step v (ns_Genesis s))
      else if EqualFold k ''miner'' then map_option (\<lambda>x. s\<lparr>ns_Miner := x\<rparr>) (dec_struct material_step v (ns_Miner s))
      else if EqualFold k ''blocks'' then map_option (\<lambda>x. s\<lparr>ns_Blocks := x\<rparr>) (dec_slice (dec_struct block_step) Block_zero v)
      else if EqualFold k ''lastSlot'' then map_option (\<lambda>x. s\<lparr>ns_LastSlot := x\<rparr>) (dec_int v (ns_LastSlot s))
      else if EqualFold k ''lastPayoutUnix'' then map_option (\<lambda>x. s\<lparr>ns_LastPayoutUnix := x\<rparr>) (dec_int v (ns_LastPayoutUnix s))
      else Some s)"

section \<open>Paths\<close>

text \<open>\<open>filepath.Clean\<close> and \<open>filepath.Join\<close> of two elements: the segments without dots, from the last one on.\<close>

fun clean_segments :: "bool \<Rightarrow> string list \<Rightarrow> string list \<Rightarrow> string list" where
  "clean_segments rooted [] out = rev out"
| "clean_segments rooted (s # ss) out =
     (if s = [] \<or> s = ''.'' then clean_segments rooted ss out
      else if s = ''..'' then
        (case out of
           [] \<Rightarrow> clean_segments rooted ss (if rooted then [] else [''..''])
         | t # ts \<Rightarrow> clean_segments rooted ss (if t = ''..'' then s # out else ts))
      else clean_segments rooted ss (s # out))"

definition Clean :: "string \<Rightarrow> string" where
  "Clean path =
     (let rooted = HasPrefix path ''/''; out = Join (clean_segments rooted (Split path CHR ''/'') []) ''/''
      in if rooted then CHR ''/'' # out else if out = [] then ''.'' else out)"

definition path_Join :: "string \<Rightarrow> string \<Rightarrow> string" where
  "path_Join dir name = (if dir = [] then Clean name else Clean (dir @ ''/'' @ name))"

definition stateFilePath :: "string \<Rightarrow> int \<Rightarrow> string" where
  "stateFilePath dir listenPort = path_Join dir (''node-'' @ Itoa listenPort @ ''-state.json'')"

section \<open>Files\<close>

type_synonym files = "(string, bytes) gomap"

text \<open>What the system calls of one saving do: the failed write leaves a content behind, or none.\<close>

record file_faults =
  mkdir_fails :: bool
  write_fails :: "bytes option option"
  rename_fails :: bool

definition loadNodeState :: "files \<Rightarrow> string \<Rightarrow> int \<Rightarrow> nodeState option" where
  "loadNodeState fs dir listenPort = do {
     raw \<leftarrow> fmlookup fs (stateFilePath dir listenPort);
     state \<leftarrow> unmarshal state_step nodeState_zero raw;
     if length (ns_Blocks state) = 0 then None else Some state
   }"

definition saved_state :: "Peer \<Rightarrow> int \<Rightarrow> int \<Rightarrow> nodeState option" where
  "saved_state p lastSlot lastPayoutUnix = (case (p_blockchain p, p_genesis p, p_miner p) of
      (Some chain, Some genesis, Some miner) \<Rightarrow>
        Some \<lparr>ns_Genesis = genesis, ns_Miner = KeyMaterial miner, ns_Blocks = BlocksSnapshot chain, ns_LastSlot = lastSlot,
              ns_LastPayoutUnix = lastPayoutUnix\<rparr>
    | _ \<Rightarrow> None)"

text \<open>The flag tells whether the state was saved.\<close>

definition saveNodeState :: "file_faults \<Rightarrow> files \<Rightarrow> string \<Rightarrow> int \<Rightarrow> Peer \<Rightarrow> int \<Rightarrow> int \<Rightarrow> files \<times> bool" where
  "saveNodeState io fs dir listenPort p lastSlot lastPayoutUnix =
     (if mkdir_fails io then (fs, False)
      else case saved_state p lastSlot lastPayoutUnix of
          None \<Rightarrow> (fs, False)
        | Some state \<Rightarrow>
            (let raw = MarshalIndent (state_json state); path = stateFilePath dir listenPort; tmp = path @ ''.tmp'' in
             case write_fails io of
               Some left \<Rightarrow> ((case left of None \<Rightarrow> fs | Some partial \<Rightarrow> fmupd tmp partial fs), False)
             | None \<Rightarrow>
                 (let fs = fmupd tmp raw fs in
                  if rename_fails io then (fs, False) else (fmupd path raw (fmdrop tmp fs), True))))"

section \<open>Reading back\<close>

definition plain_state :: "nodeState \<Rightarrow> bool" where
  "plain_state s \<longleftrightarrow> plain_genesis (ns_Genesis s) \<and> ascii (mat_N (ns_Miner s)) \<and> ascii (mat_E (ns_Miner s)) \<and> ascii (mat_D (ns_Miner s)) \<and>
     list_all plain_block (ns_Blocks s) \<and> in_i64 (ns_LastSlot s) \<and> in_i64 (ns_LastPayoutUnix s)"

lemma dec_material: "dec_struct material_step (material_json m) AccountKeyMaterial_zero = Some m"
  by (cases m) (simp add: material_json_def material_step_def AccountKeyMaterial_zero_def EqualFold_def ToLower_def lower_char_def)

lemma state_members:
  "plain_genesis g \<Longrightarrow> ns_Genesis s = GenesisMetaData_zero \<Longrightarrow>
     dec_members state_step ((''genesis'', genesis_json g) # ms) s = dec_members state_step ms (s\<lparr>ns_Genesis := g\<rparr>)"
  "ns_Miner s = AccountKeyMaterial_zero \<Longrightarrow>
     dec_members state_step ((''miner'', material_json m) # ms) s = dec_members state_step ms (s\<lparr>ns_Miner := m\<rparr>)"
  "list_all plain_block bs \<Longrightarrow>
     dec_members state_step ((''blocks'', JArr (map block_json bs)) # ms) s = dec_members state_step ms (s\<lparr>ns_Blocks := bs\<rparr>)"
  "in_i64 i \<Longrightarrow> dec_members state_step ((''lastSlot'', JNum (Itoa i)) # ms) s = dec_members state_step ms (s\<lparr>ns_LastSlot := i\<rparr>)"
  "in_i64 i \<Longrightarrow> dec_members state_step ((''lastPayoutUnix'', JNum (Itoa i)) # ms) s = dec_members state_step ms (s\<lparr>ns_LastPayoutUnix := i\<rparr>)"
proof -
  assume "list_all plain_block bs"
  then have "those (map (\<lambda>v. dec_struct block_step v Block_zero) (map block_json bs)) = Some (map id bs)"
    unfolding map_map comp_def by (intro those_map_Some) (use dec_block in \<open>auto simp: list_all_iff\<close>)
  then show "dec_members state_step ((''blocks'', JArr (map block_json bs)) # ms) s = dec_members state_step ms (s\<lparr>ns_Blocks := bs\<rparr>)"
    by (simp add: state_step_def EqualFold_def ToLower_def lower_char_def comp_def)
qed (simp_all add: state_step_def dec_genesis_json dec_material EqualFold_def ToLower_def lower_char_def)

lemma dec_state:
  assumes "plain_state s"
  shows "dec_struct state_step (state_json s) nodeState_zero = Some s"
  using assms by (cases s) (simp add: plain_state_def state_json_def nodeState_zero_def state_members del: dec_members.simps(2))

lemma wf_state:
  assumes "plain_state s"
  shows "wf_json (state_json s)" "json_depth (state_json s) \<le> max_depth"
proof -
  show "wf_json (state_json s)"
    using assms wf_genesis_json(1) [of "ns_Genesis s"] wf_block_json(1)
    by (auto simp: plain_state_def state_json_def material_json_def list_all_iff)
  have "json_depth (JArr (map block_json (ns_Blocks s))) \<le> Suc (Suc 0)"
    by (rule depth_arr) (use wf_block_json(2) in \<open>simp add: list_all_iff\<close>)
  moreover have "json_depth (genesis_json (ns_Genesis s)) \<le> Suc (Suc 0)"
    unfolding genesis_json_def by (rule depth_obj, simp add: list_all_iff del: json_depth.simps(2), rule depth_obj) (simp add: list_all_iff)
  moreover have "json_depth (material_json (ns_Miner s)) \<le> Suc (Suc 0)" by (simp add: material_json_def)
  ultimately have "json_depth (state_json s) \<le> Suc (Suc (Suc 0))"
    unfolding state_json_def by (intro depth_obj) (simp del: json_depth.simps(1))
  then show "json_depth (state_json s) \<le> max_depth" by (rule order.trans) (simp add: max_depth_def)
qed

lemma state_text: "plain_state s \<Longrightarrow> unmarshal state_step nodeState_zero (MarshalIndent (state_json s)) = Some s"
  by (simp add: unmarshal_def parse_MarshalIndent wf_state dec_state)

end
