(* ===== verification/Node.thy ===== *)
theory Node
  imports Mining Config NodeState
begin

text \<open>
  The node process (\<open>handin.go\<close>): the peer it starts, restored from disk or fresh, how it joins and
  rejoins the network, and the steps of its main loop: a tick of the slot timer, of the timer for
  saving and of the timer for synchronisation. \<open>main\<close> and the demonstration are in \<open>Handin\<close>.

  Each call of an operation of the peer has its own view of the world, so a step takes a sequence of
  them. The process reads the clock (in seconds) once per tick.
\<close>

section \<open>Settings\<close>

definition applyRuntimeConsensusConfig :: "GenesisMetaData \<Rightarrow> NodeConfig \<Rightarrow> GenesisMetaData" where
  "applyRuntimeConsensusConfig genesis cfg = genesis\<lparr>
     DynamicHardnessForkHeight := cfg_DynamicHardnessForkHeight cfg, DynamicHardnessMin := cfg_DynamicHardnessMin cfg,
     DynamicHardnessMax := cfg_DynamicHardnessMax cfg, DynamicHardnessWindow := cfg_DynamicHardnessWindow cfg,
     FastBlockTargetSlots := cfg_FastBlockTargetSlots cfg, IdleBlockTargetSlots := cfg_IdleBlockTargetSlots cfg\<rparr>"

definition shouldMineSlot :: "int \<Rightarrow> int \<Rightarrow> NodeConfig \<Rightarrow> bool" where
  "shouldMineSlot slot mempoolDepth cfg \<longleftrightarrow>
     (if mempoolDepth > 0 then True
      else if IdleSlotInterval cfg = 0 then True
      else slot = 1 \<or> slot mod IdleSlotInterval cfg = 0)"

definition mineAttemptsForNetwork :: "int \<Rightarrow> int \<Rightarrow> NodeConfig \<Rightarrow> int" where
  "mineAttemptsForNetwork mempoolDepth availableNodes cfg =
     (let availableNodes = (if availableNodes < 1 then 1 else availableNodes);
          networkAttempts = i64 (BaseMineAttemptsPerTick cfg + i64 (mempoolDepth * MineAttemptsPerPendingTx cfg));
          attempts = go_quo (i64 (i64 (networkAttempts + availableNodes) - 1)) availableNodes
      in if attempts > MaxMineAttemptsPerTick cfg then MaxMineAttemptsPerTick cfg
         else if attempts < BaseMineAttemptsPerTick cfg then BaseMineAttemptsPerTick cfg
         else attempts)"

section \<open>Payouts\<close>

definition monthlyPayoutIntervalSeconds :: int where
  "monthlyPayoutIntervalSeconds = 30 * 24 * 60 * 60"

definition maybeQueueMonthlyPayout ::
    "env \<Rightarrow> Peer \<Rightarrow> trace \<Rightarrow> NodeConfig \<Rightarrow> int \<Rightarrow> int \<Rightarrow> (Peer \<times> trace \<times> int \<times> SignedTransaction option) go" where
  "maybeQueueMonthlyPayout E p tr cfg now lastPayoutUnix =
     (if RewardPayoutAddress cfg = [] \<or> p_miner p = None then Some (p, tr, lastPayoutUnix, None)
      else if lastPayoutUnix \<noteq> 0 \<and> i64 (now - lastPayoutUnix) < monthlyPayoutIntervalSeconds then Some (p, tr, lastPayoutUnix, None)
      else let balance = ValidatorStake p in
        if balance \<le> 0 then Some (p, tr, lastPayoutUnix, None)
        else map_option (\<lambda>(p, tr, tx). (p, tr, (case tx of None \<Rightarrow> lastPayoutUnix | Some _ \<Rightarrow> now), tx))
          (FloodValidatorWithdrawTransaction E p tr
             (''monthly-payout-'' @ Itoa now @ ''-'' @ RewardPayoutAddress cfg @ ''-'' @ Itoa balance)
             (RewardPayoutAddress cfg) balance))"

section \<open>The start\<close>

record Node =
  nd_peer :: Peer
  nd_slot :: int
  nd_lastPayoutUnix :: int
  nd_registry :: BootstrapRegistry

text \<open>A restored peer; the process exits when the key material is not valid.\<close>

definition restore_node :: "env \<Rightarrow> NodeConfig \<Rightarrow> nodeState \<Rightarrow> (Peer \<times> int \<times> int) option go" where
  "restore_node E cfg restored = (case AccountFromKeyMaterial (ns_Miner restored) of
      None \<Rightarrow> Some None
    | Some miner \<Rightarrow> do {
        p \<leftarrow> SetFinalityDepth E (NewPeer (ListenPort cfg)) (FinalityDepth cfg);
        p \<leftarrow> ConfigurePoS E p (ns_Genesis restored) (Some miner);
        chain \<leftarrow> p_blockchain p;
        let chain = ReplaceBlocks chain (ns_Blocks restored);
        ledger \<leftarrow> LedgerFromBlockchain E chain (FinalityDepth cfg);
        Some (Some (p\<lparr>p_blockchain := Some chain, p_ledger := ledger\<rparr>,
          (if ns_LastSlot restored > 0 then i64 (ns_LastSlot restored + 1) else 1), ns_LastPayoutUnix restored))
      })"

text \<open>
  A new node creates its account; the draws of primes are an argument, and the process exits when they fail. The
  settings of the operator are written over those of the genesis block, the balances of EVM accounts are added to it.
\<close>

definition with_alloc :: "(string, int) gomap \<Rightarrow> GenesisMetaData \<Rightarrow> GenesisMetaData" where
  "with_alloc alloc genesis = genesis\<lparr>InitialBalances := InitialBalances genesis ++\<^sub>f alloc\<rparr>"

definition fresh_node :: "env \<Rightarrow> NodeConfig \<Rightarrow> (nat \<times> nat) list \<Rightarrow> (Peer \<times> int \<times> int) option go" where
  "fresh_node E cfg draws = (case NewAccount draws of
      None \<Rightarrow> Some None
    | Some miner \<Rightarrow> do {
        p \<leftarrow> SetFinalityDepth E (NewPeer (ListenPort cfg)) (FinalityDepth cfg);
        let genesis = MakeGenesisMetaDataFromAccounts [miner] (InitialBalance cfg) (GenesisHardness cfg) (GenesisSeed cfg);
        let genesis = with_alloc (EVMGenesisAlloc cfg) (applyRuntimeConsensusConfig genesis cfg);
        p \<leftarrow> ConfigurePoS E p genesis (Some miner);
        Some (Some (p, 1, 0))
      })"

definition load_or_create :: "env \<Rightarrow> NodeConfig \<Rightarrow> files \<Rightarrow> (nat \<times> nat) list \<Rightarrow> (Peer \<times> int \<times> int) option go" where
  "load_or_create E cfg fs draws = (case loadNodeState fs (StateDir cfg) (ListenPort cfg) of
      Some restored \<Rightarrow> restore_node E cfg restored
    | None \<Rightarrow> fresh_node E cfg draws)"

section \<open>Joining the network\<close>

text \<open>The addresses in turn until one answers; its peers are joined and the join is announced.\<close>

fun join_first :: "env \<Rightarrow> (nat \<Rightarrow> world) \<Rightarrow> nat \<Rightarrow> PeerAddress list \<Rightarrow> Peer \<Rightarrow> trace \<Rightarrow> (Peer \<times> trace \<times> bool) go" where
  "join_first E Ws i [] p tr = Some (p, tr, False)"
| "join_first E Ws i (address # addresses) p tr = (case ConnectAddress E (Ws i) p tr address of
      None \<Rightarrow> None
    | Some (p, tr, None) \<Rightarrow> join_first E Ws (Suc i) addresses p tr
    | Some (p, tr, Some peers) \<Rightarrow> (case joinKnownPeers E (Ws i) peers p tr of
        None \<Rightarrow> None
      | Some (p, tr) \<Rightarrow> map_option (\<lambda>(p, tr). (p, tr, True)) (floodJoin E p tr)))"

text \<open>The seed node of the configuration.\<close>

definition join_seed :: "env \<Rightarrow> world \<Rightarrow> NodeConfig \<Rightarrow> Peer \<Rightarrow> trace \<Rightarrow> (Peer \<times> trace \<times> bool) go" where
  "join_seed E W cfg p tr = do {
     (p, tr, peers) \<leftarrow> Connect E W p tr (JoinHost cfg) (JoinPort cfg);
     case peers of
       None \<Rightarrow> Some (p, tr, False)
     | Some peers \<Rightarrow> do {
         (p, tr) \<leftarrow> joinNetwork E W (JoinHost cfg) peers p tr;
         (p, tr) \<leftarrow> joinKnownPeers E W (knownPeerAddresses p) p tr;
         (p, tr) \<leftarrow> floodJoin E p tr;
         Some (p, tr, True)
       }
   }"

definition bootstrap_addresses :: "env \<Rightarrow> NodeConfig \<Rightarrow> ((string, PeerAddress) gomap \<Rightarrow> string list) \<Rightarrow> PeerAddress list \<Rightarrow> PeerAddress list" where
  "bootstrap_addresses E cfg order manifestPeers =
     filterSelfBootstrapPeers (mergeBootstrapPeers E order [manifestPeers, BootstrapPeers cfg]) (AdvertiseHost cfg) (ListenPort cfg)"

text \<open>
  From the loaded peer to the main loop: the registry is asked for its peers, the peer listens (the process exits if
  it cannot) and joins.
\<close>

definition start_node ::
    "env \<Rightarrow> (nat \<Rightarrow> world) \<Rightarrow> http_answer \<Rightarrow> string \<Rightarrow> ((string, PeerAddress) gomap \<Rightarrow> string list) \<Rightarrow> bool \<Rightarrow>
     NodeConfig \<Rightarrow> Peer \<times> int \<times> int \<Rightarrow> trace \<Rightarrow> (Node \<times> trace) option go" where
  "start_node E Ws answer time order listening cfg loaded tr = (case loaded of (p, slot, lastPayoutUnix) \<Rightarrow>
     (let p = SetAdvertiseHost E p (AdvertiseHost cfg);
          registry = NewBootstrapRegistry (BootstrapManifestURL cfg) (BootstrapRefreshHours cfg) (BootstrapPeers cfg);
          (registry, manifestPeers) = Peers E answer time registry;
          bootstrapPeers = bootstrap_addresses E cfg order manifestPeers;
          (p, ok) = Start listening p
      in if \<not> ok then Some None
         else do {
           (p, tr, joined) \<leftarrow> join_first E Ws 0 bootstrapPeers p tr;
           (p, tr, _) \<leftarrow> (if \<not> joined \<and> JoinPort cfg > 0 then join_seed E (Ws (length bootstrapPeers)) cfg p tr
                        else Some (p, tr, joined));
           Some (Some (\<lparr>nd_peer = p, nd_slot = slot, nd_lastPayoutUnix = lastPayoutUnix, nd_registry = registry\<rparr>, tr))
         }))"

definition runNode ::
    "env \<Rightarrow> (nat \<Rightarrow> world) \<Rightarrow> http_answer \<Rightarrow> string \<Rightarrow> ((string, PeerAddress) gomap \<Rightarrow> string list) \<Rightarrow> bool \<Rightarrow>
     (nat \<times> nat) list \<Rightarrow> files \<Rightarrow> NodeConfig \<Rightarrow> (Node \<times> trace) option go" where
  "runNode E Ws answer time order listening draws fs cfg = do {
     loaded \<leftarrow> load_or_create E cfg fs draws;
     case loaded of None \<Rightarrow> Some None | Some loaded \<Rightarrow> start_node E Ws answer time order listening cfg loaded []
   }"

text \<open>The reconnection timer runs when there is somebody to dial. One tick of it does nothing while there are peers.\<close>

definition reconnect_enabled :: "NodeConfig \<Rightarrow> PeerAddress list \<Rightarrow> bool" where
  "reconnect_enabled cfg bootstrapPeers \<longleftrightarrow> \<not> (JoinPort cfg < 0 \<and> length (BootstrapPeers cfg) = 0 \<and> length bootstrapPeers = 0)"

definition reconnect :: "env \<Rightarrow> (nat \<Rightarrow> world) \<Rightarrow> ((string, PeerAddress) gomap \<Rightarrow> string list) \<Rightarrow> NodeConfig \<Rightarrow> Node \<Rightarrow> trace \<Rightarrow> (Node \<times> trace) go" where
  "reconnect E Ws order cfg n tr =
     (if PeerCount (nd_peer n) > 0 then Some (n, tr)
      else do {
        let known = knownPeerAddresses (nd_peer n);
        let bootstrap = bootstrap_addresses E cfg order (CachedPeers E (nd_registry n));
        (p, tr, joined) \<leftarrow> join_first E Ws 0 known (nd_peer n) tr;
        (p, tr, joined) \<leftarrow> (if joined then Some (p, tr, joined) else join_first E Ws (length known) bootstrap p tr);
        (p, tr, _) \<leftarrow> (if joined \<or> JoinPort cfg < 0 then Some (p, tr, joined)
                     else join_seed E (Ws (length known + length bootstrap)) cfg p tr);
        Some (n\<lparr>nd_peer := p\<rparr>, tr)
      })"

section \<open>The main loop\<close>

fun mine_slots :: "env \<Rightarrow> (nat \<Rightarrow> world) \<Rightarrow> nat \<Rightarrow> Peer \<Rightarrow> trace \<Rightarrow> int \<Rightarrow> (Peer \<times> trace \<times> int \<times> Block option) go" where
  "mine_slots E Ws 0 p tr slot = Some (p, tr, slot, None)"
| "mine_slots E Ws (Suc attempts) p tr slot = (case MineOneSlot E (Ws attempts) p tr slot of
      None \<Rightarrow> None
    | Some (p, tr, Some block) \<Rightarrow> Some (p, tr, i64 (slot + 1), Some block)
    | Some (p, tr, None) \<Rightarrow> mine_slots E Ws attempts p tr (i64 (slot + 1)))"

definition max_int :: int where "max_int = 2 ^ 63 - 1"

text \<open>A tick of the slot timer; the payout it queued and the block it mined are part of the result.\<close>

definition slot_tick ::
    "env \<Rightarrow> (nat \<Rightarrow> world) \<Rightarrow> int \<Rightarrow> NodeConfig \<Rightarrow> Node \<Rightarrow> trace \<Rightarrow> (Node \<times> trace \<times> SignedTransaction option \<times> Block option) go" where
  "slot_tick E Ws now cfg n tr = do {
     (p, tr, payout, tx) \<leftarrow> maybeQueueMonthlyPayout E (nd_peer n) tr cfg now (nd_lastPayoutUnix n);
     let n = n\<lparr>nd_peer := p, nd_lastPayoutUnix := payout\<rparr>;
     let mempoolDepth = int (MempoolSize p);
     if \<not> shouldMineSlot (nd_slot n) mempoolDepth cfg then Some (n\<lparr>nd_slot := i64 (nd_slot n + 1)\<rparr>, tr, tx, None)
     else do {
       let attempts = mineAttemptsForNetwork mempoolDepth (i64 (PeerCount p + 1)) cfg;
       (p, tr, slot, mined) \<leftarrow> mine_slots E Ws (nat attempts) p tr (nd_slot n);
       Some (n\<lparr>nd_peer := p, nd_slot := (if slot = max_int then 1 else slot)\<rparr>, tr, tx, mined)
     }
   }"

definition save_tick :: "file_faults \<Rightarrow> NodeConfig \<Rightarrow> Node \<Rightarrow> files \<Rightarrow> files \<times> bool" where
  "save_tick io cfg n fs = saveNodeState io fs (StateDir cfg) (ListenPort cfg) (nd_peer n) (nd_slot n) (nd_lastPayoutUnix n)"

definition sync_tick :: "env \<Rightarrow> world \<Rightarrow> Node \<Rightarrow> trace \<Rightarrow> trace go" where
  "sync_tick E W n tr = RequestChainSyncFromPeers E W (nd_peer n) tr"

text \<open>A tick of the registry's own timer.\<close>

definition registry_tick :: "env \<Rightarrow> http_answer \<Rightarrow> string \<Rightarrow> Node \<Rightarrow> Node" where
  "registry_tick E answer time n = n\<lparr>nd_registry := fst (Peers E answer time (nd_registry n))\<rparr>"

end
