(* ===== verification/NodeFacts.thy ===== *)
theory NodeFacts
  imports Node MiningFacts PeerInvariants
begin

text \<open>
  Facts about the node process: files, mining attempts, payouts, and its runs. A run keeps, beside the
  node, the blocks its ticks mined and the times at which they queued a payout.
\<close>

section \<open>Files\<close>

text \<open>A saving replaces the state file as a whole or leaves it alone.\<close>

lemma save_atomic:
  assumes "saveNodeState io fs dir port p slot payout = (fs', ok)"
  shows "if ok then \<exists>s. saved_state p slot payout = Some s \<and> fmlookup fs' (stateFilePath dir port) = Some (MarshalIndent (state_json s))
    else fmlookup fs' (stateFilePath dir port) = fmlookup fs (stateFilePath dir port)"
  using assms by (auto simp: saveNodeState_def Let_def split: if_splits option.splits)

lemma load_cong:
  "fmlookup fs' (stateFilePath dir port) = fmlookup fs (stateFilePath dir port) \<Longrightarrow> loadNodeState fs' dir port = loadNodeState fs dir port"
  by (simp add: loadNodeState_def)

lemma load_saved:
  assumes "saveNodeState io fs dir port p slot payout = (fs', True)" and "saved_state p slot payout = Some s" and "plain_state s" and "ns_Blocks s \<noteq> []"
  shows "loadNodeState fs' dir port = Some s"
  using save_atomic [OF assms(1)] assms(2-4) by (simp add: loadNodeState_def state_text)

lemma plain_KeyMaterial: "ascii (mat_N (KeyMaterial a))" "ascii (mat_E (KeyMaterial a))" "ascii (mat_D (KeyMaterial a))"
  by (simp_all add: KeyMaterial_def ascii_b64_encode)

section \<open>Mining attempts\<close>

lemma attempts_range:
  assumes "0 < BaseMineAttemptsPerTick cfg" and "0 < MaxMineAttemptsPerTick cfg"
  shows "0 < mineAttemptsForNetwork depth nodes cfg"
    "mineAttemptsForNetwork depth nodes cfg \<le> max (BaseMineAttemptsPerTick cfg) (MaxMineAttemptsPerTick cfg)"
    "BaseMineAttemptsPerTick cfg \<le> MaxMineAttemptsPerTick cfg \<Longrightarrow>
      BaseMineAttemptsPerTick cfg \<le> mineAttemptsForNetwork depth nodes cfg \<and> mineAttemptsForNetwork depth nodes cfg \<le> MaxMineAttemptsPerTick cfg"
  using assms by (auto simp: mineAttemptsForNetwork_def Let_def)

lemma attempts_le: "mineAttemptsForNetwork depth nodes cfg \<le> max (BaseMineAttemptsPerTick cfg) (MaxMineAttemptsPerTick cfg)"
  by (auto simp: mineAttemptsForNetwork_def Let_def)

lemma mine_slots_range:
  assumes "mine_slots E Ws k p tr slot = Some (p', tr', slot', r)" and "0 \<le> slot" and "slot + int k < 2 ^ 63"
  shows "slot \<le> slot' \<and> slot' \<le> slot + int k \<and>
    (\<forall>b. r = Some b \<longrightarrow> slot \<le> blk_Slot b \<and> blk_Slot b < slot')"
  using assms
proof (induction k arbitrary: p tr slot)
  case (Suc k)
  then obtain q tr1 r1 where m: "MineOneSlot E (Ws k) p tr slot = Some (q, tr1, r1)" by (cases "MineOneSlot E (Ws k) p tr slot") auto
  have next_slot: "i64 (slot + 1) = slot + 1" using Suc.prems by (intro i64_id) (simp add: in_i64_def)
  show ?case
  proof (cases r1)
    case None
    with Suc.prems m next_slot have "mine_slots E Ws k q tr1 (slot + 1) = Some (p', tr', slot', r)" by simp
    from Suc.IH [OF this] Suc.prems show ?thesis by auto
  next
    case (Some b)
    with Suc.prems m next_slot have "slot' = slot + 1" "r = Some b" by auto
    moreover from m Some have "blk_Slot b = slot" by (auto elim: MineOneSlot_mined)
    ultimately show ?thesis by auto
  qed
qed auto

section \<open>Payouts\<close>

lemma payout_cases:
  assumes "maybeQueueMonthlyPayout E p tr cfg now l = Some (p', tr', l', tx)"
  obtains "tx = None" "l' = l"
  | t where "tx = Some t" "l' = now" "l = 0 \<or> monthlyPayoutIntervalSeconds \<le> i64 (now - l)"
  using assms that by (auto simp: maybeQueueMonthlyPayout_def Let_def split: if_splits option.splits)

section \<open>Runs\<close>

text \<open>
  A run of the main loop with its timers, interleaved with any steps of the peer. The clock shows positive
  seconds, and the slot counter is so far from the largest integer that the tick cannot reach it.
\<close>

inductive node_run :: "env \<Rightarrow> NodeConfig \<Rightarrow> Node \<Rightarrow> Node \<Rightarrow> Block list \<Rightarrow> int list \<Rightarrow> bool" for E cfg n0 where
  started: "node_run E cfg n0 n0 [] []"
| ticked: "node_run E cfg n0 n bs ts \<Longrightarrow> slot_tick E Ws now cfg n tr = Some (n', tr', tx, mined) \<Longrightarrow> 0 < now \<Longrightarrow> now < 2 ^ 63 \<Longrightarrow>
    nd_slot n + 1 + max (BaseMineAttemptsPerTick cfg) (MaxMineAttemptsPerTick cfg) < max_int \<Longrightarrow>
    node_run E cfg n0 n' (bs @ (case mined of None \<Rightarrow> [] | Some b \<Rightarrow> [b])) (ts @ (case tx of None \<Rightarrow> [] | Some _ \<Rightarrow> [now]))"
| peer_moved: "node_run E cfg n0 n bs ts \<Longrightarrow> peer_step E True (nd_peer n) p' \<Longrightarrow> node_run E cfg n0 (n\<lparr>nd_peer := p'\<rparr>) bs ts"
| reconnected: "node_run E cfg n0 n bs ts \<Longrightarrow> reconnect E Ws order cfg n tr = Some (n', tr') \<Longrightarrow> node_run E cfg n0 n' bs ts"
| refreshed: "node_run E cfg n0 n bs ts \<Longrightarrow> node_run E cfg n0 (registry_tick E answer time n) bs ts"

lemma tick_slots:
  assumes "slot_tick E Ws now cfg n tr = Some (n', tr', tx, mined)" and "0 \<le> nd_slot n"
    and "nd_slot n + 1 + max (BaseMineAttemptsPerTick cfg) (MaxMineAttemptsPerTick cfg) < max_int"
    and "0 < BaseMineAttemptsPerTick cfg"
  shows "nd_slot n \<le> nd_slot n' \<and> (\<forall>b. mined = Some b \<longrightarrow> nd_slot n \<le> blk_Slot b \<and> blk_Slot b < nd_slot n')"
proof -
  from assms(1) obtain p tr1 payout where q: "maybeQueueMonthlyPayout E (nd_peer n) tr cfg now (nd_lastPayoutUnix n) = Some (p, tr1, payout, tx)"
    by (auto simp: slot_tick_def Let_def split: if_splits)
  have room: "nd_slot n + 1 < 2 ^ 63" using assms(3,4) by (simp add: max_int_def)
  show ?thesis
  proof (cases "shouldMineSlot (nd_slot n) (int (MempoolSize p)) cfg")
    case False
    moreover have "i64 (nd_slot n + 1) = nd_slot n + 1" using assms(2) room by (intro i64_id) (simp add: in_i64_def)
    ultimately show ?thesis using assms(1) q by (auto simp: slot_tick_def Let_def)
  next
    case True
    let ?k = "nat (mineAttemptsForNetwork (int (MempoolSize p)) (i64 (PeerCount p + 1)) cfg)"
    have k: "int ?k \<le> max (BaseMineAttemptsPerTick cfg) (MaxMineAttemptsPerTick cfg)"
      using attempts_le [of "int (MempoolSize p)" "i64 (PeerCount p + 1)" cfg] assms(4) by (auto simp: le_max_iff_disj)
    from True assms(1) q obtain p1 tr2 slot where m: "mine_slots E Ws ?k p tr1 (nd_slot n) = Some (p1, tr2, slot, mined)"
      and n': "nd_slot n' = (if slot = max_int then 1 else slot)" by (auto simp: slot_tick_def Let_def)
    have "nd_slot n + int ?k < 2 ^ 63" using k assms(3) by (simp add: max_int_def)
    from mine_slots_range [OF m assms(2) this] have r: "nd_slot n \<le> slot" "slot \<le> nd_slot n + int ?k"
      "\<forall>b. mined = Some b \<longrightarrow> nd_slot n \<le> blk_Slot b \<and> blk_Slot b < slot" by simp_all
    then have "slot < max_int" using k assms(3) by linarith
    with n' r show ?thesis by auto
  qed
qed

lemma tick_payout:
  assumes "slot_tick E Ws now cfg n tr = Some (n', tr', tx, mined)"
  obtains "tx = None" "nd_lastPayoutUnix n' = nd_lastPayoutUnix n"
  | t where "tx = Some t" "nd_lastPayoutUnix n' = now"
      "nd_lastPayoutUnix n = 0 \<or> monthlyPayoutIntervalSeconds \<le> i64 (now - nd_lastPayoutUnix n)"
proof -
  from assms obtain p tr1 payout where q: "maybeQueueMonthlyPayout E (nd_peer n) tr cfg now (nd_lastPayoutUnix n) = Some (p, tr1, payout, tx)"
    by (auto simp: slot_tick_def Let_def split: if_splits)
  with assms have "nd_lastPayoutUnix n' = payout" by (auto simp: slot_tick_def Let_def split: if_splits)
  with q that show ?thesis by (auto elim: payout_cases)
qed

lemma reconnect_frame: "reconnect E Ws order cfg n tr = Some (n', tr') \<Longrightarrow> nd_slot n' = nd_slot n \<and> nd_lastPayoutUnix n' = nd_lastPayoutUnix n"
  by (auto simp: reconnect_def Let_def split: if_splits)

text \<open>The slots of the mined blocks increase and stay below the counter.\<close>

lemma run_slots:
  assumes "node_run E cfg n0 n bs ts" and "0 \<le> nd_slot n0" and "0 < BaseMineAttemptsPerTick cfg"
  shows "nd_slot n0 \<le> nd_slot n \<and> sorted_wrt (<) (map blk_Slot bs) \<and> (\<forall>b \<in> set bs. nd_slot n0 \<le> blk_Slot b \<and> blk_Slot b < nd_slot n)"
  using assms
proof (induction rule: node_run.induct)
  case (ticked n bs ts Ws now tr n' tr' tx mined)
  from ticked.IH ticked.prems have IH: "nd_slot n0 \<le> nd_slot n" "sorted_wrt (<) (map blk_Slot bs)"
    "\<forall>b \<in> set bs. nd_slot n0 \<le> blk_Slot b \<and> blk_Slot b < nd_slot n" by simp_all
  have t: "nd_slot n \<le> nd_slot n' \<and> (\<forall>b. mined = Some b \<longrightarrow> nd_slot n \<le> blk_Slot b \<and> blk_Slot b < nd_slot n')"
    by (rule tick_slots [OF ticked.hyps(2)]) (use ticked IH(1) in auto)
  show ?case using IH t by (cases mined) (fastforce simp: sorted_wrt_append)+
qed (auto simp: reconnect_frame registry_tick_def)

text \<open>The times of the payouts are a month apart, from the last one before the run on.\<close>

lemma run_payouts:
  assumes "node_run E cfg n0 n bs ts" and "0 \<le> nd_lastPayoutUnix n0" and "nd_lastPayoutUnix n0 < 2 ^ 63"
  shows "0 \<le> nd_lastPayoutUnix n \<and> nd_lastPayoutUnix n < 2 ^ 63 \<and> (nd_lastPayoutUnix n = 0 \<longrightarrow> ts = [] \<and> nd_lastPayoutUnix n0 = 0) \<and>
    sorted_wrt (\<lambda>s t. s + monthlyPayoutIntervalSeconds \<le> t) (filter (\<lambda>t. t \<noteq> 0) [nd_lastPayoutUnix n0] @ ts) \<and>
    (\<forall>t \<in> set (filter (\<lambda>t. t \<noteq> 0) [nd_lastPayoutUnix n0] @ ts). t \<le> nd_lastPayoutUnix n)"
  using assms
proof (induction rule: node_run.induct)
  case (ticked n bs ts Ws now tr n' tr' tx mined)
  let ?before = "filter (\<lambda>t. t \<noteq> 0) [nd_lastPayoutUnix n0] @ ts"
  from ticked.IH ticked.prems have IH: "0 \<le> nd_lastPayoutUnix n" "nd_lastPayoutUnix n < 2 ^ 63"
    "nd_lastPayoutUnix n = 0 \<longrightarrow> ts = [] \<and> nd_lastPayoutUnix n0 = 0"
    "sorted_wrt (\<lambda>s t. s + monthlyPayoutIntervalSeconds \<le> t) ?before" "\<forall>t \<in> set ?before. t \<le> nd_lastPayoutUnix n" by simp_all
  from ticked.hyps(2) show ?case
  proof (cases rule: tick_payout)
    case 1
    with IH show ?thesis by simp
  next
    case (2 t)
    have apart: "\<forall>s \<in> set ?before. s + monthlyPayoutIntervalSeconds \<le> now"
    proof (cases "nd_lastPayoutUnix n = 0")
      case True
      with IH(3) show ?thesis by simp
    next
      case False
      have "i64 (now - nd_lastPayoutUnix n) = now - nd_lastPayoutUnix n"
        using ticked.hyps(3,4) IH(1,2) by (intro i64_id) (simp add: in_i64_def)
      with 2(3) False have "nd_lastPayoutUnix n + monthlyPayoutIntervalSeconds \<le> now" by simp
      with IH(5) show ?thesis by force
    qed
    then have "sorted_wrt (\<lambda>s t. s + monthlyPayoutIntervalSeconds \<le> t) (?before @ [now])"
      using IH(4) by (subst sorted_wrt_append) simp
    moreover have "s \<le> now" if "s \<in> set (?before @ [now])" for s
    proof (cases "s = now")
      case False
      with that have "s \<in> set ?before" by simp
      with apart have "s + monthlyPayoutIntervalSeconds \<le> now" by blast
      then show ?thesis by (simp add: monthlyPayoutIntervalSeconds_def)
    qed simp
    ultimately show ?thesis using 2 ticked.hyps(3,4) by (simp add: ball_Un)
  qed
qed (auto simp: reconnect_frame registry_tick_def split: if_splits)

end
