(* ===== verification/NodeProperties.thy ===== *)
theory NodeProperties
  imports NodeFacts MiningProperties
begin

text \<open>
  Properties of the node process: a restart resumes from the saved state, no slot is mined twice,
  payouts are a month apart, and the attempts per tick are bounded.
\<close>

text \<open>A node on the peer of \<open>PeerDemo\<close>, configured by an environment that sets the finality depth only.\<close>

definition demo_environ :: environ where
  "demo_environ k = (if k = ''POKOINPOS_FINALITY_DEPTH'' then ''0'' else [])"

definition demo_cfg :: NodeConfig where
  "demo_cfg = node_config demo_environ bootstrapManifest_zero"

definition demo_node :: Node where
  "demo_node = \<lparr>nd_peer = demo_peer, nd_slot = 5, nd_lastPayoutUnix = 0, nd_registry = NewBootstrapRegistry [] 24 []\<rparr>"

lemma demo_cfg_fields: "FinalityDepth demo_cfg = 0" "BaseMineAttemptsPerTick demo_cfg = 1" "MaxMineAttemptsPerTick demo_cfg = 5"
  "RewardPayoutAddress demo_cfg = []" "IdleSlotInterval demo_cfg = 300" "MineAttemptsPerPendingTx demo_cfg = 1"
  by (simp_all add: demo_cfg_def node_config_def Let_def demo_environ_def bootstrapManifest_zero_def BootstrapDefaults_zero_def
      envIntOrDefault_def envOrDefault_def TrimSpace_def is_space_def go_eval in_i64_def)

lemma demo_loaded: "LoadNodeConfigFromEnv demo_environ (Inl []) = (demo_cfg, None)"
proof -
  have m: "manifest_defaults demo_environ (Inl []) = bootstrapManifest_zero"
    by (simp add: manifest_defaults_def demo_environ_def TrimSpace_def)
  have "config_error demo_cfg = None" unfolding demo_cfg_def by code_simp
  with m show ?thesis by (simp add: LoadNodeConfigFromEnv_def demo_cfg_def Let_def)
qed

lemma accepted_limits:
  assumes "LoadNodeConfigFromEnv getenv answer = (cfg, None)"
  shows "0 < BaseMineAttemptsPerTick cfg" "0 < MaxMineAttemptsPerTick cfg"
proof -
  from assms have "config_error cfg = None" by (auto simp: LoadNodeConfigFromEnv_def Let_def)
  then show "0 < BaseMineAttemptsPerTick cfg" "0 < MaxMineAttemptsPerTick cfg"
    by (simp_all add: config_error_def config_errors_def split: if_splits)
qed

section \<open>Restarts\<close>





section \<open>Runs\<close>

text \<open>
  C33. A node never mines two blocks for one slot: in every run of the main loop, whatever messages, timers and connections
  come between, the slots of the blocks it mined increase strictly, from the slot it started at to below its counter.
\<close>

theorem one_block_per_slot:
  assumes "LoadNodeConfigFromEnv getenv answer = (cfg, None)" and "node_run E cfg n0 n bs ts" and "0 \<le> nd_slot n0"
  shows "sorted_wrt (<) (map blk_Slot bs) \<and> distinct (map blk_Slot bs) \<and>
    (\<forall>b \<in> set bs. nd_slot n0 \<le> blk_Slot b \<and> blk_Slot b < nd_slot n)"
  using run_slots [OF assms(2,3) accepted_limits(1) [OF assms(1)]] by (auto simp: strict_sorted_iff)

text \<open>The node of the demo with one coin of stake mines slot 1.\<close>

definition demo_mining_node :: Node where
  "demo_mining_node = demo_node\<lparr>nd_peer := demo_staker, nd_slot := 1\<rparr>"

lemma demo_tick: "\<exists>n'. slot_tick demo_env (\<lambda>_. demo_world) 1000 demo_cfg demo_mining_node [] = Some (n', [], None, Some demo_block)"
proof -
  obtain p' where p': "MineOneSlot demo_env demo_world demo_staker [] 1 = Some (p', [], Some demo_block)" using demo_mined by blast
  have "p_mempool demo_staker = fmempty" "p_conns demo_staker = fmempty" by (simp_all add: demo_staker_def demo_peer_fields)
  then have size: "MempoolSize demo_staker = 0" "PeerCount demo_staker = 0"
    by (simp_all add: MempoolSize_def PeerCount_def connectionSnapshot_def)
  have "mineAttemptsForNetwork 0 1 demo_cfg = 1"
    by (simp add: mineAttemptsForNetwork_def demo_cfg_fields i64_id in_i64_def go_quo_def)
  then show ?thesis
    by (simp add: slot_tick_def maybeQueueMonthlyPayout_def demo_cfg_fields demo_mining_node_def demo_node_def size shouldMineSlot_def
        i64_id in_i64_def p')
qed

theorem one_block_per_slot_witness:
  "\<exists>n. node_run demo_env demo_cfg demo_mining_node n [demo_block] [] \<and> 1 \<le> blk_Slot demo_block \<and> blk_Slot demo_block < nd_slot n"
proof -
  obtain n where "slot_tick demo_env (\<lambda>_. demo_world) 1000 demo_cfg demo_mining_node [] = Some (n, [], None, Some demo_block)"
    using demo_tick by blast
  from node_run.ticked [OF node_run.started this] have run: "node_run demo_env demo_cfg demo_mining_node n [demo_block] []"
    by (simp add: demo_mining_node_def demo_cfg_fields max_int_def)
  from one_block_per_slot [OF demo_loaded run] run show ?thesis by (auto simp: demo_mining_node_def)
qed

text \<open>
  C34. Payouts are at most monthly: in every run the times at which a payout was queued are at least 30 days apart,
  also from the last one before the node was restarted.
\<close>

theorem payouts_monthly:
  assumes "node_run E cfg n0 n bs ts" and "0 \<le> nd_lastPayoutUnix n0" and "nd_lastPayoutUnix n0 < 2 ^ 63"
  shows "sorted_wrt (\<lambda>s t. s + monthlyPayoutIntervalSeconds \<le> t) ts \<and>
    (nd_lastPayoutUnix n0 \<noteq> 0 \<longrightarrow> (\<forall>t \<in> set ts. nd_lastPayoutUnix n0 + monthlyPayoutIntervalSeconds \<le> t))"
  using run_payouts [OF assms] by (auto simp: sorted_wrt_append split: if_splits)

text \<open>A peer with a coin and no chain, and an operator who wants payouts: the first tick queues one.\<close>

definition demo_payee :: string where
  "demo_payee = ''0x'' @ replicate 40 CHR ''a''"

definition demo_payer :: Peer where
  "demo_payer = (NewPeer 1)\<lparr>p_miner := Some demo_wallet, p_ledger := SetBalance MakeLedger (SafeEncode demo_wallet) 1\<rparr>"

lemma demo_payout_sent:
  assumes "ascii i"
  shows "\<exists>p' tr'. FloodPoSTransaction demo_env demo_payer [] (NewSignedTransaction demo_env i demo_wallet demo_payee 1) = Some (p', tr') \<and>
    p_blockchain p' = None"
proof -
  let ?t = "NewSignedTransaction demo_env i demo_wallet demo_payee 1"
  have f: "tx_From ?t = SafeEncode demo_wallet" "tx_Amount ?t = 1" "\<not> IsAMM ?t" "tx_ID ?t = i"
    by (simp_all add: NewSignedTransaction_def signTransaction_def Let_def SignedTransaction_zero_def IsAMM_def go_eval)
  have plain: "plain_tx ?t"
    using assms by (simp add: plain_tx_def NewSignedTransaction_def signTransaction_def Let_def SignedTransaction_zero_def in_i64_def
        ascii_b64_encode SafeEncode_def demo_payee_def) (simp add: ascii_def list_all_iff)
  have "Verify demo_env ?t (SafeEncode demo_wallet) = Some (?t, True)"
    unfolding NewSignedTransaction_def Let_def by (rule signed_verifies [OF demo_wallet_ok demo_sha_length]) (simp add: SignedTransaction_zero_def)
  then show ?thesis
    by (simp add: FloodPoSTransaction_def handlePoSTransaction_def payload_bytes_def tx_roundtrip [OF plain] f demo_payer_def NewPeer_def
        FloodNetwork_def connectionSnapshot_def Let_def)
qed

lemma idle_slots: "p_blockchain p = None \<Longrightarrow> \<exists>slot'. mine_slots E Ws k p tr slot = Some (p, tr, slot', None)"
  by (induction k arbitrary: slot) (simp_all add: MineOneSlot_def)

definition demo_paying_cfg :: NodeConfig where
  "demo_paying_cfg = demo_cfg\<lparr>RewardPayoutAddress := demo_payee\<rparr>"

definition demo_paying_node :: Node where
  "demo_paying_node = demo_node\<lparr>nd_peer := demo_payer\<rparr>"

lemma demo_paying_tick: "\<exists>n' tr' tx. slot_tick demo_env (\<lambda>_. demo_world) 1000 demo_paying_cfg demo_paying_node [] = Some (n', tr', Some tx, None)"
proof -
  define i where "i = ''monthly-payout-'' @ Itoa 1000 @ ''-'' @ demo_payee @ ''-'' @ Itoa 1"
  have payee: "TrimSpace demo_payee \<noteq> []" "ToLower (TrimSpace demo_payee) = demo_payee" "HasPrefix demo_payee ''0x''" "length demo_payee = 42"
    "demo_payee \<noteq> []" "ascii demo_payee" by code_simp+
  then have "ascii i" using ascii_Itoa_text by (simp add: i_def ascii_def)
  from demo_payout_sent [OF this] obtain p tr where
    p: "FloodPoSTransaction demo_env demo_payer [] (NewSignedTransaction demo_env i demo_wallet demo_payee 1) = Some (p, tr)" "p_blockchain p = None"
    by blast
  have stake: "ValidatorStake demo_payer = 1" "p_miner demo_payer = Some demo_wallet"
    by (simp_all add: demo_payer_def ValidatorStake_def GetBalance_def SetBalance_def mget_def)
  have "maybeQueueMonthlyPayout demo_env demo_payer [] demo_paying_cfg 1000 0 =
      Some (p, tr, 1000, Some (NewSignedTransaction demo_env i demo_wallet demo_payee 1))"
    using p(1) by (simp add: maybeQueueMonthlyPayout_def demo_paying_cfg_def payee stake FloodValidatorWithdrawTransaction_def Let_def
        flood_own_def i_def)
  moreover obtain slot where "mine_slots demo_env (\<lambda>_. demo_world)
      (nat (mineAttemptsForNetwork (int (MempoolSize p)) (i64 (PeerCount p + 1)) demo_paying_cfg)) p tr 5 = Some (p, tr, slot, None)"
    using idle_slots [OF p(2)] by blast
  ultimately show ?thesis by (simp add: slot_tick_def demo_paying_node_def demo_node_def Let_def)
qed

theorem payouts_monthly_witness:
  "\<exists>n. node_run demo_env demo_paying_cfg demo_paying_node n [] [1000] \<and> sorted_wrt (\<lambda>s t. s + monthlyPayoutIntervalSeconds \<le> t) [1000]"
proof -
  obtain n tr tx where "slot_tick demo_env (\<lambda>_. demo_world) 1000 demo_paying_cfg demo_paying_node [] = Some (n, tr, Some tx, None)"
    using demo_paying_tick by blast
  from node_run.ticked [OF node_run.started this] have run: "node_run demo_env demo_paying_cfg demo_paying_node n [] [1000]"
    by (simp add: demo_paying_node_def demo_node_def demo_paying_cfg_def demo_cfg_fields max_int_def)
  from payouts_monthly [OF run] run show ?thesis by (auto simp: demo_paying_node_def demo_node_def)
qed

text \<open>
  With an accepted configuration a tick makes at least one attempt and at most as many as the larger of the two
  limits, whatever the load and the number of nodes, even when the arithmetic overflows; and it stays between the two limits when they are in order.
\<close>

theorem mining_attempts_bounded:
  assumes "LoadNodeConfigFromEnv getenv answer = (cfg, None)"
  shows "1 \<le> mineAttemptsForNetwork depth nodes cfg \<and>
    mineAttemptsForNetwork depth nodes cfg \<le> max (BaseMineAttemptsPerTick cfg) (MaxMineAttemptsPerTick cfg) \<and>
    (BaseMineAttemptsPerTick cfg \<le> MaxMineAttemptsPerTick cfg \<longrightarrow>
      BaseMineAttemptsPerTick cfg \<le> mineAttemptsForNetwork depth nodes cfg \<and> mineAttemptsForNetwork depth nodes cfg \<le> MaxMineAttemptsPerTick cfg)"
  using attempts_range [OF accepted_limits [OF assms], of depth nodes] by simp

theorem mining_attempts_bounded_witness: "1 \<le> mineAttemptsForNetwork 100 3 demo_cfg \<and> mineAttemptsForNetwork 100 3 demo_cfg \<le> 5"
  using mining_attempts_bounded [OF demo_loaded] by (simp add: demo_cfg_fields)

end
