(* ===== verification/Epidemic.thy ===== *)
theory Epidemic
  imports Main
begin

text \<open>
  The contract of flooding with deduplication, apart from what is flooded: a message that reaches a node for the first time is
  sent on to every neighbour that is not known to have it, and one that the node knows is dropped. The clients of the contract
  are shown here once: deliveries come to an end, and then every node that is connected to one that knows a message knows it.
\<close>

locale epidemic =
  fixes nodes :: nat
    and edge :: "nat \<Rightarrow> nat \<Rightarrow> bool"
    and known :: "'s \<Rightarrow> (nat \<times> 'x) set"
    and pending :: "'s \<Rightarrow> (nat \<times> 'x) list"
    and inv :: "'s \<Rightarrow> bool"
    and originate deliver :: "'s \<Rightarrow> 's \<Rightarrow> bool"
  assumes inv_pending: "inv s \<Longrightarrow> (i, x) \<in> set (pending s) \<Longrightarrow> i < nodes"
    and inv_originate: "inv s \<Longrightarrow> originate s s' \<Longrightarrow> inv s'"
    and inv_deliver: "inv s \<Longrightarrow> deliver s s' \<Longrightarrow> inv s'"
    and originates: "inv s \<Longrightarrow> originate s s' \<Longrightarrow> known s' = known s \<and> pending s' = pending s \<or>
      (\<exists>i x new. known s' = insert (i, x) (known s) \<and> pending s' = pending s @ new \<and> (\<forall>k. edge i k \<longrightarrow> (k, x) \<in> known s \<union> set new))"
    and delivers: "inv s \<Longrightarrow> deliver s s' \<Longrightarrow> \<exists>xs i x ys new. pending s = xs @ (i, x) # ys \<and> pending s' = xs @ ys @ new \<and>
      known s' = insert (i, x) (known s) \<and> length new \<le> nodes \<and> (\<forall>(k, y) \<in> set new. y = x) \<and>
      (if (i, x) \<in> known s then new = [] else \<forall>k. edge i k \<longrightarrow> (k, x) \<in> known s \<union> set new)"
    and progress: "inv s \<Longrightarrow> pending s \<noteq> [] \<Longrightarrow> \<exists>s'. deliver s s'"
begin

text \<open>A message a node knows is known to its neighbours or on its way to them.\<close>

definition covered :: "'s \<Rightarrow> bool" where
  "covered s \<longleftrightarrow> (\<forall>i x k. (i, x) \<in> known s \<longrightarrow> edge i k \<longrightarrow> (k, x) \<in> known s \<union> set (pending s))"

lemma covered_originate:
  assumes "inv s" and "originate s s'" and "covered s"
  shows "covered s'"
  using originates [OF assms(1,2)]
proof
  assume "\<exists>i x new. known s' = insert (i, x) (known s) \<and> pending s' = pending s @ new \<and> (\<forall>k. edge i k \<longrightarrow> (k, x) \<in> known s \<union> set new)"
  then obtain i x new where "known s' = insert (i, x) (known s)" "pending s' = pending s @ new"
    "\<forall>k. edge i k \<longrightarrow> (k, x) \<in> known s \<union> set new" by blast
  with assms(3) show ?thesis unfolding covered_def by auto
qed (use assms(3) in \<open>simp add: covered_def\<close>)

lemma covered_deliver:
  assumes "inv s" and "deliver s s'" and "covered s"
  shows "covered s'"
proof -
  from delivers [OF assms(1,2)] obtain xs i x ys new where
    d: "pending s = xs @ (i, x) # ys" "pending s' = xs @ ys @ new" "known s' = insert (i, x) (known s)"
    and new: "if (i, x) \<in> known s then new = [] else \<forall>k. edge i k \<longrightarrow> (k, x) \<in> known s \<union> set new" by blast
  have old: "(k, y) \<in> known s \<union> set (pending s)" if "(j, y) \<in> known s" "edge j k" for j k y
    using assms(3) that unfolding covered_def by blast
  show ?thesis unfolding covered_def
  proof (intro allI impI)
    fix j y k
    assume "(j, y) \<in> known s'" and e: "edge j k"
    then consider "(j, y) \<in> known s" | "(j, y) = (i, x)" "(i, x) \<notin> known s" using d(3) by auto
    then show "(k, y) \<in> known s' \<union> set (pending s')"
    proof cases
      case 1
      with old e show ?thesis unfolding d by auto
    next
      case 2
      with new e show ?thesis unfolding d by auto
    qed
  qed
qed

abbreviation spreads :: "'s \<Rightarrow> 's \<Rightarrow> bool" where
  "spreads s s' \<equiv> originate s s' \<or> deliver s s'"

lemma spreads_kept:
  assumes "spreads\<^sup>*\<^sup>* s s'" and "inv s" and "covered s"
  shows "inv s' \<and> covered s'"
  using assms(1)
proof (induction rule: rtranclp_induct)
  case (step s1 s2)
  then show ?case using inv_originate inv_deliver covered_originate covered_deliver by blast
qed (use assms in simp)

lemma known_spread: "inv s \<Longrightarrow> spreads s s' \<Longrightarrow> known s \<subseteq> known s'"
  using originates delivers by fastforce

lemma known_spreads: "spreads\<^sup>*\<^sup>* s s' \<Longrightarrow> inv s \<Longrightarrow> known s \<subseteq> known s' \<and> inv s'"
  by (induction rule: rtranclp_induct) (use known_spread inv_originate inv_deliver in blast)+

lemma delivers_spreads: "deliver\<^sup>*\<^sup>* s s' \<Longrightarrow> spreads\<^sup>*\<^sup>* s s'"
  by (auto elim: mono_rtranclp [rule_format, rotated])

lemma known_delivers: "deliver\<^sup>*\<^sup>* s s' \<Longrightarrow> inv s \<Longrightarrow> known s \<subseteq> known s' \<and> inv s'"
  by (rule known_spreads [OF delivers_spreads])

lemma delivers_kept: "deliver\<^sup>*\<^sup>* s s' \<Longrightarrow> inv s \<Longrightarrow> covered s \<Longrightarrow> inv s' \<and> covered s'"
  by (rule spreads_kept [OF delivers_spreads])

text \<open>At rest nothing is missing.\<close>

lemma at_rest:
  assumes "edge\<^sup>*\<^sup>* i k" and "covered s" and "pending s = []" and "(i, x) \<in> known s"
  shows "(k, x) \<in> known s"
  using assms by (induction rule: rtranclp_induct) (auto simp: covered_def)

text \<open>Every delivery uses up a message; only the first delivery of a message to a node makes new ones.\<close>

definition missing :: "'s \<Rightarrow> (nat \<times> 'x) set" where
  "missing s = {..<nodes} \<times> snd ` set (pending s) - known s"

definition work :: "'s \<Rightarrow> nat" where
  "work s = length (pending s) + (nodes + 1) * card (missing s)"

lemma finite_missing [simp]: "finite (missing s)"
  by (simp add: missing_def)

lemma deliver_works:
  assumes "inv s" and "deliver s s'"
  shows "work s' < work s"
proof -
  from delivers [OF assms] obtain xs i x ys new where
    d: "pending s = xs @ (i, x) # ys" "pending s' = xs @ ys @ new" "known s' = insert (i, x) (known s)"
    and n: "length new \<le> nodes" "\<forall>(k, y) \<in> set new. y = x" "(i, x) \<in> known s \<Longrightarrow> new = []" by (metis (lifting))
  have "snd ` set (pending s') \<subseteq> snd ` set (pending s)" using d n(2) by auto
  then have sub: "missing s' \<subseteq> missing s" using d(3) unfolding missing_def by auto
  show ?thesis
  proof (cases "(i, x) \<in> known s")
    case True
    then have "length (pending s') < length (pending s)" using d n(3) by simp
    with card_mono [OF finite_missing sub] show ?thesis unfolding work_def by (meson add_less_le_mono mult_le_mono2)
  next
    case False
    have "i < nodes" using inv_pending [OF assms(1), of i x] d(1) by simp
    then have "(i, x) \<in> missing s - missing s'" using False d by (force simp: missing_def)
    then have "missing s' \<subset> missing s" using sub by blast
    then have "Suc (card (missing s')) \<le> card (missing s)" using psubset_card_mono [OF finite_missing] by (simp add: Suc_leI)
    then have "(nodes + 1) * Suc (card (missing s')) \<le> (nodes + 1) * card (missing s)" by (rule mult_le_mono2)
    moreover have "length (pending s') \<le> length (pending s) + nodes - 1" using d n(1) by simp
    ultimately show ?thesis unfolding work_def using d(1) by simp
  qed
qed

lemma deliveries_bounded: "(deliver ^^ n) s s' \<Longrightarrow> inv s \<Longrightarrow> n + work s' \<le> work s"
proof (induction n arbitrary: s')
  case (Suc n)
  then obtain s1 where s1: "(deliver ^^ n) s s1" "deliver s1 s'" by auto
  have "inv s1" using known_delivers [OF relpowp_imp_rtranclp [OF s1(1)] Suc.prems(2)] ..
  from deliver_works [OF this s1(2)] Suc.IH [OF s1(1) Suc.prems(2)] show ?case by simp
qed simp

lemma settles: "inv s \<Longrightarrow> \<exists>s'. deliver\<^sup>*\<^sup>* s s' \<and> pending s' = []"
proof (induction "work s" arbitrary: s rule: less_induct)
  case less
  show ?case
  proof (cases "pending s = []")
    case False
    then obtain s1 where s1: "deliver s s1" using progress [OF less.prems] by blast
    from less.hyps [OF deliver_works [OF less.prems s1] inv_deliver [OF less.prems s1]] s1 show ?thesis
      by (blast intro: converse_rtranclp_into_rtranclp)
  qed blast
qed

end

end
