(* ===== verification/Network.thy ===== *)
theory Network
  imports PeerInvariants Epidemic
begin

text \<open>
  Several peers and the messages on their way between them. A peer writes to its connections; \<open>link i c\<close> is the peer at the
  other end of connection \<open>c\<close> of peer \<open>i\<close>. The readers of the connections (\<open>handleDecode\<close>) run beside each other, so a
  message on its way may be handled at any time, also before one that was sent earlier on another connection.
\<close>

record network =
  net_peers :: "nat \<Rightarrow> Peer"
  net_flight :: "(nat \<times> Message) list"

fun written :: "(conn \<Rightarrow> nat) \<Rightarrow> trace \<Rightarrow> (nat \<times> Message) list" where
  "written to [] = []"
| "written to (Write c m # tr) = (to c, m) # written to tr"
| "written to (_ # tr) = written to tr"

text \<open>A peer has acted: its new state, and what it has written is on its way.\<close>

definition acted :: "(nat \<Rightarrow> conn \<Rightarrow> nat) \<Rightarrow> network \<Rightarrow> nat \<Rightarrow> Peer \<Rightarrow> trace \<Rightarrow> network" where
  "acted link s i p tr = s\<lparr>net_peers := (net_peers s)(i := p), net_flight := net_flight s @ written (link i) tr\<rparr>"

text \<open>The reader of a connection takes the next message from it and handles it.\<close>

inductive delivery :: "env \<Rightarrow> (nat \<Rightarrow> conn \<Rightarrow> nat) \<Rightarrow> network \<Rightarrow> network \<Rightarrow> bool" for E link s where
  delivered: "net_flight s = before @ (i, msg) # after \<Longrightarrow> OnMessage E W (net_peers s i) [] (msg_From msg) msg = Some (p, tr) \<Longrightarrow>
    delivery E link s (acted link (s\<lparr>net_flight := before @ after\<rparr>) i p tr)"

text \<open>A peer of the network floods a transaction of its own choice out of \<open>T\<close>.\<close>

inductive submission :: "env \<Rightarrow> (nat \<Rightarrow> conn \<Rightarrow> nat) \<Rightarrow> nat \<Rightarrow> SignedTransaction set \<Rightarrow> network \<Rightarrow> network \<Rightarrow> bool" for E link n T s where
  submitted: "i < n \<Longrightarrow> t \<in> T \<Longrightarrow> FloodPoSTransaction E (net_peers s i) [] t = Some (p, tr) \<Longrightarrow> submission E link n T s (acted link s i p tr)"

text \<open>
  A network that has formed: the peers have different identifiers, each connection is stored under the identifier of the peer at
  its other end, and only the entry of the peer itself is nil (\<open>Start\<close>).
\<close>

definition formed :: "(nat \<Rightarrow> conn \<Rightarrow> nat) \<Rightarrow> nat \<Rightarrow> (nat \<Rightarrow> Peer) \<Rightarrow> bool" where
  "formed link n P \<longleftrightarrow> inj_on (\<lambda>i. p_id (P i)) {..<n} \<and>
     (\<forall>i < n. nil_self (P i) \<and> (\<forall>k c. fmlookup (p_conns (P i)) k = Some (Some c) \<longrightarrow> link i c < n \<and> link i c \<noteq> i \<and> k = p_id (P (link i c))))"

definition neighbour :: "(nat \<Rightarrow> conn \<Rightarrow> nat) \<Rightarrow> nat \<Rightarrow> (nat \<Rightarrow> Peer) \<Rightarrow> nat \<Rightarrow> nat \<Rightarrow> bool" where
  "neighbour link n P i j \<longleftrightarrow> i < n \<and> (\<exists>c. fmlookup (p_conns (P i)) (p_id (P j)) = Some (Some c) \<and> link i c = j)"

text \<open>The transactions the theorems are about: their texts survive the wire and their admission does not depend on a ledger.\<close>

definition gossiped :: "SignedTransaction set \<Rightarrow> bool" where
  "gossiped T \<longleftrightarrow> (\<forall>t \<in> T. plain_tx t \<and> \<not> IsAMM t)"

text \<open>A transaction that the check of a peer accepts (\<open>handlePoSTransaction\<close>).\<close>

definition acceptable :: "env \<Rightarrow> SignedTransaction \<Rightarrow> bool" where
  "acceptable E t \<longleftrightarrow> 0 \<le> tx_Amount t \<and> (IsEVM t \<or> IsNFT t \<or> 1 \<le> tx_Amount t) \<and> Verify E t (tx_From t) = Some (t, True)"

section \<open>One peer\<close>

definition tx_message :: "SignedTransaction \<Rightarrow> string \<Rightarrow> Message" where
  "tx_message t src = \<lparr>msg_Type = POS_TRANSACTION_MESSAGE_TYPE, msg_MsgID = tx_ID t, msg_From = src,
     msg_Payload = Some (json_marshal (tx_json t))\<rparr>"

lemma tx_message_fields [simp]: "msg_Type (tx_message t f) = POS_TRANSACTION_MESSAGE_TYPE" "msg_MsgID (tx_message t f) = tx_ID t"
  "msg_From (tx_message t f) = f" "payload_bytes (tx_message t f) = json_marshal (tx_json t)" "(tx_message t f)\<lparr>msg_From := g\<rparr> = tx_message t g"
  by (simp_all add: tx_message_def payload_bytes_def)

text \<open>The state of a peer after it took a transaction it had not seen, and what it writes.\<close>

definition took :: "SignedTransaction \<Rightarrow> string \<Rightarrow> string list \<Rightarrow> Peer \<Rightarrow> Peer" where
  "took t src heard p = p\<lparr>p_mempool := admit t (p_mempool p), p_msgHistory := fmupd (tx_ID t)
     ((received_history (tx_message t src))\<lparr>hist_receivedFrom := src # heard, hist_isSent := True\<rparr>) (p_msgHistory p)\<rparr>"

definition floods :: "Peer \<Rightarrow> SignedTransaction \<Rightarrow> string \<Rightarrow> trace" where
  "floods p t src = map (\<lambda>k. Write (the (connection p k)) (tx_message t (p_id p))) (filter (\<lambda>k. k \<noteq> p_id p \<and> k \<noteq> src) (connectionIDs p))"

lemma handle_tx:
  assumes "plain_tx t" and "\<not> IsAMM t" and "\<not> mhas (p_msgHistory p) (tx_ID t) \<Longrightarrow> \<not> mhas (p_mempool p) (tx_ID t)" and "acceptable E t"
  shows "handlePoSTransaction E p (tx_message t src) =
    (if mhas (p_msgHistory p) (tx_ID t) then Some (p, False)
     else Some (p\<lparr>p_mempool := admit t (p_mempool p), p_msgHistory := fmupd (tx_ID t) (received_history (tx_message t src)) (p_msgHistory p)\<rparr>, True))"
  using assms by (auto simp: handlePoSTransaction_def tx_roundtrip acceptable_def Let_def)

lemma refuse_tx:
  assumes "plain_tx t" and "\<not> IsAMM t" and "\<not> acceptable E t" and "handlePoSTransaction E p (tx_message t src) = Some (p', ok)"
  shows "p' = p \<and> \<not> ok"
  using assms(4)
proof (cases rule: handlePoSTransaction_cases)
  case (2 t0 t1 u)
  then have "t0 = t" using assms(1) by (simp add: tx_roundtrip)
  with 2(2-4) assms(2,3) show ?thesis by (auto simp: acceptable_def dest: Verify_same)
qed simp

lemma flood_unsent:
  assumes "nil_self p" and "fmlookup (p_msgHistory p) (msg_MsgID msg) = Some h" and "\<not> hist_isSent h"
  shows "FloodNetwork p tr msg = Some (p\<lparr>p_msgHistory := fmupd (msg_MsgID msg) (h\<lparr>hist_isSent := True\<rparr>) (p_msgHistory p)\<rparr>,
    tr @ map (\<lambda>k. Write (the (connection p k)) (msg\<lparr>msg_From := p_id p\<rparr>))
      (filter (\<lambda>k. k \<noteq> p_id p \<and> k \<notin> set (hist_receivedFrom h)) (connectionIDs p)))"
proof -
  have "nil_self (p\<lparr>p_msgHistory := m\<rparr>)" for m using assms(1) by (simp add: nil_self_def)
  from write_to_writes [OF this, of "mkeys (p_conns p)"] show ?thesis
    using assms(2,3) by (simp add: FloodNetwork_def Let_def mget_def connectionSnapshot_def connectionIDs_def connection_def)
qed

lemma submit_acceptable:
  assumes "plain_tx t" and "\<not> IsAMM t" and "\<not> mhas (p_msgHistory p) (tx_ID t) \<Longrightarrow> \<not> mhas (p_mempool p) (tx_ID t)" and "nil_self p"
    and "acceptable E t"
  shows "FloodPoSTransaction E p [] t = (if mhas (p_msgHistory p) (tx_ID t) then Some (p, []) else Some (took t (p_id p) [] p, floods p t (p_id p)))"
proof -
  have "nil_self (p\<lparr>p_mempool := m, p_msgHistory := h\<rparr>)" for m h using assms(4) by (simp add: nil_self_def)
  note flood = flood_unsent [OF this, where msg = "tx_message t (p_id p)"]
  show ?thesis
    by (simp add: FloodPoSTransaction_def Let_def tx_message_def [symmetric] handle_tx [OF assms(1-3,5)] flood took_def floods_def
        received_history_def NewMessageHistory_def connection_def connectionIDs_def)
qed

lemma submit_tx:
  assumes "plain_tx t" and "\<not> IsAMM t" and "\<not> mhas (p_msgHistory p) (tx_ID t) \<Longrightarrow> \<not> mhas (p_mempool p) (tx_ID t)" and "nil_self p"
    and "FloodPoSTransaction E p [] t = Some (p', tr)"
  shows "p' = p \<and> tr = [] \<or>
    \<not> mhas (p_msgHistory p) (tx_ID t) \<and> acceptable E t \<and> p' = took t (p_id p) [] p \<and> tr = floods p t (p_id p)"
proof (cases "acceptable E t")
  case False
  with assms refuse_tx [OF assms(1,2)] show ?thesis by (fastforce simp: FloodPoSTransaction_def Let_def tx_message_def [symmetric])
next
  case True
  with assms(5) submit_acceptable [OF assms(1-4)] show ?thesis by (auto split: if_splits)
qed

lemma deliver_tx:
  assumes "plain_tx t" and "\<not> IsAMM t" and "\<not> mhas (p_msgHistory p) (tx_ID t) \<Longrightarrow> \<not> mhas (p_mempool p) (tx_ID t)" and "nil_self p"
    and "acceptable E t"
  shows "OnMessage E W p [] src' (tx_message t src) =
    (if mhas (p_msgHistory p) (tx_ID t) then Some (p, []) else Some (took t src [src] p, floods p t src))"
proof -
  have "nil_self (p\<lparr>p_mempool := m, p_msgHistory := h\<rparr>)" for m h using assms(4) by (simp add: nil_self_def)
  note flood = flood_unsent [OF this, where msg = "tx_message t src"]
  have "OnMessage E W p [] src' (tx_message t src) =
      do { (p, ok) \<leftarrow> handlePoSTransaction E p (tx_message t src); if ok then forward p [] (tx_message t src) else Some (p, []) }"
    by (simp add: OnMessage_def message_types)
  moreover have "forward q [] (tx_message t src) = FloodNetwork (addReceivedFloodMessage q (tx_message t src)) [] (tx_message t src)" for q
    by (simp add: forward_def message_types option.map_id)
  ultimately show ?thesis
    by (simp add: handle_tx [OF assms(1-3,5)] addReceivedFloodMessage_def Let_def flood
        took_def floods_def received_history_def NewMessageHistory_def connection_def connectionIDs_def)
qed

end
