(* ===== verification/GossipFacts.thy ===== *)
theory GossipFacts
  imports Network
begin

text \<open>
  The gossip of transactions keeps the contract of \<open>epidemic\<close>: the network of peers with its submissions and deliveries is an
  instance of it.
\<close>

section \<open>What a peer writes\<close>

lemma written_append [simp]: "written to (tr @ tr') = written to tr @ written to tr'"
  by (induction to tr rule: written.induct) auto

lemma written_writes: "written to (map (\<lambda>k. Write (f k) m) ks) = map (\<lambda>k. (to (f k), m)) ks"
  by (induction ks) auto

lemma formed_conn:
  assumes "formed link n P" and "i < n" and "fmlookup (p_conns (P i)) k = Some (Some c)"
  shows "link i c < n" "link i c \<noteq> i" "k = p_id (P (link i c))"
  using assms by (auto simp: formed_def)

lemma formed_id:
  assumes "formed link n P" and "i < n" and "j < n" and "p_id (P i) = p_id (P j)"
  shows "i = j"
  using assms by (auto simp: formed_def inj_on_def)

lemma neighbour_apart:
  assumes "formed link n P" and "neighbour link n P i k"
  shows "k < n" "k \<noteq> i" "p_id (P k) \<noteq> p_id (P i)"
proof -
  from assms(2) obtain c where c: "i < n" "fmlookup (p_conns (P i)) (p_id (P k)) = Some (Some c)" "link i c = k" by (auto simp: neighbour_def)
  show "k < n" "k \<noteq> i" using formed_conn(1,2) [OF assms(1) c(1,2)] c(3) by simp_all
  with formed_id [OF assms(1) _ c(1)] show "p_id (P k) \<noteq> p_id (P i)" by blast
qed

lemma formed_key:
  assumes "formed link n P" and "i < n" and "k \<in> fset (fmdom (p_conns (P i)))"
  shows "\<exists>j < n. k = p_id (P j)"
proof -
  from assms(3) obtain e where e: "fmlookup (p_conns (P i)) k = Some e" by (metis fmdomE)
  show ?thesis
  proof (cases e)
    case None
    with e assms(1,2) show ?thesis by (auto simp: formed_def nil_self_def)
  next
    case (Some c)
    with e formed_conn [OF assms(1,2)] show ?thesis by blast
  qed
qed

text \<open>A peer writes to each of its connections but its own and the one the message came from, and so to at most \<open>n\<close> peers.\<close>

lemma written_floods:
  assumes "formed link n P" and "i < n" and "p_id p = p_id (P i)" and "p_conns p = p_conns (P i)"
  shows "length (written (link i) (floods p t src)) \<le> n"
    and "(j, m) \<in> set (written (link i) (floods p t src)) \<Longrightarrow> j < n \<and> m = tx_message t (p_id (P i))"
    and "neighbour link n P i j \<Longrightarrow> p_id (P j) \<noteq> src \<Longrightarrow> (j, tx_message t (p_id (P i))) \<in> set (written (link i) (floods p t src))"
proof -
  let ?keys = "filter (\<lambda>k. k \<noteq> p_id (P i) \<and> k \<noteq> src) (mkeys (p_conns (P i)))"
  have w: "written (link i) (floods p t src) = map (\<lambda>k. (link i (the (connection p k)), tx_message t (p_id (P i)))) ?keys"
    by (simp add: floods_def written_writes assms(3,4) connectionIDs_def)
  have conn: "\<exists>c. fmlookup (p_conns (P i)) k = Some (Some c) \<and> connection p k = Some c" if "k \<in> set ?keys" for k
  proof -
    from that obtain e where e: "fmlookup (p_conns (P i)) k = Some e" "k \<noteq> p_id (P i)" by (auto elim: fmdomE)
    with assms(1,2) have "e \<noteq> None" by (cases e) (auto simp: formed_def nil_self_def)
    with e show ?thesis by (auto simp: connection_def mget_def assms(4))
  qed
  have "length (written (link i) (floods p t src)) = card (set ?keys)"
    unfolding w length_map by (rule distinct_card [symmetric]) (simp add: mkeys_def sorted_list_of_fset.rep_eq)
  also have "\<dots> \<le> card ((\<lambda>j. p_id (P j)) ` {..<n})" using formed_key [OF assms(1,2)] by (intro card_mono) auto
  also have "\<dots> \<le> n" using card_image_le [of "{..<n}" "\<lambda>j. p_id (P j)"] by simp
  finally show "length (written (link i) (floods p t src)) \<le> n" .
  show "j < n \<and> m = tx_message t (p_id (P i))" if "(j, m) \<in> set (written (link i) (floods p t src))"
    using that conn formed_conn(1) [OF assms(1,2)] unfolding w by fastforce
  show "(j, tx_message t (p_id (P i))) \<in> set (written (link i) (floods p t src))" if nb: "neighbour link n P i j" and new: "p_id (P j) \<noteq> src"
  proof -
    from nb obtain c where c: "fmlookup (p_conns (P i)) (p_id (P j)) = Some (Some c)" "link i c = j" by (auto simp: neighbour_def)
    from c(1) new neighbour_apart(3) [OF assms(1) nb] have "p_id (P j) \<in> set ?keys" by (simp add: fmdomI)
    moreover have "connection p (p_id (P j)) = Some c" using c(1) by (simp add: connection_def mget_def assms(4))
    ultimately show ?thesis unfolding w using c(2) by force
  qed
qed

section \<open>The invariant\<close>

definition seen :: "network \<Rightarrow> nat \<Rightarrow> string \<Rightarrow> bool" where
  "seen s i x \<longleftrightarrow> hasSeenMessage (net_peers s i) x"

definition gossip_known :: "nat \<Rightarrow> SignedTransaction set \<Rightarrow> network \<Rightarrow> (nat \<times> string) set" where
  "gossip_known n T s = {(i, x). i < n \<and> x \<in> tx_ID ` T \<and> seen s i x}"

definition gossip_pending :: "network \<Rightarrow> (nat \<times> string) list" where
  "gossip_pending s = map (\<lambda>(i, m). (i, msg_MsgID m)) (net_flight s)"

definition honest_peer :: "SignedTransaction set \<Rightarrow> Peer \<Rightarrow> Peer \<Rightarrow> bool" where
  "honest_peer T p0 p \<longleftrightarrow> p_id p = p_id p0 \<and> p_conns p = p_conns p0 \<and>
     (\<forall>t \<in> T. \<not> mhas (p_msgHistory p) (tx_ID t) \<longrightarrow> \<not> mhas (p_mempool p) (tx_ID t))"

definition honest_flight :: "env \<Rightarrow> nat \<Rightarrow> (nat \<Rightarrow> Peer) \<Rightarrow> SignedTransaction set \<Rightarrow> network \<Rightarrow> nat \<times> Message \<Rightarrow> bool" where
  "honest_flight E n P T s = (\<lambda>(i, m). i < n \<and> (\<exists>t \<in> T. \<exists>j < n. acceptable E t \<and> m = tx_message t (p_id (P j)) \<and> seen s j (tx_ID t)))"

definition gossip_inv :: "env \<Rightarrow> (nat \<Rightarrow> conn \<Rightarrow> nat) \<Rightarrow> nat \<Rightarrow> (nat \<Rightarrow> Peer) \<Rightarrow> SignedTransaction set \<Rightarrow> network \<Rightarrow> bool" where
  "gossip_inv E link n P T s \<longleftrightarrow> formed link n P \<and> gossiped T \<and> (\<forall>i < n. honest_peer T (P i) (net_peers s i)) \<and>
     list_all (honest_flight E n P T s) (net_flight s)"

lemma honest_nil: "formed link n P \<Longrightarrow> i < n \<Longrightarrow> honest_peer T (P i) p \<Longrightarrow> nil_self p"
  by (auto simp: formed_def honest_peer_def nil_self_def)

lemma seen_acted: "seen (acted link s i p tr) j x \<longleftrightarrow> (if j = i then hasSeenMessage p x else seen s j x)"
  by (simp add: seen_def acted_def)

lemma pending_acted [simp]: "gossip_pending (acted link s i p tr) = gossip_pending s @ map (\<lambda>(i, m). (i, msg_MsgID m)) (written (link i) tr)"
  by (simp add: gossip_pending_def acted_def)

lemma took_fields [simp]: "p_id (took t f h p) = p_id p" "p_conns (took t f h p) = p_conns p"
  "hasSeenMessage (took t f h p) x \<longleftrightarrow> x = tx_ID t \<or> hasSeenMessage p x"
  by (auto simp: took_def hasSeenMessage_def mhas_def)

lemma mempool_took: "mhas (p_mempool (took t f h p)) x \<Longrightarrow> x = tx_ID t \<or> mhas (p_mempool p) x"
  by (auto simp: took_def admit_def mhas_def Let_def split: if_splits)

lemma honest_took: "honest_peer T p0 p \<Longrightarrow> honest_peer T p0 (took t f h p)"
  using mempool_took by (fastforce simp: honest_peer_def hasSeenMessage_def [symmetric])

text \<open>A peer takes a new transaction: the invariant stays, and the neighbours know it or will be told.\<close>

lemma took_step:
  assumes inv: "gossip_inv E link n P T s" and i: "i < n" and t: "t \<in> T" "acceptable E t"
    and s': "s' = acted link s i (took t src h (net_peers s i)) (floods (net_peers s i) t src)"
  shows "gossip_inv E link n P T s'" and "gossip_known n T s' = insert (i, tx_ID t) (gossip_known n T s)"
    and "\<exists>new. gossip_pending s' = gossip_pending s @ new \<and> length new \<le> n \<and> (\<forall>(k, y) \<in> set new. y = tx_ID t) \<and>
      (\<forall>k. neighbour link n P i k \<longrightarrow> p_id (P k) \<noteq> src \<longrightarrow> (k, tx_ID t) \<in> set new)"
proof -
  let ?p = "net_peers s i"
  have f: "formed link n P" and p: "honest_peer T (P i) ?p" "p_id ?p = p_id (P i)" "p_conns ?p = p_conns (P i)"
    using inv i by (auto simp: gossip_inv_def honest_peer_def)
  note w = written_floods [OF f i p(2,3), where t = t and src = src]
  have seen': "seen s' j x \<longleftrightarrow> seen s j x \<or> (j, x) = (i, tx_ID t)" for j x
    unfolding s' seen_acted by (auto simp: seen_def)
  show "gossip_known n T s' = insert (i, tx_ID t) (gossip_known n T s)"
    using i t(1) by (auto simp: gossip_known_def seen')
  have new: "net_flight s' = net_flight s @ written (link i) (floods ?p t src)" unfolding s' by (simp add: acted_def)
  have "honest_flight E n P T s' f" if "honest_flight E n P T s f" for f
    using that by (auto simp: honest_flight_def seen')
  moreover have "honest_flight E n P T s' f" if "f \<in> set (written (link i) (floods ?p t src))" for f
    using w(2) that i t by (cases f) (auto simp: honest_flight_def seen')
  ultimately have "list_all (honest_flight E n P T s') (net_flight s')"
    using inv unfolding new by (auto simp: gossip_inv_def list_all_iff)
  moreover have "honest_peer T (P j) (net_peers s' j)" if "j < n" for j
    using inv that honest_took [OF p(1)] unfolding s' by (auto simp: gossip_inv_def acted_def)
  ultimately show "gossip_inv E link n P T s'" using inv by (simp add: gossip_inv_def)
  have "gossip_pending s' = gossip_pending s @ map (\<lambda>(i, m). (i, msg_MsgID m)) (written (link i) (floods ?p t src))" unfolding s' by simp
  moreover have "\<forall>(k, y) \<in> set (map (\<lambda>(i, m). (i, msg_MsgID m)) (written (link i) (floods ?p t src))). y = tx_ID t" using w(2) by fastforce
  moreover have "(k, tx_ID t) \<in> set (map (\<lambda>(i, m). (i, msg_MsgID m)) (written (link i) (floods ?p t src)))"
    if "neighbour link n P i k" "p_id (P k) \<noteq> src" for k using w(3) [OF that] by force
  ultimately show "\<exists>new. gossip_pending s' = gossip_pending s @ new \<and> length new \<le> n \<and> (\<forall>(k, y) \<in> set new. y = tx_ID t) \<and>
      (\<forall>k. neighbour link n P i k \<longrightarrow> p_id (P k) \<noteq> src \<longrightarrow> (k, tx_ID t) \<in> set new)"
    using w(1) by (metis length_map)
qed

section \<open>The steps\<close>

lemma acted_idle: "acted link s i (net_peers s i) [] = s"
  by (simp add: acted_def)

lemma honest_fresh: "honest_peer T p0 p \<Longrightarrow> t \<in> T \<Longrightarrow> \<not> mhas (p_msgHistory p) (tx_ID t) \<Longrightarrow> \<not> mhas (p_mempool p) (tx_ID t)"
  by (simp add: honest_peer_def)

lemma submission_cases:
  assumes "gossip_inv E link n P T s" and "submission E link n T s s'"
  obtains (idle) "s' = s"
  | (took) i t where "i < n" "t \<in> T" "acceptable E t" "\<not> seen s i (tx_ID t)"
      "s' = acted link s i (took t (p_id (P i)) [] (net_peers s i)) (floods (net_peers s i) t (p_id (P i)))"
  using assms(2)
proof cases
  case (submitted i t p tr)
  with assms(1) have t: "plain_tx t" "\<not> IsAMM t" and p: "honest_peer T (P i) (net_peers s i)" "p_id (net_peers s i) = p_id (P i)"
    and f: "formed link n P" by (auto simp: gossip_inv_def gossiped_def honest_peer_def)
  from submit_tx [OF t honest_fresh [OF p(1) submitted(3)] honest_nil [OF f submitted(2) p(1)] submitted(4)]
  consider "p = net_peers s i" "tr = []"
    | "acceptable E t" "\<not> mhas (p_msgHistory (net_peers s i)) (tx_ID t)" "p = took t (p_id (P i)) [] (net_peers s i)"
      "tr = floods (net_peers s i) t (p_id (P i))"
    unfolding p(2) by blast
  then show ?thesis
  proof cases
    case 1
    with submitted(1) show ?thesis by (intro idle) (simp add: acted_idle)
  next
    case 2
    with submitted show ?thesis by (intro took) (simp_all add: seen_def hasSeenMessage_def)
  qed
qed

text \<open>The network without the message that is being handled.\<close>

lemma taken_inv:
  assumes "gossip_inv E link n P T s" and "net_flight s = before @ (i, m) # after"
  shows "gossip_inv E link n P T (s\<lparr>net_flight := before @ after\<rparr>)"
  using assms by (auto simp: gossip_inv_def honest_flight_def seen_def)

lemma taken_known [simp]: "gossip_known n T (s\<lparr>net_flight := f\<rparr>) = gossip_known n T s"
  by (simp add: gossip_known_def seen_def)

lemma flight_cases:
  assumes "gossip_inv E link n P T s" and "(i, m) \<in> set (net_flight s)"
  obtains t j where "i < n" "t \<in> T" "j < n" "acceptable E t" "m = tx_message t (p_id (P j))" "seen s j (tx_ID t)"
    "OnMessage E W (net_peers s i) [] (msg_From m) m = (if seen s i (tx_ID t) then Some (net_peers s i, [])
       else Some (took t (p_id (P j)) [p_id (P j)] (net_peers s i), floods (net_peers s i) t (p_id (P j))))"
proof -
  from assms obtain t j where m: "i < n" "t \<in> T" "j < n" "acceptable E t" "m = tx_message t (p_id (P j))" "seen s j (tx_ID t)"
    by (auto simp: gossip_inv_def list_all_iff honest_flight_def)
  with assms(1) have t: "plain_tx t" "\<not> IsAMM t" and p: "honest_peer T (P i) (net_peers s i)" and f: "formed link n P"
    by (auto simp: gossip_inv_def gossiped_def)
  note deliver_tx [OF t honest_fresh [OF p m(2)] honest_nil [OF f m(1) p] m(4), of W "p_id (P j)" "p_id (P j)"]
  with m show ?thesis by (intro that [of t j]) (simp_all add: seen_def hasSeenMessage_def)
qed

lemma delivery_cases:
  assumes "gossip_inv E link n P T s" and "delivery E link s s'"
  obtains before after i t j where "net_flight s = before @ (i, tx_message t (p_id (P j))) # after" "i < n" "t \<in> T" "j < n" "acceptable E t"
    "seen s j (tx_ID t)"
    "s' = (if seen s i (tx_ID t) then s\<lparr>net_flight := before @ after\<rparr>
       else acted link (s\<lparr>net_flight := before @ after\<rparr>) i (took t (p_id (P j)) [p_id (P j)] (net_peers s i)) (floods (net_peers s i) t (p_id (P j))))"
  using assms(2)
proof cases
  case (delivered before i msg after W p tr)
  have "(i, msg) \<in> set (net_flight s)" using delivered(2) by simp
  from assms(1) this obtain t j where m: "i < n" "t \<in> T" "j < n" "acceptable E t" "msg = tx_message t (p_id (P j))" "seen s j (tx_ID t)"
    "OnMessage E W (net_peers s i) [] (msg_From msg) msg = (if seen s i (tx_ID t) then Some (net_peers s i, [])
       else Some (took t (p_id (P j)) [p_id (P j)] (net_peers s i), floods (net_peers s i) t (p_id (P j))))" by (rule flight_cases)
  show ?thesis
  proof (rule that)
    show "net_flight s = before @ (i, tx_message t (p_id (P j))) # after" using delivered(2) m(5) by simp
    show "s' = (if seen s i (tx_ID t) then s\<lparr>net_flight := before @ after\<rparr>
       else acted link (s\<lparr>net_flight := before @ after\<rparr>) i (took t (p_id (P j)) [p_id (P j)] (net_peers s i)) (floods (net_peers s i) t (p_id (P j))))"
      using delivered(1,3) m(7) acted_idle [of link "s\<lparr>net_flight := before @ after\<rparr>" i] by (auto split: if_splits)
  qed (use m in simp_all)
qed

lemma gossip_submission:
  assumes "gossip_inv E link n P T s" and "submission E link n T s s'"
  shows "gossip_inv E link n P T s'" and "gossip_known n T s' = gossip_known n T s \<and> gossip_pending s' = gossip_pending s \<or>
      (\<exists>i x new. gossip_known n T s' = insert (i, x) (gossip_known n T s) \<and> gossip_pending s' = gossip_pending s @ new \<and>
        (\<forall>k. neighbour link n P i k \<longrightarrow> (k, x) \<in> gossip_known n T s \<union> set new))"
proof -
  have f: "formed link n P" using assms(1) by (simp add: gossip_inv_def)
  from assms show "gossip_inv E link n P T s'"
    by (cases rule: submission_cases) (simp_all add: assms(1) took_step(1) [OF assms(1)])
  from assms show "gossip_known n T s' = gossip_known n T s \<and> gossip_pending s' = gossip_pending s \<or>
      (\<exists>i x new. gossip_known n T s' = insert (i, x) (gossip_known n T s) \<and> gossip_pending s' = gossip_pending s @ new \<and>
        (\<forall>k. neighbour link n P i k \<longrightarrow> (k, x) \<in> gossip_known n T s \<union> set new))"
  proof (cases rule: submission_cases)
    case (took i t)
    from took_step(3) [OF assms(1) took(1-3,5)] obtain new where new: "gossip_pending s' = gossip_pending s @ new"
      "\<forall>k. neighbour link n P i k \<longrightarrow> p_id (P k) \<noteq> p_id (P i) \<longrightarrow> (k, tx_ID t) \<in> set new" by blast
    with neighbour_apart(3) [OF f] have "\<forall>k. neighbour link n P i k \<longrightarrow> (k, tx_ID t) \<in> gossip_known n T s \<union> set new" by blast
    with took_step(2) [OF assms(1) took(1-3,5)] new(1) show ?thesis by blast
  qed simp
qed

lemma gossip_delivery:
  assumes "gossip_inv E link n P T s" and "delivery E link s s'"
  shows "gossip_inv E link n P T s'" and "\<exists>xs i x ys new. gossip_pending s = xs @ (i, x) # ys \<and> gossip_pending s' = xs @ ys @ new \<and>
      gossip_known n T s' = insert (i, x) (gossip_known n T s) \<and> length new \<le> n \<and> (\<forall>(k, y) \<in> set new. y = x) \<and>
      (if (i, x) \<in> gossip_known n T s then new = [] else \<forall>k. neighbour link n P i k \<longrightarrow> (k, x) \<in> gossip_known n T s \<union> set new)"
proof -
  from assms obtain before after i t j where d: "net_flight s = before @ (i, tx_message t (p_id (P j))) # after"
    "i < n" "t \<in> T" "j < n" "acceptable E t" "seen s j (tx_ID t)"
    "s' = (if seen s i (tx_ID t) then s\<lparr>net_flight := before @ after\<rparr>
       else acted link (s\<lparr>net_flight := before @ after\<rparr>) i (took t (p_id (P j)) [p_id (P j)] (net_peers s i)) (floods (net_peers s i) t (p_id (P j))))"
    by (rule delivery_cases)
  let ?s = "s\<lparr>net_flight := before @ after\<rparr>" and ?ids = "map (\<lambda>(i, m). (i, msg_MsgID m))"
  note inv = taken_inv [OF assms(1) d(1)]
  have pending: "gossip_pending s = ?ids before @ (i, tx_ID t) # ?ids after" "gossip_pending ?s = ?ids before @ ?ids after"
    by (simp_all add: gossip_pending_def d(1))
  have known: "(i, tx_ID t) \<in> gossip_known n T s \<longleftrightarrow> seen s i (tx_ID t)" "(j, tx_ID t) \<in> gossip_known n T s"
    using d(2-4,6) by (auto simp: gossip_known_def)
  have both: "gossip_inv E link n P T s' \<and> (\<exists>new. gossip_pending s' = ?ids before @ ?ids after @ new \<and>
      gossip_known n T s' = insert (i, tx_ID t) (gossip_known n T s) \<and> length new \<le> n \<and> (\<forall>(k, y) \<in> set new. y = tx_ID t) \<and>
      (if seen s i (tx_ID t) then new = [] else \<forall>k. neighbour link n P i k \<longrightarrow> (k, tx_ID t) \<in> gossip_known n T s \<union> set new))"
  proof (cases "seen s i (tx_ID t)")
    case True
    with d(7) inv known(1) pending(2) show ?thesis by (auto simp: insert_absorb)
  next
    case False
    then have s': "s' = acted link ?s i (took t (p_id (P j)) [p_id (P j)] (net_peers ?s i)) (floods (net_peers ?s i) t (p_id (P j)))"
      using d(7) by simp
    note step = took_step [OF inv d(2,3,5) s']
    from step(3) obtain new where new: "gossip_pending s' = ?ids before @ ?ids after @ new" "length new \<le> n" "\<forall>(k, y) \<in> set new. y = tx_ID t"
      "\<forall>k. neighbour link n P i k \<longrightarrow> p_id (P k) \<noteq> p_id (P j) \<longrightarrow> (k, tx_ID t) \<in> set new" unfolding pending(2) by auto
    have "(k, tx_ID t) \<in> gossip_known n T s \<union> set new" if nb: "neighbour link n P i k" for k
    proof (cases "p_id (P k) = p_id (P j)")
      case True
      have f: "formed link n P" using inv by (simp add: gossip_inv_def)
      from formed_id [OF f neighbour_apart(1) [OF f nb] d(4) True] known(2) show ?thesis by simp
    qed (use new(4) nb in blast)
    with step(1,2) new False show ?thesis by (auto intro!: exI [of _ new])
  qed
  from both show "gossip_inv E link n P T s'" ..
  from both obtain new where "gossip_pending s' = ?ids before @ ?ids after @ new"
      "gossip_known n T s' = insert (i, tx_ID t) (gossip_known n T s)" "length new \<le> n" "\<forall>(k, y) \<in> set new. y = tx_ID t"
      "if seen s i (tx_ID t) then new = [] else \<forall>k. neighbour link n P i k \<longrightarrow> (k, tx_ID t) \<in> gossip_known n T s \<union> set new" by blast
  with pending(1) known(1) show "\<exists>xs i x ys new. gossip_pending s = xs @ (i, x) # ys \<and> gossip_pending s' = xs @ ys @ new \<and>
      gossip_known n T s' = insert (i, x) (gossip_known n T s) \<and> length new \<le> n \<and> (\<forall>(k, y) \<in> set new. y = x) \<and>
      (if (i, x) \<in> gossip_known n T s then new = [] else \<forall>k. neighbour link n P i k \<longrightarrow> (k, x) \<in> gossip_known n T s \<union> set new)"
    by (intro exI [of _ "?ids before"] exI [of _ i] exI [of _ "tx_ID t"] exI [of _ "?ids after"] exI [of _ new]) simp
qed

lemma gossip_progress:
  assumes "gossip_inv E link n P T s" and "gossip_pending s \<noteq> []"
  shows "\<exists>s'. delivery E link s s'"
proof -
  from assms(2) obtain i m rest where f: "net_flight s = [] @ (i, m) # rest" by (cases "net_flight s") (auto simp: gossip_pending_def)
  obtain p tr where "OnMessage E undefined (net_peers s i) [] (msg_From m) m = Some (p, tr)"
    by (rule flight_cases [OF assms(1), of i m undefined]) (use f in \<open>auto split: if_splits\<close>)
  with f show ?thesis by (blast intro: delivery.delivered)
qed

interpretation gossip: epidemic n "neighbour link n P" "gossip_known n T" gossip_pending "gossip_inv E link n P T" "submission E link n T" "delivery E link"
  for E link n P T
proof unfold_locales
  fix s i x
  show "gossip_inv E link n P T s \<Longrightarrow> (i, x) \<in> set (gossip_pending s) \<Longrightarrow> i < n"
    by (auto simp: gossip_pending_def gossip_inv_def list_all_iff honest_flight_def)
qed (rule gossip_submission gossip_delivery gossip_progress; assumption)+

end
