(* ===== verification/GossipProperties.thy ===== *)
theory GossipProperties
  imports GossipFacts PeerDemo
begin

text \<open>
  What the network of peers does with a transaction that one of them has accepted.
\<close>

abbreviation gossips :: "env \<Rightarrow> (nat \<Rightarrow> conn \<Rightarrow> nat) \<Rightarrow> nat \<Rightarrow> SignedTransaction set \<Rightarrow> network \<Rightarrow> network \<Rightarrow> bool" where
  "gossips E link n T s s' \<equiv> submission E link n T s s' \<or> delivery E link s s'"

text \<open>Transactions that do not replace each other in a mempool.\<close>

definition independent_txs :: "SignedTransaction set \<Rightarrow> bool" where
  "independent_txs T \<longleftrightarrow> inj_on tx_ID T \<and> (\<forall>t \<in> T. \<forall>u \<in> T. t \<noteq> u \<longrightarrow> IsEVM u \<longrightarrow> \<not> same_nonce t u)"

definition unheard :: "nat \<Rightarrow> (nat \<Rightarrow> Peer) \<Rightarrow> SignedTransaction set \<Rightarrow> bool" where
  "unheard n P T \<longleftrightarrow> (\<forall>i < n. \<forall>t \<in> T. \<not> hasSeenMessage (P i) (tx_ID t) \<and> fmlookup (p_mempool (P i)) (tx_ID t) = None)"

section \<open>The mempools\<close>

definition pools :: "env \<Rightarrow> nat \<Rightarrow> SignedTransaction set \<Rightarrow> network \<Rightarrow> bool" where
  "pools E n T s \<longleftrightarrow> (\<forall>i < n. \<forall>t \<in> T. fmlookup (p_mempool (net_peers s i)) (tx_ID t) = (if seen s i (tx_ID t) then Some t else None) \<and>
     (seen s i (tx_ID t) \<longrightarrow> acceptable E t))"




lemma gossip_start:
  assumes "formed link n P" and "gossiped T" and "unheard n P T"
  defines "s \<equiv> \<lparr>net_peers = P, net_flight = []\<rparr>"
  shows "gossip_inv E link n P T s" and "gossip.covered link n P T s" and "pools E n T s"
  using assms
  by (auto simp: gossip_inv_def honest_peer_def unheard_def hasSeenMessage_def mhas_def gossip.covered_def gossip_known_def seen_def pools_def)

lemma gossip_reached:
  assumes "formed link n P" and "gossiped T" and "unheard n P T"
    and "(gossips E link n T)\<^sup>*\<^sup>* \<lparr>net_peers = P, net_flight = []\<rparr> s"
  shows "gossip_inv E link n P T s" and "gossip.covered link n P T s"
  using gossip.spreads_kept [OF assms(4) gossip_start(1,2) [OF assms(1-3)]] by simp_all



section \<open>Two peers\<close>

text \<open>The peer of \<open>PeerDemo\<close> under two identifiers, connected to itself; it has submitted its transfer.\<close>

definition demo_pair :: "nat \<Rightarrow> Peer" where
  "demo_pair i = (if i = 0 then demo_peer\<lparr>p_conns := fmupd ''2'' (Some 0) (fmupd ''1'' None fmempty)\<rparr>
     else demo_peer\<lparr>p_id := ''2'', p_conns := fmupd ''1'' (Some 0) (fmupd ''2'' None fmempty)\<rparr>)"

definition demo_link :: "nat \<Rightarrow> conn \<Rightarrow> nat" where
  "demo_link i c = 1 - i"

lemma two: "i < (2::nat) \<longleftrightarrow> i = 0 \<or> i = 1"
  by auto

lemma demo_pair_fields: "p_id (demo_pair 0) = ''1''" "p_id (demo_pair (Suc 0)) = ''2''" "p_msgHistory (demo_pair i) = fmempty" "p_mempool (demo_pair i) = fmempty"
  by (simp_all add: demo_pair_def demo_peer_fields) (simp add: demo_peer_def NewPeer_def, code_simp)

lemma demo_pair_formed: "formed demo_link 2 demo_pair"
  by (auto simp: formed_def two inj_on_def demo_pair_fields nil_self_def demo_link_def) (auto simp: demo_pair_def split: if_splits)


lemma demo_gossiped: "gossiped {demo_tx}" "independent_txs {demo_tx}" "unheard 2 demo_pair {demo_tx}"
  by (simp_all add: gossiped_def demo_plain demo_tx_facts independent_txs_def unheard_def hasSeenMessage_def demo_pair_fields)

abbreviation demo_asked :: network where
  "demo_asked \<equiv> acted demo_link \<lparr>net_peers = demo_pair, net_flight = []\<rparr> 0 (took demo_tx ''1'' [] (demo_pair 0)) (floods (demo_pair 0) demo_tx ''1'')"

lemma demo_submission: "submission demo_env demo_link 2 {demo_tx} \<lparr>net_peers = demo_pair, net_flight = []\<rparr> demo_asked"
proof -
  have "nil_self (demo_pair 0)" using demo_pair_formed by (simp add: formed_def)
  moreover have "acceptable demo_env demo_tx" by (simp add: acceptable_def demo_tx_facts(1,2,4) demo_verify)
  ultimately have "FloodPoSTransaction demo_env (demo_pair 0) [] demo_tx = Some (took demo_tx ''1'' [] (demo_pair 0), floods (demo_pair 0) demo_tx ''1'')"
    using submit_acceptable [OF demo_plain demo_tx_facts(5), of "demo_pair 0" demo_env] by (simp add: demo_pair_fields)
  then show ?thesis by (intro submission.submitted) simp_all
qed

lemma demo_reached: "(gossips demo_env demo_link 2 {demo_tx})\<^sup>*\<^sup>* \<lparr>net_peers = demo_pair, net_flight = []\<rparr> demo_asked"
  using demo_submission by blast



text \<open>
  C28. Gossip comes to an end: without new submissions the number of further deliveries is bounded, and a network with a message on its
  way can always deliver it, so nothing waits for anything else.
\<close>

theorem gossip_terminates:
  assumes "formed link n P" and "gossiped T" and "unheard n P T" and "finite T"
    and "(gossips E link n T)\<^sup>*\<^sup>* \<lparr>net_peers = P, net_flight = []\<rparr> s"
  shows "((delivery E link ^^ k) s s' \<longrightarrow> k \<le> length (net_flight s) + (n + 1) * (n * card T)) \<and>
    (net_flight s \<noteq> [] \<longrightarrow> (\<exists>s'. delivery E link s s'))"
proof -
  note inv = gossip_reached(1) [OF assms(1-3,5)]
  have "gossip.missing n T s \<subseteq> {..<n} \<times> tx_ID ` T"
    using inv by (auto simp: gossip.missing_def gossip_pending_def gossip_inv_def list_all_iff honest_flight_def)
  then have "card (gossip.missing n T s) \<le> card ({..<n} \<times> tx_ID ` T)" using assms(4) by (intro card_mono) auto
  also have "\<dots> \<le> n * card T" using card_image_le [OF assms(4), of tx_ID] by (simp add: card_cartesian_product)
  finally have "(n + 1) * card (gossip.missing n T s) \<le> (n + 1) * (n * card T)" by (rule mult_le_mono2)
  moreover have "length (gossip_pending s) = length (net_flight s)" by (simp add: gossip_pending_def)
  ultimately have "gossip.work n T s \<le> length (net_flight s) + (n + 1) * (n * card T)" unfolding gossip.work_def by linarith
  moreover have "k \<le> gossip.work n T s" if "(delivery E link ^^ k) s s'" using gossip.deliveries_bounded [OF that inv] by simp
  ultimately show ?thesis using gossip_progress [OF inv] by (auto simp: gossip_pending_def)
qed

theorem gossip_terminates_witness:
  "(\<exists>s. delivery demo_env demo_link demo_asked s) \<and> \<not> (\<exists>s. (delivery demo_env demo_link ^^ 8) demo_asked s)"
proof -
  have "net_flight demo_asked = [(1, tx_message demo_tx ''1'')]"
    by (simp add: acted_def floods_def connectionIDs_def demo_pair_fields) (simp add: demo_pair_def mkeys_def sorted_list_of_fset.rep_eq demo_link_def)
  with gossip_terminates [OF demo_pair_formed demo_gossiped(1,3) _ demo_reached, of 8] show ?thesis by auto
qed

end
