(* ===== verification/Handin.thy ===== *)
theory Handin
  imports Network Node
begin

text \<open>
  The program (\<open>main\<close> of \<open>handin.go\<close>) and its demonstration \<open>runHandin\<close>: ten peers on one machine form a network,
  flood valid and invalid transactions, mine thirty slots and compare their ledgers.

  The peers' own goroutines run beside the script. What they did until the \<open>k\<close>-th action of the script is the argument
  \<open>hw_meanwhile k\<close>; the goroutines that flood the transactions run in the order \<open>hw_sends\<close>. Key generation ignores its error,
  so a failed draw is a nil account and the first use of it panics (\<open>None\<close>). What is printed is the verdict; the throughput, a
  floating-point number, is left out.
\<close>

record handin_world =
  hw_draws :: "nat \<Rightarrow> (nat \<times> nat) list"
  hw_world :: "nat \<Rightarrow> world"
  hw_listening :: "nat \<Rightarrow> bool"
  hw_link :: "nat \<Rightarrow> conn \<Rightarrow> nat"
  hw_meanwhile :: "nat \<Rightarrow> network \<Rightarrow> network"
  hw_sends :: "(nat \<times> SignedTransaction) list \<Rightarrow> (nat \<times> SignedTransaction) list"
  hw_timeout :: "int \<Rightarrow> nat \<Rightarrow> bool"
  hw_order :: "Ledger \<Rightarrow> string list"

definition numPeers :: nat where "numPeers = 10"
definition numSlots :: nat where "numSlots = 30"
definition basePort :: int where "basePort = 43000"

section \<open>Accounts and transactions\<close>

definition stakeAccounts :: "handin_world \<Rightarrow> Account list go" where
  "stakeAccounts H = those (map (\<lambda>i. NewAccount (hw_draws H i)) [0..<numPeers])"

definition handin_genesis :: "Account list \<Rightarrow> GenesisMetaData" where
  "handin_genesis accounts = MakeGenesisMetaDataFromAccounts accounts 1000000 10000 42"

definition accountNames :: "Account \<Rightarrow> Account \<Rightarrow> Account \<Rightarrow> (string, string) gomap" where
  "accountNames acc1 acc2 acc3 =
     fmupd (SafeEncode acc3) ''C'' (fmupd (SafeEncode acc2) ''B'' (fmupd (SafeEncode acc1) ''A'' fmempty))"

definition validTransactions :: "'a ethlib_scheme \<Rightarrow> Account \<Rightarrow> Account \<Rightarrow> Account \<Rightarrow> SignedTransaction list" where
  "validTransactions E acc1 acc2 acc3 =
     [NewSignedTransaction E ''val-01'' acc1 (SafeEncode acc2) 3,
      NewSignedTransaction E ''val-02'' acc3 (SafeEncode acc2) 5,
      NewSignedTransaction E ''val-03'' acc1 (SafeEncode acc2) 7,
      NewSignedTransaction E ''val-04'' acc2 (SafeEncode acc1) 11,
      NewSignedTransaction E ''val-05'' acc3 (SafeEncode acc1) 13,
      NewSignedTransaction E ''val-06'' acc1 (SafeEncode acc3) 17]"

text \<open>A replay, a signature of another transaction, another sender, no amount, a negative amount and an overdraft.\<close>

definition invalidTransactions :: "'a ethlib_scheme \<Rightarrow> Account \<Rightarrow> Account \<Rightarrow> Account \<Rightarrow> SignedTransaction list" where
  "invalidTransactions E acc1 acc2 acc3 =
     (let valid = validTransactions E acc1 acc2 acc3;
          inv2 = (NewSignedTransaction E ''inv-02'' acc3 (SafeEncode acc2) 5)\<lparr>tx_Signature := tx_Signature (valid ! 2)\<rparr>;
          inv3 = (NewSignedTransaction E ''inv-03'' acc1 (SafeEncode acc2) 7)\<lparr>tx_From := SafeEncode acc3\<rparr>;
          inv4 = NewSignedTransaction E ''inv-04'' acc1 (SafeEncode acc2) 0;
          inv5 = NewSignedTransaction E ''inv-05'' acc1 (SafeEncode acc2) (- 3);
          inv6 = NewSignedTransaction E ''inv-06'' acc1 (SafeEncode acc2) 100000000
      in [valid ! 0, inv2, inv3, inv4, inv5, inv6])"

section \<open>The network\<close>

definition startPeer :: "env \<Rightarrow> handin_world \<Rightarrow> Account list \<Rightarrow> nat \<Rightarrow> (Peer \<times> trace) go" where
  "startPeer E H accounts i = do {
     p \<leftarrow> ConfigurePoS E (NewPeer (basePort + int i)) (handin_genesis accounts) (Some (accounts ! i));
     StartWithConnection E (hw_world H i) (hw_listening H i) p [] ''localhost'' (if i = 0 then - 1 else basePort)
   }"

fun startPeers :: "env \<Rightarrow> handin_world \<Rightarrow> Account list \<Rightarrow> nat list \<Rightarrow> network \<Rightarrow> network go" where
  "startPeers E H accounts [] s = Some s"
| "startPeers E H accounts (i # is) s = (case startPeer E H accounts i of
      None \<Rightarrow> None
    | Some (p, tr) \<Rightarrow> startPeers E H accounts is (hw_meanwhile H i (acted (hw_link H) s i p tr)))"

text \<open>Every transaction is flooded by the peer whose turn it is.\<close>

definition senders :: "SignedTransaction list \<Rightarrow> (nat \<times> SignedTransaction) list" where
  "senders txs = map (\<lambda>(i, tx). (i mod numPeers, tx)) (enumerate 0 txs)"

fun floodAll :: "env \<Rightarrow> handin_world \<Rightarrow> nat \<Rightarrow> (nat \<times> SignedTransaction) list \<Rightarrow> network \<Rightarrow> network go" where
  "floodAll E H k [] s = Some s"
| "floodAll E H k ((i, tx) # rest) s = (case FloodPoSTransaction E (net_peers s i) [] tx of
      None \<Rightarrow> None
    | Some (p, tr) \<Rightarrow> floodAll E H (Suc k) rest (hw_meanwhile H k (acted (hw_link H) s i p tr)))"

section \<open>Mining\<close>

text \<open>One slot: the peers in turn until one of them mines; \<open>Inl\<close> is the peer that did not answer in time.\<close>

fun mineRound :: "env \<Rightarrow> handin_world \<Rightarrow> int \<Rightarrow> nat list \<Rightarrow> network \<Rightarrow> (network \<times> (nat + bool)) go" where
  "mineRound E H slot [] s = Some (s, Inr False)"
| "mineRound E H slot (i # is) s =
     (if hw_timeout H slot i then Some (s, Inl i)
      else case MineOneSlot E (hw_world H i) (net_peers s i) [] slot of
          None \<Rightarrow> None
        | Some (p, tr, mined) \<Rightarrow>
            (let s = acted (hw_link H) s i p tr in if mined \<noteq> None then Some (s, Inr True) else mineRound E H slot is s))"

fun mineSlots :: "env \<Rightarrow> handin_world \<Rightarrow> nat list \<Rightarrow> network \<Rightarrow> nat \<Rightarrow> (network \<times> (int \<times> nat + nat)) go" where
  "mineSlots E H [] s minedBlocks = Some (s, Inr minedBlocks)"
| "mineSlots E H (slot # slots) s minedBlocks = (case mineRound E H (int slot) [0..<numPeers] s of
      None \<Rightarrow> None
    | Some (s, Inl i) \<Rightarrow> Some (s, Inl (int slot, i))
    | Some (s, Inr mined) \<Rightarrow>
        mineSlots E H slots (hw_meanwhile H (100 + slot) s) (if mined then Suc minedBlocks else minedBlocks))"

section \<open>The verdict\<close>

datatype handin_verdict = TimeoutAt int nat | LedgerMismatch nat | IncorrectCount nat | DemoComplete nat nat nat

definition handin_checks :: "env \<Rightarrow> handin_world \<Rightarrow> (string, string) gomap \<Rightarrow> nat \<Rightarrow> network \<Rightarrow> nat \<Rightarrow> handin_verdict go" where
  "handin_checks E H names expected s minedBlocks =
     (let ledger = (\<lambda>i. p_ledger (net_peers s i));
          pretty = (\<lambda>i. CopyAccountsPretty (hw_order H (ledger i)) (ledger i) names fmempty)
      in case List.find (\<lambda>i. pretty i \<noteq> pretty 0) [1..<numPeers] of
          Some i \<Rightarrow> Some (LedgerMismatch i)
        | None \<Rightarrow> (case List.find (\<lambda>i. TxCount (ledger i) \<noteq> expected) [0..<numPeers] of
            Some i \<Rightarrow> Some (IncorrectCount i)
          | None \<Rightarrow> do {
              chain \<leftarrow> p_blockchain (net_peers s 0);
              noRollback \<leftarrow> LedgerFromBlockchain E chain 0;
              withRollback \<leftarrow> LedgerFromBlockchain E chain 1;
              Some (DemoComplete minedBlocks (TxCount noRollback) (TxCount withRollback))
            }))"

definition runHandin :: "env \<Rightarrow> handin_world \<Rightarrow> handin_verdict go" where
  "runHandin E H = do {
     accounts \<leftarrow> stakeAccounts H;
     let acc1 = accounts ! 0;
     let acc2 = accounts ! 1;
     let acc3 = accounts ! 2;
     let valid = validTransactions E acc1 acc2 acc3;
     let invalid = invalidTransactions E acc1 acc2 acc3;
     let none = \<lparr>net_peers = (\<lambda>_. NewPeer 0), net_flight = []\<rparr>;
     s \<leftarrow> startPeers E H accounts [0..<numPeers] none;
     s \<leftarrow> floodAll E H 20 (hw_sends H (senders (invalid @ valid))) (hw_meanwhile H 10 s);
     (s, mined) \<leftarrow> mineSlots E H [1..<Suc numSlots] (hw_meanwhile H 50 s) 0;
     case mined of
       Inl (slot, i) \<Rightarrow> Some (TimeoutAt slot i)
     | Inr minedBlocks \<Rightarrow> handin_checks E H (accountNames acc1 acc2 acc3) (length valid) (hw_meanwhile H 200 s) minedBlocks
   }"

section \<open>The program\<close>

datatype launched = ConfigError string | NodeStarted "(Node \<times> trace) option go" | Demonstrated "handin_verdict go"

definition main_program ::
    "env \<Rightarrow> handin_world \<Rightarrow> environ \<Rightarrow> http_answer \<Rightarrow> http_answer \<Rightarrow> string \<Rightarrow> ((string, PeerAddress) gomap \<Rightarrow> string list) \<Rightarrow> bool \<Rightarrow>
     (nat \<times> nat) list \<Rightarrow> files \<Rightarrow> launched" where
  "main_program E H getenv defaults answer time order listening draws fs =
     (case LoadNodeConfigFromEnv getenv defaults of
        (cfg, Some err) \<Rightarrow> ConfigError err
      | (cfg, None) \<Rightarrow>
          if RunMode cfg = ''node'' then NodeStarted (runNode E (hw_world H) answer time order listening draws fs cfg)
          else Demonstrated (runHandin E H))"

end
