(* ===== verification/HandinProperties.thy ===== *)
theory HandinProperties
  imports Handin GossipProperties ChainProperties
begin



lemma signed_fields [simp]:
  "tx_ID (NewSignedTransaction E i w to n) = i" "tx_Amount (NewSignedTransaction E i w to n) = n" "tx_From (NewSignedTransaction E i w to n) = SafeEncode w"
  "tx_Kind (NewSignedTransaction E i w to n) = []" "tx_NFT (NewSignedTransaction E i w to n) = None" "tx_AMM (NewSignedTransaction E i w to n) = None"
  by (simp_all add: NewSignedTransaction_def signTransaction_def Let_def SignedTransaction_zero_def)



lemma ascii_SafeEncode [simp]: "ascii (SafeEncode w)"
  by (simp add: SafeEncode_def ascii_b64_encode)









section \<open>The broadcast\<close>














end
