(* ===== verification/Explorer.thy ===== *)
theory Explorer
  imports PeerState
begin

text \<open>
  The explorer index (\<open>runtime_index.go\<close>): tables of the canonical blocks by number and by hash and of their
  transactions by identifier and by address, built anew for every request, and the lookups of \<open>peer.go\<close> that use it.

  The fields \<open>NFT\<close> and \<open>AMM\<close> of a row are interfaces that always hold a pointer; \<open>None\<close> is the nil pointer, which
  is not a nil interface: it is printed as \<open>null\<close> and comes back from the JSON trip as an empty payload.

  Shown: the tables in closed form, as functions of the list of rows of the chain.
\<close>

record ExplorerTx =
  et_Hash :: string
  et_From :: string
  et_To :: string
  et_Amount :: int
  et_Kind :: string
  et_Nonce :: u64
  et_ChainID :: int
  et_Raw :: string
  et_Signature :: string
  et_NFT :: "NFTPayload option"
  et_AMM :: "AMMPayload option"
  et_BlockHash :: string
  et_BlockNumber :: int
  et_TransactionIndex :: int
  et_Finalized :: bool

record ExplorerBlock =
  eb_Number :: int
  eb_Hash :: string
  eb_ParentHash :: string
  eb_Slot :: int
  eb_Draw :: int
  eb_Miner :: string
  eb_TransactionCount :: int
  eb_Transactions :: "ExplorerTx list"
  eb_Finalized :: bool

definition ExplorerBlock_zero :: ExplorerBlock where
  "ExplorerBlock_zero = \<lparr>eb_Number = 0, eb_Hash = [], eb_ParentHash = [], eb_Slot = 0, eb_Draw = 0, eb_Miner = [],
     eb_TransactionCount = 0, eb_Transactions = [], eb_Finalized = False\<rparr>"

record ExplorerAddress =
  ea_Address :: string
  ea_Balance_of :: int
  ea_Nonce_of :: u64
  ea_TransactionCount :: int
  ea_Transactions :: "ExplorerTx list"

record ExplorerIndex =
  BlocksByNumber :: "(int, ExplorerBlock) gomap"
  BlocksByHash :: "(string, ExplorerBlock) gomap"
  TxsByHash :: "(string, ExplorerTx) gomap"
  TxsByAddress :: "(string, ExplorerTx list) gomap"
  LatestHeight :: int
  FinalizedHeight :: int

section \<open>Rows\<close>

definition explorerTxFromSigned :: "SignedTransaction \<Rightarrow> string \<Rightarrow> int \<Rightarrow> int \<Rightarrow> bool \<Rightarrow> ExplorerTx" where
  "explorerTxFromSigned tx blockHash blockNumber txIndex finalized =
     \<lparr>et_Hash = tx_ID tx, et_From = tx_From tx, et_To = tx_To tx, et_Amount = tx_Amount tx, et_Kind = tx_Kind tx,
      et_Nonce = tx_Nonce tx, et_ChainID = tx_ChainID tx, et_Raw = tx_Raw tx, et_Signature = tx_Signature tx,
      et_NFT = tx_NFT tx, et_AMM = tx_AMM tx, et_BlockHash = blockHash, et_BlockNumber = blockNumber,
      et_TransactionIndex = txIndex, et_Finalized = finalized\<rparr>"

text \<open>A payload goes through its JSON text; nil is \<open>null\<close>, which leaves the fresh payload as it is.\<close>

definition nft_trip :: "NFTPayload option \<Rightarrow> NFTPayload option" where
  "nft_trip nft = unmarshal nft_payload_step NFTPayload_zero
     (json_marshal (case nft of None \<Rightarrow> JNull | Some payload \<Rightarrow> nft_payload_json payload))"

definition amm_trip :: "AMMPayload option \<Rightarrow> AMMPayload option" where
  "amm_trip amm = unmarshal amm_payload_step AMMPayload_zero
     (json_marshal (case amm of None \<Rightarrow> JNull | Some payload \<Rightarrow> amm_payload_json payload))"

definition signedTransactionFromExplorer :: "ExplorerTx \<Rightarrow> SignedTransaction" where
  "signedTransactionFromExplorer tx =
     \<lparr>tx_ID = et_Hash tx, tx_From = et_From tx, tx_To = et_To tx, tx_Amount = et_Amount tx, tx_Signature = et_Signature tx,
      tx_Kind = et_Kind tx, tx_Nonce = et_Nonce tx, tx_Raw = et_Raw tx, tx_ChainID = et_ChainID tx,
      tx_NFT = nft_trip (et_NFT tx), tx_AMM = amm_trip (et_AMM tx)\<rparr>"

definition indexAddressTx :: "(string, ExplorerTx list) gomap \<Rightarrow> string \<Rightarrow> ExplorerTx \<Rightarrow> (string, ExplorerTx list) gomap" where
  "indexAddressTx index address tx =
     (let address = ToLower (TrimSpace address)
      in if address = [] then index else fmupd address (mget [] index address @ [tx]) index)"

definition blockHexHash :: "'a ethlib_scheme \<Rightarrow> Block \<Rightarrow> string" where
  "blockHexHash E block = ''0x'' @ hex_encode (GetBlockHash E block)"

definition zero_parent :: string where
  "zero_parent = ''0x'' @ replicate 64 CHR ''0''"

text \<open>\<open>%064x\<close> pads on the left with zeros to 64 digits.\<close>

definition evmParentHash :: "string \<Rightarrow> string" where
  "evmParentHash parentHash =
     (if parentHash = [] then zero_parent
      else case b64_decode parentHash of
        None \<Rightarrow> zero_parent
      | Some decoded \<Rightarrow> ''0x'' @ replicate (64 - length (hex_encode decoded)) CHR ''0'' @ hex_encode decoded)"

definition explorerParentHash :: "string \<Rightarrow> string" where
  "explorerParentHash parentHash = (if parentHash = [] then zero_parent else evmParentHash parentHash)"

section \<open>The index\<close>

fun index_txs :: "string \<Rightarrow> int \<Rightarrow> bool \<Rightarrow> int \<Rightarrow> SignedTransaction list \<Rightarrow> ExplorerTx list \<Rightarrow> ExplorerIndex \<Rightarrow> ExplorerTx list \<times> ExplorerIndex" where
  "index_txs blockHash height finalized txIndex [] out idx = (out, idx)"
| "index_txs blockHash height finalized txIndex (tx # txs) out idx =
     (let explorerTx = explorerTxFromSigned tx blockHash height txIndex finalized
      in index_txs blockHash height finalized (txIndex + 1) txs (out @ [explorerTx])
           (idx\<lparr>TxsByHash := fmupd (ToLower (et_Hash explorerTx)) explorerTx (TxsByHash idx),
                TxsByAddress := indexAddressTx (indexAddressTx (TxsByAddress idx) (et_From explorerTx) explorerTx) (et_To explorerTx) explorerTx\<rparr>))"

fun index_blocks :: "'a ethlib_scheme \<Rightarrow> int \<Rightarrow> Block list \<Rightarrow> ExplorerIndex \<Rightarrow> ExplorerIndex" where
  "index_blocks E height [] idx = idx"
| "index_blocks E height (block # blocks) idx =
     (let blockHash = blockHexHash E block;
          finalized = (height \<le> FinalizedHeight idx);
          explorerBlock = \<lparr>eb_Number = height, eb_Hash = blockHash, eb_ParentHash = explorerParentHash (blk_ParentHash block),
            eb_Slot = blk_Slot block, eb_Draw = blk_Draw block, eb_Miner = blk_VerificationKey block, eb_TransactionCount = 0,
            eb_Transactions = [], eb_Finalized = finalized\<rparr>;
          (explorerBlock, idx) = (case DecodeBlockTransactions (blk_MetaData block) of
              None \<Rightarrow> (explorerBlock, idx)
            | Some txs \<Rightarrow> (let (rows, idx) = index_txs blockHash height finalized 0 txs [] idx
                in (explorerBlock\<lparr>eb_TransactionCount := int (length txs), eb_Transactions := rows\<rparr>, idx)))
      in index_blocks E (height + 1) blocks
           (idx\<lparr>BlocksByNumber := fmupd height explorerBlock (BlocksByNumber idx),
                BlocksByHash := fmupd (ToLower blockHash) explorerBlock (BlocksByHash idx)\<rparr>))"

definition ExplorerIndex_empty :: ExplorerIndex where
  "ExplorerIndex_empty = \<lparr>BlocksByNumber = fmempty, BlocksByHash = fmempty, TxsByHash = fmempty, TxsByAddress = fmempty,
     LatestHeight = 0, FinalizedHeight = 0\<rparr>"

definition BuildExplorerIndex :: "'a ethlib_scheme \<Rightarrow> Peer \<Rightarrow> ExplorerIndex go" where
  "BuildExplorerIndex E p = (case p_blockchain p of
      None \<Rightarrow> Some ExplorerIndex_empty
    | Some chain \<Rightarrow> map_option (\<lambda>blocks.
        if blocks = [] then ExplorerIndex_empty
        else let latest = int (length blocks) - 1; finalized = i64 (latest - p_finalityDepth p)
          in index_blocks E 0 blocks
               (ExplorerIndex_empty\<lparr>LatestHeight := latest, FinalizedHeight := (if finalized < 0 then 0 else finalized)\<rparr>))
        (CanonicalBlocks E chain 0))"

text \<open>The blocks, the latest first: numbers are unique, so that the order of the visit does not matter.\<close>

definition BlockList :: "ExplorerIndex \<Rightarrow> ExplorerBlock list" where
  "BlockList idx = rev (sort_key eb_Number (map (mget ExplorerBlock_zero (BlocksByNumber idx)) (mkeys (BlocksByNumber idx))))"

section \<open>Lookups\<close>

definition TransactionByID :: "'a ethlib_scheme \<Rightarrow> Peer \<Rightarrow> string \<Rightarrow> SignedTransaction option go" where
  "TransactionByID E p txID = map_option (\<lambda>idx. case fmlookup (TxsByHash idx) (ToLower txID) of
      Some explorerTx \<Rightarrow> Some (signedTransactionFromExplorer explorerTx)
    | None \<Rightarrow> fmlookup (p_mempool p) txID) (BuildExplorerIndex E p)"

definition TransactionLocation :: "'a ethlib_scheme \<Rightarrow> Peer \<Rightarrow> string \<Rightarrow> (SignedTransaction \<times> string \<times> int \<times> u64) option go" where
  "TransactionLocation E p txID = map_option (\<lambda>idx. case fmlookup (TxsByHash idx) (ToLower txID) of
      Some explorerTx \<Rightarrow> Some (signedTransactionFromExplorer explorerTx, et_BlockHash explorerTx, et_BlockNumber explorerTx,
        word_of_int (et_TransactionIndex explorerTx))
    | None \<Rightarrow> map_option (\<lambda>tx. (tx, [], 0, 0)) (fmlookup (p_mempool p) txID)) (BuildExplorerIndex E p)"

end
