(* ===== verification/Http.thy ===== *)
theory Http
  imports Explorer Bootstrap Mining NodeState
begin

text \<open>
  What the operations server uses of HTTP and JSON (\<open>runtime_ops.go\<close> and the parts of \<open>net/http\<close> and
  \<open>encoding/json\<close> it relies on): requests and answers, bodies with sorted keys, the JSON forms of the
  rows it prints and the decoding of request bodies.

  The path of a request is its decoded text and the query is the function \<open>Get\<close>. Headers of an answer are listed in the
  order they are set. The dashboard's page is a constant, named by \<open>Static\<close>; the status of the
  bootstrap registry has floating-point numbers and is kept as a value. A handler that panics is \<open>None\<close>: \<open>net/http\<close> then closes the connection.
\<close>

record http_request =
  rq_Method :: string
  rq_Path :: string
  rq_Query :: "string \<Rightarrow> string"
  rq_Authorization :: string
  rq_Body :: bytes

datatype http_body = NoBody | Json json | Text string | Static string | Registry BootstrapRegistryStatus

record http_response =
  res_Code :: int
  res_Headers :: "(string \<times> string) list"
  res_Body :: http_body

definition MethodGet :: string where "MethodGet = ''GET''"
definition MethodHead :: string where "MethodHead = ''HEAD''"
definition MethodPost :: string where "MethodPost = ''POST''"
definition MethodOptions :: string where "MethodOptions = ''OPTIONS''"

text \<open>A Go map is printed with its keys sorted, a structure in the order of its fields.\<close>

definition jobj :: "(string \<times> json) list \<Rightarrow> json" where
  "jobj ms = JObj (sort_key fst ms)"

abbreviation jint :: "int \<Rightarrow> json" where
  "jint i \<equiv> JNum (Itoa i)"

abbreviation ju64 :: "u64 \<Rightarrow> json" where
  "ju64 w \<equiv> JNum (nat_digits (unat w))"

definition writeJSONAny :: "int \<Rightarrow> json \<Rightarrow> http_response" where
  "writeJSONAny code body = \<lparr>res_Code = code, res_Headers = [(''Content-Type'', ''application/json'')], res_Body = Json body\<rparr>"

definition writeJSON :: "int \<Rightarrow> (string \<times> json) list \<Rightarrow> http_response" where
  "writeJSON code body = writeJSONAny code (jobj body)"

abbreviation json_error :: "int \<Rightarrow> string \<Rightarrow> http_response" where
  "json_error code text \<equiv> writeJSON code [(''error'', JStr text)]"

abbreviation method_not_allowed :: http_response where
  "method_not_allowed \<equiv> json_error 405 ''method_not_allowed''"

definition plain_text :: "(string \<times> string) list \<Rightarrow> string \<Rightarrow> http_response" where
  "plain_text headers text = \<lparr>res_Code = 200, res_Headers = headers, res_Body = Text text\<rparr>"

text \<open>\<open>http.NotFound\<close> and the redirection of the multiplexer.\<close>

definition NotFound :: http_response where
  "NotFound = \<lparr>res_Code = 404, res_Headers = [(''Content-Type'', ''text/plain; charset=utf-8''), (''X-Content-Type-Options'', ''nosniff'')],
     res_Body = Text (''404 page not found'' @ [CHR 0x0A])\<rparr>"

definition redirect_to :: "string \<Rightarrow> http_response" where
  "redirect_to path = \<lparr>res_Code = 301, res_Headers = [(''Location'', path)], res_Body = NoBody\<rparr>"

section \<open>Bodies of requests\<close>

text \<open>A decoder reads the first value of the body and leaves the rest.\<close>

definition first_value :: "bytes \<Rightarrow> json option" where
  "first_value body = map_option fst (parse_value (Suc (2 * length body)) 0 body)"

definition decode_body :: "(string \<Rightarrow> json \<Rightarrow> 'a \<Rightarrow> 'a option) \<Rightarrow> 'a \<Rightarrow> bytes \<Rightarrow> 'a option" where
  "decode_body step zero body = Option.bind (first_value body) (\<lambda>v. dec_struct step v zero)"

text \<open>
  A value decoded into an interface and printed again: numbers are \<open>float64\<close>, keys are sorted and the last of equal
  keys counts. An integer of at most 53 bits is printed as it is; \<open>float_text\<close> gives the text of any other number, or nothing when it
  is out of range, which is an error of the decoder.
\<close>

definition any_number :: "(string \<Rightarrow> string option) \<Rightarrow> string \<Rightarrow> string option" where
  "any_number float_text s = (case ParseInt s of
      Some i \<Rightarrow> if \<bar>i\<bar> \<le> 2 ^ 53 \<and> s \<noteq> ''-0'' then Some (Itoa i) else float_text s
    | None \<Rightarrow> float_text s)"

definition distinct_members :: "(string \<times> json) list \<Rightarrow> (string \<times> json) list" where
  "distinct_members ms = (let m = fmap_of_list (rev ms) in map (\<lambda>k. (k, the (fmlookup m k))) (mkeys m))"

fun dec_any :: "(string \<Rightarrow> string option) \<Rightarrow> json \<Rightarrow> json option" where
  "dec_any f JNull = Some JNull"
| "dec_any f (JBool b) = Some (JBool b)"
| "dec_any f (JNum s) = map_option JNum (any_number f s)"
| "dec_any f (JStr s) = Some (JStr s)"
| "dec_any f (JArr vs) = map_option JArr (those (map (dec_any f) vs))"
| "dec_any f (JObj ms) = map_option (\<lambda>vs. JObj (distinct_members (zip (map fst ms) vs))) (those (map (\<lambda>(k, v). dec_any f v) ms))"

text \<open>A \<open>map[string]any\<close>, as its members; \<open>call["k"].(string)\<close> is the empty string when the member is missing or no string.\<close>

definition dec_any_map :: "(string \<Rightarrow> string option) \<Rightarrow> json \<Rightarrow> (string, json) gomap option" where
  "dec_any_map f v = (case v of
      JNull \<Rightarrow> Some fmempty
    | JObj ms \<Rightarrow> (case dec_any f v of Some (JObj ms) \<Rightarrow> Some (fmap_of_list ms) | _ \<Rightarrow> None)
    | _ \<Rightarrow> None)"

definition string_at :: "(string, json) gomap \<Rightarrow> string \<Rightarrow> string" where
  "string_at m k = (case fmlookup m k of Some (JStr s) \<Rightarrow> s | _ \<Rightarrow> [])"

section \<open>Query parameters\<close>

definition queryInt :: "http_request \<Rightarrow> string \<Rightarrow> int \<Rightarrow> int" where
  "queryInt r key fallback =
     (let raw = TrimSpace (rq_Query r key)
      in if raw = [] then fallback else case Atoi raw of None \<Rightarrow> fallback | Some value \<Rightarrow> value)"

definition boundedQueryInt :: "http_request \<Rightarrow> string \<Rightarrow> int \<Rightarrow> int \<Rightarrow> int \<Rightarrow> int" where
  "boundedQueryInt r key fallback low high =
     (let value = queryInt r key fallback in if value < low then low else if value > high then high else value)"

end
