(* ===== verification/Rpc.thy ===== *)
theory Rpc
  imports Http
begin

text \<open>
  The JSON-RPC endpoint of the operations server (\<open>runtime_ops.go\<close>, \<open>rpc\<close> to \<open>parseHexUint64\<close>): one definition per
  method. Only \<open>eth_sendRawTransaction\<close> changes the peer; the other methods are functions of it.

  A result is an error (\<open>Inl\<close>, code and message) or a value, with \<open>null\<close> for nil. Requests are handled one at a time. Arguments
  of the model that are not in the sources: \<open>opslib\<close> has \<open>crypto.CreateAddress\<close>, the texts of go-ethereum's errors and the
  printed form of numbers that are no small integers; \<open>moment\<close> has the clock and the orders in which maps are visited.
\<close>

record opslib =
  lib_CreateAddress :: "string \<Rightarrow> u64 \<Rightarrow> string"
  lib_Error :: "evm_error \<Rightarrow> string \<Rightarrow> string"
  lib_float :: "string \<Rightarrow> string option"

record moment =
  mo_UnixNano :: int
  mo_RFC3339Nano :: string
  mo_Uptime :: int
  mo_pending :: "mempool \<Rightarrow> string list"
  mo_rows :: "(string, ExplorerTx) gomap \<Rightarrow> string list"
  mo_world :: world

record OpsServer =
  os_adminToken :: string
  os_evmChainID :: int
  os_evmNetworkID :: string
  os_bootstrap :: "BootstrapRegistry option"
  os_reservedSupplyAddresses :: "string list"

type_synonym rpc_result = "(int \<times> string) + json"

record JSONRPCRequest =
  rr_JSONRPC :: string
  rr_ID :: json
  rr_Method :: string
  rr_Params :: "json list"

definition JSONRPCRequest_zero :: JSONRPCRequest where
  "JSONRPCRequest_zero = \<lparr>rr_JSONRPC = [], rr_ID = JNull, rr_Method = [], rr_Params = []\<rparr>"

fun dec_raw_list :: "json \<Rightarrow> json list option" where
  "dec_raw_list JNull = Some []"
| "dec_raw_list (JArr vs) = Some vs"
| "dec_raw_list _ = None"

definition rpc_step :: "opslib \<Rightarrow> string \<Rightarrow> json \<Rightarrow> JSONRPCRequest \<Rightarrow> JSONRPCRequest option" where
  "rpc_step lib k v r =
     (if EqualFold k ''jsonrpc'' then map_option (\<lambda>x. r\<lparr>rr_JSONRPC := x\<rparr>) (dec_string v (rr_JSONRPC r))
      else if EqualFold k ''id'' then map_option (\<lambda>x. r\<lparr>rr_ID := x\<rparr>) (dec_any (lib_float lib) v)
      else if EqualFold k ''method'' then map_option (\<lambda>x. r\<lparr>rr_Method := x\<rparr>) (dec_string v (rr_Method r))
      else if EqualFold k ''params'' then map_option (\<lambda>x. r\<lparr>rr_Params := x\<rparr>) (dec_raw_list v)
      else Some r)"

section \<open>Quantities\<close>

definition nodeVersion :: string where "nodeVersion = ''PokoinPoS/v0.2.0''"

definition hexQuantity :: "int \<Rightarrow> string" where
  "hexQuantity value =
     (if value = 0 then ''0x0'' else ''0x'' @ (if value < 0 then ''-'' else []) @ hex_digits (nat \<bar>value\<bar>))"

definition pkToEVMValue :: "int \<Rightarrow> int" where
  "pkToEVMValue amount = amount * EVMUnit"

definition evmGasPrice :: string where "evmGasPrice = ''0x3b9aca00''"

definition evmGasLimit :: string where "evmGasLimit = ''0x1c9c380''"

text \<open>\<open>strconv.ParseUint(value, 16, 64)\<close>: digits of either case, no sign, at most 64 bits.\<close>

definition ParseUint16 :: "string \<Rightarrow> u64 option" where
  "ParseUint16 s = (case those (map hex_val s) of
      None \<Rightarrow> None
    | Some ds \<Rightarrow> (let n = foldl (\<lambda>n d. 16 * n + d) 0 ds in if s = [] \<or> n \<ge> 2 ^ 64 then None else Some (of_nat n)))"

definition parseHexUint64 :: "string \<Rightarrow> u64 option" where
  "parseHexUint64 value = (let value = TrimPrefix (TrimSpace value) ''0x'' in if value = [] then None else ParseUint16 value)"

section \<open>Transactions, receipts and logs\<close>

definition evmTransactionObject :: "'a ethlib_scheme \<Rightarrow> SignedTransaction \<Rightarrow> string \<Rightarrow> int \<Rightarrow> u64 \<Rightarrow> json" where
  "evmTransactionObject E tx blockHash blockNumber txIndex =
     (let located = (blockHash \<noteq> []);
          input = (if tx_Raw tx = [] then ''0x''
            else case decodeEVM E tx of None \<Rightarrow> ''0x'' | Some decoded \<Rightarrow> ''0x'' @ hex_encode (eth_Data decoded))
      in jobj
        [(''hash'', JStr (tx_ID tx)),
         (''nonce'', JStr (hexQuantity (uint (tx_Nonce tx)))),
         (''blockHash'', if located then JStr blockHash else JNull),
         (''blockNumber'', if located then JStr (hexQuantity blockNumber) else JNull),
         (''transactionIndex'', if located then JStr (hexQuantity (uint txIndex)) else JNull),
         (''from'', JStr (tx_From tx)),
         (''to'', JStr (tx_To tx)),
         (''value'', JStr (hexQuantity (pkToEVMValue (tx_Amount tx)))),
         (''gas'', JStr ''0x5208''),
         (''gasPrice'', JStr evmGasPrice),
         (''input'', JStr input)])"

definition log_object :: "EVMLog \<Rightarrow> string \<Rightarrow> string \<Rightarrow> int \<Rightarrow> u64 \<Rightarrow> nat \<Rightarrow> json" where
  "log_object log txHash blockHash blockNumber txIndex i = jobj
     [(''address'', JStr (elog_Address log)),
      (''topics'', JArr (map JStr (elog_Topics log))),
      (''data'', JStr (elog_Data log)),
      (''blockNumber'', JStr (hexQuantity blockNumber)),
      (''transactionHash'', JStr txHash),
      (''transactionIndex'', JStr (hexQuantity (uint txIndex))),
      (''blockHash'', JStr blockHash),
      (''logIndex'', JStr (hexQuantity (int i))),
      (''removed'', JBool False)]"

text \<open>The logs of a receipt with their addresses.\<close>

definition evmReceiptLogs :: "EVMReceipt \<Rightarrow> string \<Rightarrow> string \<Rightarrow> int \<Rightarrow> u64 \<Rightarrow> (string \<times> json) list" where
  "evmReceiptLogs receipt txHash blockHash blockNumber txIndex =
     map (\<lambda>(i, log). (elog_Address log, log_object log txHash blockHash blockNumber txIndex i)) (enumerate 0 (rc_Logs receipt))"

definition evmCall :: "env \<Rightarrow> opslib \<Rightarrow> Peer \<Rightarrow> json list \<Rightarrow> rpc_result go" where
  "evmCall E lib p params = (case params of
      [] \<Rightarrow> Some (Inl (-32602, ''eth_call requires call object''))
    | param # _ \<Rightarrow> (case dec_any_map (lib_float lib) param of
        None \<Rightarrow> Some (Inl (-32602, ''invalid call object''))
      | Some call \<Rightarrow>
          if string_at call ''to'' = [] then Some (Inl (-32602, ''eth_call requires to''))
          else let from = (if string_at call ''from'' = [] then ''0x'' @ replicate 40 CHR ''0'' else string_at call ''from'');
                   data = (if string_at call ''data'' = [] then string_at call ''input'' else string_at call ''data'')
            in map_option (\<lambda>ret. case ret of
                 None \<Rightarrow> Inl (-32000, ''evm call reverted'')
               | Some ret \<Rightarrow> Inr (JStr (''0x'' @ hex_encode ret)))
               (BestEVMCall E p from (string_at call ''to'') (FromHex E data))))"

definition evmEstimateGas :: "opslib \<Rightarrow> json list \<Rightarrow> rpc_result" where
  "evmEstimateGas lib params = (case params of
      [] \<Rightarrow> Inr (JStr ''0x5208'')
    | param # _ \<Rightarrow> (case dec_any_map (lib_float lib) param of
        None \<Rightarrow> Inl (-32602, ''invalid call object'')
      | Some call \<Rightarrow>
          (let data = (if string_at call ''data'' = [] then string_at call ''input'' else string_at call ''data'')
           in if data \<noteq> [] \<and> data \<noteq> ''0x'' then Inr (JStr (hexQuantity 5000000)) else Inr (JStr ''0x5208''))))"

text \<open>The filter of a request for logs: the lower-case addresses asked for, none for all.\<close>

definition address_filter :: "(string, json) gomap \<Rightarrow> string list" where
  "address_filter fil = (case fmlookup fil ''address'' of
      Some (JStr s) \<Rightarrow> [ToLower s]
    | Some (JArr vs) \<Rightarrow> concat (map (\<lambda>v. case v of JStr s \<Rightarrow> [ToLower s] | _ \<Rightarrow> []) vs)
    | _ \<Rightarrow> [])"

fun collect_logs :: "env \<Rightarrow> Peer \<Rightarrow> string list \<Rightarrow> ExplorerTx list \<Rightarrow> json list go" where
  "collect_logs E p wanted [] = Some []"
| "collect_logs E p wanted (tx # txs) = (case peer_EVMReceipt E p (et_Hash tx) of
      None \<Rightarrow> None
    | Some None \<Rightarrow> collect_logs E p wanted txs
    | Some (Some receipt) \<Rightarrow>
        map_option (\<lambda>out. map snd (filter (\<lambda>(a, _). wanted = [] \<or> ToLower a \<in> set wanted)
          (evmReceiptLogs receipt (et_Hash tx) (et_BlockHash tx) (et_BlockNumber tx) (word_of_int (et_TransactionIndex tx)))) @ out)
          (collect_logs E p wanted txs))"

definition evmGetLogs :: "env \<Rightarrow> opslib \<Rightarrow> moment \<Rightarrow> Peer \<Rightarrow> json list \<Rightarrow> rpc_result go" where
  "evmGetLogs E lib m p params = (case (case params of [] \<Rightarrow> Some fmempty | param # _ \<Rightarrow> dec_any_map (lib_float lib) param) of
      None \<Rightarrow> Some (Inl (-32602, ''invalid log filter''))
    | Some fil \<Rightarrow> do {
        idx \<leftarrow> BuildExplorerIndex E p;
        logs \<leftarrow> collect_logs E p (address_filter fil) (List.map_filter (fmlookup (TxsByHash idx)) (mo_rows m (TxsByHash idx)));
        Some (Inr (JArr logs))
      })"

definition eth_getTransactionReceipt :: "env \<Rightarrow> opslib \<Rightarrow> Peer \<Rightarrow> string \<Rightarrow> rpc_result go" where
  "eth_getTransactionReceipt E lib p hash = do {
     location \<leftarrow> TransactionLocation E p (ToLower hash);
     case location of
       None \<Rightarrow> Some (Inr JNull)
     | Some (tx, blockHash, blockNumber, txIndex) \<Rightarrow>
         if blockHash = [] then Some (Inr JNull)
         else do {
           receipt \<leftarrow> peer_EVMReceipt E p (tx_ID tx);
           let (contractAddress, gasUsed, logs) = (case receipt of
               Some receipt \<Rightarrow> (if rc_ContractAddress receipt = [] then JNull else JStr (rc_ContractAddress receipt), rc_GasUsed receipt,
                 map snd (evmReceiptLogs receipt (tx_ID tx) blockHash blockNumber txIndex))
             | None \<Rightarrow> (if tx_Raw tx = [] then JNull
                 else case decodeEVM E tx of
                   Some decoded \<Rightarrow> if eth_To decoded = None
                     then JStr (ToLower (lib_CreateAddress lib (HexToAddress E (tx_From tx)) (tx_Nonce tx))) else JNull
                 | None \<Rightarrow> JNull, 21000, []));
           Some (Inr (jobj
             [(''transactionHash'', JStr (tx_ID tx)),
              (''transactionIndex'', JStr (hexQuantity (uint txIndex))),
              (''blockHash'', JStr blockHash),
              (''blockNumber'', JStr (hexQuantity blockNumber)),
              (''from'', JStr (tx_From tx)),
              (''to'', JStr (tx_To tx)),
              (''cumulativeGasUsed'', JStr (hexQuantity (uint gasUsed))),
              (''gasUsed'', JStr (hexQuantity (uint gasUsed))),
              (''contractAddress'', contractAddress),
              (''logs'', JArr logs),
              (''status'', JStr ''0x1'')]))
         }
   }"

section \<open>Blocks\<close>

definition evmBlockObjectFromBlock :: "'a ethlib_scheme \<Rightarrow> int \<Rightarrow> Block \<Rightarrow> int \<Rightarrow> bool \<Rightarrow> json" where
  "evmBlockObjectFromBlock E uptime block height includeTxs =
     (let hash = ''0x'' @ hex_encode (GetBlockHash E block);
          transactions = (case DecodeBlockTransactions (blk_MetaData block) of
              None \<Rightarrow> []
            | Some txs \<Rightarrow> map (\<lambda>(i, tx). if includeTxs then evmTransactionObject E tx hash height (of_nat i) else JStr (tx_ID tx)) (enumerate 0 txs))
      in jobj
        [(''number'', JStr (hexQuantity height)),
         (''hash'', JStr hash),
         (''parentHash'', JStr (evmParentHash (blk_ParentHash block))),
         (''nonce'', JStr (''0x'' @ replicate 16 CHR ''0'')),
         (''sha3Uncles'', JStr ''0x1dcc4de8dec75d7aab85b567b6ccd41ad312451b948a7413f0a142fd40d49347''),
         (''logsBloom'', JStr (''0x'' @ replicate 512 CHR ''0'')),
         (''transactionsRoot'', JStr (''0x'' @ replicate 64 CHR ''0'')),
         (''stateRoot'', JStr (''0x'' @ replicate 64 CHR ''0'')),
         (''receiptsRoot'', JStr (''0x'' @ replicate 64 CHR ''0'')),
         (''miner'', JStr (''0x'' @ replicate 40 CHR ''0'')),
         (''difficulty'', JStr ''0x0''),
         (''totalDifficulty'', JStr ''0x0''),
         (''extraData'', JStr ''0x''),
         (''size'', JStr ''0x0''),
         (''gasLimit'', JStr evmGasLimit),
         (''gasUsed'', JStr ''0x0''),
         (''baseFeePerGas'', JStr evmGasPrice),
         (''timestamp'', JStr (hexQuantity uptime)),
         (''transactions'', JArr transactions),
         (''uncles'', JArr [])])"

definition block_or_null :: "'a ethlib_scheme \<Rightarrow> int \<Rightarrow> bool \<Rightarrow> (Block \<times> int) option \<Rightarrow> json" where
  "block_or_null E uptime includeTxs found = (case found of
      None \<Rightarrow> JNull
    | Some (block, blockNumber) \<Rightarrow> evmBlockObjectFromBlock E uptime block blockNumber includeTxs)"

definition evmBlockObject :: "'a ethlib_scheme \<Rightarrow> int \<Rightarrow> Peer \<Rightarrow> string \<Rightarrow> bool \<Rightarrow> json go" where
  "evmBlockObject E uptime p tag includeTxs = do {
     height \<leftarrow> ChainHeight E p;
     let height = (if tag = ''earliest'' then 0 else height);
     case (if HasPrefix tag ''0x'' then map_option sint (parseHexUint64 tag) else Some height) of
       None \<Rightarrow> Some JNull
     | Some height \<Rightarrow> map_option (block_or_null E uptime includeTxs) (BlockByNumber E p height)
   }"

definition evmBlockObjectByHash :: "'a ethlib_scheme \<Rightarrow> int \<Rightarrow> Peer \<Rightarrow> string \<Rightarrow> bool \<Rightarrow> json go" where
  "evmBlockObjectByHash E uptime p hash includeTxs = map_option (block_or_null E uptime includeTxs) (BlockByHash E p hash)"

definition evmFeeHistory :: "'a ethlib_scheme \<Rightarrow> Peer \<Rightarrow> json list \<Rightarrow> json go" where
  "evmFeeHistory E p params =
     (let blockCount = (case params of
            [] \<Rightarrow> 1
          | param # _ \<Rightarrow> (case dec_string param [] of
              None \<Rightarrow> 1
            | Some raw \<Rightarrow> (case parseHexUint64 raw of None \<Rightarrow> 1 | Some parsed \<Rightarrow> if parsed > 0 then parsed else 1)));
          blockCount = (if blockCount > 20 then 20 else blockCount)
      in map_option (\<lambda>height.
           let height = (word_of_int height :: u64);
               oldest = (if height + 1 > blockCount then height + 1 - blockCount else 0)
           in jobj
             [(''oldestBlock'', JStr (hexQuantity (uint oldest))),
              (''baseFeePerGas'', JArr (replicate (unat blockCount + 1) (JStr evmGasPrice))),
              (''gasUsedRatio'', JArr (replicate (unat blockCount) (JNum ''0''))),
              (''reward'', JArr [])])
         (ChainHeight E p))"

definition explorerBlockByTag :: "'a ethlib_scheme \<Rightarrow> Peer \<Rightarrow> string \<Rightarrow> ExplorerBlock option go" where
  "explorerBlockByTag E p tag = map_option (\<lambda>idx.
     if tag = [] \<or> tag = ''latest'' then fmlookup (BlocksByNumber idx) (LatestHeight idx)
     else if tag = ''earliest'' then fmlookup (BlocksByNumber idx) 0
     else if HasPrefix tag ''0x'' then (case parseHexUint64 tag of None \<Rightarrow> None | Some height \<Rightarrow> fmlookup (BlocksByNumber idx) (sint height))
     else case Atoi tag of None \<Rightarrow> None | Some height \<Rightarrow> fmlookup (BlocksByNumber idx) height)
     (BuildExplorerIndex E p)"

definition transaction_count :: "ExplorerBlock option \<Rightarrow> rpc_result" where
  "transaction_count found = (case found of
      None \<Rightarrow> Inr JNull
    | Some block \<Rightarrow> Inr (JStr (hexQuantity (eb_TransactionCount block))))"

text \<open>
  The transaction at an index. The index is compared as a signed number and then used as an unsigned one: from
  2^63 on it passes the comparison and the access panics.
\<close>

definition transaction_at :: "'a ethlib_scheme \<Rightarrow> ExplorerBlock option \<Rightarrow> string \<Rightarrow> rpc_result go" where
  "transaction_at E found indexRaw = (case found of
      None \<Rightarrow> Some (Inr JNull)
    | Some block \<Rightarrow> (case parseHexUint64 indexRaw of
        None \<Rightarrow> Some (Inr JNull)
      | Some index \<Rightarrow>
          if sint index \<ge> int (length (eb_Transactions block)) then Some (Inr JNull)
          else if unat index \<ge> length (eb_Transactions block) then None
          else let tx = eb_Transactions block ! unat index
            in Some (Inr (evmTransactionObject E (signedTransactionFromExplorer tx) (et_BlockHash tx) (et_BlockNumber tx)
                 (word_of_int (et_TransactionIndex tx))))))"

section \<open>Methods\<close>

text \<open>The first parameter as a string, with the messages for a missing and for an invalid one.\<close>

definition first_string :: "json list \<Rightarrow> string \<Rightarrow> string \<Rightarrow> (string \<Rightarrow> rpc_result go) \<Rightarrow> rpc_result go" where
  "first_string params missing invalid f = (case params of
      [] \<Rightarrow> Some (Inl (-32602, missing))
    | param # _ \<Rightarrow> (case dec_string param [] of None \<Rightarrow> Some (Inl (-32602, invalid)) | Some s \<Rightarrow> f s))"

text \<open>An optional parameter; one of another type leaves the default.\<close>

definition param_or :: "(json \<Rightarrow> 'a \<Rightarrow> 'a option) \<Rightarrow> json list \<Rightarrow> nat \<Rightarrow> 'a \<Rightarrow> 'a" where
  "param_or dec params i dflt =
     (if i < length params then case dec (params ! i) dflt of None \<Rightarrow> dflt | Some x \<Rightarrow> x else dflt)"

definition eth_getTransactionCount :: "env \<Rightarrow> moment \<Rightarrow> Peer \<Rightarrow> json list \<Rightarrow> rpc_result go" where
  "eth_getTransactionCount E m p params =
     first_string params ''eth_getTransactionCount requires address'' ''invalid address'' (\<lambda>address. do {
       let address = ToLower address;
       nonce \<leftarrow> BestNonceOf E p address;
       nonce \<leftarrow> (if param_or dec_string params 1 ''latest'' = ''pending'' then PendingNonceOf E p (mo_pending m (p_mempool p)) address else Some nonce);
       Some (Inr (JStr (hexQuantity (uint nonce))))
     })"

definition eth_getStorageAt :: "env \<Rightarrow> Peer \<Rightarrow> json list \<Rightarrow> rpc_result go" where
  "eth_getStorageAt E p params = (case params of
      address # slot # _ \<Rightarrow> (case dec_string address [] of
        None \<Rightarrow> Some (Inl (-32602, ''invalid address''))
      | Some address \<Rightarrow> (case dec_string slot [] of
          None \<Rightarrow> Some (Inl (-32602, ''invalid slot''))
        | Some slot \<Rightarrow> map_option (\<lambda>s. Inr (JStr s)) (BestEVMStorage E p address (HexToHash E slot))))
    | _ \<Rightarrow> Some (Inl (-32602, ''eth_getStorageAt requires address and slot'')))"

definition block_by_hash :: "'a ethlib_scheme \<Rightarrow> Peer \<Rightarrow> string \<Rightarrow> ExplorerBlock option go" where
  "block_by_hash E p hash = map_option (\<lambda>idx. fmlookup (BlocksByHash idx) (ToLower hash)) (BuildExplorerIndex E p)"

definition eth_getTransactionByBlockNumberAndIndex :: "'a ethlib_scheme \<Rightarrow> Peer \<Rightarrow> json list \<Rightarrow> rpc_result go" where
  "eth_getTransactionByBlockNumberAndIndex E p params =
     (if length params < 2 then Some (Inl (-32602, ''eth_getTransactionByBlockNumberAndIndex requires block and index''))
      else do {
        block \<leftarrow> explorerBlockByTag E p (param_or dec_string params 0 []);
        transaction_at E block (param_or dec_string params 1 [])
      })"

definition eth_getTransactionByBlockHashAndIndex :: "'a ethlib_scheme \<Rightarrow> Peer \<Rightarrow> json list \<Rightarrow> rpc_result go" where
  "eth_getTransactionByBlockHashAndIndex E p params =
     (if length params < 2 then Some (Inl (-32602, ''eth_getTransactionByBlockHashAndIndex requires block hash and index''))
      else do {
        block \<leftarrow> block_by_hash E p (param_or dec_string params 0 []);
        transaction_at E block (param_or dec_string params 1 [])
      })"

definition eth_getTransactionByHash :: "'a ethlib_scheme \<Rightarrow> Peer \<Rightarrow> json list \<Rightarrow> rpc_result go" where
  "eth_getTransactionByHash E p params =
     first_string params ''eth_getTransactionByHash requires hash'' ''invalid hash'' (\<lambda>hash.
       map_option (\<lambda>location. case location of
           None \<Rightarrow> Inr JNull
         | Some (tx, blockHash, blockNumber, txIndex) \<Rightarrow> Inr (evmTransactionObject E tx blockHash blockNumber txIndex))
         (TransactionLocation E p (ToLower hash)))"

text \<open>The methods that only read.\<close>

definition read_rpc :: "env \<Rightarrow> opslib \<Rightarrow> moment \<Rightarrow> OpsServer \<Rightarrow> Peer \<Rightarrow> string \<Rightarrow> json list \<Rightarrow> rpc_result go" where
  "read_rpc E lib m s p meth params =
     (if meth = ''web3_clientVersion'' then Some (Inr (JStr nodeVersion))
      else if meth = ''net_version'' then Some (Inr (JStr (os_evmNetworkID s)))
      else if meth = ''eth_chainId'' then Some (Inr (JStr (hexQuantity (os_evmChainID s))))
      else if meth = ''eth_blockNumber'' then map_option (\<lambda>h. Inr (JStr (hexQuantity h))) (ChainHeight E p)
      else if meth = ''eth_syncing'' then Some (Inr (JBool False))
      else if meth = ''eth_accounts'' then Some (Inr (JArr []))
      else if meth = ''eth_requestAccounts'' then Some (Inr (JArr []))
      else if meth = ''eth_getBalance'' then
        first_string params ''eth_getBalance requires address'' ''invalid address'' (\<lambda>address.
          map_option (\<lambda>balance. Inr (JStr (hexQuantity (pkToEVMValue balance)))) (BestBalanceOf E p (ToLower address)))
      else if meth = ''eth_getTransactionCount'' then eth_getTransactionCount E m p params
      else if meth = ''eth_getCode'' then
        first_string params ''eth_getCode requires address'' ''invalid address'' (\<lambda>address.
          map_option (\<lambda>code. Inr (JStr (''0x'' @ hex_encode code))) (BestEVMCode E p address))
      else if meth = ''eth_getStorageAt'' then eth_getStorageAt E p params
      else if meth = ''eth_call'' then evmCall E lib p params
      else if meth = ''eth_getBlockByNumber'' then
        map_option Inr (evmBlockObject E (mo_Uptime m) p (param_or dec_string params 0 ''latest'') (param_or dec_bool params 1 False))
      else if meth = ''eth_getBlockByHash'' then
        first_string params ''eth_getBlockByHash requires hash'' ''invalid hash'' (\<lambda>hash.
          map_option Inr (evmBlockObjectByHash E (mo_Uptime m) p hash (param_or dec_bool params 1 False)))
      else if meth = ''eth_getBlockTransactionCountByNumber'' then
        map_option transaction_count (explorerBlockByTag E p (param_or dec_string params 0 ''latest''))
      else if meth = ''eth_getBlockTransactionCountByHash'' then
        first_string params ''eth_getBlockTransactionCountByHash requires hash'' ''invalid hash'' (\<lambda>hash.
          map_option transaction_count (block_by_hash E p hash))
      else if meth = ''eth_getTransactionByBlockNumberAndIndex'' then eth_getTransactionByBlockNumberAndIndex E p params
      else if meth = ''eth_getTransactionByBlockHashAndIndex'' then eth_getTransactionByBlockHashAndIndex E p params
      else if meth = ''eth_getTransactionByHash'' then eth_getTransactionByHash E p params
      else if meth = ''eth_getTransactionReceipt'' then
        first_string params ''eth_getTransactionReceipt requires hash'' ''invalid hash'' (eth_getTransactionReceipt E lib p)
      else if meth = ''eth_mining'' then Some (Inr (JBool False))
      else if meth = ''eth_hashrate'' then Some (Inr (JStr ''0x0''))
      else if meth = ''eth_gasPrice'' \<or> meth = ''eth_maxPriorityFeePerGas'' then Some (Inr (JStr evmGasPrice))
      else if meth = ''eth_estimateGas'' then Some (evmEstimateGas lib params)
      else if meth = ''eth_getLogs'' then evmGetLogs E lib m p params
      else if meth = ''eth_feeHistory'' then map_option Inr (evmFeeHistory E p params)
      else if meth = ''eth_sendTransaction'' then
        Some (Inl (-32000, ''eth_sendTransaction requires an unlocked node account; use wallet-signed eth_sendRawTransaction''))
      else Some (Inl (-32601, ''method not found'')))"

definition evm_error_text :: "opslib \<Rightarrow> string \<Rightarrow> evm_error \<Rightarrow> string" where
  "evm_error_text lib raw e = (case e of
      NegativeValue \<Rightarrow> ''evm value must be non-negative''
    | FractionalValue \<Rightarrow> ''evm value must be a whole PKN amount''
    | ValueTooLarge \<Rightarrow> ''evm value must fit native amount''
    | _ \<Rightarrow> lib_Error lib e raw)"

text \<open>The method that changes the peer: the transaction is checked against the best ledger and the pool, handled and flooded.\<close>

definition eth_sendRawTransaction :: "env \<Rightarrow> opslib \<Rightarrow> moment \<Rightarrow> OpsServer \<Rightarrow> Peer \<Rightarrow> trace \<Rightarrow> json list \<Rightarrow> (Peer \<times> trace \<times> rpc_result) go" where
  "eth_sendRawTransaction E lib m s p tr params = (case params of
      [] \<Rightarrow> Some (p, tr, Inl (-32602, ''eth_sendRawTransaction requires raw transaction''))
    | param # _ \<Rightarrow> (case dec_string param [] of
        None \<Rightarrow> Some (p, tr, Inl (-32602, ''invalid raw transaction''))
      | Some raw \<Rightarrow> (case NewEVMTransaction E raw (os_evmChainID s) of
          Inl e \<Rightarrow> Some (p, tr, Inl (-32000, evm_error_text lib raw e))
        | Inr tx \<Rightarrow> do {
            best \<leftarrow> BestNonceOf E p (tx_From tx);
            pending \<leftarrow> PendingNonceOf E p (mo_pending m (p_mempool p)) (tx_From tx);
            if tx_Nonce tx < best \<or> tx_Nonce tx > pending then Some (p, tr, Inl (-32000, ''invalid nonce''))
            else do {
              balance \<leftarrow> BestBalanceOf E p (tx_From tx);
              if balance < tx_Amount tx then Some (p, tr, Inl (-32000, ''insufficient funds''))
              else do {
                (p, tr) \<leftarrow> FloodPoSTransaction E p tr tx;
                Some (p, tr, Inr (JStr (tx_ID tx)))
              }
            }
          })))"

definition handleRPC :: "env \<Rightarrow> opslib \<Rightarrow> moment \<Rightarrow> OpsServer \<Rightarrow> Peer \<Rightarrow> trace \<Rightarrow> JSONRPCRequest \<Rightarrow> (Peer \<times> trace \<times> rpc_result) go" where
  "handleRPC E lib m s p tr req =
     (if rr_Method req = ''eth_sendRawTransaction'' then eth_sendRawTransaction E lib m s p tr (rr_Params req)
      else map_option (\<lambda>result. (p, tr, result)) (read_rpc E lib m s p (rr_Method req) (rr_Params req)))"

definition error_json :: "int \<times> string \<Rightarrow> json" where
  "error_json e = JObj [(''code'', jint (fst e)), (''message'', JStr (snd e))]"

definition rpcResponse :: "env \<Rightarrow> opslib \<Rightarrow> moment \<Rightarrow> OpsServer \<Rightarrow> Peer \<Rightarrow> trace \<Rightarrow> JSONRPCRequest \<Rightarrow> (Peer \<times> trace \<times> json) go" where
  "rpcResponse E lib m s p tr req = do {
     let req = (if rr_JSONRPC req = [] then req\<lparr>rr_JSONRPC := ''2.0''\<rparr> else req);
     (p, tr, result) \<leftarrow> handleRPC E lib m s p tr req;
     Some (p, tr, jobj ([(''jsonrpc'', JStr ''2.0''), (''id'', rr_ID req)] @
       (case result of Inl e \<Rightarrow> [(''error'', error_json e)] | Inr v \<Rightarrow> [(''result'', v)])))
   }"

fun rpc_batch :: "env \<Rightarrow> opslib \<Rightarrow> (nat \<Rightarrow> moment) \<Rightarrow> OpsServer \<Rightarrow> nat \<Rightarrow> Peer \<Rightarrow> trace \<Rightarrow> JSONRPCRequest list \<Rightarrow> (Peer \<times> trace \<times> json list) go" where
  "rpc_batch E lib ms s i p tr [] = Some (p, tr, [])"
| "rpc_batch E lib ms s i p tr (req # batch) = (case rpcResponse E lib (ms i) s p tr req of
      None \<Rightarrow> None
    | Some (p, tr, response) \<Rightarrow> map_option (\<lambda>(p, tr, responses). (p, tr, response # responses)) (rpc_batch E lib ms s (Suc i) p tr batch))"

definition rpc_headers :: "(string \<times> string) list" where
  "rpc_headers = [(''Access-Control-Allow-Origin'', ''*''), (''Access-Control-Allow-Methods'', ''POST, OPTIONS''),
     (''Access-Control-Allow-Headers'', ''Content-Type'')]"

definition setRPCHeaders :: "http_response \<Rightarrow> http_response" where
  "setRPCHeaders w = w\<lparr>res_Headers := rpc_headers @ res_Headers w\<rparr>"

abbreviation no_content :: http_response where
  "no_content \<equiv> setRPCHeaders \<lparr>res_Code = 204, res_Headers = [], res_Body = NoBody\<rparr>"

definition rpc_parse_error :: "int \<Rightarrow> http_response" where
  "rpc_parse_error code = setRPCHeaders (writeJSON code [(''jsonrpc'', JStr ''2.0''), (''error'', error_json (-32700, ''parse error''))])"

definition rpc :: "env \<Rightarrow> opslib \<Rightarrow> (nat \<Rightarrow> moment) \<Rightarrow> OpsServer \<Rightarrow> Peer \<Rightarrow> trace \<Rightarrow> http_request \<Rightarrow> (Peer \<times> trace \<times> http_response) go" where
  "rpc E lib ms s p tr r =
     (if rq_Method r = MethodOptions then Some (p, tr, no_content)
      else if rq_Method r \<noteq> MethodPost then Some (p, tr, setRPCHeaders method_not_allowed)
      else case first_value (rq_Body r) of
        None \<Rightarrow> Some (p, tr, rpc_parse_error 400)
      | Some (JArr vs) \<Rightarrow> (case those (map (\<lambda>v. dec_struct (rpc_step lib) v JSONRPCRequest_zero) vs) of
          None \<Rightarrow> Some (p, tr, rpc_parse_error 200)
        | Some batch \<Rightarrow> map_option (\<lambda>(p, tr, responses). (p, tr, setRPCHeaders (writeJSONAny 200 (JArr responses)))) (rpc_batch E lib ms s 0 p tr batch))
      | Some raw \<Rightarrow> (case dec_struct (rpc_step lib) raw JSONRPCRequest_zero of
          None \<Rightarrow> Some (p, tr, rpc_parse_error 200)
        | Some req \<Rightarrow> map_option (\<lambda>(p, tr, response). (p, tr, setRPCHeaders (writeJSONAny 200 response))) (rpcResponse E lib (ms 0) s p tr req)))"

end
