(* ===== verification/OpsRead.thy ===== *)
theory OpsRead
  imports Rpc
begin

text \<open>
  The reading endpoints of the operations server (\<open>runtime_ops.go\<close>): the explorer with its pages, the status and supply
  pages, tokens, pools, quotes, validators and metrics. Each is a function of the peer and the request.
\<close>

section \<open>The printed rows\<close>

definition explorer_tx_json :: "ExplorerTx \<Rightarrow> json" where
  "explorer_tx_json tx = JObj ([(''hash'', JStr (et_Hash tx)), (''from'', JStr (et_From tx)), (''to'', JStr (et_To tx)),
     (''amount'', jint (et_Amount tx))] @ str_member ''kind'' (et_Kind tx) @ [(''nonce'', ju64 (et_Nonce tx))] @
     num_member ''chainId'' (et_ChainID tx) @ str_member ''raw'' (et_Raw tx) @ str_member ''signature'' (et_Signature tx) @
     [(''nft'', case et_NFT tx of None \<Rightarrow> JNull | Some nft \<Rightarrow> nft_payload_json nft),
      (''amm'', case et_AMM tx of None \<Rightarrow> JNull | Some amm \<Rightarrow> amm_payload_json amm),
      (''blockHash'', JStr (et_BlockHash tx)), (''blockNumber'', jint (et_BlockNumber tx)),
      (''transactionIndex'', jint (et_TransactionIndex tx)), (''finalized'', JBool (et_Finalized tx))])"

definition rows_member :: "ExplorerTx list \<Rightarrow> (string \<times> json) list" where
  "rows_member txs = (if txs = [] then [] else [(''transactions'', JArr (map explorer_tx_json txs))])"

definition explorer_block_json :: "ExplorerBlock \<Rightarrow> json" where
  "explorer_block_json b = JObj ([(''number'', jint (eb_Number b)), (''hash'', JStr (eb_Hash b)), (''parentHash'', JStr (eb_ParentHash b)),
     (''slot'', jint (eb_Slot b)), (''draw'', jint (eb_Draw b)), (''miner'', JStr (eb_Miner b)),
     (''transactionCount'', jint (eb_TransactionCount b))] @ rows_member (eb_Transactions b) @ [(''finalized'', JBool (eb_Finalized b))])"

definition explorer_address_json :: "ExplorerAddress \<Rightarrow> json" where
  "explorer_address_json a = JObj ([(''address'', JStr (ea_Address a)), (''balance'', jint (ea_Balance_of a)), (''nonce'', ju64 (ea_Nonce_of a)),
     (''transactionCount'', jint (ea_TransactionCount a))] @ rows_member (ea_Transactions a))"

definition supply_json :: "SupplySnapshot \<Rightarrow> json" where
  "supply_json s = JObj [(''totalSupply'', jint (sup_TotalSupply s)), (''circulatingSupply'', jint (sup_CirculatingSupply s)),
     (''reservedSupply'', jint (sup_ReservedSupply s)), (''reservedAddresses'', JArr (map JStr (sup_ReservedAddresses s)))]"

definition token_json :: "NFTToken \<Rightarrow> json" where
  "token_json t = JObj ([(''collectionId'', JStr (tok_CollectionID t)), (''tokenId'', JStr (tok_TokenID t)), (''owner'', JStr (tok_Owner t)),
     (''minter'', JStr (tok_Minter t))] @ str_member ''metadataUri'' (tok_MetadataURI t) @ str_member ''metadataHash'' (tok_MetadataHash t) @
     str_member ''imageUri'' (tok_ImageURI t) @ [(''mintTx'', JStr (tok_MintTx t)), (''lastTx'', JStr (tok_LastTx t))] @
     (if tok_Burned t then [(''burned'', JBool True)] else []))"

definition pool_json :: "AMMPool \<Rightarrow> json" where
  "pool_json p = JObj ([(''id'', JStr (pool_ID p)), (''assetA'', JStr (pool_AssetA p)), (''assetB'', JStr (pool_AssetB p)),
     (''reserveA'', jint (pool_ReserveA p)), (''reserveB'', jint (pool_ReserveB p)), (''feeBps'', jint (pool_FeeBps p))] @
     str_member ''createdTx'' (pool_CreatedTx p) @ str_member ''lastTx'' (pool_LastTx p))"

definition authorization_json :: "PeerAuthorization \<Rightarrow> json" where
  "authorization_json a = JObj [(''peerId'', JStr (au_PeerID a)), (''validator'', JStr (au_Validator a)), (''stake'', jint (au_Stake a)),
     (''authorized'', JBool (au_Authorized a)), (''local'', JBool (au_Local a)), (''connected'', JBool (au_Connected a))]"

definition get_only :: "http_request \<Rightarrow> http_response go \<Rightarrow> http_response go" where
  "get_only r answer = (if rq_Method r \<noteq> MethodGet then Some method_not_allowed else answer)"

section \<open>The explorer\<close>

function page_blocks :: "(int, ExplorerBlock) gomap \<Rightarrow> int \<Rightarrow> int \<Rightarrow> ExplorerBlock list \<Rightarrow> ExplorerBlock list" where
  "page_blocks table limit height blocks =
     (if height \<ge> 0 \<and> int (length blocks) < limit
      then page_blocks table limit (height - 1)
             (case fmlookup table height of None \<Rightarrow> blocks | Some block \<Rightarrow> blocks @ [block\<lparr>eb_Transactions := []\<rparr>])
      else blocks)"
  by pat_completeness auto
termination by (relation "measure (\<lambda>(_, _, height, _). nat (height + 1))") auto

declare page_blocks.simps [simp del]

definition next_cursor :: "int \<Rightarrow> ExplorerBlock list \<Rightarrow> int option" where
  "next_cursor limit blocks =
     (if int (length blocks) = limit \<and> eb_Number (last blocks) > 0 then Some (eb_Number (last blocks) - 1) else None)"

definition cursor_json :: "int option \<Rightarrow> json" where
  "cursor_json c = (case c of None \<Rightarrow> JNull | Some i \<Rightarrow> jint i)"

definition blocks_page :: "'a ethlib_scheme \<Rightarrow> Peer \<Rightarrow> http_request \<Rightarrow> (ExplorerBlock list \<times> int option) go" where
  "blocks_page E p r = map_option (\<lambda>idx.
     let limit = boundedQueryInt r ''limit'' 25 1 100;
         blocks = page_blocks (BlocksByNumber idx) limit (queryInt r ''cursor'' (LatestHeight idx)) []
     in (blocks, next_cursor limit blocks)) (BuildExplorerIndex E p)"

definition explorerBlocks :: "'a ethlib_scheme \<Rightarrow> Peer \<Rightarrow> http_request \<Rightarrow> http_response go" where
  "explorerBlocks E p r = get_only r (do {
     idx \<leftarrow> BuildExplorerIndex E p;
     (blocks, nextCursor) \<leftarrow> blocks_page E p r;
     Some (writeJSONAny 200 (jobj [(''blocks'', JArr (map explorer_block_json blocks)), (''nextCursor'', cursor_json nextCursor),
       (''latestHeight'', jint (LatestHeight idx)), (''finalizedHeight'', jint (FinalizedHeight idx))]))
   })"

definition explorerBlock :: "'a ethlib_scheme \<Rightarrow> Peer \<Rightarrow> http_request \<Rightarrow> http_response go" where
  "explorerBlock E p r = get_only r (map_option (\<lambda>idx.
     let key = TrimPrefix (rq_Path r) ''/explorer/blocks/''
     in case (if HasPrefix (ToLower key) ''0x'' then fmlookup (BlocksByHash idx) (ToLower key)
              else Option.bind (Atoi key) (fmlookup (BlocksByNumber idx))) of
          None \<Rightarrow> json_error 404 ''block_not_found''
        | Some block \<Rightarrow> writeJSONAny 200 (explorer_block_json block)) (BuildExplorerIndex E p))"

definition explorerTx :: "'a ethlib_scheme \<Rightarrow> Peer \<Rightarrow> http_request \<Rightarrow> http_response go" where
  "explorerTx E p r = get_only r (map_option (\<lambda>idx.
     case fmlookup (TxsByHash idx) (ToLower (TrimPrefix (rq_Path r) ''/explorer/tx/'')) of
       None \<Rightarrow> json_error 404 ''transaction_not_found''
     | Some tx \<Rightarrow> writeJSONAny 200 (explorer_tx_json tx)) (BuildExplorerIndex E p))"

text \<open>
  Newest first. Rows that the comparison does not separate are copies of one row, so that the order of the sort is determined.
\<close>

definition sortExplorerTxs :: "ExplorerTx list \<Rightarrow> ExplorerTx list" where
  "sortExplorerTxs txs = sort_key (\<lambda>t. - et_BlockNumber t) (sort_key (\<lambda>t. - et_TransactionIndex t) txs)"

definition limitExplorerTxs :: "ExplorerTx list \<Rightarrow> int \<Rightarrow> ExplorerTx list" where
  "limitExplorerTxs txs limit = (if int (length txs) \<le> limit then txs else take (nat limit) txs)"

text \<open>\<open>strings.HasSuffix\<close> and \<open>strings.TrimSuffix\<close>.\<close>

definition HasSuffix :: "string \<Rightarrow> string \<Rightarrow> bool" where
  "HasSuffix s suffix \<longleftrightarrow> HasPrefix (rev s) (rev suffix)"

definition TrimSuffix :: "string \<Rightarrow> string \<Rightarrow> string" where
  "TrimSuffix s suffix = (if HasSuffix s suffix then take (length s - length suffix) s else s)"

definition address_page :: "ExplorerTx list \<Rightarrow> int \<Rightarrow> int \<Rightarrow> ExplorerTx list \<times> int option" where
  "address_page txs cursor limit =
     (let cursor = (if cursor < 0 then 0 else cursor);
          stop = i64 (cursor + limit);
          stop = (if stop > int (length txs) then int (length txs) else stop)
      in ((if cursor < int (length txs) then take (nat (stop - cursor)) (drop (nat cursor) txs) else []),
          (if stop < int (length txs) then Some stop else None)))"

definition explorerAddress :: "env \<Rightarrow> Peer \<Rightarrow> http_request \<Rightarrow> http_response go" where
  "explorerAddress E p r = get_only r (do {
     let path = TrimPrefix (rq_Path r) ''/explorer/address/'';
     let address = ToLower (TrimSuffix path ''/txs'');
     idx \<leftarrow> BuildExplorerIndex E p;
     let txs = sortExplorerTxs (mget [] (TxsByAddress idx) address);
     let (page, nextCursor) = address_page txs (queryInt r ''cursor'' 0) (boundedQueryInt r ''limit'' 25 1 100);
     if HasSuffix path ''/txs''
     then Some (writeJSONAny 200 (jobj [(''transactions'', JArr (map explorer_tx_json page)), (''nextCursor'', cursor_json nextCursor)]))
     else do {
       balance \<leftarrow> BestBalanceOf E p address;
       nonce \<leftarrow> BestNonceOf E p address;
       Some (writeJSONAny 200 (explorer_address_json \<lparr>ea_Address = address, ea_Balance_of = balance, ea_Nonce_of = nonce,
         ea_TransactionCount = int (length txs), ea_Transactions = page\<rparr>))
     }
   })"

definition found_json :: "string \<Rightarrow> json \<Rightarrow> http_response" where
  "found_json kind result = writeJSONAny 200 (jobj [(''type'', JStr kind), (''result'', result)])"

definition explorerSearch :: "env \<Rightarrow> Peer \<Rightarrow> http_request \<Rightarrow> http_response go" where
  "explorerSearch E p r = get_only r (do {
     let q = ToLower (TrimSpace (rq_Query r ''q''));
     idx \<leftarrow> BuildExplorerIndex E p;
     case fmlookup (TxsByHash idx) q of
       Some tx \<Rightarrow> Some (found_json ''transaction'' (explorer_tx_json tx))
     | None \<Rightarrow> (case fmlookup (BlocksByHash idx) q of
         Some block \<Rightarrow> Some (found_json ''block'' (explorer_block_json block))
       | None \<Rightarrow> (case Option.bind (Atoi q) (fmlookup (BlocksByNumber idx)) of
           Some block \<Rightarrow> Some (found_json ''block'' (explorer_block_json block))
         | None \<Rightarrow> (case fmlookup (TxsByAddress idx) q of
             Some txs \<Rightarrow> do {
               balance \<leftarrow> BestBalanceOf E p q;
               nonce \<leftarrow> BestNonceOf E p q;
               Some (found_json ''address'' (explorer_address_json \<lparr>ea_Address = q, ea_Balance_of = balance, ea_Nonce_of = nonce,
                 ea_TransactionCount = int (length txs), ea_Transactions = limitExplorerTxs (sortExplorerTxs txs) 25\<rparr>))
             }
           | None \<Rightarrow> Some (json_error 404 ''not_found''))))
   })"

section \<open>Status\<close>

definition counters :: "Peer \<Rightarrow> (string \<times> json) list" where
  "counters p =
     [(''lotteryAttempts'', ju64 (LotteryAttempts p)), (''lotteryWins'', ju64 (LotteryWins p)),
      (''lotteryMisses'', ju64 (LotteryMisses p)), (''lotteryNoTicket'', ju64 (LotteryNoTicket p))]"

definition health :: "'a ethlib_scheme \<Rightarrow> Peer \<Rightarrow> http_request \<Rightarrow> http_response go" where
  "health E p r = get_only r (do {
     height \<leftarrow> ChainHeight E p;
     committed \<leftarrow> CommittedHeight E p;
     Some (writeJSON 200 ([(''status'', JStr ''ok''), (''version'', JStr nodeVersion), (''currencySymbol'', JStr ''PKN''),
       (''peerCount'', jint (PeerCount p)), (''chainHeight'', jint height), (''committedHeight'', jint committed),
       (''finalityDepth'', jint (peer_FinalityDepth p)), (''mempoolDepth'', jint (int (MempoolSize p))),
       (''validatorStake'', jint (ValidatorStake p)), (''acceptedBlocks'', ju64 (AcceptedBlocks p)),
       (''acceptedTxs'', ju64 (AcceptedTransactions p))] @ counters p))
   })"

definition ready :: "Peer \<Rightarrow> http_request \<Rightarrow> http_response go" where
  "ready p r = get_only r (Some (writeJSON (if Ready p then 200 else 503)
     [(''status'', JStr (if Ready p then ''ok'' else ''initializing'')), (''ready'', JBool (Ready p))]))"

definition latest_block :: "ExplorerIndex \<Rightarrow> ExplorerBlock" where
  "latest_block idx = mget ExplorerBlock_zero (BlocksByNumber idx) (LatestHeight idx)"

definition chainStatus_page :: "'a ethlib_scheme \<Rightarrow> moment \<Rightarrow> OpsServer \<Rightarrow> Peer \<Rightarrow> http_request \<Rightarrow> http_response go" where
  "chainStatus_page E m s p r = get_only r (do {
     idx \<leftarrow> BuildExplorerIndex E p;
     let latest = latest_block idx;
     avgSlots \<leftarrow> AverageRecentBlockSlots E p 32;
     height \<leftarrow> ChainHeight E p;
     committed \<leftarrow> CommittedHeight E p;
     Some (writeJSON 200 ([(''version'', JStr nodeVersion), (''currencySymbol'', JStr ''PKN''), (''currencyName'', JStr ''Pokoin''),
       (''decimals'', jint 18), (''chainId'', jint (os_evmChainID s)), (''networkId'', JStr (os_evmNetworkID s)), (''height'', jint height),
       (''committedHeight'', jint committed), (''finalityDepth'', jint (peer_FinalityDepth p)), (''latestBlockHash'', JStr (eb_Hash latest)),
       (''latestBlockSlot'', jint (eb_Slot latest)), (''averageBlockSlots'', jint avgSlots), (''peerCount'', jint (PeerCount p)),
       (''mempoolDepth'', jint (int (MempoolSize p))), (''validatorStake'', jint (ValidatorStake p)),
       (''txCount'', jint (int (TxHistoryCount p))), (''acceptedBlocks'', ju64 (AcceptedBlocks p)), (''minedBlocks'', ju64 (MinedBlocks p)),
       (''uptimeSeconds'', jint (mo_Uptime m))] @ counters p))
   })"

definition network_info :: "OpsServer \<Rightarrow> json" where
  "network_info s = jobj [(''name'', JStr ''PokoinPoS''), (''shortName'', JStr ''pokoinpos''), (''chainId'', jint (os_evmChainID s)),
     (''networkId'', JStr (os_evmNetworkID s)), (''slip44'', jint 60), (''networkType'', JStr ''permissioned-proof-of-stake''),
     (''environment'', JStr ''mainnet''), (''public'', JBool True), (''evmCompatible'', JBool True), (''consensus'', JStr ''permissioned-pos''),
     (''clientVersion'', JStr nodeVersion), (''nativeAsset'', JStr ''PKN''), (''canonicalRpcPath'', JStr ''/rpc'')]"

definition rpc_info :: "OpsServer \<Rightarrow> json" where
  "rpc_info s = jobj [(''http'', JStr ''https://rpc.pokoin.com/rpc''), (''chainIdHex'', JStr (hexQuantity (os_evmChainID s))),
     (''gasPriceWei'', JStr evmGasPrice), (''gasLimit'', JStr evmGasLimit)]"

definition explorer_info :: json where
  "explorer_info = jobj [(''baseUrl'', JStr ''https://explorer.pokoin.com''), (''blocksPath'', JStr ''/explorer/blocks''),
     (''transactionsPath'', JStr ''/explorer/tx/{hash}''), (''addressesPath'', JStr ''/explorer/address/{address}'')]"

definition integrations_info :: json where
  "integrations_info = jobj [(''totalSupplyText'', JStr ''https://rpc.pokoin.com/chain/supply/total.txt''),
     (''circulatingSupplyText'', JStr ''https://rpc.pokoin.com/chain/supply/circulating.txt''),
     (''prometheusMetrics'', JStr ''https://rpc.pokoin.com/metrics''), (''endpointCatalog'', JStr ''https://rpc.pokoin.com/endpoints'')]"

definition chainInfo :: "'a ethlib_scheme \<Rightarrow> moment \<Rightarrow> OpsServer \<Rightarrow> Peer \<Rightarrow> http_request \<Rightarrow> http_response go" where
  "chainInfo E m s p r = get_only r (do {
     idx \<leftarrow> BuildExplorerIndex E p;
     let supply = SupplySnapshot_of p (os_reservedSupplyAddresses s);
     let validators = ActiveAuthorizedPeers p;
     avgSlots \<leftarrow> AverageRecentBlockSlots E p 32;
     height \<leftarrow> ChainHeight E p;
     committed \<leftarrow> CommittedHeight E p;
     Some (writeJSONAny 200 (jobj
       [(''network'', network_info s),
        (''nativeCurrency'', jobj [(''name'', JStr ''Pokoin''), (''symbol'', JStr ''PKN''), (''decimals'', jint 18)]),
        (''rpc'', rpc_info s),
        (''explorer'', explorer_info),
        (''status'', jobj [(''ready'', JBool (Ready p)), (''height'', jint height), (''committedHeight'', jint committed),
           (''finalityDepth'', jint (peer_FinalityDepth p)), (''peerCount'', jint (PeerCount p)), (''mempoolDepth'', jint (int (MempoolSize p))),
           (''txCount'', jint (int (TxHistoryCount p))), (''uptimeSeconds'', jint (mo_Uptime m)), (''averageBlockSlots'', jint avgSlots)]),
        (''supply'', supply_json supply),
        (''consensus'', jobj [(''type'', JStr ''permissioned-proof-of-stake''), (''slotSeconds'', jint 1), (''finalityDepth'', jint (peer_FinalityDepth p)),
           (''validatorCount'', jint (int (length validators))), (''connectedValidatorCount'', jint (int (length validators))),
           (''blockReward'', jint MINER_BLOCK_REWARD)]),
        (''latestBlock'', explorer_block_json (latest_block idx)),
        (''validators'', JArr (map authorization_json validators)),
        (''integrations'', integrations_info)]))
   })"

section \<open>Supply, tokens and pools\<close>

definition chainSupply :: "OpsServer \<Rightarrow> Peer \<Rightarrow> http_request \<Rightarrow> http_response go" where
  "chainSupply s p r = get_only r (Some (writeJSONAny 200 (supply_json (SupplySnapshot_of p (os_reservedSupplyAddresses s)))))"

definition writeSupplyText :: "int \<Rightarrow> http_response" where
  "writeSupplyText v = plain_text [(''Content-Type'', ''text/plain; charset=utf-8''), (''Cache-Control'', ''no-store'')] (Itoa v)"

definition get_or_head :: "http_request \<Rightarrow> http_response go \<Rightarrow> http_response go" where
  "get_or_head r answer = (if rq_Method r \<noteq> MethodGet \<and> rq_Method r \<noteq> MethodHead then Some method_not_allowed else answer)"

definition totalSupplyText :: "OpsServer \<Rightarrow> Peer \<Rightarrow> http_request \<Rightarrow> http_response go" where
  "totalSupplyText s p r = get_or_head r (Some (writeSupplyText (sup_TotalSupply (SupplySnapshot_of p (os_reservedSupplyAddresses s)))))"

definition circulatingSupplyText :: "OpsServer \<Rightarrow> Peer \<Rightarrow> http_request \<Rightarrow> http_response go" where
  "circulatingSupplyText s p r = get_or_head r (Some (writeSupplyText (sup_CirculatingSupply (SupplySnapshot_of p (os_reservedSupplyAddresses s)))))"

text \<open>\<open>strings.Trim\<close> of slashes.\<close>

definition trim_slashes :: "string \<Rightarrow> string" where
  "trim_slashes s = (let slash = (\<lambda>c. c = CHR ''/'') in rev (dropWhile slash (rev (dropWhile slash s))))"

definition sortNFTTokens :: "NFTToken list \<Rightarrow> NFTToken list" where
  "sortNFTTokens tokens = sort_key tok_CollectionID (sort_key tok_TokenID tokens)"

definition tokens_json :: "(string \<times> json) list \<Rightarrow> NFTToken list \<Rightarrow> http_response" where
  "tokens_json owner tokens = writeJSONAny 200 (jobj (owner @ [(''count'', jint (int (length tokens))),
     (''tokens'', JArr (map token_json (sortNFTTokens tokens)))]))"

definition chainNFTs :: "env \<Rightarrow> Peer \<Rightarrow> http_request \<Rightarrow> http_response go" where
  "chainNFTs E p r = get_only r
     (let path = trim_slashes (TrimPrefix (rq_Path r) ''/chain/nfts'');
          of_owner = (\<lambda>owner. map_option (tokens_json [(''owner'', JStr owner)]) (BestNFTsByOwner E p owner))
      in if HasPrefix path ''owner/'' then of_owner (TrimPrefix path ''owner/'')
         else if path \<noteq> [] then (case Split path CHR ''/'' of
             [collection, token] \<Rightarrow> map_option (\<lambda>found. case found of
                 Some token \<Rightarrow> if tok_Burned token then json_error 404 ''nft_not_found'' else writeJSONAny 200 (token_json token)
               | None \<Rightarrow> json_error 404 ''nft_not_found'') (BestNFT E p collection token)
           | _ \<Rightarrow> Some (json_error 404 ''nft_not_found''))
         else let owner = TrimSpace (rq_Query r ''owner'') in
           if owner \<noteq> [] then of_owner owner
           else map_option (\<lambda>tokens. tokens_json [] (filter (\<lambda>t. \<not> tok_Burned t) (List.map_filter (fmlookup tokens) (mkeys tokens)))) (BestNFTs E p))"

definition swapPools :: "env \<Rightarrow> Peer \<Rightarrow> http_request \<Rightarrow> http_response go" where
  "swapPools E p r = get_only r
     (let path = trim_slashes (TrimPrefix (rq_Path r) ''/chain/swap/pools'')
      in if path \<noteq> [] then map_option (\<lambda>found. case found of
             None \<Rightarrow> json_error 404 ''pool_not_found''
           | Some pool \<Rightarrow> writeJSONAny 200 (pool_json pool)) (BestAMMPool E p path)
         else map_option (\<lambda>pools.
             let pools = sort_key pool_ID (List.map_filter (fmlookup pools) (mkeys pools))
             in writeJSONAny 200 (jobj [(''count'', jint (int (length pools))), (''pools'', JArr (map pool_json pools))])) (BestAMMPools E p))"

definition swapBalances :: "env \<Rightarrow> Peer \<Rightarrow> http_request \<Rightarrow> http_response go" where
  "swapBalances E p r = get_only r
     (let address = TrimSpace (TrimPrefix (rq_Path r) ''/chain/swap/balances/'')
      in if address = [] then Some (json_error 400 ''missing_address'')
         else map_option (\<lambda>balances. writeJSONAny 200 (jobj [(''address'', JStr address),
             (''balances'', JObj (map (\<lambda>k. (k, jint (mget 0 balances k))) (mkeys balances)))])) (BestAssetBalances E p address))"

record AMMQuote =
  quote_PoolID :: string
  quote_AssetIn :: string
  quote_AssetOut :: string
  quote_AmountIn :: int
  quote_AmountOut :: int
  quote_FeeBps :: int
  quote_ReserveIn :: int
  quote_ReserveOut :: int
  quote_PriceNumerator :: int
  quote_PriceDenominator :: int

definition quote_json :: "AMMQuote \<Rightarrow> json" where
  "quote_json q = JObj [(''poolId'', JStr (quote_PoolID q)), (''assetIn'', JStr (quote_AssetIn q)), (''assetOut'', JStr (quote_AssetOut q)),
     (''amountIn'', jint (quote_AmountIn q)), (''amountOut'', jint (quote_AmountOut q)), (''feeBps'', jint (quote_FeeBps q)),
     (''reserveIn'', jint (quote_ReserveIn q)), (''reserveOut'', jint (quote_ReserveOut q)),
     (''priceNumerator'', jint (quote_PriceNumerator q)), (''priceDenominator'', jint (quote_PriceDenominator q))]"

definition make_quote :: "AMMPool \<Rightarrow> string \<Rightarrow> int \<Rightarrow> int \<Rightarrow> AMMQuote" where
  "make_quote pool assetIn amountIn amountOut =
     (let assetIn = ToUpper assetIn; turned = (assetIn = pool_AssetB pool);
          reserveIn = (if turned then pool_ReserveB pool else pool_ReserveA pool);
          reserveOut = (if turned then pool_ReserveA pool else pool_ReserveB pool)
      in \<lparr>quote_PoolID = pool_ID pool, quote_AssetIn = assetIn, quote_AssetOut = (if turned then pool_AssetA pool else pool_AssetB pool),
          quote_AmountIn = amountIn, quote_AmountOut = amountOut, quote_FeeBps = pool_FeeBps pool, quote_ReserveIn = reserveIn,
          quote_ReserveOut = reserveOut, quote_PriceNumerator = reserveOut, quote_PriceDenominator = reserveIn\<rparr>)"

definition swapQuote :: "env \<Rightarrow> Peer \<Rightarrow> http_request \<Rightarrow> http_response go" where
  "swapQuote E p r = get_only r
     (let assetIn = TrimSpace (rq_Query r ''assetIn''); amountIn = queryInt r ''amountIn'' 0
      in map_option (\<lambda>found. case found of
           None \<Rightarrow> json_error 400 ''invalid_quote_request''
         | Some pool \<Rightarrow>
             if amountIn < 1 \<or> assetIn = [] then json_error 400 ''invalid_quote_request''
             else case QuoteSwap pool assetIn amountIn of (amountOut, ok) \<Rightarrow>
               if \<not> ok then json_error 400 ''quote_unavailable''
               else writeJSONAny 200 (quote_json (make_quote pool assetIn amountIn amountOut)))
         (BestAMMPool E p (TrimSpace (rq_Query r ''pool''))))"

section \<open>Validators, registry and metrics\<close>

definition validators :: "Peer \<Rightarrow> http_request \<Rightarrow> http_response go" where
  "validators p r = get_only r (Some (writeJSON 200 [(''validators'', JArr (map authorization_json (AuthorizedPeers p)))]))"

definition BootstrapRegistryStatus_zero :: BootstrapRegistryStatus where
  "BootstrapRegistryStatus_zero = \<lparr>rs_ManifestURL = [], rs_LastRefreshAt = [], rs_LastError = [], rs_Network = BootstrapNetwork_zero,
     rs_EVM = BootstrapEVM_zero, rs_Bootstrap = BootstrapDefaults_zero, rs_Policy = BootstrapPolicy_zero, rs_Peers = [], rs_Candidates = [],
     rs_FallbackPeers = []\<rparr>"

definition bootstrapStatus :: "OpsServer \<Rightarrow> http_request \<Rightarrow> http_response go" where
  "bootstrapStatus s r = get_only r (Some \<lparr>res_Code = 200, res_Headers = [(''Content-Type'', ''application/json'')],
     res_Body = Registry (case os_bootstrap s of None \<Rightarrow> BootstrapRegistryStatus_zero | Some registry \<Rightarrow> Status registry)\<rparr>)"

definition metric_line :: "string \<times> string \<Rightarrow> string" where
  "metric_line nv = fst nv @ '' '' @ snd nv @ [CHR 0x0A]"

definition metrics :: "'a ethlib_scheme \<Rightarrow> moment \<Rightarrow> OpsServer \<Rightarrow> Peer \<Rightarrow> http_request \<Rightarrow> http_response go" where
  "metrics E m s p r = get_only r (do {
     let supply = SupplySnapshot_of p (os_reservedSupplyAddresses s);
     let active = int (length (ActiveAuthorizedPeers p));
     height \<leftarrow> ChainHeight E p;
     committed \<leftarrow> CommittedHeight E p;
     avgSlots \<leftarrow> AverageRecentBlockSlots E p 32;
     Some (plain_text [(''Content-Type'', ''text/plain; version=0.0.4; charset=utf-8'')] (concat (map metric_line
       [(''pokoinpos_chain_id'', Itoa (os_evmChainID s)),
        (''pokoinpos_chain_height'', Itoa height),
        (''pokoinpos_committed_height'', Itoa committed),
        (''pokoinpos_finality_depth'', Itoa (peer_FinalityDepth p)),
        (''pokoinpos_peer_count'', Itoa (PeerCount p)),
        (''pokoinpos_mempool_depth'', Itoa (int (MempoolSize p))),
        (''pokoinpos_validator_stake'', Itoa (ValidatorStake p)),
        (''pokoinpos_validator_count'', Itoa active),
        (''pokoinpos_connected_validator_count'', Itoa active),
        (''pokoinpos_total_supply'', Itoa (sup_TotalSupply supply)),
        (''pokoinpos_circulating_supply'', Itoa (sup_CirculatingSupply supply)),
        (''pokoinpos_reserved_supply'', Itoa (sup_ReservedSupply supply)),
        (''pokoinpos_average_block_slots'', Itoa avgSlots),
        (''pokoinpos_blocks_accepted_total'', nat_digits (unat (AcceptedBlocks p))),
        (''pokoinpos_blocks_mined_total'', nat_digits (unat (MinedBlocks p))),
        (''pokoinpos_lottery_attempts_total'', nat_digits (unat (LotteryAttempts p))),
        (''pokoinpos_lottery_wins_total'', nat_digits (unat (LotteryWins p))),
        (''pokoinpos_lottery_misses_total'', nat_digits (unat (LotteryMisses p))),
        (''pokoinpos_lottery_no_ticket_total'', nat_digits (unat (LotteryNoTicket p))),
        (''pokoinpos_transactions_accepted_total'', nat_digits (unat (AcceptedTransactions p))),
        (''pokoinpos_ledger_transaction_count'', Itoa (int (TxHistoryCount p))),
        (''pokoinpos_uptime_seconds'', Itoa (mo_Uptime m))])))
   })"

end
