(* ===== verification/Catalogue.thy ===== *)
theory Catalogue
  imports Http
begin

text \<open>
  The catalogue of endpoints that the server publishes about itself (\<open>runtime_ops.go\<close>): its entries as the source lists them, in three
  groups, and their JSON form.
\<close>

record EndpointDescription =
  ep_Method :: string
  ep_Path :: string
  ep_Summary :: string
  ep_Authentication :: string
  ep_ContentType :: string
  ep_ResponseFields :: "string list"
  ep_QueryParams :: "string list"
  ep_UseCases :: "string list"

definition strings_member :: "string \<Rightarrow> string list \<Rightarrow> (string \<times> json) list" where
  "strings_member key texts = (if texts = [] then [] else [(key, JArr (map JStr texts))])"

definition endpoint_json :: "EndpointDescription \<Rightarrow> json" where
  "endpoint_json e = JObj ([(''method'', JStr (ep_Method e)), (''path'', JStr (ep_Path e)), (''summary'', JStr (ep_Summary e)),
     (''authentication'', JStr (ep_Authentication e)), (''contentType'', JStr (ep_ContentType e))] @
     strings_member ''responseFields'' (ep_ResponseFields e) @ strings_member ''queryParams'' (ep_QueryParams e) @
     strings_member ''useCases'' (ep_UseCases e))"

section \<open>The entries\<close>

definition catalogue_chain :: "EndpointDescription list" where
  "catalogue_chain =
    [\<lparr>ep_Method = MethodGet,
       ep_Path = ''/health'',
       ep_Summary = ''Liveness and compact node status for dashboards and load balancers.'',
       ep_Authentication = ''none'',
       ep_ContentType = ''application/json'',
       ep_ResponseFields = [''status'', ''version'', ''currencySymbol'', ''peerCount'', ''chainHeight'', ''committedHeight'', ''finalityDepth'', ''mempoolDepth'', ''validatorStake'', ''acceptedBlocks'', ''acceptedTxs''],
       ep_QueryParams = [],
       ep_UseCases = [''health page'', ''uptime checks'', ''load balancer probes'']\<rparr>,
     \<lparr>ep_Method = MethodGet,
       ep_Path = ''/ready'',
       ep_Summary = ''Readiness status; returns 503 while node runtime is not fully initialized.'',
       ep_Authentication = ''none'',
       ep_ContentType = ''application/json'',
       ep_ResponseFields = [''status'', ''ready''],
       ep_QueryParams = [],
       ep_UseCases = [''deployment readiness gate'', ''container health checks'']\<rparr>,
     \<lparr>ep_Method = MethodGet,
       ep_Path = ''/chain/status'',
       ep_Summary = ''Detailed chain, finality, peer, mempool, and uptime status.'',
       ep_Authentication = ''none'',
       ep_ContentType = ''application/json'',
       ep_ResponseFields = [''version'', ''currencySymbol'', ''height'', ''committedHeight'', ''finalityDepth'', ''peerCount'', ''mempoolDepth'', ''validatorStake'', ''txCount'', ''acceptedBlocks'', ''minedBlocks'', ''uptimeSeconds''],
       ep_QueryParams = [],
       ep_UseCases = [''public health page'', ''chain explorer status'', ''node operations dashboard'']\<rparr>,
     \<lparr>ep_Method = MethodGet,
       ep_Path = ''/chain/info'',
       ep_Summary = ''Exchange and scanner friendly network metadata, native token data, supply, finality, consensus, RPC, and latest block status.'',
       ep_Authentication = ''none'',
       ep_ContentType = ''application/json'',
       ep_ResponseFields = [''network'', ''nativeCurrency'', ''rpc'', ''explorer'', ''status'', ''supply'', ''consensus'', ''validators'', ''latestBlock''],
       ep_QueryParams = [],
       ep_UseCases = [''exchange listing'', ''block scanner config'', ''wallet registry'', ''market data integrations'']\<rparr>,
     \<lparr>ep_Method = MethodGet,
       ep_Path = ''/chain/validators'',
       ep_Summary = ''Dynamic connected peer validator view based on advertised validator account and P2P membership.'',
       ep_Authentication = ''none'',
       ep_ContentType = ''application/json'',
       ep_ResponseFields = [''validators''],
       ep_QueryParams = [],
       ep_UseCases = [''node operator dashboard'', ''validator authorization checks'', ''peer diagnostics'']\<rparr>,
     \<lparr>ep_Method = MethodGet,
       ep_Path = ''/chain/nfts'',
       ep_Summary = ''Native Pokoin NFT registry with token metadata and ownership.'',
       ep_Authentication = ''none'',
       ep_ContentType = ''application/json'',
       ep_ResponseFields = [''tokens'', ''count''],
       ep_QueryParams = [''owner: optional wallet/account owner filter''],
       ep_UseCases = [''Card Vault inventory'', ''native NFT explorer'', ''wallet ownership display'']\<rparr>,
     \<lparr>ep_Method = MethodGet,
       ep_Path = ''/chain/nfts/{collectionId}/{tokenId}'',
       ep_Summary = ''Native Pokoin NFT token lookup by collection and token ID.'',
       ep_Authentication = ''none'',
       ep_ContentType = ''application/json'',
       ep_ResponseFields = [''collectionId'', ''tokenId'', ''owner'', ''metadataUri'', ''metadataHash'', ''imageUri'', ''mintTx'', ''lastTx''],
       ep_QueryParams = [],
       ep_UseCases = [''NFT detail page'', ''metadata integrity check'', ''ownership verification'']\<rparr>,
     \<lparr>ep_Method = MethodGet,
       ep_Path = ''/chain/swap/pools'',
       ep_Summary = ''Native PokoinSwap AMM pool registry and reserves.'',
       ep_Authentication = ''none'',
       ep_ContentType = ''application/json'',
       ep_ResponseFields = [''pools'', ''count''],
       ep_QueryParams = [],
       ep_UseCases = [''swap UI'', ''liquidity dashboard'', ''native DEX discovery'']\<rparr>,
     \<lparr>ep_Method = MethodGet,
       ep_Path = ''/chain/swap/quote'',
       ep_Summary = ''Native PokoinSwap deterministic quote for a pool and input amount.'',
       ep_Authentication = ''none'',
       ep_ContentType = ''application/json'',
       ep_ResponseFields = [''poolId'', ''assetIn'', ''assetOut'', ''amountIn'', ''amountOut'', ''feeBps''],
       ep_QueryParams = [''pool'', ''assetIn'', ''amountIn''],
       ep_UseCases = [''swap preview'', ''slippage checks'', ''Card Vault wallet quoting'']\<rparr>,
     \<lparr>ep_Method = MethodGet,
       ep_Path = ''/chain/bootstrap'',
       ep_Summary = ''Dynamic bootstrap registry, vetting, uptime, and fallback peer status.'',
       ep_Authentication = ''none'',
       ep_ContentType = ''application/json'',
       ep_ResponseFields = [''manifestUrl'', ''lastRefreshAt'', ''lastError'', ''policy'', ''peers'', ''fallbackPeers''],
       ep_QueryParams = [],
       ep_UseCases = [''local dashboard'', ''bootstrap vetting visibility'', ''peer discovery diagnostics'']\<rparr>]"

definition catalogue_node :: "EndpointDescription list" where
  "catalogue_node =
    [\<lparr>ep_Method = MethodGet,
       ep_Path = ''/metrics'',
       ep_Summary = ''Prometheus text metrics for monitoring and alerting.'',
       ep_Authentication = ''none'',
       ep_ContentType = ''text/plain; version=0.0.4'',
       ep_ResponseFields = [''pokoinpos_chain_height'', ''pokoinpos_committed_height'', ''pokoinpos_finality_depth'', ''pokoinpos_peer_count'', ''pokoinpos_mempool_depth'', ''pokoinpos_validator_stake'', ''pokoinpos_blocks_accepted_total'', ''pokoinpos_blocks_mined_total'', ''pokoinpos_transactions_accepted_total'', ''pokoinpos_ledger_transaction_count'', ''pokoinpos_uptime_seconds''],
       ep_QueryParams = [],
       ep_UseCases = [''Prometheus scrape target'', ''Grafana dashboards'', ''alerts'']\<rparr>,
     \<lparr>ep_Method = MethodGet,
       ep_Path = ''/endpoints'',
       ep_Summary = ''Machine-readable catalog of all exposed node API endpoints.'',
       ep_Authentication = ''none'',
       ep_ContentType = ''application/json'',
       ep_ResponseFields = [''service'', ''currency'', ''endpoints''],
       ep_QueryParams = [],
       ep_UseCases = [''website health page'', ''API documentation UI'', ''runtime endpoint discovery'']\<rparr>,
     \<lparr>ep_Method = MethodGet,
       ep_Path = ''/dashboard'',
       ep_Summary = ''Local node-host dashboard for operators running this PokoinPoS node.'',
       ep_Authentication = ''none for read-only cards; operator actions require Authorization: Bearer <POKOINPOS_OPERATOR_TOKEN>'',
       ep_ContentType = ''text/html; charset=utf-8'',
       ep_ResponseFields = [],
       ep_QueryParams = [],
       ep_UseCases = [''local node hosting dashboard'', ''operator status checks'', ''guarded admin actions'']\<rparr>,
     \<lparr>ep_Method = MethodPost,
       ep_Path = ''/rpc'',
       ep_Summary = ''EVM-style JSON-RPC compatibility endpoint for MetaMask-style wallets.'',
       ep_Authentication = ''none'',
       ep_ContentType = ''application/json'',
       ep_ResponseFields = [''jsonrpc'', ''id'', ''result'', ''error''],
       ep_QueryParams = [],
       ep_UseCases = [''MetaMask custom network'', ''EVM wallet network detection'', ''read-only PKN balance checks'']\<rparr>,
     \<lparr>ep_Method = MethodGet,
       ep_Path = ''/explorer/blocks'',
       ep_Summary = ''Paginated canonical block list for block explorers.'',
       ep_Authentication = ''none'',
       ep_ContentType = ''application/json'',
       ep_ResponseFields = [''blocks'', ''nextCursor''],
       ep_QueryParams = [''limit: max 100'', ''cursor: next block number''],
       ep_UseCases = [''block explorer'', ''indexer sync'', ''public chain discovery'']\<rparr>,
     \<lparr>ep_Method = MethodGet,
       ep_Path = ''/explorer/tx/{hash}'',
       ep_Summary = ''Canonical transaction details by hash.'',
       ep_Authentication = ''none'',
       ep_ContentType = ''application/json'',
       ep_ResponseFields = [''hash'', ''from'', ''to'', ''amount'', ''blockHash'', ''blockNumber'', ''transactionIndex''],
       ep_QueryParams = [],
       ep_UseCases = [''transaction page'', ''wallet support'', ''chain registry validation'']\<rparr>]"

definition catalogue_operator :: "EndpointDescription list" where
  "catalogue_operator =
    [\<lparr>ep_Method = MethodPost,
       ep_Path = ''/admin/mempool'',
       ep_Summary = ''Operator-only node-local mempool diagnostics with pending transaction summaries and best-ledger validity.'',
       ep_Authentication = ''Authorization: Bearer <POKOINPOS_OPERATOR_TOKEN>'',
       ep_ContentType = ''application/json'',
       ep_ResponseFields = [''count'', ''transactions''],
       ep_QueryParams = [],
       ep_UseCases = [''debug stale mempool entries'', ''compare node-local pending transactions'', ''operator diagnostics'']\<rparr>,
     \<lparr>ep_Method = MethodPost,
       ep_Path = ''/admin/mine'',
       ep_Summary = ''Manually mine a requested slot; intended for controlled operations and smoke tests.'',
       ep_Authentication = ''Authorization: Bearer <POKOINPOS_OPERATOR_TOKEN>'',
       ep_ContentType = ''application/json'',
       ep_ResponseFields = [''slot'', ''mined''],
       ep_QueryParams = [''slot: positive integer''],
       ep_UseCases = [''admin smoke tests'', ''manual validator operation'']\<rparr>,
     \<lparr>ep_Method = MethodPost,
       ep_Path = ''/admin/mint'',
       ep_Summary = ''Admin-only controlled PKN mint into a target account.'',
       ep_Authentication = ''Authorization: Bearer <POKOINPOS_OPERATOR_TOKEN>'',
       ep_ContentType = ''application/json'',
       ep_ResponseFields = [''hash'', ''to'', ''amount''],
       ep_QueryParams = [],
       ep_UseCases = [''treasury allocation'', ''wrapped-token reserve funding'', ''sale inventory setup'']\<rparr>,
     \<lparr>ep_Method = MethodPost,
       ep_Path = ''/admin/withdraw'',
       ep_Summary = ''Withdraw this validator's spendable PKN balance to a payout EVM wallet address.'',
       ep_Authentication = ''Authorization: Bearer <POKOINPOS_OPERATOR_TOKEN>'',
       ep_ContentType = ''application/json'',
       ep_ResponseFields = [''hash'', ''to'', ''amount''],
       ep_QueryParams = [],
       ep_UseCases = [''validator payout'', ''operator rewards withdrawal'']\<rparr>,
     \<lparr>ep_Method = MethodPost,
       ep_Path = ''/admin/nft/mint'',
       ep_Summary = ''Admin-only native NFT mint into a target owner account.'',
       ep_Authentication = ''Authorization: Bearer <POKOINPOS_OPERATOR_TOKEN>'',
       ep_ContentType = ''application/json'',
       ep_ResponseFields = [''hash'', ''collectionId'', ''tokenId'', ''owner'', ''metadataUri'', ''metadataHash'', ''imageUri''],
       ep_QueryParams = [],
       ep_UseCases = [''Card Vault minting'', ''collection issuance'', ''metadata anchoring'']\<rparr>,
     \<lparr>ep_Method = MethodPost,
       ep_Path = ''/admin/nft/transfer'',
       ep_Summary = ''Admin-only native NFT transfer from the validator-owned token inventory.'',
       ep_Authentication = ''Authorization: Bearer <POKOINPOS_OPERATOR_TOKEN>'',
       ep_ContentType = ''application/json'',
       ep_ResponseFields = [''hash'', ''collectionId'', ''tokenId'', ''to''],
       ep_QueryParams = [],
       ep_UseCases = [''operator inventory transfer'', ''custodial Card Vault delivery'']\<rparr>,
     \<lparr>ep_Method = MethodPost,
       ep_Path = ''/admin/swap/pools'',
       ep_Summary = ''Admin-only native PokoinSwap pool creation.'',
       ep_Authentication = ''Authorization: Bearer <POKOINPOS_OPERATOR_TOKEN>'',
       ep_ContentType = ''application/json'',
       ep_ResponseFields = [''hash'', ''poolId'', ''assetA'', ''assetB''],
       ep_QueryParams = [],
       ep_UseCases = [''PKN/wPKN pool setup'', ''operator liquidity initialization'']\<rparr>,
     \<lparr>ep_Method = MethodPost,
       ep_Path = ''/admin/swap/liquidity/add'',
       ep_Summary = ''Admin-only native PokoinSwap liquidity addition.'',
       ep_Authentication = ''Authorization: Bearer <POKOINPOS_OPERATOR_TOKEN>'',
       ep_ContentType = ''application/json'',
       ep_ResponseFields = [''hash'', ''poolId'', ''amountA'', ''amountB''],
       ep_QueryParams = [],
       ep_UseCases = [''reserve seeding'', ''operator liquidity management'']\<rparr>,
     \<lparr>ep_Method = MethodGet,
       ep_Path = ''/admin/dashboard/status'',
       ep_Summary = ''Protected dashboard capability check for the local node-host dashboard.'',
       ep_Authentication = ''Authorization: Bearer <POKOINPOS_OPERATOR_TOKEN>'',
       ep_ContentType = ''application/json'',
       ep_ResponseFields = [''adminEnabled'', ''actions'', ''chainId'', ''networkId''],
       ep_QueryParams = [],
       ep_UseCases = [''dashboard token validation'', ''operator admin readiness'']\<rparr>]"

definition catalogue :: "EndpointDescription list" where
  "catalogue = catalogue_chain @ catalogue_node @ catalogue_operator"

end
