(* ===== verification/Ops.thy ===== *)
theory Ops
  imports OpsRead Catalogue
begin

text \<open>
  The operations server as a whole (\<open>runtime_ops.go\<close>, \<open>runtime_dashboard.go\<close>): the operator's endpoints, which need the
  token, and the multiplexer that \<open>StartOpsServer\<close> builds. \<open>serve\<close> is the effect of one request on the peer and the answer.
\<close>

section \<open>The operator's token\<close>

definition isAdminAuthorized :: "OpsServer \<Rightarrow> http_request \<Rightarrow> bool" where
  "isAdminAuthorized s r \<longleftrightarrow> os_adminToken s \<noteq> [] \<and> rq_Authorization r = ''Bearer '' @ os_adminToken s"

type_synonym answered = "(Peer \<times> trace \<times> http_response) go"

text \<open>Every endpoint of the operator begins with the check of the method and then of the token.\<close>

definition operator_only :: "OpsServer \<Rightarrow> string list \<Rightarrow> Peer \<Rightarrow> trace \<Rightarrow> http_request \<Rightarrow> answered \<Rightarrow> answered" where
  "operator_only s methods p tr r answer =
     (if rq_Method r \<notin> set methods then Some (p, tr, method_not_allowed)
      else if \<not> isAdminAuthorized s r then Some (p, tr, json_error 401 ''admin_auth_required'')
      else answer)"

section \<open>Requests\<close>

record mintRequest =
  mr_To :: string
  mr_Amount :: int

definition mint_step :: "string \<Rightarrow> json \<Rightarrow> mintRequest \<Rightarrow> mintRequest option" where
  "mint_step k v q =
     (if EqualFold k ''to'' then map_option (\<lambda>x. q\<lparr>mr_To := x\<rparr>) (dec_string v (mr_To q))
      else if EqualFold k ''amount'' then map_option (\<lambda>x. q\<lparr>mr_Amount := x\<rparr>) (dec_int v (mr_Amount q))
      else Some q)"

record withdrawRequest =
  wr_To :: string
  wr_Amount :: int

definition withdraw_step :: "string \<Rightarrow> json \<Rightarrow> withdrawRequest \<Rightarrow> withdrawRequest option" where
  "withdraw_step k v q =
     (if EqualFold k ''to'' then map_option (\<lambda>x. q\<lparr>wr_To := x\<rparr>) (dec_string v (wr_To q))
      else if EqualFold k ''amount'' then map_option (\<lambda>x. q\<lparr>wr_Amount := x\<rparr>) (dec_int v (wr_Amount q))
      else Some q)"

record nftMintRequest =
  nm_CollectionID :: string
  nm_TokenID :: string
  nm_Owner :: string
  nm_MetadataURI :: string
  nm_MetadataHash :: string
  nm_ImageURI :: string

definition nft_mint_step :: "string \<Rightarrow> json \<Rightarrow> nftMintRequest \<Rightarrow> nftMintRequest option" where
  "nft_mint_step k v q =
     (if EqualFold k ''collectionId'' then map_option (\<lambda>x. q\<lparr>nm_CollectionID := x\<rparr>) (dec_string v (nm_CollectionID q))
      else if EqualFold k ''tokenId'' then map_option (\<lambda>x. q\<lparr>nm_TokenID := x\<rparr>) (dec_string v (nm_TokenID q))
      else if EqualFold k ''owner'' then map_option (\<lambda>x. q\<lparr>nm_Owner := x\<rparr>) (dec_string v (nm_Owner q))
      else if EqualFold k ''metadataUri'' then map_option (\<lambda>x. q\<lparr>nm_MetadataURI := x\<rparr>) (dec_string v (nm_MetadataURI q))
      else if EqualFold k ''metadataHash'' then map_option (\<lambda>x. q\<lparr>nm_MetadataHash := x\<rparr>) (dec_string v (nm_MetadataHash q))
      else if EqualFold k ''imageUri'' then map_option (\<lambda>x. q\<lparr>nm_ImageURI := x\<rparr>) (dec_string v (nm_ImageURI q))
      else Some q)"

record nftTransferRequest =
  nr_CollectionID :: string
  nr_TokenID :: string
  nr_To :: string

definition nft_transfer_step :: "string \<Rightarrow> json \<Rightarrow> nftTransferRequest \<Rightarrow> nftTransferRequest option" where
  "nft_transfer_step k v q =
     (if EqualFold k ''collectionId'' then map_option (\<lambda>x. q\<lparr>nr_CollectionID := x\<rparr>) (dec_string v (nr_CollectionID q))
      else if EqualFold k ''tokenId'' then map_option (\<lambda>x. q\<lparr>nr_TokenID := x\<rparr>) (dec_string v (nr_TokenID q))
      else if EqualFold k ''to'' then map_option (\<lambda>x. q\<lparr>nr_To := x\<rparr>) (dec_string v (nr_To q))
      else Some q)"

record assetAccountingRequest =
  ar_Asset :: string
  ar_Account :: string
  ar_Amount :: int

definition asset_step :: "string \<Rightarrow> json \<Rightarrow> assetAccountingRequest \<Rightarrow> assetAccountingRequest option" where
  "asset_step k v q =
     (if EqualFold k ''asset'' then map_option (\<lambda>x. q\<lparr>ar_Asset := x\<rparr>) (dec_string v (ar_Asset q))
      else if EqualFold k ''account'' then map_option (\<lambda>x. q\<lparr>ar_Account := x\<rparr>) (dec_string v (ar_Account q))
      else if EqualFold k ''amount'' then map_option (\<lambda>x. q\<lparr>ar_Amount := x\<rparr>) (dec_int v (ar_Amount q))
      else Some q)"

record swapPoolRequest =
  sp_AssetA :: string
  sp_AssetB :: string

definition swap_pool_step :: "string \<Rightarrow> json \<Rightarrow> swapPoolRequest \<Rightarrow> swapPoolRequest option" where
  "swap_pool_step k v q =
     (if EqualFold k ''assetA'' then map_option (\<lambda>x. q\<lparr>sp_AssetA := x\<rparr>) (dec_string v (sp_AssetA q))
      else if EqualFold k ''assetB'' then map_option (\<lambda>x. q\<lparr>sp_AssetB := x\<rparr>) (dec_string v (sp_AssetB q))
      else Some q)"

record swapAddLiquidityRequest =
  sl_PoolID :: string
  sl_AmountA :: int
  sl_AmountB :: int

definition swap_liquidity_step :: "string \<Rightarrow> json \<Rightarrow> swapAddLiquidityRequest \<Rightarrow> swapAddLiquidityRequest option" where
  "swap_liquidity_step k v q =
     (if EqualFold k ''poolId'' then map_option (\<lambda>x. q\<lparr>sl_PoolID := x\<rparr>) (dec_string v (sl_PoolID q))
      else if EqualFold k ''amountA'' then map_option (\<lambda>x. q\<lparr>sl_AmountA := x\<rparr>) (dec_int v (sl_AmountA q))
      else if EqualFold k ''amountB'' then map_option (\<lambda>x. q\<lparr>sl_AmountB := x\<rparr>) (dec_int v (sl_AmountB q))
      else Some q)"

text \<open>The body decoded, or the answer to a body that is no JSON of the right shape.\<close>

definition with_body :: "(string \<Rightarrow> json \<Rightarrow> 'q \<Rightarrow> 'q option) \<Rightarrow> 'q \<Rightarrow> Peer \<Rightarrow> trace \<Rightarrow> http_request \<Rightarrow> ('q \<Rightarrow> answered) \<Rightarrow> answered" where
  "with_body step zero p tr r answer = (case decode_body step zero (rq_Body r) of
      None \<Rightarrow> Some (p, tr, json_error 400 ''invalid_json'')
    | Some req \<Rightarrow> answer req)"

text \<open>The answer to a transaction that was queued, or the given error when it was not.\<close>

definition queued :: "http_response \<Rightarrow> (SignedTransaction \<Rightarrow> (string \<times> json) list option) \<Rightarrow> flooded \<Rightarrow> answered" where
  "queued failed body result = map_option (\<lambda>(p, tr, tx). (p, tr, case Option.bind tx body of
      None \<Rightarrow> failed
    | Some ms \<Rightarrow> writeJSON 202 ms)) result"

section \<open>The operator's endpoints\<close>

definition mineSlot :: "env \<Rightarrow> moment \<Rightarrow> OpsServer \<Rightarrow> Peer \<Rightarrow> trace \<Rightarrow> http_request \<Rightarrow> answered" where
  "mineSlot E m s p tr r = operator_only s [MethodPost] p tr r (case Atoi (rq_Query r ''slot'') of
      None \<Rightarrow> Some (p, tr, json_error 400 ''invalid_slot'')
    | Some slot \<Rightarrow>
        if slot < 1 then Some (p, tr, json_error 400 ''invalid_slot'')
        else map_option (\<lambda>(p, tr, block). (p, tr, writeJSON 200 [(''slot'', jint slot), (''mined'', JBool (block \<noteq> None))]))
          (MineOneSlot E (mo_world m) p tr slot))"

definition summary_json :: "MempoolTxSummary \<Rightarrow> json" where
  "summary_json t = JObj ([(''id'', JStr (ms_ID t)), (''kind'', JStr (ms_Kind t)), (''from'', JStr (ms_From t)), (''to'', JStr (ms_To t)),
     (''amount'', jint (ms_Amount t)), (''nonce'', ju64 (ms_Nonce t))] @ num_member ''chainId'' (ms_ChainID t) @
     [(''isEvm'', JBool (ms_IsEVM t)), (''isAmm'', JBool (ms_IsAMM t)), (''isNft'', JBool (ms_IsNFT t)),
      (''bestLedgerWouldApply'', JBool (ms_BestLedgerWouldApply t))])"

definition adminMempool :: "env \<Rightarrow> OpsServer \<Rightarrow> Peer \<Rightarrow> trace \<Rightarrow> http_request \<Rightarrow> answered" where
  "adminMempool E s p tr r = operator_only s [MethodGet, MethodPost] p tr r
     (map_option (\<lambda>(p, txs). (p, tr, writeJSON 200 [(''count'', jint (int (length txs))), (''transactions'', JArr (map summary_json txs))]))
       (MempoolSummaries E p))"

definition mint :: "env \<Rightarrow> moment \<Rightarrow> OpsServer \<Rightarrow> Peer \<Rightarrow> trace \<Rightarrow> http_request \<Rightarrow> answered" where
  "mint E m s p tr r = operator_only s [MethodPost] p tr r (with_body mint_step \<lparr>mr_To = [], mr_Amount = 0\<rparr> p tr r (\<lambda>req.
     let to = TrimSpace (mr_To req)
     in if to = [] \<or> mr_Amount req < 1 then Some (p, tr, json_error 400 ''invalid_mint_request'')
        else queued (json_error 500 ''mint_failed'')
          (\<lambda>tx. Some [(''hash'', JStr (tx_ID tx)), (''to'', JStr (tx_To tx)), (''amount'', jint (tx_Amount tx))])
          (FloodMintTransaction E p tr (''mint-'' @ Itoa (mo_UnixNano m) @ ''-'' @ to @ ''-'' @ Itoa (mr_Amount req)) to (mr_Amount req))))"

definition withdraw :: "env \<Rightarrow> moment \<Rightarrow> OpsServer \<Rightarrow> Peer \<Rightarrow> trace \<Rightarrow> http_request \<Rightarrow> answered" where
  "withdraw E m s p tr r = operator_only s [MethodPost] p tr r (with_body withdraw_step \<lparr>wr_To = [], wr_Amount = 0\<rparr> p tr r (\<lambda>req.
     let to = ToLower (TrimSpace (wr_To req))
     in if to = [] \<or> wr_Amount req < 1 then Some (p, tr, json_error 400 ''invalid_withdraw_request'')
        else queued (json_error 400 ''withdraw_failed'')
          (\<lambda>tx. Some [(''hash'', JStr (tx_ID tx)), (''to'', JStr (tx_To tx)), (''amount'', jint (tx_Amount tx))])
          (FloodValidatorWithdrawTransaction E p tr (''withdraw-'' @ Itoa (mo_UnixNano m) @ ''-'' @ to @ ''-'' @ Itoa (wr_Amount req)) to (wr_Amount req))))"

definition nftMint :: "env \<Rightarrow> moment \<Rightarrow> OpsServer \<Rightarrow> Peer \<Rightarrow> trace \<Rightarrow> http_request \<Rightarrow> answered" where
  "nftMint E m s p tr r = operator_only s [MethodPost] p tr r (with_body nft_mint_step
     \<lparr>nm_CollectionID = [], nm_TokenID = [], nm_Owner = [], nm_MetadataURI = [], nm_MetadataHash = [], nm_ImageURI = []\<rparr> p tr r (\<lambda>req.
     let collection = TrimSpace (nm_CollectionID req); token = TrimSpace (nm_TokenID req); owner = TrimSpace (nm_Owner req)
     in if collection = [] \<or> token = [] \<or> owner = [] then Some (p, tr, json_error 400 ''invalid_nft_mint_request'')
        else queued (json_error 400 ''nft_mint_failed'')
          (\<lambda>tx. map_option (\<lambda>nft. [(''hash'', JStr (tx_ID tx)), (''collectionId'', JStr (nft_CollectionID nft)), (''tokenId'', JStr (nft_TokenID nft)),
             (''owner'', JStr (nft_Owner nft)), (''metadataUri'', JStr (nft_MetadataURI nft)), (''metadataHash'', JStr (nft_MetadataHash nft)),
             (''imageUri'', JStr (nft_ImageURI nft))]) (tx_NFT tx))
          (FloodNFTMintTransaction E p tr
             (StableNFTTxID [''mint'', mo_RFC3339Nano m, collection, token, owner, nm_MetadataURI req, nm_MetadataHash req, nm_ImageURI req])
             collection token owner (nm_MetadataURI req) (nm_MetadataHash req) (nm_ImageURI req))))"

definition nftTransfer :: "env \<Rightarrow> moment \<Rightarrow> OpsServer \<Rightarrow> Peer \<Rightarrow> trace \<Rightarrow> http_request \<Rightarrow> answered" where
  "nftTransfer E m s p tr r = operator_only s [MethodPost] p tr r (with_body nft_transfer_step
     \<lparr>nr_CollectionID = [], nr_TokenID = [], nr_To = []\<rparr> p tr r (\<lambda>req.
     let collection = TrimSpace (nr_CollectionID req); token = TrimSpace (nr_TokenID req); to = TrimSpace (nr_To req)
     in if collection = [] \<or> token = [] \<or> to = [] then Some (p, tr, json_error 400 ''invalid_nft_transfer_request'')
        else queued (json_error 400 ''nft_transfer_failed'')
          (\<lambda>tx. map_option (\<lambda>nft. [(''hash'', JStr (tx_ID tx)), (''collectionId'', JStr (nft_CollectionID nft)), (''tokenId'', JStr (nft_TokenID nft)),
             (''to'', JStr (tx_To tx))]) (tx_NFT tx))
          (FloodNFTTransferTransaction E p tr (StableNFTTxID [''transfer'', mo_RFC3339Nano m, collection, token, to]) collection token to)))"

definition asset_body :: "SignedTransaction \<Rightarrow> (string \<times> json) list option" where
  "asset_body tx = map_option (\<lambda>amm. [(''hash'', JStr (tx_ID tx)), (''asset'', JStr (amm_Asset amm)), (''account'', JStr (tx_To tx)),
     (''amount'', jint (amm_Amount amm)), (''action'', JStr (amm_Action amm))]) (tx_AMM tx)"

definition adminAssetAccounting :: "env \<Rightarrow> moment \<Rightarrow> OpsServer \<Rightarrow> Peer \<Rightarrow> trace \<Rightarrow> http_request \<Rightarrow> bool \<Rightarrow> answered" where
  "adminAssetAccounting E m s p tr r crediting = operator_only s [MethodPost] p tr r (with_body asset_step
     \<lparr>ar_Asset = [], ar_Account = [], ar_Amount = 0\<rparr> p tr r (\<lambda>req.
     let asset = TrimSpace (ar_Asset req); account = TrimSpace (ar_Account req); amount = ar_Amount req;
         rest = ''-'' @ Itoa (mo_UnixNano m) @ ''-'' @ asset @ ''-'' @ account @ ''-'' @ Itoa amount
     in if asset = [] \<or> account = [] \<or> amount < 1 then Some (p, tr, json_error 400 ''invalid_asset_request'')
        else queued (json_error 400 ''asset_accounting_failed'') asset_body
          (if crediting then FloodAssetCreditTransaction E p tr (''asset-credit'' @ rest) asset account amount
           else FloodAssetDebitTransaction E p tr (''asset-debit'' @ rest) asset account amount)))"

definition adminAssetCredit :: "env \<Rightarrow> moment \<Rightarrow> OpsServer \<Rightarrow> Peer \<Rightarrow> trace \<Rightarrow> http_request \<Rightarrow> answered" where
  "adminAssetCredit E m s p tr r = adminAssetAccounting E m s p tr r True"

definition adminAssetDebit :: "env \<Rightarrow> moment \<Rightarrow> OpsServer \<Rightarrow> Peer \<Rightarrow> trace \<Rightarrow> http_request \<Rightarrow> answered" where
  "adminAssetDebit E m s p tr r = adminAssetAccounting E m s p tr r False"

definition adminSwapPool :: "env \<Rightarrow> moment \<Rightarrow> OpsServer \<Rightarrow> Peer \<Rightarrow> trace \<Rightarrow> http_request \<Rightarrow> answered" where
  "adminSwapPool E m s p tr r = operator_only s [MethodPost] p tr r (with_body swap_pool_step \<lparr>sp_AssetA = [], sp_AssetB = []\<rparr> p tr r (\<lambda>req.
     let poolID = PoolID (sp_AssetA req) (sp_AssetB req)
     in if poolID = [] then Some (p, tr, json_error 400 ''invalid_pool_request'')
        else queued (json_error 400 ''pool_create_failed'')
          (\<lambda>tx. map_option (\<lambda>amm. [(''hash'', JStr (tx_ID tx)), (''poolId'', JStr (amm_PoolID amm)), (''assetA'', JStr (amm_AssetA amm)),
             (''assetB'', JStr (amm_AssetB amm))]) (tx_AMM tx))
          (FloodAMMCreatePoolTransaction E p tr (''amm-pool-'' @ Itoa (mo_UnixNano m) @ ''-'' @ poolID) (sp_AssetA req) (sp_AssetB req))))"

definition adminSwapAddLiquidity :: "env \<Rightarrow> moment \<Rightarrow> OpsServer \<Rightarrow> Peer \<Rightarrow> trace \<Rightarrow> http_request \<Rightarrow> answered" where
  "adminSwapAddLiquidity E m s p tr r = operator_only s [MethodPost] p tr r (with_body swap_liquidity_step
     \<lparr>sl_PoolID = [], sl_AmountA = 0, sl_AmountB = 0\<rparr> p tr r (\<lambda>req.
     if TrimSpace (sl_PoolID req) = [] \<or> sl_AmountA req < 1 \<or> sl_AmountB req < 1 then Some (p, tr, json_error 400 ''invalid_liquidity_request'')
     else queued (json_error 400 ''liquidity_add_failed'')
       (\<lambda>tx. map_option (\<lambda>amm. [(''hash'', JStr (tx_ID tx)), (''poolId'', JStr (amm_PoolID amm)), (''amountA'', jint (amm_AmountA amm)),
          (''amountB'', jint (amm_AmountB amm))]) (tx_AMM tx))
       (FloodAMMAddLiquidityTransaction E p tr
          (''amm-liquidity-'' @ Itoa (mo_UnixNano m) @ ''-'' @ sl_PoolID req @ ''-'' @ Itoa (sl_AmountA req) @ ''-'' @ Itoa (sl_AmountB req))
          (sl_PoolID req) (sl_AmountA req) (sl_AmountB req))))"

definition adminDashboardStatus :: "OpsServer \<Rightarrow> Peer \<Rightarrow> trace \<Rightarrow> http_request \<Rightarrow> answered" where
  "adminDashboardStatus s p tr r = operator_only s [MethodGet] p tr r (Some (p, tr, writeJSON 200
     [(''adminEnabled'', JBool True), (''actions'', JArr [JStr ''manual_mine'', JStr ''mint'']), (''chainId'', jint (os_evmChainID s)),
      (''networkId'', JStr (os_evmNetworkID s))]))"

section \<open>The multiplexer\<close>

text \<open>\<open>cleanPath\<close> of \<open>net/http\<close>: a leading slash, no empty or dotted segments, the trailing slash kept.\<close>

definition clean_path :: "string \<Rightarrow> string" where
  "clean_path path =
     (if path = [] then ''/''
      else let path = (if hd path = CHR ''/'' then path else CHR ''/'' # path); np = Clean path
        in if last path = CHR ''/'' \<and> np \<noteq> ''/'' then np @ ''/'' else np)"

text \<open>
  The pattern that serves a path: the path itself, or else the longest pattern that ends in a slash and begins the path. A path that lacks
  only the final slash of a pattern is redirected.
\<close>

definition longest_prefix :: "string list \<Rightarrow> string \<Rightarrow> string option" where
  "longest_prefix patterns path =
     (case filter (\<lambda>q. HasSuffix q ''/'' \<and> HasPrefix path q) patterns of
        [] \<Rightarrow> None
      | q # qs \<Rightarrow> Some (foldl (\<lambda>best q. if length q > length best then q else best) q qs))"

definition match_path :: "string list \<Rightarrow> string \<Rightarrow> string + string option" where
  "match_path patterns path =
     (if path \<in> set patterns then Inr (Some path)
      else if \<not> HasSuffix path ''/'' \<and> path @ ''/'' \<in> set patterns then Inl (path @ ''/'')
      else Inr (longest_prefix patterns path))"

definition reading :: "(Peer \<Rightarrow> http_request \<Rightarrow> http_response go) \<Rightarrow> Peer \<Rightarrow> trace \<Rightarrow> http_request \<Rightarrow> answered" where
  "reading f p tr r = map_option (\<lambda>w. (p, tr, w)) (f p r)"

definition endpoints :: "http_request \<Rightarrow> http_response go" where
  "endpoints r = get_only r (Some (writeJSON 200 [(''service'', JStr ''pokoinpos-node''), (''currency'', JStr ''PKN''),
     (''endpoints'', JArr (map endpoint_json catalogue))]))"

definition dashboard :: "http_request \<Rightarrow> http_response go" where
  "dashboard r = get_only r (Some \<lparr>res_Code = 200, res_Headers = [(''Content-Type'', ''text/html; charset=utf-8'')],
     res_Body = Static ''nodeDashboardHTML''\<rparr>)"

definition root :: "env \<Rightarrow> opslib \<Rightarrow> (nat \<Rightarrow> moment) \<Rightarrow> OpsServer \<Rightarrow> Peer \<Rightarrow> trace \<Rightarrow> http_request \<Rightarrow> answered" where
  "root E lib ms s p tr r =
     (if rq_Method r = MethodOptions then Some (p, tr, no_content)
      else if rq_Method r = MethodPost then rpc E lib ms s p tr r
      else Some (p, tr, NotFound))"

definition routes :: "env \<Rightarrow> opslib \<Rightarrow> (nat \<Rightarrow> moment) \<Rightarrow> OpsServer \<Rightarrow> (string \<times> (Peer \<Rightarrow> trace \<Rightarrow> http_request \<Rightarrow> answered)) list" where
  "routes E lib ms s =
     [(''/health'', reading (health E)),
      (''/ready'', reading ready),
      (''/dashboard'', reading (\<lambda>p. dashboard)),
      (''/deshboard'', reading (\<lambda>p. dashboard)),
      (''/chain/status'', reading (chainStatus_page E (ms 0) s)),
      (''/chain/info'', reading (chainInfo E (ms 0) s)),
      (''/chain/exchange-info'', reading (chainInfo E (ms 0) s)),
      (''/chain/supply'', reading (chainSupply s)),
      (''/chain/supply/total.txt'', reading (totalSupplyText s)),
      (''/chain/supply/circulating.txt'', reading (circulatingSupplyText s)),
      (''/chain/nfts'', reading (chainNFTs E)),
      (''/chain/nfts/'', reading (chainNFTs E)),
      (''/chain/swap/pools'', reading (swapPools E)),
      (''/chain/swap/pools/'', reading (swapPools E)),
      (''/chain/swap/balances/'', reading (swapBalances E)),
      (''/chain/swap/quote'', reading (swapQuote E)),
      (''/chain/validators'', reading validators),
      (''/chain/bootstrap'', reading (\<lambda>p. bootstrapStatus s)),
      (''/metrics'', reading (metrics E (ms 0) s)),
      (''/endpoints'', reading (\<lambda>p. endpoints)),
      (''/explorer/blocks'', reading (explorerBlocks E)),
      (''/explorer/blocks/'', reading (explorerBlock E)),
      (''/explorer/tx/'', reading (explorerTx E)),
      (''/explorer/address/'', reading (explorerAddress E)),
      (''/explorer/search'', reading (explorerSearch E)),
      (''/'', root E lib ms s),
      (''/rpc'', rpc E lib ms s),
      (''/admin/dashboard/status'', adminDashboardStatus s),
      (''/admin/mempool'', adminMempool E s),
      (''/admin/mine'', mineSlot E (ms 0) s),
      (''/admin/mint'', mint E (ms 0) s),
      (''/admin/withdraw'', withdraw E (ms 0) s),
      (''/admin/nft/mint'', nftMint E (ms 0) s),
      (''/admin/nft/transfer'', nftTransfer E (ms 0) s),
      (''/admin/swap/pools'', adminSwapPool E (ms 0) s),
      (''/admin/swap/liquidity/add'', adminSwapAddLiquidity E (ms 0) s),
      (''/admin/assets/credit'', adminAssetCredit E (ms 0) s),
      (''/admin/assets/debit'', adminAssetDebit E (ms 0) s)]"

definition serve :: "env \<Rightarrow> opslib \<Rightarrow> (nat \<Rightarrow> moment) \<Rightarrow> OpsServer \<Rightarrow> Peer \<Rightarrow> trace \<Rightarrow> http_request \<Rightarrow> answered" where
  "serve E lib ms s p tr r =
     (let table = routes E lib ms s; path = clean_path (rq_Path r)
      in case match_path (map fst table) path of
        Inl other \<Rightarrow> Some (p, tr, redirect_to other)
      | Inr found \<Rightarrow>
          if path \<noteq> rq_Path r then Some (p, tr, redirect_to path)
          else case Option.bind found (map_of table) of
            None \<Rightarrow> Some (p, tr, NotFound)
          | Some handler \<Rightarrow> handler p tr r)"

end
