(* ===== verification/OpsFacts.thy ===== *)
theory OpsFacts
  imports Ops PeerInvariants
begin

text \<open>
  What a request can do to the peer: every handler is a sequence of the peer's own operations, and without the operator's token
  the only one of them is the submission of transactions signed by their senders.
\<close>

section \<open>Submissions\<close>

text \<open>Transactions that go-ethereum decodes and finds a sender for on this chain, handled and flooded one after the other.\<close>

inductive submits :: "env \<Rightarrow> int \<Rightarrow> Peer \<Rightarrow> trace \<Rightarrow> Peer \<Rightarrow> trace \<Rightarrow> bool" for E chainID p tr where
  none: "submits E chainID p tr p tr"
| one: "submits E chainID p tr p1 tr1 \<Longrightarrow> NewEVMTransaction E raw chainID = Inr tx \<Longrightarrow>
    FloodPoSTransaction E p1 tr1 tx = Some (p2, tr2) \<Longrightarrow> submits E chainID p tr p2 tr2"

lemma submits_trans: "submits E c p1 tr1 p2 tr2 \<Longrightarrow> submits E c p tr p1 tr1 \<Longrightarrow> submits E c p tr p2 tr2"
  by (induction rule: submits.induct) (auto intro: submits.one)

lemma submits_steps: "submits E c p tr p' tr' \<Longrightarrow> (peer_step E g)\<^sup>*\<^sup>* p p'"
  by (induction rule: submits.induct) (auto intro: rtranclp.rtrancl_into_rtrancl peer_step.on_submit)

text \<open>The promise of a handler.\<close>

definition allowed :: "env \<Rightarrow> OpsServer \<Rightarrow> http_request \<Rightarrow> Peer \<Rightarrow> trace \<Rightarrow> Peer \<Rightarrow> trace \<Rightarrow> bool" where
  "allowed E s r p tr p' tr' \<longleftrightarrow>
     (p' = p \<and> tr' = tr) \<or> (rq_Method r = MethodPost \<and> submits E (os_evmChainID s) p tr p' tr') \<or>
     (isAdminAuthorized s r \<and> (\<forall>g. (peer_step E g)\<^sup>*\<^sup>* p p'))"

definition keeps_promise :: "env \<Rightarrow> OpsServer \<Rightarrow> (Peer \<Rightarrow> trace \<Rightarrow> http_request \<Rightarrow> answered) \<Rightarrow> bool" where
  "keeps_promise E s h \<longleftrightarrow> (\<forall>p tr r p' tr' w. h p tr r = Some (p', tr', w) \<longrightarrow> allowed E s r p tr p' tr')"

lemma keeps_promiseI: "(\<And>p tr r p' tr' w. h p tr r = Some (p', tr', w) \<Longrightarrow> allowed E s r p tr p' tr') \<Longrightarrow> keeps_promise E s h"
  by (simp add: keeps_promise_def)

lemma allowed_same [simp]: "allowed E s r p tr p tr"
  by (simp add: allowed_def)

lemma allowed_steps: "allowed E s r p tr p' tr' \<Longrightarrow> (peer_step E g)\<^sup>*\<^sup>* p p'"
  by (auto simp: allowed_def intro: submits_steps)

lemma reading_promise: "keeps_promise E s (reading f)"
  by (auto simp: keeps_promise_def reading_def)

section \<open>The remote procedure calls\<close>

lemma sendRaw_submits:
  assumes "eth_sendRawTransaction E lib m s p tr params = Some (p', tr', result)"
  shows "submits E (os_evmChainID s) p tr p' tr'"
  using assms
  by (auto simp: eth_sendRawTransaction_def option_bind_eq_Some split: list.splits option.splits sum.splits if_splits
      intro: submits.none submits.one [OF submits.none])

lemma handleRPC_submits: "handleRPC E lib m s p tr req = Some (p', tr', result) \<Longrightarrow> submits E (os_evmChainID s) p tr p' tr'"
  by (auto simp: handleRPC_def intro: sendRaw_submits submits.none split: if_splits)

lemma rpcResponse_submits: "rpcResponse E lib m s p tr req = Some (p', tr', result) \<Longrightarrow> submits E (os_evmChainID s) p tr p' tr'"
  by (auto simp: rpcResponse_def option_bind_eq_Some Let_def intro: handleRPC_submits split: if_splits)

lemma rpc_batch_submits: "rpc_batch E lib ms s i p tr batch = Some (p', tr', rs) \<Longrightarrow> submits E (os_evmChainID s) p tr p' tr'"
proof (induction batch arbitrary: i p tr p' tr' rs)
  case Nil
  then show ?case by (auto intro: submits.none)
next
  case (Cons req batch)
  then obtain p1 tr1 w rs' where "rpcResponse E lib (ms i) s p tr req = Some (p1, tr1, w)"
    "rpc_batch E lib ms s (Suc i) p1 tr1 batch = Some (p', tr', rs')" by (auto split: option.splits)
  with Cons.IH rpcResponse_submits show ?case by (blast intro: submits_trans)
qed

lemma rpc_promise: "keeps_promise E s (rpc E lib ms s)"
  by (rule keeps_promiseI)
    (auto simp: rpc_def allowed_def intro: rpcResponse_submits rpc_batch_submits split: if_splits option.splits json.splits)

lemma root_promise: "keeps_promise E s (root E lib ms s)"
  using rpc_promise [of E s lib ms] by (auto simp: keeps_promise_def root_def split: if_splits)

section \<open>The operator's endpoints\<close>

lemma operator_only_promise:
  assumes "operator_only s methods p tr r answer = Some (p', tr', w)"
    and "\<And>g. answer = Some (p', tr', w) \<Longrightarrow> (peer_step E g)\<^sup>*\<^sup>* p p'"
  shows "allowed E s r p tr p' tr'"
  using assms by (auto simp: operator_only_def allowed_def split: if_splits)

lemma with_body_steps:
  assumes "with_body step zero p tr r answer = Some (p', tr', w)" and "\<And>req. answer req = Some (p', tr', w) \<Longrightarrow> (peer_step E g)\<^sup>*\<^sup>* p p'"
  shows "(peer_step E g)\<^sup>*\<^sup>* p p'"
  using assms by (auto simp: with_body_def split: option.splits)

lemma flood_own_steps: "flood_own E p tr tx = Some (p', tr', t) \<Longrightarrow> (peer_step E g)\<^sup>*\<^sup>* p p'"
  by (auto simp: flood_own_def intro: peer_step.on_submit)

text \<open>Every operation of the peer's own wallet refuses or floods one transaction.\<close>

lemma own_steps:
  "FloodMintTransaction E p tr i to amount = Some (p', tr', t) \<Longrightarrow> (peer_step E g)\<^sup>*\<^sup>* p p'"
  "FloodValidatorWithdrawTransaction E p tr i to amount = Some (p', tr', t) \<Longrightarrow> (peer_step E g)\<^sup>*\<^sup>* p p'"
  "FloodNFTMintTransaction E p tr i c k ow u h im = Some (p', tr', t) \<Longrightarrow> (peer_step E g)\<^sup>*\<^sup>* p p'"
  "FloodNFTTransferTransaction E p tr i c k to = Some (p', tr', t) \<Longrightarrow> (peer_step E g)\<^sup>*\<^sup>* p p'"
  "FloodAssetCreditTransaction E p tr i a to amount = Some (p', tr', t) \<Longrightarrow> (peer_step E g)\<^sup>*\<^sup>* p p'"
  "FloodAssetDebitTransaction E p tr i a to amount = Some (p', tr', t) \<Longrightarrow> (peer_step E g)\<^sup>*\<^sup>* p p'"
  "FloodAMMCreatePoolTransaction E p tr i a b = Some (p', tr', t) \<Longrightarrow> (peer_step E g)\<^sup>*\<^sup>* p p'"
  "FloodAMMAddLiquidityTransaction E p tr i a x y = Some (p', tr', t) \<Longrightarrow> (peer_step E g)\<^sup>*\<^sup>* p p'"
  by (auto simp: FloodMintTransaction_def FloodValidatorWithdrawTransaction_def FloodNFTMintTransaction_def FloodNFTTransferTransaction_def
      FloodAssetCreditTransaction_def FloodAssetDebitTransaction_def FloodAMMCreatePoolTransaction_def FloodAMMAddLiquidityTransaction_def Let_def
      intro: flood_own_steps split: option.splits if_splits)

lemma queued_steps:
  assumes "queued failed body result = Some (p', tr', w)" and "\<And>t. result = Some (p', tr', t) \<Longrightarrow> (peer_step E g)\<^sup>*\<^sup>* p p'"
  shows "(peer_step E g)\<^sup>*\<^sup>* p p'"
  using assms by (auto simp: queued_def)

lemma queueing_promise:
  assumes "operator_only s methods p tr r (with_body step zero p tr r (\<lambda>req. if bad req then Some (p, tr, refused) else
      queued failed (body req) (flood req))) = Some (p', tr', w)"
    and "\<And>req t g. flood req = Some (p', tr', t) \<Longrightarrow> (peer_step E g)\<^sup>*\<^sup>* p p'"
  shows "allowed E s r p tr p' tr'"
  using assms(1)
proof (rule operator_only_promise)
  fix g assume "with_body step zero p tr r (\<lambda>req. if bad req then Some (p, tr, refused) else queued failed (body req) (flood req)) = Some (p', tr', w)"
  then show "(peer_step E g)\<^sup>*\<^sup>* p p'"
    by (rule with_body_steps) (use assms(2) in \<open>auto intro: queued_steps split: if_splits\<close>)
qed

lemma operator_promises:
  "keeps_promise E s (mint E m s)" "keeps_promise E s (withdraw E m s)" "keeps_promise E s (nftMint E m s)"
  "keeps_promise E s (nftTransfer E m s)" "keeps_promise E s (adminSwapPool E m s)" "keeps_promise E s (adminSwapAddLiquidity E m s)"
  by (rule keeps_promiseI, simp only: mint_def withdraw_def nftMint_def nftTransfer_def adminSwapPool_def adminSwapAddLiquidity_def Let_def,
      erule queueing_promise, erule own_steps)+

lemma asset_promises: "keeps_promise E s (adminAssetCredit E m s)" "keeps_promise E s (adminAssetDebit E m s)"
  by (rule keeps_promiseI, simp only: adminAssetCredit_def adminAssetDebit_def adminAssetAccounting_def Let_def if_True if_False,
      erule queueing_promise, erule own_steps)+

lemma mineSlot_promise: "keeps_promise E s (mineSlot E m s)"
  unfolding mineSlot_def
  by (rule keeps_promiseI, erule operator_only_promise) (auto intro: peer_step.on_mine split: option.splits if_splits)

lemma adminMempool_promise: "keeps_promise E s (adminMempool E s)"
  unfolding adminMempool_def
  by (rule keeps_promiseI, erule operator_only_promise) (auto intro: peer_step.on_summaries)

lemma adminDashboard_promise: "keeps_promise E s (adminDashboardStatus s)"
  unfolding adminDashboardStatus_def by (rule keeps_promiseI, erule operator_only_promise) auto

section \<open>All routes\<close>

lemma routes_promise: "\<forall>(q, h) \<in> set (routes E lib ms s). keeps_promise E s h"
  by (simp add: routes_def reading_promise rpc_promise root_promise operator_promises asset_promises mineSlot_promise adminMempool_promise
      adminDashboard_promise)

lemma serve_allowed:
  assumes "serve E lib ms s p tr r = Some (p', tr', w)"
  shows "allowed E s r p tr p' tr'"
proof -
  from assms consider "p' = p" "tr' = tr" | q h where "(q, h) \<in> set (routes E lib ms s)" "h p tr r = Some (p', tr', w)"
    by (auto simp: serve_def Let_def bind_eq_Some_conv dest!: map_of_SomeD split: sum.splits if_splits option.splits)
  then show ?thesis using routes_promise [of E lib ms s] by cases (auto simp: keeps_promise_def)
qed

section \<open>What the promise gives\<close>

lemma reachable_steps: "(peer_step E g)\<^sup>*\<^sup>* p p' \<Longrightarrow> reachable E g p \<Longrightarrow> reachable E g p'"
  by (induction rule: rtranclp_induct) (auto intro: reachable.step_on)

text \<open>The contract of a server in front of the peer, and what its users and the peer get from it.\<close>

locale guarded_server =
  fixes E :: env and s :: OpsServer and handle :: "Peer \<Rightarrow> trace \<Rightarrow> http_request \<Rightarrow> answered"
  assumes handled: "handle p tr r = Some (p', tr', w) \<Longrightarrow> allowed E s r p tr p' tr'"
begin

lemma keeps_reachable: "reachable E g p \<Longrightarrow> handle p tr r = Some (p', tr', w) \<Longrightarrow> reachable E g p'"
  using reachable_steps [OF allowed_steps [OF handled]] by blast

lemma keeps_invariants:
  assumes "reachable E False p" and "handle p tr r = Some (p', tr', w)"
  shows "reachable E False p' \<and> mempool_ok (p_mempool p') \<and> pool_verified E (p_mempool p') \<and> ledger_cached E p'"
  using keeps_reachable [OF assms] pool_inv.reachable_inv verified_inv.reachable_inv cache_inv.reachable_inv by blast

lemma only_submits:
  assumes "\<not> isAdminAuthorized s r" and "handle p tr r = Some (p', tr', w)"
  shows "submits E (os_evmChainID s) p tr p' tr' \<and> (rq_Method r \<noteq> MethodPost \<longrightarrow> p' = p \<and> tr' = tr)"
  using assms(1) handled [OF assms(2)] by (auto simp: allowed_def intro: submits.none)

end

interpretation rpc_server: guarded_server E s "rpc E lib ms s" for E lib ms s
  using rpc_promise [of E s lib ms] by unfold_locales (auto simp: keeps_promise_def)

interpretation ops_server: guarded_server E s "serve E lib ms s" for E lib ms s
  by unfold_locales (rule serve_allowed)

end
