(* ===== verification/ExplorerFacts.thy ===== *)
theory ExplorerFacts
  imports Explorer
begin

text \<open>
  The tables of the explorer in closed form: the rows of the chain are listed once, and each table is a lookup in that list.
\<close>

section \<open>The rows of a chain\<close>

definition block_txs :: "Block \<Rightarrow> SignedTransaction list" where
  "block_txs block = (case DecodeBlockTransactions (blk_MetaData block) of None \<Rightarrow> [] | Some txs \<Rightarrow> txs)"

fun tx_rows :: "string \<Rightarrow> int \<Rightarrow> bool \<Rightarrow> int \<Rightarrow> SignedTransaction list \<Rightarrow> ExplorerTx list" where
  "tx_rows blockHash height finalized i [] = []"
| "tx_rows blockHash height finalized i (tx # txs) =
     explorerTxFromSigned tx blockHash height i finalized # tx_rows blockHash height finalized (i + 1) txs"

definition block_row :: "'a ethlib_scheme \<Rightarrow> int \<Rightarrow> int \<Rightarrow> Block \<Rightarrow> ExplorerBlock" where
  "block_row E fin height block =
     \<lparr>eb_Number = height, eb_Hash = blockHexHash E block, eb_ParentHash = explorerParentHash (blk_ParentHash block),
      eb_Slot = blk_Slot block, eb_Draw = blk_Draw block, eb_Miner = blk_VerificationKey block,
      eb_TransactionCount = int (length (block_txs block)),
      eb_Transactions = tx_rows (blockHexHash E block) height (height \<le> fin) 0 (block_txs block), eb_Finalized = (height \<le> fin)\<rparr>"

fun block_rows :: "'a ethlib_scheme \<Rightarrow> int \<Rightarrow> int \<Rightarrow> Block list \<Rightarrow> ExplorerBlock list" where
  "block_rows E fin height [] = []"
| "block_rows E fin height (block # blocks) = block_row E fin height block # block_rows E fin (height + 1) blocks"

abbreviation chain_rows :: "'a ethlib_scheme \<Rightarrow> int \<Rightarrow> int \<Rightarrow> Block list \<Rightarrow> ExplorerTx list" where
  "chain_rows E fin height blocks \<equiv> concat (map eb_Transactions (block_rows E fin height blocks))"

text \<open>A row is listed once for its sender and once for its recipient, even when they are the same.\<close>

definition row_addresses :: "ExplorerTx \<Rightarrow> string list" where
  "row_addresses r = filter (\<lambda>a. a \<noteq> []) [ToLower (TrimSpace (et_From r)), ToLower (TrimSpace (et_To r))]"

definition rows_of :: "string \<Rightarrow> ExplorerTx list \<Rightarrow> ExplorerTx list" where
  "rows_of a rows = concat (map (\<lambda>r. replicate (count_list (row_addresses r) a) r) rows)"

fun last_with :: "('r \<Rightarrow> 'k) \<Rightarrow> 'k \<Rightarrow> 'r list \<Rightarrow> 'r option" where
  "last_with f k [] = None"
| "last_with f k (r # rows) = (case last_with f k rows of None \<Rightarrow> (if f r = k then Some r else None) | Some r' \<Rightarrow> Some r')"

lemma last_with_append [simp]:
  "last_with f k (rows @ rows') = (case last_with f k rows' of None \<Rightarrow> last_with f k rows | Some r \<Rightarrow> Some r)"
  by (induction rows) (auto split: option.splits)

lemma last_with_SomeD: "last_with f k rows = Some r \<Longrightarrow> r \<in> set rows \<and> f r = k"
  by (induction rows) (auto split: option.splits if_splits)

lemma last_with_None: "last_with f k rows = None \<longleftrightarrow> k \<notin> f ` set rows"
  by (induction rows) (auto split: option.splits)

lemma last_with_distinct:
  assumes "distinct (map f rows)" and "r \<in> set rows"
  shows "last_with f (f r) rows = Some r"
proof -
  have "last_with f (f r) rows \<noteq> None" using assms(2) by (simp add: last_with_None)
  then obtain r' where r': "last_with f (f r) rows = Some r'" by blast
  with last_with_SomeD [OF r'] assms have "r' = r" by (auto simp: distinct_map inj_on_def)
  with r' show ?thesis by simp
qed

lemma rows_of_simps [simp]: "rows_of a [] = []" "rows_of a (rows @ rows') = rows_of a rows @ rows_of a rows'"
  by (simp_all add: rows_of_def)

lemma length_tx_rows [simp]: "length (tx_rows h n f i txs) = length txs"
  by (induction txs arbitrary: i) simp_all

lemma nth_tx_rows: "k < length txs \<Longrightarrow> tx_rows h n f i txs ! k = explorerTxFromSigned (txs ! k) h n (i + int k) f"
  by (induction txs arbitrary: i k) (auto simp: nth_Cons' algebra_simps split: if_splits)

lemma length_block_rows [simp]: "length (block_rows E fin h blocks) = length blocks"
  by (induction blocks arbitrary: h) simp_all

lemma nth_block_rows: "k < length blocks \<Longrightarrow> block_rows E fin h blocks ! k = block_row E fin (h + int k) (blocks ! k)"
  by (induction blocks arbitrary: h k) (auto simp: nth_Cons' algebra_simps split: if_splits)

section \<open>The tables\<close>

definition tables :: "ExplorerBlock list \<Rightarrow> ExplorerTx list \<Rightarrow> ExplorerIndex \<Rightarrow> ExplorerIndex \<Rightarrow> bool" where
  "tables bs rows idx idx' \<longleftrightarrow>
     (\<forall>n. fmlookup (BlocksByNumber idx') n = (case last_with eb_Number n bs of None \<Rightarrow> fmlookup (BlocksByNumber idx) n | Some b \<Rightarrow> Some b)) \<and>
     (\<forall>h. fmlookup (BlocksByHash idx') h = (case last_with (ToLower \<circ> eb_Hash) h bs of None \<Rightarrow> fmlookup (BlocksByHash idx) h | Some b \<Rightarrow> Some b)) \<and>
     (\<forall>t. fmlookup (TxsByHash idx') t = (case last_with (ToLower \<circ> et_Hash) t rows of None \<Rightarrow> fmlookup (TxsByHash idx) t | Some r \<Rightarrow> Some r)) \<and>
     (\<forall>a. mget [] (TxsByAddress idx') a = mget [] (TxsByAddress idx) a @ rows_of a rows \<and>
        (mhas (TxsByAddress idx') a \<longleftrightarrow> mhas (TxsByAddress idx) a \<or> rows_of a rows \<noteq> [])) \<and>
     LatestHeight idx' = LatestHeight idx \<and> FinalizedHeight idx' = FinalizedHeight idx"

lemma tables_refl [simp]: "tables [] [] idx idx"
  by (simp add: tables_def)

lemma tables_trans: "tables bs rows idx idx' \<Longrightarrow> tables bs' rows' idx' idx'' \<Longrightarrow> tables (bs @ bs') (rows @ rows') idx idx''"
  by (auto simp: tables_def split: option.splits)

lemma indexAddressTx_get:
  "mget [] (indexAddressTx index address r) a = mget [] index a @ (if a \<noteq> [] \<and> ToLower (TrimSpace address) = a then [r] else [])"
  "mhas (indexAddressTx index address r) a \<longleftrightarrow> mhas index a \<or> a \<noteq> [] \<and> ToLower (TrimSpace address) = a"
  by (auto simp: indexAddressTx_def Let_def mget_fmupd mhas_fmupd)

lemma tables_row:
  "tables [] [r] idx (idx\<lparr>TxsByHash := fmupd (ToLower (et_Hash r)) r (TxsByHash idx),
     TxsByAddress := indexAddressTx (indexAddressTx (TxsByAddress idx) (et_From r) r) (et_To r) r\<rparr>)"
  by (auto simp: tables_def indexAddressTx_get rows_of_def row_addresses_def)

lemma index_txs_tables: "\<exists>idx'. index_txs h n f i txs out idx = (out @ tx_rows h n f i txs, idx') \<and> tables [] (tx_rows h n f i txs) idx idx'"
proof (induction txs arbitrary: i out idx)
  case Nil
  then show ?case by simp
next
  case (Cons tx txs)
  let ?r = "explorerTxFromSigned tx h n i f"
  let ?idx = "idx\<lparr>TxsByHash := fmupd (ToLower (et_Hash ?r)) ?r (TxsByHash idx),
     TxsByAddress := indexAddressTx (indexAddressTx (TxsByAddress idx) (et_From ?r) ?r) (et_To ?r) ?r\<rparr>"
  from Cons [of "i + 1" "out @ [?r]" ?idx] obtain idx' where
    "index_txs h n f (i + 1) txs (out @ [?r]) ?idx = (out @ [?r] @ tx_rows h n f (i + 1) txs, idx')"
    "tables [] (tx_rows h n f (i + 1) txs) ?idx idx'" by auto
  with tables_trans [OF tables_row this(2)] show ?case by simp
qed

lemma tables_block:
  "tables [b] [] idx (idx\<lparr>BlocksByNumber := fmupd (eb_Number b) b (BlocksByNumber idx),
     BlocksByHash := fmupd (ToLower (eb_Hash b)) b (BlocksByHash idx)\<rparr>)"
  by (auto simp: tables_def)

lemma index_blocks_tables:
  "tables (block_rows E (FinalizedHeight idx) h blocks) (chain_rows E (FinalizedHeight idx) h blocks) idx (index_blocks E h blocks idx)"
proof (induction blocks arbitrary: h idx)
  case Nil
  then show ?case by simp
next
  case (Cons block blocks)
  let ?b = "block_row E (FinalizedHeight idx) h block"
  have "\<exists>idx1. tables [] (eb_Transactions ?b) idx idx1 \<and> index_blocks E h (block # blocks) idx = index_blocks E (h + 1) blocks
    (idx1\<lparr>BlocksByNumber := fmupd (eb_Number ?b) ?b (BlocksByNumber idx1), BlocksByHash := fmupd (ToLower (eb_Hash ?b)) ?b (BlocksByHash idx1)\<rparr>)"
  proof (cases "DecodeBlockTransactions (blk_MetaData block)")
    case None
    then show ?thesis by (intro exI [of _ idx]) (simp add: block_row_def block_txs_def Let_def)
  next
    case (Some txs)
    with index_txs_tables [of "blockHexHash E block" h "h \<le> FinalizedHeight idx" 0 txs "[]" idx] show ?thesis
      by (auto simp: block_row_def block_txs_def Let_def)
  qed
  then obtain idx1 where idx1: "tables [] (eb_Transactions ?b) idx idx1" and step: "index_blocks E h (block # blocks) idx = index_blocks E (h + 1) blocks
    (idx1\<lparr>BlocksByNumber := fmupd (eb_Number ?b) ?b (BlocksByNumber idx1), BlocksByHash := fmupd (ToLower (eb_Hash ?b)) ?b (BlocksByHash idx1)\<rparr>)" by blast
  from idx1 have "FinalizedHeight idx1 = FinalizedHeight idx" by (simp add: tables_def)
  with tables_trans [OF tables_trans [OF idx1 tables_block [of ?b idx1]] Cons [of _ "h + 1"]] show ?case
    by (simp add: step del: index_blocks.simps)
qed

lemma number_of_rows: "last_with eb_Number n (block_rows E fin h blocks) =
    (if h \<le> n \<and> n < h + int (length blocks) then Some (block_row E fin n (blocks ! nat (n - h))) else None)"
proof (induction blocks arbitrary: h)
  case Nil
  then show ?case by simp
next
  case (Cons b blocks)
  have "eb_Number (block_row E fin h b) = h" by (simp add: block_row_def)
  moreover have "h < n \<Longrightarrow> nat (n - h) = Suc (nat (n - (h + 1)))" by simp
  ultimately show ?case using Cons [of "h + 1"] by (cases "h < n") auto
qed

definition finalised :: "Peer \<Rightarrow> Block list \<Rightarrow> int" where
  "finalised p blocks = (let finalized = i64 (int (length blocks) - 1 - p_finalityDepth p) in if finalized < 0 then 0 else finalized)"

lemma index_of_chain:
  assumes "p_blockchain p = Some chain" and "CanonicalBlocks E chain 0 = Some blocks" and "blocks \<noteq> []"
  shows "\<exists>idx. BuildExplorerIndex E p = Some idx \<and>
    tables (block_rows E (finalised p blocks) 0 blocks) (chain_rows E (finalised p blocks) 0 blocks)
      (ExplorerIndex_empty\<lparr>LatestHeight := int (length blocks) - 1, FinalizedHeight := finalised p blocks\<rparr>) idx"
proof -
  let ?i = "ExplorerIndex_empty\<lparr>LatestHeight := int (length blocks) - 1, FinalizedHeight := finalised p blocks\<rparr>"
  from index_blocks_tables [of E ?i 0 blocks] have t: "tables (block_rows E (finalised p blocks) 0 blocks)
     (chain_rows E (finalised p blocks) 0 blocks) ?i (index_blocks E 0 blocks ?i)" by simp
  have "BuildExplorerIndex E p = Some (index_blocks E 0 blocks ?i)" by (simp add: BuildExplorerIndex_def assms finalised_def Let_def)
  with t show ?thesis by blast
qed

lemma table_lookups:
  assumes "tables bs rows (ExplorerIndex_empty\<lparr>LatestHeight := n, FinalizedHeight := fin\<rparr>) idx"
  shows "fmlookup (BlocksByNumber idx) i = last_with eb_Number i bs"
    and "fmlookup (BlocksByHash idx) h = last_with (ToLower \<circ> eb_Hash) h bs"
    and "fmlookup (TxsByHash idx) t = last_with (ToLower \<circ> et_Hash) t rows"
    and "mget [] (TxsByAddress idx) a = rows_of a rows" and "LatestHeight idx = n" and "FinalizedHeight idx = fin"
  using assms by (simp_all add: tables_def ExplorerIndex_empty_def split: option.split)

end
