(* ===== verification/ExplorerProperties.thy ===== *)
theory ExplorerProperties
  imports ExplorerFacts OpsRead PeerDemo
begin

text \<open>
  The explorer shows the canonical chain: its tables are lookups in the list of the chain's rows, and its pages list every block once.
\<close>

section \<open>The tables\<close>

text \<open>
  C38. The explorer's index of a peer with a chain. Every canonical block is found under its number, nothing else is; a hash finds the
  last block that has it, a transaction identifier, in either case, the last row of the chain that has it, and an address finds the rows it sent
  and received, in the order of the chain, a transfer to oneself twice.
\<close>

theorem explorer_index_complete:
  assumes "p_blockchain p = Some chain" and "CanonicalBlocks E chain 0 = Some blocks" and "blocks \<noteq> []"
  shows "\<exists>idx. BuildExplorerIndex E p = Some idx \<and> LatestHeight idx = int (length blocks) - 1 \<and> FinalizedHeight idx = finalised p blocks \<and>
    (\<forall>n. fmlookup (BlocksByNumber idx) n =
       (if 0 \<le> n \<and> n < int (length blocks) then Some (block_row E (finalised p blocks) n (blocks ! nat n)) else None)) \<and>
    (\<forall>h. fmlookup (BlocksByHash idx) h = last_with (ToLower \<circ> eb_Hash) h (block_rows E (finalised p blocks) 0 blocks)) \<and>
    (\<forall>t. fmlookup (TxsByHash idx) t = last_with (ToLower \<circ> et_Hash) t (chain_rows E (finalised p blocks) 0 blocks)) \<and>
    (\<forall>a. mget [] (TxsByAddress idx) a = rows_of a (chain_rows E (finalised p blocks) 0 blocks))"
proof -
  from index_of_chain [OF assms] obtain idx where idx: "BuildExplorerIndex E p = Some idx" and t:
    "tables (block_rows E (finalised p blocks) 0 blocks) (chain_rows E (finalised p blocks) 0 blocks)
      (ExplorerIndex_empty\<lparr>LatestHeight := int (length blocks) - 1, FinalizedHeight := finalised p blocks\<rparr>) idx" by blast
  show ?thesis using idx by (simp add: table_lookups [OF t] number_of_rows)
qed

theorem explorer_index_complete_witness:
  "\<exists>idx. BuildExplorerIndex demo_env demo_peer = Some idx \<and> LatestHeight idx = 0 \<and>
     fmlookup (BlocksByNumber idx) 0 = Some (block_row demo_env 0 0 demo_genesis) \<and> fmlookup (BlocksByNumber idx) 1 = None"
proof -
  have "finalised demo_peer [demo_genesis] = 0" by (simp add: finalised_def demo_peer_fields i64_id in_i64_def)
  with explorer_index_complete [OF demo_peer_fields(4) demo_canonical] show ?thesis by fastforce
qed

section \<open>The pages\<close>

definition row_without_txs :: "'a ethlib_scheme \<Rightarrow> int \<Rightarrow> Block list \<Rightarrow> int \<Rightarrow> ExplorerBlock" where
  "row_without_txs E fin blocks n = (block_row E fin n (blocks ! nat n))\<lparr>eb_Transactions := []\<rparr>"

text \<open>The blocks from a height downwards, the first \<open>k\<close> of them.\<close>

definition downwards :: "(int \<Rightarrow> 'b) \<Rightarrow> int \<Rightarrow> nat \<Rightarrow> 'b list" where
  "downwards row h k = map (\<lambda>i. row (h - int i)) [0..<k]"

lemma downwards_Suc: "downwards row h (Suc k) = row h # downwards row (h - 1) k"
  by (simp add: downwards_def map_upt_Suc algebra_simps del: upt_Suc)

lemma downwards_add: "downwards row h (j + k) = downwards row h j @ downwards row (h - int j) k"
  by (induction j arbitrary: h) (simp_all add: downwards_Suc algebra_simps, simp add: downwards_def)

lemma length_downwards [simp]: "length (downwards row h k) = k"
  by (simp add: downwards_def)

lemma last_downwards: "0 < k \<Longrightarrow> last (downwards row h k) = row (h - int k + 1)"
  by (cases k) (simp_all add: downwards_def)

lemma page_blocks_rows:
  assumes "\<And>n. 0 \<le> n \<Longrightarrow> n \<le> h \<Longrightarrow> \<exists>b. fmlookup table n = Some b \<and> b\<lparr>eb_Transactions := []\<rparr> = row n"
    and "int (length acc) \<le> limit"
  shows "page_blocks table limit h acc = acc @ downwards row h (nat (min (h + 1) (limit - int (length acc))))"
  using assms
proof (induction table limit h acc rule: page_blocks.induct)
  case (1 table limit h acc)
  show ?case
  proof (cases "0 \<le> h \<and> int (length acc) < limit")
    case True
    with 1(2) [of h] obtain b where b: "fmlookup table h = Some b" "b\<lparr>eb_Transactions := []\<rparr> = row h" by auto
    have "nat (min (h + 1) (limit - int (length acc))) = Suc (nat (min h (limit - int (length (acc @ [row h])))))" using True by auto
    moreover have "page_blocks table limit (h - 1) (acc @ [row h]) =
        (acc @ [row h]) @ downwards row (h - 1) (nat (min (h - 1 + 1) (limit - int (length (acc @ [row h])))))"
      using 1(1) [OF True] 1(2) True b by auto
    ultimately show ?thesis using True b by (simp add: page_blocks.simps [of table limit h acc] downwards_Suc)
  next
    case False
    with 1(3) have "nat (min (h + 1) (limit - int (length acc))) = 0" by auto
    then show ?thesis by (subst page_blocks.simps, subst if_not_P [OF False]) (simp add: downwards_def)
  qed
qed

text \<open>A client that follows the cursors with a fixed size of page.\<close>

definition page_request :: "int \<Rightarrow> int option \<Rightarrow> http_request" where
  "page_request limit cursor = \<lparr>rq_Method = MethodGet, rq_Path = ''/explorer/blocks'',
     rq_Query = (\<lambda>k. if k = ''limit'' then Itoa limit else if k = ''cursor'' then (case cursor of None \<Rightarrow> [] | Some c \<Rightarrow> Itoa c) else []),
     rq_Authorization = [], rq_Body = []\<rparr>"

inductive browse :: "'a ethlib_scheme \<Rightarrow> Peer \<Rightarrow> int \<Rightarrow> int option \<Rightarrow> ExplorerBlock list \<Rightarrow> bool" for E p limit where
  last_page: "blocks_page E p (page_request limit c) = Some (bs, None) \<Longrightarrow> browse E p limit c bs"
| next_page: "blocks_page E p (page_request limit c) = Some (bs, Some c') \<Longrightarrow> browse E p limit (Some c') rest \<Longrightarrow> browse E p limit c (bs @ rest)"

lemma browse_unique: "browse E p limit c bs \<Longrightarrow> browse E p limit c bs' \<Longrightarrow> bs' = bs"
proof (induction arbitrary: bs' rule: browse.induct)
  case (last_page c bs)
  from last_page(2) show ?case by cases (use last_page(1) in auto)
next
  case (next_page c bs c' rest)
  from next_page(4) show ?case by cases (use next_page(1,3) in auto)
qed

lemma trimmed_Itoa: "0 \<le> i \<Longrightarrow> TrimSpace (Itoa i) = Itoa i"
proof -
  assume "0 \<le> i"
  then have "list_all is_digit (Itoa i)" by (simp add: Itoa_def nat_digits_all)
  then have "\<forall>c \<in> set (Itoa i). \<not> is_space c" by (auto simp: list_all_iff is_digit_def is_space_def Let_def)
  then have "trimmed (Itoa i)" by (simp add: trimmed_def)
  then show ?thesis by simp
qed

lemma page_query:
  assumes "1 \<le> limit" and "limit \<le> 100" and "\<And>c. cursor = Some c \<Longrightarrow> 0 \<le> c \<and> c < 2 ^ 63"
  shows "boundedQueryInt (page_request limit cursor) ''limit'' 25 1 100 = limit"
    and "queryInt (page_request limit cursor) ''cursor'' latest = (case cursor of None \<Rightarrow> latest | Some c \<Rightarrow> c)"
proof -
  have "in_i64 limit" using assms by (simp add: in_i64_def)
  then show "boundedQueryInt (page_request limit cursor) ''limit'' 25 1 100 = limit"
    using assms by (simp add: boundedQueryInt_def queryInt_def page_request_def trimmed_Itoa Let_def)
  show "queryInt (page_request limit cursor) ''cursor'' latest = (case cursor of None \<Rightarrow> latest | Some c \<Rightarrow> c)"
  proof (cases cursor)
    case None
    then show ?thesis by (simp add: queryInt_def page_request_def TrimSpace_def)
  next
    case (Some c)
    with assms(3) have "0 \<le> c" "in_i64 c" by (auto simp: in_i64_def)
    with Some show ?thesis by (simp add: queryInt_def page_request_def trimmed_Itoa)
  qed
qed

lemma page_at:
  assumes "p_blockchain p = Some chain" and "CanonicalBlocks E chain 0 = Some blocks" and "blocks \<noteq> []" and "int (length blocks) < 2 ^ 63"
    and "1 \<le> limit" and "limit \<le> 100" and "h = (case cursor of None \<Rightarrow> int (length blocks) - 1 | Some c \<Rightarrow> c)" and "0 \<le> h" and "h < int (length blocks)"
  shows "blocks_page E p (page_request limit cursor) =
    Some (downwards (row_without_txs E (finalised p blocks) blocks) h (nat (min (h + 1) limit)), if limit \<le> h then Some (h - limit) else None)"
proof -
  let ?row = "row_without_txs E (finalised p blocks) blocks" and ?k = "nat (min (h + 1) limit)"
  from index_of_chain [OF assms(1-3)] obtain idx where idx: "BuildExplorerIndex E p = Some idx" "LatestHeight idx = int (length blocks) - 1"
    "\<forall>n. fmlookup (BlocksByNumber idx) n =
       (if 0 \<le> n \<and> n < int (length blocks) then Some (block_row E (finalised p blocks) n (blocks ! nat n)) else None)"
    by (auto simp: table_lookups number_of_rows)
  have page: "page_blocks (BlocksByNumber idx) limit h [] = downwards ?row h ?k"
    by (subst page_blocks_rows [where row = ?row]) (use idx(3) assms in \<open>auto simp: row_without_txs_def\<close>)
  have "eb_Number (last (downwards ?row h ?k)) = h - int ?k + 1" using assms(5,8)
    by (subst last_downwards) (auto simp: row_without_txs_def block_row_def)
  then have "next_cursor limit (downwards ?row h ?k) = (if limit \<le> h then Some (h - limit) else None)"
    using assms(5,8) by (auto simp: next_cursor_def min_def)
  moreover have "\<And>c. cursor = Some c \<Longrightarrow> 0 \<le> c \<and> c < 2 ^ 63" using assms(4,7,8,9) by auto
  note q = page_query [OF assms(5,6) this]
  moreover have "(case cursor of None \<Rightarrow> LatestHeight idx | Some c \<Rightarrow> c) = h" using assms(7) by (simp add: idx(2) split: option.splits)
  ultimately show ?thesis using page by (simp only: blocks_page_def idx(1) q Let_def option.map)
qed

text \<open>
  C39. The pages of the explorer. Whatever the size of the pages, a client that follows the cursors from the first page reaches a last one and
  has then seen every canonical block exactly once, from the latest to the first, without the transactions.
\<close>

theorem explorer_pages_complete:
  assumes "p_blockchain p = Some chain" and "CanonicalBlocks E chain 0 = Some blocks" and "blocks \<noteq> []" and "int (length blocks) < 2 ^ 63"
    and "1 \<le> limit" and "limit \<le> 100"
  shows "browse E p limit None bs \<longleftrightarrow> bs = rev (map (row_without_txs E (finalised p blocks) blocks \<circ> int) [0..<length blocks])"
proof -
  let ?row = "row_without_txs E (finalised p blocks) blocks"
  have page: "browse E p limit c (downwards ?row h (nat (h + 1)))"
    if "h = (case c of None \<Rightarrow> int (length blocks) - 1 | Some c \<Rightarrow> c)" "0 \<le> h" "h < int (length blocks)" for h c
    using that
  proof (induction "nat h" arbitrary: h c rule: less_induct)
    case less
    note at = page_at [OF assms less.prems]
    show ?case
    proof (cases "limit \<le> h")
      case True
      then have "nat (h + 1) = nat limit + nat (h - limit + 1)" "min (h + 1) limit = limit" using assms(5) by auto
      moreover have "browse E p limit (Some (h - limit)) (downwards ?row (h - limit) (nat (h - limit + 1)))"
        using True less.prems assms(5) by (intro less.hyps) auto
      ultimately show ?thesis using at True browse.next_page [of E p limit c] assms(5) by (simp add: downwards_add)
    next
      case False
      then have "min (h + 1) limit = h + 1" by simp
      with at False show ?thesis by (intro browse.last_page) simp
    qed
  qed
  have "downwards ?row (int (length blocks) - 1) (length blocks) = rev (map (?row \<circ> int) [0..<length blocks])"
    by (rule nth_equalityI) (auto simp: downwards_def rev_nth of_nat_diff algebra_simps)
  with page [of "int (length blocks) - 1" None] assms(3) have "browse E p limit None (rev (map (?row \<circ> int) [0..<length blocks]))"
    by (cases blocks) (simp_all add: nat_add_distrib)
  then show ?thesis using browse_unique by blast
qed

theorem explorer_pages_complete_witness:
  "browse demo_env demo_peer 25 None [row_without_txs demo_env 0 [demo_genesis] 0]"
proof -
  have "finalised demo_peer [demo_genesis] = 0" by (simp add: finalised_def demo_peer_fields i64_id in_i64_def)
  with explorer_pages_complete [OF demo_peer_fields(4) demo_canonical, of 25] show ?thesis by simp
qed

end
