(* ===== verification/OpsProperties.thy ===== *)
theory OpsProperties
  imports OpsFacts ExplorerProperties
begin

text \<open>
  What the operations server lets a stranger do, and that every request keeps the peer among its reachable states.
\<close>

section \<open>Paths\<close>

definition admin_paths :: "string list" where
  "admin_paths = [''/admin/dashboard/status'', ''/admin/mempool'', ''/admin/mine'', ''/admin/mint'', ''/admin/withdraw'', ''/admin/nft/mint'',
     ''/admin/nft/transfer'', ''/admin/swap/pools'', ''/admin/swap/liquidity/add'', ''/admin/assets/credit'', ''/admin/assets/debit'']"

lemma clean_admin_paths: "list_all (\<lambda>q. clean_path q = q) admin_paths"
  by code_simp

lemma serve_route:
  assumes "map_of (routes E lib ms s) (rq_Path r) = Some h" and "clean_path (rq_Path r) = rq_Path r"
  shows "serve E lib ms s p tr r = h p tr r"
proof -
  have "rq_Path r \<in> set (map fst (routes E lib ms s))" using map_of_SomeD [OF assms(1)] by force
  with assms show ?thesis by (simp add: serve_def match_path_def del: set_map map_map)
qed

lemma refused_without_token:
  assumes "\<not> isAdminAuthorized s r" and "operator_only s methods p tr r answer = Some (p', tr', w)"
  shows "p' = p \<and> tr' = tr \<and> res_Code w \<in> {401, 405}"
  using assms by (auto simp: operator_only_def writeJSON_def writeJSONAny_def split: if_splits)

definition guarded :: "OpsServer \<Rightarrow> (Peer \<Rightarrow> trace \<Rightarrow> http_request \<Rightarrow> answered) \<Rightarrow> bool" where
  "guarded s h \<longleftrightarrow> (\<forall>p tr r. \<exists>methods answer. h p tr r = operator_only s methods p tr r answer)"

lemma guardedI: "(\<And>p tr r. h p tr r = operator_only s (methods p tr r) p tr r (answer p tr r)) \<Longrightarrow> guarded s h"
  by (auto simp: guarded_def)

lemma admin_guarded:
  "guarded s (adminDashboardStatus s)" "guarded s (adminMempool E s)" "guarded s (mineSlot E m s)" "guarded s (mint E m s)"
  "guarded s (withdraw E m s)" "guarded s (nftMint E m s)" "guarded s (nftTransfer E m s)" "guarded s (adminSwapPool E m s)"
  "guarded s (adminSwapAddLiquidity E m s)" "guarded s (adminAssetCredit E m s)" "guarded s (adminAssetDebit E m s)"
  unfolding adminAssetCredit_def adminAssetDebit_def adminDashboardStatus_def adminMempool_def mineSlot_def mint_def withdraw_def nftMint_def
    nftTransfer_def adminSwapPool_def adminSwapAddLiquidity_def adminAssetAccounting_def
  by (rule guardedI, rule refl)+

lemma admin_lookup:
  "map_of (routes E lib ms s) ''/admin/dashboard/status'' = Some (adminDashboardStatus s)"
  "map_of (routes E lib ms s) ''/admin/mempool'' = Some (adminMempool E s)"
  "map_of (routes E lib ms s) ''/admin/mine'' = Some (mineSlot E (ms 0) s)"
  "map_of (routes E lib ms s) ''/admin/mint'' = Some (mint E (ms 0) s)"
  "map_of (routes E lib ms s) ''/admin/withdraw'' = Some (withdraw E (ms 0) s)"
  "map_of (routes E lib ms s) ''/admin/nft/mint'' = Some (nftMint E (ms 0) s)"
  "map_of (routes E lib ms s) ''/admin/nft/transfer'' = Some (nftTransfer E (ms 0) s)"
  "map_of (routes E lib ms s) ''/admin/swap/pools'' = Some (adminSwapPool E (ms 0) s)"
  "map_of (routes E lib ms s) ''/admin/swap/liquidity/add'' = Some (adminSwapAddLiquidity E (ms 0) s)"
  "map_of (routes E lib ms s) ''/admin/assets/credit'' = Some (adminAssetCredit E (ms 0) s)"
  "map_of (routes E lib ms s) ''/admin/assets/debit'' = Some (adminAssetDebit E (ms 0) s)"
  by (simp_all add: routes_def)

lemma admin_routes: "list_all (\<lambda>q. \<exists>h. map_of (routes E lib ms s) q = Some h \<and> guarded s h) admin_paths"
  by (simp add: admin_paths_def admin_lookup admin_guarded)

section \<open>Requests without the token\<close>

text \<open>
  C35. Without the operator's token a request changes the peer only by submitting transactions of this chain that their senders signed, and only when
  it is a POST. The operator's paths answer 401 or 405 and change nothing; when no token is configured, nobody can use them.
\<close>

theorem operator_token_required:
  assumes "serve E lib ms s p tr r = Some (p', tr', w)"
    and "os_adminToken s = [] \<or> rq_Authorization r \<noteq> ''Bearer '' @ os_adminToken s"
  shows "submits E (os_evmChainID s) p tr p' tr' \<and> (rq_Method r \<noteq> MethodPost \<longrightarrow> p' = p \<and> tr' = tr) \<and>
    (rq_Path r \<in> set admin_paths \<longrightarrow> p' = p \<and> tr' = tr \<and> res_Code w \<in> {401, 405})"
proof -
  from assms(2) have no: "\<not> isAdminAuthorized s r" by (auto simp: isAdminAuthorized_def)
  note ops_server.only_submits [OF no assms(1)]
  moreover have "p' = p \<and> tr' = tr \<and> res_Code w \<in> {401, 405}" if path: "rq_Path r \<in> set admin_paths"
  proof -
    from path admin_routes obtain h where h: "map_of (routes E lib ms s) (rq_Path r) = Some h" "guarded s h" by (fastforce simp: list_all_iff)
    have "h p tr r = Some (p', tr', w)" using serve_route [OF h(1)] path clean_admin_paths assms(1) by (simp add: list_all_iff)
    with h(2) show ?thesis using refused_without_token [OF no] unfolding guarded_def by metis
  qed
  ultimately show ?thesis by blast
qed

definition demo_server :: OpsServer where
  "demo_server = \<lparr>os_adminToken = ''secret'', os_evmChainID = 26062026, os_evmNetworkID = ''26062026'', os_bootstrap = None,
     os_reservedSupplyAddresses = []\<rparr>"

definition demo_opslib :: opslib where
  "demo_opslib = \<lparr>lib_CreateAddress = (\<lambda>a n. a), lib_Error = (\<lambda>e raw. []), lib_float = (\<lambda>s. Some s)\<rparr>"

definition demo_moments :: "nat \<Rightarrow> moment" where
  "demo_moments i = \<lparr>mo_UnixNano = 1, mo_RFC3339Nano = ''1970-01-01T00:00:00Z'', mo_Uptime = 1, mo_pending = mkeys, mo_rows = mkeys,
     mo_world = demo_world\<rparr>"

definition mint_attempt :: http_request where
  "mint_attempt = \<lparr>rq_Method = MethodPost, rq_Path = ''/admin/mint'', rq_Query = (\<lambda>k. []), rq_Authorization = ''Bearer guess'',
     rq_Body = ''{\"to\":\"0xab\",\"amount\":1000}''\<rparr>"

lemma mint_refused: "\<exists>w. serve demo_env demo_opslib demo_moments demo_server demo_peer [] mint_attempt = Some (demo_peer, [], w)"
proof -
  have "clean_path ''/admin/mint'' = ''/admin/mint''" using clean_admin_paths by (simp add: admin_paths_def)
  then have "serve demo_env demo_opslib demo_moments demo_server demo_peer [] mint_attempt =
      mint demo_env (demo_moments 0) demo_server demo_peer [] mint_attempt"
    by (intro serve_route) (simp_all add: mint_attempt_def admin_lookup)
  then show ?thesis by (simp add: mint_def operator_only_def isAdminAuthorized_def mint_attempt_def demo_server_def MethodPost_def)
qed

theorem operator_token_required_witness:
  "\<exists>w. serve demo_env demo_opslib demo_moments demo_server demo_peer [] mint_attempt = Some (demo_peer, [], w) \<and> res_Code w \<in> {401, 405}"
proof -
  obtain w where w: "serve demo_env demo_opslib demo_moments demo_server demo_peer [] mint_attempt = Some (demo_peer, [], w)"
    using mint_refused by blast
  from operator_token_required [OF w] w show ?thesis by (simp add: demo_server_def mint_attempt_def admin_paths_def)
qed

section \<open>Requests and the peer's invariants\<close>

text \<open>
  C36. Requests keep the peer among its reachable states: whatever is asked, with or without the token, the peer the request leaves is one that
  the peer's own operations reach, so that every invariant of reachable peers holds while the server is in use. Here: the pool is filed under its
  identifiers with one transaction per sender and nonce, and the ledger is the replay of the finalised chain.
\<close>

theorem served_peer_reachable:
  assumes "reachable E False p" and "serve E lib ms s p tr r = Some (p', tr', w)"
  shows "reachable E False p' \<and> mempool_ok (p_mempool p') \<and> pool_verified E (p_mempool p') \<and> ledger_cached E p'"
  by (rule ops_server.keeps_invariants [OF assms])

theorem served_peer_reachable_witness:
  "\<exists>w. serve demo_env demo_opslib demo_moments demo_server demo_peer [] mint_attempt = Some (demo_peer, [], w) \<and> ledger_cached demo_env demo_peer"
proof -
  obtain w where w: "serve demo_env demo_opslib demo_moments demo_server demo_peer [] mint_attempt = Some (demo_peer, [], w)"
    using mint_refused by blast
  from served_peer_reachable [OF demo_reachable w] w show ?thesis by blast
qed

section \<open>An index that stops the handler\<close>

text \<open>
  An index of 2^63 or more is negative as an \<open>int\<close>, passes the comparison with the number of transactions and is then out of range: the handler
  panics for every block.
\<close>

lemma sint_negative:
  fixes i :: u64
  assumes "2 ^ 63 \<le> unat i"
  shows "sint i < 0"
proof -
  have "unat i < 2 ^ 64" using unat_lt2p_64 [of i] by simp
  with assms have "unat i div 2 ^ 63 = 1" by simp
  then have "bit (unat i) 63" by (simp add: bit_iff_odd)
  then have "bit i 63" by (simp add: bit_unsigned_iff)
  then show ?thesis using bit_last_iff [of i] by simp
qed

lemma huge_index_panics:
  assumes "parseHexUint64 index = Some i" and "2 ^ 63 \<le> unat i" and "length (eb_Transactions block) < 2 ^ 63"
  shows "transaction_at E (Some block) index = None"
  using assms sint_negative [OF assms(2)] by (simp add: transaction_at_def)

end
