(* ===== verification/CatalogueProperties.thy ===== *)
theory CatalogueProperties
  imports OpsProperties
begin

text \<open>
  The server does what its catalogue of endpoints says: methods, authentication, content types and the fields of the answers.
\<close>

section \<open>What an entry promises\<close>



definition body_fields :: "http_response \<Rightarrow> string list" where
  "body_fields w = (case res_Body w of Json (JObj ms) \<Rightarrow> map fst ms | _ \<Rightarrow> [])"

definition successful :: "http_response \<Rightarrow> bool" where
  "successful w \<longleftrightarrow> res_Code w \<in> {200, 202}"

text \<open>An answer to a request for an entry: whether it needs the token, its content type and the fields it has.\<close>

definition promised :: "OpsServer \<Rightarrow> http_request \<Rightarrow> bool \<Rightarrow> string \<Rightarrow> string list \<Rightarrow> http_response \<Rightarrow> bool" where
  "promised s r secured content members w \<longleftrightarrow>
     res_Code w \<noteq> 405 \<and> (res_Code w = 401 \<longleftrightarrow> secured \<and> \<not> isAdminAuthorized s r) \<and>
     (successful w \<longrightarrow> (\<exists>t. map_of (res_Headers w) ''Content-Type'' = Some t \<and> HasPrefix t content) \<and> set members \<subseteq> set (body_fields w))"



section \<open>Reading\<close>

lemma promised_json [simp]:
  "promised s r False ''application/json'' members (writeJSONAny 200 (jobj ms)) \<longleftrightarrow> set members \<subseteq> fst ` set ms"
  "promised s r False ''application/json'' members (writeJSONAny 200 (JObj ms)) \<longleftrightarrow> set members \<subseteq> fst ` set ms"
  by (simp_all add: promised_def successful_def writeJSONAny_def jobj_def body_fields_def HasPrefix_def)

lemma promised_error [simp]:
  "code \<notin> {200, 202, 401, 405} \<Longrightarrow> promised s r False content members (writeJSON code ms)"
  by (simp add: promised_def successful_def writeJSON_def writeJSONAny_def)

lemma promised_rpc [simp]: "promised s r False ''application/json'' [] (setRPCHeaders w) \<longleftrightarrow> promised s r False ''application/json'' [] w"
  by (simp add: promised_def successful_def setRPCHeaders_def rpc_headers_def)

lemma promised_any [simp]: "promised s r False ''application/json'' [] (writeJSONAny 200 v)"
  by (simp add: promised_def successful_def writeJSONAny_def HasPrefix_def)




lemma promised_row [simp]:
  "promised s r False ''application/json'' [''hash'', ''from'', ''to'', ''amount'', ''blockHash'', ''blockNumber'', ''transactionIndex'']
     (writeJSONAny 200 (explorer_tx_json tx))"
  by (simp add: explorer_tx_json_def)








section \<open>The operator\<close>

definition operator_answer :: "string list \<Rightarrow> http_response \<Rightarrow> bool" where
  "operator_answer members w \<longleftrightarrow> res_Code w \<notin> {401, 405} \<and>
     (successful w \<longrightarrow> map_of (res_Headers w) ''Content-Type'' = Some ''application/json'' \<and> set members \<subseteq> set (body_fields w))"

lemma operator_answer_json [simp]:
  "operator_answer members (writeJSON code ms) \<longleftrightarrow> code \<notin> {401, 405} \<and> (code \<in> {200, 202} \<longrightarrow> set members \<subseteq> fst ` set ms)"
  by (simp add: operator_answer_def successful_def writeJSON_def writeJSONAny_def jobj_def body_fields_def)



section \<open>Routes of the entries\<close>







section \<open>The whole catalogue\<close>















section \<open>Patterns the catalogue leaves out\<close>

text \<open>The catalogue calls itself a list of all exposed endpoints; these patterns are served and not in it.\<close>

definition uncatalogued :: "string list" where
  "uncatalogued = [''/deshboard'', ''/chain/exchange-info'', ''/chain/supply'', ''/chain/supply/total.txt'', ''/chain/supply/circulating.txt'',
     ''/chain/swap/pools/'', ''/chain/swap/balances/'', ''/explorer/blocks/'', ''/explorer/address/'', ''/explorer/search'', ''/'',
     ''/admin/assets/credit'', ''/admin/assets/debit'']"

lemma uncatalogued_patterns:
  "filter (\<lambda>q. q \<notin> set (map (takeWhile (\<lambda>c. c \<noteq> CHR ''{'') \<circ> ep_Path) catalogue)) (map fst (routes E lib ms s)) = uncatalogued"
proof -
  have "map (takeWhile (\<lambda>c. c \<noteq> CHR ''{'') \<circ> ep_Path) catalogue =
     [''/health'', ''/ready'', ''/chain/status'', ''/chain/info'', ''/chain/validators'', ''/chain/nfts'', ''/chain/nfts/'', ''/chain/swap/pools'',
      ''/chain/swap/quote'', ''/chain/bootstrap'', ''/metrics'', ''/endpoints'', ''/dashboard'', ''/rpc'', ''/explorer/blocks'', ''/explorer/tx/'',
      ''/admin/mempool'', ''/admin/mine'', ''/admin/mint'', ''/admin/withdraw'', ''/admin/nft/mint'', ''/admin/nft/transfer'', ''/admin/swap/pools'',
      ''/admin/swap/liquidity/add'', ''/admin/dashboard/status'']"
    by (simp add: catalogue_def catalogue_chain_def catalogue_node_def catalogue_operator_def)
  then show ?thesis by (simp only:) (simp add: routes_def uncatalogued_def)
qed

end
