(* ===== verification/Wallet.thy ===== *)
theory Wallet
  imports NodeState
begin

text \<open>
  Wallet files (\<open>dissycrypto/aes.go\<close>, \<open>dissycrypto/wallet.go\<close>): a key pair whose secret half is kept in a file encrypted under a
  password, and signing with it. Counter mode is modelled on the block cipher; the cipher itself and \<open>pbkdf2.Key\<close> are the functions of
  \<open>cipherlib\<close>. Files are those of \<open>NodeState\<close>. The faults of the file system and the random source are arguments; \<open>None\<close> as the outer
  result is a panic.

  Shown: deciphering undoes enciphering, a written file is read back, and what \<open>Sign\<close> then returns.
\<close>

record cipherlib =
  aes_block :: "bytes \<Rightarrow> bytes \<Rightarrow> bytes"
  pbkdf2_Key :: "string \<Rightarrow> bytes \<Rightarrow> nat \<Rightarrow> nat \<Rightarrow> bytes option"

text \<open>The initialisation vector that was drawn, whether the file could be created, and how many bytes fit when the disk is full.\<close>

record wallet_io =
  wi_iv :: "bytes option"
  wi_create :: bool
  wi_room :: "nat option"

section \<open>Counter mode\<close>

definition BlockSize :: nat where "BlockSize = 16"

definition aes_key :: "bytes \<Rightarrow> bool" where
  "aes_key key \<longleftrightarrow> length key \<in> {16, 24, 32}"

text \<open>The number as that many bytes, big-endian, modulo their range.\<close>

fun be_bytes :: "nat \<Rightarrow> nat \<Rightarrow> bytes" where
  "be_bytes 0 n = []"
| "be_bytes (Suc k) n = be_bytes k (n div 256) @ [char_of (n mod 256)]"

definition key_block :: "cipherlib \<Rightarrow> bytes \<Rightarrow> bytes \<Rightarrow> nat \<Rightarrow> bytes" where
  "key_block L key iv i = aes_block L key (be_bytes BlockSize (BytesToBigInt iv + i))"

definition key_stream :: "cipherlib \<Rightarrow> bytes \<Rightarrow> bytes \<Rightarrow> nat \<Rightarrow> bytes" where
  "key_stream L key iv n = take n (concat (map (key_block L key iv) [0..<Suc (n div BlockSize)]))"

definition xor_char :: "char \<Rightarrow> char \<Rightarrow> char" where
  "xor_char a b = char_of (Bit_Operations.xor (of_char a) (of_char b) :: nat)"

definition XORKeyStream :: "cipherlib \<Rightarrow> bytes \<Rightarrow> bytes \<Rightarrow> bytes \<Rightarrow> bytes" where
  "XORKeyStream L key iv src = map2 xor_char src (key_stream L key iv (length src))"

section \<open>Encrypted files\<close>

definition PutUint16 :: "nat \<Rightarrow> bytes" where
  "PutUint16 n = be_bytes 2 n"

text \<open>The results of the three writes are not looked at: a full disk cuts the file short and the call still succeeds.\<close>

definition EncryptToFile :: "cipherlib \<Rightarrow> wallet_io \<Rightarrow> files \<Rightarrow> bytes \<Rightarrow> bytes \<Rightarrow> string \<Rightarrow> files \<times> bool" where
  "EncryptToFile L io fs key plaintext filename =
     (if \<not> aes_key key then (fs, False)
      else case wi_iv io of
        None \<Rightarrow> (fs, False)
      | Some iv \<Rightarrow>
          if \<not> wi_create io then (fs, False)
          else let content = PutUint16 BlockSize @ iv @ XORKeyStream L key iv plaintext
            in (fmupd filename (case wi_room io of None \<Rightarrow> content | Some k \<Rightarrow> take k content) fs, True))"

definition DecryptFromFile :: "cipherlib \<Rightarrow> files \<Rightarrow> bytes \<Rightarrow> string \<Rightarrow> bytes option go" where
  "DecryptFromFile L fs key filename = (case fmlookup fs filename of
      None \<Rightarrow> Some None
    | Some content \<Rightarrow>
        if length content < 2 then Some None
        else let size = BytesToBigInt (take 2 content); iv = take size (drop 2 content); c = drop size (drop 2 content)
          in if length (drop 2 content) < size then Some None
             else if \<not> aes_key key then Some None
             else if length iv \<noteq> BlockSize then None
             else Some (Some (XORKeyStream L key iv c)))"

section \<open>Wallets\<close>

definition HASH_SIZE :: nat where "HASH_SIZE = 32"

definition PASSWORD_HASH_ITERATION_COUNT :: nat where "PASSWORD_HASH_ITERATION_COUNT = 300000"

definition hashPassword :: "cipherlib \<Rightarrow> string \<Rightarrow> bytes option" where
  "hashPassword L password = pbkdf2_Key L password ''salt'' PASSWORD_HASH_ITERATION_COUNT HASH_SIZE"

text \<open>The result of writing the file is not looked at either.\<close>

definition Generate :: "cipherlib \<Rightarrow> wallet_io \<Rightarrow> (nat \<times> nat) list \<Rightarrow> files \<Rightarrow> string \<Rightarrow> string \<Rightarrow> (files \<times> string) go" where
  "Generate L io draws fs filename password = (case KeyGen draws of
      None \<Rightarrow> None
    | Some (n, e, d) \<Rightarrow>
        (let sk = big_Bytes n @ big_Bytes d; pk = big_Bytes n @ big_Bytes e
         in case hashPassword L password of
              None \<Rightarrow> Some (fs, [])
            | Some passwordHash \<Rightarrow> Some (fst (EncryptToFile L io fs passwordHash sk filename), pk)))"

definition wallet_Sign :: "cipherlib \<Rightarrow> (bytes \<Rightarrow> bytes) \<Rightarrow> files \<Rightarrow> string \<Rightarrow> string \<Rightarrow> bytes \<Rightarrow> bytes option go" where
  "wallet_Sign L H fs filename password msg =
     (if \<not> mhas fs filename then Some None
      else case hashPassword L password of
        None \<Rightarrow> Some None
      | Some passwordHash \<Rightarrow> do {
          sk \<leftarrow> DecryptFromFile L fs passwordHash filename;
          case sk of
            None \<Rightarrow> Some None
          | Some sk \<Rightarrow>
              if length sk < WALLET_KEY_SIZE then None
              else let n = BytesToBigInt (take WALLET_KEY_SIZE sk); d = BytesToBigInt (drop WALLET_KEY_SIZE sk)
                in Some (Some (big_Bytes (RSASign H msg d n)))
        })"

text \<open>The demonstration in \<open>wallet.go\<close>: \<open>Some None\<close> is the error of signing, the rest is what it prints at the end.\<close>

definition wallet_demo :: "cipherlib \<Rightarrow> (bytes \<Rightarrow> bytes) \<Rightarrow> wallet_io \<Rightarrow> (nat \<times> nat) list \<Rightarrow> files \<Rightarrow> bool option go" where
  "wallet_demo L H io draws fs = do {
     let password = ''verygoodpassword(TM)'';
     let filename = ''./testfiles/walletkey.sk'';
     let msg = ''An authentic message sent by DA1 Command HQ.'';
     (fs, pk) \<leftarrow> Generate L io draws fs filename password;
     sign \<leftarrow> wallet_Sign L H fs filename password msg;
     case sign of
       None \<Rightarrow> Some None
     | Some sign \<Rightarrow> map_option Some (VerifySignature H msg sign pk)
   }"

section \<open>Round trips\<close>

lemma length_be_bytes [simp]: "length (be_bytes k n) = k"
  by (induction k arbitrary: n) simp_all

lemma xor_char_twice: "xor_char (xor_char a b) b = a"
proof -
  have small: "(of_char c :: nat) < 2 ^ 8" for c :: char using nat_of_char_less_256 [of c] by simp
  have "take_bit 8 (Bit_Operations.xor (of_char a) (of_char b) :: nat) = Bit_Operations.xor (of_char a) (of_char b)"
    by (simp add: take_bit_xor take_bit_nat_eq_self [OF small])
  then have "(Bit_Operations.xor (of_char a) (of_char b) :: nat) < 2 ^ 8" using take_bit_nat_less_exp by metis
  then have "(of_char (xor_char a b) :: nat) = Bit_Operations.xor (of_char a) (of_char b)" by (simp add: xor_char_def)
  then show ?thesis by (simp add: xor_char_def [of "xor_char a b"] xor.assoc)
qed

lemma length_key_stream:
  assumes "\<And>b. length (aes_block L key b) = BlockSize"
  shows "length (key_stream L key iv n) = n"
proof -
  have "length (concat (map (key_block L key iv) [0..<k])) = BlockSize * k" for k
    by (induction k) (simp_all add: key_block_def assms)
  moreover have "n \<le> BlockSize * Suc (n div BlockSize)" by (simp add: BlockSize_def)
  ultimately show ?thesis by (simp only: key_stream_def length_take min.absorb2)
qed

lemma stream_twice:
  assumes "\<And>b. length (aes_block L key b) = BlockSize"
  shows "XORKeyStream L key iv (XORKeyStream L key iv src) = src"
proof (rule nth_equalityI)
  show "length (XORKeyStream L key iv (XORKeyStream L key iv src)) = length src" by (simp add: XORKeyStream_def length_key_stream assms)
  fix i assume "i < length (XORKeyStream L key iv (XORKeyStream L key iv src))"
  then show "XORKeyStream L key iv (XORKeyStream L key iv src) ! i = src ! i"
    by (simp add: XORKeyStream_def length_key_stream assms xor_char_twice)
qed

lemma file_roundtrip:
  assumes "\<And>b. length (aes_block L key b) = BlockSize" and "aes_key key" and "wi_iv io = Some iv" and "length iv = BlockSize"
    and "wi_create io" and "wi_room io = None" and "EncryptToFile L io fs key plaintext filename = (fs', ok)"
  shows "ok \<and> DecryptFromFile L fs' key filename = Some (Some plaintext)"
proof -
  have size: "BytesToBigInt (PutUint16 BlockSize) = BlockSize" "length (PutUint16 BlockSize) = 2"
    by (simp_all add: PutUint16_def BlockSize_def numeral_2_eq_2 BytesToBigInt_def)
  from assms have "ok" "fmlookup fs' filename = Some (PutUint16 BlockSize @ iv @ XORKeyStream L key iv plaintext)"
    by (auto simp: EncryptToFile_def Let_def)
  with assms(2,4) show ?thesis by (simp add: DecryptFromFile_def Let_def size stream_twice assms(1))
qed

text \<open>What is read back from a wallet file is the secret key that was generated.\<close>

lemma signed_by_file:
  assumes "\<And>key b. aes_key key \<Longrightarrow> length (aes_block L key b) = BlockSize" and "hashPassword L password = Some key" and "aes_key key"
    and "wi_iv io = Some iv" and "length iv = BlockSize" and "wi_create io" and "wi_room io = None"
    and "KeyGen draws = Some (n, e, d)" and "length (big_Bytes n) = WALLET_KEY_SIZE"
  shows "\<exists>fs'. Generate L io draws fs filename password = Some (fs', big_Bytes n @ big_Bytes e) \<and>
    wallet_Sign L H fs' filename password msg = Some (Some (big_Bytes (RSASign H msg d n)))"
proof -
  obtain fs' ok where w: "EncryptToFile L io fs key (big_Bytes n @ big_Bytes d) filename = (fs', ok)" by fastforce
  with assms have r: "DecryptFromFile L fs' key filename = Some (Some (big_Bytes n @ big_Bytes d))"
    using file_roundtrip [OF assms(1) [OF assms(3)] assms(3-7) w] by simp
  then have "mhas fs' filename" by (auto simp: DecryptFromFile_def mhas_def split: option.splits)
  with w r assms(2,8,9) show ?thesis by (simp add: Generate_def wallet_Sign_def)
qed

end
