(* ===== verification/WalletProperties.thy ===== *)
theory WalletProperties
  imports Wallet Demo
begin

text \<open>A generated wallet signs, and what it signs verifies.\<close>

lemma generated_signs:
  assumes "\<forall>key b. aes_key key \<longrightarrow> length (aes_block L key b) = BlockSize"
    and "hashPassword L password = Some key" and "length key = HASH_SIZE"
    and "wi_iv io = Some iv" and "length iv = BlockSize" and "wi_create io" and "wi_room io = None"
    and "KeyGen draws = Some (n, e, d)" and "length (big_Bytes n) = WALLET_KEY_SIZE"
    and "Encrypt (Decrypt (BytesToBigInt (H msg)) d n) e n = BytesToBigInt (H msg)"
  shows "\<exists>fs' pk signature. Generate L io draws fs filename password = Some (fs', pk) \<and>
    wallet_Sign L H fs' filename password msg = Some (Some signature) \<and> VerifySignature H msg signature pk = Some True"
proof -
  have key: "aes_key key" using assms(3) by (simp add: aes_key_def HASH_SIZE_def)
  have "VerifySignature H msg (big_Bytes (RSASign H msg d n)) (big_Bytes n @ big_Bytes e) = Some True"
    using assms(9,10) by (simp add: VerifySignature_def RSAVerify_def RSASign_def applyHash_def)
  moreover have "\<And>key b. aes_key key \<Longrightarrow> length (aes_block L key b) = BlockSize" using assms(1) by blast
  from signed_by_file [OF this assms(2) key assms(4-9), of fs filename H msg] obtain fs' where
    "Generate L io draws fs filename password = Some (fs', big_Bytes n @ big_Bytes e)"
    "wallet_Sign L H fs' filename password msg = Some (Some (big_Bytes (RSASign H msg d n)))" by blast
  ultimately show ?thesis by blast
qed


text \<open>The demonstration of the wallet prints that the signature verifies.\<close>

lemma wallet_demo_verifies:
  assumes "\<forall>key b. aes_key key \<longrightarrow> length (aes_block L key b) = BlockSize"
    and "hashPassword L ''verygoodpassword(TM)'' = Some key" and "length key = HASH_SIZE"
    and "wi_iv io = Some iv" and "length iv = BlockSize" and "wi_create io" and "wi_room io = None"
    and "KeyGen draws = Some (n, e, d)" and "length (big_Bytes n) = WALLET_KEY_SIZE"
    and "\<And>h. Encrypt (Decrypt (BytesToBigInt (H h)) d n) e n = BytesToBigInt (H h)"
  shows "wallet_demo L H io draws fs = Some (Some True)"
  using generated_signs [where H = H and msg = "''An authentic message sent by DA1 Command HQ.''" and filename = "''./testfiles/walletkey.sk''", OF assms, of fs]
  by (auto simp: wallet_demo_def)








end
