(* ===== verification/Spec2Isabelle.thy ===== *)
theory Spec2Isabelle
  imports LedgerProperties ChainProperties PeerProperties SyncProperties Agreement NetworkProperties MiningProperties ConfigProperties NodeProperties
    GossipProperties HandinProperties OpsProperties CatalogueProperties WalletProperties
begin

text \<open>
  A verification of PokoinPoS, a proof-of-stake node in Go (\<open>src/peer\<close>).

  \<^bold>\<open>The program.\<close> A node keeps a tree of signed blocks. The best branch, the deepest one and among equals the one with the smallest
  leaf hash, determines a ledger of balances, tokens, swap pools and contract accounts. Nodes exchange transactions and blocks by flooding over
  TCP, catch up by asking each other for blocks, and mine: per slot a wallet draws a lottery number from its signature, and its stake decides whether
  it wins. Around the peer are the configuration, the list of bootstrap peers, the state file, the timers of the main loop, and an HTTP server with an
  explorer, JSON-RPC for Ethereum wallets and the operator's endpoints.

  \<^bold>\<open>How Go is modelled.\<close> \<open>GoPrelude\<close>: \<open>int\<close> is \<open>int\<close> with the 64-bit wrap-around \<open>i64\<close> written out, \<open>uint64\<close> is \<open>64 word\<close>, a Go map is a
  finite map, a result of type \<open>'a go\<close> is \<open>None\<close> where the code panics or never returns, errors are \<open>option\<close> or sum values. Every range over a map
  whose order can matter takes the order as an argument, and the properties hold for every order. A method that changes its receiver returns it.
  Mutexes make each method one step. \<open>GoText\<close> has \<open>strings\<close>, \<open>strconv\<close>, base64 and hexadecimal; \<open>GoJson\<close> and \<open>JsonIndent\<close> have the
  printer and the parser of \<open>encoding/json\<close>, with the proof that one reads what the other prints. What the node sends is a list of effects, the \<open>trace\<close>;
  what the network, the clock and the scheduler decide is an argument, the \<open>world\<close> (in \<open>Sync\<close>), the \<open>moment\<close> (in \<open>Rpc\<close>) or the \<open>handin_world\<close> (in \<open>Handin\<close>).

  Code outside the sources is a parameter: SHA-256 and go-ethereum (transaction decoder, sender recovery, addresses, the virtual machine) are the
  records \<open>ethlib\<close> and \<open>env\<close> of \<open>Evm\<close>; AES blocks and PBKDF2 are \<open>cipherlib\<close> of \<open>Wallet\<close>; \<open>opslib\<close> of \<open>Rpc\<close> has \<open>CreateAddress\<close>, texts of errors and
  the printed form of floating-point numbers. What a property needs of them is among its hypotheses: digests have 32 bytes, the blocks at hand
  have different hashes, the machine keeps the snapshots taken before a call. \<open>Demo\<close> and \<open>PeerDemo\<close> give a concrete instance at which the hypotheses hold.

  \<^bold>\<open>Components, the sources they model and what is shown.\<close>

  \<^item> \<open>Crypto\<close> (\<open>dissycrypto/rsa.go\<close>, \<open>signature.go\<close>, \<open>convertions.go\<close>, \<open>account/AccountKeys.go\<close>): RSA with Fermat's little theorem; keys sign and
    verify. \<open>Wallet\<close> (\<open>aes.go\<close>, \<open>wallet.go\<close>): encrypted key files; what was generated into a file signs and verifies.
  \<^item> \<open>Swap\<close>, \<open>Transactions\<close>, \<open>Codec\<close> (\<open>account/transaction.go\<close>): assets, pools, quotes, signed transactions of every kind, their JSON. Own
    transactions verify; encoded ones are decoded again.
  \<^item> \<open>Evm\<close> (\<open>account/evm_state.go\<close>): the state adapter of the virtual machine.
  \<^item> \<open>Ledger\<close> (\<open>account/ledger.go\<close> and the applying half of \<open>transaction.go\<close>), with \<open>LedgerFacts\<close>, \<open>Supply\<close> and \<open>PoolFacts\<close>: refused transactions
    change nothing, transfers are exact, the supply of each asset changes by exactly what is issued or burnt, nonces are spent once, tokens move
    only by their owners, the product of a pool's reserves never falls, lottery tickets.
  \<^item> \<open>Genesis\<close> (\<open>account/Genesis.go\<close>) and \<open>Blockchain\<close> (\<open>account/blockchain.go\<close>), with \<open>ChainFacts\<close>: which blocks \<open>AddBlock\<close> accepts and what ledger
    they give; the canonical chain is linked and the walk to the genesis block ends; the fork choice does not depend on the order of a map; rebuilt
    ledgers are well-formed; hardness stays in its bounds; the block of a winner is accepted. \<open>Convergence\<close>: trees with the same blocks agree.
  \<^item> \<open>Wire\<close> (\<open>message.go\<close>, the payloads of \<open>peer.go\<close>), \<open>PeerState\<close>, \<open>Mempool\<close>, \<open>Sync\<close>, \<open>Gossip\<close>, \<open>Mining\<close> (\<open>peer.go\<close>): frames, the state of a peer
    and its queries, the pool of pending transactions, synchronisation, connections and flooding, own transactions and mining. \<open>PeerSteps\<close>,
    \<open>SyncFacts\<close> and \<open>PeerMachine\<close> decompose every operation into elementary updates and collect the operations in the step relation \<open>peer_step\<close>;
    \<open>PeerInvariants\<close> has the reachable peers and a locale that turns an invariant of the updates into one of all reachable peers, interpreted for the
    pool, its verified transactions, nil connections, the cached ledger and the growing history. \<open>PruneFacts\<close>, \<open>SyncChain\<close>, \<open>MiningFacts\<close> carry the
    properties of pruning (it terminates and is exact), of synchronisation (all or nothing, linked chains, what the fork choice makes of them)
    and of one slot of mining.
  \<^item> \<open>Network\<close>: many peers and the messages on their way between them; a delivery hands one of them to the receiver's \<open>OnMessage\<close>, in any order.
    \<open>Epidemic\<close> is the contract of a protocol that passes on what it hears, a locale with an invariant, a measure of the work left and the facts that
    everybody is reached and that it ends; \<open>GossipFacts\<close> interprets it on the peers, and \<open>GossipProperties\<close> concludes that a submitted transaction
    reaches the pool of every peer and that flooding ends. \<open>ChainGrowth\<close> shows that whatever a peer does other than adopting a foreign chain only
    adds blocks that \<open>AddBlock\<close> accepts; with it \<open>Agreement\<close> concludes that peers with the same blocks have the same ledger, with two peers that took two competing
    blocks in opposite orders (\<open>ForkDemo\<close>) as the instance.
  \<^item> \<open>Bootstrap\<close> (\<open>bootstrap_manifest.go\<close>), \<open>Config\<close> (\<open>runtime_config.go\<close>), \<open>NodeState\<close> (\<open>runtime_state.go\<close>), \<open>Node\<close> (\<open>handin.go\<close>) with \<open>NodeFacts\<close>:
    the peers that are dialled, the configuration from the environment, the state file, the start and the main loop as the relation \<open>node_run\<close>. A
    restart resumes from the saved state and a failed save loses nothing; mined slots strictly increase; payouts are a month apart.
    \<open>Handin\<close> (\<open>handin.go\<close>) has \<open>main\<close> and the demonstration \<open>runHandin\<close> with its verdict; its ten peers all get the six valid transactions.
  \<^item> \<open>Explorer\<close> with \<open>ExplorerFacts\<close> (\<open>runtime_index.go\<close>): the tables are lookups in the rows of the canonical chain. \<open>Http\<close>, \<open>Rpc\<close>, \<open>OpsRead\<close>, \<open>Ops\<close> with
    \<open>OpsFacts\<close> (\<open>runtime_ops.go\<close>, \<open>runtime_dashboard.go\<close>): every endpoint and every JSON-RPC method, and \<open>serve\<close>, the effect of a request on the peer. Pages list
    every block once; without the operator's token a request can only submit signed transactions; every request leaves the peer
    reachable, so that the invariants above hold while the server is used. The contract of a server is the locale \<open>guarded_server\<close>.
    \<open>Catalogue\<close> has the catalogue of endpoints the server publishes, and \<open>CatalogueProperties\<close> that the server keeps its promises.

  \<open>Interfaces\<close> has the contracts that several components share (\<open>balance_store\<close>, interpreted on contract accounts, native balances and assets, and
  \<open>step_invariant\<close>). Helper lemmas of text, words and maps are in \<open>GoPrelude\<close>, \<open>GoText\<close> and \<open>GoJson\<close>.

  \<^bold>\<open>Loops.\<close> Loops are structural recursion over the list they visit, or have a measure: the page of the explorer (the height), pruning (the
  transactions not yet kept). The walk from a block to the genesis block is a \<open>partial_function\<close>, because parent links can form a cycle; that it returns is
  proved for every tree \<open>AddBlock\<close> builds. The JSON parser has fuel: one more than twice the length of the text, which is proved enough for every
  text that the printer produces; its nesting limit is Go's.

  \<^bold>\<open>Not modelled.\<close> Interleaving inside a method or an HTTP handler: each is one step, although a handler takes several locks one after the other. Text
  outside ASCII is left alone by case mapping and white space, where Go knows the letters of other scripts; round trips through JSON are proved for ASCII.
  The HTML page of the dashboard is a constant; the JSON text of the bootstrap manifest and its status has floating-point members and is kept as
  values. Percent-escapes of paths, query texts of redirections and \<open>CONNECT\<close> requests are left out. Log lines, the output channel, the printed
  throughput of the demonstration, and \<open>LedgerFromTransactions\<close> and \<open>peersFromConnectPayload\<close>, which only tests use, have no definition, nor do the methods
  of the state adapter that do nothing or return nil (\<open>Prepare\<close>, \<open>Finalise\<close>, preimages, witnesses, access events). The network of \<open>Network\<close> keeps
  its connections while transactions spread; what closing and reopening connections does to one peer is in \<open>peer_step\<close>.
\<close>

end
